(* ===== verification/Pfr_Prelude.thy ===== *)
theory Pfr_Prelude
  imports Main "HOL-Library.Word" "HOL-Library.State_Monad" "HOL-Library.Sublist"
begin

text \<open>
  The prelude of the development: the machine-integer types of the C code, the state-monad
  operations every handler is written with, the little-endian byte encoding of 32-bit values,
  and the relational frame calculus (locale \<open>frame_rel\<close>) by which "this handler only
  appends to the event queue" or "this handler leaves that field alone" is proved once per
  operation and then composed.
\<close>

unbundle bit_operations_syntax

type_synonym u8 = "8 word"
type_synonym u32 = "32 word"

named_theorems run_defs \<open>the equations that run a monadic operation\<close>
named_theorems dev_lemmas \<open>operations that only call the outside\<close>
named_theorems frame_lemmas \<open>operations that respect a frame relation\<close>

section \<open>State-passing operations\<close>

abbreviation ret :: "'a \<Rightarrow> ('s, 'a) state" where
  "ret \<equiv> State_Monad.return"

abbreviation run :: "('s, 'a) state \<Rightarrow> 's \<Rightarrow> 'a \<times> 's" where
  "run \<equiv> run_state"

abbreviation exec :: "('s, 'a) state \<Rightarrow> 's \<Rightarrow> 's" where
  "exec m s \<equiv> snd (run_state m s)"

abbreviation result :: "('s, 'a) state \<Rightarrow> 's \<Rightarrow> 'a" where
  "result m s \<equiv> fst (run_state m s)"

definition gets :: "('s \<Rightarrow> 'a) \<Rightarrow> ('s, 'a) state" where
  "gets f = State (\<lambda>s. (f s, s))"

definition modify :: "('s \<Rightarrow> 's) \<Rightarrow> ('s, unit) state" where
  "modify f = State (\<lambda>s. ((), f s))"

definition cwhen :: "bool \<Rightarrow> ('s, unit) state \<Rightarrow> ('s, unit) state" where
  "cwhen b m = (if b then m else ret ())"

text \<open>A C \<open>for\<close> loop over a list of values, for its effects only.\<close>

fun for_each :: "'a list \<Rightarrow> ('a \<Rightarrow> ('s, unit) state) \<Rightarrow> ('s, unit) state" where
  "for_each [] f = ret ()"
| "for_each (x # xs) f = State_Monad.bind (f x) (\<lambda>_. for_each xs f)"

text \<open>
  A C loop with \<open>break\<close> and \<open>return\<close>: the body answers how the round has ended. The fuel
  bounds the rounds; \<open>Continue\<close> as the final answer is "still running".
\<close>

datatype (plugins only: code size) ('a, 'r) flow = Continue 'a | Break 'a | Return 'r

fun c_while :: "nat \<Rightarrow> ('a \<Rightarrow> bool) \<Rightarrow> ('a \<Rightarrow> ('s, ('a, 'r) flow) state) \<Rightarrow> 'a \<Rightarrow> ('s, ('a, 'r) flow) state" where
  "c_while 0 cond body x = ret (Continue x)"
| "c_while (Suc n) cond body x =
     (if cond x then
        State_Monad.bind (body x) (\<lambda>f. case f of
            Continue y \<Rightarrow> c_while n cond body y
          | Break y \<Rightarrow> ret (Break y)
          | Return r \<Rightarrow> ret (Return r))
      else ret (Break x))"

lemma run_gets [simp]: "run (gets f) s = (f s, s)"
  by (simp add: gets_def)

lemma run_modify [simp]: "run (modify f) s = ((), f s)"
  by (simp add: modify_def)

lemma run_cwhen [simp]: "run (cwhen b m) s = (if b then run m s else ((), s))"
  by (simp add: cwhen_def)

lemma run_if [simp]: "run (if b then m else n) s = (if b then run m s else run n s)"
  by simp

lemma exec_bind: "exec (State_Monad.bind m f) s = exec (f (result m s)) (exec m s)"
  by (simp add: case_prod_beta)

lemma result_bind: "result (State_Monad.bind m f) s = result (f (result m s)) (exec m s)"
  by (simp add: case_prod_beta)

lemma run_let [simp]: "run (Let x f) s = run (f x) s"
  by (simp add: Let_def)

section \<open>Frame relations\<close>

text \<open>
  A frame relation says what an operation may do to the state between its start and its end.
  It is reflexive and transitive, so it holds of a sequence of operations when it holds of each
  of them. \<open>state_io_rel R m\<close> is the library's "\<open>m\<close> relates its start and end state by
  \<open>R\<close>".
\<close>

locale frame_rel =
  fixes R :: "'s \<Rightarrow> 's \<Rightarrow> bool"
  assumes rel_refl: "R s s"
    and rel_trans: "R s t \<Longrightarrow> R t u \<Longrightarrow> R s u"
begin

lemma keeps_return: "state_io_rel R (ret x)"
  by (simp add: state_io_rel_def rel_refl)

lemma keeps_bind:
  assumes "state_io_rel R m" and "\<And>x. state_io_rel R (f x)"
  shows "state_io_rel R (State_Monad.bind m f)"
  using assms rel_trans by (simp add: state_io_rel_def case_prod_beta) blast

lemma keeps_gets: "state_io_rel R (gets f)"
  by (simp add: state_io_rel_def rel_refl)

lemma keeps_modify: "(\<And>s. R s (f s)) \<Longrightarrow> state_io_rel R (modify f)"
  by (simp add: state_io_rel_def)

lemma keeps_cwhen: "(b \<Longrightarrow> state_io_rel R m) \<Longrightarrow> state_io_rel R (cwhen b m)"
  by (simp add: cwhen_def keeps_return)

lemma keeps_if:
  "(b \<Longrightarrow> state_io_rel R m) \<Longrightarrow> (\<not> b \<Longrightarrow> state_io_rel R n) \<Longrightarrow>
    state_io_rel R (if b then m else n)"
  by simp

lemma keeps_prod:
  "(\<And>a b. state_io_rel R (f a b)) \<Longrightarrow> state_io_rel R (case p of (a, b) \<Rightarrow> f a b)"
  by (simp split: prod.split)

lemma keeps_let: "(\<And>x. state_io_rel R (f x)) \<Longrightarrow> state_io_rel R (let x = v in f x)"
  by (simp add: Let_def)

lemma keeps_option:
  "state_io_rel R m \<Longrightarrow> (\<And>x. state_io_rel R (f x)) \<Longrightarrow>
    state_io_rel R (case o' of None \<Rightarrow> m | Some x \<Rightarrow> f x)"
  by (simp split: option.split)

lemma keeps_for_each: "(\<And>x. state_io_rel R (f x)) \<Longrightarrow> state_io_rel R (for_each xs f)"
  by (induction xs) (auto intro: keeps_return keeps_bind)

lemma keeps_flow:
  "(\<And>y. state_io_rel R (f y)) \<Longrightarrow> (\<And>y. state_io_rel R (g y)) \<Longrightarrow> (\<And>r. state_io_rel R (h r)) \<Longrightarrow>
    state_io_rel R (case x of Continue y \<Rightarrow> f y | Break y \<Rightarrow> g y | Return r \<Rightarrow> h r)"
  by (simp split: flow.split)

lemma keeps_c_while: "(\<And>x. state_io_rel R (body x)) \<Longrightarrow> state_io_rel R (c_while n cond body x)"
  by (induction n arbitrary: x) (simp_all add: keeps_return keeps_bind keeps_flow)

lemma keepsD: "state_io_rel R m \<Longrightarrow> R s (exec m s)"
  by (simp add: state_io_rel_def)

lemmas keeps_intros = keeps_return keeps_bind keeps_gets keeps_modify keeps_cwhen keeps_if
  keeps_prod keeps_let keeps_option keeps_for_each keeps_flow keeps_c_while

end

lemma frame_mono: "state_io_rel R m \<Longrightarrow> (\<And>s t. R s t \<Longrightarrow> Q s t) \<Longrightarrow> state_io_rel Q m"
  by (auto simp: state_io_rel_def)

section \<open>Loops that end\<close>

text \<open>A loop whose rounds decrease a measure under an invariant ends within its fuel.\<close>

fun ended :: "('a, 'r) flow \<Rightarrow> bool" where
  "ended (Continue _) = False"
| "ended (Break _) = True"
| "ended (Return _) = True"

lemma c_while_ends:
  assumes "\<And>x y s. I x \<Longrightarrow> cond x \<Longrightarrow> result (body x) s = Continue y \<Longrightarrow> I y \<and> \<mu> y < \<mu> x"
    and "I x" and "\<mu> x < n"
  shows "ended (result (c_while n cond body x) s)"
  using assms(2,3)
proof (induction n arbitrary: x s)
  case (Suc n)
  show ?case
  proof (cases "cond x")
    case True
    show ?thesis
    proof (cases "result (body x) s")
      case (Continue y)
      then have "I y" "\<mu> y < n" using assms(1) [OF Suc.prems(1) True Continue] Suc.prems(2) by auto
      then show ?thesis
        using Suc.IH [of y "exec (body x) s"] True Continue by (simp add: case_prod_beta)
    qed (use True in \<open>simp_all add: case_prod_beta\<close>)
  qed simp
qed simp

text \<open>The same with an invariant of the state, and a loop that does not end.\<close>

lemma c_while_ends_state:
  assumes "\<And>x y s. I x s \<Longrightarrow> cond x \<Longrightarrow> result (body x) s = Continue y \<Longrightarrow> I y (exec (body x) s) \<and> \<mu> y < \<mu> x"
    and "I x s" and "\<mu> x < n"
  shows "ended (result (c_while n cond body x) s)"
  using assms(2,3)
proof (induction n arbitrary: x s)
  case (Suc n)
  show ?case
  proof (cases "cond x")
    case True
    show ?thesis
    proof (cases "result (body x) s")
      case (Continue y)
      then have "I y (exec (body x) s)" "\<mu> y < n" using assms(1) [OF Suc.prems(1) True Continue] Suc.prems(2) by auto
      then show ?thesis
        using Suc.IH [of y "exec (body x) s"] True Continue by (simp add: case_prod_beta)
    qed (use True in \<open>simp_all add: case_prod_beta\<close>)
  qed simp
qed simp

lemma c_while_runs_on:
  assumes "\<And>x s. I x s \<Longrightarrow> cond x \<and> (\<exists>y. result (body x) s = Continue y \<and> I y (exec (body x) s))"
    and "I x s"
  shows "\<not> ended (result (c_while n cond body x) s)"
  using assms(2)
proof (induction n arbitrary: x s)
  case (Suc n)
  from assms(1) [OF Suc.prems] obtain y where
    "cond x" "result (body x) s = Continue y" "I y (exec (body x) s)" by blast
  then show ?case using Suc.IH [of y "exec (body x) s"] by (simp add: case_prod_beta)
qed simp

section \<open>Bytes\<close>

text \<open>The \<open>i\<close>-th byte of a 32-bit value, and its little-endian layout in memory.\<close>

definition u32_bytes :: "u32 \<Rightarrow> u8 list" where
  "u32_bytes w = [ucast w, ucast (drop_bit 8 w), ucast (drop_bit 16 w), ucast (drop_bit 24 w)]"

definition u32_of_bytes :: "u8 list \<Rightarrow> u32" where
  "u32_of_bytes bs = (case bs of
      a # b # c # d # _ \<Rightarrow>
        ucast a OR push_bit 8 (ucast b) OR push_bit 16 (ucast c) OR push_bit 24 (ucast d)
    | _ \<Rightarrow> 0)"

lemma length_u32_bytes [simp]: "length (u32_bytes w) = 4"
  by (simp add: u32_bytes_def)

lemma u32_of_u32_bytes [simp]: "u32_of_bytes (u32_bytes w @ rest) = w"
proof (rule bit_word_eqI)
  fix n assume n: "n < LENGTH(32)"
  then consider "n < 8" | "8 \<le> n" "n < 16" | "16 \<le> n" "n < 24" | "24 \<le> n" "n < 32"
    by fastforce
  then show "bit (u32_of_bytes (u32_bytes w @ rest)) n = bit w n"
    by cases (simp_all add: u32_of_bytes_def u32_bytes_def bit_simps less_diff_conv2)
qed

text \<open>
  What a buffer of \<open>n\<close> bytes holds after a call that filled it with \<open>bs\<close>: C's buffers have
  their full length whatever the callee wrote.
\<close>

definition fit :: "nat \<Rightarrow> u8 list \<Rightarrow> u8 list" where
  "fit n bs = take n (bs @ replicate n 0)"

lemma length_fit [simp]: "length (fit n bs) = n"
  by (simp add: fit_def)

lemma fit_id [simp]: "length bs = n \<Longrightarrow> fit n bs = bs"
  by (simp add: fit_def)

definition overwrite :: "'a list \<Rightarrow> nat \<Rightarrow> 'a list \<Rightarrow> 'a list" where
  "overwrite buf off bs = take off buf @ bs @ drop (off + length bs) buf"

lemma length_overwrite [simp]:
  "off + length bs \<le> length buf \<Longrightarrow> length (overwrite buf off bs) = length buf"
  by (simp add: overwrite_def)

text \<open>\<open>memcpy\<close> of \<open>bs\<close> at \<open>off\<close>: reading the same slice gives \<open>bs\<close>, any disjoint slice is
  unchanged.\<close>

lemma overwrite_same:
  "off + length bs \<le> length buf \<Longrightarrow> take (length bs) (drop off (overwrite buf off bs)) = bs"
  by (simp add: overwrite_def)

lemma overwrite_other:
  assumes "off + length bs \<le> length buf"
    and "o' + n \<le> off \<or> off + length bs \<le> o'"
  shows "take n (drop o' (overwrite buf off bs)) = take n (drop o' buf)"
  using assms(2)
proof
  assume below: "o' + n \<le> off"
  have "take n (drop o' (overwrite buf off bs)) = take n (drop o' (take off buf))"
    using below assms(1) by (simp add: overwrite_def drop_append)
  also have "\<dots> = take n (drop o' buf)"
    using below by (simp add: drop_take min_def)
  finally show ?thesis .
next
  assume above: "off + length bs \<le> o'"
  have "drop o' (overwrite buf off bs) = drop o' buf"
    using above assms(1) by (simp add: overwrite_def drop_append)
  then show ?thesis by simp
qed

end
