(* ===== verification/Pfr_World.thy ===== *)
theory Pfr_World
  imports Pfr_Prelude
begin

text \<open>
  The state of the firmware and its boundary. The data of
  \<open>AspeedStateMachine.h\<close>, \<open>common_smc.h\<close>, \<open>SmbusMailBoxCom.h\<close> and
  \<open>intel_pfr_definitions.h\<close> become datatypes, records and 8-bit constants; the global
  variables of the modelled C files are the fields of the record \<open>world\<close>.

  Everything outside the repository (the mailbox and flash drivers, GPIO, timers, allocation)
  is reached by \<open>ext\<close>: the call is recorded in the trace and its reply is given by
  \<open>reply_of\<close>, an arbitrary function of the trace so far.
\<close>

section \<open>Enumerations\<close>

datatype (plugins only: code size) pfr_state =
    BOOT | INIT | UNPROVISIONED | ROT_RECOVERY | TMIN1 | TZERO | FIRMWARE_VERIFY
  | FIRMWARE_RECOVERY | FIRMWARE_UPDATE | RUNTIME | SYSTEM_LOCKDOWN | SYSTEM_REBOOT
  | SEAMLESS_UPDATE | SEAMLESS_VERIFY

datatype (plugins only: code size) pfr_event =
    START_STATE_MACHINE | INIT_DONE | INIT_ROT_SECONDARY_BOOTED | VERIFY_UNPROVISIONED
  | VERIFY_FAILED | VERIFY_DONE | RECOVERY_FAILED | RECOVERY_DONE | RESET_DETECTED
  | UPDATE_REQUESTED | WDT_CHECKPOINT | WDT_TIMEOUT | UPDATE_DONE | UPDATE_FAILED
  | PROVISION_CMD | UPDATE_INTENT_2_REQUESTED | SEAMLESS_UPDATE_DONE
  | SEAMLESS_UPDATE_FAILED | SEAMLESS_VERIFY_DONE | SEAMLESS_VERIFY_FAILED | SEAL_FIRMWARE
  | ATTESTATION_FAILED | HANDSHAKE_FAILED | BMC_RESET_COMM_REQUESTED

datatype operations =
    NONE | VERIFY_ACTIVE | VERIFY_BACKUP | RECOVER_ACTIVE | RECOVER_BACKUP_IMAGE
  | UPDATE_BACKUP | SEAMLESS_UPDATE_OP | RELEASE_HOLD | I2C_HANDLE

datatype hrot_event = BMC_EVENT | PCH_EVENT | AFM_EVENT | CPLD_EVENT | AFM_EVENT2 | AFM_EVENT3

datatype pfr_timer = BMC_TIMER | ACM_TIMER | BIOS_TIMER | ME_TIMER

text \<open>\<open>Verification_Status\<close>: the values functions return as \<open>int\<close>.\<close>

abbreviation "Success \<equiv> 0 :: int"
abbreviation "Failure \<equiv> 1 :: int"
abbreviation "VerifyRecovery \<equiv> 3 :: int"
abbreviation "VerifyActive \<equiv> 4 :: int"
abbreviation "UnSupported \<equiv> 5 :: int"
abbreviation "Lockdown \<equiv> 7 :: int"

text \<open>\<open>enum _hrot_event\<close> as the byte that event data carry.\<close>

fun hrot_code :: "hrot_event \<Rightarrow> u8" where
  "hrot_code BMC_EVENT = 1"
| "hrot_code PCH_EVENT = 2"
| "hrot_code AFM_EVENT = 3"
| "hrot_code CPLD_EVENT = 4"
| "hrot_code AFM_EVENT2 = 5"
| "hrot_code AFM_EVENT3 = 6"

section \<open>Mailbox registers and bit masks\<close>

abbreviation "CpldIdentifier \<equiv> 0x00 :: u8"
abbreviation "CpldReleaseVersion \<equiv> 0x01 :: u8"
abbreviation "CpldRotSvn \<equiv> 0x02 :: u8"
abbreviation "PlatformState \<equiv> 0x03 :: u8"
abbreviation "RecoveryCount \<equiv> 0x04 :: u8"
abbreviation "LastRecoveryReason \<equiv> 0x05 :: u8"
abbreviation "PanicEventCount \<equiv> 0x06 :: u8"
abbreviation "LastPanicReason \<equiv> 0x07 :: u8"
abbreviation "MajorErrorCode \<equiv> 0x08 :: u8"
abbreviation "MinorErrorCode \<equiv> 0x09 :: u8"
abbreviation "UfmStatusValue \<equiv> 0x0a :: u8"
abbreviation "UfmCommand \<equiv> 0x0b :: u8"
abbreviation "UfmCmdTriggerValue \<equiv> 0x0c :: u8"
abbreviation "UfmWriteFIFO \<equiv> 0x0d :: u8"
abbreviation "UfmReadFIFO \<equiv> 0x0e :: u8"
abbreviation "AcmCheckpoint \<equiv> 0x10 :: u8"
abbreviation "BiosCheckpoint \<equiv> 0x11 :: u8"
abbreviation "PchUpdateIntent \<equiv> 0x12 :: u8"
abbreviation "BmcUpdateIntent \<equiv> 0x13 :: u8"
abbreviation "PchPfmActiveSvn \<equiv> 0x14 :: u8"
abbreviation "PchPfmActiveMajorVersion \<equiv> 0x15 :: u8"
abbreviation "PchPfmActiveMinorVersion \<equiv> 0x16 :: u8"
abbreviation "BmcPfmActiveSvn \<equiv> 0x17 :: u8"
abbreviation "BmcPfmActiveMajorVersion \<equiv> 0x18 :: u8"
abbreviation "BmcPfmActiveMinorVersion \<equiv> 0x19 :: u8"
abbreviation "PchPfmRecoverSvn \<equiv> 0x1a :: u8"
abbreviation "PchPfmRecoverMajorVersion \<equiv> 0x1b :: u8"
abbreviation "PchPfmRecoverMinorVersion \<equiv> 0x1c :: u8"
abbreviation "BmcPfmRecoverSvn \<equiv> 0x1d :: u8"
abbreviation "BmcPfmRecoverMajorVersion \<equiv> 0x1e :: u8"
abbreviation "BmcPfmRecoverMinorVersion \<equiv> 0x1f :: u8"
abbreviation "CpldFPGARoTHash \<equiv> 0x20 :: u8"
abbreviation "BmcCheckpoint \<equiv> 0x60 :: u8"
abbreviation "PchUpdateIntent2 \<equiv> 0x61 :: u8"
abbreviation "BmcUpdateIntent2 \<equiv> 0x62 :: u8"
abbreviation "UfmSmbusOwnership \<equiv> 0x63 :: u8"
abbreviation "AfmActiveSvn \<equiv> 0x74 :: u8"
abbreviation "AfmActiveMajorVersion \<equiv> 0x75 :: u8"
abbreviation "AfmActiveMinorVersion \<equiv> 0x76 :: u8"
abbreviation "AfmRecoverSvn \<equiv> 0x77 :: u8"
abbreviation "AfmRecoverMajorVersion \<equiv> 0x78 :: u8"
abbreviation "AfmRecoverMinorVersion \<equiv> 0x79 :: u8"
abbreviation "ProvisionStatus2 \<equiv> 0x7a :: u8"
abbreviation "PfrActivityInfo1 \<equiv> 0x7e :: u8"
abbreviation "PfrActivityInfo2 \<equiv> 0x7f :: u8"
abbreviation "BmcResetCommunication \<equiv> 0xc0 :: u8"

text \<open>\<open>EXECUTION_CHECKPOINT\<close> and \<open>ACM_BIOS_CHECKPOINT_VALUE\<close>.\<close>

abbreviation "ExecutionBlockStrat \<equiv> 1 :: u8"
abbreviation "NextExeBlockAuthenticationFail \<equiv> 3 :: u8"
abbreviation "PausingExecutionBlock \<equiv> 7 :: u8"
abbreviation "ResumedExecutionBlock \<equiv> 8 :: u8"
abbreviation "CompletingExecutionBlock \<equiv> 9 :: u8"
abbreviation "ReadyToBootOS \<equiv> 0x80 :: u8"
abbreviation "EXECUTION_BLOCK_STARTED \<equiv> 1 :: u8"
abbreviation "AUTHENTICATION_FAILED \<equiv> 3 :: u8"
abbreviation "EXECUTION_BLOCK_PAUSED \<equiv> 7 :: u8"
abbreviation "EXECUTION_BLOCK_RESUMED \<equiv> 8 :: u8"
abbreviation "EXECUTION_BLOCK_COMPLETED \<equiv> 9 :: u8"

text \<open>\<open>UPDATE_INTENT\<close>, \<open>UPDATE_INTENT_2\<close> and \<open>EVT_DATA_2\<close>.\<close>

abbreviation "PchActiveUpdate \<equiv> 0x01 :: u8"
abbreviation "PchRecoveryUpdate \<equiv> 0x02 :: u8"
abbreviation "PchActiveAndRecoveryUpdate \<equiv> 0x03 :: u8"
abbreviation "HROTActiveUpdate \<equiv> 0x04 :: u8"
abbreviation "BmcActiveUpdate \<equiv> 0x08 :: u8"
abbreviation "BmcRecoveryUpdate \<equiv> 0x10 :: u8"
abbreviation "HROTRecoveryUpdate \<equiv> 0x20 :: u8"
abbreviation "DymanicUpdate \<equiv> 0x40 :: u8"
abbreviation "UPDATE_DYNAMIC \<equiv> 0x40 :: u8"
abbreviation "UpdateAtReset \<equiv> 0x80 :: u8"
abbreviation "PchActiveRecoveryDynamicUpdateAtReset \<equiv> 0xc3 :: u8"
abbreviation "HROTActiveAndRecoveryUpdate \<equiv> 0x24 :: u8"
abbreviation "BmcActiveAndRecoveryUpdate \<equiv> 0x18 :: u8"
abbreviation "PchBmcHROTActiveAndRecoveryUpdate \<equiv> 0x3f :: u8"
abbreviation "ExceptBmcActiveUpdate \<equiv> 0x37 :: u8"
abbreviation "ExceptPchActiveUpdate \<equiv> 0x3E :: u8"
abbreviation "SeamlessUpdate \<equiv> 0x01 :: u8"
abbreviation "AfmActiveUpdate \<equiv> 0x02 :: u8"
abbreviation "AfmRecoveryUpdate \<equiv> 0x04 :: u8"
abbreviation "AfmActiveAndRecoveryUpdate \<equiv> 0x06 :: u8"
abbreviation "CPLDUpdate \<equiv> 0x10 :: u8"
abbreviation "SeamlessUpdateAck \<equiv> 0x80 :: u8"
abbreviation "BmcOnlyReset \<equiv> 0x01 :: u8"
abbreviation "PchOnlyReset \<equiv> 0x02 :: u8"
abbreviation "BootDoneRecovery \<equiv> 0x04 :: u8"

text \<open>Platform states, recovery and panic reasons, error codes.\<close>

abbreviation "CPLD_NIOS_II_PROCESSOR_WAITING_TO_START \<equiv> 0x01 :: u8"
abbreviation "CPLD_NIOS_II_PROCESSOR_STARTED \<equiv> 0x02 :: u8"
abbreviation "ENTER_T_MINUS_1 \<equiv> 0x03 :: u8"
abbreviation "BMC_FLASH_AUTH \<equiv> 0x06 :: u8"
abbreviation "PCH_FLASH_AUTH \<equiv> 0x07 :: u8"
abbreviation "LOCKDOWN_ON_AUTH_FAIL \<equiv> 0x08 :: u8"
abbreviation "ENTER_T0 \<equiv> 0x09 :: u8"
abbreviation "T0_BMC_BOOTED \<equiv> 0x0a :: u8"
abbreviation "T0_ME_BOOTED \<equiv> 0x0b :: u8"
abbreviation "T0_ACM_BOOTED \<equiv> 0x0c :: u8"
abbreviation "T0_BIOS_BOOTED \<equiv> 0x0d :: u8"
abbreviation "T0_BOOT_COMPLETED \<equiv> 0x0e :: u8"
abbreviation "PCH_FW_UPDATE \<equiv> 0x10 :: u8"
abbreviation "BMC_FW_UPDATE \<equiv> 0x11 :: u8"
abbreviation "CPLD_FW_UPDATE \<equiv> 0x12 :: u8"
abbreviation "PCH_SEAMLESS_UPDATE \<equiv> 0x14 :: u8"
abbreviation "PCH_SEAMLESS_UPDATE_DONE \<equiv> 0x15 :: u8"
abbreviation "T_MINUS_1_FW_RECOVERY \<equiv> 0x40 :: u8"
abbreviation "WDT_TIMEOUT_RECOVERY \<equiv> 0x42 :: u8"
abbreviation "LOCKDOWN_DUE_TO_PIT_L1 \<equiv> 0x44 :: u8"
abbreviation "PIT_L2_FW_SEALED \<equiv> 0x45 :: u8"
abbreviation "LOCKDOWN_ON_PIT_L2_PCH_HASH_MISMATCH \<equiv> 0x46 :: u8"
abbreviation "LOCKDOWN_ON_PIT_L2_BMC_HASH_MISMATCH \<equiv> 0x47 :: u8"
abbreviation "PCH_ACTIVE_FAIL \<equiv> 1 :: u8"
abbreviation "PCH_RECOVERY_FAIL \<equiv> 2 :: u8"
abbreviation "ME_LAUNCH_FAIL \<equiv> 3 :: u8"
abbreviation "ACM_LAUNCH_FAIL \<equiv> 4 :: u8"
abbreviation "IBB_LAUNCH_FAIL \<equiv> 5 :: u8"
abbreviation "OBB_LAUNCH_FAIL \<equiv> 6 :: u8"
abbreviation "BMC_ACTIVE_FAIL \<equiv> 7 :: u8"
abbreviation "BMC_RECOVERY_FAIL \<equiv> 8 :: u8"
abbreviation "BMC_LAUNCH_FAIL \<equiv> 9 :: u8"
abbreviation "PCH_UPDATE_INTENT \<equiv> 1 :: u8"
abbreviation "BMC_UPDATE_INTENT \<equiv> 2 :: u8"
abbreviation "BMC_RESET_DETECT \<equiv> 3 :: u8"
abbreviation "BMC_WDT_EXPIRE \<equiv> 4 :: u8"
abbreviation "ME_WDT_EXPIRE \<equiv> 5 :: u8"
abbreviation "ACM_WDT_EXPIRE \<equiv> 6 :: u8"
abbreviation "IBB_WDT_EXPIRE \<equiv> 7 :: u8"
abbreviation "OBB_WDT_EXPIRE \<equiv> 8 :: u8"
abbreviation "ACM_IBB_0BB_AUTH_FAIL \<equiv> 9 :: u8"
abbreviation "BMC_AUTH_FAIL \<equiv> 1 :: u8"
abbreviation "PCH_AUTH_FAIL \<equiv> 2 :: u8"
abbreviation "FW_UPDATE_FAIL \<equiv> 3 :: u8"
abbreviation "ACTIVE_AUTH_FAIL \<equiv> 1 :: u8"
abbreviation "RECOVERY_AUTH_FAIL \<equiv> 2 :: u8"
abbreviation "ACTIVE_RECOVERY_STAGING_AUTH_FAIL \<equiv> 4 :: u8"
abbreviation "AFM_ACTIVE_AUTH_FAIL \<equiv> 5 :: u8"
abbreviation "AFM_RECOVERY_AUTH_FAIL \<equiv> 6 :: u8"
abbreviation "AFM_ACTIVE_RECOVERY_STAGING_AUTH_FAIL \<equiv> 8 :: u8"
abbreviation "INVALID_UPD_INTENT \<equiv> 1 :: u8"
abbreviation "UPD_CAPSULE_INVALID_SVN \<equiv> 2 :: u8"
abbreviation "UPD_CAPSULE_AUTH_FAIL \<equiv> 3 :: u8"
abbreviation "UPD_EXCEED_MAX_FAIL_ATTEMPT \<equiv> 4 :: u8"
abbreviation "UPD_NOT_ALLOWED \<equiv> 5 :: u8"
abbreviation "UPD_CAPSULE_TO_RECOVERY_AUTH_FAIL \<equiv> 6 :: u8"
abbreviation "SEAMLESS_UNKNOWN_FV_TYPE \<equiv> 0x10 :: u8"
abbreviation "SEAMLESS_AUTH_FAILED_AFTER_UPDATE \<equiv> 0x11 :: u8"

text \<open>UFM provisioning status, commands and triggers.\<close>

abbreviation "COMMAND_BUSY \<equiv> 0x01 :: u8"
abbreviation "COMMAND_DONE \<equiv> 0x02 :: u8"
abbreviation "COMMAND_ERROR \<equiv> 0x04 :: u8"
abbreviation "UFM_LOCKED \<equiv> 0x10 :: u8"
abbreviation "UFM_PROVISIONED \<equiv> 0x20 :: u8"
abbreviation "PIT_LEVEL_1_ENFORCED \<equiv> 0x40 :: u8"
abbreviation "PIT_L2_COMPLETE_SUCCESSFUL \<equiv> 0x80 :: u8"
abbreviation "UFM_CLEAR_ON_NEW_COMMAND \<equiv> 0x07 :: u8"
abbreviation "ERASE_CURRENT \<equiv> 0x00 :: u8"
abbreviation "PROVISION_ROOT_KEY \<equiv> 0x01 :: u8"
abbreviation "PROVISION_PIT_KEY \<equiv> 0x02 :: u8"
abbreviation "PROVISION_PCH_OFFSET \<equiv> 0x05 :: u8"
abbreviation "PROVISION_BMC_OFFSET \<equiv> 0x06 :: u8"
abbreviation "LOCK_UFM \<equiv> 0x07 :: u8"
abbreviation "READ_ROOT_KEY \<equiv> 0x08 :: u8"
abbreviation "PROVISION_AFM_OFFSET \<equiv> 0x09 :: u8"
abbreviation "READ_AFM_OFFSET \<equiv> 0x0a :: u8"
abbreviation "READ_PCH_OFFSET \<equiv> 0x0c :: u8"
abbreviation "READ_BMC_OFFSET \<equiv> 0x0d :: u8"
abbreviation "ENABLE_PIT_LEVEL_1_PROTECTION \<equiv> 0x10 :: u8"
abbreviation "ENABLE_PIT_LEVEL_2_PROTECTION \<equiv> 0x11 :: u8"
abbreviation "ENABLE_DEVICE_ATTESTATION_REQUESTS \<equiv> 0x12 :: u8"
abbreviation "DISABLE_DEVICE_ATTESTATION_REQUESTS \<equiv> 0x14 :: u8"
abbreviation "EXECUTE_UFM_COMMAND \<equiv> 0x01 :: u8"
abbreviation "FLUSH_WRITE_FIFO \<equiv> 0x02 :: u8"
abbreviation "FLUSH_READ_FIFO \<equiv> 0x04 :: u8"
abbreviation "UFM_STATUS_LOCK_BIT_MASK \<equiv> 0x1 :: u32"
abbreviation "UFM_STATUS_PROVISIONED_ROOT_KEY_HASH_BIT_MASK \<equiv> 0x2 :: u32"
abbreviation "UFM_STATUS_PROVISIONED_PCH_OFFSETS_BIT_MASK \<equiv> 0x4 :: u32"
abbreviation "UFM_STATUS_PROVISIONED_BMC_OFFSETS_BIT_MASK \<equiv> 0x8 :: u32"
abbreviation "UFM_STATUS_PROVISIONED_PIT_ID_BIT_MASK \<equiv> 0x10 :: u32"
abbreviation "UFM_STATUS_PIT_L1_ENABLE_BIT_MASK \<equiv> 0x20 :: u32"
abbreviation "UFM_STATUS_PIT_L2_ENABLE_BIT_MASK \<equiv> 0x40 :: u32"
abbreviation "UFM_STATUS_PIT_HASH_STORED_BIT_MASK \<equiv> 0x80 :: u32"
abbreviation "UFM_STATUS_PIT_L2_PASSED_BIT_MASK \<equiv> 0x100 :: u32"
abbreviation "UFM_STATUS_PROVISIONED_AFM_OFFSETS_BIT_MASK \<equiv> 0x200 :: u32"
abbreviation "UFM_STATUS_PROVISIONED_BIT_MASK \<equiv> 0xe :: u32"

text \<open>Watchdog progress bits and activity bits.\<close>

abbreviation "WDT_BMC_BOOT_DONE_MASK \<equiv> 0x01 :: u8"
abbreviation "WDT_ME_BOOT_DONE_MASK \<equiv> 0x02 :: u8"
abbreviation "WDT_ACM_BOOT_DONE_MASK \<equiv> 0x04 :: u8"
abbreviation "WDT_IBB_BOOT_DONE_MASK \<equiv> 0x08 :: u8"
abbreviation "WDT_OBB_BOOT_DONE_MASK \<equiv> 0x10 :: u8"
abbreviation "PFR_ACT1_I3C_MUX_TAKEOVER \<equiv> 0x08 :: u8"
abbreviation "PFR_ACT2_BMC_BOOT_DONE \<equiv> 0x01 :: u8"
abbreviation "PFR_ACT2_IBB_BOOT_DONE \<equiv> 0x02 :: u8"
abbreviation "PFR_ACT2_OBB_BOOT_DONE \<equiv> 0x04 :: u8"

text \<open>Flash devices, firmware types, UFM ids and offsets, update-status constants.\<close>

abbreviation "BMC_SPI \<equiv> 0 :: u8"
abbreviation "PCH_SPI \<equiv> 2 :: u8"
abbreviation "ROT_INTERNAL_ACTIVE \<equiv> 4 :: u8"
abbreviation "ROT_INTERNAL_RECOVERY \<equiv> 5 :: u8"
abbreviation "ROT_INTERNAL_STATE \<equiv> 6 :: u8"
abbreviation "ROT_INTERNAL_INTEL_STATE \<equiv> 7 :: u8"
abbreviation "ROT_INTERNAL_KEY \<equiv> 8 :: u8"
abbreviation "ROT_INTERNAL_AFM \<equiv> 10 :: u8"
abbreviation "ROT_EXT_AFM_ACT_1 \<equiv> 11 :: u8"
abbreviation "ROT_EXT_AFM_ACT_2 \<equiv> 12 :: u8"
abbreviation "ROT_EXT_AFM_RC_1 \<equiv> 13 :: u8"
abbreviation "ROT_EXT_AFM_RC_2 \<equiv> 14 :: u8"
abbreviation "ROT_SPI \<equiv> 4 :: u8"
abbreviation "ROT_EXT_SPI \<equiv> 5 :: u8"
abbreviation "BMC_TYPE \<equiv> 0 :: u32"
abbreviation "PCH_TYPE \<equiv> 2 :: u32"
abbreviation "ROT_TYPE \<equiv> 3 :: u32"
abbreviation "AFM_TYPE \<equiv> 4 :: u32"
abbreviation "MAX_SUPPORTED_FW_TYPE \<equiv> 8 :: u32"
abbreviation "NO_IMAGE \<equiv> 0xFFFFFFFF :: u32"
abbreviation "PRIMARY_FLASH_REGION \<equiv> 1 :: u32"
abbreviation "SECONDARY_FLASH_REGION \<equiv> 2 :: u32"
abbreviation "PROVISION_UFM \<equiv> 4 :: u32"
abbreviation "UPDATE_STATUS_UFM \<equiv> 3 :: u32"
abbreviation "PROVISION_UFM_SIZE \<equiv> 512 :: u32"
abbreviation "PAGE_SIZE \<equiv> 0x1000 :: u32"
abbreviation "BLOCK_SIZE \<equiv> 0x10000 :: u32"
abbreviation "SECTOR_SIZE \<equiv> 0x1000 :: u32"
abbreviation "UPDATE_STATUS_ADDRESS \<equiv> 0x00 :: u32"
abbreviation "UPDATE_STATUS_ROT_HASH_ADDR \<equiv> 0x40 :: u32"
abbreviation "UPDATE_STATUS_BMC_HASH_ADDR \<equiv> 0x80 :: u32"
abbreviation "UPDATE_STATUS_PCH_HASH_ADDR \<equiv> 0xC0 :: u32"
abbreviation "UPDATE_STATUS_AFM_HASH_ADDR \<equiv> 0x100 :: u32"
abbreviation "UFM_STATUS \<equiv> 0x000 :: u32"
abbreviation "ROOT_KEY_HASH \<equiv> 0x004 :: u32"
abbreviation "PCH_ACTIVE_PFM_OFFSET \<equiv> 0x034 :: u32"
abbreviation "PCH_RECOVERY_REGION_OFFSET \<equiv> 0x038 :: u32"
abbreviation "PCH_STAGING_REGION_OFFSET \<equiv> 0x03c :: u32"
abbreviation "BMC_ACTIVE_PFM_OFFSET \<equiv> 0x040 :: u32"
abbreviation "BMC_RECOVERY_REGION_OFFSET \<equiv> 0x044 :: u32"
abbreviation "BMC_STAGING_REGION_OFFSET \<equiv> 0x048 :: u32"
abbreviation "PIT_PASSWORD \<equiv> 0x04c :: u32"
abbreviation "PIT_PCH_FW_HASH \<equiv> 0x054 :: u32"
abbreviation "PIT_BMC_FW_HASH \<equiv> 0x094 :: u32"
abbreviation "SVN_POLICY_FOR_CPLD_UPDATE \<equiv> 0x0d4 :: u32"
abbreviation "SVN_POLICY_FOR_PCH_FW_UPDATE \<equiv> 0x0dc :: u32"
abbreviation "SVN_POLICY_FOR_BMC_FW_UPDATE \<equiv> 0x0e4 :: u32"
abbreviation "SVN_POLICY_FOR_AFM \<equiv> 0x14c :: u32"
abbreviation "KEY_CANCELLATION_POLICY_FOR_SIGNING_PCH_PFM \<equiv> 0x0ec :: u32"
abbreviation "KEY_CANCELLATION_POLICY_FOR_SIGNING_PCH_UPDATE_CAPSULE \<equiv> 0x0fc :: u32"
abbreviation "KEY_CANCELLATION_POLICY_FOR_SIGNING_BMC_PFM \<equiv> 0x10c :: u32"
abbreviation "KEY_CANCELLATION_POLICY_FOR_SIGNING_BMC_UPDATE_CAPSULE \<equiv> 0x11c :: u32"
abbreviation "KEY_CANCELLATION_POLICY_FOR_SIGNING_CPLD_UPDATE_CAPSULE \<equiv> 0x12c :: u32"
abbreviation "KEY_CANCELLATION_POLICY_FOR_AFM \<equiv> 0x13c :: u32"
abbreviation "AFM_STAGING_REGION_OFFSET \<equiv> 0x154 :: u32"
abbreviation "BMC_INTENT_UPDATE_AT_RESET \<equiv> 1 :: u8"
abbreviation "BMC_INTENT_RECOVERY_PENDING \<equiv> 2 :: u8"
abbreviation "PCH_INTENT_UPDATE_AT_RESET \<equiv> 3 :: u8"
abbreviation "PCH_INTENT_RECOVERY_PENDING \<equiv> 4 :: u8"
abbreviation "BMC_INTENT2_AFM_RECOVERY_PENDING \<equiv> 5 :: u8"
abbreviation "RECOVERY_PENDING_REQUEST_HANDLED \<equiv> 6 :: u8"
abbreviation "BMC_INTENT2_AFM_SVN_UPDATE \<equiv> 7 :: u8"
abbreviation "SVN_MAX \<equiv> 64 :: nat"
abbreviation "AFM_ACTIVE_PENDING_UPDATE \<equiv> 0x1 :: u8"
abbreviation "AFM_RECOVERY_PENDING_UPDATE \<equiv> 0x2 :: u8"
abbreviation "AFM_PENDING_UPDATE_STATE \<equiv> 0x3 :: u8"
abbreviation "PFM_SIG_BLOCK_SIZE \<equiv> 1024 :: u32"
abbreviation "LMS_PFM_SIG_BLOCK_SIZE \<equiv> 5120 :: u32"

abbreviation "SHA256_DIGEST_LENGTH \<equiv> 32 :: u32"
abbreviation "SHA384_DIGEST_LENGTH \<equiv> 48 :: u32"
abbreviation "AFM_BODY_SIZE \<equiv> 0x2000 :: u32"
abbreviation "CPU0_AFM_BODY_OFFSET \<equiv> 0x0 :: u32"
abbreviation "BMC_AFM_BODY_OFFSET \<equiv> 0x4000 :: u32"
abbreviation "DECOMPRESSION_STATIC_REGIONS_MASK \<equiv> 1 :: u8"
abbreviation "DECOMPRESSION_DYNAMIC_REGIONS_MASK \<equiv> 2 :: u8"
abbreviation "DECOMPRESSION_STATIC_AND_DYNAMIC_REGIONS_MASK \<equiv> 3 :: u8"

text \<open>Tags, curves and protected content types of a signed image.\<close>

abbreviation "PFMTAG \<equiv> 0x02B3CE1D :: u32"
abbreviation "FVMTAG \<equiv> 0xA8E7C2D4 :: u32"
abbreviation "AFM_TAG \<equiv> 0x8883ce1d :: u32"
abbreviation "PBC_COMPRESSION_TAG \<equiv> 0x5F504243 :: u32"
abbreviation "PBC_VERSION \<equiv> 2 :: u32"
abbreviation "PBC_PAGE_SIZE \<equiv> 0x1000 :: u32"
abbreviation "SPI_REGION \<equiv> 0x1 :: u8"
abbreviation "SMBUS_RULE \<equiv> 0x2 :: u8"
abbreviation "FVM_ADDR_DEF \<equiv> 0x3 :: u8"
abbreviation "FVM_CAP \<equiv> 0x4 :: u8"
abbreviation "AFM_ADDR_DEF \<equiv> 0x5 :: u8"
abbreviation "BLOCK0TAG \<equiv> 0xB6EAFD19 :: u32"
abbreviation "BLOCK1TAG \<equiv> 0xF27F28D7 :: u32"
abbreviation "BLOCK1_ROOTENTRY_TAG \<equiv> 0xA757A046 :: u32"
abbreviation "BLOCK1CSKTAG \<equiv> 0x14711C2F :: u32"
abbreviation "BLOCK1_BLOCK0ENTRYTAG \<equiv> 0x15364367 :: u32"
abbreviation "SIGNATURE_SECP256_TAG \<equiv> 0xDE64437D :: u32"
abbreviation "SIGNATURE_SECP384_TAG \<equiv> 0xEA2A50E9 :: u32"
abbreviation "SIGNATURE_LMS384_TAG \<equiv> 0x66600835 :: u32"
abbreviation "SIGNATURE_LMS256_TAG \<equiv> 0x5266b561 :: u32"
abbreviation "PUBLIC_SECP256_TAG \<equiv> 0xC7B88C74 :: u32"
abbreviation "PUBLIC_SECP384_TAG \<equiv> 0x08F07B47 :: u32"
abbreviation "PUBLIC_LMS384_TAG \<equiv> 0x413d858d :: u32"
abbreviation "PUBLIC_LMS256_TAG \<equiv> 0xaa4aad02 :: u32"
abbreviation "secp384r1 \<equiv> 1 :: u32"
abbreviation "secp256r1 \<equiv> 2 :: u32"
abbreviation "hash_sign_algo384 \<equiv> 3 :: u32"
abbreviation "hash_sign_algo256 \<equiv> 4 :: u32"
abbreviation "PFR_CPLD_UPDATE_CAPSULE \<equiv> 0x00 :: u32"
abbreviation "PFR_PCH_PFM \<equiv> 0x01 :: u32"
abbreviation "PFR_PCH_UPDATE_CAPSULE \<equiv> 0x02 :: u32"
abbreviation "PFR_BMC_PFM \<equiv> 0x03 :: u32"
abbreviation "PFR_BMC_UPDATE_CAPSULE \<equiv> 0x04 :: u32"
abbreviation "PFR_PCH_SEAMLESS_UPDATE_CAPSULE \<equiv> 0x05 :: u32"
abbreviation "PFR_AFM \<equiv> 0x06 :: u32"
abbreviation "PFR_AFM_PER_DEV \<equiv> 0x08 :: u32"
abbreviation "PFR_AFM_ADD_TO_UPDATE \<equiv> 0x0A :: u32"
abbreviation "PFR_CPLD_UPDATE_CAPSULE_DECOMMISSON \<equiv> 0x200 :: u32"
abbreviation "KEY_CANCELLATION_CAPSULE \<equiv> 0x100 :: u32"
abbreviation "CPLD_CAPSULE_CANCELLATION \<equiv> 0x100 :: u32"
abbreviation "PCH_PFM_CANCELLATION \<equiv> 0x101 :: u32"
abbreviation "PCH_CAPSULE_CANCELLATION \<equiv> 0x102 :: u32"
abbreviation "BMC_PFM_CANCELLATION \<equiv> 0x103 :: u32"
abbreviation "BMC_CAPSULE_CANCELLATION \<equiv> 0x104 :: u32"
abbreviation "SEAMLESS_CAPSULE_CANCELLATION \<equiv> 0x105 :: u32"
abbreviation "AFM_CANCELLATION \<equiv> 0x106 :: u32"

section \<open>Records\<close>

text \<open>\<open>struct event_context\<close>: the event and the four bytes of \<open>union aspeed_event_data\<close>.\<close>

record event_context =
  ev :: pfr_event
  bit8_0 :: u8
  bit8_1 :: u8
  bit8_2 :: u8
  bit8_3 :: u8

text \<open>\<open>AO_DATA\<close>: the verification status bits of one firmware (0 good, 1 bad).\<close>

record ao_data =
  ActiveImageStatus :: u8
  RecoveryImageStatus :: u8
  RestrictActiveUpdate :: u8
  InternalAFMStatus :: u8

text \<open>\<open>AO_DATA *\<close>: which active object a pointer points to.\<close>

datatype ao_ref = AO_NULL | AO_BMC | AO_PCH | AO_AFM

text \<open>\<open>EVENT_CONTEXT\<close>, the request handed to the image routines.\<close>

record event_wrap =
  evt_operation :: operations
  evt_image :: hrot_event
  upd_flash :: u32
  upd_flag :: u32

text \<open>\<open>UPD_REGION\<close> and \<open>CPLD_STATUS\<close>; the regions are indexed by \<open>REGION_DEF\<close>.\<close>

record upd_region =
  ActiveRegion :: u8
  Recoveryregion :: u8

datatype region_def = ROT_REGION | BMC_REGION | PCH_REGION | AFM_REGION

record cpld_status =
  CpldStatus :: u8
  BmcStatus :: u8
  PchStatus :: u8
  CsAfmStatus :: u8
  Region :: "region_def \<Rightarrow> upd_region"
  DecommissionFlag :: u8
  CpldRecovery :: u8
  BmcToPchStatus :: u8
  AttestationFlag :: u8
  Reserved :: "u8 \<times> u8 \<times> u8"

text \<open>
  The fields of \<open>struct pfr_manifest\<close> that the modelled code reads or writes, with those of
  the hash, the flash state, the public key and the update image it points to.
\<close>

datatype hash_type = HASH_TYPE_SHA256 | HASH_TYPE_SHA384

record pfr_manifest =
  m_state :: pfr_state
  image_type :: u32
  flash_id :: u32
  m_address :: u32
  recovery_address :: u32
  staging_address :: u32
  active_pfm_addr :: u32
  pc_type :: u32
  hash_curve :: u32
  update_intent1 :: u8
  update_intent2 :: u8
  device_id0 :: u8
  hash_start_address :: u32
  hash_length :: u32
  hash_kind :: hash_type
  hash_out :: "u8 list"
  pc_length :: u32
  kc_flag :: u32
  target_fvm_addr :: u32
  bmc_afm_address :: u32
  cpu0_afm_address :: u32
  update_fw_pc_length :: u32
  update_fw_pfm_length :: u32
  pubkey_x :: "u8 list"
  pubkey_y :: "u8 list"
  signature_r :: "u8 list"
  signature_s :: "u8 list"

section \<open>The boundary\<close>

text \<open>The calls that leave the modelled code.\<close>

datatype mbx_call =
    SwmbxWrite bool u8 u8 | SwmbxRead bool u8 | SwmbxGetMsg u8 u8 | SwmbxFlushFifo u8
  | SwmbxUpdateNotify u8 u8 bool | SwmbxApplyProtect u8 "u32 list" | SwmbxEnableBehavior
  | SwmbxUpdateFifo u8 u8 nat

datatype flash_call =
    HostFlashRead u8 u32 u32 | HostFlashWrite u8 u32 "u8 list" | HostFlashErase u8 u32 u32 bool
  | RotFlashRead u8 u32 u32 | RotFlashWrite u8 u32 "u8 list" | RotFlashErase u8 u32 u32 bool
  | HostFlashSize u8 | RotRegionSize u8 | BlockEraseSize u8 | FlashHashContents u8 u32 u32 hash_type u32

datatype kernel_call =
    TimerStart pfr_timer nat | TimerStop pfr_timer | TimerRemaining pfr_timer
  | KSleep nat | KBusyWait nat | KWorkSubmit | KMalloc | Malloc u32 | KEventPost u32 | MutexInit | MutexLock | MutexUnlock | KPoll
  | KSemTake nat | ThreadCreate | Reboot

datatype crypto_call =
    CalculateSha hash_type "u8 list" | MbedtlsEcdsaVerify "u8 list" "u8 list" "u8 list" "u8 list" "u8 list"
  | AspeedEcdsaVerify "u8 list" "u8 list" "u8 list" "u8 list" "u8 list"

datatype led_call =
    StateLed nat bool | LedOn nat | LedOff nat | LedTimerStart | LedTimerStop | LedPinGet nat

datatype addr_priv_rw_select = SPI_FILTER_READ_PRIV | SPI_FILTER_WRITE_PRIV
datatype addr_priv_op = SPI_FILTER_PRIV_ENABLE | SPI_FILTER_PRIV_DISABLE

datatype filter_call =
    I2cFilterInit nat | I2cFilterEnable nat bool bool bool bool | I2cFilterDefault nat
  | I2cFilterUpdate nat u8 u8 "u8 list" | DeviceGetBinding string
  | SpimAddressPrivilege string addr_priv_rw_select addr_priv_op u32 u32 | SpimMonitorEnable string bool
  | SpimExtMux string bool | SpimSwReset string | SpiNorReset string

datatype board_call =
    PinSet string bool | PinConfigure string | PinGet string | ResetMonitorInit | ResetMonitorRemove
  | PlatformMonitorInit | PlatformMonitorRemove | PowerBtn bool | GetBootIndicator
  | DisableAbrWdt | ClearAbrIndicator

datatype link_call =
    SwitchI3cOwnerBmc | SwitchI3cOwnerRot | GetI3cOwner | I3cAttachBmc | I3cDetachBmc
  | I3cDetachCpu nat | I3cConfigureCpu | SpdmRunAttester | SpdmStopAttester
  | SpdmEnableAttester | I2cTargetRegister string

datatype init_call =
    InitSpdm | InitMctp | InitializeEngines | InitializeManifestProcessor | DebugLogInit
  | SpimIrqInit | InitI2c | InitI3c | InitFlashMutex | InitSmbusMailbox | InitFPLEDs

datatype call =
    Mbx mbx_call | Fl flash_call | Crypto crypto_call | Kern kernel_call | Led led_call | Filter filter_call
  | Board board_call | Link link_call | Init init_call

type_synonym reply = "int \<times> u8 list"
type_synonym call_trace = "(call \<times> reply) list"

section \<open>The world\<close>

text \<open>
  \<open>oob\<close> records that the code has stored outside an array, which C leaves undefined;
  \<open>diverged\<close> that a loop has not ended within its fuel.
\<close>

record world =
  trace :: call_trace
  aspeed_sm_fifo :: "event_context list"
  event_log :: "nat \<Rightarrow> pfr_event"
  event_log_idx :: u32
  current :: pfr_state
  event_ctx :: event_context
  bmc_active_object :: ao_data
  pch_active_object :: ao_data
  afm_active_object :: ao_data
  last_bmc_active_verify_status :: u8
  last_bmc_recovery_verify_status :: u8
  last_pch_active_verify_status :: u8
  last_pch_recovery_verify_status :: u8
  last_afm_active_verify_status :: u8
  last_afm_recovery_verify_status :: u8
  reset_from_unprovision_state :: bool
  first_time_boot :: bool
  gWdtBootStatus :: u8
  gFailedUpdateAttempts :: u32
  gUfmFifoData :: "u8 list"
  gReadFifoData :: "u8 list"
  gFifoData :: u8
  gRootKeyHash :: "u8 list"
  gPchOffsets :: "u8 list"
  gBmcOffsets :: "u8 list"
  gAFMOffset :: "u8 list"
  gPitPassword :: "u8 list"
  gProvisionData :: u8
  curr_secure_state :: u8
  AfmStatus :: u8
  manifest :: pfr_manifest
  fp_green_on :: bool
  fp_amber_on :: bool
  fp_id_on :: bool
  bypass_bmc_fp_signal :: bool
  g_bmc_recovery_level :: u8
  g_pch_recovery_level :: u8
  afm_list :: "nat \<Rightarrow> u32"
  oob :: bool
  diverged :: bool

text \<open>
  The parameters of every definition: the Kconfig options as booleans and numbers (the
  development fixes \<open>CONFIG_INTEL_PFR\<close>, \<open>CONFIG_AFM_SPEC_VERSION=4\<close>, no CPLD update, no
  I3C 5.0 and no secure-connection requester, as \<open>boards/ast1060_dcscm.conf\<close> does), the
  external replies, the bytes of uninitialised locals and the hierarchical state machine library.
\<close>

record env =
  CONFIG_SEAMLESS_UPDATE :: bool
  CONFIG_PIT_PROTECTION :: bool
  CONFIG_PFR_SPDM_ATTESTATION :: bool
  CONFIG_BMC_CHECKPOINT_RECOVERY :: bool
  CONFIG_PCH_CHECKPOINT_RECOVERY :: bool
  CONFIG_PFR_MCTP_I3C :: bool
  SUPPORT_ME :: bool
  CONFIG_PLATFORM_STATE_LED :: bool
  CONFIG_FRONT_PANEL_LED :: bool
  CONFIG_SECURE_LOCK_MODE :: nat
  BMC_CHECKPOINT_EXPIRE_TIME :: nat
  PCH_CHECKPOINT_EXPIRE_TIME :: nat
  CONFIG_BMC_STAGING_SIZE :: u32
  CONFIG_PCH_STAGING_SIZE :: u32
  CONFIG_BMC_PFR_STAGING_OFFSET :: u32
  CONFIG_BMC_PFR_STAGING_SIZE :: u32
  CONFIG_BMC_AFM_STAGING_RECOVERY_SIZE :: u32
  AFM_RCV1_PARTITION_SIZE :: u32
  CONFIG_BMC_DUAL_FLASH :: bool
  CONFIG_CPU_DUAL_FLASH :: bool
  PROJECT_VERSION_MAJOR :: u8
  PROJECT_VERSION_MINOR :: u8
  reply_of :: "call_trace \<Rightarrow> call \<Rightarrow> reply"
  uninit :: "nat \<Rightarrow> u8"
  smf_exits :: "pfr_state \<Rightarrow> pfr_state \<Rightarrow> pfr_state list"
  smf_entries :: "pfr_state \<Rightarrow> pfr_state \<Rightarrow> pfr_state list"

definition ext :: "env \<Rightarrow> call \<Rightarrow> (world, reply) state" where
  "ext E c = State (\<lambda>s. let r = reply_of E (trace s) c in (r, s\<lparr>trace := trace s @ [(c, r)]\<rparr>))"

definition act :: "env \<Rightarrow> call \<Rightarrow> (world, unit) state" where
  "act E c = do { ext E c; ret () }"

lemma run_ext [simp]:
  "run (ext E c) s = (reply_of E (trace s) c,
     s\<lparr>trace := trace s @ [(c, reply_of E (trace s) c)]\<rparr>)"
  by (simp add: ext_def Let_def)

lemma run_act [simp]:
  "run (act E c) s = ((), s\<lparr>trace := trace s @ [(c, reply_of E (trace s) c)]\<rparr>)"
  by (simp add: ext_def act_def Let_def)

text \<open>
  A C loop in its function: \<open>k\<close> is the code after the loop. When the fuel runs out the model
  gives up: \<open>diverged\<close> is set and the answer is \<open>stuck\<close>.
\<close>

definition while_do :: "nat \<Rightarrow> ('a \<Rightarrow> bool) \<Rightarrow> ('a \<Rightarrow> (world, ('a, 'r) flow) state) \<Rightarrow> 'a \<Rightarrow> 'r \<Rightarrow>
    ('a \<Rightarrow> (world, 'r) state) \<Rightarrow> (world, 'r) state" where
  "while_do fuel cond body x stuck k = do {
     f \<leftarrow> c_while fuel cond body x;
     case f of
       Continue _ \<Rightarrow> do { modify (diverged_update (\<lambda>_. True)); ret stuck }
     | Break y \<Rightarrow> k y
     | Return r \<Rightarrow> ret r
   }"

end
