(* ===== verification/Pfr_Events.thy ===== *)
theory Pfr_Events
  imports Pfr_World
begin

text \<open>
  The event queue of \<open>AspeedStateMachine.c\<close> (\<open>GenerateStateMachineEvent\<close>, the ring
  \<open>event_log\<close>) and the frame relations the development states its interfaces with:
  \<open>dev_only\<close> (an operation only calls the outside), \<open>keeps_field\<close> (it leaves one field
  alone) and \<open>handler_frame\<close> (it may post events and call the outside, and leaves the state
  machine where it is).
\<close>

section \<open>Frame relations of the world\<close>

definition dev_only :: "world \<Rightarrow> world \<Rightarrow> bool" where
  "dev_only s t \<longleftrightarrow> (\<exists>cs. t = s\<lparr>trace := trace s @ cs\<rparr>)"

definition keeps_field :: "(world \<Rightarrow> 'a) \<Rightarrow> world \<Rightarrow> world \<Rightarrow> bool" where
  "keeps_field f s t \<longleftrightarrow> f t = f s"

definition handler_frame :: "world \<Rightarrow> world \<Rightarrow> bool" where
  "handler_frame s t \<longleftrightarrow>
     prefix (trace s) (trace t) \<and> prefix (aspeed_sm_fifo s) (aspeed_sm_fifo t) \<and>
     current t = current s"

interpretation dev: frame_rel dev_only
proof
  show "dev_only s s" for s
    unfolding dev_only_def by (rule exI [of _ "[]"]) simp
  show "dev_only s u" if "dev_only s t" "dev_only t u" for s t u
  proof -
    from that(1) obtain cs where t: "t = s\<lparr>trace := trace s @ cs\<rparr>"
      unfolding dev_only_def by blast
    from that(2) obtain ds where "u = t\<lparr>trace := trace t @ ds\<rparr>"
      unfolding dev_only_def by blast
    with t have "u = s\<lparr>trace := trace s @ (cs @ ds)\<rparr>" by simp
    then show ?thesis unfolding dev_only_def by blast
  qed
qed

interpretation field: frame_rel "keeps_field f" for f
  by unfold_locales (simp_all add: keeps_field_def)

interpretation handler: frame_rel handler_frame
  by unfold_locales (auto simp: handler_frame_def)

lemma dev_only_trace: "dev_only s (s\<lparr>trace := trace s @ cs\<rparr>)"
  unfolding dev_only_def by blast

lemma dev_only_field:
  assumes "state_io_rel dev_only m" and "\<And>s cs. f (s\<lparr>trace := cs\<rparr>) = f s"
  shows "state_io_rel (keeps_field f) m"
  using assms by (auto simp: state_io_rel_def dev_only_def keeps_field_def) metis

lemma dev_only_handler: "state_io_rel dev_only m \<Longrightarrow> state_io_rel handler_frame m"
  by (erule frame_mono) (auto simp: dev_only_def handler_frame_def)

lemma ext_dev [dev_lemmas]: "state_io_rel dev_only (ext E c)"
  by (simp add: state_io_rel_def dev_only_trace)

lemma act_dev [dev_lemmas]: "state_io_rel dev_only (act E c)"
  by (simp add: state_io_rel_def dev_only_trace)

text \<open>What a device-only operation cannot change.\<close>

lemma dev_onlyE:
  assumes "state_io_rel dev_only m"
  obtains cs where "exec m s = s\<lparr>trace := trace s @ cs\<rparr>"
  using assms by (auto simp: state_io_rel_def dev_only_def)

lemma handler_modify: "(\<And>s. trace (f s) = trace s) \<Longrightarrow>
    (\<And>s. aspeed_sm_fifo (f s) = aspeed_sm_fifo s) \<Longrightarrow> (\<And>s. current (f s) = current s) \<Longrightarrow>
    state_io_rel handler_frame (modify f)"
  by (simp add: state_io_rel_def handler_frame_def)

section \<open>Posting an event\<close>

type_synonym event_data = "u8 \<times> u8 \<times> u8 \<times> u8"

abbreviation NULL_data :: event_data where
  "NULL_data \<equiv> (0, 0, 0, 0)"

fun mk_event :: "pfr_event \<Rightarrow> event_data \<Rightarrow> event_context" where
  "mk_event e (b0, b1, b2, b3) = \<lparr>ev = e, bit8_0 = b0, bit8_1 = b1, bit8_2 = b2, bit8_3 = b3\<rparr>"

text \<open>\<open>evt_ctx->data.ptr\<close>: the four data bytes of the event being handled.\<close>

definition data_ptr :: "event_context \<Rightarrow> event_data" where
  "data_ptr c = (bit8_0 c, bit8_1 c, bit8_2 c, bit8_3 c)"

text \<open>
  The event is dropped when \<open>k_malloc\<close> fails; otherwise it is logged in the ring of 128 and
  put at the end of the queue.
\<close>

definition GenerateStateMachineEvent :: "env \<Rightarrow> pfr_event \<Rightarrow> event_data \<Rightarrow> (world, unit) state" where
  "GenerateStateMachineEvent E evt data = do {
     (event, _) \<leftarrow> ext E (Kern KMalloc);
     if event = 0 then ret ()
     else do {
       modify (\<lambda>s. s\<lparr>event_log := (event_log s)(unat (event_log_idx s mod 128) := evt)\<rparr>);
       modify (\<lambda>s. s\<lparr>event_log_idx := event_log_idx s + 1\<rparr>);
       modify (\<lambda>s. s\<lparr>aspeed_sm_fifo := aspeed_sm_fifo s @ [mk_event evt data]\<rparr>)
     }
   }"

lemma GenerateStateMachineEvent_handler [frame_lemmas]:
  "state_io_rel handler_frame (GenerateStateMachineEvent E evt data)"
  unfolding GenerateStateMachineEvent_def
  by (intro handler.keeps_intros dev_only_handler [OF ext_dev])
     (simp_all add: handler_frame_def)

section \<open>What is posted and what is called\<close>

text \<open>
  \<open>posts P\<close>: the queue only grows, by events that satisfy \<open>P\<close>. \<open>calls Q\<close>: the
  trace only grows, by calls that satisfy \<open>Q\<close>.
\<close>

definition posts :: "(event_context \<Rightarrow> bool) \<Rightarrow> world \<Rightarrow> world \<Rightarrow> bool" where
  "posts P s t \<longleftrightarrow> (\<exists>es. aspeed_sm_fifo t = aspeed_sm_fifo s @ es \<and> list_all P es)"

definition calls :: "(call \<Rightarrow> bool) \<Rightarrow> world \<Rightarrow> world \<Rightarrow> bool" where
  "calls Q s t \<longleftrightarrow> (\<exists>cs. trace t = trace s @ cs \<and> list_all (\<lambda>(c, _). Q c) cs)"

interpretation posts: frame_rel "posts P" for P
proof
  show "posts P s s" for s by (simp add: posts_def)
  show "posts P s u" if "posts P s t" "posts P t u" for s t u
    using that by (auto simp: posts_def)
qed

interpretation calls: frame_rel "calls Q" for Q
proof
  show "calls Q s s" for s by (simp add: calls_def)
  show "calls Q s u" if "calls Q s t" "calls Q t u" for s t u
    using that by (auto simp: calls_def)
qed

lemma dev_only_posts: "state_io_rel dev_only m \<Longrightarrow> state_io_rel (posts P) m"
  by (erule frame_mono) (auto simp: dev_only_def posts_def)

lemma posts_modify: "(\<And>s. aspeed_sm_fifo (f s) = aspeed_sm_fifo s) \<Longrightarrow> state_io_rel (posts P) (modify f)"
  by (simp add: state_io_rel_def posts_def)

lemma posts_event:
  "P (mk_event evt data) \<Longrightarrow> state_io_rel (posts P) (GenerateStateMachineEvent E evt data)"
  by (auto simp: GenerateStateMachineEvent_def state_io_rel_def posts_def case_prod_beta)

lemma posts_weaken: "state_io_rel (posts P) m \<Longrightarrow> (\<And>e. P e \<Longrightarrow> Q e) \<Longrightarrow> state_io_rel (posts Q) m"
  by (erule frame_mono) (auto simp: posts_def list_all_iff)

lemma calls_ext: "Q c \<Longrightarrow> state_io_rel (calls Q) (ext E c)"
  by (simp add: state_io_rel_def calls_def)

lemma calls_act: "Q c \<Longrightarrow> state_io_rel (calls Q) (act E c)"
  by (simp add: state_io_rel_def calls_def)

lemma calls_modify: "(\<And>s. trace (f s) = trace s) \<Longrightarrow> state_io_rel (calls Q) (modify f)"
  by (simp add: state_io_rel_def calls_def)

lemma calls_event: "Q (Kern KMalloc) \<Longrightarrow> state_io_rel (calls Q) (GenerateStateMachineEvent E evt data)"
  by (auto simp: GenerateStateMachineEvent_def state_io_rel_def calls_def case_prod_beta)

text \<open>The events and the calls that running \<open>m\<close> in \<open>s\<close> adds.\<close>

definition new_events :: "(world, 'a) state \<Rightarrow> world \<Rightarrow> event_context list" where
  "new_events m s = drop (length (aspeed_sm_fifo s)) (aspeed_sm_fifo (exec m s))"

definition new_calls :: "(world, 'a) state \<Rightarrow> world \<Rightarrow> call list" where
  "new_calls m s = map fst (drop (length (trace s)) (trace (exec m s)))"

lemma postsD: "state_io_rel (posts P) m \<Longrightarrow> e \<in> set (new_events m s) \<Longrightarrow> P e"
  using posts.keepsD [of P m s] by (auto simp: posts_def new_events_def list_all_iff)

lemma callsD: "state_io_rel (calls Q) m \<Longrightarrow> c \<in> set (new_calls m s) \<Longrightarrow> Q c"
  using calls.keepsD [of Q m s] by (auto simp: calls_def new_calls_def list_all_iff)

end
