(* ===== verification/Pfr_Devices.thy ===== *)
theory Pfr_Devices
  imports Pfr_Events
begin

text \<open>
  The documented behaviour of the devices below the firmware, as predicates on the replies: the
  kernel heap, NOR flash (erase gives 0xff, programming clears bits, reads see the array) and
  the mailbox registers. Theorems name the ones they rest on. \<open>ref_env\<close> is a machine whose
  devices behave so, on which the witnesses run.
\<close>

section \<open>The kernel heap\<close>

text \<open>
  The documented behaviour of \<open>k_malloc\<close> with free heap: it never returns the null pointer.
\<close>

definition heap_ok :: "env \<Rightarrow> bool" where
  "heap_ok E \<longleftrightarrow> (\<forall>tr. fst (reply_of E tr (Kern KMalloc)) \<noteq> 0)"

lemma run_GenerateStateMachineEvent:
  assumes "heap_ok E"
  shows "run (GenerateStateMachineEvent E evt data) s = ((),
    s\<lparr>trace := trace s @ [(Kern KMalloc, reply_of E (trace s) (Kern KMalloc))],
      event_log := (event_log s)(unat (event_log_idx s mod 128) := evt),
      event_log_idx := event_log_idx s + 1,
      aspeed_sm_fifo := aspeed_sm_fifo s @ [mk_event evt data]\<rparr>)"
  using assms
  by (simp add: GenerateStateMachineEvent_def heap_ok_def case_prod_beta)

section \<open>NOR flash\<close>

text \<open>
  The contents of the ROT flash after a trace: erase sets a range to 0xff, programming clears
  bits, and a call whose status is not 0 changes nothing.
\<close>

type_synonym flash_mem = "u8 \<Rightarrow> nat \<Rightarrow> u8"

fun rot_flash_step :: "call \<times> reply \<Rightarrow> flash_mem \<Rightarrow> flash_mem" where
  "rot_flash_step (Fl (RotFlashErase d a n sec), (st, _)) m =
     (if st = 0 then m(d := \<lambda>i. if unat a \<le> i \<and> i < unat a + unat n then 0xff else m d i) else m)"
| "rot_flash_step (Fl (RotFlashWrite d a bs), (st, _)) m =
     (if st = 0
      then m(d := \<lambda>i. if unat a \<le> i \<and> i < unat a + length bs then m d i AND bs ! (i - unat a)
                       else m d i)
      else m)"
| "rot_flash_step _ m = m"

definition rot_mem :: "flash_mem \<Rightarrow> call_trace \<Rightarrow> flash_mem" where
  "rot_mem m0 tr = fold rot_flash_step tr m0"

lemma rot_mem_append [simp]: "rot_mem m0 (tr @ tr') = fold rot_flash_step tr' (rot_mem m0 tr)"
  by (simp add: rot_mem_def)

definition mem_slice :: "(nat \<Rightarrow> u8) \<Rightarrow> nat \<Rightarrow> nat \<Rightarrow> u8 list" where
  "mem_slice f a n = map f [a ..< a + n]"

lemma length_mem_slice [simp]: "length (mem_slice f a n) = n"
  by (simp add: mem_slice_def)

lemma nth_mem_slice [simp]: "i < n \<Longrightarrow> mem_slice f a n ! i = f (a + i)"
  by (simp add: mem_slice_def)

lemma take_drop_mem_slice:
  "o' + k \<le> n \<Longrightarrow> take k (drop o' (mem_slice f a n)) = mem_slice f (a + o') k"
  by (rule nth_equalityI) (simp_all add: ac_simps)

text \<open>
  A device that works: reads return the contents, erases and programming succeed, and the size
  of each ROT region is \<open>rsize d\<close>.
\<close>

definition nor_flash :: "env \<Rightarrow> flash_mem \<Rightarrow> (u8 \<Rightarrow> u32) \<Rightarrow> bool" where
  "nor_flash E m0 rsize \<longleftrightarrow>
     (\<forall>tr d a n. reply_of E tr (Fl (RotFlashRead d a n)) =
        (0, mem_slice (rot_mem m0 tr d) (unat a) (unat n))) \<and>
     (\<forall>tr d a bs. fst (reply_of E tr (Fl (RotFlashWrite d a bs))) = 0) \<and>
     (\<forall>tr d a n sec. fst (reply_of E tr (Fl (RotFlashErase d a n sec))) = 0) \<and>
     (\<forall>tr d. fst (reply_of E tr (Fl (RotRegionSize d))) = uint (rsize d))"

lemma nor_flashD:
  assumes "nor_flash E m0 rsize"
  shows "reply_of E tr (Fl (RotFlashRead d a n)) =
      (0, mem_slice (rot_mem m0 tr d) (unat a) (unat n))"
    and "fst (reply_of E tr (Fl (RotFlashWrite d a bs))) = 0"
    and "fst (reply_of E tr (Fl (RotFlashErase d a n sec))) = 0"
    and "fst (reply_of E tr (Fl (RotRegionSize d))) = uint (rsize d)"
  using assms by (simp_all add: nor_flash_def)

section \<open>The mailbox\<close>

text \<open>
  The documented behaviour of the mailbox device for a set of registers that only this firmware
  writes: a read gives the last byte written.
\<close>

fun mbx_step :: "call \<times> reply \<Rightarrow> (u8 \<Rightarrow> u8) \<Rightarrow> u8 \<Rightarrow> u8" where
  "mbx_step (Mbx (SwmbxWrite False r v), _) f = f(r := v)"
| "mbx_step _ f = f"

definition mbx_reg :: "(u8 \<Rightarrow> u8) \<Rightarrow> call_trace \<Rightarrow> u8 \<Rightarrow> u8" where
  "mbx_reg r0 tr = fold mbx_step tr r0"

definition mailbox :: "env \<Rightarrow> (u8 \<Rightarrow> u8) \<Rightarrow> u8 set \<Rightarrow> bool" where
  "mailbox E r0 R \<longleftrightarrow>
     (\<forall>tr. \<forall>r \<in> R. reply_of E tr (Mbx (SwmbxRead False r)) = (0, [mbx_reg r0 tr r]))"

lemma mbx_reg_append [simp]: "mbx_reg r0 (tr @ tr') = fold mbx_step tr' (mbx_reg r0 tr)"
  by (simp add: mbx_reg_def)

section \<open>A machine that behaves\<close>

text \<open>
  Erased ROT flash of 64 KiB regions, a zeroed mailbox, a heap that never runs out, calls that
  succeed; the configuration of \<open>boards/ast1060_dcscm.conf\<close> with every optional feature on.
\<close>

fun ref_reply :: "call_trace \<Rightarrow> call \<Rightarrow> reply" where
  "ref_reply tr (Fl (RotFlashRead d a n)) =
     (0, mem_slice (rot_mem (\<lambda>_ _. 0xff) tr d) (unat a) (unat n))"
| "ref_reply tr (Fl (RotRegionSize d)) = (65536, [])"
| "ref_reply tr (Mbx (SwmbxRead False r)) = (0, [mbx_reg (\<lambda>_. 0) tr r])"
| "ref_reply tr (Kern KMalloc) = (1, [])"
| "ref_reply tr _ = (0, [])"

definition ref_env :: env where
  "ref_env = \<lparr>CONFIG_SEAMLESS_UPDATE = True, CONFIG_PIT_PROTECTION = True,
     CONFIG_PFR_SPDM_ATTESTATION = True, CONFIG_BMC_CHECKPOINT_RECOVERY = True,
     CONFIG_PCH_CHECKPOINT_RECOVERY = True, CONFIG_PFR_MCTP_I3C = True, SUPPORT_ME = True,
     CONFIG_PLATFORM_STATE_LED = True, CONFIG_FRONT_PANEL_LED = True,
     CONFIG_SECURE_LOCK_MODE = 1, BMC_CHECKPOINT_EXPIRE_TIME = 175000,
     PCH_CHECKPOINT_EXPIRE_TIME = 900000, CONFIG_BMC_STAGING_SIZE = 0x2000000,
     CONFIG_PCH_STAGING_SIZE = 0x1000000, CONFIG_BMC_PFR_STAGING_OFFSET = 0,
     CONFIG_BMC_PFR_STAGING_SIZE = 0x2000000, CONFIG_BMC_AFM_STAGING_RECOVERY_SIZE = 0x20000,
     AFM_RCV1_PARTITION_SIZE = 0x20000,
     CONFIG_BMC_DUAL_FLASH = False, CONFIG_CPU_DUAL_FLASH = True, PROJECT_VERSION_MAJOR = 2, PROJECT_VERSION_MINOR = 0,
     reply_of = ref_reply, uninit = (\<lambda>_. 0), smf_exits = (\<lambda>a _. [a]),
     smf_entries = (\<lambda>_ b. [b])\<rparr>"

lemma ref_reply_of [simp]: "reply_of ref_env = ref_reply"
  by (simp add: ref_env_def)

lemma ref_env_nor_flash: "nor_flash ref_env (\<lambda>_ _. 0xff) (\<lambda>_. 65536)"
  by (simp add: nor_flash_def)

lemma ref_env_mailbox: "mailbox ref_env (\<lambda>_. 0) UNIV"
  by (simp add: mailbox_def)

lemma ref_env_heap: "heap_ok ref_env"
  by (simp add: heap_ok_def)

definition good_ao :: ao_data where
  "good_ao = \<lparr>ActiveImageStatus = 0, RecoveryImageStatus = 0, RestrictActiveUpdate = 0,
     InternalAFMStatus = 0\<rparr>"

definition boot_world :: world where
  "boot_world = \<lparr>trace = [], aspeed_sm_fifo = [], event_log = (\<lambda>_. START_STATE_MACHINE),
     event_log_idx = 0, current = BOOT, event_ctx = mk_event START_STATE_MACHINE NULL_data,
     bmc_active_object = good_ao, pch_active_object = good_ao, afm_active_object = good_ao,
     last_bmc_active_verify_status = 0, last_bmc_recovery_verify_status = 0,
     last_pch_active_verify_status = 0, last_pch_recovery_verify_status = 0,
     last_afm_active_verify_status = 0, last_afm_recovery_verify_status = 0,
     reset_from_unprovision_state = False, first_time_boot = True, gWdtBootStatus = 0, gFailedUpdateAttempts = 0,
     gUfmFifoData = replicate 64 0, gReadFifoData = replicate 128 0, gFifoData = 0,
     gRootKeyHash = replicate 48 0, gPchOffsets = replicate 12 0, gBmcOffsets = replicate 12 0,
     gAFMOffset = replicate 4 0, gPitPassword = replicate 8 0, gProvisionData = 0,
     curr_secure_state = 0xff, AfmStatus = 0,
     manifest = \<lparr>m_state = BOOT, image_type = 0, flash_id = 0, m_address = 0,
       recovery_address = 0, staging_address = 0, active_pfm_addr = 0, pc_type = 0,
       hash_curve = 0, update_intent1 = 0, update_intent2 = 0, device_id0 = 0,
       hash_start_address = 0, hash_length = 0, hash_kind = HASH_TYPE_SHA256, hash_out = [],
       pc_length = 0, kc_flag = 0, target_fvm_addr = 0, bmc_afm_address = 0, cpu0_afm_address = 0,
       update_fw_pc_length = 0, update_fw_pfm_length = 0, pubkey_x = [], pubkey_y = [],
       signature_r = [], signature_s = []\<rparr>,
     fp_green_on = False, fp_amber_on = False, fp_id_on = False, bypass_bmc_fp_signal = False,
     g_bmc_recovery_level = 4, g_pch_recovery_level = 4, afm_list = (\<lambda>_. 0), oob = False, diverged = False\<rparr>"

end
