(* ===== verification/Pfr_Flash.thy ===== *)
theory Pfr_Flash
  imports Pfr_Devices
begin

text \<open>
  The flash access layer of \<open>pfr/pfr_util.c\<close>: dispatch of reads, writes and erases to the
  host flashes (BMC, PCH) or the ROT flash, the erase loop over a region, and the page copy
  between two devices. The HAL calls below it are external.
\<close>

section \<open>Dispatch\<close>

definition pfr_spi_read :: "env \<Rightarrow> u8 \<Rightarrow> u32 \<Rightarrow> u32 \<Rightarrow> (world, int \<times> u8 list) state" where
  "pfr_spi_read E device_id address data_length = do {
     (status, data) \<leftarrow>
       (if device_id \<le> PCH_SPI then ext E (Fl (HostFlashRead device_id address data_length))
        else ext E (Fl (RotFlashRead device_id address data_length)));
     ret (status, fit (unat data_length) data)
   }"

definition pfr_spi_write :: "env \<Rightarrow> u8 \<Rightarrow> u32 \<Rightarrow> u8 list \<Rightarrow> (world, int) state" where
  "pfr_spi_write E device_id address data = do {
     (status, _) \<leftarrow>
       (if device_id \<le> PCH_SPI then ext E (Fl (HostFlashWrite device_id address data))
        else ext E (Fl (RotFlashWrite device_id address data)));
     ret status
   }"

definition pfr_spi_erase_4k :: "env \<Rightarrow> u8 \<Rightarrow> u32 \<Rightarrow> (world, int) state" where
  "pfr_spi_erase_4k E device_id address = do {
     (status, _) \<leftarrow>
       (if device_id \<le> PCH_SPI then ext E (Fl (HostFlashErase device_id address SECTOR_SIZE True))
        else ext E (Fl (RotFlashErase device_id address SECTOR_SIZE True)));
     ret status
   }"

definition pfr_spi_erase_block :: "env \<Rightarrow> u8 \<Rightarrow> u32 \<Rightarrow> (world, int) state" where
  "pfr_spi_erase_block E device_id address = do {
     (status, _) \<leftarrow>
       (if device_id \<le> PCH_SPI then ext E (Fl (HostFlashErase device_id address BLOCK_SIZE False))
        else ext E (Fl (RotFlashErase device_id address BLOCK_SIZE False)));
     ret status
   }"

definition pfr_spi_get_device_size :: "env \<Rightarrow> u8 \<Rightarrow> (world, u32) state" where
  "pfr_spi_get_device_size E device_id = do {
     (size, _) \<leftarrow>
       (if device_id < ROT_INTERNAL_ACTIVE then ext E (Fl (HostFlashSize device_id))
        else ext E (Fl (RotRegionSize device_id)));
     ret (word_of_int size)
   }"

definition pfr_spi_get_block_size :: "env \<Rightarrow> u8 \<Rightarrow> (world, int) state" where
  "pfr_spi_get_block_size E device_id = do {
     let flash_id = (if ROT_INTERNAL_ACTIVE \<le> device_id \<and> device_id < ROT_EXT_AFM_ACT_1 then ROT_SPI
                     else if ROT_EXT_AFM_ACT_1 \<le> device_id then ROT_EXT_SPI
                     else device_id);
     (block_size, _) \<leftarrow> ext E (Fl (BlockEraseSize flash_id));
     ret block_size
   }"

section \<open>Erasing a region\<close>

text \<open>
  The \<open>while (erase_addr < end_addr)\<close> loop, with the fuel that bounds its rounds: \<open>None\<close>
  is "still running". Every round moves \<open>erase_addr\<close> up by a page or a 64 KiB block.
\<close>

fun erase_loop :: "nat \<Rightarrow> env \<Rightarrow> u8 \<Rightarrow> bool \<Rightarrow> u32 \<Rightarrow> u32 \<Rightarrow> (world, int option) state" where
  "erase_loop 0 E device_id support_block_erase erase_addr end_addr = ret None"
| "erase_loop (Suc fuel) E device_id support_block_erase erase_addr end_addr =
     (if erase_addr < end_addr then
        (if support_block_erase \<and> BLOCK_SIZE \<le> end_addr - erase_addr \<and> erase_addr AND 0xffff = 0
         then do {
           status \<leftarrow> pfr_spi_erase_block E device_id erase_addr;
           if status \<noteq> 0 then ret (Some Failure)
           else erase_loop fuel E device_id support_block_erase (erase_addr + BLOCK_SIZE) end_addr
         }
         else do {
           status \<leftarrow> pfr_spi_erase_4k E device_id erase_addr;
           if status \<noteq> 0 then ret (Some Failure)
           else erase_loop fuel E device_id support_block_erase (erase_addr + PAGE_SIZE) end_addr
         })
      else ret (Some Success))"

text \<open>
  \<open>pfr_spi_erase_region\<close> gives the loop one round per page and one to stop, which
  \<open>erase_loop_enough\<close> shows to be enough for every region that ends a page below 4 GiB. (In C
  a region that ends in the last page would wrap around and never finish; the model answers
  \<open>Failure\<close> there. The largest device is 256 MiB.)
\<close>

definition erase_fuel :: "u32 \<Rightarrow> nat" where
  "erase_fuel nbytes = unat nbytes div 4096 + 2"

definition pfr_spi_erase_region :: "env \<Rightarrow> u8 \<Rightarrow> bool \<Rightarrow> u32 \<Rightarrow> u32 \<Rightarrow> (world, int) state" where
  "pfr_spi_erase_region E device_id support_block_erase start_addr nbytes = do {
     let end_addr = start_addr + nbytes;
     r \<leftarrow> erase_loop (erase_fuel nbytes) E device_id support_block_erase start_addr end_addr;
     case r of None \<Rightarrow> ret Failure | Some status \<Rightarrow> ret status
   }"

section \<open>Copying pages\<close>

definition pfr_spi_page_read_write :: "env \<Rightarrow> u8 \<Rightarrow> u32 \<Rightarrow> u32 \<Rightarrow> (world, int) state" where
  "pfr_spi_page_read_write E device_id source_address target_address = do {
     (st, buffer) \<leftarrow> pfr_spi_read E device_id source_address PAGE_SIZE;
     if st \<noteq> 0 then ret Failure
     else do {
       st' \<leftarrow> pfr_spi_write E device_id target_address buffer;
       if st' \<noteq> 0 then ret Failure else ret Success
     }
   }"

fun copy_pages :: "nat \<Rightarrow> env \<Rightarrow> u8 \<Rightarrow> u32 \<Rightarrow> u8 \<Rightarrow> u32 \<Rightarrow> (world, int) state" where
  "copy_pages 0 E src_dev src_addr dest_dev dest_addr = ret Success"
| "copy_pages (Suc n) E src_dev src_addr dest_dev dest_addr = do {
     (st, buffer) \<leftarrow> pfr_spi_read E src_dev src_addr PAGE_SIZE;
     if st \<noteq> 0 then ret Failure
     else do {
       st' \<leftarrow> pfr_spi_write E dest_dev dest_addr buffer;
       if st' \<noteq> 0 then ret Failure
       else copy_pages n E src_dev (src_addr + PAGE_SIZE) dest_dev (dest_addr + PAGE_SIZE)
     }
   }"

definition pfr_spi_region_read_write_between_spi ::
    "env \<Rightarrow> u8 \<Rightarrow> u32 \<Rightarrow> u8 \<Rightarrow> u32 \<Rightarrow> u32 \<Rightarrow> (world, int) state" where
  "pfr_spi_region_read_write_between_spi E src_dev src_addr dest_dev dest_addr len =
     copy_pages (unat (len div PAGE_SIZE)) E src_dev src_addr dest_dev dest_addr"

text \<open>\<open>get_hash\<close> over the device and range set in the manifest; the hash engine is external.\<close>

definition get_hash :: "env \<Rightarrow> u32 \<Rightarrow> (world, int \<times> u8 list) state" where
  "get_hash E hash_len =
     (if hash_len < 32 \<or> (32 < hash_len \<and> hash_len < 48) then ret (Failure, [])
      else do {
        m \<leftarrow> gets manifest;
        (st, bs) \<leftarrow> ext E (Fl (FlashHashContents (device_id0 m) (hash_start_address m)
          (hash_length m) (hash_kind m) hash_len));
        ret (st, fit (unat hash_len) bs)
      })"

section \<open>Only the outside is touched\<close>

lemma spi_dev [dev_lemmas]:
  "state_io_rel dev_only (pfr_spi_read E d a n)"
  "state_io_rel dev_only (pfr_spi_write E d a bs)"
  "state_io_rel dev_only (pfr_spi_erase_4k E d a)"
  "state_io_rel dev_only (pfr_spi_erase_block E d a)"
  "state_io_rel dev_only (pfr_spi_get_device_size E d)"
  "state_io_rel dev_only (pfr_spi_get_block_size E d)"
  unfolding pfr_spi_read_def pfr_spi_write_def pfr_spi_erase_4k_def pfr_spi_erase_block_def
    pfr_spi_get_device_size_def pfr_spi_get_block_size_def
  by (intro dev.keeps_intros ext_dev)+

lemma erase_loop_dev: "state_io_rel dev_only (erase_loop fuel E d b a e)"
  by (induction fuel arbitrary: a) (auto intro!: dev.keeps_intros spi_dev)

lemma copy_pages_dev: "state_io_rel dev_only (copy_pages n E sd sa dd da)"
  by (induction n arbitrary: sa da) (auto intro!: dev.keeps_intros spi_dev)

lemma spi_region_dev [dev_lemmas]:
  "state_io_rel dev_only (pfr_spi_erase_region E d b a n)"
  "state_io_rel dev_only (pfr_spi_page_read_write E d a a')"
  "state_io_rel dev_only (pfr_spi_region_read_write_between_spi E sd sa dd da n)"
  "state_io_rel dev_only (get_hash E n)"
  unfolding pfr_spi_erase_region_def pfr_spi_region_read_write_between_spi_def
    pfr_spi_page_read_write_def get_hash_def
  by (intro dev.keeps_intros spi_dev erase_loop_dev copy_pages_dev ext_dev)+

section \<open>What an erase loop does\<close>

text \<open>The first address past the pages that cover \<open>[a, e)\<close>, counted from \<open>a\<close>.\<close>

definition erase_end :: "u32 \<Rightarrow> u32 \<Rightarrow> nat" where
  "erase_end a e = unat a + 4096 * ((unat e - unat a + 4095) div 4096)"

lemma unat_add_page:
  "a < e \<Longrightarrow> unat e \<le> 2 ^ 32 - 4096 \<Longrightarrow> unat (a + PAGE_SIZE) = unat a + 4096" for a e :: u32
  by (subst unat_add_lem [THEN iffD1]) (simp_all add: word_less_nat_alt)

lemma unat_add_block:
  fixes a e :: u32
  assumes "a < e" and "BLOCK_SIZE \<le> e - a"
  shows "unat (a + BLOCK_SIZE) = unat a + 65536 \<and> unat a + 65536 \<le> unat e"
proof -
  have le: "unat a \<le> unat e" using assms(1) by (simp add: word_less_nat_alt)
  have "65536 \<le> unat (e - a)" using assms(2) by (simp add: word_le_nat_alt)
  also have "unat (e - a) = unat e - unat a"
    using assms(1) by (intro unat_sub) simp
  finally have *: "unat a + 65536 \<le> unat e" using le by arith
  have "unat (a + BLOCK_SIZE) = unat a + 65536"
    using * unsigned_less [of e, where 'a=nat]
    by (subst unat_add_lem [THEN iffD1]) simp_all
  with * show ?thesis by simp
qed

text \<open>The page arithmetic, with the page size out of the way.\<close>

lemma pages_step:
  fixes x p :: nat
  assumes "0 < p" and "0 < x"
  shows "(x + (p - 1)) div p = Suc ((x - p + (p - 1)) div p)"
proof (cases "p \<le> x")
  case True
  then have "x + (p - 1) = (x - p + (p - 1)) + p" by simp
  then show ?thesis using assms(1) by (simp only: div_add_self2 neq0_conv)
next
  case False
  then have xp: "x + (p - 1) = (x - 1) + p" and x0: "x - p = 0" using assms by linarith+
  have "(x - 1) div p = 0" "(p - 1) div p = 0" using False assms by (intro div_less; linarith)+
  then show ?thesis unfolding xp x0 using assms(1) by (simp only: div_add_self2 add_0)
qed

lemma pages_mult: "(x + 65536 + 4095) div 4096 = 16 + (x + 4095) div (4096::nat)"
proof -
  have "x + 65536 + 4095 = (x + 4095) + 16 * (4096::nat)" by simp
  then show ?thesis by (simp only: div_mult_self1)
qed

lemma erase_end_page:
  assumes "a < e" and "unat e \<le> 2 ^ 32 - 4096"
  shows "erase_end (a + PAGE_SIZE) e = erase_end a e"
proof -
  have ae: "0 < unat e - unat a" using assms(1) by (simp add: word_less_nat_alt)
  have "unat e - unat (a + PAGE_SIZE) = unat e - unat a - 4096"
    by (simp only: unat_add_page [OF assms] diff_diff_eq)
  moreover have "(unat e - unat a + 4095) div 4096 = Suc ((unat e - unat a - 4096 + 4095) div 4096)"
    using pages_step [of 4096, OF _ ae] by simp
  ultimately show ?thesis
    unfolding erase_end_def unat_add_page [OF assms] by (simp only: mult_Suc_right add.assoc)
qed

lemma erase_end_block:
  assumes "a < e" and "BLOCK_SIZE \<le> e - a"
  shows "erase_end (a + BLOCK_SIZE) e = erase_end a e"
proof -
  obtain k where k: "unat e = unat a + 65536 + k"
    using unat_add_block [OF assms] le_Suc_ex by metis
  have "unat e - unat a = k + 65536" "unat e - unat (a + BLOCK_SIZE) = k"
    using k unat_add_block [OF assms] by simp_all
  then show ?thesis
    unfolding erase_end_def using unat_add_block [OF assms] pages_mult [of k] by simp
qed

lemma erase_end_ge: "a < e \<Longrightarrow> unat a + 4096 \<le> erase_end a e"
  using pages_step [of 4096 "unat e - unat a"] by (simp add: erase_end_def word_less_nat_alt)

lemma erase_end_covers: "unat e \<le> erase_end a e"
proof -
  have "x \<le> 4096 * ((x + 4095) div 4096)" for x :: nat
    using mult_div_mod_eq [of 4096 "x + 4095"] mod_less_divisor [of 4096 "x + 4095"] by arith
  from this [of "unat e - unat a"] show ?thesis unfolding erase_end_def by arith
qed

lemma erase_end_none: "\<not> a < e \<Longrightarrow> erase_end a e = unat a"
  by (simp add: erase_end_def word_less_nat_alt)

text \<open>Enough fuel: one round per page that is left, and one to stop.\<close>

lemma div_page_step: "4096 \<le> x \<Longrightarrow> x div 4096 = Suc ((x - 4096) div (4096::nat))"
  by (simp add: le_div_geq)

lemma div_block_step: "65536 \<le> x \<Longrightarrow> Suc ((x - 65536) div 4096) \<le> x div (4096::nat)"
  using div_page_step [of x] div_le_mono [of "x - 65536" "x - 4096" 4096] by simp

lemma erase_loop_enough:
  assumes "unat e \<le> 2 ^ 32 - 4096" and "(unat e - unat a) div 4096 + 2 \<le> fuel"
  shows "\<exists>st s'. run (erase_loop fuel E d blk a e) s = (Some st, s')"
  using assms(2)
proof (induction fuel arbitrary: a s)
  case 0
  then show ?case by simp
next
  case (Suc fuel)
  have stop: "\<exists>st s'. run (erase_loop fuel E d blk b e) s = (Some st, s')"
    if "\<not> b < e" for b s
    using that Suc.prems by (cases fuel) auto
  have page: "\<exists>st s'. run (erase_loop fuel E d blk (a + PAGE_SIZE) e) s = (Some st, s')"
    if "a < e" for s
  proof (cases "4096 \<le> unat e - unat a")
    case True
    then show ?thesis
      using Suc.prems div_page_step [OF True] unat_add_page [OF that assms(1)]
      by (intro Suc.IH) simp
  next
    case False
    then have "\<not> a + PAGE_SIZE < e"
      using unat_add_page [OF that assms(1)] by (simp add: word_less_nat_alt)
    then show ?thesis by (rule stop)
  qed
  have block: "\<exists>st s'. run (erase_loop fuel E d blk (a + BLOCK_SIZE) e) s = (Some st, s')"
    if "a < e" "BLOCK_SIZE \<le> e - a" for s
  proof (rule Suc.IH)
    have "65536 \<le> unat e - unat a" using unat_add_block [OF that] by arith
    from div_block_step [OF this] show "(unat e - unat (a + BLOCK_SIZE)) div 4096 + 2 \<le> fuel"
      using Suc.prems unat_add_block [OF that] by simp
  qed
  show ?case
    using page block by (auto simp: case_prod_beta)
qed

text \<open>
  On a working device the loop succeeds, sets exactly the pages that cover the range to 0xff
  and touches nothing else.
\<close>

lemma erase_loop_effect:
  assumes nor: "nor_flash E m0 rsize" and rot: "\<not> d \<le> PCH_SPI"
    and e: "unat e \<le> 2 ^ 32 - 4096"
    and run: "run (erase_loop fuel E d blk a e) s = (Some st, s')"
  shows "st = Success \<and>
    rot_mem m0 (trace s') = (rot_mem m0 (trace s))
      (d := \<lambda>i. if unat a \<le> i \<and> i < erase_end a e then 0xff else rot_mem m0 (trace s) d i)"
  using run
proof (induction fuel arbitrary: a s)
  case 0
  then show ?case by simp
next
  case (Suc fuel)
  note er = nor_flashD(3) [OF nor]
  show ?case
  proof (cases "a < e")
    case False
    then show ?thesis using Suc.prems erase_end_none [OF False]
      by (auto simp: fun_eq_iff)
  next
    case True
    show ?thesis
    proof (cases "blk \<and> BLOCK_SIZE \<le> e - a \<and> a AND 0xffff = 0")
      case blk: True
      define c where "c = Fl (RotFlashErase d a BLOCK_SIZE False)"
      have step: "run (erase_loop fuel E d blk (a + BLOCK_SIZE) e)
          (s\<lparr>trace := trace s @ [(c, reply_of E (trace s) c)]\<rparr>) = (Some st, s')"
        using Suc.prems True blk rot er
        by (simp add: pfr_spi_erase_block_def case_prod_beta c_def)
      have ends: "erase_end (a + BLOCK_SIZE) e = erase_end a e"
          "unat (a + BLOCK_SIZE) = unat a + 65536" "unat a + 65536 \<le> unat e"
        using erase_end_block [OF True] unat_add_block [OF True] blk by auto
      have c0: "fst (reply_of E (trace s) c) = 0" by (simp add: c_def er)
      show ?thesis
        using Suc.IH [OF step] ends erase_end_covers [of e a] c0
        by (cases "reply_of E (trace s) c") (auto simp: c_def fun_eq_iff)
    next
      case nb: False
      define c where "c = Fl (RotFlashErase d a SECTOR_SIZE True)"
      have step: "run (erase_loop fuel E d blk (a + PAGE_SIZE) e)
          (s\<lparr>trace := trace s @ [(c, reply_of E (trace s) c)]\<rparr>) = (Some st, s')"
        using Suc.prems True nb rot er
        by (auto simp add: pfr_spi_erase_4k_def case_prod_beta c_def)
      have ends: "erase_end (a + PAGE_SIZE) e = erase_end a e"
          "unat (a + PAGE_SIZE) = unat a + 4096" "unat a + 4096 \<le> erase_end a e"
        using erase_end_page [OF True e] unat_add_page [OF True e] erase_end_ge [OF True] by auto
      have c0: "fst (reply_of E (trace s) c) = 0" by (simp add: c_def er)
      show ?thesis
        using Suc.IH [OF step] ends c0
        by (cases "reply_of E (trace s) c") (auto simp: c_def fun_eq_iff)
    qed
  qed
qed

end
