(* ===== verification/Pfr_Ufm.thy ===== *)
theory Pfr_Ufm
  imports Pfr_Flash
begin

text \<open>
  The user flash memory of \<open>pfr/pfr_ufm.c\<close> and the provisioning area behind it
  (\<open>Smbus_mailbox.c\<close>): byte ranges kept in the ROT flash that are rewritten by
  read, erase, patch and program. The locale \<open>byte_store\<close> is the contract that their
  clients (security version numbers, provisioning, update status) rely on; both areas are
  interpreted against it.
\<close>

section \<open>Operations\<close>

definition get_cpld_status :: "env \<Rightarrow> u32 \<Rightarrow> u32 \<Rightarrow> (world, int \<times> u8 list) state" where
  "get_cpld_status E offset data_length = pfr_spi_read E ROT_INTERNAL_STATE offset data_length"

definition set_cpld_status :: "env \<Rightarrow> u32 \<Rightarrow> u8 list \<Rightarrow> (world, int) state" where
  "set_cpld_status E offset data =
     (if PAGE_SIZE < offset + of_nat (length data) then ret Failure
      else do {
        (status, buffer) \<leftarrow> pfr_spi_read E ROT_INTERNAL_STATE 0 PAGE_SIZE;
        if status \<noteq> 0 then ret Failure
        else do {
          let buffer = overwrite buffer (unat offset) data;
          status \<leftarrow> pfr_spi_erase_4k E ROT_INTERNAL_STATE 0;
          if status \<noteq> Success then ret Failure
          else pfr_spi_write E ROT_INTERNAL_STATE 0 buffer
        }
      })"

definition erase_provision_flash :: "env \<Rightarrow> (world, int) state" where
  "erase_provision_flash E = do {
     region_size \<leftarrow> pfr_spi_get_device_size E ROT_INTERNAL_INTEL_STATE;
     status \<leftarrow> pfr_spi_erase_region E ROT_INTERNAL_INTEL_STATE True 0 region_size;
     if status \<noteq> 0 then ret Failure
     else do {
       region_size \<leftarrow> pfr_spi_get_device_size E ROT_INTERNAL_KEY;
       status \<leftarrow> pfr_spi_erase_region E ROT_INTERNAL_KEY True 0 region_size;
       if status \<noteq> 0 then ret Failure
       else do {
         region_size \<leftarrow> pfr_spi_get_device_size E ROT_INTERNAL_STATE;
         status \<leftarrow> pfr_spi_erase_region E ROT_INTERNAL_STATE True 0 region_size;
         if status \<noteq> 0 then ret Failure else ret Success
       }
     }
   }"

definition erase_provision_ufm_flash :: "env \<Rightarrow> (world, int) state" where
  "erase_provision_ufm_flash E = do {
     region_size \<leftarrow> pfr_spi_get_device_size E ROT_INTERNAL_INTEL_STATE;
     status \<leftarrow> pfr_spi_erase_region E ROT_INTERNAL_INTEL_STATE True 0 region_size;
     if status \<noteq> 0 then ret Failure else ret Success
   }"

definition get_provision_data_in_flash :: "env \<Rightarrow> u32 \<Rightarrow> u32 \<Rightarrow> (world, int \<times> u8 list) state" where
  "get_provision_data_in_flash E addr len = pfr_spi_read E ROT_INTERNAL_INTEL_STATE addr len"

text \<open>The status of the final program operation is not looked at, as in the code.\<close>

definition set_provision_data_in_flash :: "env \<Rightarrow> u32 \<Rightarrow> u8 list \<Rightarrow> (world, int) state" where
  "set_provision_data_in_flash E addr data =
     (if PROVISION_UFM_SIZE < addr + of_nat (length data) then ret Failure
      else do {
        (status, buffer) \<leftarrow> get_provision_data_in_flash E 0 PROVISION_UFM_SIZE;
        if status \<noteq> Success then ret Failure
        else do {
          status \<leftarrow> erase_provision_ufm_flash E;
          if status \<noteq> Success then ret Failure
          else do {
            pfr_spi_write E ROT_INTERNAL_INTEL_STATE 0 (overwrite buffer (unat addr) data);
            ret status
          }
        }
      })"

definition ufm_read :: "env \<Rightarrow> u32 \<Rightarrow> u32 \<Rightarrow> u32 \<Rightarrow> (world, int \<times> u8 list) state" where
  "ufm_read E ufm_id offset data_length =
     (if ufm_id = PROVISION_UFM then get_provision_data_in_flash E offset data_length
      else if ufm_id = UPDATE_STATUS_UFM then get_cpld_status E offset data_length
      else ret (Failure, fit (unat data_length) []))"

definition ufm_write :: "env \<Rightarrow> u32 \<Rightarrow> u32 \<Rightarrow> u8 list \<Rightarrow> (world, int) state" where
  "ufm_write E ufm_id offset data =
     (if ufm_id = PROVISION_UFM then set_provision_data_in_flash E offset data
      else if ufm_id = UPDATE_STATUS_UFM then set_cpld_status E offset data
      else ret Failure)"

definition ufm_erase :: "env \<Rightarrow> u32 \<Rightarrow> (world, int) state" where
  "ufm_erase E ufm_id =
     (if ufm_id = PROVISION_UFM then pfr_spi_erase_4k E ROT_INTERNAL_INTEL_STATE 0
      else if ufm_id = UPDATE_STATUS_UFM then pfr_spi_erase_4k E ROT_INTERNAL_STATE 0
      else ret Failure)"

lemma ufm_dev [dev_lemmas]:
  "state_io_rel dev_only (ufm_read E i off n)"
  "state_io_rel dev_only (ufm_write E i off bs)"
  "state_io_rel dev_only (ufm_erase E i)"
  "state_io_rel dev_only (erase_provision_flash E)"
  "state_io_rel dev_only (erase_provision_ufm_flash E)"
  "state_io_rel dev_only (get_provision_data_in_flash E off n)"
  "state_io_rel dev_only (set_provision_data_in_flash E off bs)"
  unfolding ufm_read_def ufm_write_def ufm_erase_def erase_provision_flash_def
    erase_provision_ufm_flash_def get_provision_data_in_flash_def get_cpld_status_def
    set_cpld_status_def set_provision_data_in_flash_def
  by (intro dev.keeps_intros dev_lemmas)+

section \<open>The contract of a byte store\<close>

definition patch :: "(nat \<Rightarrow> 'a) \<Rightarrow> nat \<Rightarrow> 'a list \<Rightarrow> nat \<Rightarrow> 'a" where
  "patch f off bs = (\<lambda>i. if off \<le> i \<and> i < off + length bs then bs ! (i - off) else f i)"

lemma nth_overwrite:
  "off + length bs \<le> length buf \<Longrightarrow> i < length buf \<Longrightarrow>
    overwrite buf off bs ! i = patch (\<lambda>i. buf ! i) off bs i"
  by (auto simp: overwrite_def patch_def nth_append)

text \<open>
  \<open>view\<close> is what the store holds; a read returns a slice of it and leaves it alone, a
  write inside the store patches it. \<open>ok\<close> is the documented behaviour of the device below.
\<close>

locale byte_store =
  fixes ok :: "'e \<Rightarrow> bool" and view :: "'s \<Rightarrow> nat \<Rightarrow> u8" and bound :: nat
    and rd :: "'e \<Rightarrow> u32 \<Rightarrow> u32 \<Rightarrow> ('s, int \<times> u8 list) state"
    and wr :: "'e \<Rightarrow> u32 \<Rightarrow> u8 list \<Rightarrow> ('s, int) state"
  assumes rd_result: "ok E \<Longrightarrow> result (rd E off n) s = (Success, mem_slice (view s) (unat off) (unat n))"
    and rd_view: "ok E \<Longrightarrow> view (exec (rd E off n) s) = view s"
    and wr_result: "ok E \<Longrightarrow> unat off + length bs \<le> bound \<Longrightarrow> result (wr E off bs) s = Success"
    and wr_view: "ok E \<Longrightarrow> unat off + length bs \<le> bound \<Longrightarrow> i < bound \<Longrightarrow>
      view (exec (wr E off bs) s) i = patch (view s) (unat off) bs i"
begin

lemma read_written:
  assumes "ok E" and "unat off + length bs \<le> bound" and "unat n = length bs"
  shows "result (rd E off n) (exec (wr E off bs) s) = (Success, bs)"
  using assms
  by (auto simp: rd_result wr_view patch_def intro!: nth_equalityI)

lemma read_elsewhere:
  assumes "ok E" and "unat off + length bs \<le> bound" and "unat o' + unat n \<le> bound"
    and "unat o' + unat n \<le> unat off \<or> unat off + length bs \<le> unat o'"
  shows "result (rd E o' n) (exec (wr E off bs) s) = result (rd E o' n) s"
  using assms
  by (auto simp: rd_result wr_view patch_def intro!: nth_equalityI)

lemma u32_round_trip:
  assumes "ok E" and "unat off + 4 \<le> bound"
  shows "map_prod id u32_of_bytes (result (rd E off 4) (exec (wr E off (u32_bytes w)) s)) = (Success, w)"
  using assms read_written [of E off "u32_bytes w" 4 s] u32_of_u32_bytes [of w "[]"] by simp

end

section \<open>Both areas are byte stores\<close>

lemma unat_add_bound:
  fixes x :: u32
  assumes "unat x + n \<le> b" and "b < 2 ^ 32"
  shows "unat (x + of_nat n) = unat x + n"
proof -
  have "unat (of_nat n :: u32) = n" using assms by (simp add: unsigned_of_nat take_bit_nat_eq_self)
  then show ?thesis using assms by (subst unat_add_lem [THEN iffD1]) simp_all
qed

lemma and_ff [simp]: "(0xff::u8) AND x = x"
proof -
  have "(0xff::u8) = -1" by simp
  then show ?thesis by (simp only: and.left_neutral)
qed

lemma rot_read:
  assumes "nor_flash E m0 rsize" and "\<not> d \<le> PCH_SPI"
  shows "run (pfr_spi_read E d a n) s =
    ((0, mem_slice (rot_mem m0 (trace s) d) (unat a) (unat n)),
     s\<lparr>trace := trace s @ [(Fl (RotFlashRead d a n),
        (0, mem_slice (rot_mem m0 (trace s) d) (unat a) (unat n)))]\<rparr>)"
  using assms(2) by (simp add: pfr_spi_read_def nor_flashD(1) [OF assms(1)])

lemma rot_write:
  assumes "nor_flash E m0 rsize" and "\<not> d \<le> PCH_SPI"
  shows "run (pfr_spi_write E d a bs) s =
    (0, s\<lparr>trace := trace s @ [(Fl (RotFlashWrite d a bs),
        (0, snd (reply_of E (trace s) (Fl (RotFlashWrite d a bs)))))]\<rparr>)"
  using assms(2) nor_flashD(2) [OF assms(1), of "trace s" d a bs]
  by (simp add: pfr_spi_write_def case_prod_beta prod_eq_iff)

lemma rot_erase_4k:
  assumes "nor_flash E m0 rsize" and "\<not> d \<le> PCH_SPI"
  shows "run (pfr_spi_erase_4k E d a) s =
    (0, s\<lparr>trace := trace s @ [(Fl (RotFlashErase d a SECTOR_SIZE True),
        (0, snd (reply_of E (trace s) (Fl (RotFlashErase d a SECTOR_SIZE True)))))]\<rparr>)"
  using assms(2) nor_flashD(3) [OF assms(1), of "trace s" d a SECTOR_SIZE True]
  by (simp add: pfr_spi_erase_4k_def case_prod_beta prod_eq_iff)

text \<open>Erasing the first \<open>n\<close> bytes of a ROT region: 0xff there and in the rest of the last page.\<close>

lemma rot_erase_region:
  assumes "nor_flash E m0 rsize" and "\<not> d \<le> PCH_SPI" and "unat n \<le> 2 ^ 32 - 4096"
  shows "result (pfr_spi_erase_region E d b 0 n) s = Success \<and>
    rot_mem m0 (trace (exec (pfr_spi_erase_region E d b 0 n) s)) = (rot_mem m0 (trace s))
      (d := \<lambda>i. if i < erase_end 0 n then 0xff else rot_mem m0 (trace s) d i)"
proof -
  obtain st s' where r: "run (erase_loop (erase_fuel n) E d b 0 n) s = (Some st, s')"
    using erase_loop_enough [of n 0 "erase_fuel n" E d b s] assms(3) by (auto simp: erase_fuel_def)
  from erase_loop_effect [OF assms(1,2,3) r] r show ?thesis
    by (simp add: pfr_spi_erase_region_def Let_def)
qed

lemma set_cpld_status_effect:
  assumes nor: "nor_flash E m0 rsize" and len: "unat off + length bs \<le> 4096"
  shows "result (set_cpld_status E off bs) s = Success \<and>
    rot_mem m0 (trace (exec (set_cpld_status E off bs) s)) = (rot_mem m0 (trace s))
      (ROT_INTERNAL_STATE := patch (rot_mem m0 (trace s) ROT_INTERNAL_STATE) (unat off) bs)"
proof -
  have no_wrap: "\<not> PAGE_SIZE < off + of_nat (length bs)"
    using unat_add_bound [OF len] len by (simp add: word_less_nat_alt)
  show ?thesis
    using len no_wrap
    by (auto simp: set_cpld_status_def rot_read [OF nor] rot_write [OF nor] rot_erase_4k [OF nor]
        Let_def fun_eq_iff nth_overwrite) (auto simp: patch_def)
qed

lemma set_provision_effect:
  assumes nor: "nor_flash E m0 rsize" and len: "unat off + length bs \<le> 512"
    and rs: "512 \<le> unat (rsize ROT_INTERNAL_INTEL_STATE)"
      "unat (rsize ROT_INTERNAL_INTEL_STATE) \<le> 2 ^ 32 - 4096"
  shows "result (set_provision_data_in_flash E off bs) s = Success \<and>
    (\<forall>d. d \<noteq> ROT_INTERNAL_INTEL_STATE \<longrightarrow>
       rot_mem m0 (trace (exec (set_provision_data_in_flash E off bs) s)) d = rot_mem m0 (trace s) d) \<and>
    (\<forall>i < 512. rot_mem m0 (trace (exec (set_provision_data_in_flash E off bs) s))
         ROT_INTERNAL_INTEL_STATE i =
       patch (rot_mem m0 (trace s) ROT_INTERNAL_INTEL_STATE) (unat off) bs i)"
proof -
  let ?d = "ROT_INTERNAL_INTEL_STATE" and ?n = "rsize ROT_INTERNAL_INTEL_STATE"
  have no_wrap: "\<not> PROVISION_UFM_SIZE < off + of_nat (length bs)"
    using unat_add_bound [of off "length bs" 512] len by (simp add: word_less_nat_alt)
  define s1 where "s1 = exec (get_provision_data_in_flash E 0 PROVISION_UFM_SIZE) s"
  define s2 where "s2 = exec (pfr_spi_get_device_size E ?d) s1"
  define s3 where "s3 = exec (pfr_spi_erase_region E ?d True 0 ?n) s2"
  have r1: "run (get_provision_data_in_flash E 0 PROVISION_UFM_SIZE) s =
      ((0, mem_slice (rot_mem m0 (trace s) ?d) 0 512), s1)"
    by (simp add: s1_def get_provision_data_in_flash_def rot_read [OF nor])
  have r2: "run (pfr_spi_get_device_size E ?d) s1 = (?n, s2)"
    using nor_flashD(4) [OF nor, of "trace s1" ?d]
    by (simp add: s2_def pfr_spi_get_device_size_def case_prod_beta)
  have m2: "rot_mem m0 (trace s2) = rot_mem m0 (trace s)"
    by (simp add: s2_def s1_def get_provision_data_in_flash_def pfr_spi_get_device_size_def
        rot_read [OF nor] case_prod_beta)
  have r3: "run (pfr_spi_erase_region E ?d True 0 ?n) s2 = (Success, s3)"
    and m3: "rot_mem m0 (trace s3) = (rot_mem m0 (trace s2))
      (?d := \<lambda>i. if i < erase_end 0 ?n then 0xff else rot_mem m0 (trace s2) ?d i)"
    using rot_erase_region [OF nor _ rs(2), of ?d True s2]
    by (simp_all add: s3_def prod_eq_iff)
  have cov: "512 \<le> erase_end 0 ?n" using erase_end_covers [of ?n 0] rs(1) by simp
  show ?thesis
    using len no_wrap cov
    by (auto simp: set_provision_data_in_flash_def erase_provision_ufm_flash_def r1 r2 r3 m3 m2
        rot_write [OF nor] Let_def nth_overwrite) (auto simp: patch_def)
qed

interpretation status_ufm:
  byte_store "\<lambda>E. nor_flash E m0 rsize" "\<lambda>s. rot_mem m0 (trace s) ROT_INTERNAL_STATE" 4096
    "\<lambda>E. ufm_read E UPDATE_STATUS_UFM" "\<lambda>E. ufm_write E UPDATE_STATUS_UFM"
  for m0 rsize
  by unfold_locales
     (simp_all add: ufm_read_def ufm_write_def get_cpld_status_def rot_read set_cpld_status_effect)

text \<open>The device the provisioning area needs: the region holds it, and ends a page below 4 GiB.\<close>

definition provision_ok :: "flash_mem \<Rightarrow> (u8 \<Rightarrow> u32) \<Rightarrow> env \<Rightarrow> bool" where
  "provision_ok m0 rsize E \<longleftrightarrow> nor_flash E m0 rsize \<and>
     512 \<le> unat (rsize ROT_INTERNAL_INTEL_STATE) \<and>
     unat (rsize ROT_INTERNAL_INTEL_STATE) \<le> 2 ^ 32 - 4096"

lemma ref_env_provision: "provision_ok (\<lambda>_ _. 0xff) (\<lambda>_. 65536) ref_env"
  by (simp add: provision_ok_def ref_env_nor_flash)

interpretation provision_ufm:
  byte_store "provision_ok m0 rsize" "\<lambda>s. rot_mem m0 (trace s) ROT_INTERNAL_INTEL_STATE" 512
    "\<lambda>E. ufm_read E PROVISION_UFM" "\<lambda>E. ufm_write E PROVISION_UFM"
  for m0 rsize
  by unfold_locales
     (auto simp: provision_ok_def ufm_read_def ufm_write_def get_provision_data_in_flash_def
        rot_read set_provision_effect)

section \<open>The update status in its 19 bytes\<close>

definition cpld_status_bytes :: "cpld_status \<Rightarrow> u8 list" where
  "cpld_status_bytes c =
     [CpldStatus c, BmcStatus c, PchStatus c, CsAfmStatus c,
      ActiveRegion (Region c ROT_REGION), Recoveryregion (Region c ROT_REGION),
      ActiveRegion (Region c BMC_REGION), Recoveryregion (Region c BMC_REGION),
      ActiveRegion (Region c PCH_REGION), Recoveryregion (Region c PCH_REGION),
      ActiveRegion (Region c AFM_REGION), Recoveryregion (Region c AFM_REGION),
      DecommissionFlag c, CpldRecovery c, BmcToPchStatus c, AttestationFlag c,
      fst (Reserved c), fst (snd (Reserved c)), snd (snd (Reserved c))]"

definition cpld_status_of_bytes :: "u8 list \<Rightarrow> cpld_status" where
  "cpld_status_of_bytes b =
     \<lparr>CpldStatus = b ! 0, BmcStatus = b ! 1, PchStatus = b ! 2, CsAfmStatus = b ! 3,
      Region = (\<lambda>r. case r of
          ROT_REGION \<Rightarrow> \<lparr>ActiveRegion = b ! 4, Recoveryregion = b ! 5\<rparr>
        | BMC_REGION \<Rightarrow> \<lparr>ActiveRegion = b ! 6, Recoveryregion = b ! 7\<rparr>
        | PCH_REGION \<Rightarrow> \<lparr>ActiveRegion = b ! 8, Recoveryregion = b ! 9\<rparr>
        | AFM_REGION \<Rightarrow> \<lparr>ActiveRegion = b ! 10, Recoveryregion = b ! 11\<rparr>),
      DecommissionFlag = b ! 12, CpldRecovery = b ! 13, BmcToPchStatus = b ! 14,
      AttestationFlag = b ! 15, Reserved = (b ! 16, b ! 17, b ! 18)\<rparr>"

abbreviation "sizeof_CPLD_STATUS \<equiv> 19 :: u32"

lemma length_cpld_status_bytes [simp]: "length (cpld_status_bytes c) = 19"
  by (simp add: cpld_status_bytes_def)

lemma cpld_status_of_cpld_status_bytes [simp]: "cpld_status_of_bytes (cpld_status_bytes c) = c"
  by (cases c) (auto simp: cpld_status_of_bytes_def cpld_status_bytes_def fun_eq_iff
      split: region_def.split)

text \<open>\<open>ufm_read\<close> and \<open>ufm_write\<close> of the whole \<open>CPLD_STATUS\<close>, as its users call them.\<close>

definition read_update_status :: "env \<Rightarrow> (world, int \<times> cpld_status) state" where
  "read_update_status E = do {
     (status, bs) \<leftarrow> ufm_read E UPDATE_STATUS_UFM UPDATE_STATUS_ADDRESS sizeof_CPLD_STATUS;
     ret (status, cpld_status_of_bytes bs)
   }"

definition write_update_status :: "env \<Rightarrow> cpld_status \<Rightarrow> (world, int) state" where
  "write_update_status E c = ufm_write E UPDATE_STATUS_UFM UPDATE_STATUS_ADDRESS (cpld_status_bytes c)"

lemma update_status_dev [dev_lemmas]:
  "state_io_rel dev_only (read_update_status E)" "state_io_rel dev_only (write_update_status E c)"
  unfolding read_update_status_def write_update_status_def
  by (intro dev.keeps_intros dev_lemmas)+

lemma read_written_update_status:
  assumes "nor_flash E m0 rsize"
  shows "result (read_update_status E) (exec (write_update_status E c) s) = (Success, c)"
  using status_ufm.read_written [OF assms, of UPDATE_STATUS_ADDRESS "cpld_status_bytes c"
      sizeof_CPLD_STATUS s]
  by (simp add: read_update_status_def write_update_status_def case_prod_beta)

section \<open>What the two areas promise\<close>

text \<open>
  C38: on a flash that behaves as NOR flash does, a write of the provisioning area inside its
  512 bytes succeeds, is read back as written, and leaves every disjoint range of the area as it
  was.
\<close>

theorem provisioning_area_round_trip:
  assumes "provision_ok m0 rsize E" and "unat off + length bs \<le> 512"
  shows "result (ufm_write E PROVISION_UFM off bs) s = Success \<and>
    result (ufm_read E PROVISION_UFM off (of_nat (length bs)))
      (exec (ufm_write E PROVISION_UFM off bs) s) = (Success, bs) \<and>
    (\<forall>o' n. unat o' + unat n \<le> 512 \<and> (unat o' + unat n \<le> unat off \<or> unat off + length bs \<le> unat o')
       \<longrightarrow> result (ufm_read E PROVISION_UFM o' n) (exec (ufm_write E PROVISION_UFM off bs) s) =
          result (ufm_read E PROVISION_UFM o' n) s)"
proof -
  have "unat (of_nat (length bs) :: u32) = length bs"
    using assms(2) by (simp add: unsigned_of_nat take_bit_nat_eq_self)
  then show ?thesis
    using provision_ufm.read_written [OF assms] provision_ufm.wr_result [OF assms]
      provision_ufm.read_elsewhere [OF assms] by blast
qed

theorem provisioning_area_round_trip_witness:
  "result (ufm_read ref_env PROVISION_UFM 0x034 4)
     (exec (ufm_write ref_env PROVISION_UFM 0x034 [1, 2, 3, 4]) boot_world) = (Success, [1, 2, 3, 4])"
  using provisioning_area_round_trip [OF ref_env_provision, of "0x034" "[1, 2, 3, 4]" boot_world]
  by simp

text \<open>
  C39: the 19-byte update status that is written to its area is the one that is read at the next
  boot, and the write does not touch any other ROT region.
\<close>

theorem update_status_round_trip:
  assumes "nor_flash E m0 rsize"
  shows "result (read_update_status E) (exec (write_update_status E c) s) = (Success, c) \<and>
    (\<forall>d. d \<noteq> ROT_INTERNAL_STATE \<longrightarrow>
       rot_mem m0 (trace (exec (write_update_status E c) s)) d = rot_mem m0 (trace s) d)"
  using read_written_update_status [OF assms]
    set_cpld_status_effect [OF assms, of UPDATE_STATUS_ADDRESS "cpld_status_bytes c" s]
  by (simp add: write_update_status_def ufm_write_def)

definition clear_status :: cpld_status where
  "clear_status = cpld_status_of_bytes (replicate 19 0)"

theorem update_status_round_trip_witness:
  "result (read_update_status ref_env)
     (exec (write_update_status ref_env (clear_status\<lparr>BmcStatus := 1\<rparr>)) boot_world) =
   (Success, clear_status\<lparr>BmcStatus := 1\<rparr>)"
  using update_status_round_trip [OF ref_env_nor_flash, of "clear_status\<lparr>BmcStatus := 1\<rparr>" boot_world]
  by simp

end
