(* ===== verification/Pfr_Keys.thy ===== *)
theory Pfr_Keys
  imports Pfr_Ufm
begin

text \<open>
  Key cancellation, \<open>intel_pfr/intel_pfr_key_cancellation.c\<close>: one policy of 128 bits per kind of
  signed content in the provisioning area, a set bit for every code signing key that may still be
  used. \<open>verify_csk_key_id\<close> asks, \<open>cancel_csk_key_id\<close> clears a bit for good.
\<close>

section \<open>Operations\<close>

definition get_cancellation_policy_offset :: "env \<Rightarrow> u32 \<Rightarrow> u32" where
  "get_cancellation_policy_offset E pctype =
     (if pctype = CPLD_CAPSULE_CANCELLATION \<or> pctype = PFR_CPLD_UPDATE_CAPSULE \<or>
         pctype = PFR_CPLD_UPDATE_CAPSULE_DECOMMISSON
      then KEY_CANCELLATION_POLICY_FOR_SIGNING_CPLD_UPDATE_CAPSULE
      else if pctype = PCH_PFM_CANCELLATION \<or> pctype = PFR_PCH_PFM
      then KEY_CANCELLATION_POLICY_FOR_SIGNING_PCH_PFM
      else if pctype = PCH_CAPSULE_CANCELLATION \<or> pctype = PFR_PCH_UPDATE_CAPSULE
      then KEY_CANCELLATION_POLICY_FOR_SIGNING_PCH_UPDATE_CAPSULE
      else if pctype = BMC_PFM_CANCELLATION \<or> pctype = PFR_BMC_PFM
      then KEY_CANCELLATION_POLICY_FOR_SIGNING_BMC_PFM
      else if pctype = BMC_CAPSULE_CANCELLATION \<or> pctype = PFR_BMC_UPDATE_CAPSULE
      then KEY_CANCELLATION_POLICY_FOR_SIGNING_BMC_UPDATE_CAPSULE
      else if CONFIG_PFR_SPDM_ATTESTATION E \<and>
              (pctype = AFM_CANCELLATION \<or> pctype = PFR_AFM \<or> pctype = PFR_AFM_PER_DEV)
      then KEY_CANCELLATION_POLICY_FOR_AFM
      else 0)"

text \<open>The word of a policy that holds a key's bit, and the bit in it.\<close>

definition policy_word :: "u32 \<Rightarrow> u8 \<Rightarrow> u32" where
  "policy_word ufm_offset key_id = ufm_offset + ucast (key_id div 32) * 4"

definition policy_bit :: "u8 \<Rightarrow> nat" where
  "policy_bit key_id = 31 - unat key_id mod 32"

definition verify_csk_key_id :: "env \<Rightarrow> u8 \<Rightarrow> (world, int) state" where
  "verify_csk_key_id E key_id = do {
     m \<leftarrow> gets manifest;
     let ufm_offset = get_cancellation_policy_offset E (pc_type m);
     if CONFIG_SEAMLESS_UPDATE E \<and> pc_type m = PFR_PCH_SEAMLESS_UPDATE_CAPSULE then ret Success
     else if ufm_offset = 0 then ret Failure
     else if 127 < key_id then ret Failure
     else do {
       (status, bs) \<leftarrow> ufm_read E PROVISION_UFM (policy_word ufm_offset key_id) 4;
       if status \<noteq> Success then ret Failure
       else if \<not> bit (u32_of_bytes bs) (policy_bit key_id) then ret Failure
       else ret Success
     }
   }"

definition verify_key_unused :: "env \<Rightarrow> u32 \<Rightarrow> u8 \<Rightarrow> (world, bool) state" where
  "verify_key_unused E ufm_offset key_id = do {
     (status, bs) \<leftarrow> ufm_read E PROVISION_UFM ufm_offset 4;
     if status \<noteq> 0 then ret False
     else do {
       let base = u32_of_bytes bs;
       let base_addr = (if ufm_offset = BMC_RECOVERY_REGION_OFFSET \<or> ufm_offset = PCH_RECOVERY_REGION_OFFSET
                        then base + PFM_SIG_BLOCK_SIZE else base);
       let region = (if ufm_offset = BMC_RECOVERY_REGION_OFFSET \<or> ufm_offset = BMC_ACTIVE_PFM_OFFSET
                     then Some BMC_SPI
                     else if ufm_offset = PCH_RECOVERY_REGION_OFFSET \<or> ufm_offset = PCH_ACTIVE_PFM_OFFSET
                     then Some PCH_SPI else None);
       case region of
         None \<Rightarrow> ret False
       | Some flash_device \<Rightarrow> do {
           (status, csk_id) \<leftarrow> pfr_spi_read E flash_device (base_addr + 128 + 160) 4;
           if status \<noteq> 0 then ret False
           else if ucast (u32_of_bytes csk_id) = key_id then ret False
           else ret True
         }
     }
   }"

definition is_csk_unused :: "env \<Rightarrow> u8 \<Rightarrow> u32 \<Rightarrow> (world, bool) state" where
  "is_csk_unused E key_id pctype =
     (if pctype = PCH_PFM_CANCELLATION then do {
        unused \<leftarrow> verify_key_unused E PCH_ACTIVE_PFM_OFFSET key_id;
        if \<not> unused then ret False
        else verify_key_unused E PCH_RECOVERY_REGION_OFFSET key_id
      }
      else if pctype = BMC_PFM_CANCELLATION then do {
        unused \<leftarrow> verify_key_unused E BMC_ACTIVE_PFM_OFFSET key_id;
        if \<not> unused then ret False
        else verify_key_unused E BMC_RECOVERY_REGION_OFFSET key_id
      }
      else ret True)"

definition cancel_csk_key_id :: "env \<Rightarrow> u8 \<Rightarrow> (world, int) state" where
  "cancel_csk_key_id E key_id = do {
     m \<leftarrow> gets manifest;
     let ufm_offset = get_cancellation_policy_offset E (pc_type m);
     if ufm_offset = 0 then ret Failure
     else if 127 < key_id then ret Failure
     else do {
       unused \<leftarrow> is_csk_unused E key_id (pc_type m);
       if \<not> unused then ret Failure
       else do {
         (status, bs) \<leftarrow> ufm_read E PROVISION_UFM (policy_word ufm_offset key_id) 4;
         if status \<noteq> Success then ret Failure
         else do {
           let policy_data = u32_of_bytes bs AND NOT (push_bit (policy_bit key_id) 1);
           status \<leftarrow> ufm_write E PROVISION_UFM (policy_word ufm_offset key_id) (u32_bytes policy_data);
           if status \<noteq> Success then ret Failure else ret Success
         }
       }
     }
   }"

text \<open>
  \<open>validate_key_cancellation_flag\<close>: a cancellation certificate must have zeros after the key
  id; every other image must be signed by a key that is not cancelled. The 32-bit key id of the
  image is passed on as a byte.
\<close>

definition image_read :: "env \<Rightarrow> u32 \<Rightarrow> u32 \<Rightarrow> (world, int \<times> u8 list) state" where
  "image_read E address len = do {
     m \<leftarrow> gets manifest;
     pfr_spi_read E (ucast (image_type m)) address len
   }"

definition lms_curve :: "pfr_manifest \<Rightarrow> bool" where
  "lms_curve m \<longleftrightarrow> hash_curve m = hash_sign_algo384 \<or> hash_curve m = hash_sign_algo256"

definition sig_block_size :: "pfr_manifest \<Rightarrow> u32" where
  "sig_block_size m = (if lms_curve m then LMS_PFM_SIG_BLOCK_SIZE else PFM_SIG_BLOCK_SIZE)"

text \<open>The address of the CSK entry's key id: after block 0, at \<open>CSK_KEY_ID_ADDRESS\<close> of block 1.\<close>

definition csk_key_id_address :: "pfr_manifest \<Rightarrow> u32" where
  "csk_key_id_address m = m_address m + 128 + 160"

definition is_cancellation :: "u32 \<Rightarrow> bool" where
  "is_cancellation pctype \<longleftrightarrow> pctype = CPLD_CAPSULE_CANCELLATION \<or> pctype = PCH_PFM_CANCELLATION \<or>
     pctype = PCH_CAPSULE_CANCELLATION \<or> pctype = BMC_PFM_CANCELLATION \<or> pctype = BMC_CAPSULE_CANCELLATION"

definition upd_manifest :: "(pfr_manifest \<Rightarrow> pfr_manifest) \<Rightarrow> (world, unit) state" where
  "upd_manifest f = modify (\<lambda>s. s\<lparr>manifest := f (manifest s)\<rparr>)"

lemma run_upd_manifest [simp]: "run (upd_manifest f) s = ((), s\<lparr>manifest := f (manifest s)\<rparr>)"
  by (simp add: upd_manifest_def)

definition validate_key_cancellation_flag :: "env \<Rightarrow> (world, int) state" where
  "validate_key_cancellation_flag E = do {
     m \<leftarrow> gets manifest;
     if is_cancellation (pc_type m) then do {
       (status, read_buffer) \<leftarrow> image_read E (m_address m + sig_block_size m + 4) 124;
       if status \<noteq> Success then ret Failure
       else if \<not> list_all (\<lambda>b. b = 0) read_buffer then ret Failure
       else do {
         upd_manifest (kc_flag_update (\<lambda>_. 1));
         ret Success
       }
     }
     else do {
       (status, key_id) \<leftarrow> image_read E (csk_key_id_address m) 4;
       if status \<noteq> Success then ret Failure
       else do {
         status \<leftarrow> verify_csk_key_id E (ucast (u32_of_bytes key_id));
         if status \<noteq> Success then ret Failure
         else do {
           upd_manifest (kc_flag_update (\<lambda>_. 0));
           ret Success
         }
       }
     }
   }"

lemma key_dev [dev_lemmas]:
  "state_io_rel dev_only (verify_csk_key_id E k)"
  "state_io_rel dev_only (verify_key_unused E off k)"
  "state_io_rel dev_only (is_csk_unused E k t)"
  "state_io_rel dev_only (cancel_csk_key_id E k)"
  "state_io_rel dev_only (image_read E a n)"
  unfolding verify_csk_key_id_def verify_key_unused_def is_csk_unused_def cancel_csk_key_id_def
    image_read_def Let_def
  by (intro dev.keeps_intros dev_lemmas)+

section \<open>The policies as sets of keys\<close>

definition policy_offsets :: "u32 set" where
  "policy_offsets =
     {KEY_CANCELLATION_POLICY_FOR_SIGNING_CPLD_UPDATE_CAPSULE, KEY_CANCELLATION_POLICY_FOR_SIGNING_PCH_PFM,
      KEY_CANCELLATION_POLICY_FOR_SIGNING_PCH_UPDATE_CAPSULE, KEY_CANCELLATION_POLICY_FOR_SIGNING_BMC_PFM,
      KEY_CANCELLATION_POLICY_FOR_SIGNING_BMC_UPDATE_CAPSULE, KEY_CANCELLATION_POLICY_FOR_AFM}"

lemma get_cancellation_policy_offset_range:
  "get_cancellation_policy_offset E t = 0 \<or> get_cancellation_policy_offset E t \<in> policy_offsets"
  by (simp add: get_cancellation_policy_offset_def policy_offsets_def)

lemma policy_offsets_nonzero: "off \<in> policy_offsets \<Longrightarrow> off \<noteq> 0"
  by (auto simp: policy_offsets_def)

definition policy_data :: "(nat \<Rightarrow> u8) \<Rightarrow> u32 \<Rightarrow> u8 \<Rightarrow> u32" where
  "policy_data ufm off k = u32_of_bytes (mem_slice ufm (unat (policy_word off k)) 4)"

text \<open>The keys that the policy at \<open>off\<close> still allows, as the bytes of the UFM say.\<close>

definition key_allowed :: "(nat \<Rightarrow> u8) \<Rightarrow> u32 \<Rightarrow> u8 \<Rightarrow> bool" where
  "key_allowed ufm off k \<longleftrightarrow> k \<le> 127 \<and> bit (policy_data ufm off k) (policy_bit k)"

lemma unat_policy_word:
  assumes "off \<in> policy_offsets" and "k \<le> 127"
  shows "unat (policy_word off k) = unat off + 4 * (unat k div 32)"
    and "unat (policy_word off k) + 4 \<le> 512"
proof -
  have k: "unat k \<le> 127" using assms(2) by (simp add: word_le_nat_alt)
  then have q: "unat k div 32 \<le> 3" by simp
  have off: "unat off \<le> 0x13c" using assms(1) by (auto simp: policy_offsets_def)
  have "(ucast (k div 32) :: u32) = of_nat (unat (k div 32))" by simp
  also have "unat (k div 32) = unat k div 32" by (simp add: unat_div)
  finally have "policy_word off k = off + of_nat (4 * (unat k div 32))"
    unfolding policy_word_def by (simp only: of_nat_mult of_nat_numeral mult.commute)
  then show eq: "unat (policy_word off k) = unat off + 4 * (unat k div 32)"
    using unat_add_bound [of off "4 * (unat k div 32)" 512] off q by simp
  show "unat (policy_word off k) + 4 \<le> 512" using off q unfolding eq by simp
qed

text \<open>Two keys have their bit in the same word or in disjoint words.\<close>

lemma policy_words_apart:
  assumes "off \<in> policy_offsets" "off' \<in> policy_offsets" and "k \<le> 127" "k' \<le> 127"
  shows "off = off' \<and> unat k div 32 = unat k' div 32 \<or>
    unat (policy_word off k) + 4 \<le> unat (policy_word off' k') \<or>
    unat (policy_word off' k') + 4 \<le> unat (policy_word off k)"
proof -
  have q: "unat k div 32 \<le> 3" "unat k' div 32 \<le> 3"
    using assms(3,4) by (simp_all add: word_le_nat_alt)
  then have "unat k div 32 \<in> {0, 1, 2, 3}" "unat k' div 32 \<in> {0, 1, 2, 3}" by auto
  moreover have "off = off' \<or> unat off + 16 \<le> unat off' \<or> unat off' + 16 \<le> unat off"
    using assms(1,2) unfolding policy_offsets_def by (elim insertE; simp)
  ultimately show ?thesis
    using unat_policy_word(1) [OF assms(1,3)] unat_policy_word(1) [OF assms(2,4)] q by fastforce
qed

lemma policy_bit_inj:
  assumes "unat k div 32 = unat k' div 32" and "policy_bit k = policy_bit k'"
  shows "k = k'"
proof -
  have "unat k mod 32 = unat k' mod 32"
    using assms(2) mod_less_divisor [of 32 "unat k"] mod_less_divisor [of 32 "unat k'"]
    by (simp add: policy_bit_def)
  then have "unat k = unat k'" using assms(1) div_mult_mod_eq by metis
  then show ?thesis by (rule word_unat_eq_iff [THEN iffD2])
qed

lemma verify_csk_key_id_result:
  assumes "provision_ok m0 rsize E"
  shows "result (verify_csk_key_id E k) s =
    (if (CONFIG_SEAMLESS_UPDATE E \<and> pc_type (manifest s) = PFR_PCH_SEAMLESS_UPDATE_CAPSULE) \<or>
        (get_cancellation_policy_offset E (pc_type (manifest s)) \<noteq> 0 \<and>
         key_allowed (rot_mem m0 (trace s) ROT_INTERNAL_INTEL_STATE)
           (get_cancellation_policy_offset E (pc_type (manifest s))) k)
     then Success else Failure)"
proof -
  have "result (ufm_read E PROVISION_UFM a 4) s =
      (Success, mem_slice (rot_mem m0 (trace s) ROT_INTERNAL_INTEL_STATE) (unat a) 4)" for a
    using provision_ufm.rd_result [OF assms, of a 4 s] by simp
  then show ?thesis
    by (auto simp: verify_csk_key_id_def case_prod_beta key_allowed_def policy_data_def not_le Let_def)
qed

text \<open>Asking whether a key is unused only reads, so the provisioning area stays what it was.\<close>

lemma ufm_view_read:
  assumes "provision_ok m0 rsize E"
  shows "rot_mem m0 (trace (exec (ufm_read E PROVISION_UFM a n) s)) = rot_mem m0 (trace s)"
  using assms
  by (auto simp: provision_ok_def ufm_read_def get_provision_data_in_flash_def rot_read)

lemma ufm_view_host_read:
  assumes "d \<le> PCH_SPI"
  shows "rot_mem m0 (trace (exec (pfr_spi_read E d a n) s)) = rot_mem m0 (trace s)"
  using assms by (simp add: pfr_spi_read_def case_prod_beta)

lemma verify_key_unused_view:
  assumes "provision_ok m0 rsize E"
  shows "rot_mem m0 (trace (exec (verify_key_unused E off k) s)) = rot_mem m0 (trace s)"
  by (simp add: verify_key_unused_def case_prod_beta Let_def ufm_view_read [OF assms] ufm_view_host_read)

lemma is_csk_unused_view:
  assumes "provision_ok m0 rsize E"
  shows "rot_mem m0 (trace (exec (is_csk_unused E k t) s)) = rot_mem m0 (trace s)"
  by (simp add: is_csk_unused_def case_prod_beta verify_key_unused_view [OF assms])

lemma exec_dev_manifest: "state_io_rel dev_only m \<Longrightarrow> manifest (exec m s) = manifest s"
  by (rule dev_onlyE [of m s]) simp_all

text \<open>What a successful cancellation leaves in the provisioning area.\<close>

lemma cancel_csk_key_id_effect:
  assumes ok: "provision_ok m0 rsize E" and success: "result (cancel_csk_key_id E k) s = Success"
  defines "off \<equiv> get_cancellation_policy_offset E (pc_type (manifest s))"
    and "u \<equiv> rot_mem m0 (trace s) ROT_INTERNAL_INTEL_STATE"
  shows "off \<in> policy_offsets" and "k \<le> 127"
    and "\<And>i. i < 512 \<Longrightarrow> rot_mem m0 (trace (exec (cancel_csk_key_id E k) s)) ROT_INTERNAL_INTEL_STATE i =
      patch u (unat (policy_word off k)) (u32_bytes (policy_data u off k AND NOT (push_bit (policy_bit k) 1))) i"
proof -
  show off: "off \<in> policy_offsets"
    using success get_cancellation_policy_offset_range [of E "pc_type (manifest s)"]
    by (auto simp: cancel_csk_key_id_def off_def Let_def case_prod_beta split: if_splits)
  show k: "k \<le> 127"
    using success by (auto simp: cancel_csk_key_id_def Let_def case_prod_beta not_le split: if_splits)
  define s1 where "s1 = exec (is_csk_unused E k (pc_type (manifest s))) s"
  define s2 where "s2 = exec (ufm_read E PROVISION_UFM (policy_word off k) 4) s1"
  have unused: "run (is_csk_unused E k (pc_type (manifest s))) s = (True, s1)"
    using success off policy_offsets_nonzero [OF off]
    by (cases "run (is_csk_unused E k (pc_type (manifest s))) s")
       (auto simp: cancel_csk_key_id_def off_def [symmetric] s1_def Let_def case_prod_beta split: if_splits)
  have v1: "rot_mem m0 (trace s1) = rot_mem m0 (trace s)" and v2: "rot_mem m0 (trace s2) = rot_mem m0 (trace s1)"
    by (simp_all add: s1_def s2_def is_csk_unused_view [OF ok] ufm_view_read [OF ok])
  have rd: "run (ufm_read E PROVISION_UFM (policy_word off k) 4) s1 =
      ((Success, mem_slice u (unat (policy_word off k)) 4), s2)"
    using provision_ufm.rd_result [OF ok, of "policy_word off k" 4 s1] v1
    by (simp add: s2_def prod_eq_iff u_def)
  let ?w = "policy_data u off k AND NOT (push_bit (policy_bit k) 1)"
  have "exec (cancel_csk_key_id E k) s = exec (ufm_write E PROVISION_UFM (policy_word off k) (u32_bytes ?w)) s2"
    using policy_offsets_nonzero [OF off] k
    by (simp add: cancel_csk_key_id_def off_def [symmetric] Let_def unused rd not_less [symmetric]
        policy_data_def case_prod_beta)
  then show "rot_mem m0 (trace (exec (cancel_csk_key_id E k) s)) ROT_INTERNAL_INTEL_STATE i =
      patch u (unat (policy_word off k)) (u32_bytes ?w) i" if "i < 512" for i
    using provision_ufm.wr_view [OF ok, of "policy_word off k" "u32_bytes ?w" i s2] that
      unat_policy_word(2) [OF off k] v1 v2 by (simp add: u_def)
qed

lemma key_allowed_after_cancel:
  assumes ok: "provision_ok m0 rsize E" and success: "result (cancel_csk_key_id E k) s = Success"
    and off': "off' \<in> policy_offsets"
  shows "key_allowed (rot_mem m0 (trace (exec (cancel_csk_key_id E k) s)) ROT_INTERNAL_INTEL_STATE) off' k' \<longleftrightarrow>
    key_allowed (rot_mem m0 (trace s) ROT_INTERNAL_INTEL_STATE) off' k' \<and>
    \<not> (off' = get_cancellation_policy_offset E (pc_type (manifest s)) \<and> k' = k)"
proof (cases "k' \<le> 127")
  case False
  then show ?thesis by (simp add: key_allowed_def)
next
  case k': True
  define off where "off = get_cancellation_policy_offset E (pc_type (manifest s))"
  define u where "u = rot_mem m0 (trace s) ROT_INTERNAL_INTEL_STATE"
  define v where "v = rot_mem m0 (trace (exec (cancel_csk_key_id E k) s)) ROT_INTERNAL_INTEL_STATE"
  define w where "w = policy_data u off k AND NOT (push_bit (policy_bit k) 1)"
  note eff = cancel_csk_key_id_effect [OF ok success, folded off_def u_def v_def, folded w_def]
  note bounds = unat_policy_word(2) [OF eff(1,2)] unat_policy_word(2) [OF off' k']
  have slice: "mem_slice v a 4 = mem_slice (patch u (unat (policy_word off k)) (u32_bytes w)) a 4"
    if "a + 4 \<le> 512" for a
    using eff(3) that by (auto intro!: nth_equalityI)
  have "bit (policy_data v off' k') (policy_bit k') \<longleftrightarrow>
      bit (policy_data u off' k') (policy_bit k') \<and> \<not> (off' = off \<and> k' = k)"
  proof (cases "off = off' \<and> unat k div 32 = unat k' div 32")
    case same: True
    then have eq: "policy_word off' k' = policy_word off k"
      using unat_policy_word(1) [OF eff(1,2)] unat_policy_word(1) [OF off' k']
      by (simp add: word_unat_eq_iff)
    have "mem_slice v (unat (policy_word off k)) 4 = u32_bytes w"
      unfolding slice [OF bounds(1)] by (rule nth_equalityI) (simp_all add: patch_def)
    then have "policy_data v off' k' = w"
      using u32_of_u32_bytes [of w "[]"] by (simp add: policy_data_def eq)
    moreover have "policy_data u off' k' = policy_data u off k" by (simp add: policy_data_def eq)
    moreover have "(policy_bit k' = policy_bit k) = (k' = k)" using policy_bit_inj [of k k'] same by auto
    moreover have "policy_bit k' < 32" by (simp add: policy_bit_def)
    ultimately show ?thesis using same by (auto simp: w_def bit_simps)
  next
    case apart: False
    from apart policy_words_apart [OF eff(1) off' eff(2) k']
    have "mem_slice v (unat (policy_word off' k')) 4 = mem_slice u (unat (policy_word off' k')) 4"
      unfolding slice [OF bounds(2)] by (intro nth_equalityI) (auto simp: patch_def)
    then show ?thesis using apart by (auto simp: policy_data_def)
  qed
  then show ?thesis using k' by (simp add: key_allowed_def u_def v_def off_def)
qed

section \<open>What key cancellation promises\<close>

text \<open>
  C26: a cancelled key stays refused: after a successful cancellation the signing key it names is
  rejected for every image under the same policy, and the answer for every other key and every
  other kind of image is what it was before.
\<close>

theorem cancelled_key_is_refused:
  assumes "provision_ok m0 rsize E" and "result (cancel_csk_key_id E k) s = Success"
  shows "result (verify_csk_key_id E k') ((exec (cancel_csk_key_id E k) s)\<lparr>manifest := m\<rparr>) =
    (if get_cancellation_policy_offset E (pc_type m) =
        get_cancellation_policy_offset E (pc_type (manifest s)) \<and> k' = k
     then Failure
     else result (verify_csk_key_id E k') (s\<lparr>manifest := m\<rparr>))"
proof -
  note off = cancel_csk_key_id_effect(1) [OF assms]
  have seamless: "get_cancellation_policy_offset E PFR_PCH_SEAMLESS_UPDATE_CAPSULE = 0"
    by (simp add: get_cancellation_policy_offset_def)
  show ?thesis
    using policy_offsets_nonzero [OF off] seamless get_cancellation_policy_offset_range [of E "pc_type m"]
    by (auto simp: verify_csk_key_id_result [OF assms(1)] key_allowed_after_cancel [OF assms])
qed

definition cancel_world :: world where
  "cancel_world = boot_world\<lparr>manifest := (manifest boot_world)\<lparr>pc_type := BMC_CAPSULE_CANCELLATION\<rparr>\<rparr>"

lemma cancel_world_success: "result (cancel_csk_key_id ref_env 5) cancel_world = Success"
proof -
  have off: "KEY_CANCELLATION_POLICY_FOR_SIGNING_BMC_UPDATE_CAPSULE \<in> policy_offsets"
    by (simp add: policy_offsets_def)
  have "unat (policy_word KEY_CANCELLATION_POLICY_FOR_SIGNING_BMC_UPDATE_CAPSULE 5) + 4 \<le> 512"
    using unat_policy_word(2) [OF off, of 5] by simp
  then show ?thesis
    using provision_ufm.rd_result [OF ref_env_provision, of _ 4] provision_ufm.wr_result [OF ref_env_provision]
    by (simp add: cancel_csk_key_id_def cancel_world_def get_cancellation_policy_offset_def Let_def
        is_csk_unused_def case_prod_beta)
qed

theorem cancelled_key_is_refused_witness:
  "result (verify_csk_key_id ref_env 5) ((exec (cancel_csk_key_id ref_env 5) cancel_world)
     \<lparr>manifest := (manifest boot_world)\<lparr>pc_type := PFR_BMC_UPDATE_CAPSULE\<rparr>\<rparr>) = Failure"
  using cancelled_key_is_refused [OF ref_env_provision cancel_world_success, of 5]
  by (simp add: get_cancellation_policy_offset_def cancel_world_def)

text \<open>
  The key id of an image is compared by its low byte only: an image whose 32-bit key id is
  above 255 passes the cancellation check whenever the key with that low byte is allowed,
  although a comment in the code says that the id must be within 0 to 127.
\<close>

theorem key_id_is_truncated:
  assumes "provision_ok m0 rsize E" and "\<not> is_cancellation (pc_type (manifest s))"
    and "result (image_read E (csk_key_id_address (manifest s)) 4) s = (Success, u32_bytes key_id)"
    and "get_cancellation_policy_offset E (pc_type (manifest s)) \<noteq> 0"
    and "key_allowed (rot_mem m0 (trace s) ROT_INTERNAL_INTEL_STATE)
      (get_cancellation_policy_offset E (pc_type (manifest s))) (ucast (key_id AND 0xff))"
  shows "result (validate_key_cancellation_flag E) s = Success"
proof -
  define s1 where "s1 = exec (image_read E (csk_key_id_address (manifest s)) 4) s"
  have r: "run (image_read E (csk_key_id_address (manifest s)) 4) s = ((Success, u32_bytes key_id), s1)"
    using assms(3) by (simp add: s1_def prod_eq_iff)
  have "rot_mem m0 (trace s1) ROT_INTERNAL_INTEL_STATE = rot_mem m0 (trace s) ROT_INTERNAL_INTEL_STATE"
    using assms(1)
    by (cases "ucast (image_type (manifest s)) \<le> PCH_SPI")
       (auto simp: s1_def image_read_def provision_ok_def rot_read pfr_spi_read_def case_prod_beta)
  moreover have "manifest s1 = manifest s"
    unfolding s1_def by (rule exec_dev_manifest) (rule dev_lemmas)
  moreover have "(ucast (key_id AND 0xff) :: u8) = ucast key_id"
  proof -
    have "(0xff :: u32) = mask 8" by (simp add: mask_eq_exp_minus_1)
    then have "bit (0xff :: u32) n \<longleftrightarrow> n < 8" for n by (auto simp only: bit_mask_iff) simp
    then show ?thesis by (intro bit_word_eqI) (auto simp: bit_simps)
  qed
  ultimately have "result (verify_csk_key_id E (ucast key_id)) s1 = Success"
    using assms(4,5) by (simp add: verify_csk_key_id_result [OF assms(1)])
  then show ?thesis
    using assms(2) u32_of_u32_bytes [of key_id "[]"]
    by (simp add: validate_key_cancellation_flag_def r case_prod_beta)
qed

text \<open>A machine whose host flash reads as the given bytes, on top of the reference machine.\<close>

definition host_env :: "(u32 \<Rightarrow> u8 list) \<Rightarrow> env" where
  "host_env f = ref_env\<lparr>reply_of := (\<lambda>tr c. case c of Fl (HostFlashRead d a n) \<Rightarrow> (0, f a) | _ \<Rightarrow> ref_reply tr c)\<rparr>"

lemma host_env_provision: "provision_ok (\<lambda>_ _. 0xff) (\<lambda>_. 65536) (host_env f)"
  using ref_env_provision by (simp add: provision_ok_def host_env_def nor_flash_def)

theorem key_id_is_truncated_witness:
  "result (validate_key_cancellation_flag (host_env (\<lambda>_. u32_bytes 0x105)))
     (boot_world\<lparr>manifest := (manifest boot_world)\<lparr>pc_type := PFR_BMC_UPDATE_CAPSULE\<rparr>\<rparr>) = Success"
proof -
  have "get_cancellation_policy_offset (host_env f) PFR_BMC_UPDATE_CAPSULE =
      KEY_CANCELLATION_POLICY_FOR_SIGNING_BMC_UPDATE_CAPSULE" for f
    by (simp add: get_cancellation_policy_offset_def)
  moreover have "key_allowed (rot_mem (\<lambda>_ _. 0xff) (trace boot_world) ROT_INTERNAL_INTEL_STATE)
      KEY_CANCELLATION_POLICY_FOR_SIGNING_BMC_UPDATE_CAPSULE 5"
    by (simp add: key_allowed_def policy_data_def rot_mem_def mem_slice_def boot_world_def) code_simp
  ultimately show ?thesis
    by (intro key_id_is_truncated [OF host_env_provision, of _ _ "0x105"])
       (simp_all add: is_cancellation_def image_read_def pfr_spi_read_def boot_world_def host_env_def)
qed

end
