(* ===== verification/Pfr_Chain.thy ===== *)
theory Pfr_Chain
  imports Pfr_Keys
begin

text \<open>
  Authentication of one signed image, \<open>intel_pfr/intel_pfr_verification.c\<close> and
  \<open>intel_pfr/intel_pfr_provision.c\<close>: block 1 carries the signature chain from the provisioned
  root key over an optional code signing key (CSK) to block 0, and block 0 carries the hash of
  the protected content. Hashing and ECDSA are external. \<open>CONFIG_MBEDTLS_LMS_C\<close> is off, as in
  \<open>prj.conf\<close>, so the LMS functions refuse; the LMS key buffer is not modelled.
\<close>

section \<open>Bytes of a structure\<close>

definition le32 :: "nat \<Rightarrow> u8 list \<Rightarrow> u32" where
  "le32 off bs = u32_of_bytes (drop off bs)"

definition field_bytes :: "nat \<Rightarrow> nat \<Rightarrow> u8 list \<Rightarrow> u8 list" where
  "field_bytes off n bs = take n (drop off bs)"

section \<open>Hashes and signatures\<close>

definition calculate_sha :: "env \<Rightarrow> hash_type \<Rightarrow> u8 list \<Rightarrow> nat \<Rightarrow> (world, u8 list) state" where
  "calculate_sha E t data digest_length = do {
     (_, digest) \<leftarrow> ext E (Crypto (CalculateSha t data));
     ret (fit digest_length digest)
   }"

text \<open>\<open>verify_signature\<close> of \<open>pfr_util.c\<close>: the key and the signature are in the manifest.\<close>

definition verify_signature :: "env \<Rightarrow> u8 list \<Rightarrow> nat \<Rightarrow> (world, int) state" where
  "verify_signature E digest len = do {
     m \<leftarrow> gets manifest;
     if len = 32 then do {
       (status, _) \<leftarrow> ext E (Crypto (MbedtlsEcdsaVerify (take len (pubkey_x m)) (take len (pubkey_y m))
         (take len digest) (take len (signature_r m)) (take len (signature_s m))));
       ret status
     }
     else if len = 48 then do {
       (status, _) \<leftarrow> ext E (Crypto (AspeedEcdsaVerify (take len (pubkey_x m)) (take len (pubkey_y m))
         (take len digest) (take len (signature_r m)) (take len (signature_s m))));
       ret status
     }
     else ret Success
   }"

definition manifest_get_hash :: "env \<Rightarrow> u32 \<Rightarrow> (world, int \<times> u8 list) state" where
  "manifest_get_hash E len = get_hash E len"

section \<open>The root key entry\<close>

text \<open>The digest length and hash of a curve; \<open>None\<close> when the curve is not an ECDSA one.\<close>

definition curve_hash :: "u32 \<Rightarrow> (hash_type \<times> nat) option" where
  "curve_hash c = (if c = secp256r1 then Some (HASH_TYPE_SHA256, 32)
                   else if c = secp384r1 then Some (HASH_TYPE_SHA384, 48) else None)"

definition lms_curve_hash :: "u32 \<Rightarrow> (hash_type \<times> nat) option" where
  "lms_curve_hash c = (if c = hash_sign_algo384 then Some (HASH_TYPE_SHA384, 48)
                       else if c = hash_sign_algo256 then Some (HASH_TYPE_SHA256, 32) else None)"

text \<open>The last step of both root key checks: compare with the hash in the UFM.\<close>

definition compare_root_hash :: "env \<Rightarrow> u8 list \<Rightarrow> nat \<Rightarrow> (world, int) state" where
  "compare_root_hash E sha_buffer digest_length = do {
     (status, ufm_sha_data) \<leftarrow> ufm_read E PROVISION_UFM ROOT_KEY_HASH (of_nat digest_length);
     if status \<noteq> Success then ret status
     else if sha_buffer \<noteq> ufm_sha_data then ret Failure
     else ret Success
   }"

definition verify_root_key_hash :: "env \<Rightarrow> u8 list \<Rightarrow> u8 list \<Rightarrow> (world, int) state" where
  "verify_root_key_hash E x y = do {
     m \<leftarrow> gets manifest;
     case curve_hash (hash_curve m) of
       None \<Rightarrow> ret Failure
     | Some (t, digest_length) \<Rightarrow> do {
         sha_buffer \<leftarrow> calculate_sha E t (rev (take digest_length x) @ rev (take digest_length y)) digest_length;
         compare_root_hash E sha_buffer digest_length
       }
   }"

definition verify_root_key_hash_lms :: "env \<Rightarrow> u8 list \<Rightarrow> nat \<Rightarrow> (world, int) state" where
  "verify_root_key_hash_lms E lms_key len = do {
     m \<leftarrow> gets manifest;
     case lms_curve_hash (hash_curve m) of
       None \<Rightarrow> ret Failure
     | Some (t, digest_length) \<Rightarrow> do {
         sha_buffer \<leftarrow> calculate_sha E t (take len lms_key) digest_length;
         compare_root_hash E sha_buffer digest_length
       }
   }"

text \<open>
  \<open>verify_root_key_entry\<close> on block 1, of which the first 148 bytes have been read. The length
  of an LMS key is taken from the image: hashing more than the buffer holds is recorded in
  \<open>oob\<close>.
\<close>

definition key_curve :: "u32 \<Rightarrow> u32 option" where
  "key_curve magic = (if magic = PUBLIC_SECP256_TAG then Some secp256r1
     else if magic = PUBLIC_SECP384_TAG then Some secp384r1
     else if magic = PUBLIC_LMS384_TAG then Some hash_sign_algo384
     else if magic = PUBLIC_LMS256_TAG then Some hash_sign_algo256 else None)"

definition verify_root_key_entry :: "env \<Rightarrow> u8 list \<Rightarrow> (world, int) state" where
  "verify_root_key_entry E block1 =
     (if le32 16 block1 \<noteq> BLOCK1_ROOTENTRY_TAG then ret Failure
      else case key_curve (le32 20 block1) of
        None \<Rightarrow> ret Failure
      | Some curve \<Rightarrow> do {
          upd_manifest (hash_curve_update (\<lambda>_. curve));
          if le32 24 block1 \<noteq> 0xFFFFFFFF then ret Failure
          else if le32 28 block1 \<noteq> 0xFFFFFFFF then ret Failure
          else if curve = hash_sign_algo384 \<or> curve = hash_sign_algo256 then do {
            let keylen = unat (le32 32 block1);
            cwhen (length block1 < 36 + keylen) (modify (oob_update (\<lambda>_. True)));
            status \<leftarrow> verify_root_key_hash_lms E (drop 36 block1) keylen;
            if status \<noteq> Success then ret Failure else ret Success
          }
          else do {
            status \<leftarrow> verify_root_key_hash E (field_bytes 32 48 block1) (field_bytes 80 48 block1);
            if status \<noteq> Success then ret Failure else ret Success
          }
        })"

section \<open>Block 1\<close>

definition signature_curve :: "u32 \<Rightarrow> (u32 \<times> hash_type \<times> nat) option" where
  "signature_curve magic = (if magic = SIGNATURE_SECP256_TAG then Some (secp256r1, HASH_TYPE_SHA256, 32)
     else if magic = SIGNATURE_SECP384_TAG then Some (secp384r1, HASH_TYPE_SHA384, 48)
     else if magic = SIGNATURE_LMS384_TAG then Some (hash_sign_algo384, HASH_TYPE_SHA384, 48)
     else if magic = SIGNATURE_LMS256_TAG then Some (hash_sign_algo256, HASH_TYPE_SHA256, 32)
     else None)"

definition intel_block1_block0_entry_verify_lms :: "env \<Rightarrow> (world, int) state" where
  "intel_block1_block0_entry_verify_lms E = ret Failure"

definition intel_block1_csk_block0_entry_verify_lms :: "env \<Rightarrow> (world, int) state" where
  "intel_block1_csk_block0_entry_verify_lms E = ret Failure"

definition block0_entry_address :: "pfr_manifest \<Rightarrow> u32" where
  "block0_entry_address m =
     (if lms_curve m then
        (if kc_flag m = 0 then m_address m + 128 + 148 + 2188 else m_address m + 128 + 148)
      else
        (if kc_flag m = 0 then m_address m + 128 + 148 + 232 else m_address m + 128 + 148))"

definition intel_block1_block0_entry_verify :: "env \<Rightarrow> (world, int) state" where
  "intel_block1_block0_entry_verify E = do {
     m \<leftarrow> gets manifest;
     (status, block1) \<leftarrow> image_read E (block0_entry_address m) (if lms_curve m then 2060 else 104);
     if status \<noteq> Success then ret Failure
     else if le32 0 block1 \<noteq> BLOCK1_BLOCK0ENTRYTAG then ret Failure
     else case signature_curve (le32 4 block1) of
       None \<Rightarrow> ret Failure
     | Some (curve, t, len) \<Rightarrow> do {
         upd_manifest (hash_kind_update (\<lambda>_. t));
         if curve \<noteq> hash_curve m then ret Failure
         else do {
           upd_manifest (\<lambda>m. m\<lparr>device_id0 := ucast (image_type m), hash_start_address := m_address m,
             hash_length := 128\<rparr>);
           (status, digest) \<leftarrow> manifest_get_hash E (of_nat len);
           upd_manifest (\<lambda>m. m\<lparr>hash_out := overwrite (hash_out m) 0 digest\<rparr>);
           if status \<noteq> Success then ret Failure
           else if lms_curve m then intel_block1_block0_entry_verify_lms E
           else do {
             upd_manifest (\<lambda>m. m\<lparr>signature_r := overwrite (signature_r m) 0 (field_bytes 8 len block1),
               signature_s := overwrite (signature_s m) 0 (field_bytes 56 len block1)\<rparr>);
             m \<leftarrow> gets manifest;
             status \<leftarrow> verify_signature E (hash_out m) len;
             if status \<noteq> Success then ret Failure else ret Success
           }
         }
       }
   }"

text \<open>The permission bit that a signing key needs for a kind of content; 0 when it has none.\<close>

definition sign_bit_verify :: "env \<Rightarrow> u32 \<Rightarrow> u32" where
  "sign_bit_verify E pctype =
     (if pctype = PFR_BMC_UPDATE_CAPSULE then 0x08
      else if pctype = PFR_PCH_UPDATE_CAPSULE then 0x02
      else if pctype = PFR_BMC_PFM then 0x04
      else if pctype = PFR_PCH_PFM then 0x01
      else if pctype = PFR_CPLD_UPDATE_CAPSULE \<or> pctype = PFR_CPLD_UPDATE_CAPSULE_DECOMMISSON then 0x10
      else if CONFIG_SEAMLESS_UPDATE E \<and> pctype = PFR_PCH_SEAMLESS_UPDATE_CAPSULE then 0x02
      else if CONFIG_PFR_SPDM_ATTESTATION E \<and> (pctype = PFR_AFM \<or> pctype = PFR_AFM_PER_DEV) then 0x20
      else 0)"

definition intel_block1_csk_block0_entry_verify :: "env \<Rightarrow> (world, int) state" where
  "intel_block1_csk_block0_entry_verify E = do {
     m \<leftarrow> gets manifest;
     (status, block1) \<leftarrow> image_read E (m_address m + 128 + 148) (if lms_curve m then 2188 else 232);
     if status \<noteq> Success then ret Failure
     else if le32 0 block1 \<noteq> BLOCK1CSKTAG then ret Failure
     else case key_curve (le32 4 block1) of
       None \<Rightarrow> ret Failure
     | Some key_type \<Rightarrow>
         (if key_type \<noteq> hash_curve m then ret Failure
          else case signature_curve (le32 132 block1) of
            None \<Rightarrow> ret Failure
          | Some (curve, t, len) \<Rightarrow> do {
              upd_manifest (hash_kind_update (\<lambda>_. t));
              if key_type \<noteq> curve then ret Failure
              else do {
                (status, pc) \<leftarrow> image_read E (m_address m + 8) 4;
                upd_manifest (pc_type_update (\<lambda>_. u32_of_bytes pc));
                if status \<noteq> Success then ret Failure
                else if le32 8 block1 AND sign_bit_verify E (u32_of_bytes pc) = 0 then ret Failure
                else if \<not> list_all (\<lambda>b. b = 0) (field_bytes 112 20 block1) then ret Failure
                else do {
                  digest \<leftarrow> calculate_sha E t (field_bytes 4 128 block1) len;
                  upd_manifest (\<lambda>m. m\<lparr>hash_out := overwrite (hash_out m) 0 digest\<rparr>);
                  if lms_curve m then intel_block1_csk_block0_entry_verify_lms E
                  else do {
                    upd_manifest (\<lambda>m. m\<lparr>signature_r := overwrite (signature_r m) 0 (field_bytes 136 len block1),
                      signature_s := overwrite (signature_s m) 0 (field_bytes 184 len block1)\<rparr>);
                    m \<leftarrow> gets manifest;
                    status \<leftarrow> verify_signature E (hash_out m) len;
                    if status \<noteq> Success then ret Failure
                    else do {
                      upd_manifest (\<lambda>m. m\<lparr>pubkey_x := overwrite (pubkey_x m) 0 (field_bytes 16 len block1),
                        pubkey_y := overwrite (pubkey_y m) 0 (field_bytes 64 len block1)\<rparr>);
                      status \<leftarrow> intel_block1_block0_entry_verify E;
                      if status \<noteq> Success then ret Failure else ret Success
                    }
                  }
                }
              }
            })
   }"

definition intel_block1_verify :: "env \<Rightarrow> (world, int) state" where
  "intel_block1_verify E = do {
     m \<leftarrow> gets manifest;
     (status, bs) \<leftarrow> image_read E (m_address m + 128) 148;
     let block1 = fit 256 bs;
     if status \<noteq> Success then ret Failure
     else if le32 0 block1 \<noteq> BLOCK1TAG then ret Failure
     else do {
       status \<leftarrow> verify_root_key_entry E block1;
       if status \<noteq> Success then ret Failure
       else do {
         (if le32 20 block1 = PUBLIC_LMS384_TAG \<or> le32 20 block1 = PUBLIC_LMS256_TAG
          then cwhen (unat (le32 32 block1) < 4 \<or> 68 < unat (le32 32 block1)) (modify (oob_update (\<lambda>_. True)))
          else upd_manifest (\<lambda>m. m\<lparr>pubkey_x := overwrite (pubkey_x m) 0 (field_bytes 32 48 block1),
                 pubkey_y := overwrite (pubkey_y m) 0 (field_bytes 80 48 block1)\<rparr>));
         status \<leftarrow> (if kc_flag m = 0 then intel_block1_csk_block0_entry_verify E
                   else intel_block1_block0_entry_verify E);
         if status \<noteq> Success then ret Failure else ret Success
       }
     }
   }"

section \<open>Block 0 and the whole image\<close>

text \<open>The hash in block 0 that a curve uses, with its length and the offset of the content.\<close>

definition block0_digest :: "u32 \<Rightarrow> (hash_type \<times> nat \<times> nat \<times> u32) option" where
  "block0_digest curve =
     (if curve = secp256r1 then Some (HASH_TYPE_SHA256, 32, 16, PFM_SIG_BLOCK_SIZE)
      else if curve = secp384r1 then Some (HASH_TYPE_SHA384, 48, 48, PFM_SIG_BLOCK_SIZE)
      else if curve = hash_sign_algo384 then Some (HASH_TYPE_SHA384, 48, 48, LMS_PFM_SIG_BLOCK_SIZE)
      else if curve = hash_sign_algo256 then Some (HASH_TYPE_SHA256, 32, 16, LMS_PFM_SIG_BLOCK_SIZE)
      else None)"

definition block0_ok :: "u8 list \<Rightarrow> bool" where
  "block0_ok b \<longleftrightarrow> le32 0 b = BLOCK0TAG \<and> 128 \<le> le32 4 b \<and> le32 4 b mod 128 = 0 \<and>
     (le32 8 b AND PFR_CPLD_UPDATE_CAPSULE_DECOMMISSON \<noteq> 0 \<longrightarrow> le32 4 b = 128) \<and>
     (le32 8 b AND KEY_CANCELLATION_CAPSULE \<noteq> 0 \<longrightarrow> le32 4 b = 128) \<and>
     list_all (\<lambda>b. b = 0) (field_bytes 96 32 b)"

definition intel_block0_verify :: "env \<Rightarrow> (world, int) state" where
  "intel_block0_verify E = do {
     m \<leftarrow> gets manifest;
     (status, block0) \<leftarrow> image_read E (m_address m) 128;
     if status \<noteq> Success then ret Failure
     else if \<not> block0_ok block0 then ret Failure
     else do {
       upd_manifest (\<lambda>m. m\<lparr>device_id0 := ucast (image_type m), pc_length := le32 4 block0,
         hash_start_address := m_address m + PFM_SIG_BLOCK_SIZE, hash_length := le32 4 block0\<rparr>);
       case block0_digest (hash_curve m) of
         None \<Rightarrow> ret Failure
       | Some (t, len, off, start) \<Rightarrow> do {
           upd_manifest (\<lambda>m. m\<lparr>hash_kind := t, hash_start_address := m_address m + start\<rparr>);
           (status, sha_buffer) \<leftarrow> manifest_get_hash E (of_nat len);
           if status \<noteq> Success then ret Failure
           else if field_bytes off len block0 \<noteq> sha_buffer then ret Failure
           else ret Success
         }
     }
   }"

definition intel_pfr_manifest_verify :: "env \<Rightarrow> (world, int) state" where
  "intel_pfr_manifest_verify E = do {
     m \<leftarrow> gets manifest;
     (status, pc) \<leftarrow> image_read E (m_address m + 8) 4;
     if status \<noteq> Success then ret Failure
     else do {
       upd_manifest (pc_type_update (\<lambda>_. u32_of_bytes pc));
       status \<leftarrow> validate_key_cancellation_flag E;
       if status \<noteq> Success then ret Failure
       else do {
         status \<leftarrow> intel_block1_verify E;
         if status \<noteq> Success then ret status
         else do {
           status \<leftarrow> intel_block0_verify E;
           if status \<noteq> Success then ret Failure else ret status
         }
       }
     }
   }"

section \<open>The devices\<close>

text \<open>
  What verification relies on below: the host flashes read as \<open>H\<close>, the flash hash engine hashes
  their contents with \<open>sha\<close>, and the ECDSA engines accept exactly the signatures of \<open>ecdsa\<close>.
\<close>

type_synonym sig_check = "u8 list \<Rightarrow> u8 list \<Rightarrow> u8 list \<Rightarrow> u8 list \<Rightarrow> u8 list \<Rightarrow> bool"

definition host_flash :: "env \<Rightarrow> flash_mem \<Rightarrow> bool" where
  "host_flash E H \<longleftrightarrow> (\<forall>tr d a n. reply_of E tr (Fl (HostFlashRead d a n)) = (0, mem_slice (H d) (unat a) (unat n)))"

definition crypto_ok :: "env \<Rightarrow> flash_mem \<Rightarrow> (hash_type \<Rightarrow> u8 list \<Rightarrow> u8 list) \<Rightarrow> sig_check \<Rightarrow> bool" where
  "crypto_ok E H sha ecdsa \<longleftrightarrow>
     (\<forall>bs. length (sha HASH_TYPE_SHA256 bs) = 32 \<and> length (sha HASH_TYPE_SHA384 bs) = 48) \<and>
     (\<forall>tr t bs. snd (reply_of E tr (Crypto (CalculateSha t bs))) = sha t bs) \<and>
     (\<forall>tr d a n t len. reply_of E tr (Fl (FlashHashContents d a n t len)) =
        (0, sha t (mem_slice (H d) (unat a) (unat n)))) \<and>
     (\<forall>tr x y h r s. (fst (reply_of E tr (Crypto (MbedtlsEcdsaVerify x y h r s))) = 0) = ecdsa x y h r s) \<and>
     (\<forall>tr x y h r s. (fst (reply_of E tr (Crypto (AspeedEcdsaVerify x y h r s))) = 0) = ecdsa x y h r s)"

section \<open>When an image is authentic\<close>

text \<open>
  The reference definition: what it means that the image at \<open>a\<close> in the flash \<open>f\<close> is signed
  under the root key whose hash the UFM \<open>u\<close> holds. A public key is a pair of coordinates.
\<close>

type_synonym public_key = "u8 list \<times> u8 list"

fun signed_by :: "sig_check \<Rightarrow> nat \<Rightarrow> public_key \<Rightarrow> u8 list \<Rightarrow> u8 list \<Rightarrow> u8 list \<Rightarrow> bool" where
  "signed_by ecdsa len (x, y) digest r s = ecdsa (take len x) (take len y) (take len digest) (take len r) (take len s)"

definition rd_at :: "(nat \<Rightarrow> u8) \<Rightarrow> u32 \<Rightarrow> u32 \<Rightarrow> nat \<Rightarrow> u8 list" where
  "rd_at f a off n = mem_slice f (unat (a + off)) n"

definition block0_signed :: "(hash_type \<Rightarrow> u8 list \<Rightarrow> u8 list) \<Rightarrow> sig_check \<Rightarrow> (nat \<Rightarrow> u8) \<Rightarrow> u32 \<Rightarrow> u32 \<Rightarrow> u32 \<Rightarrow> public_key \<Rightarrow> bool" where
  "block0_signed sha ecdsa f a entry curve key \<longleftrightarrow>
     (let b = rd_at f a entry 104 in
      le32 0 b = BLOCK1_BLOCK0ENTRYTAG \<and>
      (\<exists>t len. signature_curve (le32 4 b) = Some (curve, t, len) \<and>
        signed_by ecdsa len key (sha t (rd_at f a 0 128)) (field_bytes 8 len b) (field_bytes 56 len b)))"

definition csk_signed :: "(hash_type \<Rightarrow> u8 list \<Rightarrow> u8 list) \<Rightarrow> sig_check \<Rightarrow> env \<Rightarrow> (nat \<Rightarrow> u8) \<Rightarrow> u32 \<Rightarrow> u32 \<Rightarrow> public_key \<Rightarrow> bool" where
  "csk_signed sha ecdsa E f a curve root \<longleftrightarrow>
     (let b = rd_at f a 276 232 in
      le32 0 b = BLOCK1CSKTAG \<and> key_curve (le32 4 b) = Some curve \<and>
      le32 8 b AND sign_bit_verify E (u32_of_bytes (rd_at f a 8 4)) \<noteq> 0 \<and>
      list_all (\<lambda>b. b = 0) (field_bytes 112 20 b) \<and>
      (\<exists>t len. signature_curve (le32 132 b) = Some (curve, t, len) \<and>
        signed_by ecdsa len root (sha t (field_bytes 4 128 b)) (field_bytes 136 len b) (field_bytes 184 len b)))"

definition root_trusted :: "(hash_type \<Rightarrow> u8 list \<Rightarrow> u8 list) \<Rightarrow> (nat \<Rightarrow> u8) \<Rightarrow> u8 list \<Rightarrow> u32 \<Rightarrow> bool" where
  "root_trusted sha u root curve \<longleftrightarrow>
     le32 0 root = BLOCK1TAG \<and> le32 16 root = BLOCK1_ROOTENTRY_TAG \<and> key_curve (le32 20 root) = Some curve \<and>
     le32 24 root = 0xFFFFFFFF \<and> le32 28 root = 0xFFFFFFFF \<and>
     (\<exists>t len. curve_hash curve = Some (t, len) \<and>
       sha t (rev (field_bytes 32 len root) @ rev (field_bytes 80 len root)) = mem_slice u 4 len)"

definition content_hash_ok :: "(hash_type \<Rightarrow> u8 list \<Rightarrow> u8 list) \<Rightarrow> (nat \<Rightarrow> u8) \<Rightarrow> u32 \<Rightarrow> u32 \<Rightarrow> bool" where
  "content_hash_ok sha f a curve \<longleftrightarrow>
     (let b = rd_at f a 0 128 in
      block0_ok b \<and>
      (\<exists>t len off start. block0_digest curve = Some (t, len, off, start) \<and>
        field_bytes off len b = sha t (mem_slice f (unat (a + start)) (unat (le32 4 b)))))"

definition csk_allowed :: "env \<Rightarrow> (nat \<Rightarrow> u8) \<Rightarrow> (nat \<Rightarrow> u8) \<Rightarrow> u32 \<Rightarrow> u32 \<Rightarrow> bool" where
  "csk_allowed E f u a pctype \<longleftrightarrow>
     (CONFIG_SEAMLESS_UPDATE E \<and> pctype = PFR_PCH_SEAMLESS_UPDATE_CAPSULE) \<or>
     (get_cancellation_policy_offset E pctype \<noteq> 0 \<and>
      key_allowed u (get_cancellation_policy_offset E pctype) (ucast (le32 0 (rd_at f a 288 4))))"

text \<open>The signature chain of block 1, for the curve of the root key.\<close>

definition chain_signed ::
    "(hash_type \<Rightarrow> u8 list \<Rightarrow> u8 list) \<Rightarrow> sig_check \<Rightarrow> env \<Rightarrow> (nat \<Rightarrow> u8) \<Rightarrow> u32 \<Rightarrow> bool \<Rightarrow> u32 \<Rightarrow> bool" where
  "chain_signed sha ecdsa E f a cancellation curve \<longleftrightarrow>
     (let root = rd_at f a 128 148; csk = rd_at f a 276 232;
          root_key = (field_bytes 32 48 root, field_bytes 80 48 root) in
      if cancellation then block0_signed sha ecdsa f a 276 curve root_key
      else csk_signed sha ecdsa E f a curve root_key \<and>
        block0_signed sha ecdsa f a 508 curve (field_bytes 16 48 csk, field_bytes 64 48 csk))"

definition authentic_image ::
    "(hash_type \<Rightarrow> u8 list \<Rightarrow> u8 list) \<Rightarrow> sig_check \<Rightarrow> env \<Rightarrow> (nat \<Rightarrow> u8) \<Rightarrow> (nat \<Rightarrow> u8) \<Rightarrow> u32 \<Rightarrow> bool" where
  "authentic_image sha ecdsa E f u a \<longleftrightarrow>
     (let pctype = u32_of_bytes (rd_at f a 8 4) in
      (if is_cancellation pctype then list_all (\<lambda>b. b = 0) (rd_at f a 1028 124) else csk_allowed E f u a pctype) \<and>
      (\<exists>curve \<in> {secp256r1, secp384r1}.
        root_trusted sha u (rd_at f a 128 148) curve \<and>
        chain_signed sha ecdsa E f a (is_cancellation pctype) curve \<and>
        content_hash_ok sha f a curve))"

section \<open>Each block against its part of the reference\<close>

lemma take_overwrite_0: "length bs = n \<Longrightarrow> take n (overwrite xs 0 bs) = bs"
  by (simp add: overwrite_def)

lemma length_field_bytes [simp]: "off + n \<le> length bs \<Longrightarrow> length (field_bytes off n bs) = n"
  by (simp add: field_bytes_def)

lemma take_field_bytes: "n \<le> k \<Longrightarrow> take n (field_bytes off k bs) = field_bytes off n bs"
  by (simp add: field_bytes_def min_def)

lemma length_rd_at [simp]: "length (rd_at f a off n) = n"
  by (simp add: rd_at_def)

lemma crypto_okD:
  assumes "crypto_ok E H sha ecdsa"
  shows "length (sha HASH_TYPE_SHA256 bs) = 32" "length (sha HASH_TYPE_SHA384 bs) = 48"
    and "snd (reply_of E tr (Crypto (CalculateSha t bs))) = sha t bs"
    and "reply_of E tr (Fl (FlashHashContents d a n t len)) = (0, sha t (mem_slice (H d) (unat a) (unat n)))"
    and "(fst (reply_of E tr (Crypto (MbedtlsEcdsaVerify x y h r s))) = 0) = ecdsa x y h r s"
    and "(fst (reply_of E tr (Crypto (AspeedEcdsaVerify x y h r s))) = 0) = ecdsa x y h r s"
  using assms by (simp_all add: crypto_ok_def)

text \<open>\<open>host_image d s\<close>: the image to verify is in the host flash \<open>d\<close>.\<close>

definition host_image :: "u8 \<Rightarrow> world \<Rightarrow> bool" where
  "host_image d s \<longleftrightarrow> ucast (image_type (manifest s)) = d \<and> d \<le> PCH_SPI"

lemma run_image_read:
  assumes "host_flash E H" and "host_image d s"
  shows "run (image_read E a n) s = ((0, mem_slice (H d) (unat a) (unat n)), s\<lparr>trace := trace s @
    [(Fl (HostFlashRead d a n), (0, mem_slice (H d) (unat a) (unat n)))]\<rparr>)"
  using assms by (auto simp: host_image_def image_read_def pfr_spi_read_def host_flash_def)

lemma run_calculate_sha:
  assumes "crypto_ok E H sha ecdsa"
  shows "result (calculate_sha E t bs n) s = fit n (sha t bs)"
    and "exec (calculate_sha E t bs n) s =
      s\<lparr>trace := trace s @ [(Crypto (CalculateSha t bs), reply_of E (trace s) (Crypto (CalculateSha t bs)))]\<rparr>"
  by (simp_all add: calculate_sha_def case_prod_beta crypto_okD [OF assms])

lemma verify_signature_result:
  assumes "crypto_ok E H sha ecdsa" and "len = 32 \<or> len = 48"
  shows "(result (verify_signature E digest len) s = Success) =
    signed_by ecdsa len (pubkey_x (manifest s), pubkey_y (manifest s)) digest
      (signature_r (manifest s)) (signature_s (manifest s))"
  using assms(2) by (auto simp: verify_signature_def case_prod_beta crypto_okD [OF assms(1)])

lemma exec_verify_signature: "manifest (exec (verify_signature E digest len) s) = manifest s"
  by (simp add: verify_signature_def case_prod_beta)

lemma run_manifest_get_hash:
  assumes "crypto_ok E H sha ecdsa" and "hash_kind (manifest s) = t" and "length (sha t bs) = len"
    and "len = 32 \<or> len = 48" and "bs = mem_slice (H (device_id0 (manifest s)))
      (unat (hash_start_address (manifest s))) (unat (hash_length (manifest s)))"
  shows "result (manifest_get_hash E (of_nat len)) s = (0, sha t bs)"
    and "manifest (exec (manifest_get_hash E (of_nat len)) s) = manifest s"
  using assms(2-) by (auto simp: manifest_get_hash_def get_hash_def case_prod_beta crypto_okD [OF assms(1)])

lemma signature_curve_hash:
  "signature_curve magic = Some (c, t, len) \<Longrightarrow> c \<noteq> hash_sign_algo384 \<Longrightarrow> c \<noteq> hash_sign_algo256 \<Longrightarrow>
    curve_hash c = Some (t, len) \<and> (len = 32 \<or> len = 48)"
  by (auto simp: signature_curve_def curve_hash_def split: if_splits)

lemma curve_hash_sha:
  "crypto_ok E H sha ecdsa \<Longrightarrow> curve_hash c = Some (t, len) \<Longrightarrow> length (sha t bs) = len"
  by (auto simp: curve_hash_def crypto_okD split: if_splits)

lemma signed_by_fields:
  assumes "length dg = len" "length r = len" "length q = len" "take len x = x'" "take len y = y'"
  shows "signed_by ecdsa len (x, y) (overwrite h 0 dg) (overwrite r0 0 r) (overwrite q0 0 q) =
    ecdsa x' y' dg r q"
  using assms by (simp add: take_overwrite_0)

lemma block0_entry_address_eq:
  "\<not> lms_curve m \<Longrightarrow> block0_entry_address m = m_address m + (if kc_flag m = 0 then 508 else 276)"
  by (simp add: block0_entry_address_def add.assoc)

lemma block0_entry_result:
  assumes host: "host_flash E H" and cr: "crypto_ok E H sha ecdsa" and img: "host_image d s"
    and lms: "\<not> lms_curve (manifest s)"
  shows "result (intel_block1_block0_entry_verify E) s =
    (if block0_signed sha ecdsa (H d) (m_address (manifest s)) (if kc_flag (manifest s) = 0 then 508 else 276)
        (hash_curve (manifest s)) (pubkey_x (manifest s), pubkey_y (manifest s))
     then Success else Failure)"
proof -
  define m where "m = manifest s"
  define b where "b = rd_at (H d) (m_address m) (if kc_flag m = 0 then 508 else 276) 104"
  have lb: "length b = 104" by (simp add: b_def)
  have rd: "run (image_read E (block0_entry_address m) 104) s = ((0, b), s\<lparr>trace := trace s @
      [(Fl (HostFlashRead d (block0_entry_address m) 104), (0, b))]\<rparr>)"
    unfolding run_image_read [OF host img] b_def rd_at_def
    by (simp add: block0_entry_address_eq lms m_def)
  show ?thesis
  proof (cases "signature_curve (le32 4 b)")
    case None
    then show ?thesis
      using lms by (simp add: intel_block1_block0_entry_verify_def m_def [symmetric] rd block0_signed_def b_def [symmetric] Let_def)
  next
    case (Some p)
    obtain curve t len where p: "p = (curve, t, len)" by (cases p)
    show ?thesis
    proof (cases "curve = hash_curve m")
      case False
      then show ?thesis
        using lms Some p
        by (simp add: intel_block1_block0_entry_verify_def m_def [symmetric] rd block0_signed_def b_def [symmetric] Let_def)
    next
      case True
      have ch: "curve_hash curve = Some (t, len)" and len: "len = 32 \<or> len = 48"
        using signature_curve_hash [of "le32 4 b" curve t len] Some p True lms by (auto simp: lms_curve_def m_def)
      note sha_len = curve_hash_sha [OF cr ch]
      have d: "ucast (image_type m) = d" using img by (simp add: host_image_def m_def)
      define s1 where "s1 = s\<lparr>trace := trace s @ [(Fl (HostFlashRead d (block0_entry_address m) 104), (0, b))],
        manifest := m\<lparr>hash_kind := t, device_id0 := d, hash_start_address := m_address m, hash_length := 128\<rparr>\<rparr>"
      define s2 where "s2 = exec (manifest_get_hash E (of_nat len)) s1"
      have gh: "run (manifest_get_hash E (of_nat len)) s1 = ((0, sha t (rd_at (H d) (m_address m) 0 128)), s2)"
        using run_manifest_get_hash [OF cr _ sha_len len refl, of s1]
        by (simp add: s1_def s2_def prod_eq_iff rd_at_def)
      have m2: "manifest s2 = manifest s1"
        using run_manifest_get_hash [OF cr _ sha_len len refl, of s1] by (simp add: s1_def s2_def)
      define s3 where "s3 = s2\<lparr>manifest := (manifest s1)\<lparr>
        hash_out := overwrite (hash_out m) 0 (sha t (rd_at (H d) (m_address m) 0 128)),
        signature_r := overwrite (signature_r m) 0 (field_bytes 8 len b),
        signature_s := overwrite (signature_s m) 0 (field_bytes 56 len b)\<rparr>\<rparr>"
      have "result (intel_block1_block0_entry_verify E) s =
        (if le32 0 b \<noteq> BLOCK1_BLOCK0ENTRYTAG then Failure
         else if result (verify_signature E (hash_out (manifest s3)) len) s3 \<noteq> Success then Failure else Success)"
        using lms Some p True
        by (simp add: intel_block1_block0_entry_verify_def m_def [symmetric] rd d s1_def [symmetric] gh m2)
           (simp add: s3_def s1_def m2 case_prod_beta lms_curve_def m_def)
      moreover have "length (field_bytes 8 len b) = len" "length (field_bytes 56 len b) = len"
        using lb len by auto
      ultimately show ?thesis
        using Some p True verify_signature_result [OF cr len, of "hash_out (manifest s3)" s3] sha_len
        by (simp add: s3_def s1_def take_overwrite_0 block0_signed_def b_def [symmetric] m_def [symmetric] Let_def)
    qed
  qed
qed

lemma host_image_update [simp]:
  "host_image d (s\<lparr>trace := tr\<rparr>) = host_image d s"
  "host_image d (s\<lparr>manifest := m\<rparr>) = (ucast (image_type m) = d \<and> d \<le> PCH_SPI)"
  by (simp_all add: host_image_def)

lemma block0_signed_key:
  assumes "curve_hash c = Some (t, len)" and "take len x = take len x'" and "take len y = take len y'"
  shows "block0_signed sha ecdsa f a e c (x, y) = block0_signed sha ecdsa f a e c (x', y')"
  using assms by (auto simp: block0_signed_def Let_def curve_hash_def signature_curve_def split: if_splits)

lemma csk_block0_result:
  assumes host: "host_flash E H" and cr: "crypto_ok E H sha ecdsa" and img: "host_image d s"
    and lms: "\<not> lms_curve (manifest s)" and kc: "kc_flag (manifest s) = 0"
  shows "(result (intel_block1_csk_block0_entry_verify E) s = Success) =
    (csk_signed sha ecdsa E (H d) (m_address (manifest s)) (hash_curve (manifest s))
        (pubkey_x (manifest s), pubkey_y (manifest s)) \<and>
     block0_signed sha ecdsa (H d) (m_address (manifest s)) 508 (hash_curve (manifest s))
        (field_bytes 16 48 (rd_at (H d) (m_address (manifest s)) 276 232),
         field_bytes 64 48 (rd_at (H d) (m_address (manifest s)) 276 232)))"
proof -
  define m where "m = manifest s"
  define b where "b = rd_at (H d) (m_address m) 276 232"
  define pc where "pc = rd_at (H d) (m_address m) 8 4"
  have lb: "length b = 232" by (simp add: b_def)
  have d: "ucast (image_type m) = d" "d \<le> PCH_SPI" using img by (simp_all add: host_image_def m_def)
  define tr1 where "tr1 = trace s @ [(Fl (HostFlashRead d (m_address m + 128 + 148) 232), (0, b))]"
  have rd: "run (image_read E (m_address m + 128 + 148) 232) s = ((0, b), s\<lparr>trace := tr1\<rparr>)"
    unfolding run_image_read [OF host img] b_def rd_at_def tr1_def by (simp add: add.assoc)
  show ?thesis
  proof (cases "le32 0 b = BLOCK1CSKTAG \<and> key_curve (le32 4 b) = Some (hash_curve m) \<and>
      (\<exists>t len. signature_curve (le32 132 b) = Some (hash_curve m, t, len))")
    case False
    then show ?thesis
      using lms rd
      by (auto simp: intel_block1_csk_block0_entry_verify_def m_def [symmetric] csk_signed_def b_def [symmetric]
          Let_def split: option.splits)
  next
    case True
    then obtain t len where b: "le32 0 b = BLOCK1CSKTAG" "key_curve (le32 4 b) = Some (hash_curve m)"
      "signature_curve (le32 132 b) = Some (hash_curve m, t, len)" by blast
    have ch: "curve_hash (hash_curve m) = Some (t, len)" and len: "len = 32 \<or> len = 48"
      using signature_curve_hash [OF b(3)] lms by (auto simp: lms_curve_def m_def)
    note sha_len = curve_hash_sha [OF cr ch]
    define s1 where "s1 = s\<lparr>trace := tr1, manifest := m\<lparr>hash_kind := t\<rparr>\<rparr>"
    define tr2 where "tr2 = tr1 @ [(Fl (HostFlashRead d (m_address m + 8) 4), (0, pc))]"
    have rd2: "run (image_read E (m_address m + 8) 4) s1 = ((0, pc), s1\<lparr>trace := tr2\<rparr>)"
      using run_image_read [OF host, of d s1] d by (simp add: s1_def tr2_def pc_def rd_at_def)
    define dg where "dg = sha t (field_bytes 4 128 b)"
    have ldg: "length dg = len" by (simp add: dg_def sha_len)
    define s2 where "s2 = s1\<lparr>trace := tr2, manifest := (manifest s1)\<lparr>pc_type := u32_of_bytes pc\<rparr>\<rparr>"
    define s3 where "s3 = exec (calculate_sha E t (field_bytes 4 128 b) len) s2"
    have sha3: "run (calculate_sha E t (field_bytes 4 128 b) len) s2 = (dg, s3)" and m3: "manifest s3 = manifest s2"
      using ldg by (simp_all add: prod_eq_iff run_calculate_sha [OF cr] s3_def dg_def)
    define s4 where "s4 = s3\<lparr>manifest := (manifest s2)\<lparr>hash_out := overwrite (hash_out m) 0 dg,
      signature_r := overwrite (signature_r m) 0 (field_bytes 136 len b),
      signature_s := overwrite (signature_s m) 0 (field_bytes 184 len b)\<rparr>\<rparr>"
    have m2: "hash_out (manifest s2) = hash_out m" "signature_r (manifest s2) = signature_r m"
      "signature_s (manifest s2) = signature_s m" by (simp_all add: s2_def s1_def)
    have m4: "pubkey_x (manifest s4) = pubkey_x m" "pubkey_y (manifest s4) = pubkey_y m"
      by (simp_all add: s4_def s2_def s1_def)
    define s5 where "s5 = exec (verify_signature E (overwrite (hash_out m) 0 dg) len) s4"
    have m5: "manifest s5 = manifest s4" by (simp add: s5_def exec_verify_signature)
    have l: "length (field_bytes n len b) = len" if "n + 48 \<le> 232" for n using lb len that by auto
    have sig: "(result (verify_signature E (overwrite (hash_out m) 0 dg) len) s4 = Success) =
        signed_by ecdsa len (pubkey_x m, pubkey_y m) dg (field_bytes 136 len b) (field_bytes 184 len b)"
      using verify_signature_result [OF cr len] ldg len
      by (simp add: s4_def s2_def s1_def take_overwrite_0 l)
    define s6 where "s6 = s5\<lparr>manifest := (manifest s4)\<lparr>
      pubkey_x := overwrite (pubkey_x m) 0 (field_bytes 16 len b),
      pubkey_y := overwrite (pubkey_y m) 0 (field_bytes 64 len b)\<rparr>\<rparr>"
    have m6: "m_address (manifest s6) = m_address m" "hash_curve (manifest s6) = hash_curve m"
      "kc_flag (manifest s6) = 0" "image_type (manifest s6) = image_type m"
      "pubkey_x (manifest s6) = overwrite (pubkey_x m) 0 (field_bytes 16 len b)"
      "pubkey_y (manifest s6) = overwrite (pubkey_y m) 0 (field_bytes 64 len b)"
      using kc by (simp_all add: s6_def s4_def s2_def s1_def m_def)
    have blk: "(result (intel_block1_block0_entry_verify E) s6 = Success) =
        block0_signed sha ecdsa (H d) (m_address m) 508 (hash_curve m) (field_bytes 16 48 b, field_bytes 64 48 b)"
    proof -
      have tk: "take len (overwrite xs 0 (field_bytes n len b)) = take len (field_bytes n 48 b)" if "n + 48 \<le> 232" for xs n
        using len take_field_bytes [of len 48 n b] l [OF that] by (auto simp: take_overwrite_0)
      show ?thesis
        using block0_entry_result [OF host cr, of d s6] d lms block0_signed_key [OF ch tk tk]
        by (simp add: m6 m_def lms_curve_def host_image_def)
    qed
    have run_chain: "(result (intel_block1_csk_block0_entry_verify E) s = Success) =
      (le32 8 b AND sign_bit_verify E (u32_of_bytes pc) \<noteq> 0 \<and> list_all (\<lambda>b. b = 0) (field_bytes 112 20 b) \<and>
       result (verify_signature E (overwrite (hash_out m) 0 dg) len) s4 = Success \<and>
       result (intel_block1_block0_entry_verify E) s6 = Success)"
      using lms rd b rd2 
      by (simp add: intel_block1_csk_block0_entry_verify_def m_def [symmetric] s1_def [symmetric]
          s2_def [symmetric] sha3 m3 m2 s4_def [symmetric])
         (simp add: case_prod_beta s5_def [symmetric] m5 s6_def [symmetric] m4)
    show ?thesis
      unfolding run_chain sig blk
      using b by (auto simp: csk_signed_def m_def [symmetric] b_def [symmetric] pc_def dg_def Let_def)
  qed
qed

subsection \<open>What the stages leave alone\<close>

definition same_image :: "world \<Rightarrow> world \<Rightarrow> bool" where
  "same_image s t \<longleftrightarrow> image_type (manifest t) = image_type (manifest s) \<and>
     m_address (manifest t) = m_address (manifest s) \<and> hash_curve (manifest t) = hash_curve (manifest s)"

interpretation simg: frame_rel same_image
  by unfold_locales (auto simp: same_image_def)

lemma same_image_dev: "state_io_rel dev_only m \<Longrightarrow> state_io_rel same_image m"
  by (simp add: state_io_rel_def same_image_def exec_dev_manifest state_io_rel_def)

lemma chain_dev [dev_lemmas]:
  "state_io_rel dev_only (verify_signature E dg len)"
  "state_io_rel dev_only (manifest_get_hash E n)"
  "state_io_rel dev_only (calculate_sha E t bs len)"
  "state_io_rel dev_only (compare_root_hash E bs len)"
  "state_io_rel dev_only (verify_root_key_hash E x y)"
  "state_io_rel dev_only (verify_root_key_hash_lms E x len)"
  unfolding verify_signature_def manifest_get_hash_def calculate_sha_def get_hash_def
    verify_root_key_hash_def verify_root_key_hash_lms_def compare_root_hash_def
  by (intro dev.keeps_intros dev_lemmas)+

lemma block_entries_keep_image:
  "state_io_rel same_image (intel_block1_block0_entry_verify E)"
  "state_io_rel same_image (intel_block1_csk_block0_entry_verify E)"
proof -
  have dev: "state_io_rel same_image (image_read E a n)" "state_io_rel same_image (verify_signature E dg len)"
    "state_io_rel same_image (manifest_get_hash E l)" "state_io_rel same_image (calculate_sha E t bs len)" for a n dg len l t bs
    by (intro same_image_dev dev_lemmas)+
  have upd: "state_io_rel same_image (upd_manifest f)"
    if "\<And>m. image_type (f m) = image_type m \<and> m_address (f m) = m_address m \<and> hash_curve (f m) = hash_curve m" for f
    using that by (simp add: upd_manifest_def simg.keeps_modify same_image_def)
  show b0: "state_io_rel same_image (intel_block1_block0_entry_verify E)"
    unfolding intel_block1_block0_entry_verify_def intel_block1_block0_entry_verify_lms_def
    by (intro simg.keeps_intros dev upd) simp_all
  show "state_io_rel same_image (intel_block1_csk_block0_entry_verify E)"
    unfolding intel_block1_csk_block0_entry_verify_def intel_block1_csk_block0_entry_verify_lms_def
    by (intro simg.keeps_intros dev upd b0) simp_all
qed

lemma lms_entries_refused:
  assumes "lms_curve (manifest s)"
  shows "result (intel_block1_block0_entry_verify E) s = Failure"
    and "result (intel_block1_csk_block0_entry_verify E) s = Failure"
  using assms
  by (simp_all add: intel_block1_block0_entry_verify_def intel_block1_csk_block0_entry_verify_def Let_def
      intel_block1_block0_entry_verify_lms_def intel_block1_csk_block0_entry_verify_lms_def case_prod_beta
      split: option.split)

subsection \<open>The root key entry and block 1\<close>

lemma u32_of_bytes_append: "4 \<le> length xs \<Longrightarrow> u32_of_bytes (xs @ ys) = u32_of_bytes xs"
  by (auto simp: u32_of_bytes_def neq_Nil_conv numeral_eq_Suc Suc_le_length_iff)

lemma fit_append: "length bs \<le> n \<Longrightarrow> fit n bs = bs @ replicate (n - length bs) 0"
  by (simp add: fit_def)

lemma le32_fit: "off + 4 \<le> length bs \<Longrightarrow> length bs \<le> n \<Longrightarrow> le32 off (fit n bs) = le32 off bs"
  by (simp add: le32_def fit_append u32_of_bytes_append)

lemma field_bytes_fit:
  "off + k \<le> length bs \<Longrightarrow> length bs \<le> n \<Longrightarrow> field_bytes off k (fit n bs) = field_bytes off k bs"
  by (simp add: field_bytes_def fit_append)

lemma compare_root_hash_result:
  assumes "provision_ok m0 rsize E" and "n \<le> 48"
  shows "(result (compare_root_hash E bs n) s = Success) =
    (bs = mem_slice (rot_mem m0 (trace s) ROT_INTERNAL_INTEL_STATE) 4 n)"
proof -
  have "unat (of_nat n :: u32) = n"
    using assms(2) by (simp add: unsigned_of_nat take_bit_nat_eq_self)
  then have "result (ufm_read E PROVISION_UFM ROOT_KEY_HASH (of_nat n)) s =
      (Success, mem_slice (rot_mem m0 (trace s) ROT_INTERNAL_INTEL_STATE) 4 n)"
    using provision_ufm.rd_result [OF assms(1), of ROOT_KEY_HASH "of_nat n" s] by simp
  then show ?thesis by (simp add: compare_root_hash_def case_prod_beta)
qed

lemma root_entry_result:
  assumes cr: "crypto_ok E H sha ecdsa" and prov: "provision_ok m0 rsize E" and root: "length root = 148"
    and c: "key_curve (le32 20 root) = Some c" "curve_hash c = Some (t, len)" and tag: "le32 0 root = BLOCK1TAG"
  shows "(result (verify_root_key_entry E (fit 256 root)) s = Success) =
    root_trusted sha (rot_mem m0 (trace s) ROT_INTERNAL_INTEL_STATE) root c"
proof -
  have len: "len \<le> 48" and nolms: "c \<noteq> hash_sign_algo384" "c \<noteq> hash_sign_algo256"
    using c(2) by (auto simp: curve_hash_def split: if_splits)
  define key where "key = rev (field_bytes 32 len root) @ rev (field_bytes 80 len root)"
  have h: "(result (verify_root_key_hash E (field_bytes 32 48 root) (field_bytes 80 48 root)) s' = Success) =
      (sha t key = mem_slice (rot_mem m0 (trace s) ROT_INTERNAL_INTEL_STATE) 4 len)"
    if "hash_curve (manifest s') = c" "trace s' = trace s" for s'
    using that c len curve_hash_sha [OF cr c(2)]
    by (simp add: verify_root_key_hash_def case_prod_beta run_calculate_sha [OF cr] take_field_bytes key_def
        compare_root_hash_result [OF prov])
  show ?thesis
    using c nolms tag root h
    by (simp add: verify_root_key_entry_def le32_fit field_bytes_fit root_trusted_def case_prod_beta key_def)
qed

lemma root_entry_manifest:
  assumes "le32 16 b = BLOCK1_ROOTENTRY_TAG" and "key_curve (le32 20 b) = Some c"
  shows "manifest (exec (verify_root_key_entry E b) s) = (manifest s)\<lparr>hash_curve := c\<rparr>"
  using assms
  by (simp add: verify_root_key_entry_def case_prod_beta exec_dev_manifest [OF chain_dev(5)]
      exec_dev_manifest [OF chain_dev(6)])

lemma key_curve_cases:
  "key_curve magic = Some c \<Longrightarrow>
    (\<exists>t len. curve_hash c = Some (t, len)) \<and> magic \<noteq> PUBLIC_LMS384_TAG \<and> magic \<noteq> PUBLIC_LMS256_TAG \<and>
      c \<in> {secp256r1, secp384r1} \<or>
    c = hash_sign_algo384 \<or> c = hash_sign_algo256"
  by (auto simp: key_curve_def curve_hash_def split: if_splits)

lemma csk_signed_key:
  assumes "curve_hash c = Some (t, len)" and "take len x = take len x'" and "take len y = take len y'"
  shows "csk_signed sha ecdsa E f a c (x, y) = csk_signed sha ecdsa E f a c (x', y')"
  using assms by (auto simp: csk_signed_def Let_def curve_hash_def signature_curve_def split: if_splits)

lemma block1_result:
  assumes host: "host_flash E H" and cr: "crypto_ok E H sha ecdsa" and prov: "provision_ok m0 rsize E"
    and img: "host_image d s"
  defines "root \<equiv> rd_at (H d) (m_address (manifest s)) 128 148"
  shows "(result (intel_block1_verify E) s = Success) =
      (\<exists>c \<in> {secp256r1, secp384r1}. root_trusted sha (rot_mem m0 (trace s) ROT_INTERNAL_INTEL_STATE) root c \<and>
        chain_signed sha ecdsa E (H d) (m_address (manifest s)) (kc_flag (manifest s) \<noteq> 0) c)"
    and "\<And>c. result (intel_block1_verify E) s = Success \<Longrightarrow> key_curve (le32 20 root) = Some c \<Longrightarrow> same_image (s\<lparr>manifest := (manifest s)\<lparr>hash_curve := c\<rparr>\<rparr>)
      (exec (intel_block1_verify E) s)"
proof -
  define m where "m = manifest s"
  have lroot: "length root = 148" by (simp add: root_def)
  define tr1 where "tr1 = trace s @ [(Fl (HostFlashRead d (m_address m + 128) 148), (0, root))]"
  have d: "ucast (image_type m) = d" "d \<le> PCH_SPI" using img by (simp_all add: host_image_def m_def)
  have rd: "run (image_read E (m_address m + 128) 148) s = ((0, root), s\<lparr>trace := tr1\<rparr>)"
    unfolding run_image_read [OF host img] root_def rd_at_def tr1_def by (simp add: m_def)
  have view: "rot_mem m0 tr1 = rot_mem m0 (trace s)" using d by (simp add: tr1_def)
  define s1 where "s1 = exec (verify_root_key_entry E (fit 256 root)) (s\<lparr>trace := tr1\<rparr>)"
  let ?L = "result (intel_block1_verify E) s = Success"
  let ?chain = "\<lambda>c. root_trusted sha (rot_mem m0 (trace s) ROT_INTERNAL_INTEL_STATE) root c \<and>
        chain_signed sha ecdsa E (H d) (m_address m) (kc_flag m \<noteq> 0) c"
  have main: "?L = (\<exists>c \<in> {secp256r1, secp384r1}. ?chain c) \<and> (\<forall>c. ?L \<longrightarrow> key_curve (le32 20 root) = Some c \<longrightarrow>
      same_image (s\<lparr>manifest := (manifest s)\<lparr>hash_curve := c\<rparr>\<rparr>) (exec (intel_block1_verify E) s))"
  proof (cases "le32 0 root = BLOCK1TAG \<and> le32 16 root = BLOCK1_ROOTENTRY_TAG \<and> key_curve (le32 20 root) \<noteq> None")
    case False
    then show ?thesis
      using rd lroot
      by (auto simp: intel_block1_verify_def m_def [symmetric] le32_fit root_trusted_def verify_root_key_entry_def)
  next
    case True
    then obtain c where tag: "le32 0 root = BLOCK1TAG" "le32 16 root = BLOCK1_ROOTENTRY_TAG"
      and c: "key_curve (le32 20 root) = Some c" by blast
    have m1: "manifest s1 = m\<lparr>hash_curve := c\<rparr>"
      using root_entry_manifest [of "fit 256 root" c E "s\<lparr>trace := tr1\<rparr>"] tag c lroot
      by (simp add: s1_def le32_fit m_def)
    have only_c: "?chain c' \<Longrightarrow> c' = c" for c'
      using c by (simp add: root_trusted_def)
    consider (ecdsa) t len where "curve_hash c = Some (t, len)" "le32 20 root \<noteq> PUBLIC_LMS384_TAG"
        "le32 20 root \<noteq> PUBLIC_LMS256_TAG" "c \<in> {secp256r1, secp384r1}"
      | (lms) "c = hash_sign_algo384 \<or> c = hash_sign_algo256"
      using key_curve_cases [OF c] by blast
    then show ?thesis
    proof cases
      case lms
      have "lms_curve (m\<lparr>hash_curve := c, pubkey_x := x, pubkey_y := y\<rparr>)" "lms_curve (m\<lparr>hash_curve := c\<rparr>)" for x y
        using lms by (auto simp: lms_curve_def)
      then have "\<not> ?L"
        using m1 tag lroot
        by (simp add: intel_block1_verify_def m_def [symmetric] le32_fit rd)
           (auto simp: case_prod_beta s1_def [symmetric] lms_entries_refused)
      moreover have "c \<notin> {secp256r1, secp384r1}" using lms by auto
      ultimately show ?thesis using only_c by blast
    next
      case (ecdsa t len)
      have len: "len \<le> 48" using ecdsa(1) by (auto simp: curve_hash_def split: if_splits)
      define s2 where "s2 = s1\<lparr>manifest := m\<lparr>hash_curve := c,
        pubkey_x := overwrite (pubkey_x m) 0 (field_bytes 32 48 root),
        pubkey_y := overwrite (pubkey_y m) 0 (field_bytes 80 48 root)\<rparr>\<rparr>"
      define entry where "entry = (if kc_flag m = 0 then intel_block1_csk_block0_entry_verify E
        else intel_block1_block0_entry_verify E)"
      have L: "?L = (result (verify_root_key_entry E (fit 256 root)) (s\<lparr>trace := tr1\<rparr>) = Success \<and>
          result entry s2 = Success)"
        and x: "result (verify_root_key_entry E (fit 256 root)) (s\<lparr>trace := tr1\<rparr>) = Success \<Longrightarrow> exec (intel_block1_verify E) s = exec entry s2"
        using m1 tag lroot ecdsa(2,3)
        by (simp_all add: intel_block1_verify_def m_def [symmetric] le32_fit field_bytes_fit rd)
           (simp_all add: le32_fit field_bytes_fit case_prod_beta s1_def [symmetric] s2_def [symmetric] entry_def)
      have m2: "m_address (manifest s2) = m_address m" "hash_curve (manifest s2) = c" "host_image d s2"
        "\<not> lms_curve (manifest s2)" "kc_flag (manifest s2) = kc_flag m"
        using d ecdsa(4) by (auto simp: s2_def host_image_def lms_curve_def)
      have tk: "take len (overwrite xs 0 (field_bytes n 48 root)) = take len (field_bytes n 48 root)"
        if "n + 48 \<le> 148" for xs n
        using len lroot that by (simp add: overwrite_def)
      have e: "(result entry s2 = Success) = chain_signed sha ecdsa E (H d) (m_address m) (kc_flag m \<noteq> 0) c"
      proof -
        have root: "rd_at (H d) (m_address m) 128 148 = root" by (simp add: root_def m_def)
        have key: "pubkey_x (manifest s2) = overwrite (pubkey_x m) 0 (field_bytes 32 48 root)"
          "pubkey_y (manifest s2) = overwrite (pubkey_y m) 0 (field_bytes 80 48 root)" by (simp_all add: s2_def)
        have sig: "csk_signed sha ecdsa E f a c (pubkey_x (manifest s2), pubkey_y (manifest s2)) =
            csk_signed sha ecdsa E f a c (field_bytes 32 48 root, field_bytes 80 48 root)"
          "block0_signed sha ecdsa f a off c (pubkey_x (manifest s2), pubkey_y (manifest s2)) =
            block0_signed sha ecdsa f a off c (field_bytes 32 48 root, field_bytes 80 48 root)" for f a off
          unfolding key by (rule csk_signed_key [OF ecdsa(1) tk tk] block0_signed_key [OF ecdsa(1) tk tk]; simp)+
        show ?thesis
          using csk_block0_result [OF host cr m2(3,4)] block0_entry_result [OF host cr m2(3,4)]
          by (cases "kc_flag m = 0") (simp_all add: entry_def chain_signed_def Let_def root m2(1,2,5) sig)
      qed
      have r: "(result (verify_root_key_entry E (fit 256 root)) (s\<lparr>trace := tr1\<rparr>) = Success) =
          root_trusted sha (rot_mem m0 (trace s) ROT_INTERNAL_INTEL_STATE) root c"
        using root_entry_result [OF cr prov lroot c ecdsa(1) tag(1), of "s\<lparr>trace := tr1\<rparr>"] view by simp
      have "?L = ?chain c" unfolding L r e ..
      then have "?L = (\<exists>c \<in> {secp256r1, secp384r1}. ?chain c)"
        using ecdsa(4) by (metis only_c)
      moreover have "same_image s2 (exec entry s2)"
        using simg.keepsD [OF block_entries_keep_image(1)] simg.keepsD [OF block_entries_keep_image(2)]
        by (simp add: entry_def)
      ultimately show ?thesis
        using x L c by (auto simp: same_image_def s2_def m_def)
    qed
  qed
  from main show "?L = (\<exists>c \<in> {secp256r1, secp384r1}. root_trusted sha (rot_mem m0 (trace s) ROT_INTERNAL_INTEL_STATE) root c \<and>
        chain_signed sha ecdsa E (H d) (m_address (manifest s)) (kc_flag (manifest s) \<noteq> 0) c)"
    by (simp only: m_def)
  from main show "\<And>c. ?L \<Longrightarrow> key_curve (le32 20 root) = Some c \<Longrightarrow>
      same_image (s\<lparr>manifest := (manifest s)\<lparr>hash_curve := c\<rparr>\<rparr>) (exec (intel_block1_verify E) s)" by blast
qed

subsection \<open>Block 0, the key cancellation check and the whole image\<close>

lemma block0_result:
  assumes host: "host_flash E H" and cr: "crypto_ok E H sha ecdsa" and img: "host_image d s"
  shows "(result (intel_block0_verify E) s = Success) =
    content_hash_ok sha (H d) (m_address (manifest s)) (hash_curve (manifest s))"
proof -
  define m where "m = manifest s"
  define b where "b = rd_at (H d) (m_address m) 0 128"
  define tr1 where "tr1 = trace s @ [(Fl (HostFlashRead d (m_address m) 128), (0, b))]"
  have d: "ucast (image_type m) = d" using img by (simp add: host_image_def m_def)
  have rd: "run (image_read E (m_address m) 128) s = ((0, b), s\<lparr>trace := tr1\<rparr>)"
    unfolding run_image_read [OF host img] b_def rd_at_def tr1_def by simp
  show ?thesis
  proof (cases "block0_digest (hash_curve m)")
    case None
    then show ?thesis
      using rd by (simp add: intel_block0_verify_def m_def [symmetric] content_hash_ok_def Let_def)
  next
    case (Some p)
    obtain t len off start where p: "p = (t, len, off, start)" by (cases p)
    have len: "len = 32 \<or> len = 48" and sha_len: "length (sha t bs) = len" for bs
      using Some p crypto_okD(1,2) [OF cr] by (auto simp: block0_digest_def split: if_splits)
    define s1 where "s1 = s\<lparr>trace := tr1, manifest := m\<lparr>device_id0 := d, pc_length := le32 4 b,
      hash_length := le32 4 b, hash_kind := t, hash_start_address := m_address m + start\<rparr>\<rparr>"
    have gh: "result (manifest_get_hash E (of_nat len)) s1 =
        (0, sha t (mem_slice (H d) (unat (m_address m + start)) (unat (le32 4 b))))"
      using run_manifest_get_hash(1) [OF cr _ sha_len len refl, of s1] by (simp add: s1_def)
    show ?thesis
      using rd Some p gh
      by (simp add: intel_block0_verify_def m_def [symmetric] content_hash_ok_def b_def [symmetric] d Let_def)
         (auto simp: case_prod_beta s1_def)
  qed
qed

lemma validate_key_result:
  assumes host: "host_flash E H" and prov: "provision_ok m0 rsize E" and img: "host_image d s"
    and lms: "\<not> lms_curve (manifest s)"
  defines "u \<equiv> rot_mem m0 (trace s) ROT_INTERNAL_INTEL_STATE" and "m \<equiv> manifest s"
    and "s' \<equiv> exec (validate_key_cancellation_flag E) s"
  shows "(result (validate_key_cancellation_flag E) s = Success) =
      (if is_cancellation (pc_type m) then list_all (\<lambda>b. b = 0) (rd_at (H d) (m_address m) 1028 124)
       else csk_allowed E (H d) u (m_address m) (pc_type m))"
    and "result (validate_key_cancellation_flag E) s = Success \<Longrightarrow>
      manifest s' = m\<lparr>kc_flag := (if is_cancellation (pc_type m) then 1 else 0)\<rparr> \<and>
      rot_mem m0 (trace s') ROT_INTERNAL_INTEL_STATE = u"
proof -
  have d: "d \<le> PCH_SPI" using img by (simp add: host_image_def)
  define sr where "sr a n = exec (image_read E a n) s" for a n
  have rd: "run (image_read E a n) s = ((0, mem_slice (H d) (unat a) (unat n)), sr a n)"
    and rd_m: "manifest (sr a n) = m"
    and rd_v: "rot_mem m0 (trace (sr a n)) ROT_INTERNAL_INTEL_STATE = u" for a n
    using d by (simp_all add: run_image_read [OF host img] m_def u_def sr_def)
  have view: "rot_mem m0 (trace (exec (verify_csk_key_id E k) t)) = rot_mem m0 (trace t)" for k t
    by (simp add: verify_csk_key_id_def case_prod_beta Let_def ufm_view_read [OF prov])
  have size: "sig_block_size m = 1024" using lms by (simp add: sig_block_size_def m_def)
  have key: "mem_slice (H d) (unat (csk_key_id_address m)) 4 = rd_at (H d) (m_address m) 288 4"
    by (simp add: csk_key_id_address_def rd_at_def add.assoc)
  have zeros: "mem_slice (H d) (unat (m_address m + sig_block_size m + 4)) 124 = rd_at (H d) (m_address m) 1028 124"
    by (simp add: size rd_at_def add.assoc)
  define key_id :: u8 where "key_id = ucast (u32_of_bytes (rd_at (H d) (m_address m) 288 4))"
  define sk where "sk = exec (verify_csk_key_id E key_id) (sr (csk_key_id_address m) 4)"
  have vk: "run (verify_csk_key_id E key_id) (sr (csk_key_id_address m) 4) =
      (if csk_allowed E (H d) u (m_address m) (pc_type m) then Success else Failure, sk)"
    by (simp add: prod_eq_iff sk_def verify_csk_key_id_result [OF prov] rd_m rd_v csk_allowed_def le32_def key_id_def)
  have sk: "manifest sk = m" "rot_mem m0 (trace sk) ROT_INTERNAL_INTEL_STATE = u"
    by (simp_all add: sk_def exec_dev_manifest [OF key_dev(1)] rd_m rd_v view)
  have step: "run (validate_key_cancellation_flag E) s =
      (if is_cancellation (pc_type m) then
         (if list_all (\<lambda>b. b = 0) (rd_at (H d) (m_address m) 1028 124)
          then (Success, (sr (m_address m + sig_block_size m + 4) 124)\<lparr>manifest := m\<lparr>kc_flag := 1\<rparr>\<rparr>)
          else (Failure, sr (m_address m + sig_block_size m + 4) 124))
       else if csk_allowed E (H d) u (m_address m) (pc_type m) then (Success, sk\<lparr>manifest := m\<lparr>kc_flag := 0\<rparr>\<rparr>)
       else (Failure, sk))"
    by (simp add: validate_key_cancellation_flag_def m_def [symmetric] rd key zeros key_id_def [symmetric] vk rd_m sk)
  show res: "(result (validate_key_cancellation_flag E) s = Success) =
      (if is_cancellation (pc_type m) then list_all (\<lambda>b. b = 0) (rd_at (H d) (m_address m) 1028 124)
       else csk_allowed E (H d) u (m_address m) (pc_type m))"
    by (simp add: step)
  show "manifest s' = m\<lparr>kc_flag := (if is_cancellation (pc_type m) then 1 else 0)\<rparr> \<and>
      rot_mem m0 (trace s') ROT_INTERNAL_INTEL_STATE = u"
    if "result (validate_key_cancellation_flag E) s = Success"
  proof (cases "is_cancellation (pc_type m)")
    case True
    have "list_all (\<lambda>b. b = 0) (rd_at (H d) (m_address m) 1028 124)"
      using that unfolding res using True by (simp only: if_True)
    then show ?thesis unfolding s'_def step by (simp add: True rd_v)
  next
    case False
    have "csk_allowed E (H d) u (m_address m) (pc_type m)"
      using that unfolding res using False by (simp only: if_False)
    then show ?thesis unfolding s'_def step by (simp add: False sk)
  qed
qed

lemma manifest_verify_authentic:
  assumes host: "host_flash E H" and cr: "crypto_ok E H sha ecdsa" and prov: "provision_ok m0 rsize E"
    and img: "host_image d s" and lms: "\<not> lms_curve (manifest s)"
  shows "(result (intel_pfr_manifest_verify E) s = Success) =
    authentic_image sha ecdsa E (H d) (rot_mem m0 (trace s) ROT_INTERNAL_INTEL_STATE) (m_address (manifest s))"
proof -
  define m where "m = manifest s"
  define u where "u = rot_mem m0 (trace s) ROT_INTERNAL_INTEL_STATE"
  define pct where "pct = u32_of_bytes (rd_at (H d) (m_address m) 8 4)"
  have d: "ucast (image_type m) = d" "d \<le> PCH_SPI" using img by (simp_all add: host_image_def m_def)
  define s0 where "s0 = exec (image_read E (m_address m + 8) 4) s"
  define s1 where "s1 = s0\<lparr>manifest := m\<lparr>pc_type := pct\<rparr>\<rparr>"
  have rd: "run (image_read E (m_address m + 8) 4) s =
      ((0, rd_at (H d) (m_address m) 8 4), s0)"
    and m0: "manifest s0 = m"
    and u1: "rot_mem m0 (trace s1) ROT_INTERNAL_INTEL_STATE = u"
    using d by (simp_all add: run_image_read [OF host img] rd_at_def m_def u_def s1_def s0_def)
  have img1: "host_image d s1" and lms1: "\<not> lms_curve (manifest s1)"
    using d lms by (simp_all add: s1_def lms_curve_def m_def)
  define s2 where "s2 = exec (validate_key_cancellation_flag E) s1"
  note kc = validate_key_result [OF host prov img1 lms1, folded s2_def, unfolded u1]
  define s3 where "s3 = exec (intel_block1_verify E) s2"
  have unfolded: "(result (intel_pfr_manifest_verify E) s = Success) =
      (result (validate_key_cancellation_flag E) s1 = Success \<and> result (intel_block1_verify E) s2 = Success \<and>
       result (intel_block0_verify E) s3 = Success)"
    by (simp add: intel_pfr_manifest_verify_def m_def [symmetric] rd m0 pct_def [symmetric] s1_def [symmetric])
       (simp add: case_prod_beta s2_def [symmetric] s3_def [symmetric])
  show ?thesis
  proof (cases "result (validate_key_cancellation_flag E) s1 = Success")
    case False
    then show ?thesis
      using kc(1) unfolding unfolded
      by (simp add: authentic_image_def Let_def pct_def s1_def m_def u_def split: if_splits)
  next
    case True
    then have m2: "manifest s2 = m\<lparr>pc_type := pct, kc_flag := (if is_cancellation pct then 1 else 0)\<rparr>"
      and u2: "rot_mem m0 (trace s2) ROT_INTERNAL_INTEL_STATE = u"
      using kc(2) by (simp_all add: s1_def)
    have img2: "host_image d s2" using d by (simp add: host_image_def m2)
    have m2': "m_address (manifest s2) = m_address m" "(kc_flag (manifest s2) \<noteq> 0) = is_cancellation pct"
      by (simp_all add: m2)
    define P where "P c \<longleftrightarrow> root_trusted sha u (rd_at (H d) (m_address m) 128 148) c \<and>
      chain_signed sha ecdsa E (H d) (m_address m) (is_cancellation pct) c" for c
    have b1: "(result (intel_block1_verify E) s2 = Success) = (\<exists>c \<in> {secp256r1, secp384r1}. P c)"
      using block1_result(1) [OF host cr prov img2] unfolding m2' u2 P_def .
    have auth: "authentic_image sha ecdsa E (H d) u (m_address m) \<longleftrightarrow>
        (\<exists>c \<in> {secp256r1, secp384r1}. P c \<and> content_hash_ok sha (H d) (m_address m) c)"
    proof -
      have ms1: "m_address (manifest s1) = m_address m" "pc_type (manifest s1) = pct" by (simp_all add: s1_def)
      have keys: "if is_cancellation pct then list_all (\<lambda>b. b = 0) (rd_at (H d) (m_address m) 1028 124)
          else csk_allowed E (H d) u (m_address m) pct"
        using True kc(1) unfolding ms1 by blast
      show ?thesis
        unfolding authentic_image_def Let_def pct_def [symmetric] P_def using keys by blast
    qed
    have b0: "(result (intel_block0_verify E) s3 = Success) = content_hash_ok sha (H d) (m_address m) c"
      if ok: "result (intel_block1_verify E) s2 = Success" and c: "P c" for c
    proof -
      have key: "key_curve (le32 20 (rd_at (H d) (m_address (manifest s2)) 128 148)) = Some c"
        using c by (simp add: P_def root_trusted_def m2)
      have s3: "image_type (manifest s3) = image_type m" "m_address (manifest s3) = m_address m"
          "hash_curve (manifest s3) = c"
        using block1_result(2) [OF host cr prov img2 ok key] by (simp_all add: s3_def same_image_def m2)
      have "host_image d s3" using d by (simp add: host_image_def s3)
      then show ?thesis using block0_result [OF host cr] by (simp add: s3)
    qed
    have "(result (intel_pfr_manifest_verify E) s = Success) = authentic_image sha ecdsa E (H d) u (m_address m)"
      unfolding unfolded auth using True b1 b0 by blast
    then show ?thesis by (simp only: u_def m_def)
  qed
qed


lemma field_bytes_rd_at: "k + n \<le> j \<Longrightarrow> field_bytes k n (rd_at f a off j) = mem_slice f (unat (a + off) + k) n"
  by (simp add: field_bytes_def rd_at_def mem_slice_def drop_map take_map)

lemma le32_field_bytes: "k + 4 \<le> length bs \<Longrightarrow> le32 k bs = u32_of_bytes (field_bytes k 4 bs)"
  using u32_of_bytes_append [of "take 4 (drop k bs)" "drop 4 (drop k bs)"]
  by (simp only: le32_def field_bytes_def append_take_drop_id) simp

lemma le32_rd_at: "k + 4 \<le> j \<Longrightarrow> le32 k (rd_at f a off j) = u32_of_bytes (mem_slice f (unat (a + off) + k) 4)"
  by (simp add: le32_field_bytes field_bytes_rd_at)

text \<open>
  The hypotheses hold of a machine whose host flash holds a key cancellation certificate and
  whose engines hash everything to all ones and accept every signature; the certificate is
  accepted there.
\<close>

definition cancel_image :: "(nat \<times> u32) list" where
  "cancel_image = [(0, BLOCK0TAG), (4, 128), (8, CPLD_CAPSULE_CANCELLATION)] @
     map (\<lambda>i. (i, 0xffffffff)) [16, 20, 24, 28, 32, 36, 40, 44] @
     [(128, BLOCK1TAG), (144, BLOCK1_ROOTENTRY_TAG), (148, PUBLIC_SECP256_TAG), (152, 0xffffffff),
      (156, 0xffffffff), (276, BLOCK1_BLOCK0ENTRYTAG), (280, SIGNATURE_SECP256_TAG)]"

definition cancel_flash :: "nat \<Rightarrow> u8" where
  "cancel_flash i = (case map_of cancel_image (4 * (i div 4)) of
      Some w \<Rightarrow> u32_bytes w ! (i mod 4) | None \<Rightarrow> 0)"

lemma cancel_flash_word:
  assumes "k mod 4 = 0"
  shows "u32_of_bytes (mem_slice cancel_flash k 4) = (case map_of cancel_image k of Some w \<Rightarrow> w | None \<Rightarrow> 0)"
proof -
  obtain q where k: "k = 4 * q" using assms by (auto elim: dvdE simp: mod_eq_0_iff_dvd)
  have at: "cancel_flash (4 * q + r) = (case map_of cancel_image (4 * q) of Some w \<Rightarrow> u32_bytes w ! r | None \<Rightarrow> 0)"
    if "r < 4" for r
    using that by (simp add: cancel_flash_def split: option.split)
  have "mem_slice cancel_flash k 4 = map (\<lambda>r. cancel_flash (4 * q + r)) [0 ..< 4]"
    by (simp add: mem_slice_def k upt_rec numeral_eq_Suc)
  also have "\<dots> = (case map_of cancel_image k of Some w \<Rightarrow> u32_bytes w | None \<Rightarrow> replicate 4 0)"
    by (auto simp: at k intro!: nth_equalityI split: option.split)
  finally show ?thesis
    using u32_of_u32_bytes [of _ "[]"] by (simp add: u32_of_bytes_def numeral_eq_Suc split: option.split)
qed

definition ones_sha :: "hash_type \<Rightarrow> u8 list \<Rightarrow> u8 list" where
  "ones_sha t bs = replicate (case t of HASH_TYPE_SHA256 \<Rightarrow> 32 | HASH_TYPE_SHA384 \<Rightarrow> 48) 0xff"

definition crypto_env :: env where
  "crypto_env = ref_env\<lparr>reply_of := (\<lambda>tr c. case c of
      Fl (HostFlashRead d a n) \<Rightarrow> (0, mem_slice cancel_flash (unat a) (unat n))
    | Fl (FlashHashContents d a n t len) \<Rightarrow> (0, ones_sha t [])
    | Crypto (CalculateSha t bs) \<Rightarrow> (0, ones_sha t [])
    | Crypto c \<Rightarrow> (0, [])
    | _ \<Rightarrow> ref_reply tr c)\<rparr>"

lemma crypto_env_laws:
  "host_flash crypto_env (\<lambda>_. cancel_flash)"
  "crypto_ok crypto_env (\<lambda>_. cancel_flash) ones_sha (\<lambda>_ _ _ _ _. True)"
  "provision_ok (\<lambda>_ _. 0xff) (\<lambda>_. 65536) crypto_env"
  using ref_env_provision
  by (simp_all add: host_flash_def crypto_ok_def crypto_env_def ones_sha_def provision_ok_def nor_flash_def)


end
