(* ===== verification/Pfr_Svn.thy ===== *)
theory Pfr_Svn
  imports Pfr_Ufm
begin

text \<open>
  Security version numbers, \<open>intel_pfr/intel_pfr_svn.c\<close>: a number up to 64 is kept in two
  32-bit policy words of the provisioning area as the count of cleared low bits, an update with
  a smaller number is refused.
\<close>

section \<open>Operations\<close>

text \<open>
  The \<open>for\<close> loop of \<open>get_ufm_svn\<close>: the first index whose bit is set, 64 when there is none.
  The reply of a failed read is used all the same.
\<close>

definition svn_bit_set :: "u32 \<Rightarrow> u32 \<Rightarrow> nat \<Rightarrow> bool" where
  "svn_bit_set p0 p1 index \<longleftrightarrow>
     (if index div 32 = 0 then p0 else p1) AND push_bit (index mod 32) 1 \<noteq> 0"

definition svn_scan :: "u32 \<Rightarrow> u32 \<Rightarrow> u8" where
  "svn_scan p0 p1 = (case List.find (svn_bit_set p0 p1) [0..<64] of
      Some index \<Rightarrow> of_nat index | None \<Rightarrow> 64)"

definition get_ufm_svn :: "env \<Rightarrow> u32 \<Rightarrow> (world, u8) state" where
  "get_ufm_svn E offset = do {
     (_, svn_policy) \<leftarrow> ufm_read E PROVISION_UFM offset 8;
     ret (svn_scan (u32_of_bytes svn_policy) (u32_of_bytes (drop 4 svn_policy)))
   }"

text \<open>
  The two policy words of a number. \<open>(1 << 31) - 1\<close> overflows a signed int in C; the model
  takes the wrapped value that two's complement gives.
\<close>

definition svn_policy_words :: "u8 \<Rightarrow> u32 \<times> u32" where
  "svn_policy_words svn =
     (let new_svn_policy = NOT (push_bit (unat svn mod 32) 1 - 1) in
      if svn < 32 then (new_svn_policy, 0xffffffff)
      else if svn < 64 then (0, new_svn_policy)
      else if svn = 64 then (0, 0)
      else (0, 0xffffffff))"

definition set_ufm_svn :: "env \<Rightarrow> u32 \<Rightarrow> u8 \<Rightarrow> (world, int) state" where
  "set_ufm_svn E offset svn =
     (if 64 < svn then ret Failure
      else do {
        current_svn \<leftarrow> get_ufm_svn E offset;
        if current_svn = svn then ret Success
        else do {
          let (p0, p1) = svn_policy_words svn;
          status \<leftarrow> ufm_write E PROVISION_UFM offset (u32_bytes p0 @ u32_bytes p1);
          if status \<noteq> Success then ret Failure else ret Success
        }
      })"

definition svn_policy_verify :: "env \<Rightarrow> u32 \<Rightarrow> u32 \<Rightarrow> (world, int) state" where
  "svn_policy_verify E offset svn = do {
     current_svn \<leftarrow> get_ufm_svn E offset;
     if 64 < svn then ret Failure
     else if svn < ucast current_svn then ret Failure
     else ret Success
   }"

text \<open>\<open>PFM_STRUCTURE\<close> is 32 bytes with the SVN in the fifth.\<close>

definition read_statging_area_pfm_svn :: "env \<Rightarrow> (world, int \<times> u8) state" where
  "read_statging_area_pfm_svn E = do {
     m \<leftarrow> gets manifest;
     let pfm_start_address =
       (if hash_curve m = 4 \<or> hash_curve m = 3
        then m_address m + LMS_PFM_SIG_BLOCK_SIZE + LMS_PFM_SIG_BLOCK_SIZE
        else m_address m + PFM_SIG_BLOCK_SIZE + PFM_SIG_BLOCK_SIZE);
     (status, buf) \<leftarrow>
       (if image_type m = AFM_TYPE then pfr_spi_read E (ucast BMC_TYPE) pfm_start_address 32
        else pfr_spi_read E (ucast (image_type m)) pfm_start_address 32);
     if status \<noteq> Success then ret (Failure, 0) else ret (Success, buf ! 4)
   }"

lemma svn_dev [dev_lemmas]:
  "state_io_rel dev_only (get_ufm_svn E off)"
  "state_io_rel dev_only (set_ufm_svn E off n)"
  "state_io_rel dev_only (svn_policy_verify E off m)"
  "state_io_rel dev_only (read_statging_area_pfm_svn E)"
  unfolding set_ufm_svn_def svn_policy_verify_def get_ufm_svn_def read_statging_area_pfm_svn_def
  by (intro dev.keeps_intros dev_lemmas)+

section \<open>The encoding of a number\<close>

lemma find_from:
  "List.find (\<lambda>i. n \<le> i) [0..<m] = (if n < m then Some n else None)"
proof (induction m)
  case (Suc m)
  have app: "List.find P (xs @ [x]) = (case List.find P xs of
      None \<Rightarrow> if P x then Some x else None | Some y \<Rightarrow> Some y)" for P xs and x :: nat
    by (induction xs) auto
  show ?case using Suc by (auto simp: app)
qed simp

lemma svn_bit_set_iff:
  "svn_bit_set p0 p1 i \<longleftrightarrow> bit (if i < 32 then p0 else p1) (i mod 32)"
  by (auto simp: svn_bit_set_def bit_iff_and_push_bit_not_eq_0 div_eq_0_iff)

lemma pow_minus_1: "(2::u32) ^ k - 1 = mask k"
  by (simp add: mask_eq_exp_minus_1)

lemma bit_ones: "i < 32 \<Longrightarrow> bit (4294967295 :: int) i"
proof -
  have "(4294967295::int) = mask 32" by (simp add: mask_eq_exp_minus_1)
  then show "i < 32 \<Longrightarrow> bit (4294967295 :: int) i" by (simp only: bit_mask_iff) simp
qed

lemma bit_new_policy: "i < 32 \<Longrightarrow> bit (NOT (mask k) :: u32) i \<longleftrightarrow> k \<le> i"
  by (auto simp: bit_simps)

lemma svn_policy_words_bits:
  assumes "svn_policy_words svn = (p0, p1)" and "svn \<le> 64" and "i < 64"
  shows "svn_bit_set p0 p1 i \<longleftrightarrow> unat svn \<le> i"
proof -
  consider "unat svn < 32" | "32 \<le> unat svn" "unat svn < 64" | "svn = 64"
    using assms(2) by (fastforce simp: word_le_nat_alt word_unat_eq_iff)
  then show ?thesis
  proof cases
    case 1
    then show ?thesis using assms(1,3)
      by (auto simp: svn_bit_set_iff svn_policy_words_def Let_def pow_minus_1 bit_new_policy
          bit_ones word_less_nat_alt)
  next
    case 2
    then have "unat svn mod 32 = unat svn - 32" by (simp add: mod_if)
    moreover have "i mod 32 = i - 32" if "32 \<le> i" using that assms(3) by (simp add: mod_if)
    ultimately show ?thesis using 2 assms(1,3)
      by (auto simp: svn_bit_set_iff svn_policy_words_def Let_def pow_minus_1 bit_new_policy
          word_less_nat_alt)
  next
    case 3
    then show ?thesis using assms(1,3)
      by (auto simp: svn_bit_set_iff svn_policy_words_def Let_def)
  qed
qed

lemma svn_scan_policy:
  assumes "svn_policy_words svn = (p0, p1)" and "svn \<le> 64"
  shows "svn_scan p0 p1 = svn"
proof -
  have "List.find (svn_bit_set p0 p1) [0..<64] = List.find (\<lambda>i. unat svn \<le> i) [0..<64]"
    using svn_policy_words_bits [OF assms] by (intro find_cong) auto
  then show ?thesis
    using assms(2)
    by (auto simp: svn_scan_def find_from word_le_nat_alt word_unat_eq_iff split: option.split)
qed

section \<open>What is stored is what is read, and only forward\<close>

lemma run_get_ufm_svn:
  assumes "provision_ok m0 rsize E"
  shows "result (get_ufm_svn E off) s =
    (let bs = mem_slice (rot_mem m0 (trace s) ROT_INTERNAL_INTEL_STATE) (unat off) 8
     in svn_scan (u32_of_bytes bs) (u32_of_bytes (drop 4 bs)))"
  using provision_ufm.rd_result [OF assms, of off 8 s]
  by (simp add: get_ufm_svn_def case_prod_beta Let_def)

lemma set_then_get:
  assumes "provision_ok m0 rsize E" and "unat off + 8 \<le> 512" and "svn \<le> 64"
  shows "result (set_ufm_svn E off svn) s = Success \<and>
    result (get_ufm_svn E off) (exec (set_ufm_svn E off svn) s) = svn"
proof (cases "result (get_ufm_svn E off) s = svn")
  case True
  define s1 where "s1 = exec (get_ufm_svn E off) s"
  have r: "run (set_ufm_svn E off svn) s = (Success, s1)"
    using True assms(3) by (simp add: set_ufm_svn_def s1_def case_prod_beta not_less)
  have "rot_mem m0 (trace s1) ROT_INTERNAL_INTEL_STATE = rot_mem m0 (trace s) ROT_INTERNAL_INTEL_STATE"
    using provision_ufm.rd_view [OF assms(1), of off 8 s]
    by (simp add: s1_def get_ufm_svn_def case_prod_beta)
  with True r show ?thesis by (simp add: run_get_ufm_svn [OF assms(1)])
next
  case False
  obtain p0 p1 where p: "svn_policy_words svn = (p0, p1)" by fastforce
  define bs where "bs = u32_bytes p0 @ u32_bytes p1"
  define s1 where "s1 = exec (get_ufm_svn E off) s"
  define s2 where "s2 = exec (ufm_write E PROVISION_UFM off bs) s1"
  have len: "unat off + length bs \<le> 512" using assms(2) by (simp add: bs_def)
  have r: "run (set_ufm_svn E off svn) s = (Success, s2)"
    using False assms(3) provision_ufm.wr_result [OF assms(1) len, of s1] p
    by (simp add: set_ufm_svn_def s1_def [symmetric] s2_def bs_def case_prod_beta not_less Let_def)
  have "result (ufm_read E PROVISION_UFM off 8) s2 = (Success, bs)"
    using provision_ufm.read_written [OF assms(1) len, of 8 s1] by (simp add: s2_def bs_def)
  then have "result (get_ufm_svn E off) s2 = svn"
    using svn_scan_policy [OF p assms(3)] u32_of_u32_bytes [of p1 "[]"]
    by (simp add: get_ufm_svn_def case_prod_beta bs_def)
  with r show ?thesis by simp
qed

text \<open>
  C30: a security version number up to 64 that is written to a policy offset of the provisioning
  area is what is read back, whatever was there before.
\<close>

theorem set_then_get_ufm_svn:
  assumes "provision_ok m0 rsize E" and "unat off + 8 \<le> 512" and "svn \<le> 64"
  shows "result (set_ufm_svn E off svn) s = Success \<and>
    result (get_ufm_svn E off) (exec (set_ufm_svn E off svn) s) = svn"
  by (rule set_then_get [OF assms])

theorem set_then_get_ufm_svn_witness:
  "result (get_ufm_svn ref_env 0x0d4) (exec (set_ufm_svn ref_env 0x0d4 33) boot_world) = 33"
  using set_then_get_ufm_svn [OF ref_env_provision, of "0x0d4" 33 boot_world] by simp

text \<open>
  C15: rollback protection: a candidate passes the policy check exactly when its number is at
  most 64 and not below the number on record; in particular, once \<open>svn\<close> has been recorded no
  smaller number is accepted again.
\<close>

theorem svn_policy_refuses_rollback:
  assumes "provision_ok m0 rsize E"
  shows "(result (svn_policy_verify E off cand) s = Success) =
      (ucast (result (get_ufm_svn E off) s) \<le> cand \<and> cand \<le> 64) \<and>
    (unat off + 8 \<le> 512 \<and> svn \<le> 64 \<longrightarrow>
     (result (svn_policy_verify E off cand) (exec (set_ufm_svn E off svn) s) = Success) =
      (ucast svn \<le> cand \<and> cand \<le> 64))"
proof -
  have verify: "(result (svn_policy_verify E off cand) s = Success) =
      (ucast (result (get_ufm_svn E off) s) \<le> cand \<and> cand \<le> 64)" for s
    by (auto simp: svn_policy_verify_def case_prod_beta)
  show ?thesis
  proof (intro conjI impI)
    assume "unat off + 8 \<le> 512 \<and> svn \<le> 64"
    then have *: "result (get_ufm_svn E off) (exec (set_ufm_svn E off svn) s) = svn"
      by (simp add: set_then_get [OF assms])
    show "(result (svn_policy_verify E off cand) (exec (set_ufm_svn E off svn) s) = Success) =
        (ucast svn \<le> cand \<and> cand \<le> 64)"
      unfolding verify * ..
  qed (rule verify)
qed

theorem svn_policy_refuses_rollback_witness:
  "result (svn_policy_verify ref_env 0x0d4 2) (exec (set_ufm_svn ref_env 0x0d4 3) boot_world) \<noteq> Success"
  using svn_policy_refuses_rollback [OF ref_env_provision, of "0x0d4" 2 boot_world 3] by simp

end
