(* ===== verification/Pfr_Mailbox.thy ===== *)
theory Pfr_Mailbox
  imports Pfr_Svn
begin

text \<open>
  The SMBus mailbox, \<open>Smbus_mailbox/Smbus_mailbox.c\<close>: the register accessors its macros
  generate, error, panic and recovery logging, the platform state with its LEDs, the UFM status
  byte, the access mode, and the notification thread and I3C handlers that turn host writes
  into state machine events.
\<close>

section \<open>Register accessors\<close>

definition MBX_REG_SETTER :: "env \<Rightarrow> u8 \<Rightarrow> u8 \<Rightarrow> (world, unit) state" where
  "MBX_REG_SETTER E REG Data = act E (Mbx (SwmbxWrite False REG Data))"

text \<open>A getter ignores the status of the read; the byte is whatever the reply left in it.\<close>

definition MBX_REG_GETTER :: "env \<Rightarrow> u8 \<Rightarrow> (world, u8) state" where
  "MBX_REG_GETTER E REG = do {
     (_, data) \<leftarrow> ext E (Mbx (SwmbxRead False REG));
     ret (fit 1 data ! 0)
   }"

definition MBX_REG_INC :: "env \<Rightarrow> u8 \<Rightarrow> (world, unit) state" where
  "MBX_REG_INC E REG = do {
     data \<leftarrow> MBX_REG_GETTER E REG;
     act E (Mbx (SwmbxWrite False REG (data + 1)))
   }"

definition swmbx_get_msg :: "env \<Rightarrow> u8 \<Rightarrow> u8 \<Rightarrow> (world, u8) state" where
  "swmbx_get_msg E port addr = do {
     (_, data) \<leftarrow> ext E (Mbx (SwmbxGetMsg port addr));
     ret (fit 1 data ! 0)
   }"

lemma mbx_regs_dev [dev_lemmas]:
  "state_io_rel dev_only (MBX_REG_SETTER E r v)" "state_io_rel dev_only (MBX_REG_GETTER E r)"
  "state_io_rel dev_only (MBX_REG_INC E r)" "state_io_rel dev_only (swmbx_get_msg E p r)"
  unfolding MBX_REG_SETTER_def MBX_REG_GETTER_def MBX_REG_INC_def swmbx_get_msg_def
  by (intro dev.keeps_intros dev_lemmas)+

section \<open>Error, panic and recovery logs\<close>

definition LogErrorCodes :: "env \<Rightarrow> u8 \<Rightarrow> u8 \<Rightarrow> (world, unit) state" where
  "LogErrorCodes E major_err minor_err = do {
     MBX_REG_SETTER E MajorErrorCode major_err;
     MBX_REG_SETTER E MinorErrorCode minor_err
   }"

definition getFailedUpdateAttemptsCount :: "(world, u32) state" where
  "getFailedUpdateAttemptsCount = gets gFailedUpdateAttempts"

definition LogUpdateFailure :: "env \<Rightarrow> u8 \<Rightarrow> u32 \<Rightarrow> (world, unit) state" where
  "LogUpdateFailure E minor_err failed_count = do {
     LogErrorCodes E FW_UPDATE_FAIL minor_err;
     modify (\<lambda>s. s\<lparr>gFailedUpdateAttempts := gFailedUpdateAttempts s + failed_count\<rparr>)
   }"

definition ClearUpdateFailure :: "env \<Rightarrow> (world, unit) state" where
  "ClearUpdateFailure E = do {
     major \<leftarrow> MBX_REG_GETTER E MajorErrorCode;
     cwhen (major = FW_UPDATE_FAIL) (LogErrorCodes E 0 0);
     modify (\<lambda>s. s\<lparr>gFailedUpdateAttempts := 0\<rparr>)
   }"

definition LogLastPanic :: "env \<Rightarrow> u8 \<Rightarrow> (world, unit) state" where
  "LogLastPanic E panic = do {
     MBX_REG_SETTER E LastPanicReason panic;
     MBX_REG_INC E PanicEventCount
   }"

definition LogRecovery :: "env \<Rightarrow> u8 \<Rightarrow> (world, unit) state" where
  "LogRecovery E reason = do {
     MBX_REG_SETTER E LastRecoveryReason reason;
     MBX_REG_INC E RecoveryCount
   }"

definition LogWatchdogRecovery :: "env \<Rightarrow> u8 \<Rightarrow> u8 \<Rightarrow> (world, unit) state" where
  "LogWatchdogRecovery E recovery_reason panic_reason = do {
     LogRecovery E recovery_reason;
     LogLastPanic E panic_reason
   }"

section \<open>Platform state\<close>

text \<open>\<open>pin_state ? led_on : led_off\<close>, with the front panel LEDs green 0, amber 1 and ID 2.\<close>

definition led_set :: "env \<Rightarrow> nat \<Rightarrow> bool \<Rightarrow> (world, unit) state" where
  "led_set E led on = (if on then act E (Led (LedOn led)) else act E (Led (LedOff led)))"

definition fp_amber_led_ctrl_callback :: "env \<Rightarrow> (world, unit) state" where
  "fp_amber_led_ctrl_callback E = do {
     on \<leftarrow> gets fp_amber_on;
     led_set E 1 (\<not> on);
     modify (\<lambda>s. s\<lparr>fp_amber_on := \<not> on\<rparr>)
   }"

definition SetFPLEDState :: "env \<Rightarrow> u8 \<Rightarrow> (world, unit) state" where
  "SetFPLEDState E PlatformStateData =
     (if PlatformStateData = PCH_FW_UPDATE \<or> PlatformStateData = BMC_FW_UPDATE \<or>
         PlatformStateData = CPLD_FW_UPDATE then do {
        modify (\<lambda>s. s\<lparr>bypass_bmc_fp_signal := True\<rparr>);
        act E (Led LedTimerStop);
        act E (Led (LedOff 0));
        modify (\<lambda>s. s\<lparr>fp_green_on := False\<rparr>);
        act E (Led (LedOn 1));
        modify (\<lambda>s. s\<lparr>fp_amber_on := True\<rparr>)
      }
      else if PlatformStateData = T_MINUS_1_FW_RECOVERY then do {
        modify (\<lambda>s. s\<lparr>bypass_bmc_fp_signal := True\<rparr>);
        act E (Led (LedOff 0));
        modify (\<lambda>s. s\<lparr>fp_green_on := False\<rparr>);
        act E (Led LedTimerStart)
      }
      else if PlatformStateData = ENTER_T_MINUS_1 then do {
        modify (\<lambda>s. s\<lparr>bypass_bmc_fp_signal := True\<rparr>);
        act E (Led LedTimerStop);
        act E (Led (LedOn 0));
        modify (\<lambda>s. s\<lparr>fp_green_on := True\<rparr>);
        act E (Led (LedOff 1));
        modify (\<lambda>s. s\<lparr>fp_amber_on := False\<rparr>)
      }
      else if PlatformStateData = ENTER_T0 then do {
        act E (Led LedTimerStop);
        modify (\<lambda>s. s\<lparr>bypass_bmc_fp_signal := False\<rparr>);
        (pin_state, _) \<leftarrow> ext E (Led (LedPinGet 0));
        if pin_state < 0 then ret ()
        else do {
          led_set E 0 (pin_state \<noteq> 0);
          modify (\<lambda>s. s\<lparr>fp_green_on := (pin_state \<noteq> 0)\<rparr>);
          (pin_state, _) \<leftarrow> ext E (Led (LedPinGet 1));
          if pin_state < 0 then ret ()
          else do {
            led_set E 1 (pin_state \<noteq> 0);
            modify (\<lambda>s. s\<lparr>fp_amber_on := (pin_state \<noteq> 0)\<rparr>);
            (pin_state, _) \<leftarrow> ext E (Led (LedPinGet 2));
            if pin_state < 0 then ret ()
            else do {
              led_set E 2 (pin_state \<noteq> 0);
              modify (\<lambda>s. s\<lparr>fp_id_on := (pin_state \<noteq> 0)\<rparr>)
            }
          }
        }
      }
      else ret ())"

definition SetPlatformState :: "env \<Rightarrow> u8 \<Rightarrow> (world, unit) state" where
  "SetPlatformState E PlatformStateData = do {
     cwhen (CONFIG_PLATFORM_STATE_LED E)
       (for_each [0..<8] (\<lambda>bit.
          act E (Led (StateLed (7 - bit) (PlatformStateData AND push_bit bit 1 = 0)))));
     cwhen (CONFIG_FRONT_PANEL_LED E) (SetFPLEDState E PlatformStateData);
     act E (Mbx (SwmbxWrite False PlatformState PlatformStateData))
   }"

section \<open>The UFM status\<close>

definition CheckUfmStatus :: "u32 \<Rightarrow> u32 \<Rightarrow> bool" where
  "CheckUfmStatus UfmStatus UfmStatusBitMask \<longleftrightarrow> (NOT UfmStatus AND UfmStatusBitMask) = UfmStatusBitMask"

definition read_ufm_flash_status :: "env \<Rightarrow> (world, int \<times> u32) state" where
  "read_ufm_flash_status E = do {
     (status, bs) \<leftarrow> get_provision_data_in_flash E UFM_STATUS 4;
     ret (status, u32_of_bytes bs)
   }"

definition GetUfmStatusValue :: "env \<Rightarrow> (world, u8) state" where
  "GetUfmStatusValue E = do {
     (_, UfmStatus) \<leftarrow> read_ufm_flash_status E;
     data \<leftarrow> MBX_REG_GETTER E UfmStatusValue;
     let data = data AND 0x0f;
     let data = (if CheckUfmStatus UfmStatus UFM_STATUS_LOCK_BIT_MASK then data OR UFM_LOCKED else data);
     let data = (if CheckUfmStatus UfmStatus
                     (UFM_STATUS_PROVISIONED_ROOT_KEY_HASH_BIT_MASK OR
                      UFM_STATUS_PROVISIONED_PCH_OFFSETS_BIT_MASK OR
                      UFM_STATUS_PROVISIONED_BMC_OFFSETS_BIT_MASK)
                 then data OR UFM_PROVISIONED else data);
     let data = (if CONFIG_PIT_PROTECTION E \<and> CheckUfmStatus UfmStatus UFM_STATUS_PIT_L1_ENABLE_BIT_MASK
                 then data OR PIT_LEVEL_1_ENFORCED else data);
     let data = (if CONFIG_PIT_PROTECTION E \<and> CheckUfmStatus UfmStatus UFM_STATUS_PIT_L2_PASSED_BIT_MASK
                 then data OR PIT_L2_COMPLETE_SUCCESSFUL else data);
     ret data
   }"

definition SetUfmStatusValue :: "env \<Rightarrow> u8 \<Rightarrow> (world, unit) state" where
  "SetUfmStatusValue E UfmStatusBitMask = do {
     status \<leftarrow> GetUfmStatusValue E;
     act E (Mbx (SwmbxWrite False UfmStatusValue (status OR (UfmStatusBitMask AND 0x07))))
   }"

definition ClearUfmStatusValue :: "env \<Rightarrow> u8 \<Rightarrow> (world, unit) state" where
  "ClearUfmStatusValue E UfmStatusBitMask = do {
     status \<leftarrow> GetUfmStatusValue E;
     act E (Mbx (SwmbxWrite False UfmStatusValue (status AND NOT (UfmStatusBitMask AND 0x07))))
   }"

definition SetUfmFlashStatus :: "env \<Rightarrow> u32 \<Rightarrow> u32 \<Rightarrow> (world, unit) state" where
  "SetUfmFlashStatus E UfmStatus UfmStatusBitMask = do {
     set_provision_data_in_flash E UFM_STATUS (u32_bytes (UfmStatus AND NOT UfmStatusBitMask));
     ret ()
   }"

definition ResetMailBox :: "env \<Rightarrow> (world, unit) state" where
  "ResetMailBox E = do {
     SetUfmStatusValue E COMMAND_DONE;
     MBX_REG_SETTER E UfmCmdTriggerValue 0x00
   }"

lemma mbx_dev [dev_lemmas]:
  "state_io_rel dev_only (LogErrorCodes E a b)"
  "state_io_rel dev_only (LogLastPanic E a)"
  "state_io_rel dev_only (LogRecovery E a)"
  "state_io_rel dev_only (LogWatchdogRecovery E a b)"
  "state_io_rel dev_only (led_set E n on)"
  "state_io_rel dev_only (read_ufm_flash_status E)"
  "state_io_rel dev_only (GetUfmStatusValue E)"
  "state_io_rel dev_only (SetUfmStatusValue E a)"
  "state_io_rel dev_only (ClearUfmStatusValue E a)"
  "state_io_rel dev_only (SetUfmFlashStatus E u m)"
  "state_io_rel dev_only (ResetMailBox E)"
  unfolding LogErrorCodes_def LogLastPanic_def LogRecovery_def LogWatchdogRecovery_def led_set_def
    read_ufm_flash_status_def GetUfmStatusValue_def SetUfmStatusValue_def
    ClearUfmStatusValue_def SetUfmFlashStatus_def ResetMailBox_def
  by (intro dev.keeps_intros dev_lemmas)+

section \<open>Access mode\<close>

text \<open>
  \<open>set_swmbx_state\<close>: which host writes are notified and which registers are writable by
  the BMC (port 0) and the PCH (port 1).
\<close>

definition bmc_notify_regs :: "u8 list" where
  "bmc_notify_regs = [UfmWriteFIFO, UfmCmdTriggerValue, BmcUpdateIntent, BmcCheckpoint,
     BmcUpdateIntent2, UfmSmbusOwnership, BmcResetCommunication]"

definition pch_notify_regs :: "u8 list" where
  "pch_notify_regs = [UfmWriteFIFO, UfmCmdTriggerValue, PchUpdateIntent, AcmCheckpoint,
     BiosCheckpoint, PchUpdateIntent2, UfmSmbusOwnership]"

definition access_control :: "bool \<Rightarrow> u8 \<Rightarrow> u32 list" where
  "access_control restrict port =
     (if restrict then
        (if port = 0 then [0xffff7fff, 0xffffffff, 0xffffffff, 0xffffffff,
                           0xffffffff, 0xffffffff, 0xffffffff, 0xffffffff]
         else [0xffffffff, 0xffffffff, 0xffffffff, 0xffffffff,
               0xffffffff, 0xffffffff, 0xffffffff, 0xffffffff])
      else
        (if port = 0 then [0xfff704ff, 0xffffffff, 0xffffffff, 0xfffffff2,
                           0xffffffff, 0xffffffff, 0x00000000, 0x00000000]
         else [0xfff884ff, 0xffffffff, 0xffffffff, 0xfffffff5,
               0x00000000, 0x00000000, 0xffffffff, 0xffffffff]))"

definition set_swmbx_state :: "env \<Rightarrow> bool \<Rightarrow> (world, unit) state" where
  "set_swmbx_state E value = do {
     curr \<leftarrow> gets curr_secure_state;
     if curr = (if value then 1 else 0) then ret ()
     else do {
       modify (\<lambda>s. s\<lparr>curr_secure_state := (if value then 1 else 0)\<rparr>);
       for_each bmc_notify_regs (\<lambda>r. act E (Mbx (SwmbxUpdateNotify 0 r (\<not> value))));
       for_each pch_notify_regs (\<lambda>r. act E (Mbx (SwmbxUpdateNotify 1 r (\<not> value))));
       act E (Mbx (SwmbxApplyProtect 0 (access_control value 0)));
       act E (Mbx (SwmbxApplyProtect 1 (access_control value 1)))
     }
   }"

abbreviation "SECURE_CONNECTION_LOOSE_MODE \<equiv> 1 :: nat"
abbreviation "SECURE_CONNECTION_RESTRICT_MODE \<equiv> 2 :: nat"

definition set_secure_connection_state :: "env \<Rightarrow> bool \<Rightarrow> (world, unit) state" where
  "set_secure_connection_state E enable =
     (if \<not> enable then set_swmbx_state E False
      else do {
        ufm_status \<leftarrow> GetUfmStatusValue E;
        if CONFIG_SECURE_LOCK_MODE E = SECURE_CONNECTION_RESTRICT_MODE then
          (if ufm_status AND UFM_PROVISIONED \<noteq> 0 then set_swmbx_state E True
           else set_swmbx_state E False)
        else if CONFIG_SECURE_LOCK_MODE E = SECURE_CONNECTION_LOOSE_MODE then
          (if ufm_status AND UFM_LOCKED \<noteq> 0 then set_swmbx_state E True
           else set_swmbx_state E False)
        else set_swmbx_state E False
      })"

section \<open>Host writes become events\<close>

text \<open>\<open>gUfmFifoData[gFifoData++] = c\<close>, with a store outside the 64 bytes recorded.\<close>

definition store_ufm_fifo :: "u8 \<Rightarrow> (world, unit) state" where
  "store_ufm_fifo c = modify (\<lambda>s.
     if unat (gFifoData s) < length (gUfmFifoData s)
     then s\<lparr>gUfmFifoData := (gUfmFifoData s)[unat (gFifoData s) := c], gFifoData := gFifoData s + 1\<rparr>
     else s\<lparr>oob := True, gFifoData := gFifoData s + 1\<rparr>)"

text \<open>
  The \<open>do ... while\<close> loop that drains the write FIFO, with fuel (\<open>None\<close>: still running).
  The index is a byte, so the loop ends after at most 66 rounds.
\<close>

fun drain_write_fifo :: "nat \<Rightarrow> env \<Rightarrow> (world, unit option) state" where
  "drain_write_fifo 0 E = ret None"
| "drain_write_fifo (Suc fuel) E = do {
     (r, c) \<leftarrow> ext E (Mbx (SwmbxRead True UfmWriteFIFO));
     cwhen (r = 0) (store_ufm_fifo (fit 1 c ! 0));
     i \<leftarrow> gets gFifoData;
     if r = 0 \<and> i < 64 then drain_write_fifo fuel E else ret (Some ())
   }"

definition ufm_write_fifo_event :: "env \<Rightarrow> (world, unit) state" where
  "ufm_write_fifo_event E = do {
     act E (Kern (KSemTake 0));
     (status, _) \<leftarrow> ext E (Kern MutexLock);
     if status \<noteq> 0 then ret ()
     else do {
       drain_write_fifo 66 E;
       act E (Kern MutexUnlock)
     }
   }"

text \<open>
  One pass of the \<open>while (1)\<close> loop of the notification thread: the first semaphore that
  \<open>k_poll\<close> reports (reply bytes: the 13 event states) decides the branch.
\<close>

definition swmbx_notifyee_main :: "env \<Rightarrow> (world, unit) state" where
  "swmbx_notifyee_main E = do {
     (r, states) \<leftarrow> ext E (Kern KPoll);
     let avail = (\<lambda>i. fit 13 states ! i \<noteq> 0);
     if r < 0 then ret ()
     else if avail 0 then ufm_write_fifo_event E
     else if avail 1 then act E (Kern (KSemTake 1))
     else if avail 2 then do {
       act E (Kern (KSemTake 2));
       v \<leftarrow> swmbx_get_msg E 0 UfmCmdTriggerValue;
       GenerateStateMachineEvent E PROVISION_CMD (UfmCmdTriggerValue, v, 0, 0)
     }
     else if avail 3 then do {
       act E (Kern (KSemTake 3));
       v \<leftarrow> swmbx_get_msg E 0 BmcUpdateIntent;
       GenerateStateMachineEvent E UPDATE_REQUESTED (BmcUpdateIntent, v, 0, 0)
     }
     else if avail 4 then do {
       act E (Kern (KSemTake 4));
       v \<leftarrow> swmbx_get_msg E 0 PchUpdateIntent;
       let v = v AND PchActiveRecoveryDynamicUpdateAtReset;
       act E (Mbx (SwmbxWrite False PchUpdateIntent v));
       cwhen (v AND PchActiveRecoveryDynamicUpdateAtReset \<noteq> 0)
         (GenerateStateMachineEvent E UPDATE_REQUESTED (PchUpdateIntent, v, 0, 0))
     }
     else if avail 5 then do {
       act E (Kern (KSemTake 5));
       v \<leftarrow> swmbx_get_msg E 0 BmcCheckpoint;
       GenerateStateMachineEvent E WDT_CHECKPOINT (BmcCheckpoint, v, 0, 0)
     }
     else if avail 6 then do {
       act E (Kern (KSemTake 6));
       v \<leftarrow> swmbx_get_msg E 0 AcmCheckpoint;
       GenerateStateMachineEvent E WDT_CHECKPOINT (AcmCheckpoint, v, 0, 0)
     }
     else if avail 7 then do {
       act E (Kern (KSemTake 7));
       v \<leftarrow> swmbx_get_msg E 0 BiosCheckpoint;
       GenerateStateMachineEvent E WDT_CHECKPOINT (BiosCheckpoint, v, 0, 0)
     }
     else if avail 8 then do {
       act E (Kern (KSemTake 8));
       v \<leftarrow> swmbx_get_msg E 0 BmcUpdateIntent2;
       (if v AND SeamlessUpdateAck \<noteq> 0
        then MBX_REG_SETTER E BmcUpdateIntent2 (v AND NOT SeamlessUpdate)
        else do {
          (remaining, _) \<leftarrow> ext E (Kern (TimerRemaining BMC_TIMER));
          cwhen (remaining \<noteq> 0) (act E (Kern (TimerStop BMC_TIMER)))
        });
       GenerateStateMachineEvent E UPDATE_INTENT_2_REQUESTED (BmcUpdateIntent2, v, 0, 0)
     }
     else if avail 9 then do {
       act E (Kern (KSemTake 9));
       v \<leftarrow> swmbx_get_msg E 0 PchUpdateIntent2;
       GenerateStateMachineEvent E UPDATE_INTENT_2_REQUESTED (PchUpdateIntent2, v, 0, 0)
     }
     else if avail 10 then do {
       act E (Kern (KSemTake 10));
       v \<leftarrow> swmbx_get_msg E 0 UfmSmbusOwnership;
       act E (Mbx (SwmbxWrite False UfmSmbusOwnership (v AND 0x23)))
     }
     else if avail 11 then do {
       act E (Kern (KSemTake 11));
       v \<leftarrow> swmbx_get_msg E 0 UfmSmbusOwnership;
       act E (Mbx (SwmbxWrite False UfmSmbusOwnership (v AND 0x3)))
     }
     else if avail 12 then do {
       act E (Kern (KSemTake 12));
       v \<leftarrow> swmbx_get_msg E 0 BmcResetCommunication;
       cwhen (v = 1) (GenerateStateMachineEvent E BMC_RESET_COMM_REQUESTED (BmcResetCommunication, v, 0, 0));
       act E (Mbx (SwmbxWrite False BmcResetCommunication 0))
     }
     else ret ()
   }"

text \<open>The write handler of the I3C mailbox protocol: the loop that fills the write FIFO.\<close>

fun doe_fifo_write :: "env \<Rightarrow> u8 list \<Rightarrow> (world, bool) state" where
  "doe_fifo_write E [] = ret True"
| "doe_fifo_write E (b # bs) = do {
     (r, _) \<leftarrow> ext E (Mbx (SwmbxWrite True UfmWriteFIFO b));
     if r \<noteq> 0 then ret False
     else do { store_ufm_fifo b; doe_fifo_write E bs }
   }"

text \<open>
  \<open>i3c\<close> stands for \<open>(channel_id & CMD_CHANNEL_I3C_BASE) != 0\<close>; \<open>swmbx_data\<close> are the
  \<open>data_len\<close> bytes of the message. \<open>write_then\<close> is "write the register, give up when that
  fails, then do \<open>m\<close>".
\<close>

definition write_then :: "env \<Rightarrow> u8 \<Rightarrow> u8 \<Rightarrow> (world, unit) state \<Rightarrow> (world, int) state" where
  "write_then E addr v m = do {
     (r, _) \<leftarrow> ext E (Mbx (SwmbxWrite False addr v));
     if r \<noteq> 0 then ret (-1) else do { m; ret 0 }
   }"

definition swmbx_mctp_i3c_doe_msg_write_handler ::
    "env \<Rightarrow> u8 \<Rightarrow> u8 list \<Rightarrow> bool \<Rightarrow> u8 \<Rightarrow> (world, int) state" where
  "swmbx_mctp_i3c_doe_msg_write_handler E addr swmbx_data i3c s_eid = (
     let isBMC = (s_eid = 0x1D); v = fit 1 swmbx_data ! 0 in
     if \<not> i3c then ret (-1)
     else if addr = UfmCommand then write_then E addr v (ret ())
     else if addr = UfmCmdTriggerValue then
       write_then E addr v (GenerateStateMachineEvent E PROVISION_CMD (UfmCmdTriggerValue, v, 0, 0))
     else if addr = UfmWriteFIFO then do {
       (status, _) \<leftarrow> ext E (Kern MutexLock);
       if status \<noteq> 0 then ret (-1)
       else do {
         ok \<leftarrow> doe_fifo_write E swmbx_data;
         if \<not> ok then ret (-1)
         else do {
           (status, _) \<leftarrow> ext E (Kern MutexUnlock);
           if status \<noteq> 0 then ret (-1) else ret 0
         }
       }
     }
     else if addr = BmcCheckpoint then
       (if isBMC then write_then E addr v (GenerateStateMachineEvent E WDT_CHECKPOINT (addr, v, 0, 0))
        else ret 0)
     else if addr = AcmCheckpoint \<or> addr = BiosCheckpoint then
       (if \<not> isBMC then write_then E addr v (GenerateStateMachineEvent E WDT_CHECKPOINT (addr, v, 0, 0))
        else ret 0)
     else if addr = PchUpdateIntent then
       (if \<not> isBMC then
          (let v = v AND PchActiveRecoveryDynamicUpdateAtReset in
           write_then E PchUpdateIntent v
             (cwhen (v AND PchActiveRecoveryDynamicUpdateAtReset \<noteq> 0)
               (GenerateStateMachineEvent E UPDATE_REQUESTED (addr, v, 0, 0))))
        else ret 0)
     else if addr = BmcUpdateIntent then
       (if isBMC then write_then E addr v (GenerateStateMachineEvent E UPDATE_REQUESTED (addr, v, 0, 0))
        else ret 0)
     else if addr = BmcUpdateIntent2 then
       (if isBMC then write_then E addr v
          (GenerateStateMachineEvent E UPDATE_INTENT_2_REQUESTED (addr, v, 0, 0))
        else ret 0)
     else if addr = PchUpdateIntent2 then
       (if \<not> isBMC then write_then E addr v
          (GenerateStateMachineEvent E UPDATE_INTENT_2_REQUESTED (addr, v, 0, 0))
        else ret 0)
     else if addr = UfmSmbusOwnership then do {
       act E (Mbx (SwmbxWrite False UfmSmbusOwnership (v AND (if isBMC then 0x23 else 0x3))));
       ret 0
     }
     else if addr = BmcResetCommunication then
       (if isBMC then do {
          cwhen (v = 1) (GenerateStateMachineEvent E BMC_RESET_COMM_REQUESTED (addr, v, 0, 0));
          write_then E addr 0 (ret ())
        }
        else ret 0)
     else ret (-1))"

fun doe_read_regs :: "env \<Rightarrow> bool \<Rightarrow> u8 \<Rightarrow> nat \<Rightarrow> (world, u8 list option) state" where
  "doe_read_regs E fifo addr 0 = ret (Some [])"
| "doe_read_regs E fifo addr (Suc n) = do {
     (r, data) \<leftarrow> ext E (Mbx (SwmbxRead fifo addr));
     if r \<noteq> 0 then ret None
     else do {
       rest \<leftarrow> doe_read_regs E fifo (if fifo then addr else addr + 1) n;
       case rest of None \<Rightarrow> ret None | Some bs \<Rightarrow> ret (Some (fit 1 data ! 0 # bs))
     }
   }"

definition swmbx_mctp_i3c_doe_msg_read_handler ::
    "env \<Rightarrow> u8 \<Rightarrow> u8 \<Rightarrow> (world, u8 list option) state" where
  "swmbx_mctp_i3c_doe_msg_read_handler E addr data_len =
     (if 128 < data_len then ret None
      else if addr = UfmReadFIFO then doe_read_regs E True UfmReadFIFO (unat data_len)
      else doe_read_regs E False addr (unat data_len))"

section \<open>Start up\<close>

definition InitializeSoftwareMailbox :: "env \<Rightarrow> (world, unit) state" where
  "InitializeSoftwareMailbox E = do {
     (dev, _) \<leftarrow> ext E (Filter (DeviceGetBinding ''swmbx-ctrl''));
     if dev = 0 then ret ()
     else do {
       (status, _) \<leftarrow> ext E (Kern MutexInit);
       if status \<noteq> 0 then ret ()
       else do {
         act E (Mbx SwmbxEnableBehavior);
         act E (Mbx (SwmbxUpdateFifo 0 UfmWriteFIFO 64));
         act E (Mbx (SwmbxUpdateFifo 1 UfmReadFIFO 128));
         set_secure_connection_state E False;
         (dev, _) \<leftarrow> ext E (Filter (DeviceGetBinding ''swmbx1''));
         cwhen (dev \<noteq> 0) (act E (Link (I2cTargetRegister ''swmbx1'')));
         (dev, _) \<leftarrow> ext E (Filter (DeviceGetBinding ''swmbx0''));
         cwhen (dev \<noteq> 0) (act E (Link (I2cTargetRegister ''swmbx0'')));
         act E (Kern ThreadCreate)
       }
     }
   }"

definition InitializeSmbusMailbox :: "env \<Rightarrow> (world, unit) state" where
  "InitializeSmbusMailbox E = do {
     InitializeSoftwareMailbox E;
     ResetMailBox E;
     MBX_REG_SETTER E CpldIdentifier 0xDE;
     MBX_REG_SETTER E CpldReleaseVersion
       (push_bit 4 (PROJECT_VERSION_MAJOR E) OR PROJECT_VERSION_MINOR E);
     policy_svn \<leftarrow> get_ufm_svn E SVN_POLICY_FOR_CPLD_UPDATE;
     MBX_REG_SETTER E CpldRotSvn policy_svn;
     modify (\<lambda>s. s\<lparr>manifest := (manifest s)\<lparr>device_id0 := ROT_INTERNAL_ACTIVE,
        image_type := ucast ROT_INTERNAL_ACTIVE, hash_start_address := 0\<rparr>\<rparr>);
     len \<leftarrow> pfr_spi_get_device_size E ROT_INTERNAL_ACTIVE;
     modify (\<lambda>s. s\<lparr>manifest := (manifest s)\<lparr>hash_length := len\<rparr>\<rparr>);
     (status, sha_buffer) \<leftarrow> get_hash E 48;
     cwhen (status = Success)
       (for_each [0..<48] (\<lambda>i.
          act E (Mbx (SwmbxWrite False (CpldFPGARoTHash + of_nat i) (sha_buffer ! i)))))
   }"

section \<open>What the host interfaces may post\<close>

lemma drain_write_fifo_posts: "state_io_rel (posts P) (drain_write_fifo fuel E)"
  by (induction fuel)
     (auto intro!: posts.keeps_intros posts_modify dev_only_posts [OF ext_dev] simp: store_ufm_fifo_def)

lemma doe_fifo_write_posts: "state_io_rel (posts P) (doe_fifo_write E bs)"
  by (induction bs)
     (auto intro!: posts.keeps_intros posts_modify dev_only_posts [OF ext_dev] simp: store_ufm_fifo_def)

lemma write_then_posts:
  "state_io_rel (posts P) m \<Longrightarrow> state_io_rel (posts P) (write_then E addr v m)"
  unfolding write_then_def by (intro posts.keeps_intros dev_only_posts [OF ext_dev])

lemmas posts_rules = posts.keeps_intros posts_event posts_modify drain_write_fifo_posts
  doe_fifo_write_posts write_then_posts dev_lemmas [THEN dev_only_posts]

text \<open>
  The requests the mailbox thread and the I3C write handler turn into events: an update request
  of the PCH carries no bits but the PCH's own (active, recovery, dynamic, at-reset) and at
  least one of them.
\<close>

definition mailbox_event :: "event_context \<Rightarrow> bool" where
  "mailbox_event e \<longleftrightarrow>
     (ev e = PROVISION_CMD \<and> bit8_0 e = UfmCmdTriggerValue) \<or>
     (ev e = UPDATE_REQUESTED \<and> bit8_0 e = BmcUpdateIntent) \<or>
     (ev e = UPDATE_REQUESTED \<and> bit8_0 e = PchUpdateIntent \<and>
        bit8_1 e AND NOT PchActiveRecoveryDynamicUpdateAtReset = 0 \<and> bit8_1 e \<noteq> 0) \<or>
     (ev e = UPDATE_INTENT_2_REQUESTED \<and> bit8_0 e \<in> {BmcUpdateIntent2, PchUpdateIntent2}) \<or>
     (ev e = WDT_CHECKPOINT \<and> bit8_0 e \<in> {BmcCheckpoint, AcmCheckpoint, BiosCheckpoint}) \<or>
     (ev e = BMC_RESET_COMM_REQUESTED \<and> bit8_0 e = BmcResetCommunication \<and> bit8_1 e = 1)"

lemma mask_pch_intent:
  fixes v :: u8
  assumes "v AND m \<noteq> 0"
  shows "(v AND m) AND NOT m = 0 \<and> v AND m \<noteq> 0"
  using assms by (auto intro!: bit_word_eqI simp: bit_simps)

lemma notifyee_posts: "state_io_rel (posts mailbox_event) (swmbx_notifyee_main E)"
  unfolding swmbx_notifyee_main_def ufm_write_fifo_event_def Let_def
  by (intro posts_rules) (auto simp: mailbox_event_def and.assoc)

lemma doe_write_posts:
  "state_io_rel (posts (\<lambda>e. mailbox_event e \<and>
      (s_eid \<noteq> 0x1D \<longrightarrow> bit8_0 e \<notin> {BmcCheckpoint, BmcUpdateIntent, BmcUpdateIntent2,
         BmcResetCommunication})))
    (swmbx_mctp_i3c_doe_msg_write_handler E addr bs i3c s_eid)"
  unfolding swmbx_mctp_i3c_doe_msg_write_handler_def Let_def
  by (intro posts_rules) (auto simp: mailbox_event_def and.assoc)

text \<open>
  C34: every event that the mailbox thread or the I3C write handler posts is a well-formed
  request; an update request of the PCH names no firmware but the PCH's own.
\<close>

theorem host_requests_well_formed:
  "list_all mailbox_event (new_events (swmbx_notifyee_main E) s) \<and>
   list_all mailbox_event (new_events (swmbx_mctp_i3c_doe_msg_write_handler E addr bs i3c s_eid) s)"
  using postsD [OF notifyee_posts] postsD [OF doe_write_posts] by (auto simp: list_all_iff)

text \<open>
  A message that does not come from the BMC's endpoint never writes a register of the BMC.
\<close>

definition bmc_registers :: "u8 set" where
  "bmc_registers = {BmcCheckpoint, BmcUpdateIntent, BmcUpdateIntent2, BmcResetCommunication}"

definition not_bmc_write :: "call \<Rightarrow> bool" where
  "not_bmc_write c \<longleftrightarrow> (\<forall>r \<in> bmc_registers. \<forall>v. c \<noteq> Mbx (SwmbxWrite False r v))"

lemma doe_fifo_write_calls: "state_io_rel (calls not_bmc_write) (doe_fifo_write E bs)"
  by (induction bs)
     (auto intro!: calls.keeps_intros calls_modify calls_ext simp: store_ufm_fifo_def not_bmc_write_def)

lemma write_then_calls:
  "r \<notin> bmc_registers \<Longrightarrow> state_io_rel (calls not_bmc_write) m \<Longrightarrow>
    state_io_rel (calls not_bmc_write) (write_then E r v m)"
  unfolding write_then_def by (intro calls.keeps_intros calls_ext) (auto simp: not_bmc_write_def)

lemma doe_write_calls:
  "s_eid \<noteq> 0x1D \<Longrightarrow>
    state_io_rel (calls not_bmc_write) (swmbx_mctp_i3c_doe_msg_write_handler E addr bs i3c s_eid)"
  unfolding swmbx_mctp_i3c_doe_msg_write_handler_def Let_def
  by (intro calls.keeps_intros calls_ext calls_act calls_event write_then_calls doe_fifo_write_calls)
     (auto simp: not_bmc_write_def bmc_registers_def)

text \<open>
  C33: an I3C mailbox message from any endpoint but the BMC's neither writes a register that
  belongs to the BMC (checkpoint, update intents, reset communication) nor posts an event in the
  BMC's name.
\<close>

theorem i3c_bmc_registers_protected:
  assumes "s_eid \<noteq> 0x1D"
  shows "list_all not_bmc_write (new_calls (swmbx_mctp_i3c_doe_msg_write_handler E addr bs i3c s_eid) s) \<and>
    list_all (\<lambda>e. bit8_0 e \<notin> bmc_registers)
      (new_events (swmbx_mctp_i3c_doe_msg_write_handler E addr bs i3c s_eid) s)"
  using callsD [OF doe_write_calls [OF assms]] postsD [OF doe_write_posts] assms
  by (auto simp: list_all_iff bmc_registers_def)

theorem i3c_bmc_registers_protected_witness:
  "list_all not_bmc_write
     (new_calls (swmbx_mctp_i3c_doe_msg_write_handler ref_env BmcUpdateIntent [8] True 0x20) boot_world)"
  using i3c_bmc_registers_protected [of "0x20"] by simp

section \<open>The status byte, the logs and the access mode\<close>

lemma mailboxD: "mailbox E r0 R \<Longrightarrow> r \<in> R \<Longrightarrow>
    reply_of E tr (Mbx (SwmbxRead False r)) = (0, [mbx_reg r0 tr r])"
  by (simp add: mailbox_def)

lemma run_getter:
  assumes "mailbox E r0 R" and "r \<in> R"
  shows "result (MBX_REG_GETTER E r) s = mbx_reg r0 (trace s) r"
  using mailboxD [OF assms] by (simp add: MBX_REG_GETTER_def)

text \<open>The status byte as a function of the flash word and the mailbox register.\<close>

definition ufm_status_byte :: "env \<Rightarrow> u32 \<Rightarrow> u8 \<Rightarrow> u8" where
  "ufm_status_byte E w r = (r AND 0x0f) OR
     (if CheckUfmStatus w UFM_STATUS_LOCK_BIT_MASK then UFM_LOCKED else 0) OR
     (if CheckUfmStatus w UFM_STATUS_PROVISIONED_BIT_MASK then UFM_PROVISIONED else 0) OR
     (if CONFIG_PIT_PROTECTION E \<and> CheckUfmStatus w UFM_STATUS_PIT_L1_ENABLE_BIT_MASK
      then PIT_LEVEL_1_ENFORCED else 0) OR
     (if CONFIG_PIT_PROTECTION E \<and> CheckUfmStatus w UFM_STATUS_PIT_L2_PASSED_BIT_MASK
      then PIT_L2_COMPLETE_SUCCESSFUL else 0)"

definition flash_status_word :: "flash_mem \<Rightarrow> call_trace \<Rightarrow> u32" where
  "flash_status_word m0 tr = u32_of_bytes (mem_slice (rot_mem m0 tr ROT_INTERNAL_INTEL_STATE) 0 4)"

lemma run_read_ufm_flash_status:
  assumes "provision_ok m0 rsize E"
  shows "result (read_ufm_flash_status E) s = (Success, flash_status_word m0 (trace s))"
    and "rot_mem m0 (trace (exec (read_ufm_flash_status E) s)) = rot_mem m0 (trace s)"
    and "mbx_reg r0 (trace (exec (read_ufm_flash_status E) s)) = mbx_reg r0 (trace s)"
  using assms
  by (auto simp: provision_ok_def read_ufm_flash_status_def get_provision_data_in_flash_def rot_read
      flash_status_word_def)

lemma run_GetUfmStatusValue:
  assumes "provision_ok m0 rsize E" and "mailbox E r0 R" and "UfmStatusValue \<in> R"
  shows "result (GetUfmStatusValue E) s =
      ufm_status_byte E (flash_status_word m0 (trace s)) (mbx_reg r0 (trace s) UfmStatusValue)"
    and "rot_mem m0 (trace (exec (GetUfmStatusValue E) s)) = rot_mem m0 (trace s)"
    and "mbx_reg r0 (trace (exec (GetUfmStatusValue E) s)) = mbx_reg r0 (trace s)"
  using run_read_ufm_flash_status [OF assms(1)] run_getter [OF assms(2,3)]
  by (simp_all add: GetUfmStatusValue_def case_prod_beta ufm_status_byte_def ac_simps
      MBX_REG_GETTER_def split: prod.split)

text \<open>Bits 4 to 7 of the byte come from the flash word alone, bits 0 to 3 from the register.\<close>

definition ufm_status_high :: "env \<Rightarrow> u32 \<Rightarrow> u8" where
  "ufm_status_high E w = ufm_status_byte E w 0"

lemma ufm_status_byte_split: "ufm_status_byte E w r = (r AND 0x0f) OR ufm_status_high E w"
  by (simp add: ufm_status_high_def ufm_status_byte_def ac_simps)

lemma low_masks: "(0x0f::u8) = mask 4" "(0x07::u8) = mask 3"
  by (simp_all add: mask_eq_exp_minus_1)

lemma ufm_status_high_low: "ufm_status_high E w AND 0x0f = 0"
  by (simp add: ufm_status_high_def ufm_status_byte_def)

lemma ufm_status_high_bit: "bit (ufm_status_high E w) n \<Longrightarrow> 4 \<le> n"
  using ufm_status_high_low [of E w] bit_imp_le_length [of "ufm_status_high E w" n]
  by (auto simp: low_masks bit_eq_iff bit_simps not_less)

lemma ufm_status_byte_set:
  "ufm_status_byte E w (ufm_status_byte E w r OR (m AND 0x07)) = ufm_status_byte E w r OR (m AND 0x07)"
  unfolding ufm_status_byte_split
  by (rule bit_word_eqI) (auto simp: low_masks bit_simps dest: ufm_status_high_bit)

lemma ufm_status_byte_clear:
  "ufm_status_byte E w (ufm_status_byte E w r AND NOT (m AND 0x07)) =
    ufm_status_byte E w r AND NOT (m AND 0x07)"
  unfolding ufm_status_byte_split
  by (rule bit_word_eqI) (auto simp: low_masks bit_simps dest: ufm_status_high_bit)



text \<open>
  Logging a recovery records its reason and counts it once, modulo 256, and a watchdog
  recovery counts one recovery and one panic.
\<close>

theorem recovery_log_counts:
  assumes "mailbox E r0 R" and "RecoveryCount \<in> R" and "PanicEventCount \<in> R"
  shows "mbx_reg r0 (trace (exec (LogRecovery E reason) s)) =
      (mbx_reg r0 (trace s))(LastRecoveryReason := reason, RecoveryCount := mbx_reg r0 (trace s) RecoveryCount + 1) \<and>
    mbx_reg r0 (trace (exec (LogWatchdogRecovery E reason panic) s)) =
      (mbx_reg r0 (trace s))(LastRecoveryReason := reason, RecoveryCount := mbx_reg r0 (trace s) RecoveryCount + 1,
         LastPanicReason := panic, PanicEventCount := mbx_reg r0 (trace s) PanicEventCount + 1)"
  using mailboxD [OF assms(1,2)] mailboxD [OF assms(1,3)]
  by (simp add: LogWatchdogRecovery_def LogRecovery_def LogLastPanic_def MBX_REG_SETTER_def MBX_REG_INC_def
      MBX_REG_GETTER_def case_prod_beta)

theorem recovery_log_counts_witness:
  "mbx_reg (\<lambda>_. 0) (trace (exec (LogRecovery ref_env BMC_LAUNCH_FAIL) boot_world)) RecoveryCount = 1"
  using recovery_log_counts [OF ref_env_mailbox, of BMC_LAUNCH_FAIL boot_world]
  by (simp add: boot_world_def mbx_reg_def)

section \<open>The write FIFO\<close>

lemma store_ufm_fifo_simps:
  "gFifoData (exec (store_ufm_fifo c) s) = gFifoData s + 1"
  "length (gUfmFifoData (exec (store_ufm_fifo c) s)) = length (gUfmFifoData s)"
  "oob (exec (store_ufm_fifo c) s) = (oob s \<or> length (gUfmFifoData s) \<le> unat (gFifoData s))"
  by (auto simp: store_ufm_fifo_def)

text \<open>
  Starting inside the buffer, the loop ends after one round per free byte and one more, and
  stays inside.
\<close>

lemma drain_in_bounds:
  assumes "gFifoData s < 64" and "length (gUfmFifoData s) = 64" and "65 - unat (gFifoData s) \<le> fuel"
  shows "result (drain_write_fifo fuel E) s = Some () \<and>
    oob (exec (drain_write_fifo fuel E) s) = oob s \<and>
    gFifoData (exec (drain_write_fifo fuel E) s) \<le> 64 \<and>
    length (gUfmFifoData (exec (drain_write_fifo fuel E) s)) = 64"
  using assms
proof (induction fuel arbitrary: s)
  case 0
  then show ?case by (simp add: word_less_nat_alt)
next
  case (Suc fuel)
  define s1 where "s1 = exec (ext E (Mbx (SwmbxRead True UfmWriteFIFO))) s"
  obtain r c where rc: "run (ext E (Mbx (SwmbxRead True UfmWriteFIFO))) s = ((r, c), s1)"
    unfolding s1_def by (cases "result (ext E (Mbx (SwmbxRead True UfmWriteFIFO))) s") (auto simp: prod_eq_iff)
  have s1: "gFifoData s1 = gFifoData s" "gUfmFifoData s1 = gUfmFifoData s" "oob s1 = oob s"
    by (simp_all add: s1_def)
  define s2 where "s2 = exec (store_ufm_fifo (fit 1 c ! 0)) s1"
  have r2: "run (store_ufm_fifo (fit (Suc 0) c ! 0)) s1 = ((), s2)"
    by (simp add: s2_def prod_eq_iff)
  have un: "unat (gFifoData s + 1) = unat (gFifoData s) + 1"
    using Suc.prems(1) by (subst unat_add_lem [THEN iffD1]) (simp_all add: word_less_nat_alt)
  have s2: "gFifoData s2 = gFifoData s + 1" "length (gUfmFifoData s2) = 64" "oob s2 = oob s"
    using Suc.prems s1 by (simp_all add: s2_def store_ufm_fifo_simps word_less_nat_alt)
  show ?case
  proof (cases "r = 0 \<and> gFifoData s + 1 < 64")
    case True
    have "65 - unat (gFifoData s2) \<le> fuel" using Suc.prems(3) un by (simp add: s2)
    from Suc.IH [OF _ s2(2) this] show ?thesis
      using True s2 by (simp del: run_ext add: rc r2)
  next
    case False
    then have res: "run (drain_write_fifo (Suc fuel) E) s = (Some (), if r = 0 then s2 else s1)"
      using s1 s2 by (auto simp del: run_ext simp add: rc r2)
    have "gFifoData s + 1 \<le> 64" using un Suc.prems(1) by (simp add: word_le_nat_alt word_less_nat_alt)
    then show ?thesis unfolding res using s1 s2 Suc.prems by (auto simp: less_imp_le)
  qed
qed

text \<open>
  C35: draining the write FIFO ends, and as long as the index is still inside the 64-byte buffer
  no byte is stored outside it; but once the buffer is full the next byte the host writes goes
  past its end, because the bound is tested after the store.
\<close>

theorem write_fifo_bounds:
  "(gFifoData s < 64 \<and> length (gUfmFifoData s) = 64 \<longrightarrow>
      result (drain_write_fifo 66 E) s = Some () \<and> oob (exec (ufm_write_fifo_event E) s) = oob s) \<and>
   (gFifoData s = 64 \<and> length (gUfmFifoData s) = 64 \<and>
      reply_of E (trace s) (Mbx (SwmbxRead True UfmWriteFIFO)) = (0, c) \<longrightarrow>
      result (drain_write_fifo 66 E) s = Some () \<and> oob (exec (drain_write_fifo 66 E) s))"
proof (intro conjI impI)
  assume in_bounds: "gFifoData s < 64 \<and> length (gUfmFifoData s) = 64"
  from drain_in_bounds [of s 66 E] in_bounds show "result (drain_write_fifo 66 E) s = Some ()" by simp
  define s1 where "s1 = exec (ext E (Kern MutexLock)) (exec (act E (Kern (KSemTake 0))) s)"
  have "oob (exec (drain_write_fifo 66 E) s1) = oob s1"
    using drain_in_bounds [of s1 66 E] in_bounds by (simp add: s1_def)
  then show "oob (exec (ufm_write_fifo_event E) s) = oob s"
    by (simp add: ufm_write_fifo_event_def s1_def case_prod_beta)
next
  assume full: "gFifoData s = 64 \<and> length (gUfmFifoData s) = 64 \<and>
      reply_of E (trace s) (Mbx (SwmbxRead True UfmWriteFIFO)) = (0, c)"
  have "drain_write_fifo 66 E = drain_write_fifo (Suc 65) E" by simp
  then show "result (drain_write_fifo 66 E) s = Some ()" "oob (exec (drain_write_fifo 66 E) s)"
    using full by (simp_all only: drain_write_fifo.simps) (simp_all add: store_ufm_fifo_def)
qed

theorem write_fifo_bounds_witness:
  "oob (exec (drain_write_fifo 66 ref_env) (boot_world\<lparr>gFifoData := 64\<rparr>))"
  using write_fifo_bounds [of "boot_world\<lparr>gFifoData := 64\<rparr>" ref_env "[]"]
  by (simp add: boot_world_def)

section \<open>Who may write which register\<close>

definition writable_regs :: "bool \<Rightarrow> u8 \<Rightarrow> u8 list" where
  "writable_regs restrict port =
     filter (\<lambda>r. \<not> bit (access_control restrict port ! (unat r div 32)) (unat r mod 32))
       (map of_nat [0..<256])"

lemma for_each_act_secure:
  "curr_secure_state (exec (for_each xs (\<lambda>r. act E (c r))) s) = curr_secure_state s"
  by (induction xs arbitrary: s) (simp_all add: case_prod_beta)

lemma set_swmbx_state_curr:
  "curr_secure_state (exec (set_swmbx_state E v) s) = (if v then 1 else 0)"
  by (simp add: set_swmbx_state_def case_prod_beta for_each_act_secure)



end
