(* ===== verification/Pfr_Provision.thy ===== *)
theory Pfr_Provision
  imports Pfr_Mailbox
begin

text \<open>
  UFM provisioning, \<open>Smbus_mailbox/Smbus_mailbox.c\<close>: the commands that store the root key
  hash, the image offsets and the PIT password in the provisioning area, lock it, read it back,
  and the dispatcher \<open>process_provision_command\<close>.
\<close>

section \<open>Storing a value once\<close>

text \<open>
  The common body of \<open>ProvisionRootKeyHash\<close>, \<open>ProvisionPchOffsets\<close>,
  \<open>ProvisionBmcOffsets\<close> and \<open>ProvisionAFMOffset\<close>; the \<open>NULL\<close> buffer is not
  modelled, every caller passes an array.
\<close>

definition provision_once :: "env \<Rightarrow> u32 \<Rightarrow> u32 \<Rightarrow> u8 list \<Rightarrow> (world, int) state" where
  "provision_once E bmask offset DataBuffer = do {
     (Status, UfmStatus) \<leftarrow> read_ufm_flash_status E;
     if Status \<noteq> Success then ret Failure
     else if \<not> CheckUfmStatus UfmStatus UFM_STATUS_LOCK_BIT_MASK \<and> \<not> CheckUfmStatus UfmStatus bmask
     then do {
       Status \<leftarrow> set_provision_data_in_flash E offset DataBuffer;
       if Status = Success then do {
         SetUfmFlashStatus E UfmStatus bmask;
         ret Success
       }
       else do {
         erase_provision_ufm_flash E;
         ret Failure
       }
     }
     else ret UnSupported
   }"

definition ProvisionRootKeyHash :: "env \<Rightarrow> u8 list \<Rightarrow> (world, int) state" where
  "ProvisionRootKeyHash E = provision_once E UFM_STATUS_PROVISIONED_ROOT_KEY_HASH_BIT_MASK ROOT_KEY_HASH"

definition ProvisionPchOffsets :: "env \<Rightarrow> u8 list \<Rightarrow> (world, int) state" where
  "ProvisionPchOffsets E = provision_once E UFM_STATUS_PROVISIONED_PCH_OFFSETS_BIT_MASK PCH_ACTIVE_PFM_OFFSET"

definition ProvisionBmcOffsets :: "env \<Rightarrow> u8 list \<Rightarrow> (world, int) state" where
  "ProvisionBmcOffsets E = provision_once E UFM_STATUS_PROVISIONED_BMC_OFFSETS_BIT_MASK BMC_ACTIVE_PFM_OFFSET"

definition ProvisionAFMOffset :: "env \<Rightarrow> u8 list \<Rightarrow> (world, int) state" where
  "ProvisionAFMOffset E = provision_once E UFM_STATUS_PROVISIONED_AFM_OFFSETS_BIT_MASK AFM_STAGING_REGION_OFFSET"

section \<open>The PIT password and levels\<close>

definition ProvisionPitKey :: "env \<Rightarrow> (world, unit) state" where
  "ProvisionPitKey E = do {
     (_, UfmStatus) \<leftarrow> read_ufm_flash_status E;
     if CheckUfmStatus UfmStatus UFM_STATUS_PROVISIONED_PIT_ID_BIT_MASK
     then SetUfmStatusValue E COMMAND_ERROR
     else do {
       pw \<leftarrow> gets gPitPassword;
       set_provision_data_in_flash E PIT_PASSWORD pw;
       SetUfmFlashStatus E UfmStatus UFM_STATUS_PROVISIONED_PIT_ID_BIT_MASK
     }
   }"

definition EnablePitLevel1 :: "env \<Rightarrow> (world, unit) state" where
  "EnablePitLevel1 E = do {
     (_, UfmStatus) \<leftarrow> read_ufm_flash_status E;
     if CheckUfmStatus UfmStatus UFM_STATUS_PIT_L1_ENABLE_BIT_MASK then ret ()
     else if CheckUfmStatus UfmStatus UFM_STATUS_PROVISIONED_PIT_ID_BIT_MASK
     then SetUfmFlashStatus E UfmStatus UFM_STATUS_PIT_L1_ENABLE_BIT_MASK
     else SetUfmStatusValue E COMMAND_ERROR
   }"

definition EnablePitLevel2 :: "env \<Rightarrow> (world, unit) state" where
  "EnablePitLevel2 E = do {
     (_, UfmStatus) \<leftarrow> read_ufm_flash_status E;
     if CheckUfmStatus UfmStatus UFM_STATUS_PIT_L2_ENABLE_BIT_MASK then ret ()
     else if \<not> CheckUfmStatus UfmStatus UFM_STATUS_PIT_L1_ENABLE_BIT_MASK then ret ()
     else SetUfmFlashStatus E UfmStatus UFM_STATUS_PIT_L2_ENABLE_BIT_MASK
   }"

section \<open>SPDM attestation\<close>

definition IsSpdmAttestationEnabled :: "env \<Rightarrow> (world, bool) state" where
  "IsSpdmAttestationEnabled E = do {
     (_, cpld_status) \<leftarrow> read_update_status E;
     ret (AttestationFlag cpld_status = 0x00)
   }"

definition EnableSpdmAttestation :: "env \<Rightarrow> bool \<Rightarrow> (world, unit) state" where
  "EnableSpdmAttestation E enable = do {
     (_, cpld_status) \<leftarrow> read_update_status E;
     write_update_status E (cpld_status\<lparr>AttestationFlag := (if enable then 0x00 else 0xFF)\<rparr>);
     ret ()
   }"

section \<open>Locking and reading back\<close>

definition lock_provision_flash :: "env \<Rightarrow> (world, unit) state" where
  "lock_provision_flash E = do {
     (_, UfmStatus) \<leftarrow> read_ufm_flash_status E;
     if \<not> CheckUfmStatus UfmStatus UFM_STATUS_PROVISIONED_BIT_MASK
     then SetUfmStatusValue E COMMAND_ERROR
     else SetUfmFlashStatus E UfmStatus UFM_STATUS_LOCK_BIT_MASK
   }"

text \<open>The bytes go to \<open>gReadFifoData\<close> and, one by one, into the read FIFO of the mailbox.\<close>

definition publish_bytes :: "env \<Rightarrow> u8 list \<Rightarrow> (world, unit) state" where
  "publish_bytes E bs = do {
     modify (\<lambda>s. s\<lparr>gReadFifoData := overwrite (gReadFifoData s) 0 bs\<rparr>);
     for_each bs (\<lambda>b. act E (Mbx (SwmbxWrite True UfmReadFIFO b)))
   }"

definition ReadRootKey :: "env \<Rightarrow> (world, unit) state" where
  "ReadRootKey E = do {
     (_, bs) \<leftarrow> get_provision_data_in_flash E ROOT_KEY_HASH 48;
     modify (\<lambda>s. s\<lparr>gRootKeyHash := bs\<rparr>);
     publish_bytes E bs
   }"

definition ReadPchOfsets :: "env \<Rightarrow> (world, unit) state" where
  "ReadPchOfsets E = do {
     (_, bs) \<leftarrow> get_provision_data_in_flash E PCH_ACTIVE_PFM_OFFSET 12;
     modify (\<lambda>s. s\<lparr>gPchOffsets := bs\<rparr>);
     publish_bytes E bs
   }"

definition ReadBmcOffets :: "env \<Rightarrow> (world, unit) state" where
  "ReadBmcOffets E = do {
     (_, bs) \<leftarrow> get_provision_data_in_flash E BMC_ACTIVE_PFM_OFFSET 12;
     modify (\<lambda>s. s\<lparr>gBmcOffsets := bs\<rparr>);
     publish_bytes E bs
   }"

definition ReadAFMOffset :: "env \<Rightarrow> (world, unit) state" where
  "ReadAFMOffset E = do {
     (_, bs) \<leftarrow> get_provision_data_in_flash E AFM_STAGING_REGION_OFFSET 4;
     modify (\<lambda>s. s\<lparr>gAFMOffset := bs\<rparr>);
     publish_bytes E bs
   }"

section \<open>The dispatcher\<close>

text \<open>
  The \<open>switch\<close> of \<open>process_provision_command\<close>; the result says whether the function goes
  on to the decommission check after it (\<open>False\<close>: it returned).
\<close>

definition provision_data_cmd ::
    "env \<Rightarrow> (u8 list \<Rightarrow> world \<Rightarrow> world) \<Rightarrow> nat \<Rightarrow> (env \<Rightarrow> u8 list \<Rightarrow> (world, int) state) \<Rightarrow>
     (world, bool) state" where
  "provision_data_cmd E store n prov = do {
     fifo \<leftarrow> gets gUfmFifoData;
     let data = take n fifo;
     modify (store data);
     Status \<leftarrow> prov E data;
     if Status \<noteq> Success then do { SetUfmStatusValue E COMMAND_ERROR; ret False }
     else do { modify (\<lambda>s. s\<lparr>gProvisionData := 1\<rparr>); ret True }
   }"

definition provision_switch :: "env \<Rightarrow> u8 \<Rightarrow> (world, bool) state" where
  "provision_switch E UfmCommandData =
     (if UfmCommandData = ERASE_CURRENT then do {
        Status \<leftarrow> erase_provision_flash E;
        cwhen (Status \<noteq> Success) (SetUfmStatusValue E COMMAND_ERROR);
        ret True
      }
      else if UfmCommandData = PROVISION_ROOT_KEY then
        provision_data_cmd E (\<lambda>d s. s\<lparr>gRootKeyHash := d\<rparr>) 48 ProvisionRootKeyHash
      else if UfmCommandData = PROVISION_PIT_KEY \<and> CONFIG_PIT_PROTECTION E then do {
        modify (\<lambda>s. s\<lparr>gPitPassword := take 8 (gUfmFifoData s)\<rparr>);
        ProvisionPitKey E;
        ret True
      }
      else if UfmCommandData = PROVISION_PCH_OFFSET then
        provision_data_cmd E (\<lambda>d s. s\<lparr>gPchOffsets := d\<rparr>) 12 ProvisionPchOffsets
      else if UfmCommandData = PROVISION_BMC_OFFSET then
        provision_data_cmd E (\<lambda>d s. s\<lparr>gBmcOffsets := d\<rparr>) 12 ProvisionBmcOffsets
      else if UfmCommandData = LOCK_UFM then do { lock_provision_flash E; ret True }
      else if UfmCommandData = READ_ROOT_KEY then do { ReadRootKey E; ret True }
      else if UfmCommandData = READ_PCH_OFFSET then do { ReadPchOfsets E; ret True }
      else if UfmCommandData = READ_BMC_OFFSET then do { ReadBmcOffets E; ret True }
      else if UfmCommandData = ENABLE_PIT_LEVEL_1_PROTECTION \<and> CONFIG_PIT_PROTECTION E
      then do { EnablePitLevel1 E; ret True }
      else if UfmCommandData = ENABLE_PIT_LEVEL_2_PROTECTION \<and> CONFIG_PIT_PROTECTION E
      then do { EnablePitLevel2 E; ret True }
      else if UfmCommandData = PROVISION_AFM_OFFSET \<and> CONFIG_PFR_SPDM_ATTESTATION E then
        provision_data_cmd E (\<lambda>d s. s\<lparr>gAFMOffset := d\<rparr>) 4 ProvisionAFMOffset
      else if UfmCommandData = READ_AFM_OFFSET \<and> CONFIG_PFR_SPDM_ATTESTATION E
      then do { ReadAFMOffset E; ret True }
      else if UfmCommandData = ENABLE_DEVICE_ATTESTATION_REQUESTS \<and> CONFIG_PFR_SPDM_ATTESTATION E
      then do { EnableSpdmAttestation E True; ret True }
      else if UfmCommandData = DISABLE_DEVICE_ATTESTATION_REQUESTS \<and> CONFIG_PFR_SPDM_ATTESTATION E
      then do { EnableSpdmAttestation E False; ret True }
      else ret True)"

text \<open>Once everything is provisioned the decommission mark in the update status is cleared.\<close>

definition clear_decommission :: "env \<Rightarrow> (world, unit) state" where
  "clear_decommission E = do {
     modify (\<lambda>s. s\<lparr>gProvisionData := 0\<rparr>);
     (_, UfmFlashStatus) \<leftarrow> read_ufm_flash_status E;
     cwhen (CheckUfmStatus UfmFlashStatus
              (UFM_STATUS_PROVISIONED_ROOT_KEY_HASH_BIT_MASK OR
               UFM_STATUS_PROVISIONED_PCH_OFFSETS_BIT_MASK OR
               (if CONFIG_PFR_SPDM_ATTESTATION E then UFM_STATUS_PROVISIONED_AFM_OFFSETS_BIT_MASK else 0) OR
               UFM_STATUS_PROVISIONED_BMC_OFFSETS_BIT_MASK))
       (do {
          (_, cpld_status) \<leftarrow> read_update_status E;
          cwhen (DecommissionFlag cpld_status \<noteq> 0) (do {
            write_update_status E (cpld_status\<lparr>DecommissionFlag := 0\<rparr>);
            ret ()
          })
        })
   }"

definition process_provision_command :: "env \<Rightarrow> (world, unit) state" where
  "process_provision_command E = do {
     UfmCommandData \<leftarrow> MBX_REG_GETTER E UfmCommand;
     (_, UfmFlashStatus) \<leftarrow> read_ufm_flash_status E;
     if CheckUfmStatus UfmFlashStatus UFM_STATUS_LOCK_BIT_MASK \<and>
        (UfmCommandData < READ_ROOT_KEY \<or>
         (CONFIG_PFR_SPDM_ATTESTATION E \<and> UfmCommandData = PROVISION_AFM_OFFSET) \<or>
         READ_BMC_OFFSET < UfmCommandData)
     then SetUfmStatusValue E COMMAND_ERROR
     else do {
       go_on \<leftarrow> provision_switch E UfmCommandData;
       provisioned \<leftarrow> gets gProvisionData;
       cwhen (go_on \<and> provisioned \<noteq> 0) (clear_decommission E)
     }
   }"

text \<open>\<open>handle_provision_event\<close> of \<open>AspeedStateMachine.c\<close>: the trigger register decides.\<close>

definition handle_provision_event :: "env \<Rightarrow> (world, unit) state" where
  "handle_provision_event E = do {
     evt_ctx \<leftarrow> gets event_ctx;
     let trigger = bit8_1 evt_ctx;
     cwhen (trigger AND EXECUTE_UFM_COMMAND \<noteq> 0 \<or> trigger AND FLUSH_WRITE_FIFO \<noteq> 0 \<or>
            trigger AND FLUSH_READ_FIFO \<noteq> 0)
       (do {
          ClearUfmStatusValue E UFM_CLEAR_ON_NEW_COMMAND;
          MBX_REG_SETTER E UfmCmdTriggerValue 0x00;
          SetUfmStatusValue E COMMAND_BUSY;
          (if trigger AND EXECUTE_UFM_COMMAND \<noteq> 0 then process_provision_command E
           else if trigger AND FLUSH_WRITE_FIFO \<noteq> 0 then do {
             modify (\<lambda>s. s\<lparr>gUfmFifoData := replicate (length (gUfmFifoData s)) 0\<rparr>);
             act E (Mbx (SwmbxFlushFifo UfmWriteFIFO));
             modify (\<lambda>s. s\<lparr>gFifoData := 0\<rparr>)
           }
           else do {
             modify (\<lambda>s. s\<lparr>gReadFifoData := replicate (length (gReadFifoData s)) 0\<rparr>);
             act E (Mbx (SwmbxFlushFifo UfmReadFIFO));
             modify (\<lambda>s. s\<lparr>gFifoData := 0\<rparr>)
           });
          ClearUfmStatusValue E COMMAND_BUSY;
          SetUfmStatusValue E COMMAND_DONE
        })
   }"

text \<open>\<open>show_provision_info\<close>: only its reads have an effect, the rest is logging.\<close>

definition show_provision_info :: "env \<Rightarrow> (world, unit) state" where
  "show_provision_info E = do {
     GetUfmStatusValue E;
     (_, tmpbuf) \<leftarrow> get_provision_data_in_flash E BMC_ACTIVE_PFM_OFFSET 12;
     if take 4 tmpbuf = [0xff, 0xff, 0xff, 0xff] then ret ()
     else do {
       get_provision_data_in_flash E PCH_ACTIVE_PFM_OFFSET 12;
       cwhen (CONFIG_PFR_SPDM_ATTESTATION E)
         (do { get_provision_data_in_flash E AFM_STAGING_REGION_OFFSET 4; ret () });
       get_provision_data_in_flash E ROOT_KEY_HASH 48;
       ret ()
     }
   }"

section \<open>Calls that write a ROT region\<close>

text \<open>A call that is not a program or erase operation on region \<open>d\<close>.\<close>

fun no_write :: "u8 \<Rightarrow> call \<Rightarrow> bool" where
  "no_write d (Fl (RotFlashWrite d' _ _)) \<longleftrightarrow> d' \<noteq> d"
| "no_write d (Fl (RotFlashErase d' _ _ _)) \<longleftrightarrow> d' \<noteq> d"
| "no_write d _ \<longleftrightarrow> True"

lemma rot_flash_step_other: "no_write d (fst c) \<Longrightarrow> rot_flash_step c m d = m d"
  by (cases "(c, m)" rule: rot_flash_step.cases) auto

lemma no_write_keeps:
  assumes "state_io_rel (calls (no_write d)) m"
  shows "rot_mem m0 (trace (exec m s)) d = rot_mem m0 (trace s) d"
proof -
  have fold: "list_all (\<lambda>(c, _). no_write d c) cs \<Longrightarrow> fold rot_flash_step cs f d = f d" for cs f
  proof (induction cs arbitrary: f)
    case (Cons c cs)
    then have "no_write d (fst c)" by (cases c) simp
    with Cons show ?case by (simp add: rot_flash_step_other)
  qed simp
  show ?thesis using calls.keepsD [OF assms, of s] fold by (auto simp: calls_def)
qed

lemma spi_no_write:
  "state_io_rel (calls (no_write x)) (pfr_spi_read E d a n)"
  "d \<noteq> x \<Longrightarrow> state_io_rel (calls (no_write x)) (pfr_spi_write E d a bs)"
  "d \<noteq> x \<Longrightarrow> state_io_rel (calls (no_write x)) (pfr_spi_erase_4k E d a)"
  unfolding pfr_spi_read_def pfr_spi_write_def pfr_spi_erase_4k_def
  by (intro calls.keeps_intros calls_ext; simp)+

lemma mbx_no_write:
  "state_io_rel (calls (no_write x)) (MBX_REG_GETTER E r)"
  "state_io_rel (calls (no_write x)) (MBX_REG_SETTER E r v)"
  "state_io_rel (calls (no_write x)) (get_provision_data_in_flash E off n)"
  "state_io_rel (calls (no_write x)) (read_ufm_flash_status E)"
  "state_io_rel (calls (no_write x)) (GetUfmStatusValue E)"
  "state_io_rel (calls (no_write x)) (SetUfmStatusValue E v)"
  "state_io_rel (calls (no_write x)) (ClearUfmStatusValue E v)"
  unfolding SetUfmStatusValue_def ClearUfmStatusValue_def GetUfmStatusValue_def
    read_ufm_flash_status_def get_provision_data_in_flash_def MBX_REG_GETTER_def MBX_REG_SETTER_def
  by (intro calls.keeps_intros calls_ext calls_act spi_no_write; simp)+

lemma update_status_no_write:
  "state_io_rel (calls (no_write ROT_INTERNAL_INTEL_STATE)) (read_update_status E)"
  "state_io_rel (calls (no_write ROT_INTERNAL_INTEL_STATE)) (write_update_status E c)"
  unfolding read_update_status_def write_update_status_def ufm_read_def ufm_write_def
    get_cpld_status_def set_cpld_status_def get_provision_data_in_flash_def
  by (simp; intro calls.keeps_intros spi_no_write; simp)+

lemma publish_no_write: "state_io_rel (calls (no_write x)) (publish_bytes E bs)"
  unfolding publish_bytes_def by (intro calls.keeps_intros calls_act calls_modify) simp_all

lemma reads_no_write:
  "state_io_rel (calls (no_write x)) (ReadRootKey E)"
  "state_io_rel (calls (no_write x)) (ReadPchOfsets E)"
  "state_io_rel (calls (no_write x)) (ReadBmcOffets E)"
  "state_io_rel (calls (no_write x)) (ReadAFMOffset E)"
  unfolding ReadRootKey_def ReadPchOfsets_def ReadBmcOffets_def ReadAFMOffset_def
  by (intro calls.keeps_intros calls_modify mbx_no_write publish_no_write; simp)+

lemma clear_decommission_no_write:
  "state_io_rel (calls (no_write ROT_INTERNAL_INTEL_STATE)) (clear_decommission E)"
  unfolding clear_decommission_def
  by (intro calls.keeps_intros calls_modify mbx_no_write update_status_no_write; simp)

section \<open>A locked area stays as it is\<close>

abbreviation locked :: "u32 \<Rightarrow> bool" where
  "locked w \<equiv> CheckUfmStatus w UFM_STATUS_LOCK_BIT_MASK"

lemma provision_switch_locked:
  assumes "\<not> (cmd < READ_ROOT_KEY \<or> (CONFIG_PFR_SPDM_ATTESTATION E \<and> cmd = PROVISION_AFM_OFFSET) \<or>
    READ_BMC_OFFSET < cmd)"
  shows "state_io_rel (calls (no_write ROT_INTERNAL_INTEL_STATE)) (provision_switch E cmd)"
  using assms unfolding provision_switch_def
  by (intro calls.keeps_if calls.keeps_bind calls.keeps_return reads_no_write) auto

lemma process_locked:
  assumes "provision_ok m0 rsize E" and "locked (flash_status_word m0 (trace s))"
  shows "rot_mem m0 (trace (exec (process_provision_command E) s)) ROT_INTERNAL_INTEL_STATE =
    rot_mem m0 (trace s) ROT_INTERNAL_INTEL_STATE"
proof -
  define cmd where "cmd = result (MBX_REG_GETTER E UfmCommand) s"
  define s1 where "s1 = exec (MBX_REG_GETTER E UfmCommand) s"
  define s2 where "s2 = exec (read_ufm_flash_status E) s1"
  let ?drop = "cmd < READ_ROOT_KEY \<or> (CONFIG_PFR_SPDM_ATTESTATION E \<and> cmd = PROVISION_AFM_OFFSET) \<or>
    READ_BMC_OFFSET < cmd"
  have m1: "rot_mem m0 (trace s1) = rot_mem m0 (trace s)"
    by (simp add: s1_def MBX_REG_GETTER_def case_prod_beta)
  then have lk: "locked (snd (result (read_ufm_flash_status E) s1))"
    using assms(2) run_read_ufm_flash_status(1) [OF assms(1), of s1] by (simp add: flash_status_word_def)
  have m2: "rot_mem m0 (trace s2) = rot_mem m0 (trace s)"
    using run_read_ufm_flash_status(2) [OF assms(1), of s1] m1 by (simp add: s2_def)
  define rest where "rest = do { go_on \<leftarrow> provision_switch E cmd; provisioned \<leftarrow> gets gProvisionData;
     cwhen (go_on \<and> provisioned \<noteq> 0) (clear_decommission E) }"
  have "exec (process_provision_command E) s =
      exec (if ?drop then SetUfmStatusValue E COMMAND_ERROR else rest) s2"
    using lk by (simp add: process_provision_command_def rest_def exec_bind case_prod_beta
        cmd_def [symmetric] s1_def [symmetric] s2_def [symmetric])
  moreover have "state_io_rel (calls (no_write ROT_INTERNAL_INTEL_STATE))
      (if ?drop then SetUfmStatusValue E COMMAND_ERROR else rest)"
    unfolding rest_def
    by (intro calls.keeps_intros mbx_no_write provision_switch_locked clear_decommission_no_write)
  ultimately show ?thesis using no_write_keeps m2 by metis
qed

text \<open>
  "A locked area stays as it is" as a frame relation: it is transitive because the area that
  stays holds the lock.
\<close>

definition lock_final :: "flash_mem \<Rightarrow> world \<Rightarrow> world \<Rightarrow> bool" where
  "lock_final m0 s t \<longleftrightarrow> locked (flash_status_word m0 (trace s)) \<longrightarrow>
     rot_mem m0 (trace t) ROT_INTERNAL_INTEL_STATE = rot_mem m0 (trace s) ROT_INTERNAL_INTEL_STATE"

interpretation lock: frame_rel "lock_final m0" for m0
  by unfold_locales (auto simp: lock_final_def flash_status_word_def)

lemma no_write_lock:
  "state_io_rel (calls (no_write ROT_INTERNAL_INTEL_STATE)) m \<Longrightarrow> state_io_rel (lock_final m0) m"
  using no_write_keeps by (auto simp: state_io_rel_def lock_final_def)

lemma lock_modify: "(\<And>s. trace (f s) = trace s) \<Longrightarrow> state_io_rel (lock_final m0) (modify f)"
  by (simp add: state_io_rel_def lock_final_def)

lemma process_lock:
  "provision_ok m0 rsize E \<Longrightarrow> state_io_rel (lock_final m0) (process_provision_command E)"
  using process_locked by (simp add: state_io_rel_def lock_final_def)

lemma handle_provision_event_lock:
  assumes "provision_ok m0 rsize E"
  shows "state_io_rel (lock_final m0) (handle_provision_event E)"
  unfolding handle_provision_event_def Let_def
  by (intro lock.keeps_intros lock_modify process_lock [OF assms] no_write_lock mbx_no_write calls_act)
     simp_all

section \<open>Provisioning a value\<close>

lemma set_provision:
  assumes "provision_ok m0 rsize E" and "unat off + length bs \<le> 512"
  shows "result (set_provision_data_in_flash E off bs) s = Success"
    and "d \<noteq> ROT_INTERNAL_INTEL_STATE \<Longrightarrow>
      rot_mem m0 (trace (exec (set_provision_data_in_flash E off bs) s)) d = rot_mem m0 (trace s) d"
    and "i < 512 \<Longrightarrow> rot_mem m0 (trace (exec (set_provision_data_in_flash E off bs) s))
        ROT_INTERNAL_INTEL_STATE i = patch (rot_mem m0 (trace s) ROT_INTERNAL_INTEL_STATE) (unat off) bs i"
  using assms set_provision_effect [of E m0 rsize off bs s] by (auto simp: provision_ok_def)

lemma word_of_patch: "u32_of_bytes (mem_slice (patch f 0 (u32_bytes w)) 0 4) = w"
proof -
  have "mem_slice (patch f 0 (u32_bytes w)) 0 4 = u32_bytes w"
    by (rule nth_equalityI) (auto simp: patch_def)
  then show ?thesis using u32_of_u32_bytes [of w "[]"] by simp
qed

lemma mem_slice_cong: "(\<And>i. a \<le> i \<Longrightarrow> i < a + n \<Longrightarrow> f i = g i) \<Longrightarrow> mem_slice f a n = mem_slice g a n"
  by (simp add: mem_slice_def)

lemma SetUfmFlashStatus_effect:
  assumes "provision_ok m0 rsize E"
  shows "flash_status_word m0 (trace (exec (SetUfmFlashStatus E w m) s)) = w AND NOT m"
    and "4 \<le> i \<Longrightarrow> i < 512 \<Longrightarrow> rot_mem m0 (trace (exec (SetUfmFlashStatus E w m) s))
        ROT_INTERNAL_INTEL_STATE i = rot_mem m0 (trace s) ROT_INTERNAL_INTEL_STATE i"
proof -
  let ?bs = "u32_bytes (w AND NOT m)"
  have e: "exec (SetUfmFlashStatus E w m) s = exec (set_provision_data_in_flash E UFM_STATUS ?bs) s"
    by (simp add: SetUfmFlashStatus_def case_prod_beta)
  note sp = set_provision(3) [OF assms, of UFM_STATUS ?bs]
  show "flash_status_word m0 (trace (exec (SetUfmFlashStatus E w m) s)) = w AND NOT m"
    unfolding e flash_status_word_def
    by (subst mem_slice_cong [of 0 4 _ "patch (rot_mem m0 (trace s) ROT_INTERNAL_INTEL_STATE) 0 ?bs"])
       (simp_all add: sp word_of_patch)
  show "4 \<le> i \<Longrightarrow> i < 512 \<Longrightarrow> rot_mem m0 (trace (exec (SetUfmFlashStatus E w m) s))
        ROT_INTERNAL_INTEL_STATE i = rot_mem m0 (trace s) ROT_INTERNAL_INTEL_STATE i"
    unfolding e by (simp add: sp patch_def)
qed

text \<open>
  The contract of the four provisioning functions: a value is stored once, with its bit in the
  status word, and refused without any change when it is there already or the UFM is locked.
\<close>

lemma provision_once_effect:
  fixes s :: world and m :: u32
  assumes ok: "provision_ok m0 rsize E" and off: "4 \<le> unat off" "unat off + length bs \<le> 512"
  defines "w \<equiv> flash_status_word m0 (trace s)"
    and "t \<equiv> exec (provision_once E m off bs) s"
  shows "result (provision_once E m off bs) s = (if locked w \<or> CheckUfmStatus w m then UnSupported else Success) \<and>
    (if locked w \<or> CheckUfmStatus w m
     then rot_mem m0 (trace t) = rot_mem m0 (trace s)
     else flash_status_word m0 (trace t) = w AND NOT m \<and>
       mem_slice (rot_mem m0 (trace t) ROT_INTERNAL_INTEL_STATE) (unat off) (length bs) = bs \<and>
       (\<forall>i. 4 \<le> i \<and> i < 512 \<and> \<not> (unat off \<le> i \<and> i < unat off + length bs) \<longrightarrow>
          rot_mem m0 (trace t) ROT_INTERNAL_INTEL_STATE i = rot_mem m0 (trace s) ROT_INTERNAL_INTEL_STATE i))"
proof -
  define s1 where "s1 = exec (read_ufm_flash_status E) s"
  have r1: "run (read_ufm_flash_status E) s = ((Success, w), s1)"
    using run_read_ufm_flash_status(1) [OF ok, of s] by (simp add: s1_def w_def prod_eq_iff)
  have m1: "rot_mem m0 (trace s1) = rot_mem m0 (trace s)"
    using run_read_ufm_flash_status(2) [OF ok, of s] by (simp add: s1_def)
  show ?thesis
  proof (cases "locked w \<or> CheckUfmStatus w m")
    case True
    then show ?thesis by (auto simp: t_def provision_once_def r1 m1)
  next
    case False
    define s2 where "s2 = exec (set_provision_data_in_flash E off bs) s1"
    have r2: "run (set_provision_data_in_flash E off bs) s1 = (Success, s2)"
      using set_provision(1) [OF ok off(2), of s1] by (simp add: s2_def prod_eq_iff)
    have m2: "i < 512 \<Longrightarrow> rot_mem m0 (trace s2) ROT_INTERNAL_INTEL_STATE i =
        patch (rot_mem m0 (trace s) ROT_INTERNAL_INTEL_STATE) (unat off) bs i" for i
      using set_provision(3) [OF ok off(2), of i s1] m1 by (simp add: s2_def)
    have t: "t = exec (SetUfmFlashStatus E w m) s2"
      and res: "result (provision_once E m off bs) s = Success"
      using False by (auto simp: t_def provision_once_def r1 r2 case_prod_beta)
    have t_at: "rot_mem m0 (trace t) ROT_INTERNAL_INTEL_STATE i =
        patch (rot_mem m0 (trace s) ROT_INTERNAL_INTEL_STATE) (unat off) bs i" if "4 \<le> i" "i < 512" for i
      using SetUfmFlashStatus_effect(2) [OF ok that, of w m s2] m2 [OF that(2)] by (simp add: t)
    have "mem_slice (rot_mem m0 (trace t) ROT_INTERNAL_INTEL_STATE) (unat off) (length bs) = bs"
      by (rule nth_equalityI) (use off in \<open>simp_all add: t_at patch_def\<close>)
    then show ?thesis
      using False res SetUfmFlashStatus_effect(1) [OF ok, of w m s2] t_at
      by (auto simp: t patch_def)
  qed
qed

section \<open>What provisioning promises\<close>

text \<open>
  C14: once the UFM is locked, no provisioning command the hosts can trigger changes a byte of the
  provisioning area: root key hash, offsets, PIT password, security version numbers and the lock
  itself stay as they are.
\<close>

theorem locked_ufm_is_final:
  assumes "provision_ok m0 rsize E" and "locked (flash_status_word m0 (trace s))"
  shows "rot_mem m0 (trace (exec (handle_provision_event E) s)) ROT_INTERNAL_INTEL_STATE =
    rot_mem m0 (trace s) ROT_INTERNAL_INTEL_STATE"
  using lock.keepsD [OF handle_provision_event_lock [OF assms(1)], of s] assms(2)
  by (simp add: lock_final_def)

text \<open>A UFM with root key, offsets and lock in place.\<close>

definition locked_world :: world where
  "locked_world = exec (SetUfmFlashStatus ref_env 0xffffffff 0xf) boot_world"

theorem locked_ufm_is_final_witness:
  "rot_mem (\<lambda>_ _. 0xff) (trace (exec (handle_provision_event ref_env) locked_world)) ROT_INTERNAL_INTEL_STATE =
    rot_mem (\<lambda>_ _. 0xff) (trace locked_world) ROT_INTERNAL_INTEL_STATE"
proof -
  have "locked (flash_status_word (\<lambda>_ _. 0xff) (trace locked_world))"
    unfolding locked_world_def SetUfmFlashStatus_effect(1) [OF ref_env_provision]
    by (simp add: CheckUfmStatus_def)
  from locked_ufm_is_final [OF ref_env_provision this] show ?thesis .
qed

text \<open>
  What a provisioning function owes: \<open>stored_once\<close> says that in \<open>s\<close> the function \<open>prov\<close>
  stores \<open>bs\<close> at \<open>off\<close> and marks it in the status word, or refuses and changes nothing.
\<close>

definition stored_once ::
    "flash_mem \<Rightarrow> u32 \<Rightarrow> u32 \<Rightarrow> (u8 list \<Rightarrow> (world, int) state) \<Rightarrow> u8 list \<Rightarrow> world \<Rightarrow> bool" where
  "stored_once m0 m off prov bs s \<longleftrightarrow>
     (let w = flash_status_word m0 (trace s); t = exec (prov bs) s in
      if locked w \<or> CheckUfmStatus w m
      then result (prov bs) s = UnSupported \<and> rot_mem m0 (trace t) = rot_mem m0 (trace s)
      else result (prov bs) s = Success \<and>
        flash_status_word m0 (trace t) = w AND NOT m \<and>
        mem_slice (rot_mem m0 (trace t) ROT_INTERNAL_INTEL_STATE) (unat off) (length bs) = bs \<and>
        (\<forall>i. 4 \<le> i \<and> i < 512 \<and> \<not> (unat off \<le> i \<and> i < unat off + length bs) \<longrightarrow>
          rot_mem m0 (trace t) ROT_INTERNAL_INTEL_STATE i =
          rot_mem m0 (trace s) ROT_INTERNAL_INTEL_STATE i))"

lemma provision_once_stored:
  assumes "provision_ok m0 rsize E" and "4 \<le> unat off" "unat off + length bs \<le> 512"
  shows "stored_once m0 m off (provision_once E m off) bs s"
  using provision_once_effect [OF assms, of m s] by (simp add: stored_once_def Let_def)



section \<open>Locked means provisioned\<close>

definition ufm_wf :: "u32 \<Rightarrow> bool" where
  "ufm_wf w \<longleftrightarrow> (locked w \<longrightarrow> CheckUfmStatus w UFM_STATUS_PROVISIONED_BIT_MASK)"

definition wf_rel :: "flash_mem \<Rightarrow> world \<Rightarrow> world \<Rightarrow> bool" where
  "wf_rel m0 s t \<longleftrightarrow> (ufm_wf (flash_status_word m0 (trace s)) \<longrightarrow> ufm_wf (flash_status_word m0 (trace t)))"

interpretation wf: frame_rel "wf_rel m0" for m0
  by unfold_locales (auto simp: wf_rel_def)

lemma no_write_wf:
  assumes "state_io_rel (calls (no_write ROT_INTERNAL_INTEL_STATE)) m"
  shows "state_io_rel (wf_rel m0) m"
  unfolding state_io_rel_def wf_rel_def flash_status_word_def
  by (simp add: no_write_keeps [OF assms])

lemma wf_modify: "(\<And>s. trace (f s) = trace s) \<Longrightarrow> state_io_rel (wf_rel m0) (modify f)"
  by (simp add: state_io_rel_def wf_rel_def)

lemma CheckUfmStatus_iff: "CheckUfmStatus w m \<longleftrightarrow> w AND m = 0"
  unfolding CheckUfmStatus_def by (auto simp: bit_eq_iff bit_simps)

lemma CheckUfmStatus_clear: "CheckUfmStatus w k \<Longrightarrow> CheckUfmStatus (w AND NOT m) k"
  unfolding CheckUfmStatus_iff by (auto simp: bit_eq_iff bit_simps)

lemma locked_clear: "m AND 1 = 0 \<Longrightarrow> locked (w AND NOT m) = locked w"
  unfolding CheckUfmStatus_iff by (simp add: bit_eq_iff bit_simps) blast

lemma ufm_wf_clear: "ufm_wf w \<Longrightarrow> m AND 1 = 0 \<Longrightarrow> ufm_wf (w AND NOT m)"
  by (auto simp: ufm_wf_def locked_clear CheckUfmStatus_clear)

text \<open>
  An operation that reads the status word keeps the invariant when what it goes on to do either
  does not write the area or ends with a status word that has it.
\<close>

lemma read_status_wf:
  assumes ok: "provision_ok m0 rsize E"
    and f: "\<And>w. state_io_rel (calls (no_write ROT_INTERNAL_INTEL_STATE)) (f w) \<or>
      (\<forall>t. ufm_wf w \<longrightarrow> ufm_wf (flash_status_word m0 (trace (exec (f w) t))))"
  shows "state_io_rel (wf_rel m0) (do { (_, w) \<leftarrow> read_ufm_flash_status E; f w })"
proof -
  have "wf_rel m0 s (exec (do { (_, w) \<leftarrow> read_ufm_flash_status E; f w }) s)" for s
  proof -
    define w where "w = flash_status_word m0 (trace s)"
    define s1 where "s1 = exec (read_ufm_flash_status E) s"
    have r: "run (read_ufm_flash_status E) s = ((Success, w), s1)"
      using run_read_ufm_flash_status(1) [OF ok, of s] by (simp add: s1_def w_def prod_eq_iff)
    have s1: "flash_status_word m0 (trace s1) = w"
      using run_read_ufm_flash_status(2) [OF ok, of s] by (simp add: s1_def w_def flash_status_word_def)
    have "ufm_wf w \<Longrightarrow> ufm_wf (flash_status_word m0 (trace (exec (f w) s1)))"
      using f [of w] no_write_keeps [of ROT_INTERNAL_INTEL_STATE "f w" m0 s1] s1
      by (auto simp: flash_status_word_def)
    then show ?thesis by (simp add: wf_rel_def w_def [symmetric] r)
  qed
  then show ?thesis by (simp add: state_io_rel_def)
qed

lemma provision_once_wf:
  assumes "provision_ok m0 rsize E" and "4 \<le> unat off" "unat off + length bs \<le> 512" and "m AND 1 = 0"
  shows "state_io_rel (wf_rel m0) (provision_once E m off bs)"
proof -
  have "ufm_wf (flash_status_word m0 (trace (exec (provision_once E m off bs) s)))"
    if "ufm_wf (flash_status_word m0 (trace s))" for s :: world
    using provision_once_effect [OF assms(1-3), of m s] ufm_wf_clear [OF that assms(4)] that
    by (cases "locked (flash_status_word m0 (trace s)) \<or> CheckUfmStatus (flash_status_word m0 (trace s)) m")
       (simp_all add: flash_status_word_def)
  then show ?thesis by (simp add: state_io_rel_def wf_rel_def)
qed

lemma erase_loop_no_write: "d \<noteq> x \<Longrightarrow> state_io_rel (calls (no_write x)) (erase_loop fuel E d b a e)"
  by (induction fuel arbitrary: a)
     (auto simp: pfr_spi_erase_4k_def pfr_spi_erase_block_def intro!: calls.keeps_intros calls_ext)

lemma erase_region_no_write:
  "d \<noteq> x \<Longrightarrow> state_io_rel (calls (no_write x)) (pfr_spi_erase_region E d b a n)"
  unfolding pfr_spi_erase_region_def by (intro calls.keeps_intros erase_loop_no_write)

lemma device_size_no_write: "state_io_rel (calls (no_write x)) (pfr_spi_get_device_size E d)"
  unfolding pfr_spi_get_device_size_def by (intro calls.keeps_intros calls_ext) simp_all

lemma erased_word: "ufm_wf (u32_of_bytes (replicate 4 0xff))"
  by code_simp

lemma erase_intel_state_wf:
  assumes "provision_ok m0 rsize E"
  shows "ufm_wf (flash_status_word m0 (trace (exec (pfr_spi_erase_region E ROT_INTERNAL_INTEL_STATE True 0
    (result (pfr_spi_get_device_size E ROT_INTERNAL_INTEL_STATE) s)) t)))"
proof -
  let ?n = "rsize ROT_INTERNAL_INTEL_STATE"
  have nor: "nor_flash E m0 rsize" and n: "512 \<le> unat ?n" "unat ?n \<le> 2 ^ 32 - 4096"
    using assms by (simp_all add: provision_ok_def)
  have sz: "result (pfr_spi_get_device_size E ROT_INTERNAL_INTEL_STATE) s = ?n"
    using nor_flashD(4) [OF nor] by (simp add: pfr_spi_get_device_size_def case_prod_beta)
  have "4 \<le> erase_end 0 ?n" using erase_end_covers [of ?n 0] n(1) by linarith
  then have "mem_slice (rot_mem m0 (trace (exec (pfr_spi_erase_region E ROT_INTERNAL_INTEL_STATE True 0 ?n) t))
      ROT_INTERNAL_INTEL_STATE) 0 4 = replicate 4 0xff"
    using rot_erase_region [OF nor _ n(2), of ROT_INTERNAL_INTEL_STATE True t]
    by (intro nth_equalityI) auto
  then show ?thesis
    using erased_word by (simp add: sz flash_status_word_def)
qed

lemma erase_provision_flash_wf:
  assumes "provision_ok m0 rsize E"
  shows "state_io_rel (wf_rel m0) (erase_provision_flash E)"
proof -
  define rest where "rest = (\<lambda>status :: int. if status \<noteq> 0 then ret Failure
     else do {
       region_size \<leftarrow> pfr_spi_get_device_size E ROT_INTERNAL_KEY;
       status \<leftarrow> pfr_spi_erase_region E ROT_INTERNAL_KEY True 0 region_size;
       if status \<noteq> 0 then ret Failure
       else do {
         region_size \<leftarrow> pfr_spi_get_device_size E ROT_INTERNAL_STATE;
         status \<leftarrow> pfr_spi_erase_region E ROT_INTERNAL_STATE True 0 region_size;
         if status \<noteq> 0 then ret Failure else ret Success
       }
     })"
  have "state_io_rel (calls (no_write ROT_INTERNAL_INTEL_STATE)) (rest st)" for st
    unfolding rest_def by (intro calls.keeps_intros device_size_no_write erase_region_no_write) simp_all
  from no_write_wf [OF this] have rest: "wf_rel m0 t (exec (rest st) t)" for st t
    by (simp add: state_io_rel_def)
  have e: "erase_provision_flash E = do {
      region_size \<leftarrow> pfr_spi_get_device_size E ROT_INTERNAL_INTEL_STATE;
      status \<leftarrow> pfr_spi_erase_region E ROT_INTERNAL_INTEL_STATE True 0 region_size;
      rest status }"
    by (simp add: erase_provision_flash_def rest_def)
  show ?thesis
    using rest erase_intel_state_wf [OF assms]
    by (simp add: e state_io_rel_def case_prod_beta wf_rel_def)
qed

lemma ufm_wf_bits:
  "ufm_wf w \<Longrightarrow> ufm_wf (w AND - 17)" "ufm_wf w \<Longrightarrow> ufm_wf (w AND - 33)"
  "ufm_wf w \<Longrightarrow> ufm_wf (w AND - 65)"
  "CheckUfmStatus w UFM_STATUS_PROVISIONED_BIT_MASK \<Longrightarrow> ufm_wf (w AND - 2)"
  using ufm_wf_clear [of w "0x10"] ufm_wf_clear [of w "0x20"] ufm_wf_clear [of w "0x40"]
    CheckUfmStatus_clear [of w UFM_STATUS_PROVISIONED_BIT_MASK 1]
  by (simp_all add: ufm_wf_def)

lemmas pit_wf_simps = mbx_no_write calls.keeps_return case_prod_beta ufm_wf_bits

lemma pit_wf:
  assumes ok: "provision_ok m0 rsize E"
  shows "state_io_rel (wf_rel m0) (ProvisionPitKey E) \<and> state_io_rel (wf_rel m0) (EnablePitLevel1 E) \<and>
    state_io_rel (wf_rel m0) (EnablePitLevel2 E) \<and> state_io_rel (wf_rel m0) (lock_provision_flash E)"
  unfolding ProvisionPitKey_def EnablePitLevel1_def EnablePitLevel2_def lock_provision_flash_def
  by (intro conjI; rule read_status_wf [OF ok])
     (auto simp: SetUfmFlashStatus_effect(1) [OF ok] pit_wf_simps)

lemma provision_data_cmd_wf:
  assumes "\<And>bs. length bs \<le> n \<Longrightarrow> state_io_rel (wf_rel m0) (prov E bs)"
    and "\<And>d s. trace (store d s) = trace s"
  shows "state_io_rel (wf_rel m0) (provision_data_cmd E store n prov)"
  unfolding provision_data_cmd_def Let_def
  by (intro wf.keeps_intros wf_modify assms no_write_wf [OF mbx_no_write(6)]) (simp_all add: assms(2))

lemma attestation_no_write:
  "state_io_rel (calls (no_write ROT_INTERNAL_INTEL_STATE)) (EnableSpdmAttestation E b)"
  unfolding EnableSpdmAttestation_def by (intro calls.keeps_intros update_status_no_write)

lemma provision_switch_wf:
  assumes ok: "provision_ok m0 rsize E"
  shows "state_io_rel (wf_rel m0) (provision_switch E cmd)"
  unfolding provision_switch_def ProvisionRootKeyHash_def ProvisionPchOffsets_def
    ProvisionBmcOffsets_def ProvisionAFMOffset_def
  by (intro wf.keeps_intros provision_data_cmd_wf provision_once_wf [OF ok]
      pit_wf [OF ok, THEN conjunct1] pit_wf [OF ok, THEN conjunct2, THEN conjunct1]
      pit_wf [OF ok, THEN conjunct2, THEN conjunct2, THEN conjunct1]
      pit_wf [OF ok, THEN conjunct2, THEN conjunct2, THEN conjunct2]
      erase_provision_flash_wf [OF ok] wf_modify reads_no_write [THEN no_write_wf]
      mbx_no_write(6) [THEN no_write_wf] attestation_no_write [THEN no_write_wf]) simp_all

lemma process_provision_command_wf:
  assumes ok: "provision_ok m0 rsize E"
  shows "state_io_rel (wf_rel m0) (process_provision_command E)"
  unfolding process_provision_command_def
  by (intro wf.keeps_intros provision_switch_wf [OF ok] mbx_no_write [THEN no_write_wf]
      clear_decommission_no_write [THEN no_write_wf])

lemma handle_provision_event_wf:
  assumes "provision_ok m0 rsize E"
  shows "state_io_rel (wf_rel m0) (handle_provision_event E)"
  unfolding handle_provision_event_def Let_def
  by (intro wf.keeps_intros wf_modify process_provision_command_wf [OF assms] no_write_wf
      mbx_no_write calls_act) simp_all

text \<open>
  C28: whatever provisioning command the hosts issue, the UFM is never locked before the root key
  hash and both offset tables are provisioned: the invariant "locked implies provisioned" holds
  after the command when it held before, and it holds on an erased flash.
\<close>

theorem locked_implies_provisioned:
  assumes "provision_ok m0 rsize E" and "ufm_wf (flash_status_word m0 (trace s))"
  shows "ufm_wf (flash_status_word m0 (trace (exec (handle_provision_event E) s))) \<and>
    ufm_wf (u32_of_bytes (replicate 4 0xff))"
  using wf.keepsD [OF handle_provision_event_wf [OF assms(1)], of s] assms(2) erased_word
  by (simp add: wf_rel_def)

theorem locked_implies_provisioned_witness:
  "ufm_wf (flash_status_word (\<lambda>_ _. 0xff) (trace (exec (handle_provision_event ref_env) boot_world)))"
proof -
  have "ufm_wf (flash_status_word (\<lambda>_ _. 0xff) (trace boot_world))"
    by (simp add: boot_world_def) code_simp
  from locked_implies_provisioned [OF ref_env_provision this] show ?thesis by blast
qed

text \<open>
  The attestation switch is remembered across boots: what \<open>EnableSpdmAttestation\<close> stores
  is what \<open>IsSpdmAttestationEnabled\<close> answers.
\<close>

theorem spdm_attestation_flag:
  assumes "nor_flash E m0 rsize"
  shows "result (IsSpdmAttestationEnabled E) (exec (EnableSpdmAttestation E b) s) = b"
  using read_written_update_status [OF assms]
  by (simp add: IsSpdmAttestationEnabled_def EnableSpdmAttestation_def case_prod_beta)

theorem spdm_attestation_flag_witness:
  "result (IsSpdmAttestationEnabled ref_env) (exec (EnableSpdmAttestation ref_env True) boot_world)"
  using spdm_attestation_flag [OF ref_env_nor_flash] by blast

end
