(* ===== verification/Pfr_Watchdog.thy ===== *)
theory Pfr_Watchdog
  imports Pfr_Provision
begin

text \<open>
  Boot progress: the timers of \<open>watchdog_timer/wdt_utils.c\<close>, the checkpoint handlers of
  \<open>watchdog_timer/wdt_handler.c\<close>, the recovery levels of \<open>intel_pfr/intel_pfr_pbc.c\<close>, and
  the checkpoint updates and boot-complete log of \<open>Smbus_mailbox.c\<close>.
\<close>

section \<open>Recovery levels\<close>

abbreviation "RECOVER_ON_FIRST_RECOVERY \<equiv> 0b100 :: u8"

definition get_recovery_level :: "u8 \<Rightarrow> (world, u8) state" where
  "get_recovery_level img =
     gets (if img = PCH_SPI then g_pch_recovery_level else g_bmc_recovery_level)"

definition inc_recovery_level :: "u8 \<Rightarrow> (world, unit) state" where
  "inc_recovery_level img = modify (\<lambda>s.
     if img = PCH_SPI then s\<lparr>g_pch_recovery_level := push_bit 1 (g_pch_recovery_level s)\<rparr>
     else s\<lparr>g_bmc_recovery_level := push_bit 1 (g_bmc_recovery_level s)\<rparr>)"

definition reset_recovery_level :: "u8 \<Rightarrow> (world, unit) state" where
  "reset_recovery_level img = modify (\<lambda>s.
     if img = PCH_SPI then s\<lparr>g_pch_recovery_level := RECOVER_ON_FIRST_RECOVERY\<rparr>
     else s\<lparr>g_bmc_recovery_level := RECOVER_ON_FIRST_RECOVERY\<rparr>)"

section \<open>Timers\<close>

text \<open>The management engine timer exists on the platforms that define \<open>SUPPORT_ME\<close>.\<close>

definition pfr_start_timer :: "env \<Rightarrow> pfr_timer \<Rightarrow> nat \<Rightarrow> (world, unit) state" where
  "pfr_start_timer E type ms_timeout =
     cwhen (type \<noteq> ME_TIMER \<or> SUPPORT_ME E) (act E (Kern (TimerStart type ms_timeout)))"

definition pfr_stop_timer :: "env \<Rightarrow> pfr_timer \<Rightarrow> (world, unit) state" where
  "pfr_stop_timer E type =
     cwhen (type \<noteq> ME_TIMER \<or> SUPPORT_ME E) (act E (Kern (TimerStop type)))"

definition pfr_timer_remaining_get :: "env \<Rightarrow> pfr_timer \<Rightarrow> (world, u32) state" where
  "pfr_timer_remaining_get E type =
     (if type \<noteq> ME_TIMER \<or> SUPPORT_ME E
      then do { (remaining, _) \<leftarrow> ext E (Kern (TimerRemaining type)); ret (word_of_int remaining) }
      else ret 0)"

definition wdt_callback_bmc_timeout :: "env \<Rightarrow> (world, unit) state" where
  "wdt_callback_bmc_timeout E = do {
     update_intent \<leftarrow> MBX_REG_GETTER E BmcUpdateIntent2;
     if update_intent AND SeamlessUpdateAck \<noteq> 0 then do {
       MBX_REG_SETTER E BmcUpdateIntent2 (update_intent AND NOT SeamlessUpdateAck);
       GenerateStateMachineEvent E RESET_DETECTED NULL_data
     }
     else do {
       LogWatchdogRecovery E BMC_LAUNCH_FAIL BMC_WDT_EXPIRE;
       GenerateStateMachineEvent E WDT_TIMEOUT (hrot_code BMC_EVENT, 0, 0, 0)
     }
   }"

definition wdt_callback_acm_timeout :: "env \<Rightarrow> (world, unit) state" where
  "wdt_callback_acm_timeout E = do {
     LogWatchdogRecovery E ACM_LAUNCH_FAIL ACM_WDT_EXPIRE;
     GenerateStateMachineEvent E WDT_TIMEOUT (hrot_code PCH_EVENT, 0, 0, 0)
   }"

definition wdt_callback_bios_timeout :: "env \<Rightarrow> (world, unit) state" where
  "wdt_callback_bios_timeout E = do {
     boot \<leftarrow> gets gWdtBootStatus;
     (if boot AND WDT_IBB_BOOT_DONE_MASK \<noteq> 0
      then LogWatchdogRecovery E OBB_LAUNCH_FAIL OBB_WDT_EXPIRE
      else LogWatchdogRecovery E IBB_LAUNCH_FAIL IBB_WDT_EXPIRE);
     GenerateStateMachineEvent E WDT_TIMEOUT (hrot_code PCH_EVENT, 0, 0, 0)
   }"

definition wdt_callback_me_timeout :: "env \<Rightarrow> (world, unit) state" where
  "wdt_callback_me_timeout E = do {
     LogWatchdogRecovery E ME_LAUNCH_FAIL ME_WDT_EXPIRE;
     GenerateStateMachineEvent E WDT_TIMEOUT (hrot_code PCH_EVENT, 0, 0, 0)
   }"

definition WDT_ALL_BOOT_DONE_MASK :: "env \<Rightarrow> u8" where
  "WDT_ALL_BOOT_DONE_MASK E = WDT_BMC_BOOT_DONE_MASK OR (if SUPPORT_ME E then WDT_ME_BOOT_DONE_MASK else 0)
     OR WDT_ACM_BOOT_DONE_MASK OR WDT_IBB_BOOT_DONE_MASK OR WDT_OBB_BOOT_DONE_MASK"

definition is_timed_boot_done :: "env \<Rightarrow> (world, bool) state" where
  "is_timed_boot_done E = gets (\<lambda>s. gWdtBootStatus s = WDT_ALL_BOOT_DONE_MASK E)"

section \<open>Boot completion\<close>

text \<open>The recovery updates that were left pending until the platform has booted.\<close>

definition pending_recovery_intent :: "env \<Rightarrow> cpld_status \<Rightarrow> u8 \<times> u8" where
  "pending_recovery_intent E c =
     (if Recoveryregion (Region c PCH_REGION) = PCH_INTENT_RECOVERY_PENDING
      then (PchUpdateIntent, PchRecoveryUpdate)
      else if CONFIG_PFR_SPDM_ATTESTATION E \<and>
              Recoveryregion (Region c AFM_REGION) = BMC_INTENT2_AFM_RECOVERY_PENDING
      then (BmcUpdateIntent2, AfmRecoveryUpdate)
      else
        (let intent = (if Recoveryregion (Region c BMC_REGION) = BMC_INTENT_RECOVERY_PENDING
                       then BmcRecoveryUpdate
                       else if Recoveryregion (Region c PCH_REGION) = BMC_INTENT_RECOVERY_PENDING
                       then PchRecoveryUpdate else 0);
             intent = (if Recoveryregion (Region c ROT_REGION) = BMC_INTENT_RECOVERY_PENDING
                       then intent OR HROTRecoveryUpdate else intent)
         in (BmcUpdateIntent, intent)))"

definition log_t0_timed_boot_complete_if_ready :: "env \<Rightarrow> u8 \<Rightarrow> (world, unit) state" where
  "log_t0_timed_boot_complete_if_ready E current_boot_state = do {
     ready \<leftarrow> is_timed_boot_done E;
     if ready then do {
       SetPlatformState E T0_BOOT_COMPLETED;
       (_, cpld_update_status) \<leftarrow> read_update_status E;
       let (update_intent_src, intent) = pending_recovery_intent E cpld_update_status;
       cwhen (intent \<noteq> 0)
         (GenerateStateMachineEvent E UPDATE_REQUESTED (update_intent_src, intent, BootDoneRecovery, 0))
     }
     else SetPlatformState E current_boot_state
   }"

section \<open>Checkpoint handlers\<close>

definition set_boot_bit :: "u8 \<Rightarrow> (world, unit) state" where
  "set_boot_bit m = modify (\<lambda>s. s\<lparr>gWdtBootStatus := gWdtBootStatus s OR m\<rparr>)"

definition clear_boot_bit :: "u8 \<Rightarrow> (world, unit) state" where
  "clear_boot_bit m = modify (\<lambda>s. s\<lparr>gWdtBootStatus := gWdtBootStatus s AND NOT m\<rparr>)"

definition bmc_wdt_handler :: "env \<Rightarrow> u8 \<Rightarrow> (world, unit) state" where
  "bmc_wdt_handler E cmd = (
     let ms_timeout = BMC_CHECKPOINT_EXPIRE_TIME E; type = BMC_TIMER in
     if cmd = ExecutionBlockStrat then pfr_start_timer E type ms_timeout
     else if cmd = PausingExecutionBlock then do {
       pfr_stop_timer E type;
       cwhen (CONFIG_PFR_MCTP_I3C E) (do {
         MBX_REG_SETTER E PfrActivityInfo1 PFR_ACT1_I3C_MUX_TAKEOVER;
         act E (Link SwitchI3cOwnerRot)
       })
     }
     else if cmd = ResumedExecutionBlock then pfr_start_timer E type ms_timeout
     else if cmd = NextExeBlockAuthenticationFail then do {
       pfr_stop_timer E type;
       LogWatchdogRecovery E BMC_LAUNCH_FAIL BMC_WDT_EXPIRE;
       GenerateStateMachineEvent E WDT_TIMEOUT (hrot_code BMC_EVENT, 0, 0, 0)
     }
     else if cmd = CompletingExecutionBlock \<or> cmd = ReadyToBootOS then do {
       pfr_stop_timer E type;
       set_boot_bit WDT_BMC_BOOT_DONE_MASK;
       cwhen (CONFIG_BMC_CHECKPOINT_RECOVERY E) (reset_recovery_level BMC_SPI);
       MBX_REG_SETTER E PfrActivityInfo2 PFR_ACT2_BMC_BOOT_DONE;
       log_t0_timed_boot_complete_if_ready E T0_BMC_BOOTED
     }
     else ret ())"

definition me_wdt_timer_handler :: "env \<Rightarrow> u8 \<Rightarrow> (world, unit) state" where
  "me_wdt_timer_handler E cmd =
     (if cmd = AUTHENTICATION_FAILED then do {
        pfr_stop_timer E ME_TIMER;
        clear_boot_bit WDT_ME_BOOT_DONE_MASK;
        LogWatchdogRecovery E ME_LAUNCH_FAIL ME_WDT_EXPIRE;
        GenerateStateMachineEvent E WDT_TIMEOUT (hrot_code PCH_EVENT, 0, 0, 0)
      }
      else if cmd = EXECUTION_BLOCK_COMPLETED then do {
        pfr_stop_timer E ME_TIMER;
        set_boot_bit WDT_ME_BOOT_DONE_MASK;
        boot \<leftarrow> gets gWdtBootStatus;
        cwhen (CONFIG_PCH_CHECKPOINT_RECOVERY E \<and> boot AND WDT_OBB_BOOT_DONE_MASK \<noteq> 0)
          (reset_recovery_level PCH_SPI);
        log_t0_timed_boot_complete_if_ready E T0_ME_BOOTED
      }
      else ret ())"

definition acm_wdt_handler :: "env \<Rightarrow> u8 \<Rightarrow> (world, unit) state" where
  "acm_wdt_handler E cmd =
     (if cmd = EXECUTION_BLOCK_PAUSED then pfr_stop_timer E ACM_TIMER
      else if cmd = EXECUTION_BLOCK_RESUMED then pfr_start_timer E ACM_TIMER (PCH_CHECKPOINT_EXPIRE_TIME E)
      else if cmd = AUTHENTICATION_FAILED then do {
        pfr_stop_timer E ACM_TIMER;
        act E (Kern (KSleep 2000));
        LogWatchdogRecovery E ACM_LAUNCH_FAIL ACM_IBB_0BB_AUTH_FAIL;
        GenerateStateMachineEvent E WDT_TIMEOUT (hrot_code PCH_EVENT, 0, 0, 0)
      }
      else ret ())"

definition bios_wdt_handler :: "env \<Rightarrow> u8 \<Rightarrow> (world, unit) state" where
  "bios_wdt_handler E cmd = (
     let ms_timeout = PCH_CHECKPOINT_EXPIRE_TIME E; type = BIOS_TIMER in do {
     boot \<leftarrow> gets gWdtBootStatus;
     (if boot AND WDT_IBB_BOOT_DONE_MASK \<noteq> 0 then
        (if cmd = EXECUTION_BLOCK_STARTED then pfr_start_timer E type ms_timeout
         else if cmd = EXECUTION_BLOCK_COMPLETED then do {
           set_boot_bit WDT_OBB_BOOT_DONE_MASK;
           pfr_stop_timer E type;
           boot \<leftarrow> gets gWdtBootStatus;
           cwhen (CONFIG_PCH_CHECKPOINT_RECOVERY E \<and> boot AND WDT_ME_BOOT_DONE_MASK \<noteq> 0)
             (reset_recovery_level PCH_SPI);
           MBX_REG_SETTER E PfrActivityInfo2 PFR_ACT2_OBB_BOOT_DONE;
           log_t0_timed_boot_complete_if_ready E T0_BIOS_BOOTED
         }
         else if cmd = AUTHENTICATION_FAILED then do {
           pfr_stop_timer E type;
           LogWatchdogRecovery E OBB_LAUNCH_FAIL ACM_IBB_0BB_AUTH_FAIL;
           GenerateStateMachineEvent E WDT_TIMEOUT (hrot_code PCH_EVENT, 0, 0, 0)
         }
         else ret ())
      else
        (if cmd = EXECUTION_BLOCK_STARTED then do {
           set_boot_bit WDT_ACM_BOOT_DONE_MASK;
           pfr_stop_timer E ACM_TIMER;
           SetPlatformState E T0_ACM_BOOTED;
           pfr_start_timer E type ms_timeout
         }
         else if cmd = EXECUTION_BLOCK_COMPLETED then do {
           set_boot_bit WDT_IBB_BOOT_DONE_MASK;
           pfr_start_timer E type ms_timeout;
           MBX_REG_SETTER E PfrActivityInfo2 PFR_ACT2_IBB_BOOT_DONE
         }
         else if cmd = AUTHENTICATION_FAILED then do {
           pfr_stop_timer E type;
           LogWatchdogRecovery E IBB_LAUNCH_FAIL ACM_IBB_0BB_AUTH_FAIL;
           GenerateStateMachineEvent E WDT_TIMEOUT (hrot_code PCH_EVENT, 0, 0, 0)
         }
         else ret ()));
     (if cmd = EXECUTION_BLOCK_PAUSED then pfr_stop_timer E type
      else if cmd = EXECUTION_BLOCK_RESUMED then pfr_start_timer E type ms_timeout
      else ret ())
   })"

section \<open>Checkpoint registers\<close>

definition UpdateBmcCheckpoint :: "env \<Rightarrow> u8 \<Rightarrow> (world, unit) state" where
  "UpdateBmcCheckpoint E Data = do {
     boot \<leftarrow> gets gWdtBootStatus;
     if boot AND WDT_BMC_BOOT_DONE_MASK \<noteq> 0 then MBX_REG_SETTER E BmcCheckpoint CompletingExecutionBlock
     else do { MBX_REG_SETTER E BmcCheckpoint Data; bmc_wdt_handler E Data }
   }"

definition UpdateAcmCheckpoint :: "env \<Rightarrow> u8 \<Rightarrow> (world, unit) state" where
  "UpdateAcmCheckpoint E Data = do {
     boot \<leftarrow> gets gWdtBootStatus;
     if boot AND WDT_ACM_BOOT_DONE_MASK \<noteq> 0 then MBX_REG_SETTER E AcmCheckpoint CompletingExecutionBlock
     else do { MBX_REG_SETTER E AcmCheckpoint Data; acm_wdt_handler E Data }
   }"

definition UpdateBiosCheckpoint :: "env \<Rightarrow> u8 \<Rightarrow> (world, unit) state" where
  "UpdateBiosCheckpoint E Data = do {
     boot \<leftarrow> gets gWdtBootStatus;
     if boot AND WDT_OBB_BOOT_DONE_MASK \<noteq> 0 then MBX_REG_SETTER E BiosCheckpoint CompletingExecutionBlock
     else do { MBX_REG_SETTER E BiosCheckpoint Data; bios_wdt_handler E Data }
   }"

section \<open>What these operations leave alone\<close>

text \<open>\<open>leds_only\<close>: only outside calls and the front panel LED variables.\<close>

definition leds_only :: "world \<Rightarrow> world \<Rightarrow> bool" where
  "leds_only s t \<longleftrightarrow> (\<exists>cs g a i b. t = s\<lparr>trace := trace s @ cs, fp_green_on := g, fp_amber_on := a,
     fp_id_on := i, bypass_bmc_fp_signal := b\<rparr>)"

interpretation leds: frame_rel leds_only
proof
  show "leds_only s s" for s
    unfolding leds_only_def
    by (intro exI [of _ "[]"] exI [of _ "fp_green_on s"] exI [of _ "fp_amber_on s"]
        exI [of _ "fp_id_on s"] exI [of _ "bypass_bmc_fp_signal s"]) simp
  show "leds_only s u" if "leds_only s t" "leds_only t u" for s t u
    using that unfolding leds_only_def by (elim exE) (simp, blast)
qed

lemma leds_modify:
  "(\<And>s. \<exists>g a i b. f s = s\<lparr>fp_green_on := g, fp_amber_on := a, fp_id_on := i, bypass_bmc_fp_signal := b\<rparr>) \<Longrightarrow>
    state_io_rel leds_only (modify f)"
  unfolding state_io_rel_def leds_only_def
proof
  fix s
  assume "\<And>s. \<exists>g a i b. f s = s\<lparr>fp_green_on := g, fp_amber_on := a, fp_id_on := i, bypass_bmc_fp_signal := b\<rparr>"
  then obtain g a i b where "f s = s\<lparr>fp_green_on := g, fp_amber_on := a, fp_id_on := i, bypass_bmc_fp_signal := b\<rparr>"
    by blast
  then show "\<exists>cs g a i b. exec (modify f) s = s\<lparr>trace := trace s @ cs, fp_green_on := g, fp_amber_on := a,
      fp_id_on := i, bypass_bmc_fp_signal := b\<rparr>"
    by (intro exI [of _ "[]"] exI [of _ g] exI [of _ a] exI [of _ i] exI [of _ b]) simp
qed

lemma leds_field_upd:
  "\<exists>g a i b. s\<lparr>fp_green_on := x\<rparr> = s\<lparr>fp_green_on := g, fp_amber_on := a, fp_id_on := i, bypass_bmc_fp_signal := b\<rparr>"
  "\<exists>g a i b. s\<lparr>fp_amber_on := x\<rparr> = s\<lparr>fp_green_on := g, fp_amber_on := a, fp_id_on := i, bypass_bmc_fp_signal := b\<rparr>"
  "\<exists>g a i b. s\<lparr>fp_id_on := x\<rparr> = s\<lparr>fp_green_on := g, fp_amber_on := a, fp_id_on := i, bypass_bmc_fp_signal := b\<rparr>"
  "\<exists>g a i b. s\<lparr>bypass_bmc_fp_signal := x\<rparr> = s\<lparr>fp_green_on := g, fp_amber_on := a, fp_id_on := i, bypass_bmc_fp_signal := b\<rparr>"
  for s :: world
  by (cases s; simp)+

lemma dev_only_leds: "state_io_rel dev_only m \<Longrightarrow> state_io_rel leds_only m"
proof (erule frame_mono)
  show "leds_only s t" if "dev_only s t" for s t
    using that unfolding dev_only_def leds_only_def
    by (elim exE) (rule exI, rule exI [of _ "fp_green_on s"], rule exI [of _ "fp_amber_on s"],
      rule exI [of _ "fp_id_on s"], rule exI [of _ "bypass_bmc_fp_signal s"], simp)
qed

lemma SetPlatformState_leds: "state_io_rel leds_only (SetPlatformState E v)"
  unfolding SetPlatformState_def SetFPLEDState_def
  by (intro leds.keeps_intros leds_modify leds_field_upd dev_lemmas [THEN dev_only_leds])

lemma leds_field:
  assumes "state_io_rel leds_only m"
    and "\<And>s cs g a i b. f (s\<lparr>trace := cs, fp_green_on := g, fp_amber_on := a, fp_id_on := i,
      bypass_bmc_fp_signal := b\<rparr>) = f s"
  shows "state_io_rel (keeps_field f) m"
  using assms by (auto simp: state_io_rel_def leds_only_def keeps_field_def) metis

lemma leds_posts: "state_io_rel leds_only m \<Longrightarrow> state_io_rel (posts P) m"
  by (erule frame_mono) (auto simp: leds_only_def posts_def)

lemma leds_handler: "state_io_rel leds_only m \<Longrightarrow> state_io_rel handler_frame m"
  by (erule frame_mono) (auto simp: leds_only_def handler_frame_def)

lemma event_field:
  assumes "\<And>s tr l i q. f (s\<lparr>trace := tr, event_log := l, event_log_idx := i, aspeed_sm_fifo := q\<rparr>) = f s"
    and "\<And>s tr. f (s\<lparr>trace := tr\<rparr>) = f s"
  shows "state_io_rel (keeps_field f) (GenerateStateMachineEvent E evt data)"
  using assms by (auto simp: GenerateStateMachineEvent_def state_io_rel_def keeps_field_def case_prod_beta)

section \<open>Boot progress\<close>

text \<open>What the operations the handlers call leave of the two fields the handlers keep.\<close>

lemma keep_exec: "state_io_rel (keeps_field f) m \<Longrightarrow> f (exec m s) = f s"
  by (simp add: state_io_rel_def keeps_field_def)

lemma timers_dev [dev_lemmas]:
  "state_io_rel dev_only (pfr_start_timer E type ms)" "state_io_rel dev_only (pfr_stop_timer E type)"
  "state_io_rel dev_only (pfr_timer_remaining_get E type)"
  unfolding pfr_start_timer_def pfr_stop_timer_def pfr_timer_remaining_get_def
  by (intro dev.keeps_intros dev_lemmas)+

definition wdt_fields :: "world \<Rightarrow> u8 \<times> u8 \<times> u8" where
  "wdt_fields s = (gWdtBootStatus s, g_bmc_recovery_level s, g_pch_recovery_level s)"

lemma log_boot_complete_fields:
  "state_io_rel (keeps_field wdt_fields) (log_t0_timed_boot_complete_if_ready E st)"
  unfolding log_t0_timed_boot_complete_if_ready_def is_timed_boot_done_def Let_def
  by (intro field.keeps_intros event_field leds_field [OF SetPlatformState_leds]
      dev_only_field [OF update_status_dev(1)])
     (simp_all add: wdt_fields_def)

lemma quiet_wdt_fields:
  "wdt_fields (exec (log_t0_timed_boot_complete_if_ready E st) s) = wdt_fields s"
  "wdt_fields (exec (SetPlatformState E v) s) = wdt_fields s"
  "wdt_fields (exec (GenerateStateMachineEvent E evt data) s) = wdt_fields s"
  "wdt_fields (exec (pfr_start_timer E type ms) s) = wdt_fields s"
  "wdt_fields (exec (pfr_stop_timer E type) s) = wdt_fields s"
  "wdt_fields (exec (MBX_REG_SETTER E r v) s) = wdt_fields s"
  "wdt_fields (exec (LogWatchdogRecovery E a b) s) = wdt_fields s"
  by (rule keep_exec, rule log_boot_complete_fields,
      (rule keep_exec, rule leds_field [OF SetPlatformState_leds], simp add: wdt_fields_def),
      (rule keep_exec, rule event_field; simp add: wdt_fields_def),
      (rule keep_exec, rule dev_only_field [OF timers_dev(1)], simp add: wdt_fields_def),
      (rule keep_exec, rule dev_only_field [OF timers_dev(2)], simp add: wdt_fields_def),
      (rule keep_exec, rule dev_only_field [OF mbx_regs_dev(1)], simp add: wdt_fields_def),
      (rule keep_exec, rule dev_only_field [OF mbx_dev(4)], simp add: wdt_fields_def))

lemmas wdt_simps [simp] = quiet_wdt_fields [unfolded wdt_fields_def prod.inject, THEN conjunct1]
  quiet_wdt_fields [unfolded wdt_fields_def prod.inject, THEN conjunct2, THEN conjunct1]
  quiet_wdt_fields [unfolded wdt_fields_def prod.inject, THEN conjunct2, THEN conjunct2]

lemma run_boot_bits [simp]:
  "run (set_boot_bit m) s = ((), s\<lparr>gWdtBootStatus := gWdtBootStatus s OR m\<rparr>)"
  "run (clear_boot_bit m) s = ((), s\<lparr>gWdtBootStatus := gWdtBootStatus s AND NOT m\<rparr>)"
  by (simp_all add: set_boot_bit_def clear_boot_bit_def)

lemma reset_recovery_level_fields [simp]:
  "gWdtBootStatus (exec (reset_recovery_level img) s) = gWdtBootStatus s"
  "g_pch_recovery_level (exec (reset_recovery_level img) s) =
    (if img = PCH_SPI then RECOVER_ON_FIRST_RECOVERY else g_pch_recovery_level s)"
  by (simp_all add: reset_recovery_level_def)

lemma boot_status_handlers:
  "gWdtBootStatus (exec (bmc_wdt_handler E cmd) s) =
    (if cmd = CompletingExecutionBlock \<or> cmd = ReadyToBootOS
     then gWdtBootStatus s OR WDT_BMC_BOOT_DONE_MASK else gWdtBootStatus s)"
  "gWdtBootStatus (exec (acm_wdt_handler E cmd) s) = gWdtBootStatus s"
  "gWdtBootStatus (exec (bios_wdt_handler E cmd) s) =
    (if gWdtBootStatus s AND WDT_IBB_BOOT_DONE_MASK \<noteq> 0
     then (if cmd = EXECUTION_BLOCK_COMPLETED then gWdtBootStatus s OR WDT_OBB_BOOT_DONE_MASK
           else gWdtBootStatus s)
     else if cmd = EXECUTION_BLOCK_STARTED then gWdtBootStatus s OR WDT_ACM_BOOT_DONE_MASK
     else if cmd = EXECUTION_BLOCK_COMPLETED then gWdtBootStatus s OR WDT_IBB_BOOT_DONE_MASK
     else gWdtBootStatus s)"
  by (auto simp: bmc_wdt_handler_def acm_wdt_handler_def bios_wdt_handler_def Let_def case_prod_beta)

lemma boot_status_checkpoints:
  "gWdtBootStatus (exec (UpdateBmcCheckpoint E d) s) =
    (if gWdtBootStatus s AND WDT_BMC_BOOT_DONE_MASK \<noteq> 0 then gWdtBootStatus s
     else gWdtBootStatus (exec (bmc_wdt_handler E d) s))"
  "gWdtBootStatus (exec (UpdateAcmCheckpoint E d) s) = gWdtBootStatus s"
  "gWdtBootStatus (exec (UpdateBiosCheckpoint E d) s) =
    (if gWdtBootStatus s AND WDT_OBB_BOOT_DONE_MASK \<noteq> 0 then gWdtBootStatus s
     else gWdtBootStatus (exec (bios_wdt_handler E d) s))"
  by (simp_all add: UpdateBmcCheckpoint_def UpdateAcmCheckpoint_def UpdateBiosCheckpoint_def
      case_prod_beta boot_status_handlers)

text \<open>
  A legal step of the boot progress: no stage is taken back, and the OBB is only done after the
  IBB.
\<close>

definition obb_after_ibb :: "u8 \<Rightarrow> bool" where
  "obb_after_ibb b \<longleftrightarrow> (b AND WDT_OBB_BOOT_DONE_MASK \<noteq> 0 \<longrightarrow> b AND WDT_IBB_BOOT_DONE_MASK \<noteq> 0)"

definition boot_step_ok :: "u8 \<Rightarrow> u8 \<Rightarrow> bool" where
  "boot_step_ok b b' \<longleftrightarrow> b AND NOT b' = 0 \<and> (obb_after_ibb b \<longrightarrow> obb_after_ibb b')"

lemma and_not_or_self: "(b::u8) AND NOT (b OR m) = 0" "(b::u8) AND NOT b = 0" "(b::u8) AND NOT b AND m = 0"
  by (auto simp: bit_eq_iff bit_simps)

lemma boot_step_ok_or:
  "boot_step_ok b b"
  "m AND WDT_OBB_BOOT_DONE_MASK = 0 \<Longrightarrow> boot_step_ok b (b OR m)"
  "b AND WDT_IBB_BOOT_DONE_MASK \<noteq> 0 \<Longrightarrow> boot_step_ok b (b OR m)"
  by (simp_all add: boot_step_ok_def obb_after_ibb_def and_not_or_self bit.conj_disj_distrib2 or_eq_0_iff)

text \<open>
  C32: a checkpoint message never takes back a boot stage that was reached and never marks the OBB
  as booted before the IBB; and once a component has finished booting a repeated checkpoint only
  rewrites its register: no timer is touched, nothing is logged and no event is posted.
\<close>

theorem checkpoints_are_monotone:
  "boot_step_ok (gWdtBootStatus s) (gWdtBootStatus (exec (UpdateBmcCheckpoint E d) s)) \<and>
   boot_step_ok (gWdtBootStatus s) (gWdtBootStatus (exec (UpdateAcmCheckpoint E d) s)) \<and>
   boot_step_ok (gWdtBootStatus s) (gWdtBootStatus (exec (UpdateBiosCheckpoint E d) s)) \<and>
   exec (UpdateBmcCheckpoint E d) (s\<lparr>gWdtBootStatus := b OR WDT_BMC_BOOT_DONE_MASK\<rparr>) =
     exec (MBX_REG_SETTER E BmcCheckpoint CompletingExecutionBlock)
       (s\<lparr>gWdtBootStatus := b OR WDT_BMC_BOOT_DONE_MASK\<rparr>) \<and>
   exec (UpdateAcmCheckpoint E d) (s\<lparr>gWdtBootStatus := b OR WDT_ACM_BOOT_DONE_MASK\<rparr>) =
     exec (MBX_REG_SETTER E AcmCheckpoint CompletingExecutionBlock)
       (s\<lparr>gWdtBootStatus := b OR WDT_ACM_BOOT_DONE_MASK\<rparr>) \<and>
   exec (UpdateBiosCheckpoint E d) (s\<lparr>gWdtBootStatus := b OR WDT_OBB_BOOT_DONE_MASK\<rparr>) =
     exec (MBX_REG_SETTER E BiosCheckpoint CompletingExecutionBlock)
       (s\<lparr>gWdtBootStatus := b OR WDT_OBB_BOOT_DONE_MASK\<rparr>)"
  by (simp add: boot_status_checkpoints boot_status_handlers boot_step_ok_or)
     (simp add: UpdateBmcCheckpoint_def UpdateAcmCheckpoint_def UpdateBiosCheckpoint_def
        bit.conj_disj_distrib2 or_eq_0_iff)

lemma led_set_no_write: "state_io_rel (calls (no_write x)) (led_set E n on)"
  unfolding led_set_def by (intro calls.keeps_intros calls_act) simp_all

lemma SetFPLEDState_no_write: "state_io_rel (calls (no_write x)) (SetFPLEDState E v)"
  unfolding SetFPLEDState_def
  by (intro calls.keeps_intros led_set_no_write calls_ext calls_act calls_modify) (simp_all (no_asm))

lemma SetPlatformState_no_write: "state_io_rel (calls (no_write x)) (SetPlatformState E v)"
  unfolding SetPlatformState_def
  by (intro calls.keeps_intros SetFPLEDState_no_write calls_act) (simp_all (no_asm))

lemma run_read_update_status:
  assumes "nor_flash E m0 rsize"
  shows "result (read_update_status E) s =
    (Success, cpld_status_of_bytes (mem_slice (rot_mem m0 (trace s) ROT_INTERNAL_STATE) 0 19))"
  using status_ufm.rd_result [OF assms, of UPDATE_STATUS_ADDRESS sizeof_CPLD_STATUS s]
  by (simp add: read_update_status_def case_prod_beta)



text \<open>
  On a platform whose management engine has no boot timer (no \<open>SUPPORT_ME\<close>, so the ME bit is
  never set), no BIOS checkpoint returns the PCH recovery level to its first step, although the
  comment at the reset says the level is cleared upon successful boot.
\<close>

theorem pch_recovery_level_not_cleared_without_me:
  assumes "gWdtBootStatus s AND WDT_ME_BOOT_DONE_MASK = 0"
  shows "g_pch_recovery_level (exec (UpdateBiosCheckpoint E d) s) = g_pch_recovery_level s \<and>
    gWdtBootStatus (exec (UpdateBiosCheckpoint E d) s) AND WDT_ME_BOOT_DONE_MASK = 0"
  using assms
  by (simp add: UpdateBiosCheckpoint_def bios_wdt_handler_def Let_def case_prod_beta
      bit.conj_disj_distrib2)

theorem pch_recovery_level_not_cleared_without_me_witness:
  "g_pch_recovery_level (exec (UpdateBiosCheckpoint ref_env CompletingExecutionBlock)
     (boot_world\<lparr>gWdtBootStatus := 0x0d, g_pch_recovery_level := 0x10\<rparr>)) = 0x10"
  using pch_recovery_level_not_cleared_without_me
    [of "boot_world\<lparr>gWdtBootStatus := 0x0d, g_pch_recovery_level := 0x10\<rparr>" ref_env CompletingExecutionBlock]
  by simp

end
