(* ===== verification/Pfr_Pfm.thy ===== *)
theory Pfr_Pfm
  imports Pfr_Chain Pfr_Watchdog
begin

text \<open>
  Platform firmware manifests, \<open>intel_pfr/intel_pfr_pfm_manifest.c\<close> and the FVM part of
  \<open>intel_pfr/intel_pfr_verification.c\<close>: the version a manifest reports, the hashes of the SPI
  regions it lists, the firmware volume manifests (FVM) and attestation manifests (AFM) it points
  to. The walks over a manifest body run with one round of fuel per byte address below its end.
\<close>

section \<open>Structures\<close>

definition le16 :: "nat \<Rightarrow> u8 list \<Rightarrow> u32" where
  "le16 off bs = u32_of_bytes (field_bytes off 2 bs @ [0, 0])"

text \<open>The bytes of \<open>PFM_SPI_DEFINITION\<close>: type, protect level mask, hash info, start, end.\<close>

abbreviation "def_type bs \<equiv> bs ! 0 :: u8"
abbreviation "protect_mask bs \<equiv> bs ! 1 :: u8"
abbreviation "sha256_present bs \<equiv> bit (bs ! 2 :: u8) 0"
abbreviation "sha384_present bs \<equiv> bit (bs ! 2 :: u8) 1"
abbreviation "region_start bs \<equiv> le32 8 bs"
abbreviation "region_end bs \<equiv> le32 12 bs"

text \<open>The size of an SPI region definition in a manifest body, with the hash that follows it.\<close>

definition spi_region_def_size :: "pfr_manifest \<Rightarrow> u8 list \<Rightarrow> u32" where
  "spi_region_def_size m spi_def =
     (if sha256_present spi_def \<or> sha384_present spi_def
      then 16 + (if hash_curve m = secp384r1 \<or> hash_curve m = hash_sign_algo384 then 48 else 32)
      else 16)"

section \<open>Versions\<close>

definition manifest_verify :: "env \<Rightarrow> (world, int) state" where
  "manifest_verify E = intel_pfr_manifest_verify E"

definition validate_region_data :: "env \<Rightarrow> u32 \<Rightarrow> (world, bool) state" where
  "validate_region_data E address = do {
     m \<leftarrow> gets manifest;
     upd_manifest (\<lambda>m. m\<lparr>m_address := address, device_id0 := ucast (image_type m)\<rparr>);
     status \<leftarrow> manifest_verify E;
     upd_manifest (m_address_update (\<lambda>_. m_address m));
     ret (status = Success)
   }"

definition set_versions :: "env \<Rightarrow> u8 \<Rightarrow> u8 \<Rightarrow> u8 \<Rightarrow> u8 list \<Rightarrow> (world, unit) state" where
  "set_versions E svn_reg major_reg minor_reg pfm = do {
     MBX_REG_SETTER E svn_reg (pfm ! 4);
     MBX_REG_SETTER E major_reg (pfm ! 6);
     MBX_REG_SETTER E minor_reg (pfm ! 7)
   }"

definition get_active_pfm_version_details :: "env \<Rightarrow> u32 \<Rightarrow> (world, int) state" where
  "get_active_pfm_version_details E address = do {
     m \<leftarrow> gets manifest;
     (status, pfm) \<leftarrow> image_read E (address + sig_block_size m) 32;
     if status \<noteq> Success then ret Failure
     else if le32 0 pfm = PFMTAG then do {
       (if image_type m = PCH_TYPE
        then set_versions E PchPfmActiveSvn PchPfmActiveMajorVersion PchPfmActiveMinorVersion pfm
        else if image_type m = BMC_TYPE
        then set_versions E BmcPfmActiveSvn BmcPfmActiveMajorVersion BmcPfmActiveMinorVersion pfm
        else ret ());
       ret Success
     }
     else if CONFIG_PFR_SPDM_ATTESTATION E \<and> le32 0 pfm = AFM_TAG then do {
       set_versions E AfmActiveSvn AfmActiveMajorVersion AfmActiveMinorVersion pfm;
       ret Success
     }
     else ret Failure
   }"

text \<open>The recovery image raises the rollback policy to its own SVN.\<close>

definition raise_svn_policy :: "env \<Rightarrow> u32 \<Rightarrow> u8 \<Rightarrow> (world, int) state" where
  "raise_svn_policy E offset recovery_svn = do {
     policy_svn \<leftarrow> get_ufm_svn E offset;
     if policy_svn < recovery_svn then set_ufm_svn E offset recovery_svn else ret Success
   }"

definition get_recover_pfm_version_details :: "env \<Rightarrow> u32 \<Rightarrow> (world, int) state" where
  "get_recover_pfm_version_details E address = do {
     m \<leftarrow> gets manifest;
     (status, pfm) \<leftarrow> image_read E (address + sig_block_size m + sig_block_size m) 32;
     if status \<noteq> Success then ret Failure
     else if le32 0 pfm = PFMTAG then
       (if image_type m = PCH_TYPE then do {
          set_versions E PchPfmRecoverSvn PchPfmRecoverMajorVersion PchPfmRecoverMinorVersion pfm;
          raise_svn_policy E SVN_POLICY_FOR_PCH_FW_UPDATE (pfm ! 4)
        }
        else if image_type m = BMC_TYPE then do {
          set_versions E BmcPfmRecoverSvn BmcPfmRecoverMajorVersion BmcPfmRecoverMinorVersion pfm;
          raise_svn_policy E SVN_POLICY_FOR_BMC_FW_UPDATE (pfm ! 4)
        }
        else ret Success)
     else if CONFIG_PFR_SPDM_ATTESTATION E \<and> le32 0 pfm = AFM_TAG then do {
       set_versions E AfmRecoverSvn AfmRecoverMajorVersion AfmRecoverMinorVersion pfm;
       raise_svn_policy E SVN_POLICY_FOR_AFM (pfm ! 4)
     }
     else ret Failure
   }"

section \<open>Hashes of SPI regions\<close>

definition spi_region_hash_verification :: "env \<Rightarrow> u8 list \<Rightarrow> u8 list \<Rightarrow> (world, int) state" where
  "spi_region_hash_verification E spi_def pfm_spi_hash =
     (if sha256_present spi_def \<or> sha384_present spi_def then do {
        let hash_len = (if sha256_present spi_def then 32 else 48);
        upd_manifest (\<lambda>m. m\<lparr>hash_start_address := region_start spi_def,
          hash_length := region_end spi_def - region_start spi_def,
          hash_kind := (if sha256_present spi_def then HASH_TYPE_SHA256 else HASH_TYPE_SHA384),
          device_id0 := ucast (image_type m)\<rparr>);
        (_, sha_buffer) \<leftarrow> manifest_get_hash E (of_nat hash_len);
        if take hash_len pfm_spi_hash \<noteq> sha_buffer then ret Failure else ret Success
      }
      else ret Success)"

definition get_spi_region_hash :: "env \<Rightarrow> u32 \<Rightarrow> u8 list \<Rightarrow> (world, u32 \<times> u8 list) state" where
  "get_spi_region_hash E address spi_def =
     (if sha256_present spi_def then do {
        (_, bs) \<leftarrow> image_read E address 32;
        ret (32, bs @ replicate 16 0)
      }
      else if sha384_present spi_def then do {
        (_, bs) \<leftarrow> image_read E address 48;
        ret (48, bs)
      }
      else ret (0, replicate 48 0))"

text \<open>One SPI region definition at \<open>addr\<close>: \<open>None\<close> when its hash is wrong, or the next address.\<close>

definition check_spi_region :: "env \<Rightarrow> u32 \<Rightarrow> u8 list \<Rightarrow> (world, u32 option) state" where
  "check_spi_region E addr spi_def = do {
     (n, pfm_spi_hash) \<leftarrow> get_spi_region_hash E (addr + 16) spi_def;
     status \<leftarrow> spi_region_hash_verification E spi_def pfm_spi_hash;
     ret (if status \<noteq> Success then None else Some (addr + 16 + n))
   }"

text \<open>The end of a round of \<open>while (!done)\<close>, whose last statement leaves the loop at the end.\<close>

definition next_def :: "u32 \<Rightarrow> u32 \<Rightarrow> (u32, int) flow" where
  "next_def end_addr addr = (if end_addr \<le> addr then Break addr else Continue addr)"

definition fvm_round :: "env \<Rightarrow> u32 \<Rightarrow> u32 \<Rightarrow> (world, (u32, int) flow) state" where
  "fvm_round E fvm_end_addr fvm_addr = do {
     (status, spi_def) \<leftarrow> image_read E fvm_addr 16;
     if status \<noteq> 0 then ret (Return Failure)
     else if def_type spi_def = SPI_REGION then do {
       r \<leftarrow> check_spi_region E fvm_addr spi_def;
       ret (case r of None \<Rightarrow> Return Failure | Some a \<Rightarrow> next_def fvm_end_addr a)
     }
     else if def_type spi_def = FVM_CAP then ret (next_def fvm_end_addr (fvm_addr + 64))
     else ret (Break fvm_addr)
   }"

definition fvm_spi_region_verification :: "env \<Rightarrow> (world, int) state" where
  "fvm_spi_region_verification E = do {
     m \<leftarrow> gets manifest;
     let fvm_addr = m_address m + sig_block_size m;
     status \<leftarrow> manifest_verify E;
     if status \<noteq> 0 then ret Failure
     else do {
       (status, fvm) \<leftarrow> image_read E fvm_addr 32;
       if status \<noteq> 0 then ret Failure
       else if le32 0 fvm \<noteq> FVMTAG then ret Failure
       else do {
         let fvm_end_addr = fvm_addr + le32 28 fvm;
         while_do (unat fvm_end_addr + 1) (\<lambda>_. True) (fvm_round E fvm_end_addr) (fvm_addr + 32) Failure
           (\<lambda>_. ret Success)
       }
     }
   }"

section \<open>Attestation manifests\<close>

definition set_afm_address :: "u32 \<Rightarrow> (world, unit) state" where
  "set_afm_address afm_addr = do {
     m \<leftarrow> gets manifest;
     if image_type m = BMC_TYPE then upd_manifest (bmc_afm_address_update (\<lambda>_. afm_addr))
     else if image_type m = PCH_TYPE then upd_manifest (cpu0_afm_address_update (\<lambda>_. afm_addr))
     else ret ()
   }"

definition erase_afm_body :: "env \<Rightarrow> u32 \<Rightarrow> (world, int) state" where
  "erase_afm_body E afm_body_offset = do {
     (status, block0_tag) \<leftarrow> pfr_spi_read E ROT_INTERNAL_AFM afm_body_offset 4;
     if status \<noteq> 0 then ret Failure
     else if le32 0 block0_tag = BLOCK0TAG then do {
       status \<leftarrow> pfr_spi_erase_region E ROT_INTERNAL_AFM True afm_body_offset AFM_BODY_SIZE;
       if status \<noteq> 0 then ret Failure else ret Success
     }
     else ret Success
   }"

definition verify_internal_afm :: "env \<Rightarrow> u8 \<Rightarrow> (world, int) state" where
  "verify_internal_afm E flash_type = do {
     m \<leftarrow> gets manifest;
     let afm_body_offset = (if flash_type = BMC_SPI then BMC_AFM_BODY_OFFSET else CPU0_AFM_BODY_OFFSET);
     let afm_addr = (if flash_type = BMC_SPI then bmc_afm_address m else cpu0_afm_address m);
     if afm_addr = 0 then do {
       (_, block0_tag) \<leftarrow> image_read E afm_body_offset 4;
       if le32 0 block0_tag = BLOCK0TAG then do {
         valid \<leftarrow> validate_region_data E afm_body_offset;
         if valid then ret Failure else ret Success
       }
       else ret Success
     }
     else do {
       upd_manifest (\<lambda>m. m\<lparr>image_type := ucast flash_type, hash_start_address := afm_addr,
         hash_kind := HASH_TYPE_SHA384, device_id0 := flash_type, hash_length := AFM_BODY_SIZE\<rparr>);
       (_, sha_buffer) \<leftarrow> manifest_get_hash E SHA384_DIGEST_LENGTH;
       upd_manifest (\<lambda>m. m\<lparr>image_type := ucast ROT_INTERNAL_AFM, hash_start_address := afm_body_offset,
         device_id0 := ROT_INTERNAL_AFM\<rparr>);
       (_, afm_body_sha) \<leftarrow> manifest_get_hash E SHA384_DIGEST_LENGTH;
       upd_manifest (image_type_update (\<lambda>_. image_type m));
       if sha_buffer \<noteq> afm_body_sha then ret Failure
       else do {
         (if flash_type = BMC_SPI then modify (\<lambda>s. s\<lparr>afm_list := (afm_list s)(2 := BMC_AFM_BODY_OFFSET)\<rparr>)
          else cwhen (flash_type = PCH_SPI) (modify (\<lambda>s. s\<lparr>afm_list := (afm_list s)(0 := CPU0_AFM_BODY_OFFSET)\<rparr>)));
         ret Success
       }
     }
   }"

definition verify_pfm_afm :: "env \<Rightarrow> u32 \<Rightarrow> u32 \<Rightarrow> (world, int) state" where
  "verify_pfm_afm E afm_addr afm_body_offset = do {
     (_, block0) \<leftarrow> image_read E afm_addr 128;
     if le32 8 block0 = PFR_AFM then do {
       valid \<leftarrow> validate_region_data E afm_addr;
       if \<not> valid then do { set_afm_address 0; ret Failure }
       else do {
         (_, block0) \<leftarrow> image_read E (afm_addr + AFM_BODY_SIZE) 128;
         if le32 0 block0 = BLOCK0TAG then do {
           valid \<leftarrow> validate_region_data E (afm_addr + AFM_BODY_SIZE);
           if \<not> valid then do { set_afm_address 0; ret Failure }
           else do { set_afm_address (afm_addr + AFM_BODY_SIZE); ret Success }
         }
         else do { erase_afm_body E afm_body_offset; set_afm_address 0; ret Success }
       }
     }
     else if le32 8 block0 = PFR_AFM_PER_DEV then do {
       valid \<leftarrow> validate_region_data E afm_addr;
       if \<not> valid then do { set_afm_address 0; ret Failure }
       else do { set_afm_address afm_addr; ret Success }
     }
     else do { set_afm_address 0; ret Failure }
   }"

text \<open>The address definitions at the start of an AFM body, 56 bytes each.\<close>

function count_afm_defs :: "u8 list \<Rightarrow> nat" where
  "count_afm_defs bs = (if bs \<noteq> [] \<and> hd bs = AFM_ADDR_DEF then Suc (count_afm_defs (drop 56 bs)) else 0)"
  by auto

termination
  by (relation "measure length") auto

declare count_afm_defs.simps [simp del]

text \<open>The AFM devices from device \<open>i\<close> on, at most \<open>n\<close>.\<close>

fun count_afm_devices :: "nat \<Rightarrow> env \<Rightarrow> nat \<Rightarrow> (world, nat) state" where
  "count_afm_devices 0 E i = ret i"
| "count_afm_devices (Suc n) E i = do {
     m \<leftarrow> gets manifest;
     (_, block0) \<leftarrow> image_read E (m_address m + AFM_BODY_SIZE * of_nat i) 128;
     if le32 0 block0 = BLOCK0TAG then count_afm_devices n E (Suc i) else ret i
   }"

fun verify_devices :: "env \<Rightarrow> nat list \<Rightarrow> (world, int) state" where
  "verify_devices E [] = ret Success"
| "verify_devices E (i # is) = do {
     m \<leftarrow> gets manifest;
     valid \<leftarrow> validate_region_data E (m_address m + AFM_BODY_SIZE * of_nat i);
     if \<not> valid then ret Failure else verify_devices E is
   }"

definition verify_afm_devices :: "env \<Rightarrow> (world, int) state" where
  "verify_afm_devices E = do {
     m \<leftarrow> gets manifest;
     if image_type m = ucast ROT_EXT_AFM_ACT_1 then do {
       valid \<leftarrow> validate_region_data E (m_address m);
       if \<not> valid then ret Failure
       else do {
         (_, afm_st) \<leftarrow> image_read E (m_address m + PFM_SIG_BLOCK_SIZE) 28;
         if le32 0 afm_st \<noteq> AFM_TAG then ret Failure
         else do {
           (pData, _) \<leftarrow> ext E (Kern (Malloc (le32 24 afm_st)));
           if pData = 0 then ret Failure
           else do {
             (_, body) \<leftarrow> image_read E (m_address m + PFM_SIG_BLOCK_SIZE + 28) (le32 24 afm_st);
             verify_devices E [1 ..< Suc (count_afm_defs body)]
           }
         }
       }
     }
     else do {
       count \<leftarrow> count_afm_devices 16 E 0;
       verify_devices E [0 ..< count]
     }
   }"

section \<open>The active manifest\<close>

definition pfm_round :: "env \<Rightarrow> u32 \<Rightarrow> u32 \<Rightarrow> u32 \<Rightarrow> u32 \<times> bool \<Rightarrow> (world, (u32 \<times> bool, int) flow) state" where
  "pfm_round E read_address afm_body_offset pfm_end_addr = (\<lambda>(pfm_addr, new_format_found). do {
     let next_at = (\<lambda>a found. if pfm_end_addr \<le> a then Break (a, found) else Continue (a, found));
     (status, spi_def) \<leftarrow> image_read E pfm_addr 16;
     if status \<noteq> 0 then ret (Return Failure)
     else if def_type spi_def = SPI_REGION then do {
       r \<leftarrow> check_spi_region E pfm_addr spi_def;
       ret (case r of None \<Rightarrow> Return Failure | Some a \<Rightarrow> next_at a new_format_found)
     }
     else if def_type spi_def = SMBUS_RULE then ret (next_at (pfm_addr + 40) new_format_found)
     else if CONFIG_SEAMLESS_UPDATE E \<and> def_type spi_def = FVM_ADDR_DEF then do {
       upd_manifest (m_address_update (\<lambda>_. le32 8 spi_def));
       status \<leftarrow> fvm_spi_region_verification E;
       if status \<noteq> 0 then do {
         upd_manifest (m_address_update (\<lambda>_. read_address));
         ret (Return Failure)
       }
       else ret (next_at (pfm_addr + 12) new_format_found)
     }
     else if CONFIG_SEAMLESS_UPDATE E \<and> def_type spi_def = FVM_CAP
     then ret (next_at (pfm_addr + 64) new_format_found)
     else if def_type spi_def = AFM_ADDR_DEF then do {
       (status, afm_def) \<leftarrow> image_read E pfm_addr 56;
       if status \<noteq> 0 then ret (Return Failure)
       else do {
         status \<leftarrow> verify_pfm_afm E (le32 52 afm_def) afm_body_offset;
         if status \<noteq> 0 then ret (Return Failure) else ret (next_at (pfm_addr + 56) True)
       }
     }
     else ret (Break (pfm_addr, new_format_found))
   })"

definition pfm_spi_region_verification :: "env \<Rightarrow> (world, int) state" where
  "pfm_spi_region_verification E = do {
     m \<leftarrow> gets manifest;
     let read_address = m_address m;
     let afm_body_offset = (if image_type m = BMC_TYPE then BMC_AFM_BODY_OFFSET
                            else if image_type m = PCH_TYPE then CPU0_AFM_BODY_OFFSET else 0xffffffff);
     cwhen (image_type m = BMC_TYPE \<or> image_type m = PCH_TYPE) (set_afm_address 0);
     let pfm_addr = read_address + sig_block_size m;
     (status, pfm) \<leftarrow> image_read E pfm_addr 32;
     if status \<noteq> 0 then ret Failure
     else if le32 0 pfm = AFM_TAG then ret Success
     else do {
       let pfm_end_addr = pfm_addr + le32 28 pfm;
       while_do (unat pfm_end_addr + 1) (\<lambda>_. True) (pfm_round E read_address afm_body_offset pfm_end_addr)
         (pfm_addr + 32, False) Failure (\<lambda>(_, new_format_found). do {
           (if \<not> new_format_found \<and> afm_body_offset \<noteq> 0xffffffff
            then do { erase_afm_body E afm_body_offset; ret () } else ret ());
           upd_manifest (m_address_update (\<lambda>_. read_address));
           ret Success
         })
     }
   }"

section \<open>Firmware volumes of a capsule\<close>

text \<open>\<open>find_fvm_addr\<close> looks a volume type up in the active manifest; 0 is "not found".\<close>

definition find_fvm_round :: "env \<Rightarrow> u32 \<Rightarrow> u32 \<Rightarrow> (world, (u32, u32) flow) state" where
  "find_fvm_round E fv_type offset = do {
     m \<leftarrow> gets manifest;
     (_, spi_def) \<leftarrow> image_read E offset 16;
     if def_type spi_def = SMBUS_RULE then ret (Continue (offset + 40))
     else if def_type spi_def = SPI_REGION then ret (Continue (offset + spi_region_def_size m spi_def))
     else if def_type spi_def = FVM_ADDR_DEF then
       (if le16 1 spi_def = fv_type then do {
          upd_manifest (target_fvm_addr_update (\<lambda>_. le32 8 spi_def));
          ret (Return (le32 8 spi_def))
        }
        else ret (Continue (offset + 12)))
     else if def_type spi_def = FVM_CAP then ret (Continue (offset + 64))
     else ret (Break offset)
   }"

definition find_fvm_addr :: "env \<Rightarrow> u32 \<Rightarrow> (world, u32) state" where
  "find_fvm_addr E fv_type = do {
     m \<leftarrow> gets manifest;
     let act_pfm_body_offset = active_pfm_addr m + PFM_SIG_BLOCK_SIZE + 32;
     (status, act_pfm_header) \<leftarrow> image_read E (active_pfm_addr m + sig_block_size m) 32;
     if status \<noteq> 0 then ret (word_of_int Failure)
     else do {
       let act_pfm_end_addr = act_pfm_body_offset + le32 28 act_pfm_header - 32;
       while_do (unat act_pfm_end_addr + 1) (\<lambda>offset. offset < act_pfm_end_addr) (find_fvm_round E fv_type)
         act_pfm_body_offset 0 (\<lambda>_. ret 0)
     }
   }"

definition intel_fvm_verify :: "env \<Rightarrow> (world, int) state" where
  "intel_fvm_verify E = do {
     m \<leftarrow> gets manifest;
     let cap_fvm_offset = m_address m + PFM_SIG_BLOCK_SIZE + PFM_SIG_BLOCK_SIZE;
     (status, cap_fvm) \<leftarrow> image_read E cap_fvm_offset 32;
     if status \<noteq> 0 then ret Failure
     else do {
       fvm_addr \<leftarrow> find_fvm_addr E (le16 10 cap_fvm);
       if fvm_addr = 0 then do {
         LogUpdateFailure E SEAMLESS_UNKNOWN_FV_TYPE 1;
         ret Failure
       }
       else do {
         (status, act_fvm) \<leftarrow> image_read E (fvm_addr + sig_block_size m) 32;
         if status \<noteq> 0 then ret Failure
         else if act_fvm ! 4 \<noteq> cap_fvm ! 4 then ret Failure
         else if le32 28 act_fvm \<noteq> le32 28 cap_fvm then ret Failure
         else ret Success
       }
     }
   }"

definition fvms_round :: "env \<Rightarrow> u32 \<Rightarrow> u32 \<Rightarrow> u32 \<Rightarrow> (world, (u32, int) flow) state" where
  "fvms_round E read_address sig_size offset = do {
     m \<leftarrow> gets manifest;
     (_, spi_def) \<leftarrow> image_read E offset 16;
     if def_type spi_def = SMBUS_RULE then ret (Continue (offset + 40))
     else if def_type spi_def = SPI_REGION then ret (Continue (offset + spi_region_def_size m spi_def))
     else if def_type spi_def = FVM_ADDR_DEF then do {
       upd_manifest (\<lambda>m. m\<lparr>m_state := FIRMWARE_UPDATE,
         m_address := le32 8 spi_def - active_pfm_addr m + read_address + sig_size\<rparr>);
       status \<leftarrow> manifest_verify E;
       if status \<noteq> 0 then ret (Return Failure) else ret (Continue (offset + 12))
     }
     else if def_type spi_def = FVM_CAP then ret (Continue (offset + 64))
     else ret (Break offset)
   }"

definition intel_fvms_verify :: "env \<Rightarrow> (world, int) state" where
  "intel_fvms_verify E = do {
     m \<leftarrow> gets manifest;
     let read_address = m_address m;
     let cap_pfm_offset = read_address + sig_block_size m + sig_block_size m;
     (status, pfm_header) \<leftarrow> image_read E cap_pfm_offset 32;
     if status \<noteq> 0 then ret Failure
     else if le32 0 pfm_header \<noteq> PFMTAG then ret Failure
     else do {
       let cap_pfm_body_end_addr = cap_pfm_offset + 32 + le32 28 pfm_header - 32;
       while_do (unat cap_pfm_body_end_addr + 1) (\<lambda>offset. offset < cap_pfm_body_end_addr)
         (fvms_round E read_address (sig_block_size m)) (cap_pfm_offset + 32) Failure (\<lambda>_. do {
           upd_manifest (\<lambda>m'. m'\<lparr>m_state := m_state m, m_address := read_address\<rparr>);
           ret Success
         })
     }
   }"

end
