(* ===== verification/Pfr_Pbc.thy ===== *)
theory Pfr_Pbc
  imports Pfr_Pfm
begin

text \<open>
  Decompression of an update capsule, \<open>intel_pfr/intel_pfr_pbc.c\<close>: the capsule lists, per page of
  the flash, whether the page is erased and whether it is stored; \<open>decompress_capsule\<close> walks the
  manifest of the capsule and rebuilds every region the update may touch.
\<close>

section \<open>The active manifest\<close>

definition capsule_address :: "pfr_manifest \<Rightarrow> u32" where
  "capsule_address m = (if m_state m = FIRMWARE_RECOVERY then recovery_address m else staging_address m)"

definition page_align :: "u32 \<Rightarrow> u32" where
  "page_align len = (if len mod PAGE_SIZE \<noteq> 0 then len + (PAGE_SIZE - len mod PAGE_SIZE) else len)"

definition update_active_pfm :: "env \<Rightarrow> u32 \<Rightarrow> (world, int) state" where
  "update_active_pfm E pfm_size = do {
     m \<leftarrow> gets manifest;
     let dev = ucast (image_type m);
     sector_sz \<leftarrow> pfr_spi_get_block_size E dev;
     let support_block_erase = (sector_sz = uint BLOCK_SIZE);
     let capsule_offset = capsule_address m + sig_block_size m;
     let length_page_align = page_align pfm_size;
     status \<leftarrow> pfr_spi_erase_region E dev support_block_erase (active_pfm_addr m) length_page_align;
     if status \<noteq> 0 then ret Failure
     else do {
       status \<leftarrow> pfr_spi_region_read_write_between_spi E dev capsule_offset dev (active_pfm_addr m)
         length_page_align;
       if status \<noteq> 0 then ret Failure else ret Success
     }
   }"

section \<open>Erasing\<close>

text \<open>
  The \<open>for\<close> loop over the bits of a region: runs of set bits are erased when they end.
  \<open>erase_start\<close> is the start of the current run, \<open>0xffffffff\<close> in C when there is none.
\<close>

fun erase_runs :: "env \<Rightarrow> u8 \<Rightarrow> bool \<Rightarrow> u8 list \<Rightarrow> nat list \<Rightarrow> nat option \<Rightarrow> (world, nat option) state" where
  "erase_runs E dev support_block_erase bitmap [] erase_start = ret erase_start"
| "erase_runs E dev support_block_erase bitmap (b # bits) erase_start =
     (if bit (bitmap ! (b div 8)) (7 - b mod 8)
      then erase_runs E dev support_block_erase bitmap bits
        (case erase_start of None \<Rightarrow> Some b | Some e \<Rightarrow> Some e)
      else case erase_start of
        None \<Rightarrow> erase_runs E dev support_block_erase bitmap bits None
      | Some e \<Rightarrow> do {
          pfr_spi_erase_region E dev support_block_erase (of_nat e * PAGE_SIZE) (of_nat (b - e) * PAGE_SIZE);
          erase_runs E dev support_block_erase bitmap bits None
        })"

definition decompression_erase :: "env \<Rightarrow> u8 \<Rightarrow> u32 \<Rightarrow> u32 \<Rightarrow> u32 \<Rightarrow> u32 \<Rightarrow> (world, int) state" where
  "decompression_erase E dev start_addr end_addr active_bitmap bitmap_size = do {
     sector_sz \<leftarrow> pfr_spi_get_block_size E dev;
     (active_bitmap_byte, _) \<leftarrow> ext E (Kern (Malloc bitmap_size));
     if active_bitmap_byte = 0 then ret Failure
     else do {
       (status, bitmap) \<leftarrow> pfr_spi_read E dev active_bitmap bitmap_size;
       if status \<noteq> 0 then ret Failure
       else do {
         let support_block_erase = (sector_sz = uint BLOCK_SIZE);
         erase_start \<leftarrow> erase_runs E dev support_block_erase bitmap
           [unat (start_addr div PAGE_SIZE) ..<
            min (unat (end_addr div PAGE_SIZE)) (unat (push_bit 3 bitmap_size))] None;
         case erase_start of
           None \<Rightarrow> ret Success
         | Some e \<Rightarrow> do {
             pfr_spi_erase_region E dev support_block_erase (of_nat e * PAGE_SIZE)
               (end_addr - of_nat e * PAGE_SIZE);
             ret Success
           }
       }
     }
   }"

section \<open>Writing\<close>

text \<open>
  One byte of the compression bitmap, most significant bit first. \<open>cur_bit\<close> is the page; a
  stored page takes one page of the payload wherever it belongs, and is written when it lies in
  the region. \<open>None\<close> is a flash error.
\<close>

fun write_bits :: "env \<Rightarrow> u8 \<Rightarrow> u32 \<Rightarrow> u32 \<Rightarrow> u8 \<Rightarrow> nat list \<Rightarrow> u32 \<Rightarrow> u32 \<Rightarrow> u32 \<Rightarrow>
    (world, (u32 \<times> u32 \<times> u32) option) state" where
  "write_bits E dev start stop byte [] cur_bit src dest = ret (Some (cur_bit, src, dest))"
| "write_bits E dev start stop byte (k # ks) cur_bit src dest = do {
     let copy_this_page = bit byte k;
     let inside = (start \<le> cur_bit \<and> cur_bit < stop);
     status \<leftarrow> (if inside \<and> copy_this_page then pfr_spi_page_read_write E dev src dest else ret 0);
     if status \<noteq> 0 then ret None
     else write_bits E dev start stop byte ks (cur_bit + 1)
       (if copy_this_page then src + PAGE_SIZE else src) (if inside then dest + PAGE_SIZE else dest)
   }"

fun write_bytes :: "env \<Rightarrow> u8 \<Rightarrow> u32 \<Rightarrow> u32 \<Rightarrow> u8 list \<Rightarrow> u32 \<Rightarrow> u32 \<Rightarrow> u32 \<Rightarrow> (world, int) state" where
  "write_bytes E dev start stop [] cur_bit src dest = ret Success"
| "write_bytes E dev start stop (byte # bytes) cur_bit src dest =
     (if cur_bit < stop then do {
        r \<leftarrow> write_bits E dev start stop byte [7, 6, 5, 4, 3, 2, 1, 0] cur_bit src dest;
        case r of
          None \<Rightarrow> ret Failure
        | Some (cur_bit', src', dest') \<Rightarrow> write_bytes E dev start stop bytes cur_bit' src' dest'
      }
      else ret Success)"

text \<open>The first byte is read before the size of the bitmap is looked at.\<close>

definition decompression_write :: "env \<Rightarrow> u8 \<Rightarrow> u32 \<Rightarrow> u32 \<Rightarrow> u32 \<Rightarrow> u32 \<Rightarrow> u32 \<Rightarrow> (world, int) state" where
  "decompression_write E dev decomp_src_addr start_addr end_addr comp_bitmap bitmap_size = do {
     (comp_bitmap_byte, _) \<leftarrow> ext E (Kern (Malloc bitmap_size));
     if comp_bitmap_byte = 0 then ret Failure
     else do {
       (status, bitmap) \<leftarrow> pfr_spi_read E dev comp_bitmap bitmap_size;
       if status \<noteq> 0 then ret Failure
       else do {
         cwhen (bitmap = [] \<and> 0 < end_addr div PAGE_SIZE) (modify (oob_update (\<lambda>_. True)));
         write_bytes E dev (start_addr div PAGE_SIZE) (end_addr div PAGE_SIZE)
           (if bitmap = [] then [uninit E 0] else bitmap) 0 decomp_src_addr start_addr
       }
     }
   }"

section \<open>Regions\<close>

abbreviation "pbc_bitmap_nbit pbc \<equiv> le32 20 pbc"

definition decompress_spi_region :: "env \<Rightarrow> u8 list \<Rightarrow> u32 \<Rightarrow> u32 \<Rightarrow> u32 \<Rightarrow> (world, int) state" where
  "decompress_spi_region E pbc pbc_offset start_addr end_addr = do {
     m \<leftarrow> gets manifest;
     let dev = ucast (image_type m);
     let bitmap_size = pbc_bitmap_nbit pbc div 8;
     if 2 * PAGE_SIZE < bitmap_size then ret Failure
     else do {
       let active_bitmap = pbc_offset + 128;
       let comp_bitmap = active_bitmap + bitmap_size;
       let decomp_src_addr = comp_bitmap + bitmap_size;
       status \<leftarrow> decompression_erase E dev start_addr end_addr active_bitmap bitmap_size;
       if status \<noteq> 0 then ret Failure
       else decompression_write E dev decomp_src_addr start_addr end_addr comp_bitmap bitmap_size
     }
   }"

definition is_spi_region_static :: "u8 list \<Rightarrow> bool" where
  "is_spi_region_static spi_def \<longleftrightarrow> bit (protect_mask spi_def) 0 \<and> \<not> bit (protect_mask spi_def) 1"

definition is_spi_region_dynamic :: "u8 list \<Rightarrow> bool" where
  "is_spi_region_dynamic spi_def \<longleftrightarrow> bit (protect_mask spi_def) 0 \<and> bit (protect_mask spi_def) 1"

definition is_pbc_valid :: "u8 list \<Rightarrow> bool" where
  "is_pbc_valid pbc \<longleftrightarrow> le32 0 pbc = PBC_COMPRESSION_TAG \<and> le32 4 pbc = PBC_VERSION \<and>
     le32 8 pbc = PBC_PAGE_SIZE \<and> pbc_bitmap_nbit pbc mod 8 = 0"

text \<open>
  Whether a region definition is decompressed: its kind must be asked for, a dynamic region must
  not be the staging area, and a recovery must have reached the region's recovery level.
\<close>

definition region_require_update :: "env \<Rightarrow> pfr_manifest \<Rightarrow> u8 \<Rightarrow> u8 list \<Rightarrow> bool" where
  "region_require_update E m recovery_level spi_def \<longleftrightarrow>
     (CONFIG_BMC_CHECKPOINT_RECOVERY E \<or> CONFIG_PCH_CHECKPOINT_RECOVERY E) \<longrightarrow>
     m_state m \<noteq> FIRMWARE_RECOVERY \<or> recovery_level AND protect_mask spi_def \<noteq> 0"

definition region_selected :: "pfr_manifest \<Rightarrow> u8 \<Rightarrow> u8 list \<Rightarrow> bool" where
  "region_selected m decomp_type spi_def \<longleftrightarrow>
     (if is_spi_region_static spi_def then decomp_type AND DECOMPRESSION_STATIC_REGIONS_MASK \<noteq> 0
      else is_spi_region_dynamic spi_def \<and> region_start spi_def \<noteq> staging_address m \<and>
        decomp_type AND DECOMPRESSION_DYNAMIC_REGIONS_MASK \<noteq> 0)"

definition decompress_region_def :: "env \<Rightarrow> u8 list \<Rightarrow> u32 \<Rightarrow> u8 \<Rightarrow> u8 list \<Rightarrow> (world, int) state" where
  "decompress_region_def E pbc pbc_offset decomp_type spi_def = do {
     m \<leftarrow> gets manifest;
     recovery_level \<leftarrow> get_recovery_level (ucast (image_type m));
     if region_selected m decomp_type spi_def \<and> region_require_update E m recovery_level spi_def
     then decompress_spi_region E pbc pbc_offset (region_start spi_def) (region_end spi_def)
     else ret Success
   }"

section \<open>The size of the manifest\<close>

text \<open>
  \<open>get_total_pfm_size\<close>: the manifest as the capsule carries it, with the FVMs and AFMs behind
  its signed part. The loop keeps the highest FVM address and the last AFM address and length.
\<close>

type_synonym pfm_size_state = "u32 \<times> u32 \<times> bool \<times> (u32 \<times> u32) option"

definition pfm_size_round :: "env \<Rightarrow> pfm_size_state \<Rightarrow> (world, (pfm_size_state, u32 \<times> u32) flow) state" where
  "pfm_size_round E = (\<lambda>(offset, last_fvm, has_fvm, afm). do {
     m \<leftarrow> gets manifest;
     (_, spi_def) \<leftarrow> image_read E offset 16;
     if def_type spi_def = SMBUS_RULE then ret (Continue (offset + 40, last_fvm, has_fvm, afm))
     else if def_type spi_def = SPI_REGION
     then ret (Continue (offset + spi_region_def_size m spi_def, last_fvm, has_fvm, afm))
     else if CONFIG_SEAMLESS_UPDATE E \<and> def_type spi_def = FVM_ADDR_DEF
     then ret (Continue (offset + 12, max last_fvm (le32 8 spi_def), True, afm))
     else if CONFIG_SEAMLESS_UPDATE E \<and> def_type spi_def = FVM_CAP
     then ret (Continue (offset + 64, last_fvm, has_fvm, afm))
     else if def_type spi_def = AFM_ADDR_DEF then do {
       (_, afm_def) \<leftarrow> image_read E offset 56;
       ret (Continue (offset + 56, last_fvm, has_fvm, Some (le32 52 afm_def, le32 48 afm_def)))
     }
     else ret (Break (offset, last_fvm, has_fvm, afm))
   })"

definition get_total_pfm_size :: "env \<Rightarrow> u32 \<Rightarrow> u32 \<Rightarrow> u32 \<Rightarrow> (world, u32 \<times> u32) state" where
  "get_total_pfm_size E signed_pfm_offset cap_pfm_body_start_addr cap_pfm_body_end_addr =
     while_do (unat cap_pfm_body_end_addr + 1) (\<lambda>(offset, _). offset < cap_pfm_body_end_addr)
       (pfm_size_round E) (cap_pfm_body_start_addr, 0, False, None) (0, 0) (\<lambda>(_, last_fvm, has_fvm, afm). do {
         m \<leftarrow> gets manifest;
         (total, last_fvm_addr) \<leftarrow>
           (if CONFIG_SEAMLESS_UPDATE E \<and> has_fvm then do {
              let last_fvm_start_addr_in_pfm = last_fvm - active_pfm_addr m;
              (_, signed_fvm) \<leftarrow> image_read E (signed_pfm_offset + last_fvm_start_addr_in_pfm) 128;
              let n = last_fvm_start_addr_in_pfm + le32 4 signed_fvm;
              ret (n, n)
            }
            else ret (pc_length m, pc_length m));
         case afm of
           None \<Rightarrow> ret (total, last_fvm_addr)
         | Some (afm_start_addr, afm_data_length) \<Rightarrow> do {
             let afm_start_addr_in_pfm = afm_start_addr - active_pfm_addr m;
             (_, signed_afm) \<leftarrow> image_read E (signed_pfm_offset + afm_start_addr_in_pfm + afm_data_length) 128;
             let n = afm_start_addr_in_pfm + afm_data_length - PFM_SIG_BLOCK_SIZE;
             ret (if le32 0 signed_afm = BLOCK0TAG then n + AFM_BODY_SIZE else n, last_fvm_addr)
           }
       })"

section \<open>Firmware volumes\<close>

definition fvm_decompress_round :: "env \<Rightarrow> u8 list \<Rightarrow> u32 \<Rightarrow> u8 \<Rightarrow> u32 \<Rightarrow> (world, (u32, int) flow) state" where
  "fvm_decompress_round E pbc pbc_offset decomp_type offset = do {
     (_, spi_def) \<leftarrow> image_read E offset 16;
     if def_type spi_def = SPI_REGION then do {
       status \<leftarrow> decompress_region_def E pbc pbc_offset decomp_type spi_def;
       m \<leftarrow> gets manifest;
       if status \<noteq> 0 then ret (Return Failure) else ret (Continue (offset + spi_region_def_size m spi_def))
     }
     else if def_type spi_def = FVM_CAP then ret (Continue (offset + 64))
     else if def_type spi_def = AFM_ADDR_DEF then ret (Continue (offset + 56))
     else ret (Break offset)
   }"

definition decompress_fvm_spi_region :: "env \<Rightarrow> u8 list \<Rightarrow> u32 \<Rightarrow> u32 \<Rightarrow> u8 \<Rightarrow> (world, int) state" where
  "decompress_fvm_spi_region E pbc pbc_offset cap_fvm_offset decomp_type = do {
     (status, fvm) \<leftarrow> image_read E cap_fvm_offset 32;
     if status \<noteq> 0 then ret Failure
     else do {
       let fvm_body_offset = cap_fvm_offset + 32;
       let fvm_body_end_addr = fvm_body_offset + le32 28 fvm - 32;
       while_do (unat fvm_body_end_addr + 1) (\<lambda>offset. offset < fvm_body_end_addr)
         (fvm_decompress_round E pbc pbc_offset decomp_type) fvm_body_offset Failure (\<lambda>_. ret Success)
     }
   }"

definition decompress_fv_capsule :: "env \<Rightarrow> (world, int) state" where
  "decompress_fv_capsule E = do {
     m \<leftarrow> gets manifest;
     let dev = ucast (image_type m);
     sector_sz \<leftarrow> pfr_spi_get_block_size E dev;
     if target_fvm_addr m = 0 then ret Failure
     else do {
       let signed_fvm_offset = staging_address m + sig_block_size m;
       let cap_fvm_offset = signed_fvm_offset + sig_block_size m;
       let pbc_offset = cap_fvm_offset + pc_length m;
       pfr_spi_erase_region E dev (sector_sz = uint BLOCK_SIZE) (target_fvm_addr m) (pc_length m);
       pfr_spi_page_read_write E dev signed_fvm_offset (target_fvm_addr m);
       (status, pbc) \<leftarrow> image_read E pbc_offset 128;
       if status \<noteq> 0 then ret Failure
       else do {
         status \<leftarrow> decompress_fvm_spi_region E pbc pbc_offset cap_fvm_offset DECOMPRESSION_STATIC_REGIONS_MASK;
         if status \<noteq> 0 then ret Failure else ret Success
       }
     }
   }"

section \<open>Attestation manifests\<close>

text \<open>
  \<open>decompress_afm_capsule\<close>: the AFM in the capsule is verified, copied to the address its
  definition gives, and a device AFM also to the internal AFM area.
\<close>

definition decompress_afm_capsule :: "env \<Rightarrow> u8 list \<Rightarrow> (world, int) state" where
  "decompress_afm_capsule E afm_def = do {
     m \<leftarrow> gets manifest;
     let dev = ucast (image_type m);
     let afm_start_addr = le32 52 afm_def;
     let offset = sig_block_size m;
     let afm_body_offset = (if image_type m = BMC_TYPE then BMC_AFM_BODY_OFFSET else CPU0_AFM_BODY_OFFSET);
     let afm_in_pfm = afm_start_addr - active_pfm_addr m + (capsule_address m + offset);
     (_, block0) \<leftarrow> image_read E afm_in_pfm 128;
     if le32 0 block0 \<noteq> BLOCK0TAG then ret Failure
     else do {
       (_, device0) \<leftarrow> image_read E (afm_in_pfm + le32 4 block0 + offset) 128;
       let afm_device_found = (le32 0 device0 = BLOCK0TAG);
       let afm_source = (if afm_device_found then afm_in_pfm + (le32 4 block0 + offset) else afm_in_pfm);
       upd_manifest (m_address_update (\<lambda>_. afm_source));
       status \<leftarrow> manifest_verify E;
       upd_manifest (m_address_update (\<lambda>_. m_address m));
       if status \<noteq> Success then ret (- 1)
       else do {
         pfr_spi_erase_region E dev True afm_start_addr AFM_BODY_SIZE;
         status \<leftarrow> pfr_spi_region_read_write_between_spi E dev afm_source dev afm_start_addr AFM_BODY_SIZE;
         if status \<noteq> 0 then ret Failure
         else if afm_device_found then do {
           status \<leftarrow> pfr_spi_erase_region E ROT_INTERNAL_AFM True afm_body_offset AFM_BODY_SIZE;
           if status \<noteq> 0 then ret Failure
           else do {
             status \<leftarrow> pfr_spi_region_read_write_between_spi E dev afm_source ROT_INTERNAL_AFM afm_body_offset
               AFM_BODY_SIZE;
             if status \<noteq> 0 then ret Failure
             else do { set_afm_address afm_source; ret Success }
           }
         }
         else do { erase_afm_body E afm_body_offset; set_afm_address 0; ret Success }
       }
     }
   }"

section \<open>The capsule\<close>

definition capsule_round :: "env \<Rightarrow> u8 list \<Rightarrow> u32 \<Rightarrow> u32 \<Rightarrow> u8 \<Rightarrow> u32 \<Rightarrow> (world, (u32, int) flow) state" where
  "capsule_round E pbc pbc_offset cap_pfm_offset decomp_type offset = do {
     m \<leftarrow> gets manifest;
     (_, spi_def) \<leftarrow> image_read E offset 16;
     if def_type spi_def = SMBUS_RULE then ret (Continue (offset + 40))
     else if def_type spi_def = SPI_REGION then do {
       status \<leftarrow> decompress_region_def E pbc pbc_offset decomp_type spi_def;
       if status \<noteq> 0 then ret (Return Failure) else ret (Continue (offset + spi_region_def_size m spi_def))
     }
     else if CONFIG_SEAMLESS_UPDATE E \<and> def_type spi_def = FVM_ADDR_DEF then do {
       status \<leftarrow> decompress_fvm_spi_region E pbc pbc_offset
         (cap_pfm_offset + (le32 8 spi_def - active_pfm_addr m)) decomp_type;
       if status \<noteq> 0 then ret (Return Failure) else ret (Continue (offset + 12))
     }
     else if CONFIG_SEAMLESS_UPDATE E \<and> def_type spi_def = FVM_CAP then ret (Continue (offset + 64))
     else if def_type spi_def = AFM_ADDR_DEF then do {
       (_, afm_def) \<leftarrow> image_read E offset 56;
       status \<leftarrow> decompress_afm_capsule E afm_def;
       if status \<noteq> 0 then ret (Return Failure) else ret (Continue (offset + 56))
     }
     else ret (Break offset)
   }"

definition decompress_capsule :: "env \<Rightarrow> u8 \<Rightarrow> (world, int) state" where
  "decompress_capsule E decomp_type = do {
     m \<leftarrow> gets manifest;
     let signed_pfm_offset = capsule_address m + sig_block_size m;
     let cap_pfm_offset = signed_pfm_offset + sig_block_size m;
     let body_start = cap_pfm_offset + 32;
     (status, pfm_header) \<leftarrow> image_read E cap_pfm_offset 32;
     if status \<noteq> 0 then ret Failure
     else do {
       let body_end = body_start + le32 28 pfm_header - 32;
       (pfm_total_size, pfm_size) \<leftarrow> get_total_pfm_size E signed_pfm_offset body_start body_end;
       let pbc_offset = cap_pfm_offset + pfm_total_size;
       (status, pbc) \<leftarrow> image_read E pbc_offset 128;
       if status \<noteq> 0 then ret Failure
       else if \<not> is_pbc_valid pbc then ret Failure
       else while_do (unat body_end + 1) (\<lambda>offset. offset < body_end)
         (capsule_round E pbc pbc_offset cap_pfm_offset decomp_type) body_start Failure (\<lambda>_.
           if decomp_type AND DECOMPRESSION_STATIC_REGIONS_MASK \<noteq> 0 then do {
             status \<leftarrow> update_active_pfm E pfm_size;
             if status \<noteq> 0 then ret Failure else ret Success
           }
           else ret Success)
     }
   }"

end
