(* ===== verification/Pfr_Capsule.thy ===== *)
theory Pfr_Capsule
  imports Pfr_Pbc
begin

text \<open>
  Verification of whole regions: the protection-in-transit checks and the content types of
  \<open>intel_pfr/intel_pfr_verification.c\<close>, the staging area of \<open>intel_pfr/intel_pfr_update.c\<close>, the
  active and recovery regions of \<open>intel_pfr/intel_pfr_authentication.c\<close>, and
  \<open>authentication_image\<close> of \<open>pfr/pfr_verification.c\<close>, which the state machine calls.
\<close>

section \<open>Protection in transit\<close>

definition intel_pfr_pit_level1_verify :: "env \<Rightarrow> (world, int) state" where
  "intel_pfr_pit_level1_verify E = do {
     (_, ufm_status) \<leftarrow> get_provision_data_in_flash E UFM_STATUS 4;
     if \<not> CheckUfmStatus (u32_of_bytes ufm_status) UFM_STATUS_PIT_L1_ENABLE_BIT_MASK then ret Success
     else do {
       (_, pit_password) \<leftarrow> ufm_read E PROVISION_UFM PIT_PASSWORD 8;
       (_, rf_pit_password) \<leftarrow> pfr_spi_read E ROT_INTERNAL_INTEL_STATE 0xf000 8;
       if pit_password \<noteq> rf_pit_password then do {
         SetPlatformState E LOCKDOWN_DUE_TO_PIT_L1;
         ret Lockdown
       }
       else ret Success
     }
   }"

text \<open>The hash of a whole flash, as \<open>intel_pfr_pit_level2_verify\<close> takes it; the second flash of a
  dual-flash board is counted in.\<close>

definition hash_whole_flash :: "env \<Rightarrow> u32 \<Rightarrow> bool \<Rightarrow> nat \<Rightarrow> u8 list \<Rightarrow> (world, u8 list) state" where
  "hash_whole_flash E fw_type dual hash_len sha_buffer = do {
     (size0, _) \<leftarrow> ext E (Fl (HostFlashSize (ucast fw_type)));
     (size1, _) \<leftarrow> (if dual then ext E (Fl (HostFlashSize (ucast fw_type + 1))) else ret (0, []));
     upd_manifest (\<lambda>m. m\<lparr>image_type := fw_type, device_id0 := ucast fw_type,
       hash_length := word_of_int size0 + word_of_int size1\<rparr>);
     (_, digest) \<leftarrow> manifest_get_hash E (of_nat hash_len);
     ret (overwrite sha_buffer 0 digest)
   }"

definition intel_pfr_pit_level2_verify :: "env \<Rightarrow> (world, int) state" where
  "intel_pfr_pit_level2_verify E = do {
     (_, ufm_bytes) \<leftarrow> get_provision_data_in_flash E UFM_STATUS 4;
     let ufm_status = u32_of_bytes ufm_bytes;
     if CheckUfmStatus ufm_status UFM_STATUS_PIT_L2_PASSED_BIT_MASK \<or>
        \<not> CheckUfmStatus ufm_status UFM_STATUS_PIT_L2_ENABLE_BIT_MASK then ret Success
     else do {
       (status, act_pfm_offset) \<leftarrow> ufm_read E PROVISION_UFM BMC_ACTIVE_PFM_OFFSET 4;
       if status \<noteq> 0 then ret Failure
       else do {
         (status, block1) \<leftarrow> pfr_spi_read E BMC_SPI (u32_of_bytes act_pfm_offset + 128) 484;
         if status \<noteq> 0 then ret Failure
         else do {
           let is384 = (le32 20 block1 = PUBLIC_SECP384_TAG);
           let t = (if is384 then HASH_TYPE_SHA384 else HASH_TYPE_SHA256);
           let hash_len = (if is384 then 48 else 32);
           upd_manifest (\<lambda>m. m\<lparr>hash_kind := t, hash_start_address := 0\<rparr>);
           sha_buffer \<leftarrow> hash_whole_flash E BMC_TYPE (CONFIG_BMC_DUAL_FLASH E) hash_len (replicate 48 0);
           bmc_ok \<leftarrow> (if CheckUfmStatus ufm_status UFM_STATUS_PIT_HASH_STORED_BIT_MASK then do {
               (_, pit_hash_buffer) \<leftarrow> ufm_read E PROVISION_UFM PIT_BMC_FW_HASH 48;
               ret (sha_buffer = pit_hash_buffer)
             }
             else do { ufm_write E PROVISION_UFM PIT_BMC_FW_HASH sha_buffer; ret True });
           if \<not> bmc_ok then do {
             SetPlatformState E LOCKDOWN_ON_PIT_L2_BMC_HASH_MISMATCH;
             ret Lockdown
           }
           else do {
             sha_buffer \<leftarrow> hash_whole_flash E PCH_TYPE (CONFIG_CPU_DUAL_FLASH E) hash_len sha_buffer;
             if CheckUfmStatus ufm_status UFM_STATUS_PIT_HASH_STORED_BIT_MASK then do {
               (_, pit_hash_buffer) \<leftarrow> ufm_read E PROVISION_UFM PIT_PCH_FW_HASH 48;
               if sha_buffer \<noteq> pit_hash_buffer then do {
                 SetPlatformState E LOCKDOWN_ON_PIT_L2_PCH_HASH_MISMATCH;
                 ret Lockdown
               }
               else do {
                 SetUfmFlashStatus E ufm_status UFM_STATUS_PIT_L2_PASSED_BIT_MASK;
                 ret Success
               }
             }
             else do {
               ufm_write E PROVISION_UFM PIT_PCH_FW_HASH sha_buffer;
               SetUfmFlashStatus E ufm_status UFM_STATUS_PIT_HASH_STORED_BIT_MASK;
               SetPlatformState E PIT_L2_FW_SEALED;
               ret Lockdown
             }
           }
         }
       }
     }
   }"

section \<open>The content type of a capsule\<close>

text \<open>The test \<open>pc_type & PFR_CPLD_UPDATE_CAPSULE\<close> of the source is with 0 and never holds.\<close>

definition validate_pc_type :: "env \<Rightarrow> (world, int) state" where
  "validate_pc_type E = do {
     m \<leftarrow> gets manifest;
     let i1 = update_intent1 m;
     let i2 = update_intent2 m;
     let allowed = (\<lambda>b. if b then Success else Failure);
     ret (if pc_type m = CPLD_CAPSULE_CANCELLATION then Success
          else if pc_type m = PFR_CPLD_UPDATE_CAPSULE_DECOMMISSON \<or> pc_type m AND PFR_CPLD_UPDATE_CAPSULE \<noteq> 0
          then allowed (i1 AND HROTActiveAndRecoveryUpdate \<noteq> 0)
          else if pc_type m = PFR_BMC_UPDATE_CAPSULE
          then allowed (i1 AND BmcActiveAndRecoveryUpdate \<noteq> 0 \<and> image_type m = BMC_TYPE)
          else if pc_type m = PFR_PCH_UPDATE_CAPSULE
          then allowed (i1 AND PchActiveAndRecoveryUpdate \<noteq> 0 \<and> image_type m = PCH_TYPE)
          else if pc_type m = PFR_CPLD_UPDATE_CAPSULE then allowed (i1 AND HROTActiveAndRecoveryUpdate \<noteq> 0)
          else if CONFIG_SEAMLESS_UPDATE E \<and> pc_type m = PFR_PCH_SEAMLESS_UPDATE_CAPSULE
          then allowed (i2 AND SeamlessUpdate \<noteq> 0)
          else if CONFIG_PFR_SPDM_ATTESTATION E \<and>
            (pc_type m = PFR_AFM \<or> pc_type m = PFR_AFM_PER_DEV \<or> pc_type m = PFR_AFM_ADD_TO_UPDATE)
          then allowed (i2 AND AfmActiveAndRecoveryUpdate \<noteq> 0)
          else Failure)
   }"

text \<open>The answers are content types; 7 is "none of them".\<close>

definition check_rot_capsule_type :: "env \<Rightarrow> (world, u32) state" where
  "check_rot_capsule_type E = do {
     m \<leftarrow> gets manifest;
     (_, pc) \<leftarrow> image_read E (m_address m + 8) 4;
     let t = u32_of_bytes pc;
     upd_manifest (pc_type_update (\<lambda>_. t));
     ret (if t = PFR_CPLD_UPDATE_CAPSULE_DECOMMISSON then PFR_CPLD_UPDATE_CAPSULE_DECOMMISSON
          else if is_cancellation t then KEY_CANCELLATION_CAPSULE
          else if t = PFR_CPLD_UPDATE_CAPSULE then PFR_CPLD_UPDATE_CAPSULE
          else if t = PFR_PCH_SEAMLESS_UPDATE_CAPSULE then PFR_PCH_SEAMLESS_UPDATE_CAPSULE
          else if t = PFR_AFM then PFR_AFM
          else 7)
   }"

section \<open>The staging area\<close>

text \<open>
  Where the capsule lies and where it goes. A failed read of the BMC addresses is answered as it
  is, the others as \<open>Failure\<close>.
\<close>

definition staging_addresses :: "env \<Rightarrow> (world, int \<times> u32 \<times> u32) state" where
  "staging_addresses E = do {
     m \<leftarrow> gets manifest;
     if image_type m = BMC_TYPE then do {
       (status, src) \<leftarrow> ufm_read E PROVISION_UFM BMC_STAGING_REGION_OFFSET 4;
       if status \<noteq> Success then ret (status, 0, 0)
       else do {
         (status, tgt) \<leftarrow> ufm_read E PROVISION_UFM BMC_RECOVERY_REGION_OFFSET 4;
         ret (status, u32_of_bytes src, u32_of_bytes tgt)
       }
     }
     else if image_type m = PCH_TYPE then do {
       (status, src) \<leftarrow> ufm_read E PROVISION_UFM PCH_STAGING_REGION_OFFSET 4;
       if status \<noteq> Success then ret (Failure, 0, 0)
       else do {
         (status, tgt) \<leftarrow> ufm_read E PROVISION_UFM PCH_RECOVERY_REGION_OFFSET 4;
         ret (if status \<noteq> Success then Failure else Success, u32_of_bytes src, u32_of_bytes tgt)
       }
     }
     else if CONFIG_PFR_SPDM_ATTESTATION E \<and> image_type m = AFM_TYPE then do {
       upd_manifest (image_type_update (\<lambda>_. BMC_TYPE));
       (status, src) \<leftarrow> ufm_read E PROVISION_UFM AFM_STAGING_REGION_OFFSET 4;
       ret (if status \<noteq> Success then Failure else Success, u32_of_bytes src, 0)
     }
     else ret (Failure, 0, 0)
   }"

definition is_afm_type :: "u32 \<Rightarrow> bool" where
  "is_afm_type t \<longleftrightarrow> t = PFR_AFM \<or> t = PFR_AFM_PER_DEV \<or> t = PFR_AFM_ADD_TO_UPDATE"

definition pfr_staging_verify :: "env \<Rightarrow> (world, int) state" where
  "pfr_staging_verify E = do {
     (status, read_address, target_address) \<leftarrow> staging_addresses E;
     if status \<noteq> Success then ret status
     else do {
       upd_manifest (\<lambda>m. m\<lparr>m_address := read_address, recovery_address := target_address\<rparr>);
       (status, pc) \<leftarrow> image_read E (read_address + 8) 4;
       upd_manifest (pc_type_update (\<lambda>_. u32_of_bytes pc));
       if status \<noteq> Success then ret Failure
       else do {
         m \<leftarrow> gets manifest;
         type_ok \<leftarrow> (if m_state m \<noteq> FIRMWARE_RECOVERY then validate_pc_type E else ret Success);
         if type_ok \<noteq> Success then ret Failure
         else do {
           status \<leftarrow> manifest_verify E;
           if status \<noteq> Success then ret Failure
           else do {
             upd_manifest (\<lambda>m. m\<lparr>update_fw_pc_length := pc_length m\<rparr>);
             m \<leftarrow> gets manifest;
             if is_afm_type (pc_type m) then do {
               upd_manifest (image_type_update (\<lambda>_. AFM_TYPE));
               ret Success
             }
             else do {
               upd_manifest (\<lambda>m. m\<lparr>m_address := m_address m + sig_block_size m\<rparr>);
               status \<leftarrow> manifest_verify E;
               if status \<noteq> Success then ret Failure
               else do {
                 upd_manifest (\<lambda>m. m\<lparr>update_fw_pfm_length := pc_length m, m_address := read_address,
                   staging_address := read_address\<rparr>);
                 m \<leftarrow> gets manifest;
                 if CONFIG_SEAMLESS_UPDATE E \<and> image_type m = PCH_TYPE \<and> m_state m = SEAMLESS_UPDATE
                 then intel_fvm_verify E
                 else if CONFIG_SEAMLESS_UPDATE E \<and> image_type m = PCH_TYPE then intel_fvms_verify E
                 else ret Success
               }
             }
           }
         }
       }
     }
   }"

definition intel_pfr_update_verify :: "env \<Rightarrow> (world, int) state" where
  "intel_pfr_update_verify E = pfr_staging_verify E"

section \<open>The active and recovery regions\<close>

definition pfr_recovery_verify :: "env \<Rightarrow> (world, int) state" where
  "pfr_recovery_verify E = do {
     m \<leftarrow> gets manifest;
     (known, read_address) \<leftarrow>
       (if image_type m = BMC_TYPE then do {
          (_, bs) \<leftarrow> ufm_read E PROVISION_UFM BMC_RECOVERY_REGION_OFFSET 4;
          ret (True, u32_of_bytes bs)
        }
        else if image_type m = PCH_TYPE then do {
          (_, bs) \<leftarrow> ufm_read E PROVISION_UFM PCH_RECOVERY_REGION_OFFSET 4;
          ret (True, u32_of_bytes bs)
        }
        else ret (CONFIG_PFR_SPDM_ATTESTATION E \<and>
          (image_type m = ucast ROT_EXT_AFM_RC_1 \<or> image_type m = ucast ROT_EXT_AFM_RC_2), 0));
     if \<not> known then ret Failure
     else do {
       upd_manifest (m_address_update (\<lambda>_. read_address));
       status \<leftarrow> manifest_verify E;
       if status \<noteq> Success then ret Failure
       else do {
         upd_manifest (\<lambda>m. m\<lparr>m_address := m_address m + sig_block_size m\<rparr>);
         status \<leftarrow> manifest_verify E;
         if status \<noteq> Success then ret Failure
         else do {
           status \<leftarrow> get_recover_pfm_version_details E read_address;
           if status \<noteq> Success then ret Failure else ret Success
         }
       }
     }
   }"

definition pfr_active_verify :: "env \<Rightarrow> (world, int) state" where
  "pfr_active_verify E = do {
     m \<leftarrow> gets manifest;
     let is_ext_afm = (CONFIG_PFR_SPDM_ATTESTATION E \<and>
       (image_type m = ucast ROT_EXT_AFM_ACT_1 \<or> image_type m = ucast ROT_EXT_AFM_ACT_2));
     let is_internal_afm = (CONFIG_PFR_SPDM_ATTESTATION E \<and> image_type m = ucast ROT_INTERNAL_AFM);
     (known, read_address) \<leftarrow>
       (if image_type m = BMC_TYPE then do {
          (_, bs) \<leftarrow> get_provision_data_in_flash E BMC_ACTIVE_PFM_OFFSET 4;
          ret (True, u32_of_bytes bs)
        }
        else if image_type m = PCH_TYPE then do {
          (_, bs) \<leftarrow> get_provision_data_in_flash E PCH_ACTIVE_PFM_OFFSET 4;
          ret (True, u32_of_bytes bs)
        }
        else ret (is_ext_afm \<or> is_internal_afm, 0));
     if \<not> known then ret Failure
     else do {
       upd_manifest (m_address_update (\<lambda>_. read_address));
       if is_internal_afm then do {
         bmc \<leftarrow> verify_internal_afm E BMC_SPI;
         if bmc \<noteq> 0 then ret Failure
         else do {
           pch \<leftarrow> verify_internal_afm E PCH_SPI;
           if pch \<noteq> 0 then ret Failure else ret Success
         }
       }
       else do {
         status \<leftarrow> (if is_ext_afm then verify_afm_devices E else manifest_verify E);
         if status \<noteq> Success then ret Failure
         else do {
           status \<leftarrow> get_active_pfm_version_details E read_address;
           if status \<noteq> Success then ret Failure
           else do {
             status \<leftarrow> pfm_spi_region_verification E;
             if status \<noteq> Success then ret Failure else ret Success
           }
         }
       }
     }
   }"

definition intel_pfr_recovery_verify :: "env \<Rightarrow> (world, int) state" where
  "intel_pfr_recovery_verify E = pfr_recovery_verify E"

definition recovery_verify :: "env \<Rightarrow> (world, int) state" where
  "recovery_verify E = intel_pfr_recovery_verify E"

section \<open>The request of the state machine\<close>

text \<open>
  The image a request names. An AFM image is an external AFM partition, the internal AFM when
  the event is \<open>AFM_EVENT3\<close>; a request that names none of them keeps the type of the last one.
\<close>

definition requested_image_type :: "env \<Rightarrow> hrot_event \<Rightarrow> operations \<Rightarrow> u32 option" where
  "requested_image_type E evt_img operation =
     (if evt_img = BMC_EVENT then Some BMC_TYPE
      else if evt_img = PCH_EVENT then Some PCH_TYPE
      else if \<not> CONFIG_PFR_SPDM_ATTESTATION E then None
      else if evt_img = AFM_EVENT
      then Some (ucast (if operation = VERIFY_BACKUP then ROT_EXT_AFM_RC_1 else ROT_EXT_AFM_ACT_1))
      else if evt_img = AFM_EVENT2
      then Some (ucast (if operation = VERIFY_BACKUP then ROT_EXT_AFM_RC_2 else ROT_EXT_AFM_ACT_2))
      else if evt_img = AFM_EVENT3 then Some (ucast ROT_INTERNAL_AFM)
      else None)"

definition authentication_image :: "env \<Rightarrow> event_wrap \<Rightarrow> (world, int) state" where
  "authentication_image E EventData = do {
     upd_manifest (m_state_update (\<lambda>_. FIRMWARE_VERIFY));
     (case requested_image_type E (evt_image EventData) (evt_operation EventData) of
        None \<Rightarrow> ret ()
      | Some t \<Rightarrow> upd_manifest (image_type_update (\<lambda>_. t)));
     if evt_operation EventData = VERIFY_BACKUP then recovery_verify E
     else if evt_operation EventData = VERIFY_ACTIVE then pfr_active_verify E
     else ret Success
   }"

end
