(* ===== verification/Pfr_Recovery.thy ===== *)
theory Pfr_Recovery
  imports Pfr_Capsule
begin

text \<open>
  Recovery of a region from its other copies, \<open>pfr/pfr_recovery.c\<close> and
  \<open>intel_pfr/intel_pfr_recovery.c\<close>, with the AFM partition update of
  \<open>intel_pfr/intel_pfr_update.c\<close> it calls. \<open>recover_image\<close> decides by the status bits of the
  active object which copy is repaired from which.
\<close>

section \<open>Active objects\<close>

text \<open>\<open>AO_DATA *\<close> as a reference; writing through the null pointer is recorded in \<open>oob\<close>.\<close>

fun get_ao :: "ao_ref \<Rightarrow> world \<Rightarrow> ao_data" where
  "get_ao AO_BMC s = bmc_active_object s"
| "get_ao AO_PCH s = pch_active_object s"
| "get_ao AO_AFM s = afm_active_object s"
| "get_ao AO_NULL s = \<lparr>ActiveImageStatus = 0, RecoveryImageStatus = 0, RestrictActiveUpdate = 0, InternalAFMStatus = 0\<rparr>"

fun upd_ao :: "ao_ref \<Rightarrow> (ao_data \<Rightarrow> ao_data) \<Rightarrow> world \<Rightarrow> world" where
  "upd_ao AO_BMC f s = s\<lparr>bmc_active_object := f (bmc_active_object s)\<rparr>"
| "upd_ao AO_PCH f s = s\<lparr>pch_active_object := f (pch_active_object s)\<rparr>"
| "upd_ao AO_AFM f s = s\<lparr>afm_active_object := f (afm_active_object s)\<rparr>"
| "upd_ao AO_NULL f s = s\<lparr>oob := True\<rparr>"

section \<open>AFM partitions\<close>

datatype afm_part = AFM_PART_ACT_1 | AFM_PART_RCV_1

definition update_afm_v40 :: "env \<Rightarrow> afm_part \<Rightarrow> u32 \<Rightarrow> u32 \<Rightarrow> (world, int) state" where
  "update_afm_v40 E part address len = do {
     region_size \<leftarrow> pfr_spi_get_device_size E ROT_EXT_AFM_ACT_1;
     m \<leftarrow> gets manifest;
     if region_size < page_align len then ret Failure
     else do {
       (status, flash_type, source_flash_type, source_address) \<leftarrow>
         (case part of
            AFM_PART_ACT_1 \<Rightarrow> ret (Success, ROT_EXT_AFM_ACT_1,
              (if m_state m = FIRMWARE_RECOVERY then ROT_EXT_AFM_RC_1 else BMC_SPI), address)
          | AFM_PART_RCV_1 \<Rightarrow> do {
              (status, src) \<leftarrow> ufm_read E PROVISION_UFM AFM_STAGING_REGION_OFFSET 4;
              ret (status, ROT_EXT_AFM_RC_1, BMC_SPI, u32_of_bytes src)
            });
       if status \<noteq> Success then ret Failure
       else do {
         status \<leftarrow> pfr_spi_erase_region E flash_type True 0 region_size;
         if status \<noteq> 0 then ret Failure
         else do {
           status \<leftarrow> pfr_spi_region_read_write_between_spi E source_flash_type source_address flash_type 0
             (page_align len);
           if status \<noteq> 0 then ret Failure else ret Success
         }
       }
     }
   }"

definition update_afm :: "env \<Rightarrow> afm_part \<Rightarrow> u32 \<Rightarrow> u32 \<Rightarrow> (world, int) state" where
  "update_afm E part address len = update_afm_v40 E part address len"

section \<open>The staged image against the active one\<close>

text \<open>Device and address of the active manifest, and the address of the staged capsule.\<close>

definition match_addresses :: "env \<Rightarrow> (world, (u8 \<times> u32 \<times> u32) option) state" where
  "match_addresses E = do {
     m \<leftarrow> gets manifest;
     if image_type m = BMC_TYPE \<or> image_type m = PCH_TYPE then do {
       let bmc = (image_type m = BMC_TYPE);
       (status, stg) \<leftarrow> ufm_read E PROVISION_UFM
         (if bmc then BMC_STAGING_REGION_OFFSET else PCH_STAGING_REGION_OFFSET) 4;
       if status \<noteq> 0 then ret None
       else do {
         (status, act_pfm) \<leftarrow> ufm_read E PROVISION_UFM
           (if bmc then BMC_ACTIVE_PFM_OFFSET else PCH_ACTIVE_PFM_OFFSET) 4;
         if status \<noteq> 0 then ret None
         else ret (Some (ucast (image_type m), u32_of_bytes act_pfm, u32_of_bytes stg))
       }
     }
     else if CONFIG_PFR_SPDM_ATTESTATION E \<and> image_type m = AFM_TYPE then do {
       upd_manifest (image_type_update (\<lambda>_. BMC_TYPE));
       (status, stg) \<leftarrow> ufm_read E PROVISION_UFM AFM_STAGING_REGION_OFFSET 4;
       if status \<noteq> 0 then ret None else ret (Some (ROT_EXT_AFM_ACT_1, 0, u32_of_bytes stg))
     }
     else ret None
   }"

text \<open>The place of the content hash in block 0, by the curve of the staged root key.\<close>

definition block0_hash_field :: "u32 \<Rightarrow> (nat \<times> nat) option" where
  "block0_hash_field magic =
     (if magic = PUBLIC_SECP256_TAG \<or> magic = PUBLIC_LMS256_TAG then Some (16, 32)
      else if magic = PUBLIC_SECP384_TAG \<or> magic = PUBLIC_LMS384_TAG then Some (48, 48)
      else None)"

definition does_staged_fw_image_match_active_fw_image :: "env \<Rightarrow> (world, int) state" where
  "does_staged_fw_image_match_active_fw_image E = do {
     backup \<leftarrow> gets manifest;
     addresses \<leftarrow> match_addresses E;
     case addresses of
       None \<Rightarrow> ret Failure
     | Some (act_dev, act_pfm_offset, stg_address) \<Rightarrow> do {
         (status, act_block0) \<leftarrow> pfr_spi_read E act_dev act_pfm_offset 128;
         if status \<noteq> Success then ret Failure
         else do {
           m \<leftarrow> gets manifest;
           (status, stg_block0) \<leftarrow> image_read E (stg_address + sig_block_size m) 128;
           if status \<noteq> Success then ret Failure
           else do {
             (status, stg_block1) \<leftarrow> image_read E (stg_address + sig_block_size m + 128) 148;
             if status \<noteq> Success then ret Failure
             else case block0_hash_field (le32 20 stg_block1) of
               None \<Rightarrow> ret Failure
             | Some (off, len) \<Rightarrow>
                 (if field_bytes off len act_block0 \<noteq> field_bytes off len stg_block0 then ret Failure
                  else do {
                    upd_manifest (image_type_update (\<lambda>_. image_type backup));
                    ret Success
                  })
           }
         }
       }
   }"

section \<open>The recovery region\<close>

definition pfr_recover_recovery_region :: "env \<Rightarrow> u32 \<Rightarrow> u32 \<Rightarrow> u32 \<Rightarrow> (world, int) state" where
  "pfr_recover_recovery_region E img_type source_address target_address = do {
     let region = (if img_type = BMC_TYPE then Some (CONFIG_BMC_STAGING_SIZE E, BMC_SPI, BMC_SPI)
                   else if img_type = PCH_TYPE then Some (CONFIG_PCH_STAGING_SIZE E, PCH_SPI, PCH_SPI)
                   else if CONFIG_PFR_SPDM_ATTESTATION E \<and> img_type = AFM_TYPE
                   then Some (AFM_RCV1_PARTITION_SIZE E, BMC_SPI, ROT_EXT_AFM_RC_1)
                   else None);
     case region of
       None \<Rightarrow> ret Failure
     | Some (area_size, src_type, dst_type) \<Rightarrow> do {
         sector_sz \<leftarrow> pfr_spi_get_block_size E dst_type;
         status \<leftarrow> pfr_spi_erase_region E dst_type (sector_sz = uint BLOCK_SIZE) target_address area_size;
         if status \<noteq> 0 then ret Failure
         else do {
           status \<leftarrow> pfr_spi_region_read_write_between_spi E src_type source_address dst_type target_address
             area_size;
           if status \<noteq> 0 then ret Failure else ret Success
         }
       }
   }"

section \<open>The active region\<close>

definition recover_active_afm :: "env \<Rightarrow> (world, int) state" where
  "recover_active_afm E = do {
     upd_manifest (\<lambda>m. m\<lparr>m_address := 0, image_type := ucast ROT_EXT_AFM_RC_1\<rparr>);
     (status, block0) \<leftarrow> image_read E 0 128;
     if status \<noteq> 0 then ret Failure
     else do {
       upd_manifest (\<lambda>m. m\<lparr>pc_length := le32 4 block0, m_address := m_address m + sig_block_size m\<rparr>);
       m \<leftarrow> gets manifest;
       status \<leftarrow> update_afm E AFM_PART_ACT_1 (m_address m) (pc_length m);
       if status \<noteq> 0 then ret Failure else ret Success
     }
   }"

definition pfr_recover_active_region :: "env \<Rightarrow> (world, int) state" where
  "pfr_recover_active_region E = do {
     m \<leftarrow> gets manifest;
     if image_type m = BMC_TYPE \<or> image_type m = PCH_TYPE then do {
       let bmc = (image_type m = BMC_TYPE);
       (status, rcv) \<leftarrow> ufm_read E PROVISION_UFM
         (if bmc then BMC_RECOVERY_REGION_OFFSET else PCH_RECOVERY_REGION_OFFSET) 4;
       if status \<noteq> 0 then ret Failure
       else do {
         (status, stg) \<leftarrow> ufm_read E PROVISION_UFM
           (if bmc then BMC_STAGING_REGION_OFFSET else PCH_STAGING_REGION_OFFSET) 4;
         if status \<noteq> 0 then ret Failure
         else do {
           (status, act_pfm) \<leftarrow> ufm_read E PROVISION_UFM
             (if bmc then BMC_ACTIVE_PFM_OFFSET else PCH_ACTIVE_PFM_OFFSET) 4;
           if status \<noteq> 0 then ret Failure
           else do {
             upd_manifest (\<lambda>m. m\<lparr>recovery_address := u32_of_bytes rcv, staging_address := u32_of_bytes stg,
               active_pfm_addr := u32_of_bytes act_pfm, m_address := u32_of_bytes rcv + sig_block_size m\<rparr>);
             m \<leftarrow> gets manifest;
             (status, block0) \<leftarrow> image_read E (m_address m) 128;
             if status \<noteq> 0 then ret Failure
             else do {
               upd_manifest (pc_length_update (\<lambda>_. le32 4 block0));
               status \<leftarrow> decompress_capsule E DECOMPRESSION_STATIC_AND_DYNAMIC_REGIONS_MASK;
               if status \<noteq> 0 then ret Failure else ret Success
             }
           }
         }
       }
     }
     else if CONFIG_PFR_SPDM_ATTESTATION E \<and> image_type m = AFM_TYPE then recover_active_afm E
     else ret Failure
   }"

section \<open>The internal attestation manifest\<close>

definition recover_internal_afm :: "env \<Rightarrow> u8 \<Rightarrow> u32 \<Rightarrow> u32 \<Rightarrow> (world, int) state" where
  "recover_internal_afm E dev pfm_afm_addr internal_afm_addr =
     (if pfm_afm_addr \<noteq> 0 then do {
        status \<leftarrow> pfr_spi_erase_region E ROT_INTERNAL_AFM True internal_afm_addr AFM_BODY_SIZE;
        if status \<noteq> 0 then ret Failure
        else do {
          status \<leftarrow> pfr_spi_region_read_write_between_spi E dev pfm_afm_addr ROT_INTERNAL_AFM
            internal_afm_addr AFM_BODY_SIZE;
          if status \<noteq> 0 then ret Failure else ret Success
        }
      }
      else do {
        status \<leftarrow> erase_afm_body E internal_afm_addr;
        if status \<noteq> 0 then ret Failure else ret Success
      })"

definition pfr_recover_internal_afm :: "env \<Rightarrow> (world, int) state" where
  "pfr_recover_internal_afm E = do {
     m \<leftarrow> gets manifest;
     status \<leftarrow> recover_internal_afm E BMC_SPI (bmc_afm_address m) BMC_AFM_BODY_OFFSET;
     if status \<noteq> 0 then ret Failure
     else do {
       status \<leftarrow> recover_internal_afm E PCH_SPI (cpu0_afm_address m) CPU0_AFM_BODY_OFFSET;
       if status \<noteq> 0 then ret Failure else ret Success
     }
   }"

section \<open>The PCH capsule in the BMC staging area\<close>

definition firmware_image_verify :: "env \<Rightarrow> (world, int) state" where
  "firmware_image_verify E = intel_pfr_update_verify E"

definition pfr_staging_pch_staging :: "env \<Rightarrow> (world, int) state" where
  "pfr_staging_pch_staging E = do {
     m0 \<leftarrow> gets manifest;
     (status, src) \<leftarrow> ufm_read E PROVISION_UFM BMC_STAGING_REGION_OFFSET 4;
     if status \<noteq> Success then ret Failure
     else do {
       (status, tgt) \<leftarrow> ufm_read E PROVISION_UFM PCH_STAGING_REGION_OFFSET 4;
       if status \<noteq> Success then ret Failure
       else do {
         let source_address = u32_of_bytes src;
         let target_address = u32_of_bytes tgt;
         upd_manifest (\<lambda>m. m\<lparr>image_type := BMC_TYPE, m_address := source_address\<rparr>);
         (_, pc) \<leftarrow> image_read E (source_address + 8) 4;
         let t = u32_of_bytes pc;
         if t \<noteq> PFR_PCH_UPDATE_CAPSULE \<and> t \<noteq> PFR_PCH_SEAMLESS_UPDATE_CAPSULE then ret Failure
         else do {
           (status, sz) \<leftarrow> image_read E (source_address + 4) 4;
           if status \<noteq> Success then ret Failure
           else if CONFIG_PCH_STAGING_SIZE E < u32_of_bytes sz + PFM_SIG_BLOCK_SIZE then ret Failure
           else do {
             status \<leftarrow> manifest_verify E;
             if status \<noteq> Success then ret Failure
             else do {
               upd_manifest (\<lambda>m. m\<lparr>m_address := target_address, image_type := image_type m0\<rparr>);
               let dev = ucast (image_type m0);
               sector_sz \<leftarrow> pfr_spi_get_block_size E dev;
               status \<leftarrow> pfr_spi_erase_region E dev (sector_sz = uint BLOCK_SIZE) target_address
                 (CONFIG_PCH_STAGING_SIZE E);
               if status \<noteq> 0 then ret Failure
               else do {
                 status \<leftarrow> pfr_spi_region_read_write_between_spi E BMC_SPI source_address PCH_SPI target_address
                   (CONFIG_PCH_STAGING_SIZE E);
                 m \<leftarrow> gets manifest;
                 if status \<noteq> 0 then ret Failure
                 else if m_state m = FIRMWARE_RECOVERY then do {
                   status \<leftarrow> firmware_image_verify E;
                   if status \<noteq> Success then ret Failure else ret Success
                 }
                 else ret Success
               }
             }
           }
         }
       }
     }
   }"

section \<open>Which copy repairs which\<close>

text \<open>
  The first part of \<open>recover_image\<close>: the image and its addresses. Both host images take the
  active manifest address of the PCH.
\<close>

definition recover_image_setup :: "env \<Rightarrow> hrot_event \<Rightarrow> (world, int) state" where
  "recover_image_setup E evt_img = do {
     upd_manifest (m_state_update (\<lambda>_. FIRMWARE_RECOVERY));
     if evt_img = BMC_EVENT \<or> evt_img = PCH_EVENT then do {
       upd_manifest (image_type_update (\<lambda>_. if evt_img = BMC_EVENT then BMC_TYPE else PCH_TYPE));
       (status, act_pfm_addr) \<leftarrow> get_provision_data_in_flash E PCH_ACTIVE_PFM_OFFSET 4;
       if status \<noteq> 0 then ret Failure
       else do {
         upd_manifest (active_pfm_addr_update (\<lambda>_. u32_of_bytes act_pfm_addr));
         ret Success
       }
     }
     else if CONFIG_PFR_SPDM_ATTESTATION E \<and> evt_img = AFM_EVENT then do {
       upd_manifest (image_type_update (\<lambda>_. AFM_TYPE));
       (status, stg_addr) \<leftarrow> get_provision_data_in_flash E AFM_STAGING_REGION_OFFSET 4;
       if status \<noteq> Success then ret Failure
       else do {
         upd_manifest (\<lambda>m. m\<lparr>m_address := u32_of_bytes stg_addr, recovery_address := 0\<rparr>);
         ret Success
       }
     }
     else if CONFIG_PFR_SPDM_ATTESTATION E \<and> evt_img = AFM_EVENT3 then ret Success
     else ret Failure
   }"

text \<open>
  The staging copy, when the recovery copy is bad: \<open>Success\<close> goes on to repair from it, any
  other answer ends \<open>recover_image\<close>.
\<close>

definition staging_usable :: "env \<Rightarrow> ao_ref \<Rightarrow> hrot_event \<Rightarrow> (world, int) state" where
  "staging_usable E ao evt_img = do {
     status \<leftarrow> firmware_image_verify E;
     a \<leftarrow> gets (get_ao ao);
     (if status = Success then ret Success
      else if ActiveImageStatus a \<noteq> 0 then do {
        m \<leftarrow> gets manifest;
        LogErrorCodes E (if image_type m = BMC_TYPE then BMC_AUTH_FAIL else PCH_AUTH_FAIL)
          (if CONFIG_PFR_SPDM_ATTESTATION E \<and> evt_img = AFM_EVENT then AFM_ACTIVE_RECOVERY_STAGING_AUTH_FAIL
           else ACTIVE_RECOVERY_STAGING_AUTH_FAIL);
        if image_type m = PCH_TYPE then do {
          status \<leftarrow> pfr_staging_pch_staging E;
          if status \<noteq> Success then ret Failure else ret Success
        }
        else ret Failure
      }
      else do {
        modify (upd_ao ao (RestrictActiveUpdate_update (\<lambda>_. 1)));
        ret VerifyActive
      })
   }"

definition recover_recovery :: "env \<Rightarrow> ao_ref \<Rightarrow> hrot_event \<Rightarrow> (world, int) state" where
  "recover_recovery E ao evt_img = do {
     usable \<leftarrow> staging_usable E ao evt_img;
     if usable \<noteq> Success then ret usable
     else do {
       a \<leftarrow> gets (get_ao ao);
       matches \<leftarrow> (if ActiveImageStatus a = 0 then does_staged_fw_image_match_active_fw_image E else ret Success);
       if matches \<noteq> Success then do {
         modify (upd_ao ao (RestrictActiveUpdate_update (\<lambda>_. 1)));
         ret VerifyActive
       }
       else do {
         m \<leftarrow> gets manifest;
         status \<leftarrow> pfr_recover_recovery_region E (image_type m) (m_address m) (recovery_address m);
         if status \<noteq> Success then ret Failure
         else do {
           modify (upd_ao ao (RecoveryImageStatus_update (\<lambda>_. 0)));
           ret VerifyRecovery
         }
       }
     }
   }"

definition recover_image :: "env \<Rightarrow> ao_ref \<Rightarrow> event_wrap \<Rightarrow> (world, int) state" where
  "recover_image E ao EventData = do {
     status \<leftarrow> recover_image_setup E (evt_image EventData);
     a \<leftarrow> gets (get_ao ao);
     if status \<noteq> Success then ret Failure
     else if RecoveryImageStatus a \<noteq> 0 then recover_recovery E ao (evt_image EventData)
     else if ActiveImageStatus a \<noteq> 0 then do {
       status \<leftarrow> pfr_recover_active_region E;
       if status \<noteq> Success then ret Failure
       else do {
         modify (upd_ao ao (ActiveImageStatus_update (\<lambda>_. 0)));
         ret VerifyActive
       }
     }
     else if CONFIG_PFR_SPDM_ATTESTATION E \<and> InternalAFMStatus a \<noteq> 0 then do {
       status \<leftarrow> pfr_recover_internal_afm E;
       if status \<noteq> Success then ret Failure
       else do {
         modify (upd_ao ao (InternalAFMStatus_update (\<lambda>_. 0)));
         ret Success
       }
     }
     else ret Success
   }"

end
