(* ===== verification/Pfr_Intent.thy ===== *)
theory Pfr_Intent
  imports Pfr_Watchdog
begin

text \<open>
  Updates at reset, \<open>AspeedStateMachine.c\<close>: an update intent with the at-reset bit is kept in
  the update status of the UFM (\<open>handle_update_at_reset\<close>) and taken up at the next
  verification (\<open>has_pending_update\<close>).
\<close>

section \<open>Changing one region\<close>

definition upd_active :: "region_def \<Rightarrow> (u8 \<Rightarrow> u8) \<Rightarrow> cpld_status \<Rightarrow> cpld_status" where
  "upd_active r f c = c\<lparr>Region := (Region c)(r := (Region c r)\<lparr>ActiveRegion := f (ActiveRegion (Region c r))\<rparr>)\<rparr>"

definition upd_recovery :: "region_def \<Rightarrow> (u8 \<Rightarrow> u8) \<Rightarrow> cpld_status \<Rightarrow> cpld_status" where
  "upd_recovery r f c = c\<lparr>Region := (Region c)(r := (Region c r)\<lparr>Recoveryregion := f (Recoveryregion (Region c r))\<rparr>)\<rparr>"

text \<open>Which region an \<open>uint8_t\<close> index names; \<open>INVALID_REGION_INDEX\<close> names none.\<close>

definition clear_pending_recovery_update :: "region_def option \<Rightarrow> cpld_status \<Rightarrow> cpld_status" where
  "clear_pending_recovery_update region_index c =
     (case region_index of None \<Rightarrow> c | Some r \<Rightarrow> upd_recovery r (\<lambda>_. 0) c)"

section \<open>Storing a request\<close>

definition init_cpld_region_update_status :: "env \<Rightarrow> cpld_status \<Rightarrow> cpld_status" where
  "init_cpld_region_update_status E c =
     c\<lparr>CpldStatus := 0, BmcStatus := 0, PchStatus := 0,
       Region := (\<lambda>r. if r = AFM_REGION \<and> \<not> CONFIG_PFR_SPDM_ATTESTATION E then Region c r
                       else (Region c r)\<lparr>ActiveRegion := 0, Recoveryregion := 0\<rparr>),
       CpldRecovery := 0\<rparr>"

definition cap :: "bool \<Rightarrow> (cpld_status \<Rightarrow> cpld_status) \<Rightarrow> cpld_status \<Rightarrow> cpld_status" where
  "cap b f c = (if b then f c else c)"

definition at_reset_status :: "env \<Rightarrow> u8 \<Rightarrow> u8 \<Rightarrow> cpld_status \<Rightarrow> cpld_status" where
  "at_reset_status E update_intent_type intent c = (
     let c = init_cpld_region_update_status E c;
         c = cap (intent AND PchActiveUpdate \<noteq> 0) (\<lambda>c.
               upd_active PCH_REGION (\<lambda>_. if intent AND DymanicUpdate \<noteq> 0
                 then update_intent_type OR DymanicUpdate else update_intent_type) (c\<lparr>PchStatus := 1\<rparr>)) c;
         c = cap (intent AND PchRecoveryUpdate \<noteq> 0) (\<lambda>c.
               upd_recovery PCH_REGION (\<lambda>_. update_intent_type) (c\<lparr>PchStatus := 1\<rparr>)) c;
         c = cap (intent AND HROTActiveUpdate \<noteq> 0) (\<lambda>c.
               upd_active ROT_REGION (\<lambda>_. BMC_INTENT_UPDATE_AT_RESET) (c\<lparr>CpldStatus := 1, CpldRecovery := 1\<rparr>)) c;
         c = cap (intent AND BmcActiveUpdate \<noteq> 0) (\<lambda>c.
               upd_active BMC_REGION (\<lambda>_. if intent AND DymanicUpdate \<noteq> 0
                 then BMC_INTENT_UPDATE_AT_RESET OR DymanicUpdate else BMC_INTENT_UPDATE_AT_RESET)
                 (c\<lparr>BmcStatus := 1\<rparr>)) c
     in cap (intent AND BmcRecoveryUpdate \<noteq> 0) (\<lambda>c.
          upd_recovery BMC_REGION (\<lambda>_. BMC_INTENT_UPDATE_AT_RESET) (c\<lparr>BmcStatus := 1\<rparr>)) c)"

definition handle_update_at_reset :: "env \<Rightarrow> (world, unit) state" where
  "handle_update_at_reset E = do {
     evt_ctx \<leftarrow> gets event_ctx;
     if bit8_0 evt_ctx = PchUpdateIntent \<and>
        bit8_1 evt_ctx AND PchActiveRecoveryDynamicUpdateAtReset = 0
     then ret ()
     else do {
       let update_intent_type = (if bit8_0 evt_ctx = PchUpdateIntent then PCH_INTENT_UPDATE_AT_RESET
                                 else BMC_INTENT_UPDATE_AT_RESET);
       (_, cpld_update_status) \<leftarrow> read_update_status E;
       write_update_status E (at_reset_status E update_intent_type (bit8_1 evt_ctx) cpld_update_status);
       ret ()
     }
   }"

section \<open>Taking it up\<close>

text \<open>
  The body of \<open>has_pending_update\<close> on the status read: \<open>None\<close> when it returns \<open>false\<close>,
  otherwise the intent source, the intent and the status to write back.
\<close>

definition pending_pch :: "u8 \<times> u8 \<times> cpld_status \<Rightarrow> u8 \<times> u8 \<times> cpld_status" where
  "pending_pch = (\<lambda>(src, intent, c).
     let active = ActiveRegion (Region c PCH_REGION);
         pch_active_type = active AND NOT DymanicUpdate;
         recovery = Recoveryregion (Region c PCH_REGION);
         src = (if pch_active_type = PCH_INTENT_UPDATE_AT_RESET \<or> recovery = PCH_INTENT_UPDATE_AT_RESET
                then PchUpdateIntent else src);
         intent = (if pch_active_type = PCH_INTENT_UPDATE_AT_RESET \<or> pch_active_type = BMC_INTENT_UPDATE_AT_RESET
                   then intent OR PchActiveUpdate else intent);
         intent = (if recovery = PCH_INTENT_UPDATE_AT_RESET \<or> recovery = BMC_INTENT_UPDATE_AT_RESET
                   then intent OR PchRecoveryUpdate else intent);
         intent = (if active AND DymanicUpdate \<noteq> 0 then intent OR DymanicUpdate else intent)
     in (src, intent, upd_active PCH_REGION (\<lambda>_. 0) (c\<lparr>PchStatus := 0\<rparr>)))"

definition pending_rot :: "u8 \<times> u8 \<times> cpld_status \<Rightarrow> u8 \<times> u8 \<times> cpld_status" where
  "pending_rot = (\<lambda>(src, intent, c).
     if CpldStatus c \<noteq> 1 then (src, intent, c)
     else
       let intent = (if ActiveRegion (Region c ROT_REGION) = BMC_INTENT_UPDATE_AT_RESET
                     then intent OR HROTActiveUpdate else intent);
           intent = (if Recoveryregion (Region c ROT_REGION) = BMC_INTENT_UPDATE_AT_RESET
                     then intent OR HROTRecoveryUpdate else intent)
       in (src, intent, upd_recovery ROT_REGION (\<lambda>_. 0) (upd_active ROT_REGION (\<lambda>_. 0) (c\<lparr>CpldStatus := 0\<rparr>))))"

definition pending_bmc :: "u8 \<times> u8 \<times> cpld_status \<Rightarrow> u8 \<times> u8 \<times> cpld_status" where
  "pending_bmc = (\<lambda>(src, intent, c).
     if BmcStatus c \<noteq> 1 then (src, intent, c)
     else
       let active = ActiveRegion (Region c BMC_REGION);
           intent = (if active AND NOT DymanicUpdate = BMC_INTENT_UPDATE_AT_RESET
                     then intent OR BmcActiveUpdate else intent);
           intent = (if Recoveryregion (Region c BMC_REGION) = BMC_INTENT_UPDATE_AT_RESET
                     then intent OR BmcRecoveryUpdate else intent);
           intent = (if active AND DymanicUpdate \<noteq> 0 then intent OR DymanicUpdate else intent)
       in (src, intent, upd_active BMC_REGION (\<lambda>_. 0) (c\<lparr>BmcStatus := 0\<rparr>)))"

definition pending_update :: "u8 \<Rightarrow> cpld_status \<Rightarrow> (u8 \<times> u8 \<times> cpld_status) option" where
  "pending_update reset_policy c =
     (if \<not> (CpldStatus c = 1 \<or> BmcStatus c = 1 \<or> PchStatus c = 1) then None
      else
        let start = (BmcUpdateIntent, 0, c) in
        if PchStatus c = 1 then
          (if reset_policy AND BmcOnlyReset = 0 then Some (pending_bmc (pending_rot (pending_pch start)))
           else if \<not> (CpldStatus c = 1 \<or> BmcStatus c = 1) then None
           else Some (pending_bmc (pending_rot start)))
        else Some (pending_bmc (pending_rot start)))"

definition has_pending_update :: "env \<Rightarrow> u8 \<Rightarrow> (world, (u8 \<times> u8) option) state" where
  "has_pending_update E reset_policy = do {
     (_, cpld_update_status) \<leftarrow> read_update_status E;
     case pending_update reset_policy cpld_update_status of
       None \<Rightarrow> ret None
     | Some (update_intent_src, intent, c) \<Rightarrow> do {
         write_update_status E c;
         ret (Some (update_intent_src, intent))
       }
   }"

lemma intent_dev [dev_lemmas]:
  "state_io_rel dev_only (handle_update_at_reset E)" "state_io_rel dev_only (has_pending_update E p)"
  unfolding handle_update_at_reset_def has_pending_update_def Let_def
  by (intro dev.keeps_intros dev_lemmas)+

section \<open>A stored request is taken up once\<close>

text \<open>The bits of a request that come back: the recovery update of the ROT is not supported.\<close>

definition kept_intent :: "u8 \<Rightarrow> u8" where
  "kept_intent b =
     (if b AND PchActiveUpdate \<noteq> 0 then PchActiveUpdate else 0) OR
     (if b AND PchRecoveryUpdate \<noteq> 0 then PchRecoveryUpdate else 0) OR
     (if b AND HROTActiveUpdate \<noteq> 0 then HROTActiveUpdate else 0) OR
     (if b AND BmcActiveUpdate \<noteq> 0 then BmcActiveUpdate else 0) OR
     (if b AND BmcRecoveryUpdate \<noteq> 0 then BmcRecoveryUpdate else 0) OR
     (if b AND DymanicUpdate \<noteq> 0 \<and> (b AND PchActiveUpdate \<noteq> 0 \<or> b AND BmcActiveUpdate \<noteq> 0)
      then DymanicUpdate else 0)"

definition intent_source :: "u8 \<Rightarrow> u8 \<Rightarrow> u8" where
  "intent_source update_intent_type b =
     (if update_intent_type = PCH_INTENT_UPDATE_AT_RESET \<and> b AND PchActiveAndRecoveryUpdate \<noteq> 0
      then PchUpdateIntent else BmcUpdateIntent)"

lemma pch_bits: "b AND PchActiveAndRecoveryUpdate = (b AND PchActiveUpdate) OR (b AND PchRecoveryUpdate)"
  for b :: u8
proof -
  have "PchActiveAndRecoveryUpdate = PchActiveUpdate OR PchRecoveryUpdate" by simp
  then show ?thesis by (simp only: bit.conj_disj_distrib)
qed

text \<open>The fields of a stored request, from the six bits of the intent.\<close>

lemma at_reset_fields:
  fixes b t :: u8 and c :: cpld_status and E :: env
  defines "r \<equiv> at_reset_status E t b c"
  shows "CpldStatus r = (if b AND HROTActiveUpdate = 0 then 0 else 1)"
    and "BmcStatus r = (if b AND BmcActiveUpdate = 0 \<and> b AND BmcRecoveryUpdate = 0 then 0 else 1)"
    and "PchStatus r = (if b AND PchActiveUpdate = 0 \<and> b AND PchRecoveryUpdate = 0 then 0 else 1)"
    and "ActiveRegion (Region r PCH_REGION) = (if b AND PchActiveUpdate = 0 then 0
      else if b AND DymanicUpdate = 0 then t else t OR DymanicUpdate)"
    and "Recoveryregion (Region r PCH_REGION) = (if b AND PchRecoveryUpdate = 0 then 0 else t)"
    and "ActiveRegion (Region r ROT_REGION) = (if b AND HROTActiveUpdate = 0 then 0 else 1)"
    and "Recoveryregion (Region r ROT_REGION) = 0"
    and "ActiveRegion (Region r BMC_REGION) = (if b AND BmcActiveUpdate = 0 then 0
      else if b AND DymanicUpdate = 0 then 1 else 1 OR DymanicUpdate)"
    and "Recoveryregion (Region r BMC_REGION) = (if b AND BmcRecoveryUpdate = 0 then 0 else 1)"
  by (simp_all add: r_def at_reset_status_def init_cpld_region_update_status_def cap_def
      upd_active_def upd_recovery_def Let_def)

abbreviation flag :: "bool \<Rightarrow> u8 \<Rightarrow> u8" where
  "flag p m \<equiv> (if p then m else 0)"

text \<open>Each stage on a status whose fields hold a request, by the bits of the request.\<close>

lemma pch_stage:
  assumes "t = PCH_INTENT_UPDATE_AT_RESET \<or> t = BMC_INTENT_UPDATE_AT_RESET"
    and "ActiveRegion (Region r PCH_REGION) = (if pa then if dy then t OR DymanicUpdate else t else 0)"
    and "Recoveryregion (Region r PCH_REGION) = (if pr then t else 0)"
  shows "pending_pch (src, i, r) =
    (if t = PCH_INTENT_UPDATE_AT_RESET \<and> (pa \<or> pr) then PchUpdateIntent else src,
     i OR flag pa PchActiveUpdate OR flag pr PchRecoveryUpdate OR flag (pa \<and> dy) DymanicUpdate,
     upd_active PCH_REGION (\<lambda>_. 0) (r\<lparr>PchStatus := 0\<rparr>))"
  using assms
  by (elim disjE; cases pa; cases pr; cases dy) (simp_all add: pending_pch_def Let_def or.assoc)

lemma rot_stage:
  assumes "CpldStatus r = flag ra 1" and "ActiveRegion (Region r ROT_REGION) = flag ra 1"
    and "Recoveryregion (Region r ROT_REGION) = 0"
  shows "\<exists>r'. pending_rot (src, i, r) = (src, i OR flag ra HROTActiveUpdate, r') \<and>
    BmcStatus r' = BmcStatus r \<and> Region r' BMC_REGION = Region r BMC_REGION"
  using assms
  by (cases ra) (auto simp: pending_rot_def Let_def upd_active_def upd_recovery_def)

lemma bmc_stage:
  assumes "BmcStatus r = flag (ba \<or> br) 1"
    and "ActiveRegion (Region r BMC_REGION) = (if ba then if dy then 1 OR DymanicUpdate else 1 else 0)"
    and "Recoveryregion (Region r BMC_REGION) = flag br 1"
  shows "\<exists>r'. pending_bmc (src, i, r) =
    (src, i OR flag ba BmcActiveUpdate OR flag br BmcRecoveryUpdate OR flag (ba \<and> dy) DymanicUpdate, r')"
  using assms
  by (cases ba; cases br; cases dy) (simp_all add: pending_bmc_def Let_def or.assoc)

lemma intent_bits:
  "0 OR flag pa 1 OR flag pr 2 OR flag (pa \<and> dy) 0x40 OR flag ra 4 OR
     flag ba 8 OR flag br 0x10 OR flag (ba \<and> dy) 0x40 =
   flag pa 1 OR flag pr 2 OR flag ra 4 OR flag ba 8 OR flag br 0x10 OR flag (dy \<and> (pa \<or> ba)) 0x40"
  "((flag pa 1 OR flag pr 2 OR flag ra 4 OR flag ba 8 OR flag br 0x10 OR flag (dy \<and> (pa \<or> ba)) 0x40) AND 0x3f = 0)
    = (\<not> (pa \<or> pr \<or> ra \<or> ba \<or> br))"
  by (cases pa; cases pr; cases ra; cases ba; cases br; cases dy; simp)+

lemma pending_at_reset:
  assumes "t = PCH_INTENT_UPDATE_AT_RESET \<or> t = BMC_INTENT_UPDATE_AT_RESET"
  shows "map_option (\<lambda>(src, i, _). (src, i)) (pending_update 0 (at_reset_status E t b c)) =
    (if kept_intent b AND PchBmcHROTActiveAndRecoveryUpdate = 0 then None
     else Some (intent_source t b, kept_intent b))"
proof -
  define r where "r = at_reset_status E t b c"
  note fields = at_reset_fields [of E t b c, folded r_def]
  define pa pr ra ba br dy where bits: "pa = (b AND PchActiveUpdate \<noteq> 0)" "pr = (b AND PchRecoveryUpdate \<noteq> 0)"
    "ra = (b AND HROTActiveUpdate \<noteq> 0)" "ba = (b AND BmcActiveUpdate \<noteq> 0)"
    "br = (b AND BmcRecoveryUpdate \<noteq> 0)" "dy = (b AND DymanicUpdate \<noteq> 0)"
  have kept: "kept_intent b = flag pa 1 OR flag pr 2 OR flag ra 4 OR flag ba 8 OR flag br 0x10 OR
      flag (dy \<and> (pa \<or> ba)) 0x40"
    by (simp add: kept_intent_def bits or.assoc)
  have st: "CpldStatus r = flag ra 1" "BmcStatus r = flag (ba \<or> br) 1" "PchStatus r = flag (pa \<or> pr) 1"
    "ActiveRegion (Region r ROT_REGION) = flag ra 1" "Recoveryregion (Region r ROT_REGION) = 0"
    "ActiveRegion (Region r BMC_REGION) = (if ba then if dy then 1 OR DymanicUpdate else 1 else 0)"
    "Recoveryregion (Region r BMC_REGION) = flag br 1"
    using fields(1-3,6-9) by (simp_all add: bits)
  have pch: "pending_pch (BmcUpdateIntent, 0, r) = (intent_source t b,
      0 OR flag pa 1 OR flag pr 2 OR flag (pa \<and> dy) 0x40, upd_active PCH_REGION (\<lambda>_. 0) (r\<lparr>PchStatus := 0\<rparr>))"
    using pch_stage [OF assms, of r pa dy pr BmcUpdateIntent 0] fields(4,5)
    by (simp add: bits intent_source_def pch_bits or_eq_0_iff)
  define s where "s = (if PchStatus r = 1 then pending_pch (BmcUpdateIntent, 0, r) else (BmcUpdateIntent, 0, r))"
  obtain r1 where s: "s = (intent_source t b, 0 OR flag pa 1 OR flag pr 2 OR flag (pa \<and> dy) 0x40, r1)"
    and r1: "CpldStatus r1 = CpldStatus r" "BmcStatus r1 = BmcStatus r"
      "Region r1 ROT_REGION = Region r ROT_REGION" "Region r1 BMC_REGION = Region r BMC_REGION"
    using pch st(3)
    by (cases "pa \<or> pr") (auto simp: s_def upd_active_def intent_source_def pch_bits or_eq_0_iff bits)
  obtain r2 where rot: "pending_rot s = (intent_source t b,
      (0 OR flag pa 1 OR flag pr 2 OR flag (pa \<and> dy) 0x40) OR flag ra 4, r2)"
    and r2: "BmcStatus r2 = BmcStatus r" "Region r2 BMC_REGION = Region r BMC_REGION"
    using rot_stage [of r1 ra "intent_source t b" "0 OR flag pa 1 OR flag pr 2 OR flag (pa \<and> dy) 0x40"]
      st(1,4,5) r1 unfolding s by fastforce
  have f2: "BmcStatus r2 = flag (ba \<or> br) 1"
    "ActiveRegion (Region r2 BMC_REGION) = (if ba then if dy then 1 OR DymanicUpdate else 1 else 0)"
    "Recoveryregion (Region r2 BMC_REGION) = flag br 1"
    unfolding r2 by (rule st)+
  obtain r3 where "pending_bmc (pending_rot s) = (intent_source t b,
      ((0 OR flag pa 1 OR flag pr 2 OR flag (pa \<and> dy) 0x40) OR flag ra 4) OR flag ba 8 OR flag br 0x10 OR
        flag (ba \<and> dy) 0x40, r3)"
    using bmc_stage [OF f2] unfolding rot by blast
  then have bmc: "pending_bmc (pending_rot s) = (intent_source t b, kept_intent b, r3)"
    unfolding kept intent_bits(1) [of pa pr dy ra ba br, symmetric] by (simp only: or.assoc)
  have "pending_update 0 r = (if \<not> (pa \<or> pr \<or> ra \<or> ba \<or> br) then None else Some (pending_bmc (pending_rot s)))"
    using st by (auto simp: pending_update_def s_def Let_def)
  then show ?thesis
    using bmc intent_bits(2) [of pa pr ra ba br dy] by (simp add: kept r_def [symmetric])
qed

lemma stage_statuses:
  "PchStatus (snd (snd (pending_pch x))) = 0" "CpldStatus (snd (snd (pending_pch x))) = CpldStatus (snd (snd x))"
  "BmcStatus (snd (snd (pending_pch x))) = BmcStatus (snd (snd x))"
  "CpldStatus (snd (snd (pending_rot x))) \<noteq> 1" "BmcStatus (snd (snd (pending_rot x))) = BmcStatus (snd (snd x))"
  "PchStatus (snd (snd (pending_rot x))) = PchStatus (snd (snd x))"
  "BmcStatus (snd (snd (pending_bmc x))) \<noteq> 1" "CpldStatus (snd (snd (pending_bmc x))) = CpldStatus (snd (snd x))"
  "PchStatus (snd (snd (pending_bmc x))) = PchStatus (snd (snd x))"
  by (simp_all add: pending_pch_def pending_rot_def pending_bmc_def case_prod_beta Let_def
      upd_active_def upd_recovery_def)

lemma pending_consumed:
  assumes "pending_update p c = Some x"
  shows "pending_update p (snd (snd x)) = None"
proof -
  define y where "y = (if PchStatus c = 1 \<and> p AND BmcOnlyReset = 0 then pending_pch (BmcUpdateIntent, 0, c)
    else (BmcUpdateIntent, 0, c))"
  have x: "x = pending_bmc (pending_rot y)" and pch: "PchStatus (snd (snd y)) = 1 \<Longrightarrow> p AND BmcOnlyReset \<noteq> 0"
    using assms by (auto simp: pending_update_def y_def Let_def stage_statuses split: if_splits)
  have "CpldStatus (snd (snd x)) \<noteq> 1" "BmcStatus (snd (snd x)) \<noteq> 1"
    "PchStatus (snd (snd x)) = PchStatus (snd (snd y))"
    by (simp_all add: x stage_statuses)
  with pch show ?thesis by (auto simp: pending_update_def Let_def)
qed

lemma run_write_update_status:
  assumes "nor_flash E m0 rsize"
  shows "run (write_update_status E c) s = (Success, exec (write_update_status E c) s)"
  using status_ufm.wr_result [OF assms, of UPDATE_STATUS_ADDRESS "cpld_status_bytes c" s]
  by (simp add: write_update_status_def prod_eq_iff)

lemma has_pending_update_result:
  assumes "nor_flash E m0 rsize" and "result (read_update_status E) s = (Success, c)"
  shows "result (has_pending_update E p) s = map_option (\<lambda>(src, i, _). (src, i)) (pending_update p c)"
    and "pending_update p c = Some x \<Longrightarrow>
      result (read_update_status E) (exec (has_pending_update E p) s) = (Success, snd (snd x))"
  using assms(2) read_written_update_status [OF assms(1)]
  by (auto simp: has_pending_update_def case_prod_beta split: option.split)



end
