(* ===== verification/Pfr_Gpio.thy ===== *)
theory Pfr_Gpio
  imports Pfr_Devices
begin

text \<open>
  The pins and switches that hold and release the hosts: \<open>lib/hrot_hal/gpio/gpio_aspeed.c\<close> with the
  platform \<open>gpio_egs.c\<close>, and \<open>spi_filter/spim_util.c\<close>. A pin is named after its device-tree property;
  level 0 (\<open>False\<close>) is reset.
\<close>

abbreviation "BMC_SPI_MONITOR \<equiv> ''spim@1''"
abbreviation "BMC_SPI_MONITOR_2 \<equiv> ''spim@2''"
abbreviation "PCH_SPI_MONITOR \<equiv> ''spim@3''"
abbreviation "PCH_SPI_MONITOR_2 \<equiv> ''spim@4''"

abbreviation "bmc_srst_gpio \<equiv> ''bmc_srst_ctrl_out''"
abbreviation "bmc_extrst_gpio \<equiv> ''bmc_extrst_ctrl_out''"
abbreviation "pch_rst_gpio \<equiv> ''pch_rst_ctrl_out''"

section \<open>Reset pins\<close>

text \<open>The shared body of the three functions below: level, direction, and 10 ms of settling.\<close>

definition drive_reset :: "env \<Rightarrow> string \<Rightarrow> bool \<Rightarrow> (world, unit) state" where
  "drive_reset E pin enable = do {
     act E (Board (PinSet pin (\<not> enable)));
     (status, _) \<leftarrow> ext E (Board (PinConfigure pin));
     if status \<noteq> 0 then ret () else act E (Kern (KBusyWait 10000))
   }"

definition bmc_srst_enable_ctrl :: "env \<Rightarrow> bool \<Rightarrow> (world, unit) state" where
  "bmc_srst_enable_ctrl E enable = drive_reset E bmc_srst_gpio enable"

definition bmc_extrst_enable_ctrl :: "env \<Rightarrow> bool \<Rightarrow> (world, unit) state" where
  "bmc_extrst_enable_ctrl E enable = drive_reset E bmc_extrst_gpio enable"

definition pch_rst_enable_ctrl :: "env \<Rightarrow> bool \<Rightarrow> (world, unit) state" where
  "pch_rst_enable_ctrl E enable = drive_reset E pch_rst_gpio enable"

definition EgsPchHold :: "env \<Rightarrow> (world, unit) state" where
  "EgsPchHold E = pch_rst_enable_ctrl E True"

definition EgsPchRelease :: "env \<Rightarrow> (world, unit) state" where
  "EgsPchRelease E = pch_rst_enable_ctrl E False"

section \<open>Flash multiplexers\<close>

text \<open>\<open>device_get_binding\<close> and \<open>spim_ext_mux_config\<close>, to the ROT or back to the host.\<close>

definition switch_mux :: "env \<Rightarrow> string \<Rightarrow> bool \<Rightarrow> (world, unit) state" where
  "switch_mux E monitor to_rot = do {
     act E (Filter (DeviceGetBinding monitor));
     act E (Filter (SpimExtMux monitor to_rot))
   }"

definition reset_flash :: "env \<Rightarrow> string \<Rightarrow> (world, unit) state" where
  "reset_flash E flash = do {
     (flash_dev, _) \<leftarrow> ext E (Filter (DeviceGetBinding flash));
     cwhen (flash_dev \<noteq> 0) (act E (Filter (SpiNorReset flash)))
   }"

text \<open>One flash of a host taken by the ROT, and given back.\<close>

definition take_flash :: "env \<Rightarrow> string \<Rightarrow> string \<Rightarrow> (world, unit) state" where
  "take_flash E monitor flash = do {
     switch_mux E monitor True;
     reset_flash E flash
   }"

definition give_flash :: "env \<Rightarrow> string \<Rightarrow> string \<Rightarrow> (world, unit) state" where
  "give_flash E monitor flash = do {
     reset_flash E flash;
     act E (Filter (DeviceGetBinding monitor));
     act E (Filter (SpimSwReset monitor));
     act E (Filter (SpimExtMux monitor False))
   }"

section \<open>Holding and releasing a host\<close>

definition BMCBootHold :: "env \<Rightarrow> (world, unit) state" where
  "BMCBootHold E = do {
     bmc_extrst_enable_ctrl E True;
     first \<leftarrow> gets first_time_boot;
     cwhen first (bmc_srst_enable_ctrl E True);
     take_flash E BMC_SPI_MONITOR ''spi1@0'';
     cwhen (CONFIG_BMC_DUAL_FLASH E) (take_flash E BMC_SPI_MONITOR_2 ''spi1@1'')
   }"

definition PCHBootHold :: "env \<Rightarrow> (world, unit) state" where
  "PCHBootHold E = do {
     EgsPchHold E;
     take_flash E PCH_SPI_MONITOR ''spi2@0'';
     cwhen (CONFIG_CPU_DUAL_FLASH E) (take_flash E PCH_SPI_MONITOR_2 ''spi2@1'')
   }"

definition BMCBootRelease :: "env \<Rightarrow> (world, unit) state" where
  "BMCBootRelease E = do {
     give_flash E BMC_SPI_MONITOR ''spi1@0'';
     cwhen (CONFIG_BMC_DUAL_FLASH E) (give_flash E BMC_SPI_MONITOR_2 ''spi1@1'');
     first \<leftarrow> gets first_time_boot;
     cwhen first (do {
       bmc_srst_enable_ctrl E False;
       modify (first_time_boot_update (\<lambda>_. False))
     });
     bmc_extrst_enable_ctrl E False
   }"

definition PCHBootRelease :: "env \<Rightarrow> (world, unit) state" where
  "PCHBootRelease E = do {
     give_flash E PCH_SPI_MONITOR ''spi2@0'';
     cwhen (CONFIG_CPU_DUAL_FLASH E) (give_flash E PCH_SPI_MONITOR_2 ''spi2@1'');
     EgsPchRelease E
   }"

section \<open>SPI monitors\<close>

definition SPI_Monitor_Enable :: "env \<Rightarrow> string \<Rightarrow> bool \<Rightarrow> (world, unit) state" where
  "SPI_Monitor_Enable E dev_name enabled = do {
     (dev_m, _) \<leftarrow> ext E (Filter (DeviceGetBinding dev_name));
     if dev_m = 0 then ret () else act E (Filter (SpimMonitorEnable dev_name enabled))
   }"

definition Set_SPI_Filter_RW_Region ::
    "env \<Rightarrow> string \<Rightarrow> addr_priv_rw_select \<Rightarrow> addr_priv_op \<Rightarrow> u32 \<Rightarrow> u32 \<Rightarrow> (world, int) state" where
  "Set_SPI_Filter_RW_Region E dev_name rw_select op addr len = do {
     (dev_m, _) \<leftarrow> ext E (Filter (DeviceGetBinding dev_name));
     if dev_m = 0 then ret (-1)
     else do {
       (status, _) \<leftarrow> ext E (Filter (SpimAddressPrivilege dev_name rw_select op addr len));
       ret status
     }
   }"

end
