(* ===== verification/Pfr_Update.thy ===== *)
theory Pfr_Update
  imports Pfr_Recovery Pfr_Intent Pfr_Gpio
begin

text \<open>
  Applying an update capsule, \<open>intel_pfr/intel_pfr_update.c\<close>: decommissioning, key cancellation
  and firmware of the ROT itself (\<open>ast1060_update\<close>), attestation manifests
  (\<open>update_afm_image\<close>), the host images (\<open>update_firmware_image\<close>) and seamless updates
  (\<open>perform_seamless_update\<close>). The update status the callers pass by pointer is handed
  through and answered with the result.
\<close>

section \<open>The ROT\<close>

text \<open>The decommission capsule's content is read into a buffer of 128 bytes.\<close>

definition pfr_decommission :: "env \<Rightarrow> (world, int) state" where
  "pfr_decommission E = do {
     m \<leftarrow> gets manifest;
     cwhen (128 < pc_length m) (modify (oob_update (\<lambda>_. True)));
     (status, bs) \<leftarrow> image_read E (m_address m) (pc_length m);
     if status \<noteq> Success then ret Failure
     else if \<not> list_all (\<lambda>b. b = 0) (fit 128 bs) then ret Failure
     else do {
       status \<leftarrow> erase_provision_flash E;
       if status \<noteq> 0 then ret Failure
       else do {
         status \<leftarrow> write_update_status E (clear_status\<lparr>DecommissionFlag := 1\<rparr>);
         if status \<noteq> Success then ret Failure else ret Success
       }
     }
   }"

definition update_rot_fw :: "env \<Rightarrow> u32 \<Rightarrow> u32 \<Rightarrow> u32 \<Rightarrow> (world, int) state" where
  "update_rot_fw E address len flash_select =
     (if flash_select \<noteq> PRIMARY_FLASH_REGION \<and> flash_select \<noteq> SECONDARY_FLASH_REGION then ret Failure
      else do {
        let region_type = (if flash_select = PRIMARY_FLASH_REGION then ROT_INTERNAL_ACTIVE else ROT_INTERNAL_RECOVERY);
        region_size \<leftarrow> pfr_spi_get_device_size E region_type;
        if region_size < page_align len then ret Failure
        else do {
          status \<leftarrow> pfr_spi_erase_region E region_type True 0 region_size;
          if status \<noteq> 0 then ret Failure
          else do {
            status \<leftarrow> pfr_spi_region_read_write_between_spi E BMC_SPI address region_type 0 (page_align len);
            if status \<noteq> 0 then ret Failure else ret Success
          }
        }
      })"

definition update_rot_capsule :: "env \<Rightarrow> u32 \<Rightarrow> u32 \<Rightarrow> (world, int) state" where
  "update_rot_capsule E flash_select payload_address = do {
     (status, svn_bytes) \<leftarrow> image_read E payload_address 4;
     if status \<noteq> Success then ret Failure
     else do {
       let hrot_svn = u32_of_bytes svn_bytes;
       status \<leftarrow> svn_policy_verify E SVN_POLICY_FOR_CPLD_UPDATE hrot_svn;
       if status \<noteq> Success then do {
         LogUpdateFailure E UPD_CAPSULE_INVALID_SVN 1;
         ret Failure
       }
       else do {
         m \<leftarrow> gets manifest;
         status \<leftarrow> update_rot_fw E (payload_address + 4) (pc_length m - 4) flash_select;
         if status \<noteq> Success then ret Failure
         else do {
           (if flash_select = SECONDARY_FLASH_REGION
            then do { set_ufm_svn E SVN_POLICY_FOR_CPLD_UPDATE (ucast hrot_svn); ret () } else ret ());
           MBX_REG_SETTER E CpldRotSvn (ucast hrot_svn);
           ret Success
         }
       }
     }
   }"

definition ast1060_update :: "env \<Rightarrow> u32 \<Rightarrow> u32 \<Rightarrow> (world, int) state" where
  "ast1060_update E flash_select pc_type_status = do {
     status \<leftarrow> manifest_verify E;
     if status \<noteq> Success then do {
       LogUpdateFailure E UPD_CAPSULE_AUTH_FAIL 1;
       ret Failure
     }
     else do {
       m \<leftarrow> gets manifest;
       let payload_address = m_address m + sig_block_size m;
       if pc_type_status = PFR_CPLD_UPDATE_CAPSULE_DECOMMISSON then do {
         upd_manifest (m_address_update (\<lambda>_. payload_address));
         pfr_decommission E
       }
       else if pc_type_status = KEY_CANCELLATION_CAPSULE then do {
         (status, cancelled_id) \<leftarrow> image_read E payload_address 4;
         if status \<noteq> Success then ret Failure
         else cancel_csk_key_id E (ucast (u32_of_bytes cancelled_id))
       }
       else if pc_type_status = PFR_CPLD_UPDATE_CAPSULE then update_rot_capsule E flash_select payload_address
       else ret Success
     }
   }"

section \<open>Attestation manifests\<close>

text \<open>The rollback policy of the AFM is written on a recovery update but asked nowhere.\<close>

definition update_afm_image :: "env \<Rightarrow> u32 \<Rightarrow> ao_ref \<Rightarrow> (world, int) state" where
  "update_afm_image E flash_select ao = do {
     upd_manifest (image_type_update (\<lambda>_. AFM_TYPE));
     status \<leftarrow> firmware_image_verify E;
     if status \<noteq> Success then do {
       LogUpdateFailure E UPD_CAPSULE_AUTH_FAIL 1;
       ret Failure
     }
     else do {
       upd_manifest (image_type_update (\<lambda>_. BMC_TYPE));
       m \<leftarrow> gets manifest;
       let payload_address = m_address m + sig_block_size m;
       (status, svn_byte) \<leftarrow> image_read E (payload_address + sig_block_size m + 4) 1;
       a \<leftarrow> gets (get_ao ao);
       if status \<noteq> Success then ret Failure
       else if flash_select = PRIMARY_FLASH_REGION then
         (if RestrictActiveUpdate a = 1 then do {
            LogUpdateFailure E UPD_NOT_ALLOWED 0;
            ret Failure
          }
          else do {
            status \<leftarrow> update_afm E AFM_PART_ACT_1 payload_address (pc_length m);
            if status \<noteq> Success then ret Failure
            else do {
              modify (\<lambda>s. s\<lparr>AfmStatus := AfmStatus s AND NOT AFM_ACTIVE_PENDING_UPDATE\<rparr>);
              ret Success
            }
          })
       else if flash_select = SECONDARY_FLASH_REGION then do {
         matches \<leftarrow> (if RestrictActiveUpdate a = 1 then do {
             upd_manifest (image_type_update (\<lambda>_. AFM_TYPE));
             does_staged_fw_image_match_active_fw_image E
           }
           else ret Success);
         if matches \<noteq> Success then do {
           LogUpdateFailure E UPD_NOT_ALLOWED 0;
           ret Failure
         }
         else do {
           status \<leftarrow> update_afm E AFM_PART_RCV_1 payload_address (pc_length m);
           if status \<noteq> Success then ret Failure
           else do {
             modify (\<lambda>s. s\<lparr>AfmStatus := AfmStatus s AND NOT AFM_RECOVERY_PENDING_UPDATE\<rparr>);
             set_ufm_svn E SVN_POLICY_FOR_AFM (svn_byte ! 0);
             ret Success
           }
         }
       }
       else ret Success
     }
   }"

section \<open>The host images\<close>

text \<open>
  Where the capsule lies: the update type, the address of the capsule and that of the active
  manifest; \<open>None\<close> when a read of the provisioned addresses fails. The capsules of the ROT, of
  the attestation manifest and, on request, of the PCH lie on the flash of the BMC.
\<close>

definition update_source :: "env \<Rightarrow> u32 \<Rightarrow> cpld_status \<Rightarrow> (world, (u32 \<times> u32 \<times> u32) option) state" where
  "update_source E img_type c =
     (if img_type = ROT_TYPE then do {
        upd_manifest (image_type_update (\<lambda>_. BMC_TYPE));
        ret (Some (ROT_TYPE, CONFIG_BMC_PFR_STAGING_OFFSET E, 0))
      }
      else if img_type = BMC_TYPE \<or> img_type = PCH_TYPE then do {
        let from_bmc = (img_type = BMC_TYPE \<or> BmcToPchStatus c = 1);
        cwhen from_bmc (upd_manifest (image_type_update (\<lambda>_. BMC_TYPE)));
        (status, src) \<leftarrow> ufm_read E PROVISION_UFM
          (if from_bmc then BMC_STAGING_REGION_OFFSET else PCH_STAGING_REGION_OFFSET) 4;
        if status \<noteq> 0 then ret None
        else do {
          (status, act_pfm) \<leftarrow> ufm_read E PROVISION_UFM
            (if img_type = BMC_TYPE then BMC_ACTIVE_PFM_OFFSET else PCH_ACTIVE_PFM_OFFSET) 4;
          if status \<noteq> 0 then ret None
          else ret (Some (img_type, u32_of_bytes src, u32_of_bytes act_pfm))
        }
      }
      else if CONFIG_PFR_SPDM_ATTESTATION E \<and> img_type = AFM_TYPE then do {
        upd_manifest (image_type_update (\<lambda>_. BMC_TYPE));
        (status, src) \<leftarrow> ufm_read E PROVISION_UFM AFM_STAGING_REGION_OFFSET 4;
        if status \<noteq> Success then ret None
        else ret (Some (AFM_TYPE, u32_of_bytes src, 0))
      }
      else ret None)"

text \<open>
  A key cancellation certificate is accepted whatever the intent asked for; the recovery update
  that the same intent has left pending is dropped.
\<close>

definition drop_pending_recovery :: "pfr_manifest \<Rightarrow> cpld_status \<Rightarrow> cpld_status" where
  "drop_pending_recovery m c =
     (if update_intent1 m AND PchRecoveryUpdate \<noteq> 0
      then upd_recovery PCH_REGION (\<lambda>_. 0) (if BmcToPchStatus c = 1 then c\<lparr>BmcToPchStatus := 0\<rparr> else c)
      else if update_intent1 m AND BmcRecoveryUpdate \<noteq> 0 then upd_recovery BMC_REGION (\<lambda>_. 0) c
      else if update_intent2 m AND AfmRecoveryUpdate \<noteq> 0 then upd_recovery AFM_REGION (\<lambda>_. 0) c
      else c)"

definition upd_event_ctx :: "(event_context \<Rightarrow> event_context) \<Rightarrow> (world, unit) state" where
  "upd_event_ctx f = modify (\<lambda>s. s\<lparr>event_ctx := f (event_ctx s)\<rparr>)"

definition hold_cancelled_pch :: "env \<Rightarrow> (world, unit) state" where
  "hold_cancelled_pch E = do {
     m \<leftarrow> gets manifest;
     cwhen (pc_type m = PCH_PFM_CANCELLATION) (do {
       PCHBootHold E;
       upd_event_ctx (\<lambda>c. if bit8_2 c = BmcOnlyReset then c\<lparr>bit8_2 := bit8_2 c AND NOT BmcOnlyReset\<rparr> else c)
     })
   }"

definition clear_handled :: "region_def \<Rightarrow> cpld_status \<Rightarrow> cpld_status" where
  "clear_handled r c =
     (if Recoveryregion (Region c r) = RECOVERY_PENDING_REQUEST_HANDLED then upd_recovery r (\<lambda>_. 0) c else c)"

text \<open>Copying the PCH capsule of the BMC's staging area to that of the PCH, unless done before.\<close>

definition copy_pch_capsule :: "env \<Rightarrow> u32 \<Rightarrow> u32 \<Rightarrow> cpld_status \<Rightarrow> (world, int \<times> u32 \<times> cpld_status) state" where
  "copy_pch_capsule E update_type source_address c =
     (if \<not> (update_type = PCH_TYPE \<and> BmcToPchStatus c = 1) then ret (Success, source_address, c)
      else do {
        let c = c\<lparr>BmcToPchStatus := 0\<rparr>;
        (status, src) \<leftarrow> ufm_read E PROVISION_UFM PCH_STAGING_REGION_OFFSET 4;
        if status \<noteq> 0 then ret (Failure, source_address, c)
        else do {
          upd_manifest (\<lambda>m. m\<lparr>image_type := update_type, m_address := u32_of_bytes src\<rparr>);
          if Recoveryregion (Region c PCH_REGION) = RECOVERY_PENDING_REQUEST_HANDLED
          then ret (Success, u32_of_bytes src, c)
          else do {
            status \<leftarrow> pfr_staging_pch_staging E;
            if status \<noteq> Success then do {
              LogUpdateFailure E UPD_CAPSULE_AUTH_FAIL 1;
              ret (Failure, u32_of_bytes src, c)
            }
            else ret (Success, u32_of_bytes src, c)
          }
        }
      })"

text \<open>The checks of both updates: the capsule is authentic and its security version allowed.\<close>

definition check_staged_capsule :: "env \<Rightarrow> u32 \<Rightarrow> (world, int \<times> u8) state" where
  "check_staged_capsule E flash_select = do {
     status \<leftarrow> firmware_image_verify E;
     if status \<noteq> Success then do {
       LogUpdateFailure E (if flash_select = PRIMARY_FLASH_REGION then UPD_CAPSULE_AUTH_FAIL
                           else UPD_CAPSULE_TO_RECOVERY_AUTH_FAIL) 1;
       ret (Failure, 0)
     }
     else do {
       (status, staging_svn) \<leftarrow> read_statging_area_pfm_svn E;
       if status \<noteq> Success then do {
         LogUpdateFailure E UPD_CAPSULE_INVALID_SVN 1;
         ret (Failure, staging_svn)
       }
       else do {
         m \<leftarrow> gets manifest;
         status \<leftarrow> svn_policy_verify E (if image_type m = BMC_TYPE then SVN_POLICY_FOR_BMC_FW_UPDATE
                                        else SVN_POLICY_FOR_PCH_FW_UPDATE) (ucast staging_svn);
         if status \<noteq> Success then do {
           LogUpdateFailure E UPD_CAPSULE_INVALID_SVN 1;
           ret (Failure, staging_svn)
         }
         else ret (Success, staging_svn)
       }
     }
   }"

definition update_active_region :: "env \<Rightarrow> ao_ref \<Rightarrow> u8 \<Rightarrow> (world, int) state" where
  "update_active_region E ao decomp_event = do {
     a \<leftarrow> gets (get_ao ao);
     if RestrictActiveUpdate a = 1 then do {
       LogUpdateFailure E UPD_NOT_ALLOWED 0;
       ret Failure
     }
     else do {
       m \<leftarrow> gets manifest;
       if image_type m = BMC_TYPE \<or> image_type m = PCH_TYPE then do {
         status \<leftarrow> decompress_capsule E decomp_event;
         if status \<noteq> 0 then do {
           LogUpdateFailure E UPD_CAPSULE_AUTH_FAIL 1;
           ret Failure
         }
         else ret Success
       }
       else ret Failure
     }
   }"

definition update_recovery_region :: "env \<Rightarrow> u32 \<Rightarrow> u32 \<Rightarrow> u32 \<Rightarrow> (world, int) state" where
  "update_recovery_region E img_type source_address target_address =
     pfr_recover_recovery_region E img_type source_address target_address"

definition update_recovery :: "env \<Rightarrow> ao_ref \<Rightarrow> u32 \<Rightarrow> u8 \<Rightarrow> cpld_status \<Rightarrow> (world, int \<times> cpld_status) state" where
  "update_recovery E ao source_address staging_svn c = do {
     m \<leftarrow> gets manifest;
     if image_type m \<noteq> BMC_TYPE \<and> image_type m \<noteq> PCH_TYPE then ret (Failure, c)
     else do {
       let bmc = (image_type m = BMC_TYPE);
       (status, tgt) \<leftarrow> ufm_read E PROVISION_UFM
         (if bmc then BMC_RECOVERY_REGION_OFFSET else PCH_RECOVERY_REGION_OFFSET) 4;
       let c = upd_recovery (if bmc then BMC_REGION else PCH_REGION) (\<lambda>_. 0) c;
       if status \<noteq> Success then ret (status, c)
       else do {
         a \<leftarrow> gets (get_ao ao);
         matches \<leftarrow> (if RestrictActiveUpdate a = 1 then does_staged_fw_image_match_active_fw_image E
                     else ret Success);
         if matches \<noteq> Success then do {
           LogUpdateFailure E UPD_NOT_ALLOWED 0;
           ret (Failure, c)
         }
         else do {
           m \<leftarrow> gets manifest;
           status \<leftarrow> update_recovery_region E (image_type m) source_address (u32_of_bytes tgt);
           if status \<noteq> Success then ret (Failure, c)
           else do {
             m \<leftarrow> gets manifest;
             status \<leftarrow> set_ufm_svn E (if image_type m = BMC_TYPE then SVN_POLICY_FOR_BMC_FW_UPDATE
                                      else SVN_POLICY_FOR_PCH_FW_UPDATE) staging_svn;
             ret (status, c)
           }
         }
       }
     }
   }"

definition update_host_image ::
    "env \<Rightarrow> ao_ref \<Rightarrow> event_wrap \<Rightarrow> u32 \<Rightarrow> u32 \<Rightarrow> cpld_status \<Rightarrow> (world, int \<times> cpld_status) state" where
  "update_host_image E ao EventContext update_type source_address c = do {
     (status, source_address, c) \<leftarrow> copy_pch_capsule E update_type source_address c;
     if status \<noteq> Success then ret (Failure, c)
     else do {
       (status, staging_svn) \<leftarrow> check_staged_capsule E (upd_flash EventContext);
       if status \<noteq> Success then ret (Failure, c)
       else if upd_flash EventContext = PRIMARY_FLASH_REGION then do {
         status \<leftarrow> update_active_region E ao
           (if upd_flag EventContext AND ucast UPDATE_DYNAMIC \<noteq> 0
            then DECOMPRESSION_STATIC_AND_DYNAMIC_REGIONS_MASK else DECOMPRESSION_STATIC_REGIONS_MASK);
         ret (status, c)
       }
       else update_recovery E ao source_address staging_svn c
     }
   }"

definition update_firmware_image ::
    "env \<Rightarrow> u32 \<Rightarrow> ao_ref \<Rightarrow> event_wrap \<Rightarrow> cpld_status \<Rightarrow> (world, int \<times> cpld_status) state" where
  "update_firmware_image E img_type ao EventContext c = do {
     let flash_select = upd_flash EventContext;
     upd_manifest (\<lambda>m. m\<lparr>m_state := FIRMWARE_UPDATE, image_type := img_type, flash_id := flash_select\<rparr>);
     source \<leftarrow> update_source E img_type c;
     case source of
       None \<Rightarrow> ret (Failure, c)
     | Some (update_type, source_address, act_pfm_offset) \<Rightarrow> do {
         upd_manifest (\<lambda>m. m\<lparr>m_address := source_address, staging_address := source_address,
           active_pfm_addr := act_pfm_offset\<rparr>);
         pc_type_status \<leftarrow> check_rot_capsule_type E;
         m \<leftarrow> gets manifest;
         let cancels = (pc_type_status = KEY_CANCELLATION_CAPSULE);
         let c = (if cancels then drop_pending_recovery m c else c);
         cwhen cancels (hold_cancelled_pch E);
         let update_type = (if cancels then ROT_TYPE else update_type);
         if update_type \<noteq> ROT_TYPE \<and> ao = AO_NULL then ret (Failure, c)
         else if update_type = ROT_TYPE then do {
           status \<leftarrow> ast1060_update E flash_select pc_type_status;
           ret (status, clear_handled ROT_REGION c)
         }
         else if CONFIG_PFR_SPDM_ATTESTATION E \<and> update_type = AFM_TYPE then do {
           status \<leftarrow> update_afm_image E flash_select ao;
           ret (status, clear_handled AFM_REGION c)
         }
         else if MAX_SUPPORTED_FW_TYPE \<le> update_type then ret (Failure, c)
         else update_host_image E ao EventContext update_type source_address c
       }
   }"

section \<open>Seamless update\<close>

definition switch_pch_mux :: "env \<Rightarrow> bool \<Rightarrow> (world, unit) state" where
  "switch_pch_mux E to_rot = do {
     switch_mux E PCH_SPI_MONITOR to_rot;
     cwhen (CONFIG_CPU_DUAL_FLASH E) (switch_mux E PCH_SPI_MONITOR_2 to_rot)
   }"

definition bmc_staging_monitor :: "env \<Rightarrow> u32 \<Rightarrow> u32 \<Rightarrow> string" where
  "bmc_staging_monitor E staging_start_addr flash_size =
     (if CONFIG_BMC_DUAL_FLASH E \<and> flash_size \<le> staging_start_addr then BMC_SPI_MONITOR_2 else BMC_SPI_MONITOR)"

text \<open>
  The capsule of the PCH in the BMC's staging area: \<open>None\<close> goes on with the update, \<open>Some\<close> is
  the status it ends with. The BMC's flash is given back in both cases.
\<close>

definition seamless_from_bmc :: "env \<Rightarrow> u32 \<Rightarrow> u32 \<Rightarrow> cpld_status \<Rightarrow> (world, int option) state" where
  "seamless_from_bmc E img_type flash_size c = do {
     status \<leftarrow> write_update_status E (c\<lparr>BmcToPchStatus := 0\<rparr>);
     if status \<noteq> Success then ret (Some status)
     else do {
       (status, bs) \<leftarrow> ufm_read E PROVISION_UFM BMC_STAGING_REGION_OFFSET 4;
       if status \<noteq> Success then ret (Some status)
       else do {
         let address = u32_of_bytes bs;
         switch_mux E (bmc_staging_monitor E address flash_size) True;
         upd_manifest (\<lambda>m. m\<lparr>image_type := BMC_TYPE, m_address := address\<rparr>);
         pc_type_status \<leftarrow> check_rot_capsule_type E;
         if pc_type_status = KEY_CANCELLATION_CAPSULE then do {
           status \<leftarrow> ast1060_update E PRIMARY_FLASH_REGION pc_type_status;
           switch_mux E (bmc_staging_monitor E address flash_size) False;
           ret (Some status)
         }
         else do {
           upd_manifest (\<lambda>m. m\<lparr>image_type := img_type, m_address := address\<rparr>);
           status \<leftarrow> pfr_staging_pch_staging E;
           if status \<noteq> Success then do {
             switch_mux E (bmc_staging_monitor E address flash_size) False;
             ret (Some status)
           }
           else do {
             act E (Filter (SpimExtMux (bmc_staging_monitor E address flash_size) False));
             ret None
           }
         }
       }
     }
   }"

text \<open>In the other case the content type is read at the address the manifest still has.\<close>

definition seamless_from_pch :: "env \<Rightarrow> (world, int option) state" where
  "seamless_from_pch E = do {
     pc_type_status \<leftarrow> check_rot_capsule_type E;
     if pc_type_status = KEY_CANCELLATION_CAPSULE then do {
       status \<leftarrow> ast1060_update E PRIMARY_FLASH_REGION pc_type_status;
       ret (Some status)
     }
     else ret None
   }"

definition apply_seamless_capsule :: "env \<Rightarrow> u32 \<Rightarrow> (world, int) state" where
  "apply_seamless_capsule E source_address = do {
     upd_manifest (m_address_update (\<lambda>_. source_address));
     status \<leftarrow> firmware_image_verify E;
     if status \<noteq> Success then ret status
     else do {
       status \<leftarrow> decompress_fv_capsule E;
       intent2 \<leftarrow> MBX_REG_GETTER E BmcUpdateIntent2;
       cwhen (intent2 AND SeamlessUpdateAck \<noteq> 0) (pfr_start_timer E BMC_TIMER 30000);
       ret status
     }
   }"

definition perform_seamless_update :: "env \<Rightarrow> u32 \<Rightarrow> u32 \<Rightarrow> (world, int) state" where
  "perform_seamless_update E img_type flash_select = do {
     flash_size \<leftarrow> (if CONFIG_BMC_DUAL_FLASH E then do {
         act E (Filter (DeviceGetBinding ''spi1@0''));
         (size, _) \<leftarrow> ext E (Fl (HostFlashSize BMC_SPI));
         ret (word_of_int size)
       }
       else ret 0);
     if img_type \<noteq> PCH_TYPE then ret Failure
     else do {
       (status, src) \<leftarrow> ufm_read E PROVISION_UFM PCH_STAGING_REGION_OFFSET 4;
       if status \<noteq> 0 then ret Failure
       else do {
         (status, act_pfm) \<leftarrow> ufm_read E PROVISION_UFM PCH_ACTIVE_PFM_OFFSET 4;
         if status \<noteq> 0 then ret Failure
         else do {
           upd_manifest (\<lambda>m. m\<lparr>m_state := SEAMLESS_UPDATE, image_type := img_type, flash_id := flash_select,
             staging_address := u32_of_bytes src, active_pfm_addr := u32_of_bytes act_pfm\<rparr>);
           (status, c) \<leftarrow> read_update_status E;
           if status \<noteq> Success then ret Failure
           else do {
             switch_pch_mux E True;
             early \<leftarrow> (if BmcToPchStatus c = 1 then seamless_from_bmc E img_type flash_size c
                       else seamless_from_pch E);
             status \<leftarrow> (case early of
                 Some status \<Rightarrow> ret status
               | None \<Rightarrow> apply_seamless_capsule E (u32_of_bytes src));
             switch_pch_mux E False;
             ret status
           }
         }
       }
     }
   }"

end
