(* ===== verification/Pfr_Verify.thy ===== *)
theory Pfr_Verify
  imports Pfr_Update
begin

text \<open>
  The verification and recovery states of \<open>AspeedStateMachine.c\<close>: protection in transit
  (\<open>handle_pit_verification\<close>), the images of a boot (\<open>verify_image\<close>,
  \<open>handle_image_verification\<close>, \<open>do_verify\<close>) and their recovery (\<open>handle_recovery\<close>,
  \<open>do_rot_recovery\<close>). Each handler answers by the event it posts.
\<close>

section \<open>Verifying one image\<close>

definition image_status :: "int \<Rightarrow> u8" where
  "image_status r = (if r \<noteq> 0 then 1 else 0)"

definition verify_image :: "env \<Rightarrow> hrot_event \<Rightarrow> operations \<Rightarrow> u32 \<Rightarrow> (world, unit) state" where
  "verify_image E evt_img operation flash = do {
     r \<leftarrow> authentication_image E \<lparr>evt_operation = operation, evt_image = evt_img, upd_flash = flash, upd_flag = 0\<rparr>;
     let set_status = (\<lambda>ao. modify (upd_ao ao
       (if operation = VERIFY_ACTIVE then ActiveImageStatus_update (\<lambda>_. image_status r)
        else if operation = VERIFY_BACKUP then RecoveryImageStatus_update (\<lambda>_. image_status r)
        else id)));
     if evt_img = BMC_EVENT then set_status AO_BMC
     else if evt_img = PCH_EVENT then set_status AO_PCH
     else if CONFIG_PFR_SPDM_ATTESTATION E \<and> evt_img = AFM_EVENT then set_status AO_AFM
     else if CONFIG_PFR_SPDM_ATTESTATION E \<and> evt_img = AFM_EVENT3
     then modify (upd_ao AO_AFM (InternalAFMStatus_update (\<lambda>_. image_status r)))
     else ret ()
   }"

section \<open>Protection in transit\<close>

definition handle_pit_event :: "env \<Rightarrow> (world, unit) state" where
  "handle_pit_event E = do {
     provision_state \<leftarrow> GetUfmStatusValue E;
     if provision_state AND UFM_PROVISIONED = 0 then ret ()
     else do {
       (_, bs) \<leftarrow> get_provision_data_in_flash E UFM_STATUS 4;
       let UfmStatus = u32_of_bytes bs;
       if CheckUfmStatus UfmStatus UFM_STATUS_PIT_HASH_STORED_BIT_MASK \<or>
          CheckUfmStatus UfmStatus UFM_STATUS_PIT_L2_PASSED_BIT_MASK then ret ()
       else if CheckUfmStatus UfmStatus UFM_STATUS_PIT_L2_ENABLE_BIT_MASK
       then GenerateStateMachineEvent E SEAL_FIRMWARE NULL_data
       else ret ()
     }
   }"

definition handle_pit_verification :: "env \<Rightarrow> (world, int) state" where
  "handle_pit_verification E = do {
     provision_state \<leftarrow> GetUfmStatusValue E;
     if provision_state AND UFM_PROVISIONED = 0 then do {
       GenerateStateMachineEvent E VERIFY_UNPROVISIONED NULL_data;
       ret Failure
     }
     else do {
       level1 \<leftarrow> intel_pfr_pit_level1_verify E;
       if level1 \<noteq> 0 then do {
         GenerateStateMachineEvent E RECOVERY_FAILED NULL_data;
         ret Failure
       }
       else do {
         level2 \<leftarrow> intel_pfr_pit_level2_verify E;
         if level2 \<noteq> 0 then do {
           GenerateStateMachineEvent E RECOVERY_FAILED NULL_data;
           ret Failure
         }
         else ret Success
       }
     }
   }"

section \<open>The images of a boot\<close>

text \<open>Which images a boot checks: after the reset of one host only its own.\<close>

definition verify_boot_images :: "env \<Rightarrow> u8 \<Rightarrow> (world, unit) state" where
  "verify_boot_images E reset = do {
     let afm = CONFIG_PFR_SPDM_ATTESTATION E;
     (if reset AND BmcOnlyReset \<noteq> 0 then do {
        verify_image E BMC_EVENT VERIFY_BACKUP SECONDARY_FLASH_REGION;
        verify_image E BMC_EVENT VERIFY_ACTIVE PRIMARY_FLASH_REGION;
        modify (\<lambda>s. upd_ao AO_PCH (\<lambda>a. a\<lparr>ActiveImageStatus := last_pch_active_verify_status s,
          RecoveryImageStatus := last_pch_recovery_verify_status s\<rparr>) s)
      }
      else if reset AND PchOnlyReset \<noteq> 0 then do {
        verify_image E PCH_EVENT VERIFY_BACKUP SECONDARY_FLASH_REGION;
        verify_image E PCH_EVENT VERIFY_ACTIVE PRIMARY_FLASH_REGION;
        modify (\<lambda>s. upd_ao AO_BMC (\<lambda>a. a\<lparr>ActiveImageStatus := last_bmc_active_verify_status s,
          RecoveryImageStatus := last_bmc_recovery_verify_status s\<rparr>) s)
      }
      else do {
        SetPlatformState E BMC_FLASH_AUTH;
        verify_image E BMC_EVENT VERIFY_BACKUP SECONDARY_FLASH_REGION;
        verify_image E BMC_EVENT VERIFY_ACTIVE PRIMARY_FLASH_REGION;
        SetPlatformState E PCH_FLASH_AUTH;
        verify_image E PCH_EVENT VERIFY_BACKUP SECONDARY_FLASH_REGION;
        verify_image E PCH_EVENT VERIFY_ACTIVE PRIMARY_FLASH_REGION;
        cwhen afm (verify_image E AFM_EVENT VERIFY_BACKUP SECONDARY_FLASH_REGION)
      });
     cwhen afm (verify_image E AFM_EVENT VERIFY_ACTIVE PRIMARY_FLASH_REGION);
     cwhen afm (verify_image E AFM_EVENT3 VERIFY_ACTIVE PRIMARY_FLASH_REGION)
   }"

definition log_auth_failure :: "env \<Rightarrow> ao_data \<Rightarrow> u8 \<Rightarrow> u8 \<Rightarrow> u8 \<Rightarrow> u8 \<Rightarrow> (world, unit) state" where
  "log_auth_failure E a major both active recovery =
     (if ActiveImageStatus a \<noteq> 0
      then LogErrorCodes E major (if RecoveryImageStatus a \<noteq> 0 then both else active)
      else if RecoveryImageStatus a \<noteq> 0 then LogErrorCodes E major recovery
      else ret ())"

text \<open>An active image that is bad, or a recovery image that is good again, lifts the restriction.\<close>

definition lift_restriction :: "ao_data \<Rightarrow> ao_data" where
  "lift_restriction a =
     (if ActiveImageStatus a \<noteq> 0 \<or> RecoveryImageStatus a = 0 then a\<lparr>RestrictActiveUpdate := 0\<rparr> else a)"

definition record_verification :: "env \<Rightarrow> (world, unit) state" where
  "record_verification E = do {
     bmc \<leftarrow> gets bmc_active_object;
     log_auth_failure E bmc BMC_AUTH_FAIL ACTIVE_RECOVERY_STAGING_AUTH_FAIL ACTIVE_AUTH_FAIL RECOVERY_AUTH_FAIL;
     pch \<leftarrow> gets pch_active_object;
     log_auth_failure E pch PCH_AUTH_FAIL ACTIVE_RECOVERY_STAGING_AUTH_FAIL ACTIVE_AUTH_FAIL RECOVERY_AUTH_FAIL;
     afm \<leftarrow> gets afm_active_object;
     cwhen (CONFIG_PFR_SPDM_ATTESTATION E) (log_auth_failure E afm BMC_AUTH_FAIL
       AFM_ACTIVE_RECOVERY_STAGING_AUTH_FAIL AFM_ACTIVE_AUTH_FAIL AFM_RECOVERY_AUTH_FAIL);
     modify (\<lambda>s. s\<lparr>bmc_active_object := lift_restriction (bmc_active_object s),
       pch_active_object := lift_restriction (pch_active_object s)\<rparr>);
     modify (\<lambda>s. s\<lparr>last_bmc_recovery_verify_status := RecoveryImageStatus (bmc_active_object s),
       last_bmc_active_verify_status := ActiveImageStatus (bmc_active_object s),
       last_pch_recovery_verify_status := RecoveryImageStatus (pch_active_object s),
       last_pch_active_verify_status := ActiveImageStatus (pch_active_object s)\<rparr>);
     cwhen (CONFIG_PFR_SPDM_ATTESTATION E) (modify (\<lambda>s. s\<lparr>
       afm_active_object := lift_restriction (afm_active_object s),
       last_afm_active_verify_status := ActiveImageStatus (afm_active_object s),
       last_afm_recovery_verify_status := RecoveryImageStatus (afm_active_object s)\<rparr>))
   }"

definition some_image_failed :: "env \<Rightarrow> world \<Rightarrow> bool" where
  "some_image_failed E s \<longleftrightarrow>
     ActiveImageStatus (pch_active_object s) = 1 \<or> ActiveImageStatus (bmc_active_object s) = 1 \<or>
     RecoveryImageStatus (pch_active_object s) = 1 \<or> RecoveryImageStatus (bmc_active_object s) = 1 \<or>
     CONFIG_PFR_SPDM_ATTESTATION E \<and>
       (ActiveImageStatus (afm_active_object s) = 1 \<or> RecoveryImageStatus (afm_active_object s) = 1 \<or>
        InternalAFMStatus (afm_active_object s) = 1)"

text \<open>The event that ends a verification. After a recovery only the active image of the BMC counts.\<close>

definition verification_event :: "env \<Rightarrow> world \<Rightarrow> pfr_event" where
  "verification_event E s =
     (if ev (event_ctx s) \<noteq> RECOVERY_DONE then (if some_image_failed E s then VERIFY_FAILED else VERIFY_DONE)
      else if ActiveImageStatus (bmc_active_object s) = 0 then VERIFY_DONE
      else RECOVERY_FAILED)"

definition handle_image_verification :: "env \<Rightarrow> (world, unit) state" where
  "handle_image_verification E = do {
     evt_ctx \<leftarrow> gets event_ctx;
     provision_state \<leftarrow> GetUfmStatusValue E;
     if provision_state AND UFM_PROVISIONED = 0
     then GenerateStateMachineEvent E VERIFY_UNPROVISIONED (data_ptr evt_ctx)
     else do {
       pending \<leftarrow> has_pending_update E (bit8_2 evt_ctx);
       case pending of
         Some (intent_src, intent) \<Rightarrow>
           GenerateStateMachineEvent E UPDATE_REQUESTED (intent_src, intent, bit8_2 evt_ctx, bit8_3 evt_ctx)
       | None \<Rightarrow> do {
           verify_boot_images E (bit8_2 evt_ctx);
           record_verification E;
           e \<leftarrow> gets (verification_event E);
           GenerateStateMachineEvent E e (data_ptr evt_ctx)
         }
     }
   }"

definition do_verify :: "env \<Rightarrow> (world, unit) state" where
  "do_verify E = do {
     status \<leftarrow> (if CONFIG_PIT_PROTECTION E then handle_pit_verification E else ret Success);
     if status \<noteq> 0 then ret () else handle_image_verification E
   }"

section \<open>Recovery\<close>

text \<open>
  The event decides what is repaired: a failed attestation or a timed-out watchdog first marks an
  active image as bad. The answer is the region to blame; \<open>None\<close> stands for
  \<open>INVALID_REGION_INDEX\<close>.
\<close>

definition fail_active :: "ao_ref \<Rightarrow> (world, unit) state" where
  "fail_active ao = modify (upd_ao ao (ActiveImageStatus_update (\<lambda>_. 1)))"

definition blame_image :: "env \<Rightarrow> event_context \<Rightarrow> (world, region_def option) state" where
  "blame_image E evt_ctx =
     (if ev evt_ctx = ATTESTATION_FAILED then
        (if bit8_0 evt_ctx = 0 \<or> bit8_0 evt_ctx = 1 then do {
           fail_active AO_PCH;
           ret (Some PCH_REGION)
         }
         else if bit8_0 evt_ctx = 2 then do {
           fail_active AO_BMC;
           ret (Some BMC_REGION)
         }
         else ret None)
      else if ev evt_ctx = WDT_TIMEOUT then do {
        SetPlatformState E WDT_TIMEOUT_RECOVERY;
        if CONFIG_BMC_CHECKPOINT_RECOVERY E \<and> bit8_0 evt_ctx = hrot_code BMC_EVENT then do {
          fail_active AO_BMC;
          ret (Some BMC_REGION)
        }
        else if CONFIG_PCH_CHECKPOINT_RECOVERY E \<and> bit8_0 evt_ctx = hrot_code PCH_EVENT then do {
          fail_active AO_PCH;
          ret (Some PCH_REGION)
        }
        else ret None
      }
      else ret None)"

definition recovery_case :: "env \<Rightarrow> pfr_event \<Rightarrow> bool" where
  "recovery_case E e \<longleftrightarrow> e = VERIFY_FAILED \<or>
     e = ATTESTATION_FAILED \<and> CONFIG_PFR_SPDM_ATTESTATION E \<or>
     e = WDT_TIMEOUT \<and> (CONFIG_BMC_CHECKPOINT_RECOVERY E \<or> CONFIG_PCH_CHECKPOINT_RECOVERY E)"

definition recover_event :: "env \<Rightarrow> ao_ref \<Rightarrow> hrot_event \<Rightarrow> (world, int) state" where
  "recover_event E ao evt_img = recover_image E ao
     \<lparr>evt_operation = NONE, evt_image = evt_img, upd_flash = 0, upd_flag = 0\<rparr>"

definition recovered :: "int \<Rightarrow> bool" where
  "recovered r \<longleftrightarrow> r = Success \<or> r = VerifyActive \<or> r = VerifyRecovery"

text \<open>Each step repairs one image that is bad; \<open>done'\<close> and \<open>r\<close> are \<open>recovery_done\<close> and \<open>region_index\<close>.\<close>

definition recover_bmc :: "env \<Rightarrow> pfr_event \<Rightarrow> bool \<times> region_def option \<Rightarrow> (world, bool \<times> region_def option) state" where
  "recover_bmc E e st = do {
     bmc \<leftarrow> gets bmc_active_object;
     done1 \<leftarrow> (if RecoveryImageStatus bmc = 1 then do {
         LogRecovery E BMC_RECOVERY_FAIL;
         r \<leftarrow> recover_event E AO_BMC BMC_EVENT;
         ret (recovered r)
       }
       else ret False);
     bmc \<leftarrow> gets bmc_active_object;
     if ActiveImageStatus bmc = 1 then do {
       cwhen (e \<noteq> WDT_TIMEOUT) (LogRecovery E BMC_ACTIVE_FAIL);
       r \<leftarrow> recover_event E AO_BMC BMC_EVENT;
       cwhen (CONFIG_BMC_CHECKPOINT_RECOVERY E \<and> e = WDT_TIMEOUT) (inc_recovery_level BMC_SPI);
       ret (fst st \<or> done1 \<or> recovered r, Some BMC_REGION)
     }
     else ret (fst st \<or> done1, snd st)
   }"

definition recover_pch :: "env \<Rightarrow> pfr_event \<Rightarrow> bool \<times> region_def option \<Rightarrow> (world, bool \<times> region_def option) state" where
  "recover_pch E e st = do {
     pch \<leftarrow> gets pch_active_object;
     done1 \<leftarrow> (if RecoveryImageStatus pch = 1 then do {
         LogRecovery E PCH_RECOVERY_FAIL;
         recover_event E AO_PCH PCH_EVENT;
         ret True
       }
       else ret False);
     pch \<leftarrow> gets pch_active_object;
     if ActiveImageStatus pch = 1 then do {
       cwhen (e \<noteq> WDT_TIMEOUT) (LogRecovery E PCH_ACTIVE_FAIL);
       recover_event E AO_PCH PCH_EVENT;
       cwhen (CONFIG_PCH_CHECKPOINT_RECOVERY E \<and> e = WDT_TIMEOUT) (inc_recovery_level PCH_SPI);
       ret (True, Some PCH_REGION)
     }
     else ret (fst st \<or> done1, snd st)
   }"

definition recover_afm :: "env \<Rightarrow> bool \<times> region_def option \<Rightarrow> (world, bool \<times> region_def option) state" where
  "recover_afm E st =
     (if \<not> CONFIG_PFR_SPDM_ATTESTATION E then ret st
      else do {
        afm \<leftarrow> gets afm_active_object;
        done1 \<leftarrow> (if RecoveryImageStatus afm = 1 then do {
            recover_event E AO_AFM AFM_EVENT;
            ret True
          }
          else ret False);
        afm \<leftarrow> gets afm_active_object;
        if ActiveImageStatus afm = 1 then do {
          recover_event E AO_AFM AFM_EVENT;
          ret (True, Some AFM_REGION)
        }
        else ret (fst st \<or> done1, snd st)
      })"

definition recover_images :: "env \<Rightarrow> event_context \<Rightarrow> (world, bool \<times> region_def option) state" where
  "recover_images E evt_ctx = do {
     region_index \<leftarrow> blame_image E evt_ctx;
     afm \<leftarrow> gets afm_active_object;
     done0 \<leftarrow> (if CONFIG_PFR_SPDM_ATTESTATION E \<and> InternalAFMStatus afm = 1 then do {
         recover_event E AO_AFM AFM_EVENT3;
         ret True
       }
       else ret False);
     st \<leftarrow> recover_bmc E (ev evt_ctx) (done0, region_index);
     st \<leftarrow> recover_pch E (ev evt_ctx) st;
     recover_afm E st
   }"

definition write_changed_status :: "env \<Rightarrow> cpld_status \<Rightarrow> cpld_status \<Rightarrow> (world, unit) state" where
  "write_changed_status E cached_status c =
     cwhen (cpld_status_bytes cached_status \<noteq> cpld_status_bytes c) (do {
       write_update_status E c;
       ret ()
     })"

text \<open>The event of a finished recovery carries one set byte; the other three are uninitialised.\<close>

definition handle_recovery :: "env \<Rightarrow> (world, unit) state" where
  "handle_recovery E = do {
     evt_ctx \<leftarrow> gets event_ctx;
     act E (Init InitializeEngines);
     act E (Init InitializeManifestProcessor);
     SetPlatformState E T_MINUS_1_FW_RECOVERY;
     (_, cached_status) \<leftarrow> read_update_status E;
     (recovery_done, region_index) \<leftarrow>
       (if recovery_case E (ev evt_ctx) then recover_images E evt_ctx else ret (False, None));
     write_changed_status E cached_status (clear_pending_recovery_update region_index cached_status);
     if recovery_done
     then GenerateStateMachineEvent E RECOVERY_DONE (uninit E 0, uninit E 1, bit8_2 evt_ctx, uninit E 3)
     else GenerateStateMachineEvent E RECOVERY_FAILED NULL_data
   }"

definition do_recovery :: "env \<Rightarrow> (world, unit) state" where
  "do_recovery E = handle_recovery E"

text \<open>A failed erase posts \<open>RECOVERY_FAILED\<close> and goes on copying.\<close>

definition do_rot_recovery :: "env \<Rightarrow> (world, unit) state" where
  "do_rot_recovery E = do {
     region_size \<leftarrow> pfr_spi_get_device_size E ROT_INTERNAL_RECOVERY;
     act E (Board ClearAbrIndicator);
     (_, cached_status) \<leftarrow> read_update_status E;
     write_changed_status E cached_status (clear_pending_recovery_update (Some ROT_REGION) cached_status);
     erased \<leftarrow> pfr_spi_erase_region E ROT_INTERNAL_ACTIVE True 0 region_size;
     cwhen (erased \<noteq> 0) (GenerateStateMachineEvent E RECOVERY_FAILED NULL_data);
     status \<leftarrow> pfr_spi_region_read_write_between_spi E ROT_INTERNAL_RECOVERY 0 ROT_INTERNAL_ACTIVE 0 region_size;
     if (word_of_int status :: u8) = 0 then GenerateStateMachineEvent E RECOVERY_DONE NULL_data
     else GenerateStateMachineEvent E RECOVERY_FAILED NULL_data
   }"

end
