(* ===== verification/Pfr_Filter.thy ===== *)
theory Pfr_Filter
  imports Pfr_Pfm Pfr_Gpio
begin

text \<open>
  Arming the flash and bus filters from a manifest, \<open>intel_pfr/intel_pfr_spi_filtering.c\<close>. The walk
  over the active manifest of a host (\<open>apply_pfm_protection\<close>) sets the read and write privileges of
  each SPI region in the monitor of its flash and the commands a bus master may send, the walk over
  a firmware volume manifest (\<open>apply_fvm_spi_protection\<close>) those of a volume.
\<close>

definition spim_devs :: "string list" where
  "spim_devs = [BMC_SPI_MONITOR, BMC_SPI_MONITOR_2, PCH_SPI_MONITOR, PCH_SPI_MONITOR_2]"

abbreviation "read_allowed bs \<equiv> bit (bs ! 1 :: u8) 0"
abbreviation "write_allowed bs \<equiv> bit (bs ! 1 :: u8) 1"

definition privilege :: "bool \<Rightarrow> addr_priv_op" where
  "privilege allowed = (if allowed then SPI_FILTER_PRIV_ENABLE else SPI_FILTER_PRIV_DISABLE)"

text \<open>
  Where a region lies on a host with two flashes: the flash (0 or 1) and its start and end there.
  A region across both is an error.
\<close>

definition flash_of_region :: "u32 \<Rightarrow> u32 \<Rightarrow> u32 \<Rightarrow> (nat \<times> u32 \<times> u32) option" where
  "flash_of_region flash_size start end_addr =
     (if flash_size \<le> start \<and> flash_size \<le> end_addr - 1 then Some (1, start - flash_size, end_addr - flash_size)
      else if start < flash_size \<and> flash_size \<le> end_addr - 1 then None
      else Some (0, start, end_addr))"

section \<open>Firmware volumes\<close>

definition fvm_filter_round :: "env \<Rightarrow> u32 \<times> nat \<Rightarrow> (world, (u32 \<times> nat, unit) flow) state" where
  "fvm_filter_round E = (\<lambda>(offset, spi_id). do {
     (_, spi_def) \<leftarrow> pfr_spi_read E PCH_SPI offset 16;
     if def_type spi_def = SPI_REGION then do {
       place \<leftarrow> (if CONFIG_CPU_DUAL_FLASH E then do {
           flash_size \<leftarrow> pfr_spi_get_device_size E PCH_SPI;
           ret (flash_of_region flash_size (region_start spi_def) (region_end spi_def))
         }
         else ret (Some (spi_id, region_start spi_def, region_end spi_def)));
       case place of
         None \<Rightarrow> ret (Return ())
       | Some (spi_id, start, finish) \<Rightarrow> do {
           let monitor = [PCH_SPI_MONITOR, PCH_SPI_MONITOR_2] ! spi_id;
           Set_SPI_Filter_RW_Region E monitor SPI_FILTER_READ_PRIV (privilege (read_allowed spi_def)) start
             (finish - start);
           Set_SPI_Filter_RW_Region E monitor SPI_FILTER_WRITE_PRIV (privilege (write_allowed spi_def)) start
             (finish - start);
           ret (Continue (offset + (if sha256_present spi_def then 16 + 32
                                    else if sha384_present spi_def then 16 + 48 else 16), spi_id))
         }
     }
     else if def_type spi_def = FVM_CAP then ret (Continue (offset + 64, spi_id))
     else ret (Break (offset, spi_id))
   })"

definition apply_fvm_spi_protection :: "env \<Rightarrow> u32 \<Rightarrow> u32 \<Rightarrow> (world, unit) state" where
  "apply_fvm_spi_protection E fvm_addr offset = do {
     let fvm_offset = fvm_addr + offset;
     (_, fvm) \<leftarrow> pfr_spi_read E PCH_SPI fvm_offset 32;
     let fvm_body_end_addr = fvm_offset + le32 28 fvm;
     while_do (unat fvm_body_end_addr + 1) (\<lambda>(fvm_body_offset, _). fvm_body_offset < fvm_body_end_addr)
       (fvm_filter_round E) (fvm_offset + 32, 0) ()
       (\<lambda>(_, spi_id). SPI_Monitor_Enable E ([PCH_SPI_MONITOR, PCH_SPI_MONITOR_2] ! spi_id) True)
   }"

section \<open>The active manifest\<close>

definition filter_region :: "env \<Rightarrow> nat \<Rightarrow> u32 \<Rightarrow> u32 \<Rightarrow> u8 list \<Rightarrow> (world, unit) state" where
  "filter_region E spi_id start end_addr record = do {
     Set_SPI_Filter_RW_Region E (spim_devs ! spi_id) SPI_FILTER_WRITE_PRIV (privilege (write_allowed record)) start
       (end_addr - start);
     Set_SPI_Filter_RW_Region E (spim_devs ! spi_id) SPI_FILTER_READ_PRIV (privilege (read_allowed record)) start
       (end_addr - start);
     ret ()
   }"

text \<open>The size of an SPI region definition in this walk, which also knows SHA-512.\<close>

definition filter_def_size :: "u8 list \<Rightarrow> u32" where
  "filter_def_size record =
     (if bit (record ! 2) 0 then 48 else if bit (record ! 2) 1 then 64 else if bit (record ! 2) 2 then 80 else 16)"

definition smbus_rule :: "env \<Rightarrow> u8 list \<Rightarrow> (world, unit) state" where
  "smbus_rule E record = do {
     let bus = record ! 5;
     let rule = record ! 6;
     if 0 < bus \<and> bus < 6 \<and> 0 < rule \<and> rule < 17 then do {
       let i = unat bus - 1;
       (flt_dev, _) \<leftarrow> ext E (Filter (DeviceGetBinding (''i2cfilter'' @ [char_of (48 + i)])));
       if flt_dev = 0 then ret ()
       else do {
         act E (Filter (I2cFilterEnable i True True False False));
         act E (Filter (I2cFilterUpdate i (rule - 1) (drop_bit 1 (record ! 7)) (field_bytes 8 32 record)))
       }
     }
     else ret ()
   }"

definition filter_round :: "env \<Rightarrow> u8 \<Rightarrow> u32 \<Rightarrow> u32 \<Rightarrow> u32 \<times> nat \<Rightarrow> (world, (u32 \<times> nat, unit) flow) state" where
  "filter_round E dev offset end_addr = (\<lambda>(addr, spi_id). do {
     let next_at = (\<lambda>a i. if end_addr \<le> a then Break (a, i) else Continue (a, i));
     (_, record) \<leftarrow> pfr_spi_read E dev addr 40;
     if def_type record = SPI_REGION then do {
       place \<leftarrow> (if CONFIG_BMC_DUAL_FLASH E \<and> dev = BMC_SPI \<or> CONFIG_CPU_DUAL_FLASH E \<and> dev = PCH_SPI then do {
           flash_size \<leftarrow> pfr_spi_get_device_size E dev;
           ret (map_option (map_prod (\<lambda>i. unat dev + i) id)
             (flash_of_region flash_size (region_start record) (region_end record)))
         }
         else ret (Some (spi_id, region_start record, region_end record)));
       case place of
         None \<Rightarrow> ret (Return ())
       | Some (spi_id, start, finish) \<Rightarrow> do {
           filter_region E spi_id start finish record;
           ret (next_at (addr + filter_def_size record) spi_id)
         }
     }
     else if def_type record = SMBUS_RULE then do {
       (if dev \<ge> PCH_SPI then ret () else smbus_rule E record);
       ret (next_at (addr + 40) spi_id)
     }
     else if CONFIG_SEAMLESS_UPDATE E \<and> def_type record = FVM_ADDR_DEF then do {
       apply_fvm_spi_protection E (le32 8 record) offset;
       ret (next_at (addr + 12) spi_id)
     }
     else ret (Break (addr, spi_id))
   })"

definition filter_walk :: "env \<Rightarrow> u8 \<Rightarrow> u32 \<Rightarrow> u32 \<Rightarrow> u32 \<Rightarrow> (world, unit) state" where
  "filter_walk E dev offset pfm_region_Start end_addr =
     while_do (unat end_addr + 1) (\<lambda>_. True) (filter_round E dev offset end_addr) (pfm_region_Start, unat dev) ()
       (\<lambda>(_, spi_id). SPI_Monitor_Enable E (spim_devs ! spi_id) True)"

definition pfm_offset :: "u8 \<Rightarrow> u32" where
  "pfm_offset dev = (if dev = BMC_SPI then BMC_ACTIVE_PFM_OFFSET else PCH_ACTIVE_PFM_OFFSET)"

definition apply_pfm_protection :: "env \<Rightarrow> u8 \<Rightarrow> (world, unit) state" where
  "apply_pfm_protection E dev = do {
     act E (Init InitializeEngines);
     act E (Init InitializeManifestProcessor);
     if dev \<noteq> BMC_SPI \<and> dev \<noteq> PCH_SPI then ret ()
     else do {
       (_, bs) \<leftarrow> get_provision_data_in_flash E (pfm_offset dev) 4;
       let pfm_read_address = u32_of_bytes bs;
       m \<leftarrow> gets manifest;
       let offset = sig_block_size m;
       (_, pfm_length) \<leftarrow> pfr_spi_read E dev (pfm_read_address + offset + 0x1c) 4;
       let end_addr = pfm_read_address + offset + u32_of_bytes pfm_length;
       filter_walk E dev offset (pfm_read_address + offset + 0x20) end_addr
     }
   }"

section \<open>The filter is armed at the end\<close>

text \<open>
  With one flash per host the walk keeps to the monitor of that flash and ends when the manifest
  lies below the top of the address space, whatever it holds: a round adds at most 80 bytes.
\<close>

definition single_flash :: "env \<Rightarrow> u8 \<Rightarrow> bool" where
  "single_flash E dev \<longleftrightarrow> (dev = BMC_SPI \<longrightarrow> \<not> CONFIG_BMC_DUAL_FLASH E) \<and> (dev = PCH_SPI \<longrightarrow> \<not> CONFIG_CPU_DUAL_FLASH E)"

definition bindings_ok :: "env \<Rightarrow> bool" where
  "bindings_ok E \<longleftrightarrow> (\<forall>tr name. fst (reply_of E tr (Filter (DeviceGetBinding name))) \<noteq> 0)"

definition filter_step :: "env \<Rightarrow> u8 list \<Rightarrow> u32" where
  "filter_step E r =
     (if def_type r = SPI_REGION then filter_def_size r
      else if def_type r = SMBUS_RULE then 40
      else if CONFIG_SEAMLESS_UPDATE E \<and> def_type r = FVM_ADDR_DEF then 12 else 0)"

lemma filter_step_range: "filter_step E r = 0 \<or> 0 < unat (filter_step E r) \<and> unat (filter_step E r) \<le> 80"
  by (simp add: filter_step_def filter_def_size_def)

lemma filter_def_size_pos: "filter_def_size r \<noteq> 0"
  by (simp add: filter_def_size_def)

lemma filter_round_single:
  assumes "single_flash E dev" and "r = snd (result (pfr_spi_read E dev a 40) s)"
  shows "result (filter_round E dev offset end_addr (a, i)) s =
      (if filter_step E r = 0 then Break (a, i)
       else if end_addr \<le> a + filter_step E r then Break (a + filter_step E r, i)
       else Continue (a + filter_step E r, i))"
proof -
  have single: "\<not> (CONFIG_BMC_DUAL_FLASH E \<and> dev = BMC_SPI \<or> CONFIG_CPU_DUAL_FLASH E \<and> dev = PCH_SPI)"
    using assms(1) by (auto simp: single_flash_def)
  consider "def_type r = SPI_REGION" | "def_type r = SMBUS_RULE"
    | "CONFIG_SEAMLESS_UPDATE E" "def_type r = FVM_ADDR_DEF"
    | "def_type r \<noteq> SPI_REGION" "def_type r \<noteq> SMBUS_RULE" "\<not> (CONFIG_SEAMLESS_UPDATE E \<and> def_type r = FVM_ADDR_DEF)"
    by blast
  then show ?thesis
    by cases (simp_all add: filter_round_def single case_prod_beta Let_def assms(2) [symmetric] filter_step_def
        filter_def_size_pos del: de_Morgan_disj de_Morgan_conj)
qed

lemma filter_walk_ends:
  assumes single: "single_flash E dev" and top: "unat end_addr + 80 < 2 ^ 32" "unat a + 80 < 2 ^ 32"
  shows "ended (result (c_while (unat end_addr + 1) (\<lambda>_. True) (filter_round E dev offset end_addr) (a, i)) s)"
proof (rule c_while_ends_state [of "\<lambda>p _. unat (fst p) + 80 < 2 ^ 32" _ _ "\<lambda>p. unat end_addr - unat (fst p)"])
  fix x y s
  assume I: "unat (fst x) + 80 < 2 ^ 32" and step: "result (filter_round E dev offset end_addr x) s = Continue y"
  obtain a i where x: "x = (a, i)" by (cases x)
  define k where "k = filter_step E (snd (result (pfr_spi_read E dev a 40) s))"
  have y: "k \<noteq> 0" "\<not> end_addr \<le> a + k" "y = (a + k, i)"
    using step filter_round_single [OF single refl, of offset end_addr a i s] x by (auto simp: k_def split: if_splits)
  have k: "0 < unat k" "unat k \<le> 80" using y(1) filter_step_range unfolding k_def by metis+
  then have "unat (a + k) = unat a + unat k"
    using I x by (subst unat_add_lem [symmetric], unfold x fst_conv) (rule le_less_trans [of _ "unat a + 80"]; simp)
  then show "unat (fst y) + 80 < 2 ^ 32 \<and> unat end_addr - unat (fst y) < unat end_addr - unat (fst x)"
    using k y top(1) x by (simp add: word_le_nat_alt)
qed (use top(2) in simp_all)

lemma filter_walk_monitor:
  assumes "single_flash E dev"
    and "ended (result (c_while n (\<lambda>_. True) (filter_round E dev offset end_addr) (a, i)) s)"
  shows "\<exists>b. result (c_while n (\<lambda>_. True) (filter_round E dev offset end_addr) (a, i)) s = Break (b, i)"
  using assms(2)
proof (induction n arbitrary: a s)
  case (Suc n)
  define k where "k = filter_step E (snd (result (pfr_spi_read E dev a 40) s))"
  note step = filter_round_single [OF assms(1) refl, of offset end_addr a i s, folded k_def]
  show ?case
    using Suc.prems Suc.IH [of "a + k" "exec (filter_round E dev offset end_addr (a, i)) s"]
    by (cases "k = 0"; cases "end_addr \<le> a + k") (simp_all add: case_prod_beta step)
qed simp

lemma dev_only_calls: "state_io_rel dev_only m \<Longrightarrow> state_io_rel (calls (\<lambda>_. True)) m"
  by (erule frame_mono) (auto simp: dev_only_def calls_def list_all_iff)

lemma monitor_dev [dev_lemmas]:
  "state_io_rel dev_only (SPI_Monitor_Enable E name b)"
  "state_io_rel dev_only (Set_SPI_Filter_RW_Region E name rw op addr len)"
  "state_io_rel dev_only (filter_region E i a e r)"
  "state_io_rel dev_only (smbus_rule E r)"
  "state_io_rel dev_only (fvm_filter_round E x)"
  unfolding SPI_Monitor_Enable_def Set_SPI_Filter_RW_Region_def filter_region_def smbus_rule_def fvm_filter_round_def Let_def
  by (intro dev.keeps_intros dev_lemmas)+

lemma filter_calls:
  "state_io_rel (calls (\<lambda>_. True)) (apply_fvm_spi_protection E a off)"
  "state_io_rel (calls (\<lambda>_. True)) (filter_round E dev off e x)"
  unfolding apply_fvm_spi_protection_def filter_round_def while_do_def Let_def
  by (intro calls.keeps_return calls.keeps_bind calls.keeps_if calls.keeps_prod calls.keeps_option calls.keeps_flow
      calls.keeps_c_while calls_modify dev_only_calls dev_lemmas; simp)+

lemma filter_walk_arms:
  assumes "single_flash E dev" and "unat end_addr + 80 < 2 ^ 32" and "unat a + 80 < 2 ^ 32"
  shows "\<exists>t. exec (filter_walk E dev offset a end_addr) s = exec (SPI_Monitor_Enable E (spim_devs ! unat dev) True) t \<and>
    calls (\<lambda>_. True) s t"
proof -
  let ?w = "c_while (unat end_addr + 1) (\<lambda>_. True) (filter_round E dev offset end_addr) (a, unat dev)"
  have "ended (result ?w s)" using assms by (rule filter_walk_ends)
  then obtain b where b: "result ?w s = Break (b, unat dev)"
    using filter_walk_monitor [OF assms(1)] by blast
  have "exec (filter_walk E dev offset a end_addr) s = exec (SPI_Monitor_Enable E (spim_devs ! unat dev) True) (exec ?w s)"
    unfolding filter_walk_def while_do_def exec_bind b by simp
  moreover have "calls (\<lambda>_. True) s (exec ?w s)"
    by (intro calls.keepsD calls.keeps_c_while filter_calls)
  ultimately show ?thesis by blast
qed

text \<open>Where the manifest of a host lies: its address in the UFM \<open>u\<close>, its body and its end in the flash \<open>f\<close>.\<close>

definition pfm_address :: "(nat \<Rightarrow> u8) \<Rightarrow> u8 \<Rightarrow> u32" where
  "pfm_address u dev = u32_of_bytes (mem_slice u (unat (pfm_offset dev)) 4)"

definition pfm_below_top :: "(nat \<Rightarrow> u8) \<Rightarrow> u32 \<Rightarrow> bool" where
  "pfm_below_top f a \<longleftrightarrow> unat (a + 0x20) + 80 < 2 ^ 32 \<and>
     unat (a + u32_of_bytes (mem_slice f (unat (a + 0x1c)) 4)) + 80 < 2 ^ 32"

lemma apply_pfm_arms:
  assumes host: "host_flash E H" and nor: "nor_flash E m0 rsize" and bind: "bindings_ok E"
    and dev: "dev = BMC_SPI \<or> dev = PCH_SPI" and single: "single_flash E dev"
    and low: "pfm_below_top (H dev) (pfm_address (rot_mem m0 (trace s) ROT_INTERNAL_INTEL_STATE) dev + sig_block_size (manifest s))"
  shows "\<exists>cs. trace (exec (apply_pfm_protection E dev) s) = trace s @ cs \<and>
    map fst cs \<noteq> [] \<and> last (map fst cs) = Filter (SpimMonitorEnable (spim_devs ! unat dev) True)"
proof -
  define p where "p = pfm_address (rot_mem m0 (trace s) ROT_INTERNAL_INTEL_STATE) dev"
  define off where "off = sig_block_size (manifest s)"
  define n where "n = u32_of_bytes (mem_slice (H dev) (unat (p + off + 0x1c)) 4)"
  define s1 where "s1 = exec (act E (Init InitializeManifestProcessor)) (exec (act E (Init InitializeEngines)) s)"
  define s2 where "s2 = exec (get_provision_data_in_flash E (pfm_offset dev) 4) s1"
  define s3 where "s3 = exec (pfr_spi_read E dev (p + off + 0x1c) 4) s2"
  have s1: "manifest s1 = manifest s" "rot_mem m0 (trace s1) = rot_mem m0 (trace s)" by (simp_all add: s1_def)
  have "\<not> ROT_INTERNAL_INTEL_STATE \<le> PCH_SPI" by simp
  note rd = rot_read [OF nor this, of "pfm_offset dev" 4 s1]
  have m2: "manifest s2 = manifest s" by (simp add: s2_def get_provision_data_in_flash_def rd s1)
  have r2: "run (get_provision_data_in_flash E (pfm_offset dev) 4) s1 =
      ((0, mem_slice (rot_mem m0 (trace s) ROT_INTERNAL_INTEL_STATE) (unat (pfm_offset dev)) 4), s2)"
    by (simp add: s2_def get_provision_data_in_flash_def rd s1)
  have r3: "run (pfr_spi_read E dev (p + off + 0x1c) 4) s2 = ((0, mem_slice (H dev) (unat (p + off + 0x1c)) 4), s3)"
    using dev host by (auto simp: s3_def pfr_spi_read_def host_flash_def case_prod_beta)
  have known: "\<not> (dev \<noteq> BMC_SPI \<and> dev \<noteq> PCH_SPI)" using dev by blast
  have "exec (apply_pfm_protection E dev) s = exec (filter_walk E dev off (p + off + 0x20) (p + off + n)) s3"
    unfolding apply_pfm_protection_def exec_bind s1_def [symmetric] if_not_P [OF known] r2 fst_conv snd_conv prod.case
      Let_def run_gets m2 p_def [unfolded pfm_address_def, symmetric] off_def [symmetric] r3 n_def [symmetric] ..
  moreover have "unat (p + off + n) + 80 < 2 ^ 32" "unat (p + off + 0x20) + 80 < 2 ^ 32"
    using low by (simp_all add: pfm_below_top_def p_def off_def n_def)
  ultimately obtain t where "exec (apply_pfm_protection E dev) s = exec (SPI_Monitor_Enable E (spim_devs ! unat dev) True) t"
    and "calls (\<lambda>_. True) s3 t"
    using filter_walk_arms [OF single] by metis
  moreover have "calls (\<lambda>_. True) s s3"
  proof -
    have "calls (\<lambda>_. True) s s1" by (simp add: s1_def calls_def)
    moreover have "calls (\<lambda>_. True) s1 s2" "calls (\<lambda>_. True) s2 s3"
      unfolding s2_def s3_def by (intro calls.keepsD dev_only_calls dev_lemmas)+
    ultimately show ?thesis using calls.rel_trans by metis
  qed
  ultimately show ?thesis
    using bind by (auto simp: SPI_Monitor_Enable_def bindings_ok_def case_prod_beta calls_def)
qed

end
