(* ===== verification/Pfr_Request.thy ===== *)
theory Pfr_Request
  imports Pfr_Verify Pfr_Filter
begin

text \<open>
  The update states of \<open>AspeedStateMachine.c\<close>: the hash of a staged capsule
  (\<open>get_staging_hash\<close>), recovery updates that wait for the active firmware to boot
  (\<open>handle_recovery_requested\<close>), the version gate of the attestation manifest
  (\<open>validate_afm_update_type\<close>), the loop over the requested regions
  (\<open>handle_update_requested\<close>) and the seamless update and its verification.
\<close>

section \<open>The hash of the staging area\<close>

text \<open>Flash, the provisioned offset of the area (\<open>None\<close>: configured) and its size.\<close>

definition staging_area :: "env \<Rightarrow> u32 \<Rightarrow> cpld_status \<Rightarrow> (u32 \<times> u32 option \<times> u32) option" where
  "staging_area E img_type c =
     (if img_type = BMC_TYPE then Some (BMC_TYPE, Some BMC_STAGING_REGION_OFFSET, CONFIG_BMC_STAGING_SIZE E)
      else if img_type = PCH_TYPE then
        (if BmcToPchStatus c = 1 then Some (BMC_TYPE, Some BMC_STAGING_REGION_OFFSET, CONFIG_PCH_STAGING_SIZE E)
         else Some (PCH_TYPE, Some PCH_STAGING_REGION_OFFSET, CONFIG_PCH_STAGING_SIZE E))
      else if img_type = ROT_TYPE then Some (BMC_TYPE, None, CONFIG_BMC_PFR_STAGING_SIZE E)
      else if CONFIG_PFR_SPDM_ATTESTATION E \<and> img_type = AFM_TYPE
      then Some (BMC_TYPE, Some AFM_STAGING_REGION_OFFSET, CONFIG_BMC_AFM_STAGING_RECOVERY_SIZE E)
      else None)"

text \<open>The answer is the caller's buffer, which both callers have cleared.\<close>

definition get_staging_hash :: "env \<Rightarrow> u32 \<Rightarrow> cpld_status \<Rightarrow> u8 list \<Rightarrow> (world, int \<times> u8 list) state" where
  "get_staging_hash E img_type c hash_buf =
     (case staging_area E img_type c of
        None \<Rightarrow> ret (-1, hash_buf)
      | Some (flash_type, offset, staging_size) \<Rightarrow> do {
          (status, address) \<leftarrow> (case offset of
              None \<Rightarrow> ret (0, CONFIG_BMC_PFR_STAGING_OFFSET E)
            | Some off \<Rightarrow> do {
                (status, bs) \<leftarrow> ufm_read E PROVISION_UFM off 4;
                ret (status, u32_of_bytes bs)
              });
          if status \<noteq> 0 then ret (-1, hash_buf)
          else do {
            upd_manifest (\<lambda>m. m\<lparr>device_id0 := ucast flash_type, hash_kind := HASH_TYPE_SHA384,
              hash_start_address := address, image_type := img_type, hash_length := staging_size\<rparr>);
            (status, bs) \<leftarrow> manifest_get_hash E (of_nat (length hash_buf));
            if status \<noteq> 0 then ret (-1, bs) else ret (0, bs)
          }
        })"

section \<open>The locals of the update loop\<close>

record upd_locals =
  update_region :: u8
  region_index :: "region_def option"
  ul_image_type :: u32
  handled_region :: u8
  evt_ctx_wrap :: event_wrap
  ao_data_wrap :: ao_ref
  cpld_update_status :: cpld_status
  ul_ret :: int

section \<open>Recovery updates\<close>

text \<open>Region, intent bit and hash area of a recovery update.\<close>

definition recovery_target :: "env \<Rightarrow> u32 \<Rightarrow> (region_def \<times> u8 \<times> u32) option" where
  "recovery_target E img_type =
     (if img_type = BMC_TYPE then Some (BMC_REGION, BmcRecoveryUpdate, UPDATE_STATUS_BMC_HASH_ADDR)
      else if img_type = PCH_TYPE then Some (PCH_REGION, PchRecoveryUpdate, UPDATE_STATUS_PCH_HASH_ADDR)
      else if img_type = ROT_TYPE then Some (ROT_REGION, HROTRecoveryUpdate, UPDATE_STATUS_ROT_HASH_ADDR)
      else if CONFIG_PFR_SPDM_ATTESTATION E \<and> img_type = AFM_TYPE
      then Some (AFM_REGION, AfmRecoveryUpdate, UPDATE_STATUS_AFM_HASH_ADDR)
      else None)"

definition recovery_pending :: "env \<Rightarrow> u8 \<Rightarrow> bool" where
  "recovery_pending E r \<longleftrightarrow> r = BMC_INTENT_RECOVERY_PENDING \<or> r = PCH_INTENT_RECOVERY_PENDING \<or>
     CONFIG_PFR_SPDM_ATTESTATION E \<and> r = BMC_INTENT2_AFM_RECOVERY_PENDING"

definition pending_mark :: "env \<Rightarrow> u8 \<Rightarrow> u8 \<Rightarrow> u8" where
  "pending_mark E src r =
     (if src = BmcUpdateIntent then BMC_INTENT_RECOVERY_PENDING
      else if src = PchUpdateIntent then PCH_INTENT_RECOVERY_PENDING
      else if CONFIG_PFR_SPDM_ATTESTATION E \<and> src = BmcUpdateIntent2 then BMC_INTENT2_AFM_RECOVERY_PENDING
      else r)"

text \<open>
  \<open>True\<close> leaves the loop round: with \<open>NO_IMAGE\<close> nothing is updated, otherwise the recovery
  region is, and whatever the image, under the active object of the BMC. \<open>False\<close> goes on with the
  active update.
\<close>

definition handle_recovery_requested :: "env \<Rightarrow> upd_locals \<Rightarrow> (world, bool \<times> upd_locals) state" where
  "handle_recovery_requested E l =
     (case recovery_target E (ul_image_type l) of
        None \<Rightarrow> ret (True, l\<lparr>ul_image_type := NO_IMAGE\<rparr>)
      | Some (region, update_type, ufm_hash_addr) \<Rightarrow> do {
          let l = l\<lparr>update_region := update_region l AND NOT update_type\<rparr>;
          let c = cpld_update_status l;
          evt_ctx \<leftarrow> gets event_ctx;
          if recovery_pending E (Recoveryregion (Region c region)) then
            (if bit8_2 evt_ctx AND BootDoneRecovery = 0 then ret (True, l\<lparr>ul_image_type := NO_IMAGE\<rparr>)
             else do {
               (_, cached_hash) \<leftarrow> ufm_read E UPDATE_STATUS_UFM ufm_hash_addr 48;
               (_, calculated_hash) \<leftarrow> get_staging_hash E (ul_image_type l) c (replicate 48 0);
               let l = (if cached_hash = calculated_hash
                        then l\<lparr>evt_ctx_wrap := (evt_ctx_wrap l)\<lparr>upd_flag := ucast (bit8_1 evt_ctx AND UPDATE_DYNAMIC),
                               upd_flash := SECONDARY_FLASH_REGION\<rparr>,
                             ao_data_wrap := AO_BMC\<rparr>
                        else l\<lparr>ul_image_type := NO_IMAGE\<rparr>);
               ret (True, l\<lparr>handled_region := handled_region l OR update_type,
                 cpld_update_status := upd_recovery region (\<lambda>_. RECOVERY_PENDING_REQUEST_HANDLED) c\<rparr>)
             })
          else do {
            let c' = upd_recovery region (pending_mark E (bit8_0 evt_ctx)) c;
            (_, calculated_hash) \<leftarrow> get_staging_hash E (ul_image_type l) c' (replicate 48 0);
            ufm_write E UPDATE_STATUS_UFM ufm_hash_addr calculated_hash;
            ret (False, l\<lparr>handled_region := handled_region l OR update_type, cpld_update_status := c'\<rparr>)
          }
        })"

section \<open>The version of an attestation manifest\<close>

definition refuse_afm :: "env \<Rightarrow> upd_locals \<Rightarrow> (world, int \<times> upd_locals) state" where
  "refuse_afm E l = do {
     LogUpdateFailure E UPD_CAPSULE_INVALID_SVN 1;
     ret (Failure, l\<lparr>ul_image_type := NO_IMAGE\<rparr>)
   }"

definition validate_afm_update_type :: "env \<Rightarrow> upd_locals \<Rightarrow> (world, int \<times> upd_locals) state" where
  "validate_afm_update_type E l = do {
     afm \<leftarrow> gets AfmStatus;
     if afm AND AFM_RECOVERY_PENDING_UPDATE \<noteq> 0 then do {
       upd_event_ctx (\<lambda>c. c\<lparr>bit8_2 := bit8_2 c OR BootDoneRecovery\<rparr>);
       ret (Success, l)
     }
     else do {
       (_, bs) \<leftarrow> ufm_read E PROVISION_UFM AFM_STAGING_REGION_OFFSET 4;
       let payload_address = u32_of_bytes bs + PFM_SIG_BLOCK_SIZE;
       (status, svn_byte) \<leftarrow> pfr_spi_read E BMC_SPI (payload_address + PFM_SIG_BLOCK_SIZE + 4) 1;
       let hrot_svn = svn_byte ! 0;
       if status \<noteq> Success then ret (Failure, l\<lparr>ul_image_type := NO_IMAGE\<rparr>)
       else if SVN_MAX < unat hrot_svn then refuse_afm E l
       else do {
         current_svn \<leftarrow> get_ufm_svn E SVN_POLICY_FOR_AFM;
         evt_ctx \<leftarrow> gets event_ctx;
         if current_svn < hrot_svn then
           (if bit8_1 evt_ctx AND AfmRecoveryUpdate \<noteq> 0 then do {
              modify (\<lambda>s. s\<lparr>AfmStatus := AFM_ACTIVE_PENDING_UPDATE OR AFM_RECOVERY_PENDING_UPDATE\<rparr>);
              ret (Success, l\<lparr>cpld_update_status :=
                upd_recovery AFM_REGION (\<lambda>_. BMC_INTENT2_AFM_SVN_UPDATE) (cpld_update_status l)\<rparr>)
            }
            else do {
              LogLastPanic E BMC_UPDATE_INTENT;
              refuse_afm E l
            })
         else if hrot_svn < current_svn then refuse_afm E l
         else ret (Success, l)
       }
     }
   }"

section \<open>The requested regions, one after the other\<close>

text \<open>An active update of the image: which of its bits are cleared, under which active object.\<close>

definition request_active :: "u8 \<Rightarrow> ao_ref option \<Rightarrow> bool \<Rightarrow> event_context \<Rightarrow> upd_locals \<Rightarrow> upd_locals" where
  "request_active bit' ao dynamic evt_ctx l =
     l\<lparr>evt_ctx_wrap := (if dynamic
         then (evt_ctx_wrap l)\<lparr>upd_flag := ucast (bit8_1 evt_ctx AND UPDATE_DYNAMIC), upd_flash := PRIMARY_FLASH_REGION\<rparr>
         else (evt_ctx_wrap l)\<lparr>upd_flash := PRIMARY_FLASH_REGION\<rparr>),
       update_region := update_region l AND NOT bit',
       handled_region := handled_region l OR bit',
       ao_data_wrap := (case ao of Some a \<Rightarrow> a | None \<Rightarrow> ao_data_wrap l)\<rparr>"

text \<open>One image: its recovery request when the intent asks for it, then its active update.\<close>

definition request_image ::
    "env \<Rightarrow> u32 \<Rightarrow> region_def \<Rightarrow> u8 \<Rightarrow> u8 \<Rightarrow> ao_ref option \<Rightarrow> bool \<Rightarrow> upd_locals \<Rightarrow> (world, upd_locals) state" where
  "request_image E img_type region recovery_bit active_bit ao dynamic l = do {
     let l = l\<lparr>ul_image_type := img_type, region_index := Some region\<rparr>;
     (leave, l) \<leftarrow> (if update_region l AND recovery_bit \<noteq> 0 then handle_recovery_requested E l
                    else ret (False, l));
     if leave then ret l
     else do {
       evt_ctx \<leftarrow> gets event_ctx;
       ret (request_active active_bit ao dynamic evt_ctx l)
     }
   }"

definition request_afm :: "env \<Rightarrow> upd_locals \<Rightarrow> (world, upd_locals) state" where
  "request_afm E l = do {
     (status, l) \<leftarrow> validate_afm_update_type E (l\<lparr>ul_image_type := AFM_TYPE, region_index := Some AFM_REGION\<rparr>);
     if status \<noteq> 0
     then ret (l\<lparr>update_region := update_region l AND NOT AfmActiveAndRecoveryUpdate, ul_ret := Failure\<rparr>)
     else request_image E AFM_TYPE AFM_REGION AfmRecoveryUpdate AfmActiveUpdate (Some AO_AFM) False l
   }"

definition choose_image :: "env \<Rightarrow> upd_locals \<Rightarrow> (world, upd_locals) state" where
  "choose_image E l = do {
     evt_ctx \<leftarrow> gets event_ctx;
     if bit8_0 evt_ctx = PchUpdateIntent \<or> bit8_0 evt_ctx = BmcUpdateIntent then
       (if update_region l AND BmcActiveAndRecoveryUpdate \<noteq> 0 then do {
          SetPlatformState E BMC_FW_UPDATE;
          request_image E BMC_TYPE BMC_REGION BmcRecoveryUpdate BmcActiveUpdate (Some AO_BMC) True l
        }
        else if update_region l AND PchActiveAndRecoveryUpdate \<noteq> 0 then do {
          SetPlatformState E PCH_FW_UPDATE;
          request_image E PCH_TYPE PCH_REGION PchRecoveryUpdate PchActiveUpdate (Some AO_PCH) True l
        }
        else if update_region l AND HROTActiveAndRecoveryUpdate \<noteq> 0 then do {
          SetPlatformState E CPLD_FW_UPDATE;
          request_image E ROT_TYPE ROT_REGION HROTRecoveryUpdate HROTActiveUpdate None False l
        }
        else ret l)
     else if bit8_0 evt_ctx = BmcUpdateIntent2 \<and> CONFIG_PFR_SPDM_ATTESTATION E \<and>
       update_region l AND AfmActiveAndRecoveryUpdate \<noteq> 0 then request_afm E l
     else ret l
   }"

definition update_round :: "env \<Rightarrow> upd_locals \<Rightarrow> (world, (upd_locals, unit) flow) state" where
  "update_round E l = do {
     l \<leftarrow> choose_image E (l\<lparr>ul_image_type := NO_IMAGE\<rparr>);
     l \<leftarrow> (if ul_image_type l = NO_IMAGE then ret l
           else do {
             (r, c) \<leftarrow> update_firmware_image E (ul_image_type l) (ao_data_wrap l) (evt_ctx_wrap l)
               (cpld_update_status l);
             ret (l\<lparr>ul_ret := r, cpld_update_status := c\<rparr>)
           });
     upd_event_ctx (bit8_3_update (\<lambda>_. handled_region l));
     if ul_ret l = Success then ret (Continue l)
     else do {
       evt_ctx \<leftarrow> gets event_ctx;
       GenerateStateMachineEvent E UPDATE_FAILED (data_ptr evt_ctx);
       ret (Continue (l\<lparr>cpld_update_status :=
         clear_pending_recovery_update (region_index l) (cpld_update_status l)\<rparr>))
     }
   }"

section \<open>The update handler\<close>

text \<open>The regions an intent asks for, and what it means for the manifest and the status.\<close>

definition start_update :: "env \<Rightarrow> cpld_status \<Rightarrow> (world, upd_locals) state" where
  "start_update E cached_status = do {
     evt_ctx \<leftarrow> gets event_ctx;
     let intent = bit8_1 evt_ctx;
     let region = intent AND PchBmcHROTActiveAndRecoveryUpdate;
     let l = \<lparr>update_region = region, region_index = None, ul_image_type = NO_IMAGE, handled_region = 0,
              evt_ctx_wrap = \<lparr>evt_operation = NONE, evt_image = BMC_EVENT, upd_flash = ucast (uninit E 0),
                upd_flag = ucast (uninit E 1)\<rparr>,
              ao_data_wrap = AO_NULL, cpld_update_status = cached_status, ul_ret = Success\<rparr>;
     if bit8_0 evt_ctx = PchUpdateIntent then
       (if region = 0 then do {
          LogUpdateFailure E INVALID_UPD_INTENT 0;
          ret l
        }
        else do {
          upd_event_ctx (bit8_1_update (\<lambda>_. intent AND PchActiveRecoveryDynamicUpdateAtReset));
          upd_manifest (update_intent1_update (\<lambda>_. intent AND PchActiveRecoveryDynamicUpdateAtReset));
          ret l
        })
     else if bit8_0 evt_ctx = BmcUpdateIntent then do {
       upd_manifest (update_intent1_update (\<lambda>_. intent));
       ret (if region AND PchActiveUpdate \<noteq> 0 \<or> region AND PchRecoveryUpdate \<noteq> 0
            then l\<lparr>cpld_update_status := cached_status\<lparr>BmcToPchStatus := 1\<rparr>\<rparr> else l)
     }
     else if bit8_0 evt_ctx = BmcUpdateIntent2 then do {
       upd_manifest (update_intent2_update (\<lambda>_. intent));
       ret (if CONFIG_PFR_SPDM_ATTESTATION E
            then l\<lparr>update_region := region OR (intent AND AfmActiveUpdate) OR (intent AND AfmRecoveryUpdate)\<rparr>
            else l)
     }
     else ret l
   }"

abbreviation "update_rounds \<equiv> 64 :: nat"

definition finish_update :: "env \<Rightarrow> cpld_status \<Rightarrow> upd_locals \<Rightarrow> (world, unit) state" where
  "finish_update E cached_status l = do {
     upd_event_ctx (\<lambda>c. c\<lparr>bit8_2 := bit8_2 c AND NOT BootDoneRecovery\<rparr>);
     evt_ctx \<leftarrow> gets event_ctx;
     GenerateStateMachineEvent E (if update_region l = 0 \<and> ul_ret l = Success then UPDATE_DONE else UPDATE_FAILED)
       (data_ptr evt_ctx);
     write_changed_status E cached_status (cpld_update_status l);
     afm \<leftarrow> gets AfmStatus;
     cwhen (CONFIG_PFR_SPDM_ATTESTATION E \<and> afm AND AFM_PENDING_UPDATE_STATE \<noteq> 0) (do {
       upd_event_ctx (\<lambda>c. c\<lparr>bit8_0 := BmcUpdateIntent2, bit8_1 := AfmRecoveryUpdate\<rparr>);
       evt_ctx \<leftarrow> gets event_ctx;
       GenerateStateMachineEvent E UPDATE_REQUESTED (data_ptr evt_ctx)
     })
   }"

definition handle_update_requested :: "env \<Rightarrow> (world, unit) state" where
  "handle_update_requested E = do {
     upd_manifest (\<lambda>m. m\<lparr>update_intent1 := 0, update_intent2 := 0\<rparr>);
     (_, cached_status) \<leftarrow> read_update_status E;
     l \<leftarrow> start_update E cached_status;
     while_do update_rounds (\<lambda>l. update_region l \<noteq> 0) (update_round E) l () (finish_update E cached_status)
   }"

section \<open>Seamless updates\<close>

text \<open>The locals of the loop are the regions left, the operation and the regions handled.\<close>

definition seamless_round :: "env \<Rightarrow> u8 \<times> operations \<times> u32 \<Rightarrow> (world, (u8 \<times> operations \<times> u32, unit) flow) state" where
  "seamless_round E = (\<lambda>(region, operation, handled). do {
     (region, operation, handled, img_type) \<leftarrow>
       (if region AND SeamlessUpdate \<noteq> 0 then do {
          SetPlatformState E PCH_SEAMLESS_UPDATE;
          ret (region AND NOT SeamlessUpdate, SEAMLESS_UPDATE_OP, handled OR ucast SeamlessUpdate, PCH_TYPE)
        }
        else ret (region, operation, handled, NO_IMAGE));
     cwhen (operation = SEAMLESS_UPDATE_OP) (do {
       r \<leftarrow> perform_seamless_update E img_type (ucast (uninit E 0));
       SetPlatformState E PCH_SEAMLESS_UPDATE_DONE;
       GenerateStateMachineEvent E (if r \<noteq> Success then SEAMLESS_UPDATE_FAILED else SEAMLESS_UPDATE_DONE)
         (ucast handled, 0, 0, 0)
     });
     ret (Continue (region, operation, handled))
   })"

definition handle_seamless_update_requested :: "env \<Rightarrow> (world, unit) state" where
  "handle_seamless_update_requested E = do {
     evt_ctx \<leftarrow> gets event_ctx;
     let region = bit8_1 evt_ctx AND 0x3f;
     upd_manifest (update_intent2_update (\<lambda>_. 0));
     region \<leftarrow>
       (if bit8_1 evt_ctx AND 1 \<noteq> 0 \<and>
           (bit8_0 evt_ctx = PchUpdateIntent2 \<or> bit8_0 evt_ctx = BmcUpdateIntent2) then do {
          upd_manifest (update_intent2_update (\<lambda>_. bit8_1 evt_ctx AND 1));
          cwhen (bit8_0 evt_ctx = BmcUpdateIntent2) (do {
            (_, c) \<leftarrow> read_update_status E;
            write_update_status E (c\<lparr>BmcToPchStatus := 1\<rparr>);
            ret ()
          });
          ret (region AND SeamlessUpdate)
        }
        else ret region);
     while_do update_rounds (\<lambda>(region, _, _). region \<noteq> 0) (seamless_round E) (region, NONE, 0) () (\<lambda>_. ret ())
   }"

definition handle_seamless_update_verification :: "env \<Rightarrow> (world, unit) state" where
  "handle_seamless_update_verification E = do {
     switch_pch_mux E True;
     r \<leftarrow> authentication_image E
       \<lparr>evt_operation = VERIFY_ACTIVE, evt_image = PCH_EVENT, upd_flash = PRIMARY_FLASH_REGION, upd_flag = 0\<rparr>;
     (if r = 0 then do {
        apply_pfm_protection E PCH_SPI;
        GenerateStateMachineEvent E SEAMLESS_VERIFY_DONE NULL_data
      }
      else do {
        LogUpdateFailure E SEAMLESS_AUTH_FAILED_AFTER_UPDATE 0;
        GenerateStateMachineEvent E SEAMLESS_VERIFY_FAILED NULL_data
      });
     switch_pch_mux E False
   }"

end
