(* ===== verification/Pfr_Boot.thy ===== *)
theory Pfr_Boot
  imports Pfr_Request
begin

text \<open>
  The entry, exit and run actions of the remaining states of \<open>AspeedStateMachine.c\<close>:
  initialisation, the hold of the platform (\<open>enter_tmin1\<close>), its release (\<open>enter_tzero\<close>),
  checkpoints, provisioning at run time, lockdown and reboot.
\<close>

section \<open>The bus filters\<close>

definition i2c_filter_names :: "string list" where
  "i2c_filter_names = [''i2cfilter0'', ''i2cfilter1'', ''i2cfilter2'', ''i2cfilter3'', ''i2cfilter4'']"

text \<open>The loop over the first four I2C filters; a filter that is not found is left alone.\<close>

definition init_i2c_filter :: "env \<Rightarrow> nat \<Rightarrow> (world, unit) state" where
  "init_i2c_filter E i = do {
     (flt_dev, _) \<leftarrow> ext E (Filter (DeviceGetBinding (i2c_filter_names ! i)));
     if flt_dev = 0 then ret ()
     else do {
       act E (Filter (I2cFilterInit i));
       act E (Filter (I2cFilterEnable i True False True True));
       act E (Filter (I2cFilterDefault i))
     }
   }"

definition init_i2c_filters :: "env \<Rightarrow> (world, unit) state" where
  "init_i2c_filters E = for_each [0, 1, 2, 3] (init_i2c_filter E)"

section \<open>Initialisation\<close>

definition failed_ao :: "ao_data \<Rightarrow> ao_data" where
  "failed_ao a = a\<lparr>ActiveImageStatus := 1, RecoveryImageStatus := 1, RestrictActiveUpdate := 0\<rparr>"

abbreviation "BOOT_FROM_ALTERNATE_PART \<equiv> 1 :: int"

definition do_init :: "env \<Rightarrow> (world, unit) state" where
  "do_init E = do {
     cwhen (CONFIG_FRONT_PANEL_LED E) (act E (Init InitFPLEDs));
     for_each [InitializeEngines, InitializeManifestProcessor, DebugLogInit, SpimIrqInit, InitFlashMutex]
       (\<lambda>i. act E (Init i));
     BMCBootHold E;
     PCHBootHold E;
     modify (upd_ao AO_BMC failed_ao);
     modify (upd_ao AO_PCH failed_ao);
     cwhen (CONFIG_PFR_SPDM_ATTESTATION E) (modify (upd_ao AO_AFM failed_ao));
     (rot_boot_from, _) \<leftarrow> ext E (Board GetBootIndicator);
     act E (Board DisableAbrWdt);
     if rot_boot_from = BOOT_FROM_ALTERNATE_PART then GenerateStateMachineEvent E INIT_ROT_SECONDARY_BOOTED NULL_data
     else do {
       InitializeSmbusMailbox E;
       for_each [InitI2c, InitI3c, InitMctp, InitSpdm] (\<lambda>i. act E (Init i));
       cwhen (CONFIG_PFR_SPDM_ATTESTATION E) (do {
         enabled \<leftarrow> IsSpdmAttestationEnabled E;
         cwhen enabled (act E (Link SpdmEnableAttester));
         MBX_REG_SETTER E ProvisionStatus2 (if enabled then 1 else 0)
       });
       SetPlatformState E CPLD_NIOS_II_PROCESSOR_WAITING_TO_START;
       GenerateStateMachineEvent E INIT_DONE NULL_data;
       SetPlatformState E CPLD_NIOS_II_PROCESSOR_STARTED
     }
   }"

section \<open>Entering T-1\<close>

definition WDT_PCH_BOOT_DONE_MASK :: "env \<Rightarrow> u8" where
  "WDT_PCH_BOOT_DONE_MASK E = (if SUPPORT_ME E then WDT_ME_BOOT_DONE_MASK else 0) OR
     WDT_ACM_BOOT_DONE_MASK OR WDT_IBB_BOOT_DONE_MASK OR WDT_OBB_BOOT_DONE_MASK"

datatype reset_scope = Whole_Platform | Bmc_Only | Pch_Only

text \<open>Who asked, and whether only one host has to be held.\<close>

definition reset_scope_of :: "env \<Rightarrow> (world, reset_scope) state" where
  "reset_scope_of E = do {
     evt_ctx \<leftarrow> gets event_ctx;
     let region = bit8_1 evt_ctx AND PchBmcHROTActiveAndRecoveryUpdate;
     if bit8_0 evt_ctx = BmcUpdateIntent then do {
       LogLastPanic E BMC_UPDATE_INTENT;
       ret (if region AND ExceptBmcActiveUpdate = 0 \<and> region AND BmcActiveUpdate \<noteq> 0 then Bmc_Only else Whole_Platform)
     }
     else if bit8_0 evt_ctx = PchUpdateIntent then do {
       LogLastPanic E PCH_UPDATE_INTENT;
       ret (if region AND ExceptPchActiveUpdate = 0 \<and> region AND PchActiveUpdate \<noteq> 0 then Pch_Only else Whole_Platform)
     }
     else if ev evt_ctx = RESET_DETECTED then do {
       LogLastPanic E BMC_RESET_DETECT;
       from_unprovisioned \<leftarrow> gets reset_from_unprovision_state;
       if from_unprovisioned then do {
         modify (reset_from_unprovision_state_update (\<lambda>_. False));
         provision_state \<leftarrow> GetUfmStatusValue E;
         ret (if provision_state AND UFM_PROVISIONED = 0 then Bmc_Only else Whole_Platform)
       }
       else ret Bmc_Only
     }
     else ret Whole_Platform
   }"

definition clear_boot_done :: "u8 \<Rightarrow> (world, unit) state" where
  "clear_boot_done bits = modify (\<lambda>s. s\<lparr>gWdtBootStatus := gWdtBootStatus s AND NOT bits\<rparr>)"

definition hold_platform :: "env \<Rightarrow> (world, unit) state" where
  "hold_platform E = do {
     init_i2c_filters E;
     upd_event_ctx (\<lambda>c. c\<lparr>bit8_2 := bit8_2 c AND NOT (BmcOnlyReset OR PchOnlyReset)\<rparr>);
     BMCBootHold E;
     PCHBootHold E;
     clear_boot_done (WDT_ALL_BOOT_DONE_MASK E);
     MBX_REG_SETTER E AcmCheckpoint 0;
     MBX_REG_SETTER E BmcCheckpoint 0;
     MBX_REG_SETTER E BiosCheckpoint 0;
     cwhen (CONFIG_PFR_MCTP_I3C E) (do {
       act E (Link I3cDetachBmc);
       (owner, _) \<leftarrow> ext E (Link GetI3cOwner);
       cwhen (owner = 1) (do {
         act E (Link (I3cDetachCpu 0));
         act E (Link (I3cDetachCpu 1))
       })
     })
   }"

definition enter_tmin1 :: "env \<Rightarrow> (world, unit) state" where
  "enter_tmin1 E = do {
     scope \<leftarrow> reset_scope_of E;
     (case scope of
        Bmc_Only \<Rightarrow> do {
          init_i2c_filters E;
          BMCBootHold E;
          upd_event_ctx (\<lambda>c. c\<lparr>bit8_2 := bit8_2 c OR BmcOnlyReset\<rparr>);
          clear_boot_done WDT_BMC_BOOT_DONE_MASK;
          MBX_REG_SETTER E BmcCheckpoint 0;
          cwhen (CONFIG_PFR_MCTP_I3C E) (act E (Link I3cDetachBmc))
        }
      | Pch_Only \<Rightarrow> do {
          PCHBootHold E;
          upd_event_ctx (\<lambda>c. c\<lparr>bit8_2 := bit8_2 c OR PchOnlyReset\<rparr>);
          clear_boot_done (WDT_PCH_BOOT_DONE_MASK E);
          MBX_REG_SETTER E AcmCheckpoint 0;
          MBX_REG_SETTER E BiosCheckpoint 0
        }
      | Whole_Platform \<Rightarrow> hold_platform E);
     SetPlatformState E ENTER_T_MINUS_1;
     show_provision_info E;
     act E (Board (PowerBtn False))
   }"

section \<open>Entering and leaving T0\<close>

text \<open>An unprovisioned platform opens every SPI monitor and I2C filter it finds.\<close>

definition bypass_spi :: "env \<Rightarrow> string \<Rightarrow> (world, unit) state" where
  "bypass_spi E monitor = do {
     (dev, _) \<leftarrow> ext E (Filter (DeviceGetBinding monitor));
     if dev = 0 then ret ()
     else do {
       Set_SPI_Filter_RW_Region E monitor SPI_FILTER_READ_PRIV SPI_FILTER_PRIV_ENABLE 0 0x10000000;
       Set_SPI_Filter_RW_Region E monitor SPI_FILTER_WRITE_PRIV SPI_FILTER_PRIV_ENABLE 0 0x10000000;
       SPI_Monitor_Enable E monitor False
     }
   }"

definition bypass_i2c :: "env \<Rightarrow> nat \<Rightarrow> (world, unit) state" where
  "bypass_i2c E i = do {
     (dev, _) \<leftarrow> ext E (Filter (DeviceGetBinding (i2c_filter_names ! i)));
     if dev = 0 then ret ()
     else do {
       act E (Filter (I2cFilterInit i));
       act E (Filter (I2cFilterEnable i True False False False))
     }
   }"

definition release_unprovisioned :: "env \<Rightarrow> u8 \<Rightarrow> (world, unit) state" where
  "release_unprovisioned E reset = do {
     for_each [BMC_SPI_MONITOR, BMC_SPI_MONITOR_2, PCH_SPI_MONITOR, PCH_SPI_MONITOR_2] (bypass_spi E);
     for_each [0, 1, 2, 3, 4] (bypass_i2c E);
     if reset AND BmcOnlyReset \<noteq> 0 then BMCBootRelease E
     else if reset AND PchOnlyReset \<noteq> 0 then PCHBootRelease E
     else do { BMCBootRelease E; PCHBootRelease E }
   }"

definition release_provisioned :: "env \<Rightarrow> u8 \<Rightarrow> (world, unit) state" where
  "release_provisioned E reset =
     (if reset AND BmcOnlyReset \<noteq> 0 then do {
        apply_pfm_protection E BMC_SPI;
        BMCBootRelease E
      }
      else if reset AND PchOnlyReset \<noteq> 0 then do {
        apply_pfm_protection E PCH_SPI;
        PCHBootRelease E
      }
      else do {
        bmc \<leftarrow> gets bmc_active_object;
        cwhen (ActiveImageStatus bmc = 0) (do {
          apply_pfm_protection E BMC_SPI;
          BMCBootRelease E
        });
        pch \<leftarrow> gets pch_active_object;
        cwhen (ActiveImageStatus pch = 0) (do {
          apply_pfm_protection E PCH_SPI;
          PCHBootRelease E
        })
      })"

definition enter_tzero :: "env \<Rightarrow> (world, unit) state" where
  "enter_tzero E = do {
     SetPlatformState E ENTER_T0;
     cwhen (CONFIG_PFR_MCTP_I3C E) (act E (Link SwitchI3cOwnerBmc));
     act E (Board ResetMonitorInit);
     act E (Board PlatformMonitorInit);
     evt_ctx \<leftarrow> gets event_ctx;
     st \<leftarrow> gets current;
     (if st = RUNTIME then release_provisioned E (bit8_2 evt_ctx) else release_unprovisioned E (bit8_2 evt_ctx));
     act E (Board (PowerBtn True))
   }"

definition exit_tzero :: "env \<Rightarrow> (world, unit) state" where
  "exit_tzero E = do {
     act E (Board ResetMonitorRemove);
     act E (Board PlatformMonitorRemove)
   }"

section \<open>Checkpoints\<close>

abbreviation "PFR_SYSTEM_BMC_BOOTED \<equiv> 1 :: u32"

definition handle_unprovisioned_checkpoint :: "env \<Rightarrow> (world, unit) state" where
  "handle_unprovisioned_checkpoint E = do {
     evt_ctx \<leftarrow> gets event_ctx;
     cwhen (bit8_0 evt_ctx = BmcCheckpoint \<and> bit8_1 evt_ctx = CompletingExecutionBlock)
       (act E (Kern (KEventPost PFR_SYSTEM_BMC_BOOTED)))
   }"

definition run_attester :: "env \<Rightarrow> (world, unit) state" where
  "run_attester E = do {
     afm \<leftarrow> gets afm_active_object;
     cwhen (CONFIG_PFR_SPDM_ATTESTATION E \<and> ActiveImageStatus afm = 0) (act E (Link SpdmRunAttester))
   }"

definition attach_bmc_i3c :: "env \<Rightarrow> (world, unit) state" where
  "attach_bmc_i3c E = do {
     act E (Link I3cAttachBmc);
     act E (Link I3cConfigureCpu)
   }"

definition handle_checkpoint :: "env \<Rightarrow> (world, unit) state" where
  "handle_checkpoint E = do {
     evt_ctx \<leftarrow> gets event_ctx;
     let v = bit8_1 evt_ctx;
     if bit8_0 evt_ctx = BmcCheckpoint then do {
       cwhen (v = CompletingExecutionBlock) (do {
         act E (Kern (KEventPost PFR_SYSTEM_BMC_BOOTED));
         run_attester E;
         cwhen (CONFIG_PFR_MCTP_I3C E) (attach_bmc_i3c E)
       });
       UpdateBmcCheckpoint E v
     }
     else if bit8_0 evt_ctx = AcmCheckpoint then UpdateAcmCheckpoint E v
     else if bit8_0 evt_ctx = BiosCheckpoint then do {
       cwhen (v = CompletingExecutionBlock) (run_attester E);
       UpdateBiosCheckpoint E v
     }
     else ret ()
   }"

section \<open>Run actions\<close>

definition provision_request :: "env \<Rightarrow> (world, unit) state" where
  "provision_request E = do {
     handle_provision_event E;
     cwhen (CONFIG_PIT_PROTECTION E) (handle_pit_event E)
   }"

definition do_unprovisioned :: "env \<Rightarrow> (world, unit) state" where
  "do_unprovisioned E = do {
     evt_ctx \<leftarrow> gets event_ctx;
     if ev evt_ctx = PROVISION_CMD then provision_request E
     else if ev evt_ctx = WDT_CHECKPOINT then do {
       handle_unprovisioned_checkpoint E;
       cwhen (CONFIG_PFR_MCTP_I3C E)
         (if bit8_1 evt_ctx = PausingExecutionBlock then
            cwhen (bit8_0 evt_ctx = BmcCheckpoint) (do {
              act E (Link SwitchI3cOwnerRot);
              act E (Link I3cConfigureCpu)
            })
          else cwhen (bit8_1 evt_ctx = CompletingExecutionBlock) (attach_bmc_i3c E))
     }
     else ret ()
   }"

definition start_bmc_watchdog :: "env \<Rightarrow> (world, unit) state" where
  "start_bmc_watchdog E =
     cwhen (CONFIG_BMC_CHECKPOINT_RECOVERY E) (pfr_start_timer E BMC_TIMER (BMC_CHECKPOINT_EXPIRE_TIME E))"

definition start_pch_watchdog :: "env \<Rightarrow> (world, unit) state" where
  "start_pch_watchdog E = cwhen (CONFIG_PCH_CHECKPOINT_RECOVERY E)
     (pfr_start_timer E (if SUPPORT_ME E then ME_TIMER else ACM_TIMER) (PCH_CHECKPOINT_EXPIRE_TIME E))"

definition enter_runtime :: "env \<Rightarrow> (world, unit) state" where
  "enter_runtime E = do {
     evt_ctx \<leftarrow> gets event_ctx;
     if CONFIG_SEAMLESS_UPDATE E \<and>
        ev evt_ctx \<in> {SEAMLESS_UPDATE_DONE, SEAMLESS_UPDATE_FAILED, SEAMLESS_VERIFY_DONE, SEAMLESS_VERIFY_FAILED}
     then ret ()
     else if bit8_2 evt_ctx AND BmcOnlyReset \<noteq> 0 then start_bmc_watchdog E
     else if bit8_2 evt_ctx AND PchOnlyReset \<noteq> 0 then start_pch_watchdog E
     else do {
       start_bmc_watchdog E;
       start_pch_watchdog E
     }
   }"

definition exit_runtime :: "env \<Rightarrow> (world, unit) state" where
  "exit_runtime E = cwhen (CONFIG_PFR_SPDM_ATTESTATION E) (act E (Link SpdmStopAttester))"

definition do_runtime :: "env \<Rightarrow> (world, unit) state" where
  "do_runtime E = do {
     evt_ctx \<leftarrow> gets event_ctx;
     if ev evt_ctx = PROVISION_CMD then provision_request E
     else if ev evt_ctx = WDT_CHECKPOINT then handle_checkpoint E
     else if ev evt_ctx = UPDATE_REQUESTED then handle_update_at_reset E
     else ret ()
   }"

definition enter_lockdown :: "env \<Rightarrow> (world, unit) state" where
  "enter_lockdown E = do {
     BMCBootHold E;
     PCHBootHold E;
     SetPlatformState E LOCKDOWN_ON_AUTH_FAIL
   }"

definition do_reboot :: "env \<Rightarrow> (world, unit) state" where
  "do_reboot E = act E (Kern Reboot)"

end
