(* ===== verification/Pfr_Machine.thy ===== *)
theory Pfr_Machine
  imports Pfr_Boot
begin

text \<open>
  The state machine of \<open>AspeedStateMachine.c\<close>: \<open>state_table\<close> (the entry, run and exit action
  and the parent of each state), the transition of each event (\<open>AspeedStateMachine\<close>) and one
  pass of its loop. The library that runs the actions of a transition is the parameter
  \<open>smf_exits\<close>, \<open>smf_entries\<close> of the model: the states whose exit and entry actions it runs.
\<close>

section \<open>The state table\<close>

fun parent_of :: "env \<Rightarrow> pfr_state \<Rightarrow> pfr_state option" where
  "parent_of E FIRMWARE_VERIFY = Some TMIN1"
| "parent_of E FIRMWARE_RECOVERY = Some TMIN1"
| "parent_of E FIRMWARE_UPDATE = Some TMIN1"
| "parent_of E SYSTEM_LOCKDOWN = Some TMIN1"
| "parent_of E UNPROVISIONED = Some TZERO"
| "parent_of E RUNTIME = Some TZERO"
| "parent_of E SEAMLESS_UPDATE = (if CONFIG_SEAMLESS_UPDATE E then Some TZERO else None)"
| "parent_of E SEAMLESS_VERIFY = (if CONFIG_SEAMLESS_UPDATE E then Some TZERO else None)"
| "parent_of E _ = None"

fun state_entry :: "env \<Rightarrow> pfr_state \<Rightarrow> (world, unit) state" where
  "state_entry E TMIN1 = enter_tmin1 E"
| "state_entry E TZERO = enter_tzero E"
| "state_entry E RUNTIME = enter_runtime E"
| "state_entry E SYSTEM_LOCKDOWN = enter_lockdown E"
| "state_entry E _ = ret ()"

fun state_exit :: "env \<Rightarrow> pfr_state \<Rightarrow> (world, unit) state" where
  "state_exit E TZERO = exit_tzero E"
| "state_exit E RUNTIME = exit_runtime E"
| "state_exit E _ = ret ()"

fun state_run :: "env \<Rightarrow> pfr_state \<Rightarrow> (world, unit) state" where
  "state_run E INIT = do_init E"
| "state_run E ROT_RECOVERY = do_rot_recovery E"
| "state_run E FIRMWARE_VERIFY = do_verify E"
| "state_run E FIRMWARE_RECOVERY = do_recovery E"
| "state_run E FIRMWARE_UPDATE = handle_update_requested E"
| "state_run E UNPROVISIONED = do_unprovisioned E"
| "state_run E RUNTIME = do_runtime E"
| "state_run E SEAMLESS_UPDATE = (if CONFIG_SEAMLESS_UPDATE E then handle_seamless_update_requested E else ret ())"
| "state_run E SEAMLESS_VERIFY = (if CONFIG_SEAMLESS_UPDATE E then handle_seamless_update_verification E else ret ())"
| "state_run E SYSTEM_REBOOT = do_reboot E"
| "state_run E _ = ret ()"

section \<open>The transition of an event\<close>

abbreviation "MAX_UPD_FAILED_ALLOWED \<equiv> 10 :: u32"

text \<open>The answer of each arm: the next state, and whether the run action runs without one.\<close>

type_synonym transition = "pfr_state option \<times> bool"

abbreviation stay :: transition where "stay \<equiv> (None, False)"
abbreviation rerun :: transition where "rerun \<equiv> (None, True)"
abbreviation goto :: "pfr_state \<Rightarrow> transition" where "goto q \<equiv> (Some q, False)"

text \<open>The arms that only look at the event.\<close>

definition plain_transition :: "pfr_state \<Rightarrow> pfr_event \<Rightarrow> transition" where
  "plain_transition current_state e =
     (case current_state of
        BOOT \<Rightarrow> if e = START_STATE_MACHINE then goto INIT else stay
      | INIT \<Rightarrow> if e = INIT_DONE then goto FIRMWARE_VERIFY
               else if e = INIT_ROT_SECONDARY_BOOTED then goto ROT_RECOVERY else stay
      | ROT_RECOVERY \<Rightarrow> if e = RECOVERY_DONE then goto SYSTEM_REBOOT
               else if e = RECOVERY_FAILED then goto SYSTEM_LOCKDOWN else stay
      | FIRMWARE_VERIFY \<Rightarrow> if e = UPDATE_REQUESTED then goto FIRMWARE_UPDATE
               else if e = VERIFY_UNPROVISIONED then goto UNPROVISIONED
               else if e = VERIFY_FAILED then goto FIRMWARE_RECOVERY
               else if e = VERIFY_DONE then goto RUNTIME
               else if e = RECOVERY_FAILED \<or> e = HANDSHAKE_FAILED then goto SYSTEM_LOCKDOWN else stay
      | FIRMWARE_RECOVERY \<Rightarrow> if e = RECOVERY_DONE then goto FIRMWARE_VERIFY
               else if e = RECOVERY_FAILED then goto SYSTEM_LOCKDOWN else stay
      | FIRMWARE_UPDATE \<Rightarrow> if e = UPDATE_FAILED then goto FIRMWARE_VERIFY else stay
      | _ \<Rightarrow> stay)"

definition reset_bmc_link :: "env \<Rightarrow> (world, transition) state" where
  "reset_bmc_link E = do {
     cwhen (CONFIG_PFR_MCTP_I3C E) (do {
       act E (Link I3cDetachBmc);
       act E (Link I3cAttachBmc)
     });
     ret stay
   }"

definition update_transition :: "event_context \<Rightarrow> transition" where
  "update_transition fifo_in =
     (if bit8_0 fifo_in = BmcUpdateIntent \<and> bit8_3 fifo_in AND HROTActiveUpdate \<noteq> 0 then goto SYSTEM_REBOOT
      else goto FIRMWARE_VERIFY)"

text \<open>An update request is refused after ten failed ones.\<close>

definition attempts_left :: "env \<Rightarrow> (world, transition) state \<Rightarrow> (world, transition) state" where
  "attempts_left E m = do {
     failed \<leftarrow> getFailedUpdateAttemptsCount;
     if MAX_UPD_FAILED_ALLOWED \<le> failed then do {
       LogUpdateFailure E UPD_EXCEED_MAX_FAIL_ATTEMPT 0;
       ret stay
     }
     else m
   }"

definition runtime_transition :: "env \<Rightarrow> event_context \<Rightarrow> (world, transition) state" where
  "runtime_transition E fifo_in =
     (case ev fifo_in of
        RESET_DETECTED \<Rightarrow> do {
          set_secure_connection_state E False;
          ret (goto FIRMWARE_VERIFY)
        }
      | SEAL_FIRMWARE \<Rightarrow> ret (if CONFIG_PIT_PROTECTION E then goto FIRMWARE_VERIFY else stay)
      | UPDATE_REQUESTED \<Rightarrow> attempts_left E (ret
          (if bit8_1 fifo_in AND PchBmcHROTActiveAndRecoveryUpdate = 0 then stay
           else if bit8_1 fifo_in AND UpdateAtReset \<noteq> 0 then rerun
           else goto FIRMWARE_UPDATE))
      | PROVISION_CMD \<Rightarrow> ret rerun
      | WDT_CHECKPOINT \<Rightarrow> ret rerun
      | WDT_TIMEOUT \<Rightarrow> ret
          (if CONFIG_BMC_CHECKPOINT_RECOVERY E \<and> bit8_0 fifo_in = hrot_code BMC_EVENT \<or>
              CONFIG_PCH_CHECKPOINT_RECOVERY E \<and> bit8_0 fifo_in = hrot_code PCH_EVENT
           then goto FIRMWARE_RECOVERY else stay)
      | UPDATE_INTENT_2_REQUESTED \<Rightarrow> attempts_left E (ret
          (if bit8_1 fifo_in AND AfmActiveAndRecoveryUpdate \<noteq> 0 \<or> bit8_1 fifo_in AND CPLDUpdate \<noteq> 0
           then goto FIRMWARE_UPDATE
           else if CONFIG_SEAMLESS_UPDATE E \<and> bit8_1 fifo_in AND SeamlessUpdate \<noteq> 0 then goto SEAMLESS_UPDATE
           else stay))
      | ATTESTATION_FAILED \<Rightarrow> ret
          (if CONFIG_PFR_SPDM_ATTESTATION E \<and> bit8_0 fifo_in \<in> {0, 1, 2} then goto FIRMWARE_RECOVERY else stay)
      | BMC_RESET_COMM_REQUESTED \<Rightarrow> reset_bmc_link E
      | _ \<Rightarrow> ret stay)"

definition unprovisioned_transition :: "env \<Rightarrow> event_context \<Rightarrow> (world, transition) state" where
  "unprovisioned_transition E fifo_in =
     (case ev fifo_in of
        PROVISION_CMD \<Rightarrow> ret rerun
      | WDT_CHECKPOINT \<Rightarrow> ret rerun
      | RESET_DETECTED \<Rightarrow> do {
          modify (reset_from_unprovision_state_update (\<lambda>_. True));
          set_secure_connection_state E False;
          ret (goto FIRMWARE_VERIFY)
        }
      | SEAL_FIRMWARE \<Rightarrow> ret (if CONFIG_PIT_PROTECTION E then goto FIRMWARE_VERIFY else stay)
      | BMC_RESET_COMM_REQUESTED \<Rightarrow> reset_bmc_link E
      | _ \<Rightarrow> ret stay)"

definition seamless_transition :: "env \<Rightarrow> event_context \<Rightarrow> (world, transition) state" where
  "seamless_transition E fifo_in =
     (if ev fifo_in = SEAMLESS_UPDATE_DONE then do {
        ClearUpdateFailure E;
        ret (goto SEAMLESS_VERIFY)
      }
      else if ev fifo_in = SEAMLESS_UPDATE_FAILED then do {
        LogUpdateFailure E UPD_CAPSULE_AUTH_FAIL 1;
        ret (goto RUNTIME)
      }
      else ret stay)"

definition handle_event :: "env \<Rightarrow> pfr_state \<Rightarrow> event_context \<Rightarrow> (world, transition) state" where
  "handle_event E current_state fifo_in =
     (if current_state = FIRMWARE_UPDATE \<and> ev fifo_in = UPDATE_DONE then do {
        ClearUpdateFailure E;
        ret (update_transition fifo_in)
      }
      else if current_state = RUNTIME then runtime_transition E fifo_in
      else if current_state = UNPROVISIONED then unprovisioned_transition E fifo_in
      else if CONFIG_SEAMLESS_UPDATE E \<and> current_state = SEAMLESS_UPDATE then seamless_transition E fifo_in
      else if CONFIG_SEAMLESS_UPDATE E \<and> current_state = SEAMLESS_VERIFY then ret (goto RUNTIME)
      else ret (plain_transition current_state (ev fifo_in)))"

section \<open>One pass of the loop\<close>

definition smf_set_state :: "env \<Rightarrow> pfr_state \<Rightarrow> (world, unit) state" where
  "smf_set_state E next_state = do {
     old \<leftarrow> gets current;
     for_each (smf_exits E old next_state) (state_exit E);
     modify (current_update (\<lambda>_. next_state));
     for_each (smf_entries E old next_state) (state_entry E)
   }"

definition machine_step :: "env \<Rightarrow> event_context \<Rightarrow> (world, unit) state" where
  "machine_step E fifo_in = do {
     modify (event_ctx_update (\<lambda>_. fifo_in));
     current_state \<leftarrow> gets current;
     (next_state, run_state) \<leftarrow> handle_event E current_state fifo_in;
     (case next_state of None \<Rightarrow> ret () | Some q \<Rightarrow> smf_set_state E q);
     if run_state \<or> next_state \<noteq> None then do {
       q \<leftarrow> gets current;
       state_run E q
     }
     else ret ()
   }"

text \<open>\<open>k_fifo_get\<close> takes the oldest event; the loop waits while there is none.\<close>

definition state_machine_pass :: "env \<Rightarrow> (world, unit) state" where
  "state_machine_pass E = do {
     queue \<leftarrow> gets aspeed_sm_fifo;
     case queue of
       [] \<Rightarrow> ret ()
     | fifo_in # rest \<Rightarrow> do {
         modify (aspeed_sm_fifo_update (\<lambda>_. rest));
         machine_step E fifo_in
       }
   }"

definition AspeedStateMachine_start :: "env \<Rightarrow> (world, unit) state" where
  "AspeedStateMachine_start E = do {
     modify (current_update (\<lambda>_. BOOT));
     GenerateStateMachineEvent E START_STATE_MACHINE NULL_data
   }"

end
