(* ===== verification/Pfr_Frames.thy ===== *)
theory Pfr_Frames
  imports Pfr_Machine
begin

text \<open>
  What the operations of the firmware leave alone. \<open>effect K Q\<close> says that an operation keeps
  the view \<open>K\<close> of the world and only makes calls that satisfy \<open>Q\<close>. The locales state, layer by
  layer, which views and calls an operation of a layer respects: \<open>verifying\<close> (reading and
  authenticating images, the ROT's own flash included), \<open>copying\<close> (writing host flash), \<open>repairing\<close>
  (the status bits of the images) and \<open>updating\<close> (the event being handled, boot holds and flash
  multiplexers). Each operation is proved once inside its layer; the interpretations at the end
  are the frames the properties use.
\<close>

section \<open>Effects\<close>

definition effect :: "(world \<Rightarrow> 'k) \<Rightarrow> (call \<Rightarrow> bool) \<Rightarrow> world \<Rightarrow> world \<Rightarrow> bool" where
  "effect K Q s t \<longleftrightarrow> K t = K s \<and> calls Q s t"

interpretation eff: frame_rel "effect K Q" for K Q
proof
  show "effect K Q s s" for s by (simp add: effect_def calls.rel_refl)
  show "effect K Q s u" if "effect K Q s t" "effect K Q t u" for s t u
    using that calls.rel_trans by (auto simp: effect_def)
qed

text \<open>Calls that program or erase a host flash, and those that change neither it nor the platform.\<close>

fun host_write :: "call \<Rightarrow> bool" where
  "host_write (Fl (HostFlashWrite _ _ _)) = True"
| "host_write (Fl (HostFlashErase _ _ _ _)) = True"
| "host_write _ = False"

fun benign :: "call \<Rightarrow> bool" where
  "benign (Board _) = False"
| "benign (Filter _) = False"
| "benign (Link _) = False"
| "benign (Init _) = False"
| "benign (Kern Reboot) = False"
| "benign c = (\<not> host_write c)"

text \<open>Holding a host in reset, and the filters and multiplexers in front of the flashes.\<close>

fun gating :: "call \<Rightarrow> bool" where
  "gating (Board (PinSet _ released)) = (\<not> released)"
| "gating (Board (PinConfigure _)) = True"
| "gating (Filter _) = True"
| "gating _ = False"

lemma effect_keeps: "state_io_rel (effect K Q) m \<Longrightarrow> K (exec m s) = K s"
  by (simp add: state_io_rel_def effect_def)

lemma effect_calls: "state_io_rel (effect K Q) m \<Longrightarrow> state_io_rel (calls Q) m"
  by (erule frame_mono) (simp add: effect_def)

lemma effect_mono:
  "state_io_rel (effect K Q) m \<Longrightarrow> (\<And>s t. K s = K t \<Longrightarrow> K' s = K' t) \<Longrightarrow> (\<And>c. Q c \<Longrightarrow> Q' c) \<Longrightarrow>
    state_io_rel (effect K' Q') m"
proof (erule frame_mono)
  fix s t
  assume K: "\<And>s t. K s = K t \<Longrightarrow> K' s = K' t" and Q: "\<And>c. Q c \<Longrightarrow> Q' c" and e: "effect K Q s t"
  from e have "K t = K s" by (simp add: effect_def)
  moreover from e Q have "calls Q' s t" by (fastforce simp: effect_def calls_def list_all_iff)
  ultimately show "effect K' Q' s t" using K [of t s] by (simp add: effect_def)
qed

named_theorems eff \<open>operations that respect the view and the calls of their layer\<close>

section \<open>Reading and verifying\<close>

locale verifying =
  fixes K :: "world \<Rightarrow> 'k" and Q :: "call \<Rightarrow> bool"
  assumes K_scratch: "K (s\<lparr>trace := tr\<rparr>) = K s" "K (s\<lparr>manifest := m\<rparr>) = K s" "K (s\<lparr>afm_list := l\<rparr>) = K s"
      "K (s\<lparr>oob := b\<rparr>) = K s" "K (s\<lparr>diverged := b\<rparr>) = K s" "K (s\<lparr>gFailedUpdateAttempts := n\<rparr>) = K s"
    and K_leds: "K (s\<lparr>fp_green_on := x\<rparr>) = K s" "K (s\<lparr>fp_amber_on := x\<rparr>) = K s" "K (s\<lparr>fp_id_on := x\<rparr>) = K s"
      "K (s\<lparr>bypass_bmc_fp_signal := x\<rparr>) = K s"
    and Q_benign: "benign c \<Longrightarrow> Q c"
begin

lemma ext_eff: "benign c \<Longrightarrow> state_io_rel (effect K Q) (ext E c)"
  using Q_benign by (simp add: state_io_rel_def effect_def K_scratch calls_def)

lemma act_eff: "benign c \<Longrightarrow> state_io_rel (effect K Q) (act E c)"
  using Q_benign by (simp add: state_io_rel_def effect_def K_scratch calls_def)

lemma modify_eff:
  "(\<And>s. K (f s) = K s) \<Longrightarrow> (\<And>s. trace (f s) = trace s) \<Longrightarrow> state_io_rel (effect K Q) (modify f)"
  by (simp add: state_io_rel_def effect_def calls_def)

lemma upd_manifest_eff: "state_io_rel (effect K Q) (upd_manifest f)"
  by (simp add: state_io_rel_def effect_def calls_def K_scratch)

lemma while_do_eff:
  "(\<And>x. state_io_rel (effect K Q) (body x)) \<Longrightarrow> (\<And>x. state_io_rel (effect K Q) (k x)) \<Longrightarrow>
    state_io_rel (effect K Q) (while_do n cond body x r k)"
  unfolding while_do_def by (intro eff.keeps_intros modify_eff) (simp_all add: K_scratch)

lemmas eff_intros = eff.keeps_return eff.keeps_bind eff.keeps_gets eff.keeps_cwhen eff.keeps_if
  eff.keeps_prod eff.keeps_let eff.keeps_option eff.keeps_for_each eff.keeps_flow eff.keeps_c_while ext_eff act_eff modify_eff upd_manifest_eff while_do_eff

subsection \<open>Flash, provisioning area and mailbox\<close>

lemma spi_eff [eff]:
  "state_io_rel (effect K Q) (pfr_spi_read E a1 b1 c1)"
  "state_io_rel (effect K Q) (pfr_spi_get_device_size E a2)"
  "state_io_rel (effect K Q) (pfr_spi_get_block_size E a3)"
  "state_io_rel (effect K Q) (get_hash E a4)"
  unfolding pfr_spi_read_def pfr_spi_get_device_size_def pfr_spi_get_block_size_def get_hash_def
  by (intro eff_intros eff; simp add: K_scratch K_leds)+

lemma rot_spi_eff [eff]:
  "\<not> d \<le> PCH_SPI \<Longrightarrow> state_io_rel (effect K Q) (pfr_spi_write E d a bs)"
  "\<not> d \<le> PCH_SPI \<Longrightarrow> state_io_rel (effect K Q) (pfr_spi_erase_4k E d a)"
  "\<not> d \<le> PCH_SPI \<Longrightarrow> state_io_rel (effect K Q) (pfr_spi_erase_block E d a)"
  unfolding pfr_spi_write_def pfr_spi_erase_4k_def pfr_spi_erase_block_def
  by (intro eff_intros; simp)+

lemma rot_erase_loop_eff: "\<not> d \<le> PCH_SPI \<Longrightarrow> state_io_rel (effect K Q) (erase_loop fuel E d blk a e)"
  by (induction fuel arbitrary: a) (auto intro!: eff_intros eff)

lemma rot_erase_region_eff [eff]:
  "\<not> d \<le> PCH_SPI \<Longrightarrow> state_io_rel (effect K Q) (pfr_spi_erase_region E d blk a n)"
  unfolding pfr_spi_erase_region_def by (intro eff_intros rot_erase_loop_eff)

lemma ufm_eff [eff]:
  "state_io_rel (effect K Q) (get_cpld_status E a1 b1)"
  "state_io_rel (effect K Q) (set_cpld_status E a2 b2)"
  "state_io_rel (effect K Q) (erase_provision_flash E)"
  "state_io_rel (effect K Q) (erase_provision_ufm_flash E)"
  "state_io_rel (effect K Q) (get_provision_data_in_flash E a5 b5)"
  "state_io_rel (effect K Q) (set_provision_data_in_flash E a6 b6)"
  "state_io_rel (effect K Q) (ufm_read E a7 b7 c7)"
  "state_io_rel (effect K Q) (ufm_write E a8 b8 c8)"
  "state_io_rel (effect K Q) (ufm_erase E a9)"
  "state_io_rel (effect K Q) (read_update_status E)"
  "state_io_rel (effect K Q) (write_update_status E a11)"
  unfolding get_cpld_status_def set_cpld_status_def erase_provision_flash_def
    erase_provision_ufm_flash_def get_provision_data_in_flash_def
    set_provision_data_in_flash_def ufm_read_def ufm_write_def ufm_erase_def
    read_update_status_def write_update_status_def
  by (intro eff_intros eff; simp add: K_scratch K_leds)+

lemma mbx_eff [eff]:
  "state_io_rel (effect K Q) (MBX_REG_SETTER E a1 b1)"
  "state_io_rel (effect K Q) (MBX_REG_GETTER E a2)"
  "state_io_rel (effect K Q) (MBX_REG_INC E a3)"
  "state_io_rel (effect K Q) (LogErrorCodes E a4 b4)"
  "state_io_rel (effect K Q) (LogUpdateFailure E a5 b5)"
  "state_io_rel (effect K Q) getFailedUpdateAttemptsCount"
  "state_io_rel (effect K Q) (ClearUpdateFailure E)"
  "state_io_rel (effect K Q) (LogLastPanic E a8)"
  "state_io_rel (effect K Q) (LogRecovery E a9)"
  "state_io_rel (effect K Q) (LogWatchdogRecovery E a10 b10)"
  "state_io_rel (effect K Q) (led_set E a11 b11)"
  "state_io_rel (effect K Q) (SetFPLEDState E a12)"
  "state_io_rel (effect K Q) (SetPlatformState E a13)"
  "state_io_rel (effect K Q) (read_ufm_flash_status E)"
  "state_io_rel (effect K Q) (GetUfmStatusValue E)"
  "state_io_rel (effect K Q) (SetUfmStatusValue E a16)"
  "state_io_rel (effect K Q) (ClearUfmStatusValue E a17)"
  "state_io_rel (effect K Q) (SetUfmFlashStatus E a18 b18)"
  unfolding MBX_REG_SETTER_def MBX_REG_GETTER_def MBX_REG_INC_def LogErrorCodes_def LogUpdateFailure_def
    getFailedUpdateAttemptsCount_def ClearUpdateFailure_def LogLastPanic_def LogRecovery_def
    LogWatchdogRecovery_def led_set_def SetFPLEDState_def SetPlatformState_def
    read_ufm_flash_status_def GetUfmStatusValue_def SetUfmStatusValue_def
    ClearUfmStatusValue_def SetUfmFlashStatus_def
  by (intro eff_intros eff; simp add: K_scratch K_leds)+

lemma svn_eff [eff]:
  "state_io_rel (effect K Q) (get_ufm_svn E a1)"
  "state_io_rel (effect K Q) (set_ufm_svn E a2 b2)"
  "state_io_rel (effect K Q) (svn_policy_verify E a3 b3)"
  "state_io_rel (effect K Q) (read_statging_area_pfm_svn E)"
  unfolding get_ufm_svn_def set_ufm_svn_def svn_policy_verify_def read_statging_area_pfm_svn_def
  by (intro eff_intros eff; simp add: K_scratch K_leds)+

subsection \<open>Keys, signatures and manifests\<close>

lemma key_eff [eff]:
  "state_io_rel (effect K Q) (verify_csk_key_id E a1)"
  "state_io_rel (effect K Q) (verify_key_unused E a2 b2)"
  "state_io_rel (effect K Q) (is_csk_unused E a3 b3)"
  "state_io_rel (effect K Q) (cancel_csk_key_id E a4)"
  "state_io_rel (effect K Q) (image_read E a5 b5)"
  "state_io_rel (effect K Q) (validate_key_cancellation_flag E)"
  unfolding verify_csk_key_id_def verify_key_unused_def is_csk_unused_def cancel_csk_key_id_def
    image_read_def validate_key_cancellation_flag_def
  by (intro eff_intros eff; simp add: K_scratch K_leds)+

lemma root_key_eff [eff]:
  "state_io_rel (effect K Q) (calculate_sha E a1 b1 c1)"
  "state_io_rel (effect K Q) (verify_signature E a2 b2)"
  "state_io_rel (effect K Q) (manifest_get_hash E a3)"
  "state_io_rel (effect K Q) (compare_root_hash E a4 b4)"
  "state_io_rel (effect K Q) (verify_root_key_hash E a5 b5)"
  "state_io_rel (effect K Q) (verify_root_key_hash_lms E a6 b6)"
  "state_io_rel (effect K Q) (verify_root_key_entry E a7)"
  unfolding calculate_sha_def verify_signature_def manifest_get_hash_def compare_root_hash_def
    verify_root_key_hash_def verify_root_key_hash_lms_def verify_root_key_entry_def
  by (intro eff_intros eff; simp add: K_scratch K_leds)+

lemma block1_eff [eff]:
  "state_io_rel (effect K Q) (intel_block1_block0_entry_verify_lms E)"
  "state_io_rel (effect K Q) (intel_block1_csk_block0_entry_verify_lms E)"
  "state_io_rel (effect K Q) (intel_block1_block0_entry_verify E)"
  "state_io_rel (effect K Q) (intel_block1_csk_block0_entry_verify E)"
  unfolding intel_block1_block0_entry_verify_lms_def intel_block1_csk_block0_entry_verify_lms_def
    intel_block1_block0_entry_verify_def intel_block1_csk_block0_entry_verify_def
  by (intro eff_intros eff; simp add: K_scratch K_leds)+

lemma image_eff [eff]:
  "state_io_rel (effect K Q) (intel_block1_verify E)"
  "state_io_rel (effect K Q) (intel_block0_verify E)"
  "state_io_rel (effect K Q) (intel_pfr_manifest_verify E)"
  "state_io_rel (effect K Q) (manifest_verify E)"
  unfolding intel_block1_verify_def intel_block0_verify_def intel_pfr_manifest_verify_def
    manifest_verify_def
  by (intro eff_intros eff; simp add: K_scratch K_leds)+

lemma version_eff [eff]:
  "state_io_rel (effect K Q) (validate_region_data E a1)"
  "state_io_rel (effect K Q) (set_versions E a2 b2 c2 d2)"
  "state_io_rel (effect K Q) (get_active_pfm_version_details E a3)"
  "state_io_rel (effect K Q) (raise_svn_policy E a4 b4)"
  "state_io_rel (effect K Q) (get_recover_pfm_version_details E a5)"
  unfolding validate_region_data_def set_versions_def get_active_pfm_version_details_def
    raise_svn_policy_def get_recover_pfm_version_details_def
  by (intro eff_intros eff; simp add: K_scratch K_leds)+

lemma region_eff [eff]:
  "state_io_rel (effect K Q) (spi_region_hash_verification E a1 b1)"
  "state_io_rel (effect K Q) (get_spi_region_hash E a2 b2)"
  "state_io_rel (effect K Q) (check_spi_region E a3 b3)"
  "state_io_rel (effect K Q) (fvm_round E a4 b4)"
  "state_io_rel (effect K Q) (fvm_spi_region_verification E)"
  unfolding spi_region_hash_verification_def get_spi_region_hash_def check_spi_region_def fvm_round_def
    fvm_spi_region_verification_def
  by (intro eff_intros eff; simp add: K_scratch K_leds)+

lemma afm_eff [eff]:
  "state_io_rel (effect K Q) (set_afm_address a1)"
  "state_io_rel (effect K Q) (erase_afm_body E a2)"
  "state_io_rel (effect K Q) (verify_internal_afm E a3)"
  "state_io_rel (effect K Q) (verify_pfm_afm E a4 b4)"
  unfolding set_afm_address_def erase_afm_body_def verify_internal_afm_def verify_pfm_afm_def
  by (intro eff_intros eff; simp add: K_scratch K_leds)+

lemma count_afm_devices_eff: "state_io_rel (effect K Q) (count_afm_devices n E i)"
  by (induction n arbitrary: i) (auto intro!: eff_intros eff)

lemma verify_devices_eff: "state_io_rel (effect K Q) (verify_devices E is)"
  by (induction "is") (auto intro!: eff_intros eff)

lemma pfm_eff [eff]:
  "state_io_rel (effect K Q) (verify_afm_devices E)"
  "state_io_rel (effect K Q) (pfm_round E a2 b2 c2 d2)"
  "state_io_rel (effect K Q) (pfm_spi_region_verification E)"
  unfolding verify_afm_devices_def pfm_round_def pfm_spi_region_verification_def
  by (intro eff_intros count_afm_devices_eff verify_devices_eff eff; simp add: K_scratch K_leds)+

lemma fvm_eff [eff]:
  "state_io_rel (effect K Q) (find_fvm_round E a1 b1)"
  "state_io_rel (effect K Q) (find_fvm_addr E a2)"
  "state_io_rel (effect K Q) (intel_fvm_verify E)"
  "state_io_rel (effect K Q) (fvms_round E a4 b4 c4)"
  "state_io_rel (effect K Q) (intel_fvms_verify E)"
  unfolding find_fvm_round_def find_fvm_addr_def intel_fvm_verify_def fvms_round_def
    intel_fvms_verify_def
  by (intro eff_intros eff; simp add: K_scratch K_leds)+

subsection \<open>Regions\<close>

lemma pit_eff [eff]:
  "state_io_rel (effect K Q) (intel_pfr_pit_level1_verify E)"
  "state_io_rel (effect K Q) (hash_whole_flash E a2 b2 c2 d2)"
  "state_io_rel (effect K Q) (intel_pfr_pit_level2_verify E)"
  unfolding intel_pfr_pit_level1_verify_def hash_whole_flash_def intel_pfr_pit_level2_verify_def
  by (intro eff_intros eff; simp add: K_scratch K_leds)+

lemma staging_eff [eff]:
  "state_io_rel (effect K Q) (validate_pc_type E)"
  "state_io_rel (effect K Q) (check_rot_capsule_type E)"
  "state_io_rel (effect K Q) (staging_addresses E)"
  "state_io_rel (effect K Q) (pfr_staging_verify E)"
  "state_io_rel (effect K Q) (intel_pfr_update_verify E)"
  "state_io_rel (effect K Q) (firmware_image_verify E)"
  unfolding validate_pc_type_def check_rot_capsule_type_def staging_addresses_def pfr_staging_verify_def
    intel_pfr_update_verify_def firmware_image_verify_def
  by (intro eff_intros eff; simp add: K_scratch K_leds)+

lemma active_eff [eff]:
  "state_io_rel (effect K Q) (pfr_recovery_verify E)"
  "state_io_rel (effect K Q) (pfr_active_verify E)"
  "state_io_rel (effect K Q) (intel_pfr_recovery_verify E)"
  "state_io_rel (effect K Q) (recovery_verify E)"
  "state_io_rel (effect K Q) (authentication_image E a5)"
  unfolding pfr_recovery_verify_def pfr_active_verify_def intel_pfr_recovery_verify_def
    recovery_verify_def authentication_image_def
  by (intro eff_intros eff; simp add: K_scratch K_leds)+

lemma match_eff [eff]:
  "state_io_rel (effect K Q) (match_addresses E)"
  "state_io_rel (effect K Q) (does_staged_fw_image_match_active_fw_image E)"
  "state_io_rel (effect K Q) (check_staged_capsule E a3)"
  unfolding match_addresses_def does_staged_fw_image_match_active_fw_image_def check_staged_capsule_def
  by (intro eff_intros eff; simp add: K_scratch K_leds)+

lemma intent_eff [eff]:
  "state_io_rel (effect K Q) (has_pending_update E a1)"
  "state_io_rel (effect K Q) (write_changed_status E a2 b2)"
  "state_io_rel (effect K Q) (get_staging_hash E a3 b3 c3)"
  "state_io_rel (effect K Q) (refuse_afm E a4)"
  unfolding has_pending_update_def write_changed_status_def get_staging_hash_def refuse_afm_def
  by (intro eff_intros eff; simp add: K_scratch K_leds)+

end

section \<open>Writing host flash\<close>

locale copying = verifying +
  assumes Q_write: "host_write c \<Longrightarrow> Q c"
    and K_levels: "K (s\<lparr>g_bmc_recovery_level := v\<rparr>) = K s" "K (s\<lparr>g_pch_recovery_level := v\<rparr>) = K s"
begin

lemma flash_ext_eff: "state_io_rel (effect K Q) (ext E (Fl f))"
  using Q_benign [of "Fl f"] Q_write [of "Fl f"]
  by (cases f) (auto simp: state_io_rel_def effect_def K_scratch calls_def)

lemma write_eff [eff]:
  "state_io_rel (effect K Q) (pfr_spi_write E d a bs)"
  "state_io_rel (effect K Q) (pfr_spi_erase_4k E d a)"
  "state_io_rel (effect K Q) (pfr_spi_erase_block E d a)"
  unfolding pfr_spi_write_def pfr_spi_erase_4k_def pfr_spi_erase_block_def
  by (intro eff_intros flash_ext_eff; simp)+

lemma erase_loop_eff: "state_io_rel (effect K Q) (erase_loop fuel E d blk a e)"
  by (induction fuel arbitrary: a) (auto intro!: eff_intros write_eff)

lemma copy_pages_eff: "state_io_rel (effect K Q) (copy_pages n E d a d' a')"
  by (induction n arbitrary: a a') (auto intro!: eff_intros write_eff spi_eff)

lemma copy_eff [eff]:
  "state_io_rel (effect K Q) (pfr_spi_erase_region E d blk a n)"
  "state_io_rel (effect K Q) (pfr_spi_page_read_write E d a a')"
  "state_io_rel (effect K Q) (pfr_spi_region_read_write_between_spi E d a d' a' n)"
  unfolding pfr_spi_erase_region_def pfr_spi_page_read_write_def pfr_spi_region_read_write_between_spi_def
  by (intro eff_intros erase_loop_eff copy_pages_eff write_eff spi_eff; simp)+

subsection \<open>Decompression\<close>

lemma erase_runs_eff: "state_io_rel (effect K Q) (erase_runs E d blk bm bits e)"
  by (induction bits arbitrary: e) (auto intro!: eff_intros copy_eff split: option.split)

lemma write_bits_eff: "state_io_rel (effect K Q) (write_bits E d a b y ks p sa da)"
  by (induction ks arbitrary: p sa da) (auto intro!: eff_intros copy_eff)

lemma write_bytes_eff: "state_io_rel (effect K Q) (write_bytes E d a b ys p sa da)"
  by (induction ys arbitrary: p sa da) (auto intro!: eff_intros copy_eff)

lemma level_eff [eff]:
  "state_io_rel (effect K Q) (get_recovery_level a1)"
  "state_io_rel (effect K Q) (inc_recovery_level a2)"
  "state_io_rel (effect K Q) (reset_recovery_level a3)"
  unfolding get_recovery_level_def inc_recovery_level_def reset_recovery_level_def
  by (intro eff_intros eff copy_eff erase_runs_eff write_bytes_eff; simp add: K_scratch K_leds K_levels)+

lemma decompress_eff [eff]:
  "state_io_rel (effect K Q) (update_active_pfm E a1)"
  "state_io_rel (effect K Q) (decompression_erase E a2 b2 c2 d2 e2)"
  "state_io_rel (effect K Q) (decompression_write E a3 b3 c3 d3 e3 f3)"
  "state_io_rel (effect K Q) (decompress_spi_region E a4 b4 c4 d4)"
  "state_io_rel (effect K Q) (decompress_region_def E a5 b5 c5 d5)"
  unfolding update_active_pfm_def decompression_erase_def decompression_write_def
    decompress_spi_region_def decompress_region_def_def
  by (intro eff_intros eff copy_eff erase_runs_eff write_bytes_eff; simp add: K_scratch K_leds K_levels)+

lemma pfm_size_eff [eff]:
  "state_io_rel (effect K Q) (pfm_size_round E a1)"
  "state_io_rel (effect K Q) (get_total_pfm_size E a2 b2 c2)"
  unfolding pfm_size_round_def get_total_pfm_size_def
  by (intro eff_intros eff copy_eff erase_runs_eff write_bytes_eff; simp add: K_scratch K_leds K_levels)+

lemma fvm_decompress_eff [eff]:
  "state_io_rel (effect K Q) (fvm_decompress_round E a1 b1 c1 d1)"
  "state_io_rel (effect K Q) (decompress_fvm_spi_region E a2 b2 c2 d2)"
  "state_io_rel (effect K Q) (decompress_fv_capsule E)"
  unfolding fvm_decompress_round_def decompress_fvm_spi_region_def decompress_fv_capsule_def
  by (intro eff_intros eff copy_eff erase_runs_eff write_bytes_eff; simp add: K_scratch K_leds K_levels)+

lemma capsule_eff [eff]:
  "state_io_rel (effect K Q) (decompress_afm_capsule E a1)"
  "state_io_rel (effect K Q) (capsule_round E a2 b2 c2 d2 e2)"
  "state_io_rel (effect K Q) (decompress_capsule E a3)"
  unfolding decompress_afm_capsule_def capsule_round_def decompress_capsule_def
  by (intro eff_intros eff copy_eff erase_runs_eff write_bytes_eff; simp add: K_scratch K_leds K_levels)+

subsection \<open>Copies\<close>

lemma afm_part_eff:
  "state_io_rel (effect K Q) m \<Longrightarrow> state_io_rel (effect K Q) m' \<Longrightarrow>
    state_io_rel (effect K Q) (case p of AFM_PART_ACT_1 \<Rightarrow> m | AFM_PART_RCV_1 \<Rightarrow> m')"
  by (cases p) simp_all

lemma afm_copy_eff [eff]:
  "state_io_rel (effect K Q) (update_afm_v40 E a1 b1 c1)"
  "state_io_rel (effect K Q) (update_afm E a2 b2 c2)"
  unfolding update_afm_v40_def update_afm_def
  by (intro eff_intros afm_part_eff eff copy_eff erase_runs_eff write_bytes_eff; simp add: K_scratch K_leds K_levels)+

lemma region_copy_eff [eff]:
  "state_io_rel (effect K Q) (pfr_recover_recovery_region E a1 b1 c1)"
  "state_io_rel (effect K Q) (recover_active_afm E)"
  "state_io_rel (effect K Q) (pfr_recover_active_region E)"
  "state_io_rel (effect K Q) (recover_internal_afm E a4 b4 c4)"
  "state_io_rel (effect K Q) (pfr_recover_internal_afm E)"
  "state_io_rel (effect K Q) (pfr_staging_pch_staging E)"
  "state_io_rel (effect K Q) (update_recovery_region E a7 b7 c7)"
  unfolding pfr_recover_recovery_region_def recover_active_afm_def pfr_recover_active_region_def
    recover_internal_afm_def pfr_recover_internal_afm_def pfr_staging_pch_staging_def
    update_recovery_region_def
  by (intro eff_intros eff copy_eff erase_runs_eff write_bytes_eff; simp add: K_scratch K_leds K_levels)+

lemma rot_copy_eff [eff]:
  "state_io_rel (effect K Q) (pfr_decommission E)"
  "state_io_rel (effect K Q) (update_rot_fw E a2 b2 c2)"
  "state_io_rel (effect K Q) (update_rot_capsule E a3 b3)"
  "state_io_rel (effect K Q) (ast1060_update E a4 b4)"
  unfolding pfr_decommission_def update_rot_fw_def update_rot_capsule_def ast1060_update_def
  by (intro eff_intros eff copy_eff erase_runs_eff write_bytes_eff; simp add: K_scratch K_leds K_levels)+

lemma host_copy_eff [eff]:
  "state_io_rel (effect K Q) (update_source E a1 b1)"
  "state_io_rel (effect K Q) (copy_pch_capsule E a2 b2 c2)"
  unfolding update_source_def copy_pch_capsule_def
  by (intro eff_intros eff copy_eff erase_runs_eff write_bytes_eff; simp add: K_scratch K_leds K_levels)+

end

section \<open>Repairing images\<close>

locale repairing = copying +
  assumes K_objects: "K (s\<lparr>bmc_active_object := v\<rparr>) = K s" "K (s\<lparr>pch_active_object := v\<rparr>) = K s"
      "K (s\<lparr>afm_active_object := v\<rparr>) = K s"
begin

lemma K_ao: "K (upd_ao a g s) = K s"
  by (cases a) (simp_all add: K_objects K_scratch)

lemma trace_upd_ao [simp]: "trace (upd_ao a g s) = trace s"
  by (cases a) simp_all

lemma recover_eff [eff]:
  "state_io_rel (effect K Q) (recover_image_setup E a1)"
  "state_io_rel (effect K Q) (staging_usable E a2 b2)"
  "state_io_rel (effect K Q) (recover_recovery E a3 b3)"
  "state_io_rel (effect K Q) (recover_image E a4 b4)"
  "state_io_rel (effect K Q) (verify_image E a5 b5 c5)"
  "state_io_rel (effect K Q) (fail_active a6)"
  unfolding recover_image_setup_def staging_usable_def recover_recovery_def recover_image_def
    verify_image_def fail_active_def Let_def
  by (intro eff_intros eff; simp add: K_scratch K_ao K_objects)+

lemma blame_image_eff [eff]: "state_io_rel (effect K Q) (blame_image E c)"
  unfolding blame_image_def by (intro eff_intros eff; simp)

lemma recover_images_eff [eff]:
  "state_io_rel (effect K Q) (recover_event E a1 b1)"
  "state_io_rel (effect K Q) (recover_bmc E a2 b2)"
  "state_io_rel (effect K Q) (recover_pch E a3 b3)"
  "state_io_rel (effect K Q) (recover_afm E a4)"
  "state_io_rel (effect K Q) (recover_images E a5)"
  unfolding recover_event_def recover_bmc_def recover_pch_def recover_afm_def recover_images_def
  by (intro eff_intros eff; simp add: K_scratch K_ao K_objects)+

end

section \<open>Holding the hosts and arming their filters\<close>

locale gating_hosts = verifying +
  assumes Q_gating: "gating c \<Longrightarrow> Q c"
begin

lemma gating_eff:
  "gating c \<Longrightarrow> state_io_rel (effect K Q) (act E c)"
  "gating c \<Longrightarrow> state_io_rel (effect K Q) (ext E c)"
  using Q_gating by (simp_all add: state_io_rel_def effect_def K_scratch calls_def)

lemma filter_call_eff:
  "state_io_rel (effect K Q) (act E (Filter f))" "state_io_rel (effect K Q) (ext E (Filter f))"
  by (simp_all add: gating_eff)

lemmas gate_intros = eff.keeps_return eff.keeps_bind eff.keeps_gets eff.keeps_cwhen eff.keeps_if
  eff.keeps_prod eff.keeps_let eff.keeps_option eff.keeps_flow filter_call_eff while_do_eff

lemma flash_mux_eff [eff]:
  "state_io_rel (effect K Q) (drive_reset E pin True)"
  "state_io_rel (effect K Q) (switch_mux E a2 b2)"
  "state_io_rel (effect K Q) (reset_flash E a3)"
  unfolding drive_reset_def switch_mux_def reset_flash_def
  by (intro gate_intros gating_eff act_eff; simp)+

lemma take_flash_eff [eff]:
  "state_io_rel (effect K Q) (take_flash E a4 b4)"
  "state_io_rel (effect K Q) (give_flash E a5 b5)"
  unfolding take_flash_def give_flash_def by (intro gate_intros eff)+

lemma hold_eff [eff]:
  "state_io_rel (effect K Q) (BMCBootHold E)"
  "state_io_rel (effect K Q) (PCHBootHold E)"
  unfolding BMCBootHold_def bmc_extrst_enable_ctrl_def bmc_srst_enable_ctrl_def PCHBootHold_def
    EgsPchHold_def pch_rst_enable_ctrl_def
  by (intro gate_intros eff)+

lemma monitor_eff [eff]:
  "state_io_rel (effect K Q) (SPI_Monitor_Enable E a1 b1)"
  "state_io_rel (effect K Q) (Set_SPI_Filter_RW_Region E a2 b2 c2 d2 e2)"
  "state_io_rel (effect K Q) (smbus_rule E a6)"
  unfolding SPI_Monitor_Enable_def Set_SPI_Filter_RW_Region_def smbus_rule_def
  by (intro gate_intros)+

lemma fvm_filter_eff [eff]:
  "state_io_rel (effect K Q) (fvm_filter_round E a3)"
  unfolding fvm_filter_round_def by (intro gate_intros eff)

lemma apply_fvm_eff [eff]:
  "state_io_rel (effect K Q) (apply_fvm_spi_protection E a4 b4)"
  unfolding apply_fvm_spi_protection_def by (intro gate_intros eff)

lemma filter_region_eff [eff]:
  "state_io_rel (effect K Q) (filter_region E a5 b5 c5 d5)"
  unfolding filter_region_def by (intro gate_intros eff)

lemma filter_round_eff [eff]:
  "state_io_rel (effect K Q) (filter_round E a7 b7 c7 d7)"
  unfolding filter_round_def by (intro gate_intros eff)

lemma filter_walk_eff [eff]: "state_io_rel (effect K Q) (filter_walk E a1 b1 c1 d1)"
  unfolding filter_walk_def by (intro gate_intros eff)

end

section \<open>Updating\<close>

text \<open>An update may hold a host, switch the flash multiplexers and note a reset in byte 2 or its
  progress in byte 3 of the event.\<close>

locale updating = repairing + gating_hosts +
  assumes K_afm_status: "K (s\<lparr>AfmStatus := v\<rparr>) = K s"
    and K_event: "ev x = ev (event_ctx s) \<Longrightarrow> bit8_0 x = bit8_0 (event_ctx s) \<Longrightarrow> bit8_1 x = bit8_1 (event_ctx s) \<Longrightarrow>
      K (s\<lparr>event_ctx := x\<rparr>) = K s"
begin

lemma event_eff:
  "(\<And>x. ev (g x) = ev x) \<Longrightarrow> (\<And>x. bit8_0 (g x) = bit8_0 x) \<Longrightarrow> (\<And>x. bit8_1 (g x) = bit8_1 x) \<Longrightarrow>
    state_io_rel (effect K Q) (upd_event_ctx g)"
  unfolding upd_event_ctx_def by (intro modify_eff) (simp_all add: K_event)

lemma hold_cancelled_eff [eff]: "state_io_rel (effect K Q) (hold_cancelled_pch E)"
  unfolding hold_cancelled_pch_def by (intro gate_intros event_eff eff; simp)

lemma afm_update_eff [eff]:
  "state_io_rel (effect K Q) (update_afm_image E a1 b1)"
  "state_io_rel (effect K Q) (validate_afm_update_type E a2)"
  unfolding update_afm_image_def validate_afm_update_type_def
  by (intro eff_intros gating_eff event_eff eff; simp add: K_scratch K_leds K_levels K_afm_status)+

lemma update_eff [eff]:
  "state_io_rel (effect K Q) (update_active_region E a1 b1)"
  "state_io_rel (effect K Q) (update_recovery E a2 b2 c2 d2)"
  "state_io_rel (effect K Q) (update_host_image E a3 b3 c3 d3 e3)"
  "state_io_rel (effect K Q) (update_firmware_image E a4 b4 c4 d4)"
  unfolding update_active_region_def update_recovery_def update_host_image_def update_firmware_image_def
  by (intro eff_intros gating_eff event_eff eff; simp add: K_scratch K_leds K_levels K_afm_status)+

lemma mux_eff [eff]:
  "state_io_rel (effect K Q) (switch_pch_mux E a2)"
  "state_io_rel (effect K Q) (pfr_start_timer E a3 b3)"
  "state_io_rel (effect K Q) (pfr_stop_timer E a4)"
  unfolding switch_pch_mux_def pfr_start_timer_def pfr_stop_timer_def
  by (intro eff_intros gating_eff event_eff eff; simp add: K_scratch K_leds K_levels K_afm_status)+

lemma seamless_eff [eff]:
  "state_io_rel (effect K Q) (seamless_from_bmc E a1 b1 c1)"
  "state_io_rel (effect K Q) (seamless_from_pch E)"
  "state_io_rel (effect K Q) (apply_seamless_capsule E a3)"
  "state_io_rel (effect K Q) (perform_seamless_update E a4 b4)"
  unfolding seamless_from_bmc_def seamless_from_pch_def apply_seamless_capsule_def
    perform_seamless_update_def
  by (intro eff_intros gating_eff event_eff eff; simp add: K_scratch K_leds K_levels K_afm_status)+

lemma request_eff [eff]:
  "state_io_rel (effect K Q) (handle_recovery_requested E a1)"
  "state_io_rel (effect K Q) (request_image E a2 b2 c2 d2 e2 f2 g2)"
  "state_io_rel (effect K Q) (request_afm E a3)"
  "state_io_rel (effect K Q) (choose_image E a4)"
  unfolding handle_recovery_requested_def request_image_def request_afm_def choose_image_def
  by (intro eff_intros gating_eff event_eff eff; simp add: K_scratch K_leds K_levels K_afm_status)+

end

section \<open>Every other action\<close>

text \<open>A call that lets a host boot.\<close>

fun releases :: "call \<Rightarrow> bool" where
  "releases (Board (PinSet _ released)) = released"
| "releases _ = False"

locale handling = updating +
  assumes K_current: "current s = current t \<Longrightarrow> K s = K t"
    and Q_hold: "\<not> releases c \<Longrightarrow> Q c"
begin

lemma call_eff:
  "\<not> releases c \<Longrightarrow> state_io_rel (effect K Q) (ext E c)"
  "\<not> releases c \<Longrightarrow> state_io_rel (effect K Q) (act E c)"
  using Q_hold by (simp_all add: state_io_rel_def effect_def K_scratch calls_def)

lemma any_modify_eff:
  "(\<And>s. current (f s) = current s) \<Longrightarrow> (\<And>s. trace (f s) = trace s) \<Longrightarrow> state_io_rel (effect K Q) (modify f)"
  unfolding state_io_rel_def effect_def calls_def by (auto intro: K_current)

lemma any_event_eff: "state_io_rel (effect K Q) (upd_event_ctx g)"
  unfolding upd_event_ctx_def by (intro any_modify_eff) simp_all

lemma GenerateStateMachineEvent_eff [eff]: "state_io_rel (effect K Q) (GenerateStateMachineEvent E e d)"
  unfolding GenerateStateMachineEvent_def by (intro eff_intros any_modify_eff; simp)

lemma current_upd_ao [simp]: "current (upd_ao a g s) = current s"
  by (cases a) simp_all

lemmas handler_intros = eff.keeps_return eff.keeps_bind eff.keeps_gets eff.keeps_cwhen eff.keeps_if eff.keeps_prod
  eff.keeps_let eff.keeps_option eff.keeps_for_each call_eff any_modify_eff any_event_eff
  while_do_eff upd_manifest_eff

subsection \<open>Mailbox, provisioning and watchdogs\<close>

lemma mailbox_eff [eff]:
  "state_io_rel (effect K Q) (set_swmbx_state E a1)"
  "state_io_rel (effect K Q) (set_secure_connection_state E a2)"
  "state_io_rel (effect K Q) (ResetMailBox E)"
  "state_io_rel (effect K Q) (InitializeSoftwareMailbox E)"
  "state_io_rel (effect K Q) (InitializeSmbusMailbox E)"
  unfolding set_swmbx_state_def set_secure_connection_state_def ResetMailBox_def
    InitializeSoftwareMailbox_def InitializeSmbusMailbox_def
  by (intro handler_intros eff; simp)+

lemma provision_eff [eff]:
  "state_io_rel (effect K Q) (provision_once E a1 b1 c1)"
  "state_io_rel (effect K Q) (ProvisionRootKeyHash E a2)"
  "state_io_rel (effect K Q) (ProvisionPchOffsets E a3)"
  "state_io_rel (effect K Q) (ProvisionBmcOffsets E a4)"
  "state_io_rel (effect K Q) (ProvisionAFMOffset E a5)"
  "state_io_rel (effect K Q) (ProvisionPitKey E)"
  "state_io_rel (effect K Q) (EnablePitLevel1 E)"
  "state_io_rel (effect K Q) (EnablePitLevel2 E)"
  "state_io_rel (effect K Q) (IsSpdmAttestationEnabled E)"
  "state_io_rel (effect K Q) (EnableSpdmAttestation E a10)"
  "state_io_rel (effect K Q) (lock_provision_flash E)"
  "state_io_rel (effect K Q) (publish_bytes E a12)"
  "state_io_rel (effect K Q) (ReadRootKey E)"
  "state_io_rel (effect K Q) (ReadPchOfsets E)"
  "state_io_rel (effect K Q) (ReadBmcOffets E)"
  "state_io_rel (effect K Q) (ReadAFMOffset E)"
  unfolding provision_once_def ProvisionRootKeyHash_def ProvisionPchOffsets_def ProvisionBmcOffsets_def
    ProvisionAFMOffset_def ProvisionPitKey_def EnablePitLevel1_def EnablePitLevel2_def
    IsSpdmAttestationEnabled_def EnableSpdmAttestation_def lock_provision_flash_def
    publish_bytes_def ReadRootKey_def ReadPchOfsets_def ReadBmcOffets_def ReadAFMOffset_def
  by (intro handler_intros eff; simp)+

lemma provision_command_eff [eff]:
  "state_io_rel (effect K Q) (provision_switch E a1)"
  "state_io_rel (effect K Q) (clear_decommission E)"
  "state_io_rel (effect K Q) (process_provision_command E)"
  "state_io_rel (effect K Q) (handle_provision_event E)"
  "state_io_rel (effect K Q) (show_provision_info E)"
  unfolding provision_switch_def clear_decommission_def process_provision_command_def
    handle_provision_event_def show_provision_info_def provision_data_cmd_def
  by (intro handler_intros eff; simp)+

lemma watchdog_eff [eff]:
  "state_io_rel (effect K Q) (is_timed_boot_done E)"
  "state_io_rel (effect K Q) (log_t0_timed_boot_complete_if_ready E a2)"
  "state_io_rel (effect K Q) (set_boot_bit a3)"
  "state_io_rel (effect K Q) (clear_boot_bit a4)"
  unfolding is_timed_boot_done_def log_t0_timed_boot_complete_if_ready_def set_boot_bit_def
    clear_boot_bit_def
  by (intro handler_intros eff; simp)+

lemma checkpoint_eff [eff]:
  "state_io_rel (effect K Q) (bmc_wdt_handler E a1)"
  "state_io_rel (effect K Q) (me_wdt_timer_handler E a2)"
  "state_io_rel (effect K Q) (acm_wdt_handler E a3)"
  "state_io_rel (effect K Q) (bios_wdt_handler E a4)"
  "state_io_rel (effect K Q) (UpdateBmcCheckpoint E a5)"
  "state_io_rel (effect K Q) (UpdateAcmCheckpoint E a6)"
  "state_io_rel (effect K Q) (UpdateBiosCheckpoint E a7)"
  unfolding bmc_wdt_handler_def me_wdt_timer_handler_def acm_wdt_handler_def bios_wdt_handler_def
    UpdateBmcCheckpoint_def UpdateAcmCheckpoint_def UpdateBiosCheckpoint_def
  by (intro handler_intros eff; simp)+

subsection \<open>The states\<close>

lemma verify_state_eff [eff]:
  "state_io_rel (effect K Q) (handle_update_at_reset E)"
  "state_io_rel (effect K Q) (handle_pit_event E)"
  "state_io_rel (effect K Q) (handle_pit_verification E)"
  "state_io_rel (effect K Q) (verify_boot_images E a4)"
  "state_io_rel (effect K Q) (log_auth_failure E a5 b5 c5 d5 e5)"
  "state_io_rel (effect K Q) (record_verification E)"
  "state_io_rel (effect K Q) (handle_image_verification E)"
  "state_io_rel (effect K Q) (do_verify E)"
  unfolding handle_update_at_reset_def handle_pit_event_def handle_pit_verification_def
    verify_boot_images_def log_auth_failure_def record_verification_def
    handle_image_verification_def do_verify_def
  by (intro handler_intros eff; simp)+

lemma recovery_state_eff [eff]:
  "state_io_rel (effect K Q) (handle_recovery E)"
  "state_io_rel (effect K Q) (do_recovery E)"
  "state_io_rel (effect K Q) (do_rot_recovery E)"
  unfolding handle_recovery_def do_recovery_def do_rot_recovery_def
  by (intro handler_intros eff; simp)+

lemma update_state_eff [eff]:
  "state_io_rel (effect K Q) (update_round E a1)"
  "state_io_rel (effect K Q) (start_update E a2)"
  "state_io_rel (effect K Q) (finish_update E a3 b3)"
  "state_io_rel (effect K Q) (handle_update_requested E)"
  unfolding update_round_def start_update_def finish_update_def handle_update_requested_def
  by (intro handler_intros eff; simp)+

lemma apply_pfm_eff [eff]: "state_io_rel (effect K Q) (apply_pfm_protection E dev)"
  unfolding apply_pfm_protection_def by (intro handler_intros eff; simp)

lemma seamless_state_eff [eff]:
  "state_io_rel (effect K Q) (seamless_round E a1)"
  "state_io_rel (effect K Q) (handle_seamless_update_requested E)"
  "state_io_rel (effect K Q) (handle_seamless_update_verification E)"
  unfolding seamless_round_def handle_seamless_update_requested_def
    handle_seamless_update_verification_def
  by (intro handler_intros eff; simp)+

lemma hold_state_eff [eff]:
  "state_io_rel (effect K Q) (init_i2c_filter E a3)"
  "state_io_rel (effect K Q) (init_i2c_filters E)"
  "state_io_rel (effect K Q) (do_init E)"
  "state_io_rel (effect K Q) (clear_boot_done a6)"
  "state_io_rel (effect K Q) (reset_scope_of E)"
  "state_io_rel (effect K Q) (hold_platform E)"
  unfolding init_i2c_filter_def init_i2c_filters_def
    do_init_def clear_boot_done_def reset_scope_of_def hold_platform_def
  by (intro handler_intros eff; simp)+

lemma enter_tmin1_eff [eff]: "state_io_rel (effect K Q) (enter_tmin1 E)"
  unfolding enter_tmin1_def
  by (intro handler_intros eff; simp split: reset_scope.split; intro conjI impI handler_intros eff; simp)

lemma runtime_eff [eff]:
  "state_io_rel (effect K Q) (exit_tzero E)"
  "state_io_rel (effect K Q) (handle_unprovisioned_checkpoint E)"
  "state_io_rel (effect K Q) (run_attester E)"
  "state_io_rel (effect K Q) (attach_bmc_i3c E)"
  "state_io_rel (effect K Q) (handle_checkpoint E)"
  "state_io_rel (effect K Q) (provision_request E)"
  "state_io_rel (effect K Q) (do_unprovisioned E)"
  "state_io_rel (effect K Q) (start_bmc_watchdog E)"
  "state_io_rel (effect K Q) (start_pch_watchdog E)"
  "state_io_rel (effect K Q) (enter_runtime E)"
  "state_io_rel (effect K Q) (exit_runtime E)"
  "state_io_rel (effect K Q) (do_runtime E)"
  "state_io_rel (effect K Q) (enter_lockdown E)"
  "state_io_rel (effect K Q) (do_reboot E)"
  unfolding exit_tzero_def handle_unprovisioned_checkpoint_def run_attester_def attach_bmc_i3c_def
    handle_checkpoint_def provision_request_def do_unprovisioned_def start_bmc_watchdog_def
    start_pch_watchdog_def enter_runtime_def exit_runtime_def do_runtime_def enter_lockdown_def
    do_reboot_def
  by (intro handler_intros eff; simp)+

end

section \<open>The frames of the model\<close>

text \<open>
  What is left of a world when an operation of each layer has its way: \<open>settled\<close> after reading and
  copying images, \<open>standing\<close> after repairing them, \<open>posture\<close> after an update.
\<close>

definition settled :: "world \<Rightarrow> world" where
  "settled s = s\<lparr>trace := [], manifest := manifest boot_world, afm_list := (\<lambda>_. 0), oob := False,
     diverged := False, gFailedUpdateAttempts := 0, fp_green_on := False, fp_amber_on := False,
     fp_id_on := False, bypass_bmc_fp_signal := False, g_bmc_recovery_level := 0, g_pch_recovery_level := 0\<rparr>"

definition standing :: "world \<Rightarrow> world" where
  "standing s = (settled s)\<lparr>bmc_active_object := good_ao, pch_active_object := good_ao,
     afm_active_object := good_ao\<rparr>"

definition posture :: "world \<Rightarrow> world" where
  "posture s = (standing s)\<lparr>AfmStatus := 0, event_ctx := (event_ctx s)\<lparr>bit8_2 := 0, bit8_3 := 0\<rparr>\<rparr>"

lemma settled_sel:
  "aspeed_sm_fifo (settled s) = aspeed_sm_fifo s" "current (settled s) = current s" "event_ctx (settled s) = event_ctx s"
  "bmc_active_object (settled s) = bmc_active_object s" "pch_active_object (settled s) = pch_active_object s"
  "afm_active_object (settled s) = afm_active_object s" "AfmStatus (settled s) = AfmStatus s"
  by (simp_all add: settled_def)

lemma standing_sel:
  "aspeed_sm_fifo (standing s) = aspeed_sm_fifo s" "current (standing s) = current s"
  "event_ctx (standing s) = event_ctx s" "AfmStatus (standing s) = AfmStatus s"
  by (simp_all add: standing_def settled_sel)

lemma posture_sel:
  "aspeed_sm_fifo (posture s) = aspeed_sm_fifo s" "current (posture s) = current s"
  "ev (event_ctx (posture s)) = ev (event_ctx s)" "bit8_0 (event_ctx (posture s)) = bit8_0 (event_ctx s)"
  "bit8_1 (event_ctx (posture s)) = bit8_1 (event_ctx s)"
  by (simp_all add: posture_def standing_sel)

lemma settledD:
  assumes "settled t = settled s"
  shows "aspeed_sm_fifo t = aspeed_sm_fifo s" "current t = current s" "event_ctx t = event_ctx s"
    "bmc_active_object t = bmc_active_object s" "pch_active_object t = pch_active_object s"
    "afm_active_object t = afm_active_object s" "AfmStatus t = AfmStatus s"
  using assms by (metis settled_sel)+

lemma standingD:
  assumes "standing t = standing s"
  shows "aspeed_sm_fifo t = aspeed_sm_fifo s" "current t = current s" "event_ctx t = event_ctx s"
    "AfmStatus t = AfmStatus s"
  using assms by (metis standing_sel)+

lemma postureD:
  assumes "posture t = posture s"
  shows "aspeed_sm_fifo t = aspeed_sm_fifo s" "current t = current s" "ev (event_ctx t) = ev (event_ctx s)"
    "bit8_0 (event_ctx t) = bit8_0 (event_ctx s)" "bit8_1 (event_ctx t) = bit8_1 (event_ctx s)"
  using assms by (metis posture_sel)+

lemma benign_not_release: "benign c \<Longrightarrow> \<not> releases c" "host_write c \<Longrightarrow> \<not> releases c" "gating c \<Longrightarrow> \<not> releases c"
  by (cases c rule: releases.cases; simp)+

interpretation verifies: verifying settled benign
  by unfold_locales (simp_all add: settled_def)

interpretation screens: gating_hosts settled "\<lambda>c. \<not> releases c"
  by unfold_locales (auto simp: settled_def benign_not_release)

interpretation copies: copying settled "\<lambda>c. benign c \<or> host_write c"
  by unfold_locales (simp_all add: settled_def)

interpretation repairs: repairing standing "\<lambda>c. benign c \<or> host_write c"
  by unfold_locales (simp_all add: settled_def standing_def)

interpretation updates: updating posture "\<lambda>c. benign c \<or> host_write c \<or> gating c"
  by unfold_locales (simp_all add: settled_def standing_def posture_def)

interpretation actions: handling current "\<lambda>c. \<not> releases c"
  by unfold_locales (auto simp: benign_not_release)

end
