(* ===== verification/Pfr_Outcome.thy ===== *)
theory Pfr_Outcome
  imports Pfr_Frames
begin

text \<open>
  How each handler of \<open>AspeedStateMachine.c\<close> answers: which events the verification, recovery and
  initialisation states post, in which order and with which image status.
\<close>

section \<open>The queue\<close>

lemma queue_event:
  "heap_ok E \<Longrightarrow> aspeed_sm_fifo (exec (GenerateStateMachineEvent E e d) s) = aspeed_sm_fifo s @ [mk_event e d]"
  by (simp add: GenerateStateMachineEvent_def heap_ok_def case_prod_beta)

lemma ev_mk_event [simp]: "ev (mk_event e d) = e"
  by (cases d) simp

lemma queue_settled: "state_io_rel (effect settled Q) m \<Longrightarrow> aspeed_sm_fifo (exec m s) = aspeed_sm_fifo s"
  by (drule effect_keeps [where s = s]) (rule settledD)

lemma queue_standing: "state_io_rel (effect standing Q) m \<Longrightarrow> aspeed_sm_fifo (exec m s) = aspeed_sm_fifo s"
  by (drule effect_keeps [where s = s]) (rule standingD)

lemma queue_posture: "state_io_rel (effect posture Q) m \<Longrightarrow> aspeed_sm_fifo (exec m s) = aspeed_sm_fifo s"
  by (drule effect_keeps [where s = s]) (rule postureD)

lemma settled_event: "state_io_rel (effect settled Q) m \<Longrightarrow> event_ctx (exec m s) = event_ctx s"
  by (drule effect_keeps [where s = s]) (rule settledD)

lemma standing_event: "state_io_rel (effect standing Q) m \<Longrightarrow> event_ctx (exec m s) = event_ctx s"
  by (drule effect_keeps [where s = s]) (rule standingD)

section \<open>The answer of a verification\<close>

lemma verify_boot_images_quiet:
  "aspeed_sm_fifo (exec (verify_boot_images E r) s) = aspeed_sm_fifo s"
  "event_ctx (exec (verify_boot_images E r) s) = event_ctx s"
proof -
  have "state_io_rel (effect standing (\<lambda>c. benign c \<or> host_write c)) (verify_boot_images E r)"
    unfolding verify_boot_images_def Let_def
    by (intro repairs.eff_intros eff; simp add: standing_def settled_def)
  then show "aspeed_sm_fifo (exec (verify_boot_images E r) s) = aspeed_sm_fifo s"
    "event_ctx (exec (verify_boot_images E r) s) = event_ctx s"
    by (rule queue_standing standing_event)+
qed

lemma record_verification_quiet:
  "aspeed_sm_fifo (exec (record_verification E) s) = aspeed_sm_fifo s"
  "event_ctx (exec (record_verification E) s) = event_ctx s"
proof -
  have log: "state_io_rel (effect settled benign) (log_auth_failure E a c1 c2 c3 c4)" for a c1 c2 c3 c4
    unfolding log_auth_failure_def by (intro verifies.eff_intros eff)
  show "aspeed_sm_fifo (exec (record_verification E) s) = aspeed_sm_fifo s"
    "event_ctx (exec (record_verification E) s) = event_ctx s"
    by (simp_all add: record_verification_def case_prod_beta queue_settled [OF log] settled_event [OF log])
qed

lemma status_event [simp]:
  "event_ctx (exec (GenerateStateMachineEvent E e d) s) = event_ctx s"
  "bmc_active_object (exec (GenerateStateMachineEvent E e d) s) = bmc_active_object s"
  "pch_active_object (exec (GenerateStateMachineEvent E e d) s) = pch_active_object s"
  "afm_active_object (exec (GenerateStateMachineEvent E e d) s) = afm_active_object s"
  by (simp_all add: GenerateStateMachineEvent_def case_prod_beta)

definition verdicts :: "pfr_event set" where
  "verdicts = {VERIFY_UNPROVISIONED, UPDATE_REQUESTED, VERIFY_FAILED, VERIFY_DONE, RECOVERY_FAILED}"

text \<open>What \<open>VERIFY_DONE\<close> says of the images.\<close>

definition verified_images :: "env \<Rightarrow> world \<Rightarrow> bool" where
  "verified_images E s \<longleftrightarrow>
     (if ev (event_ctx s) = RECOVERY_DONE then ActiveImageStatus (bmc_active_object s) = 0
      else \<not> some_image_failed E s)"

lemma handle_image_verification_answer:
  assumes "heap_ok E"
  shows "\<exists>x. aspeed_sm_fifo (exec (handle_image_verification E) s) = aspeed_sm_fifo s @ [x] \<and>
    ev x \<in> verdicts \<and> (ev x = VERIFY_DONE \<longrightarrow> verified_images E (exec (handle_image_verification E) s))"
proof -
  define s1 where "s1 = exec (GetUfmStatusValue E) s"
  define s2 where "s2 = exec (has_pending_update E (bit8_2 (event_ctx s))) s1"
  define s3 where "s3 = exec (verify_boot_images E (bit8_2 (event_ctx s))) s2"
  define s4 where "s4 = exec (record_verification E) s3"
  have ufm: "state_io_rel (effect settled benign) (GetUfmStatusValue E)" by (intro eff)
  have pending: "state_io_rel (effect settled benign) (has_pending_update E p)" for p by (intro eff)
  have q: "aspeed_sm_fifo s1 = aspeed_sm_fifo s" "aspeed_sm_fifo s2 = aspeed_sm_fifo s" "aspeed_sm_fifo s4 = aspeed_sm_fifo s"
    by (simp_all add: s1_def s2_def s3_def s4_def queue_settled [OF ufm] queue_settled [OF pending]
        verify_boot_images_quiet record_verification_quiet)
  show ?thesis
  proof (cases "result (GetUfmStatusValue E) s AND UFM_PROVISIONED = 0")
    case True
    then show ?thesis
      by (simp add: handle_image_verification_def case_prod_beta s1_def [symmetric] queue_event [OF assms] q verdicts_def)
  next
    case provisioned: False
    show ?thesis
    proof (cases "result (has_pending_update E (bit8_2 (event_ctx s))) s1")
      case None
      have "verification_event E s4 \<in> verdicts"
        by (simp add: verification_event_def verdicts_def)
      moreover have "verified_images E s4" if "verification_event E s4 = VERIFY_DONE"
        using that by (auto simp: verification_event_def verified_images_def split: if_splits)
      moreover have "exec (handle_image_verification E) s =
          exec (GenerateStateMachineEvent E (verification_event E s4) (data_ptr (event_ctx s))) s4"
        using provisioned None
        by (simp add: handle_image_verification_def case_prod_beta s1_def [symmetric] s2_def [symmetric]
            s3_def [symmetric] s4_def [symmetric])
      ultimately show ?thesis
        using queue_event [OF assms] q by (auto simp: verified_images_def some_image_failed_def)
    next
      case (Some p)
      then show ?thesis
        using provisioned
        by (simp add: handle_image_verification_def case_prod_beta s1_def [symmetric] s2_def [symmetric]
            queue_event [OF assms] q verdicts_def)
    qed
  qed
qed

lemma handle_pit_verification_answer:
  assumes "heap_ok E"
  shows "result (handle_pit_verification E) s = Success \<and>
      aspeed_sm_fifo (exec (handle_pit_verification E) s) = aspeed_sm_fifo s \<and>
      event_ctx (exec (handle_pit_verification E) s) = event_ctx s \<or>
    result (handle_pit_verification E) s = Failure \<and>
      (\<exists>e. aspeed_sm_fifo (exec (handle_pit_verification E) s) = aspeed_sm_fifo s @ [mk_event e NULL_data] \<and>
        e \<in> {VERIFY_UNPROVISIONED, RECOVERY_FAILED})"
proof -
  define s1 where "s1 = exec (GetUfmStatusValue E) s"
  define s2 where "s2 = exec (intel_pfr_pit_level1_verify E) s1"
  have ufm: "state_io_rel (effect settled benign) (GetUfmStatusValue E)" by (intro eff)
  have l1: "state_io_rel (effect settled benign) (intel_pfr_pit_level1_verify E)" by (intro eff)
  have l2: "state_io_rel (effect settled benign) (intel_pfr_pit_level2_verify E)" by (intro eff)
  have q: "aspeed_sm_fifo s1 = aspeed_sm_fifo s" "aspeed_sm_fifo s2 = aspeed_sm_fifo s"
    "event_ctx s1 = event_ctx s" "event_ctx s2 = event_ctx s"
    by (simp_all add: s1_def s2_def queue_settled [OF ufm] queue_settled [OF l1] settled_event [OF ufm] settled_event [OF l1])
  show ?thesis
    by (auto simp: handle_pit_verification_def case_prod_beta s1_def [symmetric] s2_def [symmetric] q
        queue_settled [OF l2] settled_event [OF l2] queue_event [OF assms])
qed

lemma do_verify_answer:
  assumes "heap_ok E"
  shows "\<exists>x. aspeed_sm_fifo (exec (do_verify E) s) = aspeed_sm_fifo s @ [x] \<and>
    ev x \<in> verdicts \<and> (ev x = VERIFY_DONE \<longrightarrow> verified_images E (exec (do_verify E) s))"
proof (cases "CONFIG_PIT_PROTECTION E")
  case True
  define s1 where "s1 = exec (handle_pit_verification E) s"
  consider (passed) "result (handle_pit_verification E) s = Success" "aspeed_sm_fifo s1 = aspeed_sm_fifo s"
    | (failed) e where "result (handle_pit_verification E) s = Failure"
        "aspeed_sm_fifo s1 = aspeed_sm_fifo s @ [mk_event e NULL_data]" "e \<in> {VERIFY_UNPROVISIONED, RECOVERY_FAILED}"
    using handle_pit_verification_answer [OF assms, of s] unfolding s1_def by blast
  then show ?thesis
  proof cases
    case passed
    then show ?thesis
      using True handle_image_verification_answer [OF assms, of s1]
      by (simp add: do_verify_def case_prod_beta s1_def [symmetric])
  next
    case failed
    then have "exec (do_verify E) s = s1" using True by (simp add: do_verify_def case_prod_beta s1_def)
    then show ?thesis using failed by (auto simp: verdicts_def)
  qed
next
  case False
  then have "do_verify E = handle_image_verification E" by (simp add: do_verify_def)
  then show ?thesis using handle_image_verification_answer [OF assms, of s] by simp
qed

section \<open>The answer of a recovery\<close>

lemma handle_recovery_answer:
  assumes "heap_ok E"
  shows "\<exists>x. aspeed_sm_fifo (exec (handle_recovery E) s) = aspeed_sm_fifo s @ [x] \<and>
    (ev x = RECOVERY_DONE \<and> recovery_case E (ev (event_ctx s)) \<or> ev x = RECOVERY_FAILED)"
proof -
  have imgs: "state_io_rel (effect standing (\<lambda>c. benign c \<or> host_write c)) (recover_images E x)" for x by (intro eff)
  have plat: "state_io_rel (effect settled benign) (SetPlatformState E p)" for p by (intro eff)
  have rd: "state_io_rel (effect settled benign) (read_update_status E)" by (intro eff)
  have wr: "state_io_rel (effect settled benign) (write_changed_status E a b)" for a b by (intro eff)
  show ?thesis
    by (cases "recovery_case E (ev (event_ctx s))")
       (simp_all add: handle_recovery_def case_prod_beta queue_event [OF assms] queue_settled [OF wr]
        queue_standing [OF imgs] queue_settled [OF rd] queue_settled [OF plat])
qed

lemma do_rot_recovery_answer:
  assumes "heap_ok E"
  shows "\<exists>es e. aspeed_sm_fifo (exec (do_rot_recovery E) s) = aspeed_sm_fifo s @ es @ [mk_event e NULL_data] \<and>
    set es \<subseteq> {mk_event RECOVERY_FAILED NULL_data} \<and> e \<in> {RECOVERY_DONE, RECOVERY_FAILED}"
proof -
  have sz: "state_io_rel (effect settled benign) (pfr_spi_get_device_size E d)" for d by (intro eff)
  have rd: "state_io_rel (effect settled benign) (read_update_status E)" by (intro eff)
  have wr: "state_io_rel (effect settled benign) (write_changed_status E a b)" for a b by (intro eff)
  have er: "state_io_rel (effect settled (\<lambda>c. benign c \<or> host_write c)) (pfr_spi_erase_region E a b c d)" for a b c d by (intro eff)
  have cp: "state_io_rel (effect settled (\<lambda>c. benign c \<or> host_write c))
      (pfr_spi_region_read_write_between_spi E a b c d e)" for a b c d e by (intro eff)
  show ?thesis
    by (simp add: do_rot_recovery_def case_prod_beta queue_event [OF assms] queue_settled [OF wr]
        queue_settled [OF rd] queue_settled [OF sz] queue_settled [OF er] queue_settled [OF cp])
qed

section \<open>The answer of the initialisation\<close>

abbreviation "same_queue \<equiv> keeps_field aspeed_sm_fifo"

lemma queue_same: "state_io_rel (effect settled Q) m \<Longrightarrow> state_io_rel same_queue m"
  using queue_settled by (auto simp: state_io_rel_def keeps_field_def)

lemma queue_kept: "state_io_rel same_queue m \<Longrightarrow> aspeed_sm_fifo (exec m s) = aspeed_sm_fifo s"
  by (simp add: state_io_rel_def keeps_field_def)

lemma same_queue_basic:
  "state_io_rel same_queue (ext E c)" "state_io_rel same_queue (act E c)" "state_io_rel same_queue (upd_manifest g)"
  "(\<And>s. aspeed_sm_fifo (f s) = aspeed_sm_fifo s) \<Longrightarrow> state_io_rel same_queue (modify f)"
  by (simp_all add: state_io_rel_def keeps_field_def upd_manifest_def)

lemmas queue_intros = field.keeps_return field.keeps_bind field.keeps_gets field.keeps_cwhen field.keeps_if
  field.keeps_prod field.keeps_let field.keeps_option field.keeps_for_each same_queue_basic

lemma small_steps_queue:
  "state_io_rel same_queue (MBX_REG_SETTER E a v)"
  "state_io_rel same_queue (get_ufm_svn E o')"
  "state_io_rel same_queue (pfr_spi_get_device_size E d)"
  "state_io_rel same_queue (get_hash E n)"
  "state_io_rel same_queue (SetPlatformState E p)"
  "state_io_rel same_queue (SetUfmStatusValue E b)"
  "state_io_rel same_queue (GetUfmStatusValue E)"
  "state_io_rel same_queue (read_update_status E)"
  by (rule queue_same, rule eff)+

lemma mailbox_queue: "state_io_rel same_queue (InitializeSmbusMailbox E)"
  unfolding InitializeSmbusMailbox_def InitializeSoftwareMailbox_def set_secure_connection_state_def
    set_swmbx_state_def ResetMailBox_def
  by (intro queue_intros small_steps_queue; simp)

lemma do_init_answer:
  assumes "heap_ok E"
  shows "\<exists>e. aspeed_sm_fifo (exec (do_init E) s) = aspeed_sm_fifo s @ [mk_event e NULL_data] \<and>
    e \<in> {INIT_DONE, INIT_ROT_SECONDARY_BOOTED}"
proof -
  have inits: "state_io_rel same_queue (for_each ks (\<lambda>i. act E (Init i)))" for ks
    by (intro queue_intros)
  have bmc: "state_io_rel (effect posture (\<lambda>c. benign c \<or> host_write c \<or> gating c)) (BMCBootHold E)"
    and pch: "state_io_rel (effect posture (\<lambda>c. benign c \<or> host_write c \<or> gating c)) (PCHBootHold E)"
    by (intro eff)+
  have att: "state_io_rel same_queue (IsSpdmAttestationEnabled E)"
    unfolding IsSpdmAttestationEnabled_def by (intro queue_intros small_steps_queue)
  show ?thesis
    by (simp add: do_init_def queue_posture [OF bmc] queue_posture [OF pch] case_prod_beta queue_event [OF assms]
        queue_kept [OF inits] queue_kept [OF mailbox_queue] queue_kept [OF att] queue_kept [OF small_steps_queue(1)]
        queue_kept [OF small_steps_queue(5)] del: for_each.simps)
qed

end
