(* ===== verification/Pfr_Loops.thy ===== *)
theory Pfr_Loops
  imports Pfr_Outcome
begin

text \<open>
  The update loops of \<open>AspeedStateMachine.c\<close>: when \<open>handle_update_requested\<close> ends, what it then
  posts, and the request with which it never ends.
\<close>

section \<open>Which bits a round clears\<close>

lemma and_or_zero: "(x :: u8) AND (b OR c) = 0 \<longleftrightarrow> x AND b = 0 \<and> x AND c = 0"
  by (auto simp: bit_eq_iff bit_simps)

lemma and_not_less: "x AND b \<noteq> 0 \<Longrightarrow> unat (x AND NOT b) < unat (x :: u8)"
proof -
  assume b: "x AND b \<noteq> 0"
  have "x AND NOT b \<noteq> x"
  proof
    assume "x AND NOT b = x"
    then have "x AND b = (x AND NOT b) AND b" by simp
    also have "\<dots> = 0" by (simp add: and.assoc)
    finally show False using b by simp
  qed
  moreover have "x AND NOT b \<le> x" by (rule word_and_le2)
  ultimately show ?thesis by (metis order_less_le word_less_nat_alt)
qed

lemma recovery_requested_region:
  assumes "recovery_target E (ul_image_type l) = Some (r, b, a)"
  shows "update_region (snd (result (handle_recovery_requested E l) s)) = update_region l AND NOT b"
  using assms by (simp add: handle_recovery_requested_def case_prod_beta Let_def)

lemma request_image_region:
  assumes "recovery_target E t = Some (r', rb, a)"
  shows "\<exists>b. update_region (result (request_image E t r rb ab ao dyn l) s) = update_region l AND NOT b \<and>
    (update_region l AND (rb OR ab) \<noteq> 0 \<longrightarrow> update_region l AND b \<noteq> 0)"
proof -
  let ?l = "l\<lparr>ul_image_type := t, Pfr_Request.region_index := Some r\<rparr>"
  have rec: "update_region (snd (result (handle_recovery_requested E ?l) s)) = update_region l AND NOT rb"
    using recovery_requested_region [of E ?l] assms by simp
  show ?thesis
  proof (cases "update_region l AND rb = 0")
    case True
    then have "update_region (result (request_image E t r rb ab ao dyn l) s) = update_region l AND NOT ab"
      by (simp add: request_image_def case_prod_beta request_active_def Let_def)
    moreover have "update_region l AND (rb OR ab) = update_region l AND ab"
      using True by (simp add: bit.conj_disj_distrib)
    ultimately show ?thesis by metis
  next
    case False
    then have "update_region (result (request_image E t r rb ab ao dyn l) s) = update_region l AND NOT rb \<or>
      update_region (result (request_image E t r rb ab ao dyn l) s) = (update_region l AND NOT rb) AND NOT ab"
      using rec by (simp add: request_image_def case_prod_beta request_active_def Let_def)
    moreover have "(update_region l AND NOT rb) AND NOT ab = update_region l AND NOT (rb OR ab)"
      by (simp add: bit.de_Morgan_disj ac_simps)
    moreover have "update_region l AND (rb OR ab) \<noteq> 0"
      using False by (simp add: and_or_zero)
    ultimately show ?thesis using False by metis
  qed
qed

lemma choose_image_region:
  assumes "bit8_0 (event_ctx s) = PchUpdateIntent \<or> bit8_0 (event_ctx s) = BmcUpdateIntent"
    and "update_region l AND PchBmcHROTActiveAndRecoveryUpdate \<noteq> 0"
  shows "\<exists>b. update_region (result (choose_image E l) s) = update_region l AND NOT b \<and> update_region l AND b \<noteq> 0"
proof -
  have t: "recovery_target E BMC_TYPE = Some (BMC_REGION, BmcRecoveryUpdate, UPDATE_STATUS_BMC_HASH_ADDR)"
    "recovery_target E PCH_TYPE = Some (PCH_REGION, PchRecoveryUpdate, UPDATE_STATUS_PCH_HASH_ADDR)"
    "recovery_target E ROT_TYPE = Some (ROT_REGION, HROTRecoveryUpdate, UPDATE_STATUS_ROT_HASH_ADDR)"
    by (simp_all add: recovery_target_def)
  have m: "BmcRecoveryUpdate OR BmcActiveUpdate = BmcActiveAndRecoveryUpdate"
    "PchRecoveryUpdate OR PchActiveUpdate = PchActiveAndRecoveryUpdate"
    "HROTRecoveryUpdate OR HROTActiveUpdate = HROTActiveAndRecoveryUpdate" by simp_all
  have all: "PchBmcHROTActiveAndRecoveryUpdate =
    (BmcActiveAndRecoveryUpdate OR PchActiveAndRecoveryUpdate) OR HROTActiveAndRecoveryUpdate" by simp
  have some: "update_region l AND BmcActiveAndRecoveryUpdate \<noteq> 0 \<or> update_region l AND PchActiveAndRecoveryUpdate \<noteq> 0 \<or>
    update_region l AND HROTActiveAndRecoveryUpdate \<noteq> 0"
    using assms(2) unfolding all and_or_zero by blast
  consider (bmc) "update_region l AND BmcActiveAndRecoveryUpdate \<noteq> 0"
    | (pch) "update_region l AND BmcActiveAndRecoveryUpdate = 0" "update_region l AND PchActiveAndRecoveryUpdate \<noteq> 0"
    | (rot) "update_region l AND BmcActiveAndRecoveryUpdate = 0" "update_region l AND PchActiveAndRecoveryUpdate = 0"
        "update_region l AND HROTActiveAndRecoveryUpdate \<noteq> 0"
    using some by blast
  then show ?thesis
  proof cases
    case bmc
    obtain s' where "result (choose_image E l) s =
        result (request_image E BMC_TYPE BMC_REGION BmcRecoveryUpdate BmcActiveUpdate (Some AO_BMC) True l) s'"
      using assms(1) bmc by (auto simp: choose_image_def case_prod_beta)
    then show ?thesis using request_image_region [OF t(1), of BMC_REGION BmcActiveUpdate "Some AO_BMC" True l s'] bmc m(1) by metis
  next
    case pch
    obtain s' where "result (choose_image E l) s =
        result (request_image E PCH_TYPE PCH_REGION PchRecoveryUpdate PchActiveUpdate (Some AO_PCH) True l) s'"
      using assms(1) pch by (auto simp: choose_image_def case_prod_beta)
    then show ?thesis using request_image_region [OF t(2), of PCH_REGION PchActiveUpdate "Some AO_PCH" True l s'] pch m(2) by metis
  next
    case rot
    obtain s' where "result (choose_image E l) s =
        result (request_image E ROT_TYPE ROT_REGION HROTRecoveryUpdate HROTActiveUpdate None False l) s'"
      using assms(1) rot by (auto simp: choose_image_def case_prod_beta)
    then show ?thesis using request_image_region [OF t(3), of ROT_REGION HROTActiveUpdate None False l s'] rot m(3) by metis
  qed
qed

section \<open>A round of the update loop\<close>

abbreviation "moves \<equiv> \<lambda>c. benign c \<or> host_write c \<or> gating c"

lemma update_round_continues:
  "\<exists>l'. result (update_round E l) s = Continue l' \<and>
    update_region l' = update_region (result (choose_image E (l\<lparr>ul_image_type := NO_IMAGE\<rparr>)) s)"
  by (simp add: update_round_def case_prod_beta)

definition failure_posts :: "event_context \<Rightarrow> bool" where
  "failure_posts x \<longleftrightarrow> ev x = UPDATE_FAILED"

text \<open>A round leaves the kind and the source of the request alone and posts only failures.\<close>

definition round_rel :: "world \<Rightarrow> world \<Rightarrow> bool" where
  "round_rel s t \<longleftrightarrow> ev (event_ctx t) = ev (event_ctx s) \<and> bit8_0 (event_ctx t) = bit8_0 (event_ctx s) \<and>
     current t = current s \<and> posts failure_posts s t"

interpretation rounds: frame_rel round_rel
  by unfold_locales (auto simp: round_rel_def intro: posts.rel_refl posts.rel_trans)

lemma round_posture: "state_io_rel (effect posture Q) m \<Longrightarrow> state_io_rel round_rel m"
proof (erule frame_mono)
  fix s t assume "effect posture Q s t"
  then have "posture t = posture s" by (simp add: effect_def)
  from postureD [OF this] show "round_rel s t" by (simp add: round_rel_def posts_def)
qed

lemma update_round_rel: "state_io_rel round_rel (update_round E l)"
proof -
  have choose: "state_io_rel (effect posture moves) (choose_image E l)" for l by (intro eff)
  have upd: "state_io_rel (effect posture moves) (update_firmware_image E t ao w c)" for t ao w c by (intro eff)
  have note_region: "state_io_rel round_rel (upd_event_ctx (bit8_3_update f))" for f
    by (simp add: upd_event_ctx_def state_io_rel_def round_rel_def posts_def)
  have post: "state_io_rel round_rel (GenerateStateMachineEvent E UPDATE_FAILED d)" for d
    by (auto simp: state_io_rel_def round_rel_def GenerateStateMachineEvent_def case_prod_beta posts_def failure_posts_def)
  show ?thesis
    unfolding update_round_def
    by (intro rounds.keeps_intros round_posture [OF choose] round_posture [OF upd] note_region post)
qed

lemma update_round_source: "bit8_0 (event_ctx (exec (update_round E l) s)) = bit8_0 (event_ctx s)"
  using rounds.keepsD [OF update_round_rel] by (simp add: round_rel_def)

section \<open>The update loop ends\<close>

definition host_intent :: "world \<Rightarrow> bool" where
  "host_intent s \<longleftrightarrow> bit8_0 (event_ctx s) = PchUpdateIntent \<or> bit8_0 (event_ctx s) = BmcUpdateIntent"

definition in_regions :: "upd_locals \<Rightarrow> bool" where
  "in_regions l \<longleftrightarrow> update_region l AND PchBmcHROTActiveAndRecoveryUpdate = update_region l"

lemma in_regions_less: "in_regions l \<Longrightarrow> unat (update_region l) < update_rounds"
proof -
  assume "in_regions l"
  then have "update_region l \<le> 0x3f" unfolding in_regions_def by (metis word_and_le1)
  then show ?thesis by (simp add: word_le_nat_alt)
qed

lemma and_not_within: "r AND m = r \<Longrightarrow> (r AND NOT b) AND m = r AND NOT (b :: u8)"
  by (metis and.assoc and.commute)

lemma update_round_clears:
  assumes "in_regions l" and "host_intent s" and "update_region l \<noteq> 0"
    and "result (update_round E l) s = Continue l'"
  shows "in_regions l' \<and> host_intent (exec (update_round E l) s) \<and> unat (update_region l') < unat (update_region l)"
proof -
  obtain b where b: "update_region l' = update_region l AND NOT b" "update_region l AND b \<noteq> 0"
    using choose_image_region [of s "l\<lparr>ul_image_type := NO_IMAGE\<rparr>" E] update_round_continues [of E l s] assms
    by (auto simp: host_intent_def in_regions_def)
  moreover have "in_regions l'"
    using assms(1) b(1) unfolding in_regions_def by (simp add: and_not_within)
  moreover have "host_intent (exec (update_round E l) s)"
    using assms(2) by (simp add: host_intent_def update_round_source)
  ultimately show ?thesis using and_not_less by metis
qed

lemma update_loop_ends_within:
  assumes "in_regions l" and "host_intent s"
  shows "ended (result (c_while update_rounds (\<lambda>l. update_region l \<noteq> 0) (update_round E) l) s)"
  using assms
  by (intro c_while_ends_state [where I = "\<lambda>l s. in_regions l \<and> host_intent s" and \<mu> = "\<lambda>l. unat (update_region l)"])
     (auto dest: update_round_clears in_regions_less)

lemma start_update_host:
  assumes "host_intent s"
  shows "in_regions (result (start_update E c) s)" "host_intent (exec (start_update E c) s)"
proof -
  have log: "state_io_rel (effect settled benign) (LogUpdateFailure E a b)" for a b by (intro eff)
  show "in_regions (result (start_update E c) s)"
    using assms by (auto simp: start_update_def host_intent_def in_regions_def case_prod_beta and.assoc)
  show "host_intent (exec (start_update E c) s)"
    using assms by (auto simp: start_update_def host_intent_def upd_event_ctx_def upd_manifest_def
        case_prod_beta settled_event [OF log])
qed

text \<open>
  C16: an immediate update requested by the PCH or the BMC ends: started from any request of
  theirs, the loop of the update handler is over within 64 rounds, since every round clears a bit
  of the six it may be asked for.
\<close>

theorem update_loop_ends:
  assumes "bit8_0 (event_ctx s) = PchUpdateIntent \<or> bit8_0 (event_ctx s) = BmcUpdateIntent"
  shows "ended (result (c_while update_rounds (\<lambda>l. update_region l \<noteq> 0) (update_round E) (result (start_update E c) s))
    (exec (start_update E c) s))"
  using assms update_loop_ends_within start_update_host unfolding host_intent_def [symmetric] by blast

theorem update_loop_ends_witness:
  "ended (result (c_while update_rounds (\<lambda>l. update_region l \<noteq> 0) (update_round ref_env)
      (result (start_update ref_env clear_status)
        (boot_world\<lparr>event_ctx := mk_event UPDATE_REQUESTED (BmcUpdateIntent, 0x1b, 0, 0)\<rparr>)))
    (exec (start_update ref_env clear_status)
      (boot_world\<lparr>event_ctx := mk_event UPDATE_REQUESTED (BmcUpdateIntent, 0x1b, 0, 0)\<rparr>)))"
  by (rule update_loop_ends) simp

section \<open>What an update posts\<close>

text \<open>The rounds never leave the loop early, so it ends only by its condition.\<close>

lemma c_while_continuing:
  assumes "\<And>x s. \<exists>y. result (body x) s = Continue y" and "ended (result (c_while n cond body x) s)"
  shows "\<exists>y. result (c_while n cond body x) s = Break y \<and> \<not> cond y"
  using assms(2)
proof (induction n arbitrary: x s)
  case (Suc n)
  obtain y where y: "result (body x) s = Continue y" using assms(1) by blast
  then show ?case
    using Suc.IH [of y "exec (body x) s"] Suc.prems by (cases "cond x") (simp_all add: case_prod_beta)
qed simp

definition update_ends :: "event_context \<Rightarrow> bool" where
  "update_ends x \<longleftrightarrow> ev x = UPDATE_DONE \<or> ev x = UPDATE_FAILED"

lemma finish_update_answer:
  assumes "heap_ok E"
  shows "\<exists>x ys. aspeed_sm_fifo (exec (finish_update E c l) s) = aspeed_sm_fifo s @ x # ys \<and> update_ends x \<and>
    (\<forall>y \<in> set ys. ev y = UPDATE_REQUESTED)"
proof -
  have wr: "state_io_rel (effect settled benign) (write_changed_status E a b)" for a b by (intro eff)
  show ?thesis
    by (cases "update_region l = 0 \<and> ul_ret l = Success")
       (simp_all add: finish_update_def case_prod_beta upd_event_ctx_def queue_event [OF assms]
         queue_settled [OF wr] update_ends_def)
qed

lemma exec_ended_loop:
  assumes "result (c_while n cond body x) s = Break y"
  shows "exec (while_do n cond body x r k) s = exec (k y) (exec (c_while n cond body x) s)"
  using assms by (simp add: while_do_def case_prod_beta)

lemma update_answer:
  assumes "heap_ok E" and "host_intent s"
  shows "\<exists>es x ys. aspeed_sm_fifo (exec (handle_update_requested E) s) = aspeed_sm_fifo s @ es @ x # ys \<and>
    (\<forall>e \<in> set es. ev e = UPDATE_FAILED) \<and> update_ends x \<and> (\<forall>y \<in> set ys. ev y = UPDATE_REQUESTED)"
proof -
  define s0 where "s0 = s\<lparr>manifest := (manifest s)\<lparr>update_intent1 := 0, update_intent2 := 0\<rparr>\<rparr>"
  define s1 where "s1 = exec (read_update_status E) s0"
  define c where "c = snd (result (read_update_status E) s0)"
  define s2 where "s2 = exec (start_update E c) s1"
  define l where "l = result (start_update E c) s1"
  define f where "f = c_while update_rounds (\<lambda>l. update_region l \<noteq> 0) (update_round E) l"
  have rd: "state_io_rel (effect settled benign) (read_update_status E)" by (intro eff)
  have log: "state_io_rel (effect settled benign) (LogUpdateFailure E a b)" for a b by (intro eff)
  have s1: "host_intent s1" "aspeed_sm_fifo s1 = aspeed_sm_fifo s"
    using assms(2) by (simp_all add: s1_def s0_def host_intent_def settled_event [OF rd] queue_settled [OF rd])
  have s2: "aspeed_sm_fifo s2 = aspeed_sm_fifo s"
    using s1 by (simp add: s2_def start_update_def case_prod_beta upd_event_ctx_def upd_manifest_def queue_settled [OF log])
  have over: "ended (result f s2)"
    unfolding f_def l_def s2_def using start_update_host [OF s1(1)] by (rule update_loop_ends_within)
  have "\<exists>y. result f s2 = Break y \<and> \<not> update_region y \<noteq> 0"
    unfolding f_def
    by (rule c_while_continuing [OF _ over [unfolded f_def]]) (use update_round_continues in blast)
  then obtain y where y: "result f s2 = Break y" by blast
  have "state_io_rel round_rel f"
    unfolding f_def by (intro rounds.keeps_c_while update_round_rel)
  then have "posts failure_posts s2 (exec f s2)" using rounds.keepsD by (auto simp: round_rel_def)
  then obtain es where es: "aspeed_sm_fifo (exec f s2) = aspeed_sm_fifo s @ es" "\<forall>e \<in> set es. ev e = UPDATE_FAILED"
    by (auto simp: posts_def s2 failure_posts_def list_all_iff)
  have "exec (handle_update_requested E) s = exec (finish_update E c y) (exec f s2)"
    using exec_ended_loop [OF y [unfolded f_def]]
    by (simp add: handle_update_requested_def upd_manifest_def case_prod_beta s0_def [symmetric] s1_def [symmetric] c_def [symmetric] s2_def [symmetric]
        l_def [symmetric] f_def)
  then show ?thesis
    using finish_update_answer [OF assms(1), of c y "exec f s2"] es by auto
qed

section \<open>The request that never ends\<close>

text \<open>Bits that no arm of the loop clears for the source of the request.\<close>

definition stuck_request :: "upd_locals \<Rightarrow> world \<Rightarrow> bool" where
  "stuck_request l s \<longleftrightarrow> bit8_0 (event_ctx s) = PchUpdateIntent2 \<and> update_region l \<noteq> 0 \<or>
     bit8_0 (event_ctx s) = BmcUpdateIntent2 \<and> update_region l AND 0xF9 \<noteq> 0"

lemma validate_afm_region: "update_region (snd (result (validate_afm_update_type E l) s)) = update_region l"
  by (simp add: validate_afm_update_type_def refuse_afm_def case_prod_beta Let_def)

lemma recovery_requested_afm:
  "ul_image_type l = AFM_TYPE \<Longrightarrow>
    update_region (snd (result (handle_recovery_requested E l) s)) AND 0xF9 =
    update_region l AND 0xF9"
  by (simp add: handle_recovery_requested_def recovery_target_def case_prod_beta Let_def and.assoc)

lemma request_afm_leaves:
  "update_region (result (request_afm E l) s) AND 0xF9 =
    update_region l AND 0xF9"
  by (simp add: request_afm_def request_image_def case_prod_beta validate_afm_region recovery_requested_afm
      request_active_def Let_def and.assoc)

lemma choose_image_stuck:
  assumes "stuck_request l s"
  shows "stuck_request (result (choose_image E l) s) s"
  using assms request_afm_leaves by (auto simp: stuck_request_def choose_image_def case_prod_beta)

lemma update_round_stuck:
  assumes "stuck_request l s"
  shows "update_region l \<noteq> 0 \<and>
    (\<exists>l'. result (update_round E l) s = Continue l' \<and> stuck_request l' (exec (update_round E l) s))"
proof -
  obtain l' where l': "result (update_round E l) s = Continue l'"
    "update_region l' = update_region (result (choose_image E (l\<lparr>ul_image_type := NO_IMAGE\<rparr>)) s)"
    using update_round_continues by blast
  have "stuck_request (l\<lparr>ul_image_type := NO_IMAGE\<rparr>) s" using assms by (simp add: stuck_request_def)
  from choose_image_stuck [OF this, of E] have "stuck_request l' (exec (update_round E l) s)"
    using l'(2) by (simp add: stuck_request_def update_round_source)
  moreover have "update_region l \<noteq> 0" using assms by (auto simp: stuck_request_def)
  ultimately show ?thesis using l'(1) by blast
qed

lemma stuck_loop: "stuck_request l s \<Longrightarrow>
    \<not> ended (result (c_while n (\<lambda>l. update_region l \<noteq> 0) (update_round E) l) s)"
  using update_round_stuck by (rule c_while_runs_on)

text \<open>
  C17: an update request written to the second intent register may hang the ROT with both hosts
  held in reset: the loop of the update handler does not end, however long it runs, when the PCH
  asks for anything there, or the BMC for more than its attestation manifest.
\<close>

theorem second_intent_hangs:
  assumes "bit8_0 (event_ctx s) = PchUpdateIntent2 \<and> bit8_1 (event_ctx s) AND 0x3f \<noteq> 0 \<or>
      bit8_0 (event_ctx s) = BmcUpdateIntent2 \<and> bit8_1 (event_ctx s) AND 0x39 \<noteq> 0"
  shows "\<not> ended (result (c_while n (\<lambda>l. update_region l \<noteq> 0) (update_round E) (result (start_update E c) s))
    (exec (start_update E c) s))"
proof -
  have "0x39 = (0x3f :: u8) AND 0xF9" by simp
  then have "stuck_request (result (start_update E c) s) (exec (start_update E c) s)"
    using assms
    by (auto simp: start_update_def stuck_request_def upd_manifest_def case_prod_beta and.assoc bit.conj_disj_distrib2)
  then show ?thesis by (rule stuck_loop)
qed

theorem second_intent_hangs_witness:
  "\<forall>n. \<not> ended (result (c_while n (\<lambda>l. update_region l \<noteq> 0) (update_round ref_env)
      (result (start_update ref_env clear_status)
        (boot_world\<lparr>event_ctx := mk_event UPDATE_INTENT_2_REQUESTED (PchUpdateIntent2, 0x02, 0, 0)\<rparr>)))
    (exec (start_update ref_env clear_status)
      (boot_world\<lparr>event_ctx := mk_event UPDATE_INTENT_2_REQUESTED (PchUpdateIntent2, 0x02, 0, 0)\<rparr>)))"
  by (intro allI second_intent_hangs) simp

section \<open>The loop of a seamless update\<close>

lemma seamless_loop_ends:
  assumes "region AND NOT SeamlessUpdate = (0 :: u8)" and "region \<noteq> 0"
  shows "result (c_while (Suc (Suc n)) (\<lambda>(region, _, _). region \<noteq> 0) (seamless_round E) (region, op, h)) s =
    Break (0, SEAMLESS_UPDATE_OP, h OR ucast SeamlessUpdate)"
proof -
  have "region AND SeamlessUpdate \<noteq> 0"
    using assms and_or_zero [of region SeamlessUpdate "NOT SeamlessUpdate"] by auto
  then show ?thesis using assms by (simp add: seamless_round_def case_prod_beta)
qed

end
