(* ===== verification/Pfr_Lifecycle.thy ===== *)
theory Pfr_Lifecycle
  imports Pfr_Loops
begin

text \<open>
  The life cycle of the platform: the abstract specification \<open>life_step\<close> of the state machine, the
  refinement of it by the main loop, and what follows for every run: which states are final, that no
  host leaves reset but after a verification, and when update requests are refused.
\<close>

section \<open>The abstract life cycle\<close>

inductive life_step :: "pfr_state \<Rightarrow> pfr_event \<Rightarrow> pfr_state \<Rightarrow> bool" where
  start: "life_step BOOT START_STATE_MACHINE INIT"
| initialised: "life_step INIT INIT_DONE FIRMWARE_VERIFY"
| alternate: "life_step INIT INIT_ROT_SECONDARY_BOOTED ROT_RECOVERY"
| rot_repaired: "life_step ROT_RECOVERY RECOVERY_DONE SYSTEM_REBOOT"
| rot_lost: "life_step ROT_RECOVERY RECOVERY_FAILED SYSTEM_LOCKDOWN"
| pending: "life_step FIRMWARE_VERIFY UPDATE_REQUESTED FIRMWARE_UPDATE"
| unprovisioned: "life_step FIRMWARE_VERIFY VERIFY_UNPROVISIONED UNPROVISIONED"
| bad: "life_step FIRMWARE_VERIFY VERIFY_FAILED FIRMWARE_RECOVERY"
| good: "life_step FIRMWARE_VERIFY VERIFY_DONE RUNTIME"
| lost: "e = RECOVERY_FAILED \<or> e = HANDSHAKE_FAILED \<Longrightarrow> life_step FIRMWARE_VERIFY e SYSTEM_LOCKDOWN"
| repaired: "life_step FIRMWARE_RECOVERY RECOVERY_DONE FIRMWARE_VERIFY"
| unrepaired: "life_step FIRMWARE_RECOVERY RECOVERY_FAILED SYSTEM_LOCKDOWN"
| updated: "e = UPDATE_DONE \<or> e = UPDATE_FAILED \<Longrightarrow> life_step FIRMWARE_UPDATE e FIRMWARE_VERIFY"
| rot_updated: "life_step FIRMWARE_UPDATE UPDATE_DONE SYSTEM_REBOOT"
| reset: "q = RUNTIME \<or> q = UNPROVISIONED \<Longrightarrow> e = RESET_DETECTED \<or> e = SEAL_FIRMWARE \<Longrightarrow>
    life_step q e FIRMWARE_VERIFY"
| update: "e = UPDATE_REQUESTED \<or> e = UPDATE_INTENT_2_REQUESTED \<Longrightarrow> life_step RUNTIME e FIRMWARE_UPDATE"
| fault: "e = WDT_TIMEOUT \<or> e = ATTESTATION_FAILED \<Longrightarrow> life_step RUNTIME e FIRMWARE_RECOVERY"
| seamless: "life_step RUNTIME UPDATE_INTENT_2_REQUESTED SEAMLESS_UPDATE"
| seamless_done: "life_step SEAMLESS_UPDATE SEAMLESS_UPDATE_DONE SEAMLESS_VERIFY"
| seamless_failed: "life_step SEAMLESS_UPDATE SEAMLESS_UPDATE_FAILED RUNTIME"
| seamless_verified: "life_step SEAMLESS_VERIFY e RUNTIME"

code_pred life_step .

inductive_cases life_stepE: "life_step p e q"
inductive_cases from_lockdown: "life_step SYSTEM_LOCKDOWN e q"
inductive_cases from_reboot: "life_step SYSTEM_REBOOT e q"

section \<open>The transitions\<close>

lemma plain_life: "fst (plain_transition p e) = Some q \<Longrightarrow> life_step p e q"
  by (cases p) (auto simp: plain_transition_def split: if_splits intro: life_step.intros)

lemma attempts_left_fst:
  "result (attempts_left E m) s = (Some q, b) \<Longrightarrow> \<exists>s'. result m s' = (Some q, b)"
  by (auto simp: attempts_left_def case_prod_beta split: if_splits)

lemma runtime_life: "fst (result (runtime_transition E x) s) = Some q \<Longrightarrow> life_step RUNTIME (ev x) q"
  by (cases "ev x")
     (auto simp: runtime_transition_def attempts_left_def reset_bmc_link_def case_prod_beta
       split: if_splits intro: life_step.intros)

lemma unprovisioned_life: "fst (result (unprovisioned_transition E x) s) = Some q \<Longrightarrow> life_step UNPROVISIONED (ev x) q"
  by (cases "ev x")
     (auto simp: unprovisioned_transition_def reset_bmc_link_def case_prod_beta
       split: if_splits intro: life_step.intros)

lemma seamless_life: "fst (result (seamless_transition E x) s) = Some q \<Longrightarrow> life_step SEAMLESS_UPDATE (ev x) q"
  by (auto simp: seamless_transition_def case_prod_beta split: if_splits intro: life_step.intros)

lemma handle_event_life: "fst (result (handle_event E p x) s) = Some q \<Longrightarrow> life_step p (ev x) q"
  unfolding handle_event_def
  by (auto simp: case_prod_beta update_transition_def
        dest: plain_life runtime_life unprovisioned_life seamless_life
        split: if_splits intro: life_step.intros)

section \<open>Every action leaves the machine where it is\<close>

interpretation whole: handling current "\<lambda>_. True"
  by unfold_locales simp_all

lemma any_call: "state_io_rel (effect current (\<lambda>_. True)) (act E c)"
  by (simp add: state_io_rel_def effect_def calls_def)

lemma release_whole:
  "state_io_rel (effect current (\<lambda>_. True)) (BMCBootRelease E)"
  "state_io_rel (effect current (\<lambda>_. True)) (PCHBootRelease E)"
  unfolding BMCBootRelease_def PCHBootRelease_def EgsPchRelease_def bmc_srst_enable_ctrl_def
    bmc_extrst_enable_ctrl_def pch_rst_enable_ctrl_def drive_reset_def
  by (intro eff.keeps_intros any_call whole.call_eff whole.any_modify_eff eff; simp)+

lemma enter_tzero_whole: "state_io_rel (effect current (\<lambda>_. True)) (enter_tzero E)"
  unfolding enter_tzero_def release_provisioned_def release_unprovisioned_def bypass_spi_def bypass_i2c_def
  by (intro eff.keeps_intros any_call whole.call_eff release_whole eff; simp)

lemma state_actions_whole:
  "state_io_rel (effect current (\<lambda>_. True)) (state_entry E q)"
  "state_io_rel (effect current (\<lambda>_. True)) (state_exit E q)"
  "state_io_rel (effect current (\<lambda>_. True)) (state_run E q)"
  by (cases q; simp; intro eff.keeps_intros enter_tzero_whole eff impI conjI)+

lemma handle_event_actions:
  "state_io_rel (effect current (\<lambda>c. \<not> releases c)) (handle_event E p x)"
proof -
  have left: "state_io_rel (effect current (\<lambda>c. \<not> releases c)) (attempts_left E m)"
    if "state_io_rel (effect current (\<lambda>c. \<not> releases c)) m" for m
    unfolding attempts_left_def by (intro eff.keeps_intros eff that)
  show ?thesis
    unfolding handle_event_def runtime_transition_def unprovisioned_transition_def seamless_transition_def
      reset_bmc_link_def
    by (cases "ev x"; simp; intro conjI impI actions.handler_intros left eff; simp)
qed

lemma exec_handle_event [simp]: "current (exec (handle_event E p x) s) = current s"
  using handle_event_actions by (rule effect_keeps)

lemma current_after_actions:
  "current (exec (state_run E q) s) = current s"
  "current (exec (for_each qs (state_entry E)) s) = current s"
  "current (exec (for_each qs (state_exit E)) s) = current s"
  using state_actions_whole by (intro effect_keeps [of current "\<lambda>_. True"] eff.keeps_for_each; blast)+

lemma current_smf_set_state: "current (exec (smf_set_state E q) s) = q"
  by (simp add: smf_set_state_def case_prod_beta current_after_actions)

text \<open>One pass moves the machine where the transition says, and nowhere else.\<close>

definition next_of :: "env \<Rightarrow> event_context \<Rightarrow> world \<Rightarrow> pfr_state option" where
  "next_of E x s = fst (result (handle_event E (current s) x) (s\<lparr>event_ctx := x\<rparr>))"

lemma current_machine_step:
  "current (exec (machine_step E x) s) = (case next_of E x s of None \<Rightarrow> current s | Some q \<Rightarrow> q)"
  by (simp add: machine_step_def next_of_def case_prod_beta current_after_actions current_smf_set_state
      split: option.split)

lemma next_of_life: "next_of E x s = Some q \<Longrightarrow> life_step (current s) (ev x) q"
  unfolding next_of_def by (rule handle_event_life)

lemma pass_life:
  "case aspeed_sm_fifo s of
     [] \<Rightarrow> exec (state_machine_pass E) s = s
   | x # _ \<Rightarrow> current (exec (state_machine_pass E) s) = current s \<or>
       life_step (current s) (ev x) (current (exec (state_machine_pass E) s))"
proof (cases "aspeed_sm_fifo s")
  case Nil
  then show ?thesis by (simp add: state_machine_pass_def)
next
  case (Cons x rest)
  define s1 where "s1 = s\<lparr>aspeed_sm_fifo := rest\<rparr>"
  have "exec (state_machine_pass E) s = exec (machine_step E x) s1"
    by (simp add: state_machine_pass_def Cons s1_def)
  moreover have "current s1 = current s" by (simp add: s1_def)
  ultimately show ?thesis
    using next_of_life [of E x s1] by (simp add: Cons current_machine_step split: option.split)
qed

text \<open>
  C9: the main loop refines the life cycle: a pass that takes an event either leaves the state
  machine where it is or moves it along a step of the life cycle on that event, whatever the
  actions of the states do, and a pass without an event changes nothing.
\<close>

theorem machine_refines_life_cycle:
  "case aspeed_sm_fifo s of
     [] \<Rightarrow> exec (state_machine_pass E) s = s
   | x # _ \<Rightarrow> current (exec (state_machine_pass E) s) = current s \<or>
       life_step (current s) (ev x) (current (exec (state_machine_pass E) s))"
  by (rule pass_life)

section \<open>Every working state hands over\<close>

text \<open>The event lets the machine leave the state it is in.\<close>

definition moves_on :: "env \<Rightarrow> pfr_state \<Rightarrow> event_context \<Rightarrow> bool" where
  "moves_on E q x \<longleftrightarrow> (\<forall>t. current t = q \<longrightarrow> next_of E x t \<noteq> None)"

lemma moves_on_plain:
  "q \<notin> {RUNTIME, UNPROVISIONED, SEAMLESS_UPDATE, SEAMLESS_VERIFY, FIRMWARE_UPDATE} \<Longrightarrow>
    fst (plain_transition q (ev x)) \<noteq> None \<Longrightarrow> moves_on E q x"
  by (auto simp: moves_on_def next_of_def handle_event_def)

lemma moves_on_update: "update_ends x \<or> ev x = UPDATE_FAILED \<Longrightarrow> moves_on E FIRMWARE_UPDATE x"
  by (auto simp: moves_on_def next_of_def handle_event_def update_ends_def plain_transition_def
      update_transition_def case_prod_beta)

lemma working_state_answers:
  assumes "heap_ok E"
    and "q \<in> {INIT, ROT_RECOVERY, FIRMWARE_VERIFY, FIRMWARE_RECOVERY} \<or> q = FIRMWARE_UPDATE \<and> host_intent s"
  shows "\<exists>x es. aspeed_sm_fifo (exec (state_run E q) s) = aspeed_sm_fifo s @ x # es \<and> moves_on E q x"
proof -
  consider "q = INIT" | "q = ROT_RECOVERY" | "q = FIRMWARE_VERIFY" | "q = FIRMWARE_RECOVERY"
    | "q = FIRMWARE_UPDATE" "host_intent s"
    using assms(2) by blast
  then show ?thesis
  proof cases
    case 1
    then show ?thesis
      using do_init_answer [OF assms(1), of s] moves_on_plain [of INIT] by (fastforce simp: plain_transition_def)
  next
    case 2
    obtain es e where q: "aspeed_sm_fifo (exec (do_rot_recovery E) s) = aspeed_sm_fifo s @ es @ [mk_event e NULL_data]"
      "set es \<subseteq> {mk_event RECOVERY_FAILED NULL_data}" "e \<in> {RECOVERY_DONE, RECOVERY_FAILED}"
      using do_rot_recovery_answer [OF assms(1), of s] by blast
    have moves: "moves_on E ROT_RECOVERY (mk_event e' NULL_data)" if "e' \<in> {RECOVERY_DONE, RECOVERY_FAILED}" for e'
      using that by (intro moves_on_plain) (auto simp: plain_transition_def)
    show ?thesis using 2 q moves by (cases es) auto
  next
    case 3
    then show ?thesis
      using do_verify_answer [OF assms(1), of s] moves_on_plain [of FIRMWARE_VERIFY]
      by (fastforce simp: plain_transition_def verdicts_def)
  next
    case 4
    then show ?thesis
      using handle_recovery_answer [OF assms(1), of s] moves_on_plain [of FIRMWARE_RECOVERY]
      by (fastforce simp: plain_transition_def do_recovery_def)
  next
    case 5
    obtain es x ys where q: "aspeed_sm_fifo (exec (handle_update_requested E) s) = aspeed_sm_fifo s @ es @ x # ys"
      "\<forall>e \<in> set es. ev e = UPDATE_FAILED" "update_ends x"
      using update_answer [OF assms(1) 5(2)] by blast
    show ?thesis using 5(1) q moves_on_update by (cases es) auto
  qed
qed



section \<open>Who lets a host boot\<close>

text \<open>
  The documented behaviour of the state-machine library: a transition enters the new state, after
  its parent unless the old state has the same one.
\<close>

definition smf_ok :: "env \<Rightarrow> bool" where
  "smf_ok E \<longleftrightarrow> (\<forall>p q. smf_entries E p q = (case parent_of E q of
       None \<Rightarrow> [q] | Some a \<Rightarrow> if parent_of E p = Some a then [q] else [a, q]))"

lemma state_actions_hold:
  "q \<noteq> TZERO \<Longrightarrow> state_io_rel (effect current (\<lambda>c. \<not> releases c)) (state_entry E q)"
  "state_io_rel (effect current (\<lambda>c. \<not> releases c)) (state_exit E q)"
  "state_io_rel (effect current (\<lambda>c. \<not> releases c)) (state_run E q)"
  by (cases q; simp; intro eff.keeps_intros eff impI conjI)+

abbreviation "holds \<equiv> calls (\<lambda>c. \<not> releases c)"

lemma for_each_holds:
  assumes "\<And>q. q \<in> set qs \<Longrightarrow> state_io_rel (effect current (\<lambda>c. \<not> releases c)) (f q)"
  shows "holds s (exec (for_each qs f) s)"
  using assms
proof (induction qs arbitrary: s)
  case Nil
  then show ?case by (simp add: calls.rel_refl)
next
  case (Cons q qs)
  have "holds s (exec (f q) s)" using Cons.prems effect_calls calls.keepsD by fastforce
  then show ?case using Cons calls.rel_trans by (fastforce simp: case_prod_beta)
qed

lemma smf_set_state_holds:
  assumes "TZERO \<notin> set (smf_entries E (current s) q)"
  shows "holds s (exec (smf_set_state E q) s)"
proof -
  define s1 where "s1 = exec (for_each (smf_exits E (current s) q) (state_exit E)) s"
  have "holds s s1" unfolding s1_def by (intro for_each_holds state_actions_hold)
  moreover have "holds s1 (s1\<lparr>current := q\<rparr>)" by (simp add: calls_def)
  moreover have "holds (s1\<lparr>current := q\<rparr>)
      (exec (for_each (smf_entries E (current s) q) (state_entry E)) (s1\<lparr>current := q\<rparr>))"
    by (rule for_each_holds, rule state_actions_hold(1)) (use assms in auto)
  then have "holds (s1\<lparr>current := q\<rparr>) (exec (smf_set_state E q) s)"
    by (simp add: smf_set_state_def case_prod_beta s1_def)
  ultimately show ?thesis using calls.rel_trans by blast
qed

lemma machine_step_holds:
  assumes "\<And>q. next_of E x s = Some q \<Longrightarrow> TZERO \<notin> set (smf_entries E (current s) q)"
  shows "holds s (exec (machine_step E x) s)"
proof -
  define s1 where "s1 = s\<lparr>event_ctx := x\<rparr>"
  define s2 where "s2 = exec (handle_event E (current s) x) s1"
  define s3 where "s3 = (case next_of E x s of None \<Rightarrow> s2 | Some q \<Rightarrow> exec (smf_set_state E q) s2)"
  have "holds s s1" by (simp add: s1_def calls_def)
  moreover have "holds s1 s2"
    unfolding s2_def using effect_calls [OF handle_event_actions] by (rule calls.keepsD)
  moreover have "current s2 = current s" by (simp add: s2_def s1_def)
  then have "holds s2 s3"
    using assms smf_set_state_holds [of E s2] by (simp add: s3_def calls.rel_refl split: option.split)
  moreover have "exec (machine_step E x) s = s3 \<or> (\<exists>q. exec (machine_step E x) s = exec (state_run E q) s3)"
    by (cases "next_of E x s") (auto simp: machine_step_def case_prod_beta s1_def s2_def s3_def next_of_def)
  ultimately have "holds s s3" "exec (machine_step E x) s = s3 \<or> (\<exists>q. exec (machine_step E x) s = exec (state_run E q) s3)"
    using calls.rel_trans by blast+
  then show ?thesis
    using calls.keepsD [OF effect_calls [OF state_actions_hold(3)]] calls.rel_trans by metis
qed

lemma seamless_needs_config:
  "next_of E x s = Some q \<Longrightarrow> current s = SEAMLESS_UPDATE \<or> current s = SEAMLESS_VERIFY \<Longrightarrow> CONFIG_SEAMLESS_UPDATE E"
  by (auto simp: next_of_def handle_event_def plain_transition_def split: if_splits)

lemma tzero_children: "parent_of E q = Some TZERO \<Longrightarrow> q \<in> {UNPROVISIONED, RUNTIME, SEAMLESS_UPDATE, SEAMLESS_VERIFY}"
  by (cases q) (auto split: if_splits)

lemma into_tzero:
  assumes smf: "smf_ok E" and nxt: "next_of E x s = Some q" and tzero: "TZERO \<in> set (smf_entries E (current s) q)"
  shows "current s = FIRMWARE_VERIFY \<and> (ev x = VERIFY_DONE \<and> q = RUNTIME \<or> ev x = VERIFY_UNPROVISIONED \<and> q = UNPROVISIONED)"
proof -
  have step: "life_step (current s) (ev x) q" using nxt by (rule next_of_life)
  have "q \<noteq> TZERO" using step by (auto elim: life_stepE)
  then have q: "parent_of E q = Some TZERO" and p: "parent_of E (current s) \<noteq> Some TZERO"
    using smf tzero by (auto simp: smf_ok_def split: option.splits if_splits)
  show ?thesis
    using step p tzero_children [OF q] seamless_needs_config [OF nxt] by (auto elim!: life_stepE)
qed

text \<open>
  C5: no host leaves reset but after a verification: when handling an event releases a host, the
  machine was in FIRMWARE_VERIFY, and the event said that verification is done (and the platform
  enters RUNTIME) or that the platform is not provisioned.
\<close>

theorem released_only_after_verification:
  assumes "smf_ok E" and "c \<in> set (new_calls (machine_step E x) s)" and "releases c"
  shows "current s = FIRMWARE_VERIFY \<and>
    (ev x = VERIFY_DONE \<and> current (exec (machine_step E x) s) = RUNTIME \<or>
     ev x = VERIFY_UNPROVISIONED \<and> current (exec (machine_step E x) s) = UNPROVISIONED)"
proof -
  have "\<not> holds s (exec (machine_step E x) s)"
    using assms(2,3) by (auto simp: calls_def new_calls_def list_all_iff)
  then obtain q where "next_of E x s = Some q" "TZERO \<in> set (smf_entries E (current s) q)"
    using machine_step_holds by blast
  then show ?thesis using into_tzero [OF assms(1)] by (simp add: current_machine_step)
qed

section \<open>What is released, and behind which filter\<close>

definition released :: "call_trace \<Rightarrow> call list" where
  "released tr = filter releases (map fst tr)"

lemma released_append [simp]: "released (tr @ tr') = released tr @ released tr'"
  by (simp add: released_def)

lemma released_Cons [simp]:
  "released [] = []" "released ((c, r) # tr) = (if releases c then c # released tr else released tr)"
  by (simp_all add: released_def)

lemma released_kept:
  assumes "calls (\<lambda>c. \<not> releases c) s t" shows "released (trace t) = released (trace s)"
proof -
  from assms obtain cs where cs: "trace t = trace s @ cs" "list_all (\<lambda>(c, _). \<not> releases c) cs" by (auto simp: calls_def)
  have "released cs = []"
    using cs(2) unfolding released_def by (induction cs) auto
  then show ?thesis by (simp add: cs(1))
qed

text \<open>The pins that let a host boot, and what a release in RUNTIME drives.\<close>

abbreviation bmc_pins :: "bool \<Rightarrow> call list" where
  "bmc_pins first \<equiv> (if first then [Board (PinSet bmc_srst_gpio True)] else []) @ [Board (PinSet bmc_extrst_gpio True)]"

abbreviation pch_pins :: "call list" where
  "pch_pins \<equiv> [Board (PinSet pch_rst_gpio True)]"

definition released_hosts :: "bool \<Rightarrow> u8 \<Rightarrow> ao_data \<Rightarrow> ao_data \<Rightarrow> call list" where
  "released_hosts first reset bmc pch =
     (if reset AND BmcOnlyReset \<noteq> 0 then bmc_pins first
      else if reset AND PchOnlyReset \<noteq> 0 then pch_pins
      else (if ActiveImageStatus bmc = 0 then bmc_pins first else []) @ (if ActiveImageStatus pch = 0 then pch_pins else []))"

lemma apply_pfm_quiet: "state_io_rel (effect settled (\<lambda>c. \<not> releases c)) (apply_pfm_protection E dev)"
proof -
  have init: "state_io_rel (effect settled (\<lambda>c. \<not> releases c)) (act E (Init i))" for i
    by (simp add: state_io_rel_def effect_def settled_def calls_def)
  show ?thesis unfolding apply_pfm_protection_def by (intro init screens.gate_intros eff)
qed

lemma settled_first: "settled t = settled s \<Longrightarrow> first_time_boot t = first_time_boot s"
proof -
  have "first_time_boot (settled s) = first_time_boot s" for s by (simp add: settled_def)
  then show "settled t = settled s \<Longrightarrow> first_time_boot t = first_time_boot s" by metis
qed

text \<open>What an operation that only gates leaves as it was.\<close>

lemma gate_keeps:
  assumes "state_io_rel (effect settled (\<lambda>c. \<not> releases c)) m"
  shows "released (trace (exec m s)) = released (trace s)" "first_time_boot (exec m s) = first_time_boot s"
    "bmc_active_object (exec m s) = bmc_active_object s" "pch_active_object (exec m s) = pch_active_object s"
    "event_ctx (exec m s) = event_ctx s" "current (exec m s) = current s"
proof -
  show "released (trace (exec m s)) = released (trace s)"
    using calls.keepsD [OF effect_calls [OF assms]] by (rule released_kept)
  have "settled (exec m s) = settled s" using assms by (rule effect_keeps)
  then show "first_time_boot (exec m s) = first_time_boot s"
    "bmc_active_object (exec m s) = bmc_active_object s" "pch_active_object (exec m s) = pch_active_object s"
    "event_ctx (exec m s) = event_ctx s" "current (exec m s) = current s"
    using settled_first settledD by blast+
qed

lemmas arm_keeps = gate_keeps [OF apply_pfm_quiet]

lemma give_keeps: "state_io_rel (effect settled (\<lambda>c. \<not> releases c)) (give_flash E m f)"
  by (intro eff)

lemma drive_release:
  "released (trace (exec (drive_reset E pin False) s)) = released (trace s) @ [Board (PinSet pin True)]"
  "first_time_boot (exec (drive_reset E pin False) s) = first_time_boot s"
  "pch_active_object (exec (drive_reset E pin False) s) = pch_active_object s"
  by (simp_all add: drive_reset_def case_prod_beta)

lemma released_first [simp]: "released (trace (s\<lparr>first_time_boot := b\<rparr>)) = released (trace s)"
  by simp

lemma BMC_release:
  "released (trace (exec (BMCBootRelease E) s)) = released (trace s) @ bmc_pins (first_time_boot s)"
  "pch_active_object (exec (BMCBootRelease E) s) = pch_active_object s"
  unfolding BMCBootRelease_def bmc_srst_enable_ctrl_def bmc_extrst_enable_ctrl_def
  by (simp_all add: case_prod_beta gate_keeps [OF give_keeps] drive_release)

lemma PCH_release: "released (trace (exec (PCHBootRelease E) s)) = released (trace s) @ pch_pins"
  unfolding PCHBootRelease_def EgsPchRelease_def pch_rst_enable_ctrl_def
  by (simp add: case_prod_beta gate_keeps [OF give_keeps] drive_release)

lemma released_enter_tzero:
  assumes "current s = RUNTIME"
  shows "released (trace (exec (enter_tzero E) s)) = released (trace s) @
    released_hosts (first_time_boot s) (bit8_2 (event_ctx s)) (bmc_active_object s) (pch_active_object s)"
proof -
  have plat: "state_io_rel (effect settled (\<lambda>c. \<not> releases c)) (SetPlatformState E ENTER_T0)"
    by (intro eff)
  have board: "state_io_rel (effect settled (\<lambda>c. \<not> releases c)) (act E c)" if "\<not> releases c" for c
    using that by (simp add: state_io_rel_def effect_def settled_def calls_def)
  note keeps = gate_keeps [OF plat] gate_keeps [OF board]
  show ?thesis
    unfolding enter_tzero_def release_provisioned_def
    using assms
    by (simp add: case_prod_beta keeps arm_keeps BMC_release PCH_release released_hosts_def del: run_act)
qed



text \<open>
  C7: a host is released only behind its armed flash filter: with one flash per host and a manifest
  below the top of the address space, arming the filter for a release drives no reset pin and ends
  by enabling the monitor of the flash of the host, right before the release.
\<close>

theorem released_behind_filter:
  assumes "host_flash E H" and "nor_flash E m0 rsize" and "bindings_ok E"
    and "dev = BMC_SPI \<or> dev = PCH_SPI" and "single_flash E dev"
    and "pfm_below_top (H dev) (pfm_address (rot_mem m0 (trace s) ROT_INTERNAL_INTEL_STATE) dev + sig_block_size (manifest s))"
  shows "\<exists>cs. new_calls (apply_pfm_protection E dev) s = cs @ [Filter (SpimMonitorEnable (spim_devs ! unat dev) True)] \<and>
    \<not> list_ex releases cs"
proof -
  have new: "calls (\<lambda>c. \<not> releases c) s (exec (apply_pfm_protection E dev) s)"
    by (rule calls.keepsD, rule effect_calls, rule apply_pfm_quiet)
  obtain cs where cs: "trace (exec (apply_pfm_protection E dev) s) = trace s @ cs"
      "map fst cs \<noteq> [] \<and> last (map fst cs) = Filter (SpimMonitorEnable (spim_devs ! unat dev) True)"
    using apply_pfm_arms [OF assms] by blast
  then have "new_calls (apply_pfm_protection E dev) s =
      butlast (map fst cs) @ [Filter (SpimMonitorEnable (spim_devs ! unat dev) True)]"
    by (metis append_butlast_last_id append_eq_conv_conj new_calls_def)
  moreover have "\<not> list_ex releases (butlast (map fst cs))"
    using new cs(1) by (fastforce simp: calls_def list_all_iff list_ex_iff case_prod_beta dest: in_set_butlastD)
  ultimately show ?thesis by blast
qed

text \<open>A blank host flash, behind monitors that are all found.\<close>

definition filter_env :: env where
  "filter_env = ref_env\<lparr>reply_of := (\<lambda>tr c. case c of
      Fl (HostFlashRead d a n) \<Rightarrow> (0, mem_slice (\<lambda>_. 0) (unat a) (unat n))
    | Filter (DeviceGetBinding name) \<Rightarrow> (1, [])
    | _ \<Rightarrow> ref_reply tr c)\<rparr>"

lemma filter_env_laws:
  "host_flash filter_env (\<lambda>_ _. 0)" "nor_flash filter_env (\<lambda>_ _. 0xff) (\<lambda>_. 65536)" "bindings_ok filter_env"
  by (simp_all add: host_flash_def nor_flash_def bindings_ok_def filter_env_def)

theorem released_behind_filter_witness:
  "\<exists>cs. new_calls (apply_pfm_protection filter_env BMC_SPI) boot_world =
      cs @ [Filter (SpimMonitorEnable BMC_SPI_MONITOR True)] \<and> \<not> list_ex releases cs"
proof -
  have "single_flash filter_env BMC_SPI" by (simp add: single_flash_def filter_env_def ref_env_def)
  moreover have "pfm_address (\<lambda>_. 0xff) BMC_SPI = 0xffffffff"
    by (simp add: pfm_address_def pfm_offset_def mem_slice_def upt_rec) code_simp
  moreover have "u32_of_bytes (mem_slice (\<lambda>_. 0) k 4) = 0" for k
    by (simp add: mem_slice_def upt_rec u32_of_bytes_def)
  then have "pfm_below_top (\<lambda>_. 0) (0xffffffff + sig_block_size (manifest boot_world))"
    by (simp add: pfm_below_top_def sig_block_size_def lms_curve_def boot_world_def)
  ultimately show ?thesis
    using released_behind_filter [OF filter_env_laws, of BMC_SPI boot_world]
    by (simp add: spim_devs_def boot_world_def rot_mem_def)
qed

text \<open>A platform whose state-machine library behaves as documented.\<close>

definition smf_env :: env where
  "smf_env = ref_env\<lparr>smf_entries := (\<lambda>p q. case parent_of ref_env q of
       None \<Rightarrow> [q] | Some a \<Rightarrow> if parent_of ref_env p = Some a then [q] else [a, q])\<rparr>"

lemma smf_env_ok: "smf_ok smf_env"
proof -
  have "parent_of smf_env q = parent_of ref_env q" for q
    by (cases q) (simp_all add: smf_env_def)
  then show ?thesis by (simp add: smf_ok_def smf_env_def split: option.split)
qed

lemma trace_extends: "calls (\<lambda>_. True) s t \<Longrightarrow> set (released (trace s)) \<subseteq> set (released (trace t))"
  by (auto simp: calls_def)

text \<open>Verification done in a good world: the BMC is released.\<close>

definition verified_world :: world where
  "verified_world = boot_world\<lparr>current := FIRMWARE_VERIFY\<rparr>"

lemma smf_env_releases:
  "Board (PinSet bmc_extrst_gpio True) \<in> set (new_calls (machine_step smf_env (mk_event VERIFY_DONE NULL_data)) verified_world)"
proof -
  let ?x = "mk_event VERIFY_DONE NULL_data"
  define s2 where "s2 = exec (enter_tzero smf_env) (verified_world\<lparr>event_ctx := ?x, current := RUNTIME\<rparr>)"
  define s3 where "s3 = exec (state_run smf_env RUNTIME) (exec (enter_runtime smf_env) s2)"
  have "Board (PinSet bmc_extrst_gpio True) \<in> set (released (trace s2))"
    unfolding s2_def by (subst released_enter_tzero) (simp_all add: verified_world_def boot_world_def
      released_hosts_def good_ao_def Let_def)
  moreover have "calls (\<lambda>_. True) s2 s3"
    unfolding s3_def
    by (rule calls.rel_trans [OF calls.keepsD [OF effect_calls [OF state_actions_whole(1) [of _ RUNTIME, simplified]]]
          calls.keepsD [OF effect_calls [OF state_actions_whole(3)]]])
  moreover have "current s2 = RUNTIME" unfolding s2_def using effect_keeps [OF enter_tzero_whole] by simp
  moreover have "exec (machine_step smf_env ?x) verified_world = s3"
  proof -
    have s2: "exec (enter_tzero smf_env) (verified_world\<lparr>event_ctx := ?x, current := RUNTIME\<rparr>) = s2" by (simp add: s2_def)
    have "smf_entries smf_env FIRMWARE_VERIFY RUNTIME = [TZERO, RUNTIME]"
      "smf_exits smf_env FIRMWARE_VERIFY RUNTIME = [FIRMWARE_VERIFY]"
      "current verified_world = FIRMWARE_VERIFY" by (simp_all add: smf_env_def ref_env_def verified_world_def)
    then show ?thesis
      using s2 \<open>current s2 = RUNTIME\<close> effect_keeps [OF state_actions_whole(1) [of smf_env RUNTIME]]
      by (simp add: machine_step_def smf_set_state_def handle_event_def plain_transition_def case_prod_beta s3_def)
  qed
  ultimately have "Board (PinSet bmc_extrst_gpio True) \<in> set (released (trace (exec (machine_step smf_env ?x) verified_world)))"
    using trace_extends by auto
  then show ?thesis by (auto simp: new_calls_def released_def verified_world_def boot_world_def)
qed

theorem released_only_after_verification_witness:
  "smf_ok smf_env \<and> current (exec (machine_step smf_env (mk_event VERIFY_DONE NULL_data)) verified_world) = RUNTIME"
  using released_only_after_verification [OF smf_env_ok smf_env_releases] smf_env_ok by simp

section \<open>Runs of the platform\<close>

text \<open>The threads beside the main loop: the mailbox, the I3C mailbox and the watchdog timers.\<close>

lemma drain_write_fifo_actions: "state_io_rel (effect current (\<lambda>c. \<not> releases c)) (drain_write_fifo n E)"
  by (induction n) (auto intro!: actions.handler_intros simp: store_ufm_fifo_def)

lemma doe_fifo_write_actions: "state_io_rel (effect current (\<lambda>c. \<not> releases c)) (doe_fifo_write E bs)"
  by (induction bs) (auto intro!: actions.handler_intros simp: store_ufm_fifo_def)

lemma write_then_actions:
  "state_io_rel (effect current (\<lambda>c. \<not> releases c)) m \<Longrightarrow>
    state_io_rel (effect current (\<lambda>c. \<not> releases c)) (write_then E a v m)"
  unfolding write_then_def by (intro actions.handler_intros; simp)

lemma thread_actions:
  "state_io_rel (effect current (\<lambda>c. \<not> releases c)) (swmbx_notifyee_main E)"
  "state_io_rel (effect current (\<lambda>c. \<not> releases c)) (swmbx_mctp_i3c_doe_msg_write_handler E a bs i e)"
  "state_io_rel (effect current (\<lambda>c. \<not> releases c)) (wdt_callback_bmc_timeout E)"
  "state_io_rel (effect current (\<lambda>c. \<not> releases c)) (wdt_callback_acm_timeout E)"
  "state_io_rel (effect current (\<lambda>c. \<not> releases c)) (wdt_callback_bios_timeout E)"
  "state_io_rel (effect current (\<lambda>c. \<not> releases c)) (wdt_callback_me_timeout E)"
  unfolding swmbx_notifyee_main_def ufm_write_fifo_event_def swmbx_get_msg_def
    swmbx_mctp_i3c_doe_msg_write_handler_def wdt_callback_bmc_timeout_def wdt_callback_acm_timeout_def
    wdt_callback_bios_timeout_def wdt_callback_me_timeout_def
  by (intro actions.handler_intros drain_write_fifo_actions doe_fifo_write_actions write_then_actions eff; simp)+

text \<open>
  \<open>history E h s\<close>: the platform has been started and has reached \<open>s\<close>, and \<open>h\<close> are the states
  the main loop was in after each of its passes. Events of the reset monitors and of the attester
  arrive as \<open>posted\<close>.
\<close>

inductive history :: "env \<Rightarrow> pfr_state list \<Rightarrow> world \<Rightarrow> bool" for E where
  power_on: "history E [BOOT] (exec (AspeedStateMachine_start E) s)"
| pass: "history E h s \<Longrightarrow> s' = exec (state_machine_pass E) s \<Longrightarrow> history E (h @ [current s']) s'"
| mailbox: "history E h s \<Longrightarrow> history E h (exec (swmbx_notifyee_main E) s)"
| i3c: "history E h s \<Longrightarrow> history E h (exec (swmbx_mctp_i3c_doe_msg_write_handler E a bs i e) s)"
| timer: "history E h s \<Longrightarrow> m \<in> {wdt_callback_bmc_timeout E, wdt_callback_acm_timeout E,
    wdt_callback_bios_timeout E, wdt_callback_me_timeout E} \<Longrightarrow> history E h (exec m s)"
| posted: "history E h s \<Longrightarrow> history E h (exec (GenerateStateMachineEvent E e d) s)"

definition life_or_stay :: "pfr_state \<Rightarrow> pfr_state \<Rightarrow> bool" where
  "life_or_stay p q \<longleftrightarrow> p = q \<or> (\<exists>e. life_step p e q)"

lemma pass_life_or_stay: "life_or_stay (current s) (current (exec (state_machine_pass E) s))"
  using pass_life [where s = s and E = E] by (cases "aspeed_sm_fifo s") (auto simp: life_or_stay_def)

lemma thread_current:
  "current (exec (swmbx_notifyee_main E) s) = current s"
  "current (exec (swmbx_mctp_i3c_doe_msg_write_handler E a bs i e) s) = current s"
  "m \<in> {wdt_callback_bmc_timeout E, wdt_callback_acm_timeout E, wdt_callback_bios_timeout E,
    wdt_callback_me_timeout E} \<Longrightarrow> current (exec m s) = current s"
  "current (exec (GenerateStateMachineEvent E e' d) s) = current s"
  using effect_keeps [OF thread_actions(3)] effect_keeps [OF thread_actions(4)]
    effect_keeps [OF thread_actions(5)] effect_keeps [OF thread_actions(6)]
  by (auto simp: effect_keeps [OF thread_actions(1)] effect_keeps [OF thread_actions(2)]
      effect_keeps [OF actions.GenerateStateMachineEvent_eff])

lemma history_chain:
  assumes "history E h s"
  shows "h \<noteq> [] \<and> last h = current s \<and> successively life_or_stay h"
  using assms
proof induction
  case (power_on s)
  have "current (exec (AspeedStateMachine_start E) s) = BOOT"
    by (simp add: AspeedStateMachine_start_def case_prod_beta effect_keeps [OF actions.GenerateStateMachineEvent_eff])
  then show ?case by simp
next
  case (pass h s s')
  then show ?case using pass_life_or_stay by (simp add: successively_append_iff)
qed (simp_all add: thread_current)

lemma chain_final:
  assumes "successively life_or_stay h" and "i \<le> j" and "j < length h"
    and "h ! i = SYSTEM_LOCKDOWN \<or> h ! i = SYSTEM_REBOOT"
  shows "h ! j = h ! i"
  using assms(2,3)
proof (induction j rule: dec_induct)
  case (step j)
  have "life_or_stay (h ! j) (h ! Suc j)"
    using assms(1) step.prems by (simp only: successively_conv_nth)
  moreover have "h ! j = h ! i" using step by simp
  ultimately show ?case using assms(4) by (auto simp: life_or_stay_def elim: from_lockdown from_reboot)
qed simp

text \<open>
  C13: the lockdown of the system and its reboot are final: once a run of the platform is in one of
  these states it stays there, whatever the hosts write and whichever timers expire.
\<close>

theorem lockdown_is_final:
  assumes "history E h s" and "i \<le> j" and "j < length h"
    and "h ! i = SYSTEM_LOCKDOWN \<or> h ! i = SYSTEM_REBOOT"
  shows "h ! j = h ! i"
  using chain_final assms history_chain by blast

text \<open>Two runs of the reference platform: from the secondary flash, and a normal boot.\<close>

lemma ref_pass:
  assumes "aspeed_sm_fifo s = x # rest" and "current s \<notin> {RUNTIME, UNPROVISIONED, SEAMLESS_UPDATE, SEAMLESS_VERIFY, FIRMWARE_UPDATE}"
    and "fst (plain_transition (current s) (ev x)) = Some q"
  shows "current (exec (state_machine_pass ref_env) s) = q"
    and "state_exit ref_env (current s) = ret () \<Longrightarrow> state_entry ref_env q = ret () \<Longrightarrow>
      exec (state_machine_pass ref_env) s =
        exec (state_run ref_env q) (s\<lparr>aspeed_sm_fifo := rest, event_ctx := x, current := q\<rparr>)"
proof -
  have "smf_exits ref_env p q = [p]" "smf_entries ref_env p q = [q]" for p q by (simp_all add: ref_env_def)
  note smf = this
  show "current (exec (state_machine_pass ref_env) s) = q"
    using assms by (simp add: state_machine_pass_def current_machine_step next_of_def handle_event_def)
  show "state_exit ref_env (current s) = ret () \<Longrightarrow> state_entry ref_env q = ret () \<Longrightarrow>
      exec (state_machine_pass ref_env) s =
        exec (state_run ref_env q) (s\<lparr>aspeed_sm_fifo := rest, event_ctx := x, current := q\<rparr>)"
    using assms
    by (simp add: state_machine_pass_def machine_step_def handle_event_def smf_set_state_def smf case_prod_beta)
qed

lemma ref_start:
  "\<exists>s y. history ref_env [BOOT, INIT] s \<and> current s = INIT \<and>
    aspeed_sm_fifo s = [mk_event e NULL_data, mk_event e' NULL_data, y]"
proof -
  define s0 where "s0 = exec (AspeedStateMachine_start ref_env) boot_world"
  define s1 where "s1 = exec (GenerateStateMachineEvent ref_env e NULL_data) s0"
  define s2 where "s2 = exec (GenerateStateMachineEvent ref_env e' NULL_data) s1"
  define s3 where "s3 = exec (state_machine_pass ref_env) s2"
  have q2: "aspeed_sm_fifo s2 = [mk_event START_STATE_MACHINE NULL_data, mk_event e NULL_data, mk_event e' NULL_data]"
    and c2: "current s2 = BOOT"
    by (simp_all add: s0_def s1_def s2_def AspeedStateMachine_start_def case_prod_beta queue_event [OF ref_env_heap]
        boot_world_def thread_current)
  have "history ref_env [BOOT] s2"
    unfolding s2_def s1_def s0_def by (intro history.posted history.power_on)
  then have h: "history ref_env [BOOT, current s3] s3"
    using history.pass [of ref_env "[BOOT]" s2 s3] by (simp add: s3_def)
  have "current s3 = INIT"
    unfolding s3_def by (rule ref_pass(1) [OF q2]) (simp_all add: c2 plain_transition_def)
  moreover have "s3 = exec (do_init ref_env) (s2\<lparr>aspeed_sm_fifo := [mk_event e NULL_data, mk_event e' NULL_data],
      event_ctx := mk_event START_STATE_MACHINE NULL_data, current := INIT\<rparr>)"
    unfolding s3_def using ref_pass(2) [OF q2] c2 by (simp add: plain_transition_def)
  then obtain e'' where "aspeed_sm_fifo s3 = [mk_event e NULL_data, mk_event e' NULL_data, mk_event e'' NULL_data]"
    using do_init_answer [OF ref_env_heap, of "s2\<lparr>aspeed_sm_fifo := [mk_event e NULL_data, mk_event e' NULL_data],
      event_ctx := mk_event START_STATE_MACHINE NULL_data, current := INIT\<rparr>"] by auto
  ultimately show ?thesis using h by auto
qed

lemma ref_second:
  assumes "fst (plain_transition INIT e) = Some q" and "q \<in> {FIRMWARE_VERIFY, ROT_RECOVERY}"
  shows "\<exists>s ys. history ref_env [BOOT, INIT, q] s \<and> current s = q \<and>
    aspeed_sm_fifo s = mk_event e' NULL_data # ys"
proof -
  obtain s y where s: "history ref_env [BOOT, INIT] s" "current s = INIT"
    "aspeed_sm_fifo s = [mk_event e NULL_data, mk_event e' NULL_data, y]"
    using ref_start by blast
  define t where "t = exec (state_machine_pass ref_env) s"
  define u where "u = s\<lparr>aspeed_sm_fifo := [mk_event e' NULL_data, y], event_ctx := mk_event e NULL_data, current := q\<rparr>"
  have "current t = q"
    unfolding t_def by (rule ref_pass(1) [OF s(3)]) (use s(2) assms(1) in simp_all)
  moreover have "t = exec (state_run ref_env q) u"
    unfolding t_def u_def using ref_pass(2) [OF s(3)] s(2) assms by auto
  then have "\<exists>ys. aspeed_sm_fifo t = mk_event e' NULL_data # ys"
    using working_state_answers [OF ref_env_heap, of q u] assms(2) by (auto simp: u_def)
  moreover have "history ref_env [BOOT, INIT, current t] t"
    using history.pass [OF s(1) t_def] by simp
  ultimately show ?thesis by blast
qed

lemma ref_third:
  assumes "fst (plain_transition INIT e) = Some q" and "q \<in> {FIRMWARE_VERIFY, ROT_RECOVERY}"
    and "fst (plain_transition q e') = Some q'"
  shows "\<exists>s. history ref_env [BOOT, INIT, q, q'] s"
proof -
  obtain s ys where s: "history ref_env [BOOT, INIT, q] s" "current s = q"
    "aspeed_sm_fifo s = mk_event e' NULL_data # ys"
    using ref_second [OF assms(1,2)] by blast
  have "current (exec (state_machine_pass ref_env) s) = q'"
    by (rule ref_pass(1) [OF s(3)]) (use s(2) assms in auto)
  then show ?thesis using history.pass [OF s(1) refl] by auto
qed

theorem lockdown_is_final_witness:
  "\<exists>h s. history ref_env h s \<and> h ! 3 = SYSTEM_LOCKDOWN \<and> h ! 4 = SYSTEM_LOCKDOWN"
proof -
  obtain s where s: "history ref_env [BOOT, INIT, ROT_RECOVERY, SYSTEM_LOCKDOWN] s"
    using ref_third [of INIT_ROT_SECONDARY_BOOTED ROT_RECOVERY RECOVERY_FAILED SYSTEM_LOCKDOWN]
    by (auto simp: plain_transition_def)
  note h = history.pass [OF s refl]
  show ?thesis using lockdown_is_final [OF h, of 3 4] h by (auto simp: numeral_eq_Suc)
qed


text \<open>The states in which the firmware of the hosts has not been verified since the last change.\<close>

definition unverified :: "pfr_state set" where
  "unverified = {BOOT, INIT, ROT_RECOVERY, FIRMWARE_RECOVERY, FIRMWARE_UPDATE, SYSTEM_LOCKDOWN, SYSTEM_REBOOT}"

lemma unverified_step: "life_or_stay p q \<Longrightarrow> p \<in> unverified \<Longrightarrow> q \<in> unverified \<or> q = FIRMWARE_VERIFY"
  by (auto simp: life_or_stay_def unverified_def elim: life_stepE)

lemma chain_verified:
  assumes "successively life_or_stay h" and "i \<le> j" and "j < length h" and "h ! i \<in> unverified"
    and "\<And>k. i < k \<Longrightarrow> k \<le> j \<Longrightarrow> h ! k \<noteq> FIRMWARE_VERIFY"
  shows "h ! j \<in> unverified"
  using assms(2,3,5)
proof (induction j rule: dec_induct)
  case (step j)
  have "life_or_stay (h ! j) (h ! Suc j)"
    using assms(1) step.prems(1) by (simp only: successively_conv_nth)
  moreover have "h ! j \<in> unverified" using step by simp
  ultimately show ?case using unverified_step step.prems(2) [of "Suc j"] step.hyps(1) by force
qed (use assms(4) in simp)

text \<open>
  C4: no firmware runs unverified: whenever a run of the platform gets from the start, from a
  recovery or from an update to a state in which a host runs, it has been in FIRMWARE_VERIFY in
  between.
\<close>

theorem verified_before_running:
  assumes "history E h s" and "i < j" and "j < length h"
    and "h ! i \<in> {BOOT, INIT, FIRMWARE_RECOVERY, FIRMWARE_UPDATE}"
    and "h ! j \<in> {RUNTIME, UNPROVISIONED, SEAMLESS_UPDATE, SEAMLESS_VERIFY}"
  shows "\<exists>k. i < k \<and> k < j \<and> h ! k = FIRMWARE_VERIFY"
proof (rule ccontr)
  assume "\<not> ?thesis"
  then have "h ! k \<noteq> FIRMWARE_VERIFY" if "i < k" "k \<le> j" for k
    using that assms(5) by (cases "k = j") auto
  moreover have "h ! i \<in> unverified" using assms(4) by (auto simp: unverified_def)
  ultimately have "h ! j \<in> unverified"
    using chain_verified [of h i j] history_chain [OF assms(1)] assms(2,3) by auto
  then show False using assms(5) by (auto simp: unverified_def)
qed

theorem verified_before_running_witness:
  "\<exists>h s. history ref_env h s \<and> h ! 1 = INIT \<and> h ! 3 = RUNTIME \<and> (\<exists>k. 1 < k \<and> k < 3 \<and> h ! k = FIRMWARE_VERIFY)"
proof -
  obtain s where h: "history ref_env [BOOT, INIT, FIRMWARE_VERIFY, RUNTIME] s"
    using ref_third [of INIT_DONE FIRMWARE_VERIFY VERIFY_DONE RUNTIME]
    by (auto simp: plain_transition_def)
  then show ?thesis using verified_before_running [OF h, of 1 3] by (auto simp: numeral_eq_Suc)
qed

end
