(* ===== verification/Pfr_Trust.thy ===== *)
theory Pfr_Trust
  imports Pfr_Frames
begin

text \<open>
  What a good image status means: the manifest at the provisioned address is authentic, and so is
  everything it lists. The reference definitions walk the manifest as a list of definitions; the
  lemmas show that the walks of \<open>intel_pfr_pfm_manifest.c\<close> check each of them.
\<close>

section \<open>Reading leaves the provisioning area alone\<close>

fun spares_ufm :: "call \<Rightarrow> bool" where
  "spares_ufm (Fl (RotFlashWrite d _ _)) = (d \<noteq> ROT_INTERNAL_INTEL_STATE)"
| "spares_ufm (Fl (RotFlashErase d _ _ _)) = (d \<noteq> ROT_INTERNAL_INTEL_STATE)"
| "spares_ufm _ = True"

abbreviation ufm_of :: "flash_mem \<Rightarrow> world \<Rightarrow> nat \<Rightarrow> u8" where
  "ufm_of m0 s \<equiv> rot_mem m0 (trace s) ROT_INTERNAL_INTEL_STATE"

lemma spared_step: "spares_ufm c \<Longrightarrow> rot_flash_step (c, r) m ROT_INTERNAL_INTEL_STATE = m ROT_INTERNAL_INTEL_STATE"
  by (cases "((c, r), m)" rule: rot_flash_step.cases) auto

lemma spared_steps:
  "list_all (\<lambda>(c, _). spares_ufm c) cs \<Longrightarrow> fold rot_flash_step cs m ROT_INTERNAL_INTEL_STATE = m ROT_INTERNAL_INTEL_STATE"
proof (induction cs arbitrary: m)
  case (Cons x cs)
  then show ?case using spared_step by (cases x) simp
qed simp

lemma ufm_spared:
  assumes "state_io_rel (effect K spares_ufm) m"
  shows "ufm_of m0 (exec m s) = ufm_of m0 s"
proof -
  have "calls spares_ufm s (exec m s)" using assms by (simp add: state_io_rel_def effect_def)
  then show ?thesis by (auto simp: calls_def spared_steps)
qed

text \<open>
  What a stage keeps of the manifest record: a view of it that no scratch field enters. The two
  views in use are the place of the image and the flash with the curve of its last key.
\<close>

named_theorems vet \<open>operations that keep a view of the image at hand and spare the provisioning area\<close>

locale image_view =
  fixes k :: "pfr_manifest \<Rightarrow> 'k"
  assumes k_hash: "k (m\<lparr>hash_start_address := a\<rparr>) = k m" "k (m\<lparr>hash_length := n\<rparr>) = k m" "k (m\<lparr>hash_kind := t\<rparr>) = k m"
      "k (m\<lparr>device_id0 := d\<rparr>) = k m" "k (m\<lparr>hash_out := bs\<rparr>) = k m"
    and k_keys: "k (m\<lparr>signature_r := bs\<rparr>) = k m" "k (m\<lparr>signature_s := bs\<rparr>) = k m"
      "k (m\<lparr>pubkey_x := bs\<rparr>) = k m" "k (m\<lparr>pubkey_y := bs\<rparr>) = k m"
    and k_block0: "k (m\<lparr>pc_type := x\<rparr>) = k m" "k (m\<lparr>kc_flag := y\<rparr>) = k m" "k (m\<lparr>pc_length := x\<rparr>) = k m"
    and k_afm: "k (m\<lparr>bmc_afm_address := x\<rparr>) = k m" "k (m\<lparr>cpu0_afm_address := x\<rparr>) = k m"
begin

abbreviation kept :: "(world, 'a) state \<Rightarrow> bool" where
  "kept m \<equiv> state_io_rel (effect (\<lambda>s. k (manifest s)) spares_ufm) m"

lemma ext_vet: "spares_ufm c \<Longrightarrow> kept (ext E c)"
  by (simp add: state_io_rel_def effect_def calls_def)

lemma act_vet: "spares_ufm c \<Longrightarrow> kept (act E c)"
  by (simp add: state_io_rel_def effect_def calls_def)

lemma modify_vet: "(\<And>s. manifest (f s) = manifest s \<and> trace (f s) = trace s) \<Longrightarrow> kept (modify f)"
  by (simp add: state_io_rel_def effect_def calls_def)

lemma upd_manifest_vet: "(\<And>m. k (f m) = k m) \<Longrightarrow> kept (upd_manifest f)"
  by (simp add: state_io_rel_def effect_def calls_def upd_manifest_def)

lemmas vet_intros = eff.keeps_return eff.keeps_bind eff.keeps_gets eff.keeps_cwhen eff.keeps_if
  eff.keeps_prod eff.keeps_let eff.keeps_option eff.keeps_flow eff.keeps_c_while ext_vet act_vet
  modify_vet upd_manifest_vet

lemmas k_scratch = k_hash k_keys k_block0 k_afm

lemma reads_vet [vet]:
  "kept (pfr_spi_read E dev a n)"
  "kept (image_read E a n)"
  "kept (get_provision_data_in_flash E a n)"
  "kept (ufm_read E t a n)"
  "kept (get_hash E n)"
  "kept (manifest_get_hash E n)"
  "kept (calculate_sha E h bs len)"
  "kept (verify_signature E bs len)"
  unfolding pfr_spi_read_def image_read_def get_provision_data_in_flash_def ufm_read_def get_cpld_status_def
    get_hash_def manifest_get_hash_def calculate_sha_def verify_signature_def
  by (intro vet_intros; simp)+

lemma keys_vet [vet]:
  "kept (compare_root_hash E bs len)"
  "kept (verify_root_key_hash E x y)"
  "kept (verify_root_key_hash_lms E x len)"
  "kept (verify_csk_key_id E i)"
  "kept (validate_key_cancellation_flag E)"
  unfolding compare_root_hash_def verify_root_key_hash_def verify_root_key_hash_lms_def
    verify_csk_key_id_def validate_key_cancellation_flag_def Let_def
  by (intro vet_intros vet; simp add: k_scratch)+

lemma entries_vet [vet]:
  "kept (intel_block1_block0_entry_verify E)"
  "kept (intel_block1_csk_block0_entry_verify E)"
  "kept (intel_block0_verify E)"
  unfolding intel_block1_block0_entry_verify_def intel_block1_block0_entry_verify_lms_def
    intel_block1_csk_block0_entry_verify_def intel_block1_csk_block0_entry_verify_lms_def
    intel_block0_verify_def Let_def
  by (intro vet_intros vet; simp add: k_scratch)+

lemma regions_vet [vet]:
  "kept (get_spi_region_hash E a r)"
  "kept (spi_region_hash_verification E r h)"
  "kept (check_spi_region E a r)"
  "kept (set_afm_address a)"
  unfolding get_spi_region_hash_def spi_region_hash_verification_def check_spi_region_def set_afm_address_def Let_def
  by (intro vet_intros vet; simp add: k_scratch)+

lemma erase_loop_vet: "d \<noteq> ROT_INTERNAL_INTEL_STATE \<Longrightarrow> kept (erase_loop fuel E d blk a e)"
  by (induction fuel arbitrary: a)
     (auto intro!: vet_intros simp: pfr_spi_erase_block_def pfr_spi_erase_4k_def)

lemma erase_afm_vet [vet]: "kept (erase_afm_body E a)"
  unfolding erase_afm_body_def pfr_spi_erase_region_def Let_def
  by (intro vet_intros vet erase_loop_vet; simp)

lemma version_vet [vet]: "kept (get_active_pfm_version_details E a)"
  unfolding get_active_pfm_version_details_def set_versions_def MBX_REG_SETTER_def
  by (intro vet_intros vet; simp)

end

definition image_place :: "pfr_manifest \<Rightarrow> u32 \<times> u32" where
  "image_place m = (image_type m, m_address m)"

definition image_curve :: "pfr_manifest \<Rightarrow> u32 \<times> u32" where
  "image_curve m = (image_type m, hash_curve m)"

interpretation place: image_view image_place
  by unfold_locales (simp_all add: image_place_def)

interpretation curve: image_view image_curve
  by unfold_locales (simp_all add: image_curve_def)

text \<open>Only the root key entry sets the curve.\<close>

lemma chain_vet:
  "place.kept (verify_root_key_entry E bs)"
  "place.kept (intel_block1_verify E)"
  "place.kept (manifest_verify E)"
  unfolding verify_root_key_entry_def intel_block1_verify_def manifest_verify_def intel_pfr_manifest_verify_def Let_def
  by (intro place.vet_intros vet; simp add: image_place_def)+

section \<open>The part of the provisioning area that trust rests on\<close>

text \<open>
  A recovery image raises the rollback policies, which lie in the same area; everything else in it
  counts: the root key hash, the addresses and the cancellation policies.
\<close>

definition trusted_byte :: "nat \<Rightarrow> bool" where
  "trusted_byte i \<longleftrightarrow> i < 0xd4 \<or> 0xec \<le> i \<and> i < 0x14c \<or> 0x154 \<le> i \<and> i < 512"

definition same_trust :: "(nat \<Rightarrow> u8) \<Rightarrow> (nat \<Rightarrow> u8) \<Rightarrow> bool" where
  "same_trust u v \<longleftrightarrow> (\<forall>i. trusted_byte i \<longrightarrow> u i = v i)"

lemma same_trust_slice:
  "same_trust u v \<Longrightarrow> (\<And>i. a \<le> i \<Longrightarrow> i < a + n \<Longrightarrow> trusted_byte i) \<Longrightarrow> mem_slice u a n = mem_slice v a n"
  by (simp add: same_trust_def mem_slice_def)

lemma same_trust_trans: "same_trust u v \<Longrightarrow> same_trust v w \<Longrightarrow> same_trust u w"
  by (simp add: same_trust_def)

lemma key_allowed_trust:
  assumes "same_trust u v" and "get_cancellation_policy_offset E t \<noteq> 0"
  shows "key_allowed u (get_cancellation_policy_offset E t) k = key_allowed v (get_cancellation_policy_offset E t) k"
proof (cases "k \<le> 127")
  case True
  define off where "off = get_cancellation_policy_offset E t"
  have off: "off \<in> policy_offsets" using get_cancellation_policy_offset_range assms(2) by (auto simp: off_def)
  have "unat k div 32 \<le> 3" using True by (simp add: word_le_nat_alt)
  then have "mem_slice u (unat (policy_word off k)) 4 = mem_slice v (unat (policy_word off k)) 4"
    using off unfolding unat_policy_word(1) [OF off True]
    by (intro same_trust_slice [OF assms(1)]) (auto simp: policy_offsets_def trusted_byte_def)
  then show ?thesis by (simp add: key_allowed_def policy_data_def off_def)
qed (simp add: key_allowed_def)

lemma authentic_image_trust:
  assumes "same_trust u v"
  shows "authentic_image sha ecdsa E f u a = authentic_image sha ecdsa E f v a"
proof -
  have "mem_slice u 4 len = mem_slice v 4 len" if "len \<le> 48" for len
    using that by (intro same_trust_slice [OF assms]) (simp add: trusted_byte_def)
  moreover have "len \<le> 48" if "curve_hash c = Some (t, len)" for c t len
    using that by (auto simp: curve_hash_def split: if_splits)
  ultimately have "root_trusted sha u root c = root_trusted sha v root c" for root c
    by (simp add: root_trusted_def) metis
  moreover have "csk_allowed E f u a t = csk_allowed E f v a t" for t
    using key_allowed_trust [OF assms] by (auto simp: csk_allowed_def)
  ultimately show ?thesis by (simp add: authentic_image_def Let_def)
qed

section \<open>A manifest that verifies\<close>

text \<open>The image at hand is in the flash \<open>d\<close>, and the provisioning area still says what \<open>u\<close> says.\<close>

definition at_image :: "u8 \<Rightarrow> flash_mem \<Rightarrow> (nat \<Rightarrow> u8) \<Rightarrow> world \<Rightarrow> bool" where
  "at_image d m0 u s \<longleftrightarrow> host_image d s \<and> \<not> lms_curve (manifest s) \<and> same_trust u (ufm_of m0 s)"

lemma at_image_kept: "curve.kept m \<Longrightarrow> at_image d m0 u s \<Longrightarrow> at_image d m0 u (exec m s)"
  by (frule ufm_spared [where m = m and ?m0.0 = m0 and s = s], drule effect_keeps [where s = s])
     (simp add: at_image_def host_image_def lms_curve_def image_curve_def)

lemma manifest_verify_success:
  assumes host: "host_flash E H" and cr: "crypto_ok E H sha ecdsa" and prov: "provision_ok m0 rsize E"
    and img: "at_image d m0 u s" and success: "result (manifest_verify E) s = Success"
  shows "authentic_image sha ecdsa E (H d) u (m_address (manifest s))"
    and "at_image d m0 u (exec (manifest_verify E) s)"
    and "m_address (manifest (exec (manifest_verify E) s)) = m_address (manifest s)"
proof -
  have i: "host_image d s" "\<not> lms_curve (manifest s)" "same_trust u (ufm_of m0 s)" using img by (simp_all add: at_image_def)
  show auth: "authentic_image sha ecdsa E (H d) u (m_address (manifest s))"
    using manifest_verify_authentic [OF host cr prov i(1,2)] success
    by (simp add: manifest_verify_def authentic_image_trust [OF i(3)])
  have place: "image_place (manifest (exec (manifest_verify E) s)) = image_place (manifest s)"
    by (rule effect_keeps [OF chain_vet(3)])
  then show "m_address (manifest (exec (manifest_verify E) s)) = m_address (manifest s)"
    by (simp add: image_place_def)
  define s1 where "s1 = exec (upd_manifest (pc_type_update (\<lambda>_. u32_of_bytes (snd (result (image_read E (m_address (manifest s) + 8) 4) s)))))
    (exec (image_read E (m_address (manifest s) + 8) 4) s)"
  define s2 where "s2 = exec (validate_key_cancellation_flag E) s1"
  define s3 where "s3 = exec (intel_block1_verify E) s2"
  have end': "exec (manifest_verify E) s = exec (intel_block0_verify E) s3"
    and b1: "result (intel_block1_verify E) s2 = Success"
    using success
    by (auto simp: manifest_verify_def intel_pfr_manifest_verify_def s1_def s2_def s3_def case_prod_beta split: if_splits)
  have s2: "at_image d m0 u s2"
    unfolding s2_def s1_def
    by (intro at_image_kept curve.upd_manifest_vet vet img) (simp add: image_curve_def)
  then have img2: "host_image d s2" by (simp add: at_image_def)
  obtain c where c: "c \<in> {secp256r1, secp384r1}"
    "root_trusted sha (ufm_of m0 s2) (rd_at (H d) (m_address (manifest s2)) 128 148) c"
    using block1_result(1) [OF host cr prov img2] b1 by blast
  then have key: "key_curve (le32 20 (rd_at (H d) (m_address (manifest s2)) 128 148)) = Some c"
    by (simp add: root_trusted_def)
  have "hash_curve (manifest s3) = c"
    using block1_result(2) [OF host cr prov img2 b1 key] by (simp add: s3_def same_image_def)
  moreover have "image_curve (manifest (exec (intel_block0_verify E) s3)) = image_curve (manifest s3)"
    by (rule effect_keeps) (rule vet)
  ultimately have "hash_curve (manifest (exec (manifest_verify E) s)) = c"
    by (simp add: end' image_curve_def)
  then have "\<not> lms_curve (manifest (exec (manifest_verify E) s))" using c(1) by (auto simp: lms_curve_def)
  moreover have "same_trust u (ufm_of m0 (exec (manifest_verify E) s))"
    unfolding ufm_spared [OF chain_vet(3)] by (rule i(3))
  ultimately show "at_image d m0 u (exec (manifest_verify E) s)"
    using i(1) place by (simp add: at_image_def host_image_def image_place_def)
qed

section \<open>Walking a list of definitions\<close>

text \<open>\<open>listed step e a c\<close>: the walk from the definition at \<open>a\<close> comes to the one at \<open>c\<close>, where \<open>step\<close>
  is the size of a definition and \<open>e\<close> the end of the list.\<close>

inductive listed :: "(u32 \<Rightarrow> u32 option) \<Rightarrow> u32 \<Rightarrow> u32 \<Rightarrow> u32 \<Rightarrow> bool" for step :: "u32 \<Rightarrow> u32 option" and e :: u32 where
  here: "listed step e a a"
| further: "step a = Some n \<Longrightarrow> \<not> e \<le> a + n \<Longrightarrow> listed step e (a + n) c \<Longrightarrow> listed step e a c"

inductive_cases listedE: "listed step e a c"

definition walk_round :: "(u32 \<Rightarrow> u32 option) \<Rightarrow> u32 \<Rightarrow> ('a \<Rightarrow> u32) \<Rightarrow> 'a \<Rightarrow> ('a, int) flow \<Rightarrow> bool" where
  "walk_round step e pos x r \<longleftrightarrow>
     (case step (pos x) of
        None \<Rightarrow> (\<exists>y. r = Break y)
      | Some n \<Rightarrow> if e \<le> pos x + n then (\<exists>y. r = Break y) else (\<exists>y. r = Continue y \<and> pos y = pos x + n))"

lemma walk_c_while:
  assumes round: "\<And>x s. I s \<Longrightarrow> (\<exists>r. result (body x) s = Return r \<and> r \<noteq> Success) \<or>
      I (exec (body x) s) \<and> P (pos x) \<and> walk_round step e pos x (result (body x) s)"
    and "I s" and "ended (result (c_while n (\<lambda>_. True) body x) s)"
    and "\<And>r. result (c_while n (\<lambda>_. True) body x) s = Return r \<Longrightarrow> r = Success"
  shows "(\<exists>y. result (c_while n (\<lambda>_. True) body x) s = Break y) \<and> I (exec (c_while n (\<lambda>_. True) body x) s) \<and>
    (\<forall>c. listed step e (pos x) c \<longrightarrow> P c)"
  using assms(2-)
proof (induction n arbitrary: x s)
  case (Suc n)
  define s' where "s' = exec (body x) s"
  have r: "I s'" "P (pos x)" "walk_round step e pos x (result (body x) s)"
    using round [OF Suc.prems(1), of x] Suc.prems(3) unfolding s'_def by (auto simp: case_prod_beta)
  have only: "\<forall>c. listed step e (pos x) c \<longrightarrow> P c" if "step (pos x) = None \<or> (\<exists>k. step (pos x) = Some k \<and> e \<le> pos x + k)"
    using that r(2) by (auto elim: listedE)
  show ?case
  proof (cases "result (body x) s")
    case (Continue y)
    then obtain k where k: "step (pos x) = Some k" "pos y = pos x + k"
      using r(3) by (auto simp: walk_round_def split: option.splits if_splits)
    have rest: "exec (c_while (Suc n) (\<lambda>_. True) body x) s = exec (c_while n (\<lambda>_. True) body y) s'"
      "result (c_while (Suc n) (\<lambda>_. True) body x) s = result (c_while n (\<lambda>_. True) body y) s'"
      using Continue by (simp_all add: case_prod_beta s'_def)
    show ?thesis
      using Suc.IH [OF r(1), of y] Suc.prems(2,3) r(2) k unfolding rest by (metis listedE option.inject)
  next
    case (Break y)
    then show ?thesis
      using r only by (auto simp: case_prod_beta s'_def walk_round_def split: option.splits if_splits)
  next
    case (Return y)
    then show ?thesis using r(3) by (auto simp: walk_round_def split: option.splits if_splits)
  qed
qed simp

lemma walk_sound:
  assumes "\<And>x s. I s \<Longrightarrow> (\<exists>r. result (body x) s = Return r \<and> r \<noteq> Success) \<or>
      I (exec (body x) s) \<and> P (pos x) \<and> walk_round step e pos x (result (body x) s)"
    and "I s" and stuck: "stuck \<noteq> Success" and fin: "result (while_do n (\<lambda>_. True) body x stuck k) s = Success"
  shows "\<exists>y s'. I s' \<and> exec (while_do n (\<lambda>_. True) body x stuck k) s = exec (k y) s' \<and>
    (\<forall>c. listed step e (pos x) c \<longrightarrow> P c)"
proof -
  let ?w = "c_while n (\<lambda>_. True) body x"
  have "ended (result ?w s)"
    using fin stuck by (cases "result ?w s") (simp_all add: while_do_def case_prod_beta)
  moreover have "r = Success" if "result ?w s = Return r" for r
    using fin that by (simp add: while_do_def case_prod_beta)
  ultimately obtain y where "result ?w s = Break y" "I (exec ?w s)" "\<forall>c. listed step e (pos x) c \<longrightarrow> P c"
    using walk_c_while [OF assms(1,2), of n x] by blast
  then show ?thesis by (auto simp: while_do_def case_prod_beta)
qed

section \<open>The regions of a manifest\<close>

definition region_ok :: "(hash_type \<Rightarrow> u8 list \<Rightarrow> u8 list) \<Rightarrow> (nat \<Rightarrow> u8) \<Rightarrow> u32 \<Rightarrow> u8 list \<Rightarrow> bool" where
  "region_ok sha f a b \<longleftrightarrow>
     (let content = mem_slice f (unat (region_start b)) (unat (region_end b - region_start b)) in
      if sha256_present b then mem_slice f (unat (a + 16)) 32 = sha HASH_TYPE_SHA256 content
      else if sha384_present b then mem_slice f (unat (a + 16)) 48 = sha HASH_TYPE_SHA384 content
      else True)"

definition region_size :: "u8 list \<Rightarrow> u32" where
  "region_size b = 16 + (if sha256_present b then 32 else if sha384_present b then 48 else 0)"

lemma check_spi_region_result:
  assumes host: "host_flash E H" and cr: "crypto_ok E H sha ecdsa" and img: "at_image d m0 u s"
  shows "result (check_spi_region E a b) s = (if region_ok sha (H d) a b then Some (a + region_size b) else None)"
proof (cases "sha256_present b \<or> sha384_present b")
  case False
  then show ?thesis
    by (simp add: check_spi_region_def get_spi_region_hash_def spi_region_hash_verification_def region_ok_def region_size_def)
next
  case True
  have i: "host_image d s" using img by (simp add: at_image_def)
  define n where "n = (if sha256_present b then 32 else 48 :: nat)"
  define t where "t = (if sha256_present b then HASH_TYPE_SHA256 else HASH_TYPE_SHA384)"
  define content where "content = mem_slice (H d) (unat (region_start b)) (unat (region_end b - region_start b))"
  define s1 where "s1 = exec (image_read E (a + 16) (of_nat n)) s"
  have rd: "run (image_read E (a + 16) (of_nat n)) s = ((0, mem_slice (H d) (unat (a + 16)) n), s1)"
    using run_image_read [OF host i] by (simp add: s1_def n_def)
  have m1: "manifest s1 = manifest s" using run_image_read [OF host i] by (simp add: s1_def)
  define s2 where "s2 = s1\<lparr>manifest := (manifest s)\<lparr>hash_start_address := region_start b,
    hash_length := region_end b - region_start b, hash_kind := t, device_id0 := d\<rparr>\<rparr>"
  have d: "ucast (image_type (manifest s)) = d" using i by (simp add: host_image_def)
  have gh: "result (manifest_get_hash E (of_nat n)) s2 = (0, sha t content)"
    using crypto_okD [OF cr]
    by (simp add: s2_def manifest_get_hash_def get_hash_def n_def t_def content_def case_prod_beta)
  show ?thesis
  proof (cases "sha256_present b")
    case sha256: True
    then show ?thesis
      using rd gh d m1
      by (auto simp: check_spi_region_def get_spi_region_hash_def spi_region_hash_verification_def region_ok_def
          region_size_def n_def t_def content_def s2_def case_prod_beta)
  next
    case sha384: False
    then show ?thesis
      using True rd gh d m1
      by (auto simp: check_spi_region_def get_spi_region_hash_def spi_region_hash_verification_def region_ok_def
          region_size_def n_def t_def content_def s2_def case_prod_beta)
  qed
qed

lemma check_spi_region_sound:
  assumes "host_flash E H" and "crypto_ok E H sha ecdsa" and "at_image d m0 u s"
    and "result (check_spi_region E a b) s = Some a'"
  shows "region_ok sha (H d) a b" and "a' = a + region_size b"
  using check_spi_region_result [OF assms(1-3), of a b] assms(4) by (simp_all split: if_splits)

abbreviation def_at :: "(nat \<Rightarrow> u8) \<Rightarrow> u32 \<Rightarrow> u8 list" where
  "def_at f a \<equiv> mem_slice f (unat a) 16"

definition volume_def_size :: "u8 list \<Rightarrow> u32 option" where
  "volume_def_size b = (if def_type b = SPI_REGION then Some (region_size b)
     else if def_type b = FVM_CAP then Some 64 else None)"

definition volume_ok ::
    "(hash_type \<Rightarrow> u8 list \<Rightarrow> u8 list) \<Rightarrow> sig_check \<Rightarrow> env \<Rightarrow> (nat \<Rightarrow> u8) \<Rightarrow> (nat \<Rightarrow> u8) \<Rightarrow> u32 \<Rightarrow> bool" where
  "volume_ok sha ecdsa E f u a \<longleftrightarrow>
     authentic_image sha ecdsa E f u a \<and> le32 0 (rd_at f a 1024 32) = FVMTAG \<and>
     (\<forall>c. listed (\<lambda>x. volume_def_size (def_at f x)) (a + 1024 + le32 28 (rd_at f a 1024 32)) (a + 1024 + 32) c \<longrightarrow>
        def_type (def_at f c) = SPI_REGION \<longrightarrow> region_ok sha f c (def_at f c))"

lemma at_image_read:
  assumes "host_flash E H" and "at_image d m0 u s"
  shows "result (image_read E a n) s = (0, mem_slice (H d) (unat a) (unat n))"
    and "at_image d m0 u (exec (image_read E a n) s)"
    and "manifest (exec (image_read E a n) s) = manifest s"
  using assms run_image_read [OF assms(1), of d s a n] at_image_kept [OF curve.reads_vet(2), of d m0 u s]
  by (auto simp: at_image_def)

lemma sig_block_at_image: "at_image d m0 u s \<Longrightarrow> sig_block_size (manifest s) = 1024"
  by (simp add: at_image_def sig_block_size_def)

lemma fvm_round_kept: "curve.kept (fvm_round E e a)"
  unfolding fvm_round_def by (intro curve.vet_intros vet)

lemma fvm_round_sound:
  assumes host: "host_flash E H" and cr: "crypto_ok E H sha ecdsa" and img: "at_image d m0 u s"
  shows "(\<exists>r. result (fvm_round E e a) s = Return r \<and> r \<noteq> Success) \<or>
    at_image d m0 u (exec (fvm_round E e a) s) \<and>
    (def_type (def_at (H d) a) = SPI_REGION \<longrightarrow> region_ok sha (H d) a (def_at (H d) a)) \<and>
    walk_round (\<lambda>x. volume_def_size (def_at (H d) x)) e id a (result (fvm_round E e a) s)"
proof -
  note rd = at_image_read [OF host img, of a 16]
  define s1 where "s1 = exec (image_read E a 16) s"
  have kept: "at_image d m0 u (exec (fvm_round E e a) s)"
    by (rule at_image_kept [OF fvm_round_kept img])
  show ?thesis
  proof (cases "def_type (def_at (H d) a) = SPI_REGION")
    case True
    then show ?thesis
      using kept rd check_spi_region_sound [OF host cr rd(2), of a "def_at (H d) a"]
      by (cases "result (check_spi_region E a (def_at (H d) a)) (exec (image_read E a 16) s)")
         (simp_all add: fvm_round_def case_prod_beta volume_def_size_def walk_round_def next_def_def)
  next
    case False
    then show ?thesis
      using kept rd by (simp add: fvm_round_def case_prod_beta volume_def_size_def walk_round_def next_def_def)
  qed
qed

lemma fvm_sound:
  assumes host: "host_flash E H" and cr: "crypto_ok E H sha ecdsa" and prov: "provision_ok m0 rsize E"
    and img: "at_image d m0 u s" and success: "result (fvm_spi_region_verification E) s = Success"
  shows "volume_ok sha ecdsa E (H d) u (m_address (manifest s))"
    and "at_image d m0 u (exec (fvm_spi_region_verification E) s)"
proof -
  define a where "a = m_address (manifest s)"
  define s1 where "s1 = exec (manifest_verify E) s"
  define s2 where "s2 = exec (image_read E (a + 1024) 32) s1"
  define h where "h = mem_slice (H d) (unat (a + 1024)) 32"
  let ?e = "a + 1024 + le32 28 h"
  let ?walk = "while_do (unat ?e + 1) (\<lambda>_. True) (fvm_round E ?e) (a + 1024 + 32) Failure (\<lambda>_. ret Success)"
  have mv: "result (manifest_verify E) s = Success"
    using success by (auto simp: fvm_spi_region_verification_def case_prod_beta split: if_splits)
  note auth = manifest_verify_success [OF host cr prov img mv]
  have rd: "result (image_read E (a + 1024) 32) s1 = (0, h)" and s2: "at_image d m0 u s2"
    using at_image_read [OF host auth(2)] by (simp_all add: s1_def s2_def h_def)
  have run: "run (fvm_spi_region_verification E) s =
      (if le32 0 h \<noteq> FVMTAG then (Failure, s2) else run ?walk s2)"
    using mv rd sig_block_at_image [OF img]
    by (simp add: fvm_spi_region_verification_def case_prod_beta a_def [symmetric] s1_def [symmetric] s2_def [symmetric] Let_def)
  have tag: "le32 0 h = FVMTAG" and fin: "result ?walk s2 = Success"
    using success unfolding run by (auto split: if_splits)
  define P where "P c \<longleftrightarrow> (def_type (def_at (H d) c) = SPI_REGION \<longrightarrow> region_ok sha (H d) c (def_at (H d) c))" for c
  have round: "(\<exists>r. result (fvm_round E ?e x) s = Return r \<and> r \<noteq> Success) \<or> at_image d m0 u (exec (fvm_round E ?e x) s) \<and>
      P (id x) \<and> walk_round (\<lambda>x. volume_def_size (def_at (H d) x)) ?e id x (result (fvm_round E ?e x) s)"
    if "at_image d m0 u s" for x s
    using fvm_round_sound [OF host cr that, of ?e x] unfolding P_def id_apply .
  obtain y s' where "at_image d m0 u s'" "exec ?walk s2 = exec (ret Success) s'"
    "\<forall>c. listed (\<lambda>x. volume_def_size (def_at (H d) x)) ?e (id (a + 1024 + 32)) c \<longrightarrow> P c"
    using walk_sound [OF round s2 _ fin] by auto
  then show "volume_ok sha ecdsa E (H d) u (m_address (manifest s))"
    and "at_image d m0 u (exec (fvm_spi_region_verification E) s)"
    using auth(1) tag unfolding run
    by (auto simp: volume_ok_def a_def [symmetric] rd_at_def h_def P_def)
qed

section \<open>The attestation manifests it points to\<close>

lemma validate_region_sound:
  assumes host: "host_flash E H" and cr: "crypto_ok E H sha ecdsa" and prov: "provision_ok m0 rsize E"
    and img: "at_image d m0 u s" and valid: "result (validate_region_data E a) s"
  shows "authentic_image sha ecdsa E (H d) u a" and "at_image d m0 u (exec (validate_region_data E a) s)"
proof -
  define s1 where "s1 = exec (upd_manifest (\<lambda>m. m\<lparr>m_address := a, device_id0 := ucast (image_type m)\<rparr>)) s"
  have i1: "at_image d m0 u s1"
    unfolding s1_def by (intro at_image_kept curve.upd_manifest_vet img) (simp add: image_curve_def)
  have a1: "m_address (manifest s1) = a" by (simp add: s1_def)
  have mv: "result (manifest_verify E) s1 = Success"
    and run: "exec (validate_region_data E a) s =
      exec (upd_manifest (m_address_update (\<lambda>_. m_address (manifest s)))) (exec (manifest_verify E) s1)"
    using valid by (simp_all add: validate_region_data_def case_prod_beta s1_def)
  note v = manifest_verify_success [OF host cr prov i1 mv]
  show "authentic_image sha ecdsa E (H d) u a" using v(1) by (simp only: a1)
  show "at_image d m0 u (exec (validate_region_data E a) s)"
    unfolding run by (intro at_image_kept curve.upd_manifest_vet v(2)) (simp add: image_curve_def)
qed

lemma verify_pfm_afm_sound:
  assumes host: "host_flash E H" and cr: "crypto_ok E H sha ecdsa" and prov: "provision_ok m0 rsize E"
    and img: "at_image d m0 u s" and success: "result (verify_pfm_afm E a off) s = Success"
  shows "authentic_image sha ecdsa E (H d) u a" and "at_image d m0 u (exec (verify_pfm_afm E a off) s)"
proof -
  define s1 where "s1 = exec (image_read E a 128) s"
  define s2 where "s2 = exec (validate_region_data E a) s1"
  define s3 where "s3 = exec (image_read E (a + AFM_BODY_SIZE) 128) s2"
  define s4 where "s4 = exec (validate_region_data E (a + AFM_BODY_SIZE)) s3"
  have i1: "at_image d m0 u s1" unfolding s1_def by (rule at_image_read [OF host img])
  have valid: "result (validate_region_data E a) s1"
    using success by (auto simp: verify_pfm_afm_def case_prod_beta s1_def split: if_splits)
  note v = validate_region_sound [OF host cr prov i1 valid]
  show "authentic_image sha ecdsa E (H d) u a" by (rule v(1))
  have i2: "at_image d m0 u s2" unfolding s2_def by (rule v(2))
  have i3: "at_image d m0 u s3" unfolding s3_def by (rule at_image_read [OF host i2])
  consider (single) "exec (verify_pfm_afm E a off) s = exec (set_afm_address a) s2"
    | (erased) "exec (verify_pfm_afm E a off) s = exec (set_afm_address 0) (exec (erase_afm_body E off) s3)"
    | (body) "result (validate_region_data E (a + AFM_BODY_SIZE)) s3"
        "exec (verify_pfm_afm E a off) s = exec (set_afm_address (a + AFM_BODY_SIZE)) s4"
    using success valid
    by (simp add: verify_pfm_afm_def case_prod_beta s1_def [symmetric] s2_def [symmetric] s3_def [symmetric]
        s4_def [symmetric] split: if_splits)
  then show "at_image d m0 u (exec (verify_pfm_afm E a off) s)"
  proof cases
    case single
    then show ?thesis unfolding single by (intro at_image_kept vet i2)
  next
    case erased
    then show ?thesis unfolding erased by (intro at_image_kept vet i3)
  next
    case body
    have "at_image d m0 u s4" unfolding s4_def by (rule validate_region_sound(2) [OF host cr prov i3 body(1)])
    then show ?thesis unfolding body(2) by (intro at_image_kept vet)
  qed
qed

section \<open>The active manifest\<close>

definition manifest_def_size :: "env \<Rightarrow> u8 list \<Rightarrow> u32 option" where
  "manifest_def_size E b = (if def_type b = SPI_REGION then Some (region_size b)
     else if def_type b = SMBUS_RULE then Some 40
     else if CONFIG_SEAMLESS_UPDATE E \<and> def_type b = FVM_ADDR_DEF then Some 12
     else if CONFIG_SEAMLESS_UPDATE E \<and> def_type b = FVM_CAP then Some 64
     else if def_type b = AFM_ADDR_DEF then Some 56 else None)"

text \<open>What is asked of the definition at \<open>c\<close>: a region has its hash, a volume or an attestation
  manifest it points to is authentic in turn.\<close>

definition manifest_def_ok ::
    "(hash_type \<Rightarrow> u8 list \<Rightarrow> u8 list) \<Rightarrow> sig_check \<Rightarrow> env \<Rightarrow> (nat \<Rightarrow> u8) \<Rightarrow> (nat \<Rightarrow> u8) \<Rightarrow> u32 \<Rightarrow> bool" where
  "manifest_def_ok sha ecdsa E f u c \<longleftrightarrow>
     (let b = def_at f c in
      (def_type b = SPI_REGION \<longrightarrow> region_ok sha f c b) \<and>
      (CONFIG_SEAMLESS_UPDATE E \<and> def_type b = FVM_ADDR_DEF \<longrightarrow> volume_ok sha ecdsa E f u (le32 8 b)) \<and>
      (def_type b = AFM_ADDR_DEF \<longrightarrow> authentic_image sha ecdsa E f u (le32 52 (mem_slice f (unat c) 56))))"

definition trusted_manifest ::
    "(hash_type \<Rightarrow> u8 list \<Rightarrow> u8 list) \<Rightarrow> sig_check \<Rightarrow> env \<Rightarrow> (nat \<Rightarrow> u8) \<Rightarrow> (nat \<Rightarrow> u8) \<Rightarrow> u32 \<Rightarrow> bool" where
  "trusted_manifest sha ecdsa E f u a \<longleftrightarrow>
     (let h = rd_at f a 1024 32 in
      authentic_image sha ecdsa E f u a \<and>
      (CONFIG_PFR_SPDM_ATTESTATION E \<and> le32 0 h = AFM_TAG \<or>
       le32 0 h = PFMTAG \<and>
       (\<forall>c. listed (\<lambda>x. manifest_def_size E (def_at f x)) (a + 1024 + le32 28 h) (a + 1024 + 32) c \<longrightarrow>
          manifest_def_ok sha ecdsa E f u c)))"

lemma pfm_round_sound:
  assumes host: "host_flash E H" and cr: "crypto_ok E H sha ecdsa" and prov: "provision_ok m0 rsize E"
    and img: "at_image d m0 u s"
  shows "(\<exists>r. result (pfm_round E ra off e p) s = Return r \<and> r \<noteq> Success) \<or>
    at_image d m0 u (exec (pfm_round E ra off e p) s) \<and> manifest_def_ok sha ecdsa E (H d) u (fst p) \<and>
    walk_round (\<lambda>x. manifest_def_size E (def_at (H d) x)) e fst p (result (pfm_round E ra off e p) s)"
proof -
  obtain a found where p: "p = (a, found)" by (cases p)
  define b where "b = def_at (H d) a"
  define s1 where "s1 = exec (image_read E a 16) s"
  have rd: "result (image_read E a 16) s = (0, b)" and i1: "at_image d m0 u s1"
    using at_image_read [OF host img] by (simp_all add: b_def s1_def)
  have b0: "H d (unat a) = def_type b" by (simp add: b_def)
  note goal = p pfm_round_def case_prod_beta rd b0 manifest_def_ok_def walk_round_def manifest_def_size_def
    b_def [symmetric] s1_def [symmetric] Let_def
  consider (region) "def_type b = SPI_REGION"
    | (volume) "CONFIG_SEAMLESS_UPDATE E" "def_type b = FVM_ADDR_DEF"
    | (afm) "def_type b = AFM_ADDR_DEF"
    | (other) "def_type b \<noteq> SPI_REGION" "\<not> (CONFIG_SEAMLESS_UPDATE E \<and> def_type b = FVM_ADDR_DEF)"
        "def_type b \<noteq> AFM_ADDR_DEF" by blast
  then show ?thesis
  proof cases
    case region
    define r where "r = result (check_spi_region E a b) s1"
    have "at_image d m0 u (exec (check_spi_region E a b) s1)" by (intro at_image_kept vet i1)
    then show ?thesis
      using region check_spi_region_sound [OF host cr i1, of a b, folded r_def] r_def [symmetric]
      by (cases r) (simp_all add: goal)
  next
    case volume
    define s2 where "s2 = s1\<lparr>manifest := (manifest s1)\<lparr>m_address := le32 8 b\<rparr>\<rparr>"
    have i2: "at_image d m0 u s2"
      using i1 by (simp add: s2_def at_image_def host_image_def lms_curve_def)
    have a2: "m_address (manifest s2) = le32 8 b" by (simp add: s2_def)
    show ?thesis
    proof (cases "result (fvm_spi_region_verification E) s2 = Success")
      case True
      then show ?thesis
        using volume fvm_sound [OF host cr prov i2 True] unfolding a2
        by (simp add: goal s2_def [symmetric])
    next
      case False
      then show ?thesis using volume by (simp add: goal s2_def [symmetric])
    qed
  next
    case afm
    define x where "x = le32 52 (mem_slice (H d) (unat a) 56)"
    define s2 where "s2 = exec (image_read E a 56) s1"
    have rd2: "result (image_read E a 56) s1 = (0, mem_slice (H d) (unat a) 56)" and i2: "at_image d m0 u s2"
      using at_image_read [OF host i1] by (simp_all add: s2_def)
    show ?thesis
    proof (cases "result (verify_pfm_afm E x off) s2 = Success")
      case True
      then show ?thesis
        using afm rd2 verify_pfm_afm_sound [OF host cr prov i2 True]
        by (simp add: goal s2_def [symmetric] x_def [symmetric] ex_bool_eq)
    next
      case False
      then show ?thesis using afm rd2 by (simp add: goal s2_def [symmetric] x_def [symmetric])
    qed
  next
    case other
    then show ?thesis using i1 by (cases "CONFIG_SEAMLESS_UPDATE E") (simp_all add: goal)
  qed
qed

text \<open>The walk over the active manifest at \<open>a\<close>, whose header is \<open>h\<close>, and what follows it.\<close>

definition after_walk :: "env \<Rightarrow> u32 \<Rightarrow> u32 \<Rightarrow> u32 \<times> bool \<Rightarrow> (world, int) state" where
  "after_walk E a off = (\<lambda>(_, new_format_found). do {
     (if \<not> new_format_found \<and> off \<noteq> 0xffffffff then do { erase_afm_body E off; ret () } else ret ());
     upd_manifest (m_address_update (\<lambda>_. a));
     ret Success
   })"

definition manifest_walk :: "env \<Rightarrow> u32 \<Rightarrow> u32 \<Rightarrow> u8 list \<Rightarrow> (world, int) state" where
  "manifest_walk E a off h =
     (if le32 0 h = AFM_TAG then ret Success
      else while_do (unat (a + 1024 + le32 28 h) + 1) (\<lambda>_. True) (pfm_round E a off (a + 1024 + le32 28 h))
        (a + 1024 + 32, False) Failure (after_walk E a off))"

lemma after_walk_vet: "curve.kept (after_walk E a off y)"
  unfolding after_walk_def by (intro curve.vet_intros vet) (simp add: image_curve_def)

lemma pfm_stages:
  assumes host: "host_flash E H" and img: "at_image d m0 u s"
  defines "a \<equiv> m_address (manifest s)"
  obtains off s' where "at_image d m0 u s'"
    and "run (pfm_spi_region_verification E) s = run (manifest_walk E a off (rd_at (H d) a 1024 32)) s'"
proof
  define off where "off = (if image_type (manifest s) = BMC_TYPE then BMC_AFM_BODY_OFFSET
    else if image_type (manifest s) = PCH_TYPE then CPU0_AFM_BODY_OFFSET else 0xffffffff)"
  define h where "h = rd_at (H d) a 1024 32"
  define s1 where "s1 = exec (cwhen (image_type (manifest s) = BMC_TYPE \<or> image_type (manifest s) = PCH_TYPE) (set_afm_address 0)) s"
  define s2 where "s2 = exec (image_read E (a + 1024) 32) s1"
  have i1: "at_image d m0 u s1"
    unfolding s1_def by (intro at_image_kept eff.keeps_cwhen vet img)
  have rd: "result (image_read E (a + 1024) 32) s1 = (0, h)" and i2: "at_image d m0 u s2"
    using at_image_read [OF host i1] by (simp_all add: s2_def h_def rd_at_def)
  have "result (pfm_spi_region_verification E) s = result (manifest_walk E a off h) s2"
    "exec (pfm_spi_region_verification E) s = exec (manifest_walk E a off h) s2"
    unfolding pfm_spi_region_verification_def Let_def result_bind exec_bind run_gets fst_conv snd_conv a_def [symmetric]
      sig_block_at_image [OF img] off_def [symmetric] s1_def [symmetric] rd s2_def [symmetric] prod.case
      not_True_eq_False refl if_False simp_thms manifest_walk_def after_walk_def by (rule TrueI)+
  then show "run (pfm_spi_region_verification E) s = run (manifest_walk E a off (rd_at (H d) a 1024 32)) s2"
    by (simp add: prod_eq_iff h_def)
  show "at_image d m0 u s2" by (rule i2)
qed

lemma pfm_sound:
  assumes host: "host_flash E H" and cr: "crypto_ok E H sha ecdsa" and prov: "provision_ok m0 rsize E"
    and img: "at_image d m0 u s" and success: "result (pfm_spi_region_verification E) s = Success"
  defines "a \<equiv> m_address (manifest s)"
  defines "h \<equiv> rd_at (H d) a 1024 32"
  shows "le32 0 h \<noteq> AFM_TAG \<Longrightarrow> listed (\<lambda>x. manifest_def_size E (def_at (H d) x)) (a + 1024 + le32 28 h) (a + 1024 + 32) c \<Longrightarrow>
      manifest_def_ok sha ecdsa E (H d) u c"
    and "at_image d m0 u (exec (pfm_spi_region_verification E) s)"
proof -
  obtain off s2 where i2: "at_image d m0 u s2"
    and stages: "run (pfm_spi_region_verification E) s = run (manifest_walk E a off h) s2"
    using pfm_stages [OF host img] unfolding a_def h_def by metis
  let ?e = "a + 1024 + le32 28 h"
  let ?walk = "while_do (unat ?e + 1) (\<lambda>_. True) (pfm_round E a off ?e) (a + 1024 + 32, False) Failure (after_walk E a off)"
  have walk: "le32 0 h \<noteq> AFM_TAG \<Longrightarrow> result ?walk s2 = Success"
    and run: "exec (pfm_spi_region_verification E) s = (if le32 0 h = AFM_TAG then s2 else exec ?walk s2)"
    using success stages by (simp_all add: manifest_walk_def)
  have sound: "\<exists>y s'. at_image d m0 u s' \<and> exec ?walk s2 = exec (after_walk E a off y) s' \<and>
      (\<forall>c. listed (\<lambda>x. manifest_def_size E (def_at (H d) x)) ?e (a + 1024 + 32) c \<longrightarrow> manifest_def_ok sha ecdsa E (H d) u c)"
    if "le32 0 h \<noteq> AFM_TAG"
    using walk_sound [where pos = fst, OF pfm_round_sound [OF host cr prov] i2 _ walk [OF that]] by simp
  show "manifest_def_ok sha ecdsa E (H d) u c"
    if "le32 0 h \<noteq> AFM_TAG" and "listed (\<lambda>x. manifest_def_size E (def_at (H d) x)) ?e (a + 1024 + 32) c"
    using sound [OF that(1)] that(2) by blast
  show "at_image d m0 u (exec (pfm_spi_region_verification E) s)"
  proof (cases "le32 0 h = AFM_TAG")
    case True
    then show ?thesis using i2 by (simp add: run)
  next
    case False
    then obtain y s' where "at_image d m0 u s'" "exec ?walk s2 = exec (after_walk E a off y) s'" using sound by blast
    then show ?thesis using False at_image_kept [OF after_walk_vet] by (simp add: run)
  qed
qed

lemma provisioned_word:
  assumes prov: "provision_ok m0 rsize E" and img: "at_image d m0 u s"
    and "\<And>i. i < 4 \<Longrightarrow> trusted_byte (unat off + i)"
  shows "result (get_provision_data_in_flash E off 4) s = (0, mem_slice u (unat off) 4)"
proof -
  have "mem_slice (ufm_of m0 s) (unat off) 4 = mem_slice u (unat off) 4"
    using img assms(3) le_Suc_ex by (intro same_trust_slice [symmetric]) (auto simp: at_image_def dest!: le_Suc_ex)
  then show ?thesis
    using rot_read [of E m0 rsize ROT_INTERNAL_INTEL_STATE off 4 s] prov
    by (simp add: provision_ok_def get_provision_data_in_flash_def)
qed

definition active_stages :: "env \<Rightarrow> u32 \<Rightarrow> (world, int) state" where
  "active_stages E a = do {
     status \<leftarrow> manifest_verify E;
     if status \<noteq> Success then ret Failure
     else do {
       status \<leftarrow> get_active_pfm_version_details E a;
       if status \<noteq> Success then ret Failure
       else do {
         status \<leftarrow> pfm_spi_region_verification E;
         if status \<noteq> Success then ret Failure else ret Success
       }
     }
   }"

lemma active_verify_stages:
  assumes prov: "provision_ok m0 rsize E" and img: "at_image d m0 u s"
    and dev: "image_type (manifest s) = BMC_TYPE \<or> image_type (manifest s) = PCH_TYPE"
  obtains s' where "run (pfr_active_verify E) s = run (active_stages E (pfm_address u d)) s'"
    and "at_image d m0 u s'" and "m_address (manifest s') = pfm_address u d"
proof
  define off where "off = (if image_type (manifest s) = BMC_TYPE then BMC_ACTIVE_PFM_OFFSET else PCH_ACTIVE_PFM_OFFSET)"
  define a where "a = u32_of_bytes (mem_slice u (unat off) 4)"
  have d: "d = (if image_type (manifest s) = BMC_TYPE then BMC_SPI else PCH_SPI)"
    using img dev by (auto simp: at_image_def host_image_def)
  have a: "a = pfm_address u d" by (simp add: a_def off_def pfm_address_def pfm_offset_def d)
  define s1 where "s1 = exec (get_provision_data_in_flash E off 4) s"
  define s2 where "s2 = s1\<lparr>manifest := (manifest s1)\<lparr>m_address := a\<rparr>\<rparr>"
  have rd: "result (get_provision_data_in_flash E off 4) s = (0, mem_slice u (unat off) 4)"
    using provisioned_word [OF prov img, of off] by (simp add: off_def trusted_byte_def)
  have i1: "at_image d m0 u s1" unfolding s1_def by (intro at_image_kept vet img)
  then show "at_image d m0 u s2" by (simp add: s2_def at_image_def host_image_def lms_curve_def)
  show "m_address (manifest s2) = pfm_address u d" by (simp add: s2_def a)
  have "run (pfr_active_verify E) s = run (active_stages E a) s2"
    using dev rd
    by (elim disjE) (simp_all add: pfr_active_verify_def case_prod_beta off_def a_def s1_def s2_def active_stages_def Let_def)
  then show "run (pfr_active_verify E) s = run (active_stages E (pfm_address u d)) s2" by (simp only: a)
qed

lemma active_verify_sound:
  assumes host: "host_flash E H" and cr: "crypto_ok E H sha ecdsa" and prov: "provision_ok m0 rsize E"
    and img: "at_image d m0 u s" and dev: "image_type (manifest s) = BMC_TYPE \<or> image_type (manifest s) = PCH_TYPE"
    and success: "result (pfr_active_verify E) s = Success"
  shows "trusted_manifest sha ecdsa E (H d) u (pfm_address u d)"
    and "at_image d m0 u (exec (pfr_active_verify E) s)"
proof -
  define a where "a = pfm_address u d"
  obtain s2 where stages: "run (pfr_active_verify E) s = run (active_stages E a) s2"
    and i2: "at_image d m0 u s2" and a2: "m_address (manifest s2) = a"
    using active_verify_stages [OF prov img dev] unfolding a_def by metis
  define s3 where "s3 = exec (manifest_verify E) s2"
  define s4 where "s4 = exec (get_active_pfm_version_details E a) s3"
  have mv: "result (manifest_verify E) s2 = Success"
    and vd: "result (get_active_pfm_version_details E a) s3 = Success"
    and pv: "result (pfm_spi_region_verification E) s4 = Success"
    and end': "exec (pfr_active_verify E) s = exec (pfm_spi_region_verification E) s4"
    using success stages by (auto simp: active_stages_def case_prod_beta s3_def s4_def split: if_splits)
  note v = manifest_verify_success [OF host cr prov i2 mv]
  have i3: "at_image d m0 u s3" unfolding s3_def by (rule v(2))
  have i4: "at_image d m0 u s4" unfolding s4_def by (intro at_image_kept vet i3)
  have a4: "m_address (manifest s4) = a"
    using effect_keeps [OF place.version_vet, of E a s3] v(3) a2 by (simp add: s4_def s3_def image_place_def)
  define h where "h = rd_at (H d) a 1024 32"
  have tag: "le32 0 h = PFMTAG \<or> CONFIG_PFR_SPDM_ATTESTATION E \<and> le32 0 h = AFM_TAG"
    using vd at_image_read [OF host i3, of "a + 1024" 32] sig_block_at_image [OF i3]
    by (auto simp: get_active_pfm_version_details_def case_prod_beta h_def rd_at_def split: if_splits)
  have listed: "manifest_def_ok sha ecdsa E (H d) u c" if "le32 0 h \<noteq> AFM_TAG"
    and "listed (\<lambda>x. manifest_def_size E (def_at (H d) x)) (a + 1024 + le32 28 h) (a + 1024 + 32) c" for c
    using pfm_sound(1) [OF host cr prov i4 pv, unfolded a4, folded h_def] that .
  show "trusted_manifest sha ecdsa E (H d) u (pfm_address u d)"
    using v(1) tag listed unfolding trusted_manifest_def a2 a_def [symmetric] h_def [symmetric] Let_def by auto
  show "at_image d m0 u (exec (pfr_active_verify E) s)"
    unfolding end' by (rule pfm_sound(2) [OF host cr prov i4 pv])
qed

section \<open>The recovery image\<close>

lemma raise_svn_trust:
  assumes prov: "provision_ok m0 rsize E" and img: "at_image d m0 u s"
    and off: "off \<in> {SVN_POLICY_FOR_PCH_FW_UPDATE, SVN_POLICY_FOR_BMC_FW_UPDATE, SVN_POLICY_FOR_AFM}"
  shows "at_image d m0 u (exec (raise_svn_policy E off n) s)"
proof -
  have get: "ufm_of m0 (exec (get_ufm_svn E o') t) = ufm_of m0 t" for o' t
    using provision_ufm.rd_view [OF prov] by (simp add: get_ufm_svn_def case_prod_beta)
  have wr: "same_trust (ufm_of m0 t) (ufm_of m0 (exec (ufm_write E PROVISION_UFM off (u32_bytes p @ u32_bytes q)) t))" for t p q
    using provision_ufm.wr_view [OF prov] off
    by (auto simp: same_trust_def trusted_byte_def patch_def)
  have refl: "same_trust v v" for v by (simp add: same_trust_def)
  have set': "same_trust (ufm_of m0 t) (ufm_of m0 (exec (set_ufm_svn E off n) t))" for t
    using wr by (simp add: set_ufm_svn_def case_prod_beta get refl split: prod.split) (metis get)
  have "same_trust (ufm_of m0 s) (ufm_of m0 (exec (raise_svn_policy E off n) s))"
    using set' by (simp add: raise_svn_policy_def case_prod_beta get refl) (metis get)
  moreover have "state_io_rel dev_only (raise_svn_policy E off n)"
    unfolding raise_svn_policy_def by (intro dev.keeps_intros dev_lemmas)
  then have "manifest (exec (raise_svn_policy E off n) s) = manifest s" by (rule exec_dev_manifest)
  ultimately show ?thesis
    using img same_trust_trans by (simp add: at_image_def host_image_def) blast
qed

lemma recover_version_trust:
  assumes host: "host_flash E H" and prov: "provision_ok m0 rsize E" and img: "at_image d m0 u s"
  shows "at_image d m0 u (exec (get_recover_pfm_version_details E a) s)"
proof -
  define x where "x = a + 2048"
  define s1 where "s1 = exec (image_read E x 32) s"
  define pfm where "pfm = mem_slice (H d) (unat x) 32"
  have rd: "run (image_read E x 32) s = ((0, pfm), s1)" and i1: "at_image d m0 u s1"
    using at_image_read [OF host img, of x 32] by (simp_all add: s1_def pfm_def prod_eq_iff)
  have versions: "at_image d m0 u (exec (raise_svn_policy E off n) (exec (set_versions E r1 r2 r3 pfm) s1))"
    if "off \<in> {SVN_POLICY_FOR_PCH_FW_UPDATE, SVN_POLICY_FOR_BMC_FW_UPDATE, SVN_POLICY_FOR_AFM}" for off n r1 r2 r3
  proof -
    have "curve.kept (set_versions E r1 r2 r3 pfm)"
      unfolding set_versions_def MBX_REG_SETTER_def by (intro curve.vet_intros) simp_all
    then show ?thesis using raise_svn_trust [OF prov at_image_kept that] i1 by blast
  qed
  show ?thesis
    using versions i1
    by (simp add: get_recover_pfm_version_details_def sig_block_at_image [OF img] rd [unfolded x_def add.commute [of a]] case_prod_beta)
qed

definition recovery_address :: "(nat \<Rightarrow> u8) \<Rightarrow> u8 \<Rightarrow> u32" where
  "recovery_address u d =
     u32_of_bytes (mem_slice u (unat (if d = BMC_SPI then BMC_RECOVERY_REGION_OFFSET else PCH_RECOVERY_REGION_OFFSET)) 4)"

text \<open>A capsule is signed twice: as a whole, and the manifest behind its signature block.\<close>

definition trusted_capsule ::
    "(hash_type \<Rightarrow> u8 list \<Rightarrow> u8 list) \<Rightarrow> sig_check \<Rightarrow> env \<Rightarrow> (nat \<Rightarrow> u8) \<Rightarrow> (nat \<Rightarrow> u8) \<Rightarrow> u32 \<Rightarrow> bool" where
  "trusted_capsule sha ecdsa E f u a \<longleftrightarrow>
     authentic_image sha ecdsa E f u a \<and> authentic_image sha ecdsa E f u (a + 1024)"

definition recovery_stages :: "env \<Rightarrow> u32 \<Rightarrow> (world, int) state" where
  "recovery_stages E a = do {
     status \<leftarrow> manifest_verify E;
     if status \<noteq> Success then ret Failure
     else do {
       upd_manifest (\<lambda>m. m\<lparr>m_address := m_address m + sig_block_size m\<rparr>);
       status \<leftarrow> manifest_verify E;
       if status \<noteq> Success then ret Failure
       else do {
         status \<leftarrow> get_recover_pfm_version_details E a;
         if status \<noteq> Success then ret Failure else ret Success
       }
     }
   }"

lemma recovery_verify_stages:
  assumes prov: "provision_ok m0 rsize E" and img: "at_image d m0 u s"
    and dev: "image_type (manifest s) = BMC_TYPE \<or> image_type (manifest s) = PCH_TYPE"
  obtains s' where "run (recovery_verify E) s = run (recovery_stages E (recovery_address u d)) s'"
    and "at_image d m0 u s'" and "m_address (manifest s') = recovery_address u d"
proof
  define off where "off = (if image_type (manifest s) = BMC_TYPE then BMC_RECOVERY_REGION_OFFSET else PCH_RECOVERY_REGION_OFFSET)"
  define a where "a = u32_of_bytes (mem_slice u (unat off) 4)"
  have d: "d = (if image_type (manifest s) = BMC_TYPE then BMC_SPI else PCH_SPI)"
    using img dev by (auto simp: at_image_def host_image_def)
  have a: "a = recovery_address u d" by (simp add: a_def off_def recovery_address_def d)
  define s1 where "s1 = exec (ufm_read E PROVISION_UFM off 4) s"
  define s2 where "s2 = s1\<lparr>manifest := (manifest s1)\<lparr>m_address := a\<rparr>\<rparr>"
  have rd: "result (ufm_read E PROVISION_UFM off 4) s = (0, mem_slice u (unat off) 4)"
    using provisioned_word [OF prov img, of off] by (simp add: ufm_read_def off_def trusted_byte_def)
  have i1: "at_image d m0 u s1" unfolding s1_def by (intro at_image_kept vet img)
  then show "at_image d m0 u s2" by (simp add: s2_def at_image_def host_image_def lms_curve_def)
  show "m_address (manifest s2) = recovery_address u d" by (simp add: s2_def a)
  have "run (recovery_verify E) s = run (recovery_stages E a) s2"
    using dev rd
    by (elim disjE) (simp_all add: recovery_verify_def intel_pfr_recovery_verify_def pfr_recovery_verify_def
        case_prod_beta off_def a_def s1_def s2_def recovery_stages_def Let_def)
  then show "run (recovery_verify E) s = run (recovery_stages E (recovery_address u d)) s2" by (simp only: a)
qed

text \<open>Between the two signatures only the address moves on.\<close>

lemma behind_signature:
  assumes "at_image d m0 u s" and "m_address (manifest s) = a"
  defines "t \<equiv> s\<lparr>manifest := (manifest s)\<lparr>m_address := a + 1024\<rparr>\<rparr>"
  shows "exec (upd_manifest (\<lambda>m. m\<lparr>m_address := m_address m + sig_block_size m\<rparr>)) s = t"
    and "at_image d m0 u t" and "m_address (manifest t) = a + 1024"
  using assms(1,2) sig_block_at_image [OF assms(1)]
  by (simp_all add: t_def at_image_def host_image_def lms_curve_def)

lemma recovery_verify_sound:
  assumes host: "host_flash E H" and cr: "crypto_ok E H sha ecdsa" and prov: "provision_ok m0 rsize E"
    and img: "at_image d m0 u s" and dev: "image_type (manifest s) = BMC_TYPE \<or> image_type (manifest s) = PCH_TYPE"
    and success: "result (recovery_verify E) s = Success"
  shows "trusted_capsule sha ecdsa E (H d) u (recovery_address u d)"
    and "at_image d m0 u (exec (recovery_verify E) s)"
proof -
  define a where "a = recovery_address u d"
  obtain s2 where stages: "run (recovery_verify E) s = run (recovery_stages E a) s2"
    and i2: "at_image d m0 u s2" and a2: "m_address (manifest s2) = a"
    using recovery_verify_stages [OF prov img dev] unfolding a_def by metis
  define s3 where "s3 = exec (manifest_verify E) s2"
  define s4 where "s4 = s3\<lparr>manifest := (manifest s3)\<lparr>m_address := a + 1024\<rparr>\<rparr>"
  define s5 where "s5 = exec (manifest_verify E) s4"
  have mv: "result (manifest_verify E) s2 = Success"
    using success stages by (auto simp: recovery_stages_def case_prod_beta split: if_splits)
  note v = manifest_verify_success [OF host cr prov i2 mv]
  have "at_image d m0 u s3" "m_address (manifest s3) = a" unfolding s3_def using v a2 by simp_all
  note next' = behind_signature [OF this, folded s4_def]
  have mv4: "result (manifest_verify E) s4 = Success"
    and end': "exec (recovery_verify E) s = exec (get_recover_pfm_version_details E a) s5"
    using success stages mv next'(1)
    by (auto simp: recovery_stages_def case_prod_beta s3_def [symmetric] s5_def split: if_splits)
  note v4 = manifest_verify_success [OF host cr prov next'(2) mv4]
  show "trusted_capsule sha ecdsa E (H d) u (recovery_address u d)"
    using v(1) v4(1) unfolding trusted_capsule_def a_def [symmetric] a2 next'(3) ..
  show "at_image d m0 u (exec (recovery_verify E) s)"
    unfolding end' s5_def by (rule recover_version_trust [OF host prov v4(2)])
qed

end
