(* ===== verification/Pfr_Verified.thy ===== *)
theory Pfr_Verified
  imports Pfr_Outcome Pfr_Trust
begin

text \<open>
  The boot verification as a whole: when \<open>handle_image_verification\<close> posts \<open>VERIFY_DONE\<close>, both hosts
  have a trusted active manifest and a signed recovery capsule.
\<close>

section \<open>One image\<close>

text \<open>Between two images only the last curve and the provisioning area matter.\<close>

definition ready :: "flash_mem \<Rightarrow> (nat \<Rightarrow> u8) \<Rightarrow> world \<Rightarrow> bool" where
  "ready m0 u s \<longleftrightarrow> \<not> lms_curve (manifest s) \<and> same_trust u (ufm_of m0 s)"

lemma ready_at_image: "at_image d m0 u s \<Longrightarrow> ready m0 u s"
  by (simp add: at_image_def ready_def)

lemma ready_kept: "curve.kept m \<Longrightarrow> ready m0 u s \<Longrightarrow> ready m0 u (exec m s)"
  by (frule ufm_spared [where m = m and ?m0.0 = m0 and s = s], drule effect_keeps [where s = s])
     (simp add: ready_def lms_curve_def image_curve_def)

lemma ready_upd_ao [simp]: "ready m0 u (upd_ao ao f s) = ready m0 u s"
  by (cases ao) (simp_all add: ready_def)

text \<open>The event, the flash and the active object of a host.\<close>

fun host_event :: "u8 \<Rightarrow> hrot_event" where
  "host_event d = (if d = BMC_SPI then BMC_EVENT else PCH_EVENT)"

fun host_ao :: "u8 \<Rightarrow> ao_ref" where
  "host_ao d = (if d = BMC_SPI then AO_BMC else AO_PCH)"

abbreviation request :: "operations \<Rightarrow> u8 \<Rightarrow> u32 \<Rightarrow> event_wrap" where
  "request op d flash \<equiv> \<lparr>evt_operation = op, evt_image = host_event d, upd_flash = flash, upd_flag = 0\<rparr>"

lemma host_request:
  assumes "d = BMC_SPI \<or> d = PCH_SPI" and "ready m0 u s"
    and "op = VERIFY_ACTIVE \<and> v = pfr_active_verify \<or> op = VERIFY_BACKUP \<and> v = recovery_verify"
  obtains s' where "run (authentication_image E (request op d flash)) s = run (v E) s'"
    and "at_image d m0 u s'" and "image_type (manifest s') = ucast d"
proof
  let ?s' = "s\<lparr>manifest := (manifest s)\<lparr>m_state := FIRMWARE_VERIFY, image_type := ucast d\<rparr>\<rparr>"
  show "run (authentication_image E (request op d flash)) s = run (v E) ?s'"
    using assms(1,3) by (auto simp: authentication_image_def requested_image_type_def case_prod_beta)
  show "at_image d m0 u ?s'"
    using assms(1,2) by (auto simp: at_image_def ready_def host_image_def lms_curve_def)
  show "image_type (manifest ?s') = ucast d" by simp
qed

lemma host_verified:
  assumes host: "host_flash E H" and cr: "crypto_ok E H sha ecdsa" and prov: "provision_ok m0 rsize E"
    and d: "d = BMC_SPI \<or> d = PCH_SPI" and r: "ready m0 u s"
    and ok: "result (authentication_image E (request op d flash)) s = Success"
  shows "op = VERIFY_ACTIVE \<Longrightarrow> trusted_manifest sha ecdsa E (H d) u (pfm_address u d) \<and>
      ready m0 u (exec (authentication_image E (request op d flash)) s)"
    and "op = VERIFY_BACKUP \<Longrightarrow> trusted_capsule sha ecdsa E (H d) u (recovery_address u d) \<and>
      ready m0 u (exec (authentication_image E (request op d flash)) s)"
proof -
  assume op: "op = VERIFY_ACTIVE"
  obtain s' where s': "run (authentication_image E (request op d flash)) s = run (pfr_active_verify E) s'"
    "at_image d m0 u s'" "image_type (manifest s') = ucast d" using host_request [OF d r] op by metis
  then have "image_type (manifest s') = BMC_TYPE \<or> image_type (manifest s') = PCH_TYPE" using d by auto
  from active_verify_sound [OF host cr prov s'(2) this] show "trusted_manifest sha ecdsa E (H d) u (pfm_address u d) \<and>
      ready m0 u (exec (authentication_image E (request op d flash)) s)"
    using ok s'(1) ready_at_image by simp
next
  assume op: "op = VERIFY_BACKUP"
  obtain s' where s': "run (authentication_image E (request op d flash)) s = run (recovery_verify E) s'"
    "at_image d m0 u s'" "image_type (manifest s') = ucast d" using host_request [OF d r] op by metis
  then have "image_type (manifest s') = BMC_TYPE \<or> image_type (manifest s') = PCH_TYPE" using d by auto
  from recovery_verify_sound [OF host cr prov s'(2) this] show "trusted_capsule sha ecdsa E (H d) u (recovery_address u d) \<and>
      ready m0 u (exec (authentication_image E (request op d flash)) s)"
    using ok s'(1) ready_at_image by simp
qed

lemma exec_verify_host:
  "exec (verify_image E (host_event d) op flash) s =
    upd_ao (host_ao d)
      (if op = VERIFY_ACTIVE then ActiveImageStatus_update (\<lambda>_. image_status (result (authentication_image E (request op d flash)) s))
       else if op = VERIFY_BACKUP then RecoveryImageStatus_update (\<lambda>_. image_status (result (authentication_image E (request op d flash)) s))
       else id)
      (exec (authentication_image E (request op d flash)) s)"
  by (simp add: verify_image_def case_prod_beta Let_def)

lemma image_status_ok: "image_status r = 0 \<longleftrightarrow> r = Success"
  by (simp add: image_status_def)

section \<open>The images of a boot\<close>

definition trusted_host ::
    "(hash_type \<Rightarrow> u8 list \<Rightarrow> u8 list) \<Rightarrow> sig_check \<Rightarrow> env \<Rightarrow> flash_mem \<Rightarrow> (nat \<Rightarrow> u8) \<Rightarrow> u8 \<Rightarrow> bool" where
  "trusted_host sha ecdsa E H u d \<longleftrightarrow>
     trusted_manifest sha ecdsa E (H d) u (pfm_address u d) \<and>
     trusted_capsule sha ecdsa E (H d) u (recovery_address u d)"

lemma auth_keeps:
  "bmc_active_object (exec (authentication_image E e) s) = bmc_active_object s"
  "pch_active_object (exec (authentication_image E e) s) = pch_active_object s"
proof -
  have "state_io_rel (effect settled benign) (authentication_image E e)" by (intro eff)
  then have "settled (exec (authentication_image E e) s) = settled s" by (rule effect_keeps)
  then show "bmc_active_object (exec (authentication_image E e) s) = bmc_active_object s"
    "pch_active_object (exec (authentication_image E e) s) = pch_active_object s" by (rule settledD)+
qed

lemma platform_state_keeps:
  "bmc_active_object (exec (SetPlatformState E p) s) = bmc_active_object s"
  "pch_active_object (exec (SetPlatformState E p) s) = pch_active_object s"
proof -
  have "state_io_rel (effect settled benign) (SetPlatformState E p)" by (intro eff)
  then have "settled (exec (SetPlatformState E p) s) = settled s" by (rule effect_keeps)
  then show "bmc_active_object (exec (SetPlatformState E p) s) = bmc_active_object s"
    "pch_active_object (exec (SetPlatformState E p) s) = pch_active_object s" by (rule settledD)+
qed

lemma afm_verify_keeps:
  assumes "e \<noteq> BMC_EVENT" and "e \<noteq> PCH_EVENT"
  shows "bmc_active_object (exec (verify_image E e op flash) s) = bmc_active_object s"
    "pch_active_object (exec (verify_image E e op flash) s) = pch_active_object s"
  using assms by (simp_all add: verify_image_def case_prod_beta Let_def auth_keeps)

lemma for_each_vet: "(\<And>x. curve.kept (f x)) \<Longrightarrow> curve.kept (for_each xs f)"
  by (rule eff.keeps_for_each)

lemma small_steps_vet:
  "curve.kept (SetPlatformState E p)"
  "curve.kept (GetUfmStatusValue E)"
  "curve.kept (read_update_status E)"
  unfolding SetPlatformState_def SetFPLEDState_def GetUfmStatusValue_def read_ufm_flash_status_def read_update_status_def
    MBX_REG_GETTER_def led_set_def Let_def
  by (intro curve.vet_intros vet for_each_vet; simp)+

text \<open>Both images of a host, the recovery image first: their statuses say what they are.\<close>

definition verify_host :: "env \<Rightarrow> u8 \<Rightarrow> (world, unit) state" where
  "verify_host E d = do {
     verify_image E (host_event d) VERIFY_BACKUP SECONDARY_FLASH_REGION;
     verify_image E (host_event d) VERIFY_ACTIVE PRIMARY_FLASH_REGION
   }"

fun host_object :: "u8 \<Rightarrow> world \<Rightarrow> ao_data" where
  "host_object d s = (if d = BMC_SPI then bmc_active_object s else pch_active_object s)"

lemma host_object_upd_ao [simp]: "host_object d (upd_ao (host_ao d) f s) = f (host_object d s)"
  by simp

lemma verify_host_sound:
  assumes host: "host_flash E H" and cr: "crypto_ok E H sha ecdsa" and prov: "provision_ok m0 rsize E"
    and d: "d = BMC_SPI \<or> d = PCH_SPI" and r: "ready m0 u s"
  defines "t \<equiv> exec (verify_host E d) s"
  assumes ok: "ActiveImageStatus (host_object d t) \<noteq> 1" "RecoveryImageStatus (host_object d t) \<noteq> 1"
  shows "trusted_host sha ecdsa E H u d" and "ready m0 u t"
proof -
  define a1 where "a1 = result (authentication_image E (request VERIFY_BACKUP d SECONDARY_FLASH_REGION)) s"
  define e1 where "e1 = exec (authentication_image E (request VERIFY_BACKUP d SECONDARY_FLASH_REGION)) s"
  define s1 where "s1 = upd_ao (host_ao d) (RecoveryImageStatus_update (\<lambda>_. image_status a1)) e1"
  define a2 where "a2 = result (authentication_image E (request VERIFY_ACTIVE d PRIMARY_FLASH_REGION)) s1"
  define e2 where "e2 = exec (authentication_image E (request VERIFY_ACTIVE d PRIMARY_FLASH_REGION)) s1"
  have "exec (verify_image E (host_event d) VERIFY_BACKUP SECONDARY_FLASH_REGION) s = s1"
    unfolding exec_verify_host s1_def a1_def e1_def by simp
  then have t: "t = upd_ao (host_ao d) (ActiveImageStatus_update (\<lambda>_. image_status a2)) e2"
    unfolding t_def verify_host_def exec_bind exec_verify_host a2_def e2_def by simp
  have "host_object d e2 = host_object d s1" unfolding e2_def by (simp add: auth_keeps)
  then have "ActiveImageStatus (host_object d t) = image_status a2" "RecoveryImageStatus (host_object d t) = image_status a1"
    unfolding t s1_def host_object_upd_ao by simp_all
  then have a: "a1 = Success" "a2 = Success" using ok by (auto simp: image_status_def split: if_splits)
  have v1: "trusted_capsule sha ecdsa E (H d) u (recovery_address u d)" "ready m0 u e1"
    using host_verified(2) [OF host cr prov d r, of VERIFY_BACKUP] a(1) unfolding a1_def e1_def by blast+
  then have "ready m0 u s1" by (simp only: s1_def ready_upd_ao)
  from host_verified(1) [OF host cr prov d this, of VERIFY_ACTIVE]
  have v2: "trusted_manifest sha ecdsa E (H d) u (pfm_address u d)" "ready m0 u e2"
    using a(2) unfolding a2_def e2_def by blast+
  show "trusted_host sha ecdsa E H u d" using v1(1) v2(1) by (simp add: trusted_host_def)
  show "ready m0 u t" using v2(2) by (simp only: t ready_upd_ao)
qed

lemma verify_host_other:
  "d = BMC_SPI \<Longrightarrow> pch_active_object (exec (verify_host E d) s) = pch_active_object s"
  "d = PCH_SPI \<Longrightarrow> bmc_active_object (exec (verify_host E d) s) = bmc_active_object s"
  by (simp_all add: verify_host_def exec_verify_host [where d = BMC_SPI, simplified]
      exec_verify_host [where d = PCH_SPI, simplified] case_prod_beta auth_keeps)

lemma verify_boot_hosts:
  fixes E :: env and s :: world
  assumes "r AND BmcOnlyReset = 0" and "r AND PchOnlyReset = 0"
  defines "t \<equiv> exec (verify_host E PCH_SPI) (exec (SetPlatformState E PCH_FLASH_AUTH)
      (exec (verify_host E BMC_SPI) (exec (SetPlatformState E BMC_FLASH_AUTH) s)))"
  shows "bmc_active_object (exec (verify_boot_images E r) s) = bmc_active_object t"
    and "pch_active_object (exec (verify_boot_images E r) s) = pch_active_object t"
  using assms(1,2)
  by (simp_all add: t_def verify_boot_images_def verify_host_def Let_def case_prod_beta afm_verify_keeps)

lemma record_keeps_status:
  "ActiveImageStatus (bmc_active_object (exec (record_verification E) s)) = ActiveImageStatus (bmc_active_object s)"
  "RecoveryImageStatus (bmc_active_object (exec (record_verification E) s)) = RecoveryImageStatus (bmc_active_object s)"
  "ActiveImageStatus (pch_active_object (exec (record_verification E) s)) = ActiveImageStatus (pch_active_object s)"
  "RecoveryImageStatus (pch_active_object (exec (record_verification E) s)) = RecoveryImageStatus (pch_active_object s)"
proof -
  have log: "settled (exec (log_auth_failure E a c1 c2 c3 c4) t) = settled t" for a c1 c2 c3 c4 t
  proof (rule effect_keeps)
    show "state_io_rel (effect settled benign) (log_auth_failure E a c1 c2 c3 c4)"
      unfolding log_auth_failure_def by (intro verifies.eff_intros eff)
  qed
  note keep = settledD(4,5) [OF log]
  show "ActiveImageStatus (bmc_active_object (exec (record_verification E) s)) = ActiveImageStatus (bmc_active_object s)"
    "RecoveryImageStatus (bmc_active_object (exec (record_verification E) s)) = RecoveryImageStatus (bmc_active_object s)"
    "ActiveImageStatus (pch_active_object (exec (record_verification E) s)) = ActiveImageStatus (pch_active_object s)"
    "RecoveryImageStatus (pch_active_object (exec (record_verification E) s)) = RecoveryImageStatus (pch_active_object s)"
    by (simp_all add: record_verification_def case_prod_beta keep lift_restriction_def)
qed

lemma verify_boot_sound:
  assumes host: "host_flash E H" and cr: "crypto_ok E H sha ecdsa" and prov: "provision_ok m0 rsize E"
    and r: "ready m0 u s" and cold: "p AND BmcOnlyReset = 0" "p AND PchOnlyReset = 0"
    and ok: "\<not> some_image_failed E (exec (record_verification E) (exec (verify_boot_images E p) s))"
  shows "trusted_host sha ecdsa E H u BMC_SPI \<and> trusted_host sha ecdsa E H u PCH_SPI"
proof -
  define s1 where "s1 = exec (SetPlatformState E BMC_FLASH_AUTH) s"
  define s2 where "s2 = exec (verify_host E BMC_SPI) s1"
  define s3 where "s3 = exec (SetPlatformState E PCH_FLASH_AUTH) s2"
  define s4 where "s4 = exec (verify_host E PCH_SPI) s3"
  have same: "bmc_active_object (exec (verify_boot_images E p) s) = bmc_active_object s4"
    "pch_active_object (exec (verify_boot_images E p) s) = pch_active_object s4"
    using verify_boot_hosts [OF cold] by (simp_all add: s1_def s2_def s3_def s4_def)
  have bmc: "bmc_active_object s4 = bmc_active_object s2"
    by (simp add: s4_def s3_def verify_host_other platform_state_keeps)
  have fine: "ActiveImageStatus (host_object BMC_SPI s2) \<noteq> 1" "RecoveryImageStatus (host_object BMC_SPI s2) \<noteq> 1"
    "ActiveImageStatus (host_object PCH_SPI s4) \<noteq> 1" "RecoveryImageStatus (host_object PCH_SPI s4) \<noteq> 1"
    using ok by (auto simp: some_image_failed_def record_keeps_status same bmc)
  have "ready m0 u s1" unfolding s1_def by (intro ready_kept small_steps_vet r)
  note b = verify_host_sound [OF host cr prov _ this fine(1,2) [unfolded s2_def]]
  have "ready m0 u s3" unfolding s3_def s2_def by (intro ready_kept small_steps_vet b(2)) simp
  note q = verify_host_sound [OF host cr prov _ this fine(3,4) [unfolded s4_def]]
  show ?thesis using b(1) q(1) by simp
qed

lemma image_verification_trust:
  assumes host: "host_flash E H" and cr: "crypto_ok E H sha ecdsa" and prov: "provision_ok m0 rsize E"
    and heap: "heap_ok E" and lms: "\<not> lms_curve (manifest s)" and first: "ev (event_ctx s) \<noteq> RECOVERY_DONE"
    and cold: "bit8_2 (event_ctx s) AND BmcOnlyReset = 0" "bit8_2 (event_ctx s) AND PchOnlyReset = 0"
    and good: "aspeed_sm_fifo (exec (handle_image_verification E) s) = aspeed_sm_fifo s @ [x]" "ev x = VERIFY_DONE"
  shows "trusted_host sha ecdsa E H (ufm_of m0 s) BMC_SPI \<and> trusted_host sha ecdsa E H (ufm_of m0 s) PCH_SPI"
proof -
  define s1 where "s1 = exec (GetUfmStatusValue E) s"
  define s2 where "s2 = exec (has_pending_update E (bit8_2 (event_ctx s))) s1"
  define s3 where "s3 = exec (verify_boot_images E (bit8_2 (event_ctx s))) s2"
  define s4 where "s4 = exec (record_verification E) s3"
  have ufm: "state_io_rel (effect settled benign) (GetUfmStatusValue E)" by (intro eff)
  have pending: "state_io_rel (effect settled benign) (has_pending_update E p)" for p by (intro eff)
  have q: "aspeed_sm_fifo s1 = aspeed_sm_fifo s" "aspeed_sm_fifo s2 = aspeed_sm_fifo s" "aspeed_sm_fifo s4 = aspeed_sm_fifo s"
    "event_ctx s4 = event_ctx s"
    by (simp_all add: s1_def s2_def s3_def s4_def queue_settled [OF ufm] queue_settled [OF pending] settled_event [OF ufm]
        settled_event [OF pending] verify_boot_images_quiet record_verification_quiet)
  have none: "result (has_pending_update E (bit8_2 (event_ctx s))) s1 = None" and done': "verification_event E s4 = VERIFY_DONE"
    using good
    by (auto simp: handle_image_verification_def case_prod_beta s1_def [symmetric] s2_def [symmetric] s3_def [symmetric]
        s4_def [symmetric] queue_event [OF heap] q split: if_splits option.splits)
  then have fine: "\<not> some_image_failed E s4" using first by (auto simp: verification_event_def q split: if_splits)
  have "s2 = exec (read_update_status E) s1"
    using none by (simp add: s2_def has_pending_update_def case_prod_beta split: option.splits prod.splits)
  moreover have "ready m0 (ufm_of m0 s) s" using lms by (simp add: ready_def same_trust_def)
  ultimately have "ready m0 (ufm_of m0 s) s2"
    unfolding s1_def by (metis ready_kept small_steps_vet(2,3))
  from verify_boot_sound [OF host cr prov this cold] show ?thesis
    using fine unfolding s4_def s3_def by blast
qed

end
