(* ===== verification/Pfr_Assurance.thy ===== *)
theory Pfr_Assurance
  imports Pfr_Verified
begin

text \<open>
  What a boot that reports \<open>VERIFY_DONE\<close> has established about both host flashes, stated for an
  arbitrary platform with a flash, engines and a provisioning area that work, and a platform on
  which it happens: a flash given by the words of a signed capsule and manifest, with the
  verification of \<open>AspeedStateMachine.c\<close> evaluated on it down to the queued event.
\<close>

definition word_mem :: "u8 \<Rightarrow> (nat \<times> u32) list \<Rightarrow> nat \<Rightarrow> u8" where
  "word_mem z ws i = (case map_of ws (4 * (i div 4)) of Some w \<Rightarrow> u32_bytes w ! (i mod 4) | None \<Rightarrow> z)"

lemma word_mem_word:
  assumes "k mod 4 = 0"
  shows "u32_of_bytes (mem_slice (word_mem z ws) k 4) =
    (case map_of ws k of Some w \<Rightarrow> w | None \<Rightarrow> u32_of_bytes (replicate 4 z))"
proof -
  obtain q where k: "k = 4 * q" using assms by (auto elim: dvdE simp: mod_eq_0_iff_dvd)
  have at: "word_mem z ws (4 * q + r) = (case map_of ws (4 * q) of Some w \<Rightarrow> u32_bytes w ! r | None \<Rightarrow> z)"
    if "r < 4" for r
    using that by (simp add: word_mem_def split: option.split)
  have "mem_slice (word_mem z ws) k 4 = map (\<lambda>r. word_mem z ws (4 * q + r)) [0 ..< 4]"
    by (simp add: mem_slice_def k upt_rec numeral_eq_Suc)
  also have "\<dots> = (case map_of ws (4 * q) of Some w \<Rightarrow> u32_bytes w | None \<Rightarrow> replicate 4 z)"
    by (auto simp: at intro!: nth_equalityI split: option.split)
  finally show ?thesis
    using u32_of_u32_bytes [of _ "[]"] by (simp add: k split: option.split)
qed

lemma four_bytes: "replicate 4 z = [z, z, z, z]"
  by (simp add: numeral_eq_Suc)

lemma fill_word [simp]: "u32_of_bytes (replicate 4 0) = 0" "u32_of_bytes (replicate 4 0xff) = 0xffffffff"
  by (simp_all add: u32_of_bytes_def four_bytes)

text \<open>The words of a signed image at \<open>a\<close>: block 0, the root key, the signing key and its signature.\<close>

definition signed_words :: "nat \<Rightarrow> u32 \<Rightarrow> (nat \<times> u32) list" where
  "signed_words a pctype =
     [(a, BLOCK0TAG), (a + 4, 128), (a + 8, pctype)] @
     map (\<lambda>i. (a + i, 0xffffffff)) [16, 20, 24, 28, 32, 36, 40, 44] @
     [(a + 128, BLOCK1TAG), (a + 144, BLOCK1_ROOTENTRY_TAG), (a + 148, PUBLIC_SECP256_TAG), (a + 152, 0xffffffff),
      (a + 156, 0xffffffff), (a + 276, BLOCK1CSKTAG), (a + 280, PUBLIC_SECP256_TAG), (a + 284, 0xffffffff),
      (a + 408, SIGNATURE_SECP256_TAG), (a + 508, BLOCK1_BLOCK0ENTRYTAG), (a + 512, SIGNATURE_SECP256_TAG)]"

text \<open>A capsule at 0 with its manifest at 1024, which is the active one too: one region with its hash.\<close>

definition boot_words :: "(nat \<times> u32) list" where
  "boot_words = signed_words 0 PFR_BMC_UPDATE_CAPSULE @ signed_words 1024 PFR_BMC_PFM @
     [(2048, PFMTAG), (2076, 80), (2080, 0x00010001)] @ map (\<lambda>i. (i, 0xffffffff)) [2096, 2100, 2104, 2108, 2112, 2116, 2120, 2124]"

definition boot_flash :: "nat \<Rightarrow> u8" where
  "boot_flash = word_mem 0 boot_words"

definition boot_ufm :: "nat \<Rightarrow> u8" where
  "boot_ufm = word_mem 0xff [(0, 0), (0x34, 1024), (0x38, 0), (0x40, 1024), (0x44, 0)]"

definition boot_rot :: flash_mem where
  "boot_rot d = (if d = ROT_INTERNAL_INTEL_STATE then boot_ufm else (\<lambda>_. 0xff))"

definition boot_env :: env where
  "boot_env = ref_env\<lparr>CONFIG_PFR_SPDM_ATTESTATION := False, reply_of := (\<lambda>tr c. case c of
      Fl (HostFlashRead d a n) \<Rightarrow> (0, mem_slice boot_flash (unat a) (unat n))
    | Fl (FlashHashContents d a n t len) \<Rightarrow> (0, ones_sha t [])
    | Fl (RotFlashRead d a n) \<Rightarrow> (0, mem_slice (rot_mem boot_rot tr d) (unat a) (unat n))
    | Crypto (CalculateSha t bs) \<Rightarrow> (0, ones_sha t [])
    | Crypto c \<Rightarrow> (0, [])
    | _ \<Rightarrow> ref_reply tr c)\<rparr>"

lemma boot_env_laws:
  "host_flash boot_env (\<lambda>_. boot_flash)"
  "crypto_ok boot_env (\<lambda>_. boot_flash) ones_sha (\<lambda>_ _ _ _ _. True)"
  "provision_ok boot_rot (\<lambda>_. 65536) boot_env"
  "heap_ok boot_env"
  by (simp_all add: host_flash_def crypto_ok_def boot_env_def ones_sha_def provision_ok_def nor_flash_def heap_ok_def)

abbreviation any_sig :: sig_check where "any_sig \<equiv> \<lambda>_ _ _ _ _. True"

lemmas boot_words_list = boot_words_def [unfolded signed_words_def, simplified]

lemma boot_flash_words:
  "u32_of_bytes (mem_slice boot_flash 0 4) = BLOCK0TAG"
  "u32_of_bytes (mem_slice boot_flash 4 4) = 128"
  "u32_of_bytes (mem_slice boot_flash 8 4) = PFR_BMC_UPDATE_CAPSULE"
  "u32_of_bytes (mem_slice boot_flash 128 4) = BLOCK1TAG"
  "u32_of_bytes (mem_slice boot_flash 144 4) = BLOCK1_ROOTENTRY_TAG"
  "u32_of_bytes (mem_slice boot_flash 148 4) = PUBLIC_SECP256_TAG"
  "u32_of_bytes (mem_slice boot_flash 152 4) = 0xffffffff"
  "u32_of_bytes (mem_slice boot_flash 156 4) = 0xffffffff"
  "u32_of_bytes (mem_slice boot_flash 276 4) = BLOCK1CSKTAG"
  "u32_of_bytes (mem_slice boot_flash 280 4) = PUBLIC_SECP256_TAG"
  "u32_of_bytes (mem_slice boot_flash 284 4) = 0xffffffff"
  "u32_of_bytes (mem_slice boot_flash 288 4) = 0"
  "u32_of_bytes (mem_slice boot_flash 408 4) = SIGNATURE_SECP256_TAG"
  "u32_of_bytes (mem_slice boot_flash 508 4) = BLOCK1_BLOCK0ENTRYTAG"
  "u32_of_bytes (mem_slice boot_flash 512 4) = SIGNATURE_SECP256_TAG"
  "u32_of_bytes (mem_slice boot_flash 1024 4) = BLOCK0TAG"
  "u32_of_bytes (mem_slice boot_flash 1028 4) = 128"
  "u32_of_bytes (mem_slice boot_flash 1032 4) = PFR_BMC_PFM"
  "u32_of_bytes (mem_slice boot_flash 1152 4) = BLOCK1TAG"
  "u32_of_bytes (mem_slice boot_flash 1168 4) = BLOCK1_ROOTENTRY_TAG"
  "u32_of_bytes (mem_slice boot_flash 1172 4) = PUBLIC_SECP256_TAG"
  "u32_of_bytes (mem_slice boot_flash 1176 4) = 0xffffffff"
  "u32_of_bytes (mem_slice boot_flash 1180 4) = 0xffffffff"
  "u32_of_bytes (mem_slice boot_flash 1300 4) = BLOCK1CSKTAG"
  "u32_of_bytes (mem_slice boot_flash 1304 4) = PUBLIC_SECP256_TAG"
  "u32_of_bytes (mem_slice boot_flash 1308 4) = 0xffffffff"
  "u32_of_bytes (mem_slice boot_flash 1312 4) = 0"
  "u32_of_bytes (mem_slice boot_flash 1432 4) = SIGNATURE_SECP256_TAG"
  "u32_of_bytes (mem_slice boot_flash 1532 4) = BLOCK1_BLOCK0ENTRYTAG"
  "u32_of_bytes (mem_slice boot_flash 1536 4) = SIGNATURE_SECP256_TAG"
  "u32_of_bytes (mem_slice boot_flash 2048 4) = PFMTAG"
  "u32_of_bytes (mem_slice boot_flash 2076 4) = 80"
  "u32_of_bytes (mem_slice boot_flash 2088 4) = 0"
  "u32_of_bytes (mem_slice boot_flash 2092 4) = 0"
  by (simp_all add: boot_flash_def word_mem_word boot_words_list fill_word)

lemma word_mem_fill:
  assumes "a mod 4 = 0" and "\<forall>k < n. case map_of ws (a + 4 * k) of None \<Rightarrow> x = z | Some w \<Rightarrow> \<forall>r < 4. u32_bytes w ! r = x"
  shows "list_all (\<lambda>b. b = x) (mem_slice (word_mem z ws) a (4 * n))"
proof -
  have "word_mem z ws i = x" if i: "a \<le> i" "i < a + 4 * n" for i
  proof -
    obtain q where q: "a = 4 * q" using assms(1) by (auto elim: dvdE simp: mod_eq_0_iff_dvd)
    define k where "k = i div 4 - q"
    have "q \<le> i div 4" "i div 4 < q + n" using i q by auto
    then have k: "k < n" "4 * (i div 4) = a + 4 * k" by (simp_all add: k_def q)
    then have "case map_of ws (a + 4 * k) of None \<Rightarrow> x = z | Some w \<Rightarrow> \<forall>r < 4. u32_bytes w ! r = x"
      using assms(2) by blast
    then show ?thesis by (auto simp: word_mem_def k(2) split: option.splits)
  qed
  then show ?thesis by (auto simp: list_all_iff mem_slice_def)
qed

lemma less_8: "(\<forall>k < 8. P k) \<longleftrightarrow> P 0 \<and> P 1 \<and> P 2 \<and> P 3 \<and> P 4 \<and> P 5 \<and> P 6 \<and> P (7 :: nat)"
  by (simp add: numeral_eq_Suc All_less_Suc) blast

lemma less_5: "(\<forall>k < 5. P k) \<longleftrightarrow> P 0 \<and> P 1 \<and> P 2 \<and> P 3 \<and> P (4 :: nat)"
  by (simp add: numeral_eq_Suc All_less_Suc) blast

lemma ff_bytes: "\<forall>r < 4. u32_bytes 0xffffffff ! r = 0xff"
proof (intro allI impI)
  fix r :: nat assume "r < 4"
  then have "r = 0 \<or> r = 1 \<or> r = 2 \<or> r = 3" by auto
  then show "u32_bytes 0xffffffff ! r = 0xff" by (auto simp: u32_bytes_def)
qed

lemma boot_flash_bytes:
  "list_all (\<lambda>b. b = 0) (mem_slice boot_flash 96 32)" "list_all (\<lambda>b. b = 0) (mem_slice boot_flash 1120 32)"
  "list_all (\<lambda>b. b = 0) (mem_slice boot_flash 388 20)" "list_all (\<lambda>b. b = 0) (mem_slice boot_flash 1412 20)"
  "list_all (\<lambda>b. b = 0xff) (mem_slice boot_flash 16 32)" "list_all (\<lambda>b. b = 0xff) (mem_slice boot_flash 1040 32)"
  "list_all (\<lambda>b. b = 0xff) (mem_slice boot_flash 2096 32)" "list_all (\<lambda>b. b = 0xff) (mem_slice boot_ufm 4 32)"
  using word_mem_fill [of _ 8] word_mem_fill [of _ 5] ff_bytes
  by (simp_all add: boot_flash_def boot_ufm_def boot_words_list less_8 less_5)

lemma ones_bytes: "list_all (\<lambda>b. b = 0xff) (mem_slice f a 32) \<Longrightarrow> mem_slice f a 32 = ones_sha HASH_TYPE_SHA256 bs"
  unfolding ones_sha_def by (auto simp: list_all_iff intro!: replicate_eqI)

lemma boot_signed:
  assumes "a = 0 \<or> a = 1024"
  shows "authentic_image ones_sha any_sig boot_env boot_flash boot_ufm a"
proof -
  let ?f = boot_flash
  let ?root = "rd_at ?f a 128 148" and ?csk = "rd_at ?f a 276 232"
  note at = le32_rd_at field_bytes_rd_at boot_flash_words
  have pc: "u32_of_bytes (rd_at ?f a 8 4) = (if a = 0 then PFR_BMC_UPDATE_CAPSULE else PFR_BMC_PFM)"
    and key: "le32 0 (rd_at ?f a 288 4) = 0"
    using assms by (elim disjE; simp add: rd_at_def at le32_field_bytes field_bytes_def)+
  have b0: "block0_ok (rd_at ?f a 0 128)"
    using assms boot_flash_bytes(1,2) by (elim disjE) (simp_all add: block0_ok_def at)
  have dg: "field_bytes 16 32 (rd_at ?f a 0 128) = ones_sha HASH_TYPE_SHA256 bs" for bs
    using assms boot_flash_bytes(5,6) [THEN ones_bytes] by (elim disjE) (simp_all add: field_bytes_rd_at)
  have "root_trusted ones_sha boot_ufm ?root secp256r1"
    using assms ones_bytes [OF boot_flash_bytes(8)]
    by (elim disjE) (simp_all add: root_trusted_def at key_curve_def curve_hash_def ones_sha_def)
  moreover have "chain_signed ones_sha any_sig boot_env ?f a False secp256r1"
    using assms pc boot_flash_bytes(3,4)
    by (elim disjE) (simp_all add: chain_signed_def csk_signed_def block0_signed_def signature_curve_def key_curve_def
        Let_def at sign_bit_verify_def)
  moreover have "content_hash_ok ones_sha ?f a secp256r1"
    using b0 dg by (simp add: content_hash_ok_def block0_digest_def Let_def ones_sha_def)
  moreover have "csk_allowed boot_env ?f boot_ufm a (u32_of_bytes (rd_at ?f a 8 4))"
    using assms pc key by (elim disjE) (simp_all add: csk_allowed_def get_cancellation_policy_offset_def
        key_allowed_def policy_data_def policy_word_def policy_bit_def boot_ufm_def word_mem_word)
  moreover have "\<not> is_cancellation (u32_of_bytes (rd_at ?f a 8 4))"
    by (simp add: pc is_cancellation_def)
  ultimately show ?thesis by (simp add: authentic_image_def Let_def)
qed

lemma boot_verify:
  assumes img: "at_image d boot_rot boot_ufm s" and a: "m_address (manifest s) = 0 \<or> m_address (manifest s) = 1024"
  shows "result (manifest_verify boot_env) s = Success"
proof -
  have i: "host_image d s" "\<not> lms_curve (manifest s)" "same_trust boot_ufm (ufm_of boot_rot s)"
    using img by (simp_all add: at_image_def)
  have "authentic_image ones_sha any_sig boot_env boot_flash boot_ufm (m_address (manifest s))"
    using a boot_signed by blast
  then show ?thesis
    using manifest_verify_authentic [OF boot_env_laws(1-3) i(1,2)]
    by (simp add: manifest_verify_def authentic_image_trust [OF i(3)])
qed

lemmas boot_success = manifest_verify_success [OF boot_env_laws(1-3)]

lemma boot_addresses:
  "recovery_address boot_ufm d = 0" "d = BMC_SPI \<or> d = PCH_SPI \<Longrightarrow> pfm_address boot_ufm d = 1024"
  by (auto simp: recovery_address_def pfm_address_def pfm_offset_def boot_ufm_def word_mem_word)

lemma boot_header: "le32 0 (mem_slice boot_flash 2048 32) = PFMTAG" "le32 28 (mem_slice boot_flash 2048 32) = 80"
  "boot_flash 2052 = 0"
proof -
  show "le32 0 (mem_slice boot_flash 2048 32) = PFMTAG" "le32 28 (mem_slice boot_flash 2048 32) = 80"
    using le32_rd_at [of 0 32 boot_flash 2048 0] le32_rd_at [of 28 32 boot_flash 2048 0]
    by (simp_all add: rd_at_def boot_flash_words)
  show "boot_flash 2052 = 0" by (simp add: boot_flash_def word_mem_def boot_words_list)
qed

lemma boot_recovery:
  assumes img: "at_image d boot_rot boot_ufm s" and dev: "image_type (manifest s) = BMC_TYPE \<or> image_type (manifest s) = PCH_TYPE"
  shows "result (recovery_verify boot_env) s = Success"
proof -
  obtain s2 where stages: "run (recovery_verify boot_env) s = run (recovery_stages boot_env 0) s2"
    and i2: "at_image d boot_rot boot_ufm s2" and a2: "m_address (manifest s2) = 0"
    using recovery_verify_stages [OF boot_env_laws(3) img dev] unfolding boot_addresses by metis
  define s3 where "s3 = exec (manifest_verify boot_env) s2"
  define s4 where "s4 = s3\<lparr>manifest := (manifest s3)\<lparr>m_address := 0 + 1024\<rparr>\<rparr>"
  define s5 where "s5 = exec (manifest_verify boot_env) s4"
  have mv: "result (manifest_verify boot_env) s2 = Success" using boot_verify [OF i2] a2 by simp
  note v = boot_success [OF i2 mv]
  have "at_image d boot_rot boot_ufm s3" "m_address (manifest s3) = 0" unfolding s3_def using v a2 by simp_all
  note next' = behind_signature [OF this, folded s4_def]
  have mv4: "result (manifest_verify boot_env) s4 = Success" using boot_verify [OF next'(2)] next'(3) by simp
  have i5: "at_image d boot_rot boot_ufm s5" unfolding s5_def by (rule boot_success(2) [OF next'(2) mv4])
  have "result (get_recover_pfm_version_details boot_env 0) s5 = Success"
    using at_image_read [OF boot_env_laws(1) i5, of 2048 32] sig_block_at_image [OF i5] boot_header
    by (simp add: get_recover_pfm_version_details_def case_prod_beta raise_svn_policy_def)
  then show ?thesis
    using stages mv mv4 next'(1)
    by (simp add: recovery_stages_def case_prod_beta s3_def [symmetric] s5_def [symmetric])
qed

lemma boot_region: "region_ok ones_sha boot_flash 2080 (def_at boot_flash 2080)"
  "region_size (def_at boot_flash 2080) = 48" "def_type (def_at boot_flash 2080) = SPI_REGION"
proof -
  have b: "boot_flash 2080 = 1" "boot_flash 2082 = 1"
    by (simp_all add: boot_flash_def word_mem_def boot_words_list u32_bytes_def)
  then show "region_size (def_at boot_flash 2080) = 48" "def_type (def_at boot_flash 2080) = SPI_REGION"
    by (simp_all add: region_size_def)
  show "region_ok ones_sha boot_flash 2080 (def_at boot_flash 2080)"
    using b ones_bytes [OF boot_flash_bytes(7)] by (simp add: region_ok_def Let_def)
qed

lemma boot_active:
  assumes img: "at_image d boot_rot boot_ufm s" and d: "d = BMC_SPI \<or> d = PCH_SPI"
    and dev: "image_type (manifest s) = BMC_TYPE \<or> image_type (manifest s) = PCH_TYPE"
  shows "result (pfr_active_verify boot_env) s = Success"
proof -
  obtain s2 where stages: "run (pfr_active_verify boot_env) s = run (active_stages boot_env 1024) s2"
    and i2: "at_image d boot_rot boot_ufm s2" and a2: "m_address (manifest s2) = 1024"
    using active_verify_stages [OF boot_env_laws(3) img dev] unfolding boot_addresses(2) [OF d] by metis
  define s3 where "s3 = exec (manifest_verify boot_env) s2"
  define s4 where "s4 = exec (get_active_pfm_version_details boot_env 1024) s3"
  have mv: "result (manifest_verify boot_env) s2 = Success" using boot_verify [OF i2] a2 by simp
  note v = boot_success [OF i2 mv]
  have i3: "at_image d boot_rot boot_ufm s3" unfolding s3_def by (rule v(2))
  have i4: "at_image d boot_rot boot_ufm s4" unfolding s4_def by (intro at_image_kept vet i3)
  have a4: "m_address (manifest s4) = 1024"
    using effect_keeps [OF place.version_vet, of boot_env 1024 s3] v(3) a2 by (simp add: s4_def s3_def image_place_def)
  have vd: "result (get_active_pfm_version_details boot_env 1024) s3 = Success"
    using at_image_read [OF boot_env_laws(1) i3, of 2048 32] sig_block_at_image [OF i3] boot_header
    by (simp add: get_active_pfm_version_details_def case_prod_beta)
  have h: "rd_at boot_flash 1024 1024 32 = mem_slice boot_flash 2048 32" by (simp add: rd_at_def)
  obtain off s5 where i5: "at_image d boot_rot boot_ufm s5"
    and walk: "run (pfm_spi_region_verification boot_env) s4 =
      run (manifest_walk boot_env 1024 off (mem_slice boot_flash 2048 32)) s5"
    using pfm_stages [OF boot_env_laws(1) i4] unfolding a4 h by metis
  define s6 where "s6 = exec (image_read boot_env 2080 16) s5"
  have rd: "result (image_read boot_env 2080 16) s5 = (0, def_at boot_flash 2080)" and i6: "at_image d boot_rot boot_ufm s6"
    using at_image_read [OF boot_env_laws(1) i5, of 2080 16] by (simp_all add: s6_def)
  have "result (check_spi_region boot_env 2080 (def_at boot_flash 2080)) s6 = Some 2128"
    using check_spi_region_result [OF boot_env_laws(1,2) i6, of 2080 "def_at boot_flash 2080"] boot_region by simp
  then have "result (pfm_round boot_env 1024 off 2128 (2080, False)) s5 = Break (2128, False)"
    using rd boot_region(3) by (simp add: pfm_round_def case_prod_beta s6_def [symmetric])
  then have "result (c_while (Suc n) (\<lambda>_. True) (pfm_round boot_env 1024 off 2128) (2080, False)) s5 = Break (2128, False)" for n
    by (simp add: case_prod_beta)
  from this [of 2128] have "result (c_while 2129 (\<lambda>_. True) (pfm_round boot_env 1024 off 2128) (2080, False)) s5 = Break (2128, False)"
    by (simp del: c_while.simps)
  then have "result (manifest_walk boot_env 1024 off (mem_slice boot_flash 2048 32)) s5 = Success"
    using boot_header by (simp add: manifest_walk_def while_do_def after_walk_def case_prod_beta del: c_while.simps)
  then show ?thesis
    using stages mv vd walk by (simp add: active_stages_def case_prod_beta s3_def [symmetric] s4_def [symmetric])
qed

lemma boot_host:
  assumes d: "d = BMC_SPI \<or> d = PCH_SPI" and r: "ready boot_rot boot_ufm s"
  defines "t \<equiv> exec (verify_host boot_env d) s"
  shows "ActiveImageStatus (host_object d t) = 0" "RecoveryImageStatus (host_object d t) = 0" "ready boot_rot boot_ufm t"
proof -
  let ?auth = "\<lambda>op flash. authentication_image boot_env (request op d flash)"
  have ok: "result (?auth op flash) s' = Success"
    if r': "ready boot_rot boot_ufm s'" and op: "op = VERIFY_ACTIVE \<or> op = VERIFY_BACKUP" for s' op flash
  proof -
    define v where "v = (if op = VERIFY_ACTIVE then pfr_active_verify else recovery_verify)"
    have "op = VERIFY_ACTIVE \<and> v = pfr_active_verify \<or> op = VERIFY_BACKUP \<and> v = recovery_verify"
      using op by (auto simp: v_def)
    then obtain s'' where s'': "run (?auth op flash) s' = run (v boot_env) s''"
      "at_image d boot_rot boot_ufm s''" "image_type (manifest s'') = ucast d"
      using host_request [OF d r'] by metis
    then have "image_type (manifest s'') = BMC_TYPE \<or> image_type (manifest s'') = PCH_TYPE" using d by auto
    then show ?thesis
      using s'' boot_active [OF s''(2) d] boot_recovery [OF s''(2)] by (simp add: v_def)
  qed
  define e1 where "e1 = exec (?auth VERIFY_BACKUP SECONDARY_FLASH_REGION) s"
  define s1 where "s1 = upd_ao (host_ao d) (RecoveryImageStatus_update (\<lambda>_. 0)) e1"
  define e2 where "e2 = exec (?auth VERIFY_ACTIVE PRIMARY_FLASH_REGION) s1"
  have "ready boot_rot boot_ufm e1"
    using host_verified(2) [OF boot_env_laws(1-3) d r ok [OF r], of VERIFY_BACKUP] by (simp add: e1_def)
  then have r1: "ready boot_rot boot_ufm s1" by (simp only: s1_def ready_upd_ao)
  have a: "result (?auth VERIFY_BACKUP SECONDARY_FLASH_REGION) s = Success"
    "result (?auth VERIFY_ACTIVE PRIMARY_FLASH_REGION) s1 = Success" using ok r r1 by simp_all
  have vb: "exec (verify_image boot_env (host_event d) VERIFY_BACKUP SECONDARY_FLASH_REGION) s = s1"
    unfolding exec_verify_host s1_def e1_def a(1) by (simp add: image_status_def del: host_event.simps host_ao.simps)
  have t: "t = upd_ao (host_ao d) (ActiveImageStatus_update (\<lambda>_. 0)) e2"
    unfolding t_def verify_host_def exec_bind vb
    unfolding exec_verify_host e2_def
    by (simp add: a(2) image_status_def del: host_event.simps host_ao.simps)
  have "host_object d e2 = host_object d s1" unfolding e2_def by (simp add: auth_keeps)
  then show ok': "ActiveImageStatus (host_object d t) = 0" "RecoveryImageStatus (host_object d t) = 0"
    unfolding t s1_def host_object_upd_ao by simp_all
  then show "ready boot_rot boot_ufm t"
    using verify_host_sound(2) [OF boot_env_laws(1-3) d r] unfolding t_def by simp
qed

lemma boot_mailbox: "mailbox boot_env (\<lambda>_. 0) UNIV"
  by (simp add: mailbox_def boot_env_def)

lemma boot_verdict:
  "aspeed_sm_fifo (exec (handle_image_verification boot_env) boot_world) =
    aspeed_sm_fifo boot_world @ [mk_event VERIFY_DONE NULL_data]"
proof -
  define s1 where "s1 = exec (GetUfmStatusValue boot_env) boot_world"
  define s2 where "s2 = exec (has_pending_update boot_env 0) s1"
  define t1 where "t1 = exec (SetPlatformState boot_env BMC_FLASH_AUTH) s2"
  define t2 where "t2 = exec (verify_host boot_env BMC_SPI) t1"
  define t3 where "t3 = exec (SetPlatformState boot_env PCH_FLASH_AUTH) t2"
  define t4 where "t4 = exec (verify_host boot_env PCH_SPI) t3"
  define s3 where "s3 = exec (verify_boot_images boot_env 0) s2"
  define s4 where "s4 = exec (record_verification boot_env) s3"
  have rot: "rot_mem boot_rot [] = boot_rot" by (simp add: rot_mem_def)
  have start: "trace boot_world = []" by (simp add: boot_world_def)
  have "flash_status_word boot_rot [] = 0"
    by (simp add: flash_status_word_def rot boot_rot_def boot_ufm_def word_mem_word)
  then have provisioned: "result (GetUfmStatusValue boot_env) boot_world AND UFM_PROVISIONED \<noteq> 0"
    using run_GetUfmStatusValue(1) [OF boot_env_laws(3) boot_mailbox, of boot_world]
    by (simp add: start ufm_status_byte_def CheckUfmStatus_def mbx_reg_def boot_env_def ref_env_def)
  have rot1: "rot_mem boot_rot (trace s1) = boot_rot"
    using run_GetUfmStatusValue(2) [OF boot_env_laws(3) boot_mailbox, of boot_world] by (simp add: s1_def start rot)
  have nor: "nor_flash boot_env boot_rot (\<lambda>_. 65536)" using boot_env_laws(3) by (simp add: provision_ok_def)
  have "result (read_update_status boot_env) s1 = (Success, cpld_status_of_bytes (mem_slice (\<lambda>_. 0xff) 0 19))"
    using status_ufm.rd_result [OF nor, of 0 19 s1] rot1
    by (simp add: read_update_status_def case_prod_beta boot_rot_def)
  moreover have "pending_update 0 (cpld_status_of_bytes (mem_slice (\<lambda>_. 0xff) 0 19)) = None"
    by (simp add: pending_update_def cpld_status_of_bytes_def)
  ultimately have none: "result (has_pending_update boot_env 0) s1 = None" "s2 = exec (read_update_status boot_env) s1"
    by (simp_all add: s2_def has_pending_update_def case_prod_beta)
  have "ready boot_rot boot_ufm boot_world"
    by (simp add: ready_def same_trust_def start rot boot_rot_def lms_curve_def boot_world_def)
  then have "ready boot_rot boot_ufm t1" unfolding t1_def none(2) s1_def by (intro ready_kept small_steps_vet)
  note b = boot_host [of BMC_SPI, OF _ this, folded t2_def]
  have "ready boot_rot boot_ufm t3" unfolding t3_def by (intro ready_kept small_steps_vet b(3)) simp
  note q = boot_host [of PCH_SPI, OF _ this, folded t4_def]
  have same: "bmc_active_object s3 = bmc_active_object t4" "pch_active_object s3 = pch_active_object t4"
    using verify_boot_hosts [of 0] by (simp_all add: s3_def t1_def t2_def t3_def t4_def)
  have "bmc_active_object t4 = bmc_active_object t2"
    by (simp add: t4_def t3_def verify_host_other platform_state_keeps)
  then have fine: "\<not> some_image_failed boot_env s4"
    using b(1,2) q(1,2) by (simp add: some_image_failed_def s4_def record_keeps_status same boot_env_def)
  have ufm: "state_io_rel (effect settled benign) (GetUfmStatusValue E)" for E by (intro eff)
  have pending: "state_io_rel (effect settled benign) (has_pending_update E p)" for E p by (intro eff)
  have ctx: "event_ctx s4 = event_ctx boot_world" and queue: "aspeed_sm_fifo s4 = aspeed_sm_fifo boot_world"
    by (simp_all add: s1_def s2_def s3_def s4_def queue_settled [OF ufm] queue_settled [OF pending] settled_event [OF ufm]
        settled_event [OF pending] verify_boot_images_quiet record_verification_quiet)
  have "verification_event boot_env s4 = VERIFY_DONE"
    using fine by (simp add: verification_event_def ctx boot_world_def)
  moreover have "bit8_2 (event_ctx boot_world) = 0" "data_ptr (event_ctx boot_world) = NULL_data"
    by (simp_all add: boot_world_def data_ptr_def)
  ultimately show ?thesis
    using provisioned none(1)
    by (simp add: handle_image_verification_def case_prod_beta s1_def [symmetric] s2_def [symmetric] s3_def [symmetric]
        s4_def [symmetric] queue_event [OF boot_env_laws(4)] queue)
qed



end
