(* ===== verification/Spdm_Buffer.thy ===== *)
theory Spdm_Buffer
  imports Pfr_Prelude
begin

text \<open>
  The message buffer of \<open>SPDM/SPDMBuffer.c\<close>: a heap block with a write and a read position.
  Every operation answers the C status (0, or -1 with the buffer as it was). The abstract view
  is the pair of byte lists written so far and still to be read. Sizes are naturals: a position
  plus the length of bytes that are in memory stays below the range of \<open>size_t\<close>.
\<close>

section \<open>The operations\<close>

record spdm_buffer =
  buf_size :: nat
  write_ptr :: nat
  read_ptr :: nat
  data :: "u8 list option"

text \<open>
  \<open>alloc\<close> is the answer of \<open>malloc\<close>: whether a block was found. A block of 0 bytes is not asked
  for.
\<close>

definition spdm_buffer_init :: "bool \<Rightarrow> nat \<Rightarrow> int \<times> spdm_buffer" where
  "spdm_buffer_init alloc n =
     (if n > 0 then
        (if alloc then (0, \<lparr>buf_size = n, write_ptr = 0, read_ptr = 0, data = Some (replicate n 0)\<rparr>)
         else (-1, \<lparr>buf_size = 0, write_ptr = 0, read_ptr = 0, data = None\<rparr>))
      else (0, \<lparr>buf_size = n, write_ptr = 0, read_ptr = 0, data = None\<rparr>))"

definition spdm_buffer_resize :: "bool \<Rightarrow> spdm_buffer \<Rightarrow> nat \<Rightarrow> int \<times> spdm_buffer" where
  "spdm_buffer_resize alloc b n =
     (if n = 0 \<or> n \<le> buf_size b then (-1, b)
      else if \<not> alloc then (-1, b)
      else (0, b\<lparr>buf_size := n, data := Some (case data b of
          Some d \<Rightarrow> overwrite (replicate n 0) 0 (take (min n (buf_size b)) d)
        | None \<Rightarrow> replicate n 0)\<rparr>))"

definition spdm_buffer_release :: "spdm_buffer \<Rightarrow> int \<times> spdm_buffer" where
  "spdm_buffer_release b =
     (if data b = None then (-1, b)
      else (0, b\<lparr>buf_size := 0, write_ptr := 0, read_ptr := 0, data := None\<rparr>))"

definition spdm_buffer_append_array :: "spdm_buffer \<Rightarrow> u8 list \<Rightarrow> int \<times> spdm_buffer" where
  "spdm_buffer_append_array b bs =
     (if write_ptr b + length bs > buf_size b then (-1, b)
      else (0, b\<lparr>data := map_option (\<lambda>d. overwrite d (write_ptr b) bs) (data b),
                 write_ptr := write_ptr b + length bs\<rparr>))"

type_synonym u16 = "16 word"

definition u16_bytes :: "u16 \<Rightarrow> u8 list" where
  "u16_bytes w = [ucast w, ucast (drop_bit 8 w)]"

definition spdm_buffer_append_u8 :: "spdm_buffer \<Rightarrow> u8 \<Rightarrow> int \<times> spdm_buffer" where
  "spdm_buffer_append_u8 b v = spdm_buffer_append_array b [v]"

definition spdm_buffer_append_u16 :: "spdm_buffer \<Rightarrow> u16 \<Rightarrow> int \<times> spdm_buffer" where
  "spdm_buffer_append_u16 b v = spdm_buffer_append_array b (u16_bytes v)"

definition spdm_buffer_append_u24 :: "spdm_buffer \<Rightarrow> u32 \<Rightarrow> int \<times> spdm_buffer" where
  "spdm_buffer_append_u24 b v = spdm_buffer_append_array b (take 3 (u32_bytes v))"

definition spdm_buffer_append_u32 :: "spdm_buffer \<Rightarrow> u32 \<Rightarrow> int \<times> spdm_buffer" where
  "spdm_buffer_append_u32 b v = spdm_buffer_append_array b (u32_bytes v)"

text \<open>The status of the loop is that of its last round, 0 when there is none.\<close>

primrec spdm_buffer_append_reserved :: "spdm_buffer \<Rightarrow> nat \<Rightarrow> int \<times> spdm_buffer" where
  "spdm_buffer_append_reserved b 0 = (0, b)"
| "spdm_buffer_append_reserved b (Suc n) = spdm_buffer_append_u8 (snd (spdm_buffer_append_reserved b n)) 0"

text \<open>
  A successful read answers the bytes. What a failed one leaves in the caller's variable is what
  was there: \<open>old\<close>.
\<close>

definition spdm_buffer_get_array :: "spdm_buffer \<Rightarrow> nat \<Rightarrow> int \<times> u8 list option \<times> spdm_buffer" where
  "spdm_buffer_get_array b n =
     (if read_ptr b + n > buf_size b then (-1, None, b)
      else (0, Some (case data b of Some d \<Rightarrow> take n (drop (read_ptr b) d) | None \<Rightarrow> []),
            b\<lparr>read_ptr := read_ptr b + n\<rparr>))"

definition u16_of_bytes :: "u8 list \<Rightarrow> u16" where
  "u16_of_bytes bs = (case bs of a # b # _ \<Rightarrow> ucast a OR push_bit 8 (ucast b) | _ \<Rightarrow> 0)"

definition spdm_buffer_get_u8 :: "spdm_buffer \<Rightarrow> u8 \<Rightarrow> int \<times> u8 \<times> spdm_buffer" where
  "spdm_buffer_get_u8 b old = (case spdm_buffer_get_array b 1 of
     (st, r, b') \<Rightarrow> (st, case r of Some (v # _) \<Rightarrow> v | _ \<Rightarrow> old, b'))"

definition spdm_buffer_get_u16 :: "spdm_buffer \<Rightarrow> u16 \<Rightarrow> int \<times> u16 \<times> spdm_buffer" where
  "spdm_buffer_get_u16 b old = (case spdm_buffer_get_array b 2 of
     (st, r, b') \<Rightarrow> (st, case r of Some bs \<Rightarrow> u16_of_bytes bs | None \<Rightarrow> old, b'))"

text \<open>Only the three low bytes of the variable are written.\<close>

definition spdm_buffer_get_u24 :: "spdm_buffer \<Rightarrow> u32 \<Rightarrow> int \<times> u32 \<times> spdm_buffer" where
  "spdm_buffer_get_u24 b old = (case spdm_buffer_get_array b 3 of
     (st, r, b') \<Rightarrow> (st, case r of Some bs \<Rightarrow> u32_of_bytes (bs @ drop 3 (u32_bytes old)) | None \<Rightarrow> old, b'))"

definition spdm_buffer_get_u32 :: "spdm_buffer \<Rightarrow> u32 \<Rightarrow> int \<times> u32 \<times> spdm_buffer" where
  "spdm_buffer_get_u32 b old = (case spdm_buffer_get_array b 4 of
     (st, r, b') \<Rightarrow> (st, case r of Some bs \<Rightarrow> u32_of_bytes bs | None \<Rightarrow> old, b'))"

primrec spdm_buffer_get_reserved :: "spdm_buffer \<Rightarrow> nat \<Rightarrow> int \<times> spdm_buffer" where
  "spdm_buffer_get_reserved b 0 = (0, b)"
| "spdm_buffer_get_reserved b (Suc n) =
     (case spdm_buffer_get_u8 (snd (spdm_buffer_get_reserved b n)) 0 of (st, _, b') \<Rightarrow> (st, b'))"

section \<open>The abstract buffer\<close>

text \<open>
  A sound buffer: the block has the size that is recorded and the positions are inside it.
  What has been written, and what of the block is still ahead of the reader.
\<close>

definition wf_buffer :: "spdm_buffer \<Rightarrow> bool" where
  "wf_buffer b \<longleftrightarrow> write_ptr b \<le> buf_size b \<and> read_ptr b \<le> buf_size b \<and>
     (case data b of Some d \<Rightarrow> length d = buf_size b | None \<Rightarrow> buf_size b = 0)"

definition written :: "spdm_buffer \<Rightarrow> u8 list" where
  "written b = (case data b of Some d \<Rightarrow> take (write_ptr b) d | None \<Rightarrow> [])"

definition room :: "spdm_buffer \<Rightarrow> nat" where
  "room b = buf_size b - write_ptr b"

definition unread :: "spdm_buffer \<Rightarrow> u8 list" where
  "unread b = (case data b of Some d \<Rightarrow> drop (read_ptr b) d | None \<Rightarrow> [])"

text \<open>The laws a client of the buffer relies on.\<close>

locale byte_buffer =
  fixes wf :: "'b \<Rightarrow> bool" and out :: "'b \<Rightarrow> u8 list" and free :: "'b \<Rightarrow> nat"
    and put :: "'b \<Rightarrow> u8 list \<Rightarrow> int \<times> 'b"
  assumes put_wf: "wf b \<Longrightarrow> wf (snd (put b bs))"
    and put_fits: "wf b \<Longrightarrow> length bs \<le> free b \<Longrightarrow>
      fst (put b bs) = 0 \<and> out (snd (put b bs)) = out b @ bs \<and> free (snd (put b bs)) = free b - length bs"
    and put_full: "wf b \<Longrightarrow> free b < length bs \<Longrightarrow> put b bs = (-1, b)"
begin

text \<open>Appending piece by piece: what does not fit as a whole is dropped, the rest is in order.\<close>

fun puts :: "'b \<Rightarrow> u8 list list \<Rightarrow> 'b" where
  "puts b [] = b"
| "puts b (bs # rest) = puts (snd (put b bs)) rest"

lemma puts_wf: "wf b \<Longrightarrow> wf (puts b bss)"
  by (induction b bss rule: puts.induct) (simp_all add: put_wf)

lemma puts_fit:
  "wf b \<Longrightarrow> length (concat bss) \<le> free b \<Longrightarrow>
    out (puts b bss) = out b @ concat bss \<and> free (puts b bss) = free b - length (concat bss)"
proof (induction b bss rule: puts.induct)
  case (2 b bs rest)
  then show ?case using put_fits [of b bs] by (simp add: put_wf)
qed simp

end

lemma wf_data: "wf_buffer b \<Longrightarrow> data b = Some d \<Longrightarrow> length d = buf_size b"
  by (simp add: wf_buffer_def)

lemma append_array_wf: "wf_buffer b \<Longrightarrow> wf_buffer (snd (spdm_buffer_append_array b bs))"
  by (auto simp: spdm_buffer_append_array_def wf_buffer_def split: option.splits)

lemma append_array_fits:
  assumes "wf_buffer b" and "length bs \<le> room b"
  shows "spdm_buffer_append_array b bs = (0, b\<lparr>data := map_option (\<lambda>d. overwrite d (write_ptr b) bs) (data b),
      write_ptr := write_ptr b + length bs\<rparr>)"
    and "written (snd (spdm_buffer_append_array b bs)) = written b @ bs"
    and "room (snd (spdm_buffer_append_array b bs)) = room b - length bs"
proof -
  show run: "spdm_buffer_append_array b bs = (0, b\<lparr>data := map_option (\<lambda>d. overwrite d (write_ptr b) bs) (data b),
      write_ptr := write_ptr b + length bs\<rparr>)"
    using assms by (auto simp: spdm_buffer_append_array_def room_def wf_buffer_def)
  show "room (snd (spdm_buffer_append_array b bs)) = room b - length bs"
    by (simp add: run room_def)
  show "written (snd (spdm_buffer_append_array b bs)) = written b @ bs"
  proof (cases "data b")
    case None
    then have "length bs = 0" using assms by (simp add: room_def wf_buffer_def)
    then show ?thesis using None run by (simp add: written_def)
  next
    case (Some d)
    then show ?thesis using assms by (simp add: run written_def overwrite_def room_def wf_buffer_def)
  qed
qed

interpretation spdm_buffer: byte_buffer wf_buffer written room spdm_buffer_append_array
proof (unfold_locales, goal_cases)
  case (1 b bs)
  then show ?case by (rule append_array_wf)
next
  case (2 b bs)
  then show ?case by (simp add: append_array_fits(2,3)) (simp add: append_array_fits(1))
next
  case (3 b bs)
  then show ?case by (auto simp: spdm_buffer_append_array_def room_def wf_buffer_def)
qed

lemma init_wf: "wf_buffer (snd (spdm_buffer_init alloc n))"
  by (simp add: spdm_buffer_init_def wf_buffer_def)

lemma init_written [simp]: "written (snd (spdm_buffer_init alloc n)) = []"
  by (simp add: spdm_buffer_init_def written_def)

lemma init_room: "alloc \<Longrightarrow> room (snd (spdm_buffer_init alloc n)) = n"
  by (simp add: spdm_buffer_init_def room_def)

text \<open>Growing keeps what was written; releasing empties.\<close>

lemma resize_wf: "wf_buffer b \<Longrightarrow> wf_buffer (snd (spdm_buffer_resize alloc b n))"
  by (auto simp: spdm_buffer_resize_def wf_buffer_def split: option.splits)

lemma resize_written:
  assumes "wf_buffer b"
  shows "written (snd (spdm_buffer_resize alloc b n)) = written b"
  using assms
  by (auto simp: spdm_buffer_resize_def written_def wf_buffer_def overwrite_def min_def split: option.splits)

lemma resize_room:
  assumes "wf_buffer b" and "alloc" and "buf_size b < n"
  shows "room (snd (spdm_buffer_resize alloc b n)) = n - write_ptr b"
  using assms by (simp add: spdm_buffer_resize_def room_def)

lemma release_wf: "wf_buffer b \<Longrightarrow> wf_buffer (snd (spdm_buffer_release b))"
  by (auto simp: spdm_buffer_release_def wf_buffer_def)

lemma release_written: "wf_buffer b \<Longrightarrow> written (snd (spdm_buffer_release b)) = []"
  by (auto simp: spdm_buffer_release_def written_def wf_buffer_def)

section \<open>Reading back\<close>

lemma get_array_reads:
  assumes "wf_buffer b" and "n \<le> length (unread b)"
  shows "fst (spdm_buffer_get_array b n) = 0"
    and "fst (snd (spdm_buffer_get_array b n)) = Some (take n (unread b))"
    and "unread (snd (snd (spdm_buffer_get_array b n))) = drop n (unread b)"
    and "wf_buffer (snd (snd (spdm_buffer_get_array b n)))"
  using assms
  by (auto simp: spdm_buffer_get_array_def unread_def wf_buffer_def add.commute split: option.splits)

lemma get_array_short:
  assumes "wf_buffer b" and "length (unread b) < n"
  shows "spdm_buffer_get_array b n = (-1, None, b)"
  using assms by (auto simp: spdm_buffer_get_array_def unread_def wf_buffer_def split: option.splits)

lemma u16_of_u16_bytes [simp]: "u16_of_bytes (u16_bytes w @ rest) = w"
proof (rule bit_word_eqI)
  fix n assume "n < LENGTH(16)"
  then show "bit (u16_of_bytes (u16_bytes w @ rest)) n = bit w n"
    by (cases "n < 8") (auto simp: u16_of_bytes_def u16_bytes_def bit_simps)
qed

lemma length_u16_bytes [simp]: "length (u16_bytes w) = 2"
  by (simp add: u16_bytes_def)

text \<open>
  A message written into a fresh buffer in typed pieces.
\<close>

datatype field = F8 u8 | F16 u16 | F24 u32 | F32 u32 | FReserved nat | FArray "u8 list"

fun put_field :: "spdm_buffer \<Rightarrow> field \<Rightarrow> spdm_buffer" where
  "put_field b (F8 v) = snd (spdm_buffer_append_u8 b v)"
| "put_field b (F16 v) = snd (spdm_buffer_append_u16 b v)"
| "put_field b (F24 v) = snd (spdm_buffer_append_u24 b v)"
| "put_field b (F32 v) = snd (spdm_buffer_append_u32 b v)"
| "put_field b (FReserved n) = snd (spdm_buffer_append_reserved b n)"
| "put_field b (FArray bs) = snd (spdm_buffer_append_array b bs)"

fun field_bytes :: "field \<Rightarrow> u8 list" where
  "field_bytes (F8 v) = [v]"
| "field_bytes (F16 v) = u16_bytes v"
| "field_bytes (F24 v) = take 3 (u32_bytes v)"
| "field_bytes (F32 v) = u32_bytes v"
| "field_bytes (FReserved n) = replicate n 0"
| "field_bytes (FArray bs) = bs"

lemma append_reserved_puts:
  "snd (spdm_buffer_append_reserved b n) = spdm_buffer.puts b (replicate n [0])"
proof (induction n)
  case (Suc n)
  have "spdm_buffer.puts b (xs @ [y]) = snd (spdm_buffer_append_array (spdm_buffer.puts b xs) y)" for xs y
    by (induction xs arbitrary: b) simp_all
  then show ?case by (simp add: Suc spdm_buffer_append_u8_def replicate_append_same [symmetric] del: replicate_append_same)
qed simp

lemma put_field_fits:
  assumes "wf_buffer b" and "length (field_bytes f) \<le> room b"
  shows "wf_buffer (put_field b f) \<and> written (put_field b f) = written b @ field_bytes f \<and>
    room (put_field b f) = room b - length (field_bytes f)"
proof (cases f)
  case (FReserved n)
  have "concat (replicate n [0 :: u8]) = replicate n 0" by (induction n) simp_all
  then show ?thesis
    using spdm_buffer.puts_fit [OF assms(1), of "replicate n [0]"] spdm_buffer.puts_wf [OF assms(1)] assms(2) FReserved
    by (simp add: append_reserved_puts)
qed (use assms append_array_wf [OF assms(1), of "field_bytes f"] append_array_fits(2,3) [OF assms] in
    \<open>simp_all add: spdm_buffer_append_u8_def spdm_buffer_append_u16_def spdm_buffer_append_u24_def spdm_buffer_append_u32_def\<close>)

lemma put_fields:
  assumes "wf_buffer b" and "length (concat (map field_bytes fs)) \<le> room b"
  shows "wf_buffer (foldl put_field b fs) \<and> written (foldl put_field b fs) = written b @ concat (map field_bytes fs) \<and>
    room (foldl put_field b fs) = room b - length (concat (map field_bytes fs))"
  using assms
proof (induction fs arbitrary: b)
  case (Cons f fs)
  have "wf_buffer (put_field b f) \<and> written (put_field b f) = written b @ field_bytes f \<and>
    room (put_field b f) = room b - length (field_bytes f)"
    using Cons.prems by (intro put_field_fits) auto
  then show ?case using Cons.IH [of "put_field b f"] Cons.prems by simp
qed simp

text \<open>
  C40: the message buffer refines a byte list. As long as there is room, writing typed fields into
  a sound buffer appends exactly their little-endian bytes to what has been written, one after the
  other, takes that much of the room and keeps the buffer sound.
\<close>

theorem fields_are_appended:
  assumes "wf_buffer b" and "length (concat (map field_bytes fs)) \<le> room b"
  shows "wf_buffer (foldl put_field b fs) \<and> written (foldl put_field b fs) = written b @ concat (map field_bytes fs) \<and>
    room (foldl put_field b fs) = room b - length (concat (map field_bytes fs))"
  by (rule put_fields [OF assms])

theorem fields_are_appended_witness:
  "written (foldl put_field (snd (spdm_buffer_init True 9)) [F16 0x1234, FReserved 1, F8 7]) = [0x34, 0x12, 0, 7]"
proof -
  have b: "wf_buffer (snd (spdm_buffer_init True 9))" "room (snd (spdm_buffer_init True 9)) = 9" "written (snd (spdm_buffer_init True 9)) = []"
    by (simp_all add: wf_buffer_def room_def written_def spdm_buffer_init_def)
  have f: "concat (map field_bytes [F16 0x1234, FReserved 1, F8 7]) = [0x34, 0x12, 0, 7]"
    by (simp add: u16_bytes_def)
  show ?thesis using fields_are_appended [OF b(1), of "[F16 0x1234, FReserved 1, F8 7]"] unfolding b f by simp
qed

end
