(* ===== verification/Spdm_Context.thy ===== *)
theory Spdm_Context
  imports Spdm_Buffer Pfr_Pfm
begin

text \<open>
  The state of the SPDM attester and its boundary: \<open>SPDM/SPDMContext.c\<close>, the request path of
  \<open>SPDM/SPDMMctpBinding.c\<close> and the signature check of \<open>SPDM/SPDMCrypto.c\<close>, as configured by
  \<open>boards/ast1060_dcscm.conf\<close>: no secure connection, no message transcript
  (\<open>SPDM_TRANSCRIPT\<close>), one running hash per transcript.

  The state \<open>attester\<close> holds the context of the connection beside the world of the state
  machine (\<open>rot\<close>). The device that is attested is a function of everything that was exchanged
  before, so it may answer anything. What mbedtls computes from its arguments alone is a function
  of the parameters \<open>spdm_env\<close>.
\<close>

section \<open>Constants\<close>

abbreviation "SPDM_VERSION_10 \<equiv> 0x10 :: u8"
abbreviation "SPDM_VERSION_11 \<equiv> 0x11 :: u8"
abbreviation "SPDM_VERSION_12 \<equiv> 0x12 :: u8"

abbreviation "SPDM_REQ_GET_DIGESTS \<equiv> 0x81 :: u8"
abbreviation "SPDM_REQ_GET_CERTIFICATE \<equiv> 0x82 :: u8"
abbreviation "SPDM_REQ_CHALLENGE \<equiv> 0x83 :: u8"
abbreviation "SPDM_REQ_GET_VERSION \<equiv> 0x84 :: u8"
abbreviation "SPDM_REQ_GET_MEASUREMENTS \<equiv> 0xE0 :: u8"
abbreviation "SPDM_REQ_GET_CAPABILITIES \<equiv> 0xE1 :: u8"
abbreviation "SPDM_REQ_NEGOTIATE_ALGORITHMS \<equiv> 0xE3 :: u8"
abbreviation "SPDM_RSP_DIGESTS \<equiv> 0x01 :: u8"
abbreviation "SPDM_RSP_CERTIFICATE \<equiv> 0x02 :: u8"
abbreviation "SPDM_RSP_CHALLENGE_AUTH \<equiv> 0x03 :: u8"
abbreviation "SPDM_RSP_VERSION \<equiv> 0x04 :: u8"
abbreviation "SPDM_RSP_MEASUREMENTS \<equiv> 0x60 :: u8"
abbreviation "SPDM_RSP_CAPABILITIES \<equiv> 0x61 :: u8"
abbreviation "SPDM_RSP_ALGORITHMS \<equiv> 0x63 :: u8"

abbreviation "SPDM_CERT_CAP \<equiv> 0x02 :: u32"
abbreviation "SPDM_CHAL_CAP \<equiv> 0x04 :: u32"
abbreviation "SPDM_MEAS_CAP_SIG \<equiv> 0x10 :: u32"
abbreviation "SPDM_MEASUREMENT_BLOCK_DMTF_SPEC \<equiv> 0x01 :: u8"
abbreviation "SPDM_ALGORITHMS_MEAS_HASH_TPM_ALG_SHA_384 \<equiv> 0x04 :: u32"
abbreviation "SPDM_ALGORITHMS_BASE_ALGO_TPM_ALG_ECDSA_ECC_NIST_P384 \<equiv> 0x80 :: u32"
abbreviation "SPDM_ALGORITHMS_BASE_HASH_TPM_ALG_SHA_384 \<equiv> 0x02 :: u32"
abbreviation "SPDM_MAX_VERSION \<equiv> 3 :: nat"
abbreviation "SPDM_NONCE_SIZE \<equiv> 32 :: nat"
abbreviation "SPDM_MEDIUM_SMBUS \<equiv> 0x01 :: u8"
abbreviation "SPDM_MEDIUM_I3C \<equiv> 0x06 :: u8"

definition bytes_of_string :: "string \<Rightarrow> u8 list" where
  "bytes_of_string cs = map (\<lambda>c. word_of_int (of_char c)) cs"

definition SPDM_PREFIX_VERSION_12 :: "u8 list" where
  "SPDM_PREFIX_VERSION_12 = bytes_of_string ''dmtf-spdm-v1.2.*dmtf-spdm-v1.2.*dmtf-spdm-v1.2.*dmtf-spdm-v1.2.*''"

definition SPDM_SIGN_CONTEXT_M1M2_RSP :: "u8 list" where
  "SPDM_SIGN_CONTEXT_M1M2_RSP = bytes_of_string ''responder-challenge_auth signing''"

definition SPDM_SIGN_CONTEXT_L1L2_RSP :: "u8 list" where
  "SPDM_SIGN_CONTEXT_L1L2_RSP = bytes_of_string ''responder-measurements signing''"

section \<open>Messages\<close>

record spdm_message_header =
  spdm_version :: u8
  request_response_code :: u8
  param1 :: u8
  param2 :: u8

record spdm_message =
  header :: spdm_message_header
  buffer :: spdm_buffer

definition header_bytes :: "spdm_message_header \<Rightarrow> u8 list" where
  "header_bytes h = [spdm_version h, request_response_code h, param1 h, param2 h]"

definition header_of_bytes :: "u8 list \<Rightarrow> spdm_message_header" where
  "header_of_bytes bs = \<lparr>spdm_version = bs ! 0, request_response_code = bs ! 1, param1 = bs ! 2, param2 = bs ! 3\<rparr>"

definition message_bytes :: "spdm_message \<Rightarrow> u8 list" where
  "message_bytes m = header_bytes (header m) @ written (buffer m)"

section \<open>The context\<close>

record spdm_version_info =
  version_number_entry_count :: u8
  version_number_selected :: u8
  version_number_entry :: "u16 list"

record spdm_capabilities_info =
  ct_exponent :: u8
  flags :: u32
  data_transfer_size :: u32
  max_spdm_msg_size :: u32

record spdm_algorithms_info =
  alg_length :: u16
  measurement_spec_sel :: u8
  other_param_sel :: u8
  measurement_hash_algo :: u32
  base_asym_sel :: u32
  base_hash_sel :: u32

text \<open>
  One slot: the recorded size, the heap block, the parsed chain (the DER certificates in order)
  and the digest the device has announced.
\<close>

record spdm_cert =
  cert_size :: u16
  cert_data :: "u8 list option"
  chain :: "u8 list list"
  digest :: "u8 list"

record spdm_certificate_info =
  slot_mask :: u8
  certs :: "spdm_cert list"

record spdm_context_info =
  version :: spdm_version_info
  capabilities :: spdm_capabilities_info
  algorithms :: spdm_algorithms_info
  certificate :: spdm_certificate_info

text \<open>\<open>struct spdm_mctp_connection_data\<close>: the medium and the bus, the destination address and EID.\<close>

record spdm_connection =
  medium :: u8
  bus :: u8
  dst_addr :: u8
  dst_eid :: u8

text \<open>
  The running hashes are the bytes fed so far. \<open>private_data\<close> is the certificate of the
  manifest entry, empty when it has none, \<open>None\<close> for the null pointer.
\<close>

record spdm_context =
  connection_data :: "spdm_connection option"
  local :: spdm_context_info
  remote :: spdm_context_info
  message_a :: spdm_buffer
  m1m2_context :: "u8 list"
  l1l2_context :: "u8 list"
  private_data :: "u8 list option"

section \<open>The boundary\<close>

datatype partition = ActivePartition | RecoveryPartition

datatype spdm_call =
    IssueRequest spdm_connection "u8 list" | SysRandGet nat | SpdmMalloc nat
  | MallocContext | MallocConnection | CallocCrt | FlashAreaOpen
  | AttesterTimerStart "16 word" "16 word" | AttesterTimerStop
  | EcdsaSign "u8 list" | PartitionOpen partition | PartitionRead partition nat nat

type_synonym spdm_trace = "(spdm_call \<times> reply) list"

record spdm_env =
  board :: env
  peer :: "spdm_trace \<Rightarrow> spdm_call \<Rightarrow> reply"
  sha384 :: "u8 list \<Rightarrow> u8 list"
  asn1_get_tag :: "u8 list \<Rightarrow> int \<times> nat \<times> nat"
  x509_parse :: "u8 list \<Rightarrow> int"
  x509_verify :: "u8 list list \<Rightarrow> u8 list list \<Rightarrow> int \<times> u32"
  pk_is_p384 :: "u8 list \<Rightarrow> bool"
  ecdsa_verify :: "u8 list \<Rightarrow> u8 list \<Rightarrow> u8 list \<Rightarrow> u8 list \<Rightarrow> int"
  mctp_instance :: "u8 \<Rightarrow> u8 \<Rightarrow> bool"
  system_root_ca :: "u8 list list"

text \<open>\<open>spdm_attester_event\<close> are the bits of the event-flags object, \<open>attestation_count\<close> the local of the thread.\<close>

record attester =
  rot :: world
  ctx :: spdm_context
  spdm_trace :: spdm_trace
  spdm_attester_event :: u32
  attestation_count :: u16

definition spdm_ext :: "spdm_env \<Rightarrow> spdm_call \<Rightarrow> (attester, reply) state" where
  "spdm_ext P c = State (\<lambda>s. let r = peer P (spdm_trace s) c in (r, s\<lparr>spdm_trace := spdm_trace s @ [(c, r)]\<rparr>))"

lemma run_spdm_ext [simp]:
  "run (spdm_ext P c) s = (peer P (spdm_trace s) c, s\<lparr>spdm_trace := spdm_trace s @ [(c, peer P (spdm_trace s) c)]\<rparr>)"
  by (simp add: spdm_ext_def Let_def)

text \<open>An operation of the state machine's world, run by the attester.\<close>

definition on_rot :: "(world, 'a) state \<Rightarrow> (attester, 'a) state" where
  "on_rot m = State (\<lambda>s. case run m (rot s) of (x, w) \<Rightarrow> (x, s\<lparr>rot := w\<rparr>))"

lemma run_on_rot [simp]: "run (on_rot m) s = (result m (rot s), s\<lparr>rot := exec m (rot s)\<rparr>)"
  by (simp add: on_rot_def case_prod_beta)

definition undefined_behaviour :: "(attester, unit) state" where
  "undefined_behaviour = on_rot (modify (\<lambda>w. w\<lparr>oob := True\<rparr>))"

abbreviation upd_ctx :: "(spdm_context \<Rightarrow> spdm_context) \<Rightarrow> (attester, unit) state" where
  "upd_ctx f \<equiv> modify (\<lambda>s. s\<lparr>ctx := f (ctx s)\<rparr>)"

text \<open>The \<open>n\<close> bytes at a pointer behind which \<open>bs\<close> are known: the rest is whatever memory holds.\<close>

definition memory_at :: "spdm_env \<Rightarrow> nat \<Rightarrow> u8 list \<Rightarrow> u8 list" where
  "memory_at P n bs = map (\<lambda>i. if i < length bs then bs ! i else uninit (board P) i) [0 ..< n]"

lemma length_memory_at [simp]: "length (memory_at P n bs) = n"
  by (simp add: memory_at_def)

lemma memory_at_id: "n \<le> length bs \<Longrightarrow> memory_at P n bs = take n bs"
  by (rule nth_equalityI) (simp_all add: memory_at_def)

definition allocate :: "spdm_env \<Rightarrow> spdm_call \<Rightarrow> (attester, bool) state" where
  "allocate P c = do {
     (p, _) \<leftarrow> spdm_ext P c;
     ret (p \<noteq> 0)
   }"

abbreviation spdm_malloc :: "spdm_env \<Rightarrow> nat \<Rightarrow> (attester, bool) state" where
  "spdm_malloc P n \<equiv> allocate P (SpdmMalloc n)"

text \<open>\<open>spdm_buffer_init\<close> and \<open>spdm_buffer_resize\<close> with the allocator they call.\<close>

definition buffer_init :: "spdm_env \<Rightarrow> nat \<Rightarrow> (attester, spdm_buffer) state" where
  "buffer_init P n =
     (if n > 0 then do {
        alloc \<leftarrow> spdm_malloc P n;
        ret (snd (spdm_buffer_init alloc n))
      } else ret (snd (spdm_buffer_init True n)))"

definition buffer_resize :: "spdm_env \<Rightarrow> spdm_buffer \<Rightarrow> nat \<Rightarrow> (attester, spdm_buffer) state" where
  "buffer_resize P b n =
     (if n = 0 \<or> n \<le> buf_size b then ret b
      else do {
        alloc \<leftarrow> spdm_malloc P n;
        ret (snd (spdm_buffer_resize alloc b n))
      })"

definition spdm_buffer_append_nonce :: "spdm_env \<Rightarrow> spdm_buffer \<Rightarrow> (attester, spdm_buffer) state" where
  "spdm_buffer_append_nonce P b = do {
     (_, nonce) \<leftarrow> spdm_ext P (SysRandGet SPDM_NONCE_SIZE);
     ret (snd (spdm_buffer_append_array b (fit SPDM_NONCE_SIZE nonce)))
   }"

section \<open>Contexts\<close>

definition empty_cert :: "u8 list \<Rightarrow> spdm_cert" where
  "empty_cert dg = \<lparr>cert_size = 0, cert_data = None, chain = [], digest = dg\<rparr>"

text \<open>
  \<open>spdm_context_create\<close>: what it does not assign is left as \<open>malloc\<close> found it, here the
  parameter \<open>junk\<close>.
\<close>

definition spdm_context_create :: "spdm_context \<Rightarrow> spdm_context" where
  "spdm_context_create junk = junk\<lparr>
     local := (local junk)\<lparr>
       version := \<lparr>version_number_entry_count = 3, version_number_selected = SPDM_VERSION_10,
         version_number_entry = [0x1200, 0x1100, 0x1000]\<rparr>,
       capabilities := \<lparr>ct_exponent = 15, flags = SPDM_CHAL_CAP OR SPDM_CERT_CAP OR SPDM_MEAS_CAP_SIG,
         data_transfer_size = 256, max_spdm_msg_size = 256\<rparr>,
       algorithms := \<lparr>alg_length = 0, measurement_spec_sel = SPDM_MEASUREMENT_BLOCK_DMTF_SPEC,
         other_param_sel = 0, measurement_hash_algo = SPDM_ALGORITHMS_MEAS_HASH_TPM_ALG_SHA_384,
         base_asym_sel = SPDM_ALGORITHMS_BASE_ALGO_TPM_ALG_ECDSA_ECC_NIST_P384,
         base_hash_sel = SPDM_ALGORITHMS_BASE_HASH_TPM_ALG_SHA_384\<rparr>,
       certificate := \<lparr>slot_mask = 0, certs = map (\<lambda>c. empty_cert (digest c)) (certs (certificate (local junk)))\<rparr>\<rparr>,
     remote := (remote junk)\<lparr>
       version := \<lparr>version_number_entry_count = 0, version_number_selected = SPDM_VERSION_10,
         version_number_entry = [0, 0, 0]\<rparr>,
       certificate := \<lparr>slot_mask = 0, certs = map (\<lambda>c. empty_cert (digest c)) (certs (certificate (remote junk)))\<rparr>\<rparr>,
     message_a := snd (spdm_buffer_init True 0),
     m1m2_context := [], l1l2_context := []\<rparr>"

definition spdm_context_reset_m1m2_hash :: "(attester, unit) state" where
  "spdm_context_reset_m1m2_hash = upd_ctx (m1m2_context_update (\<lambda>_. []))"

definition spdm_context_update_m1m2_hash :: "spdm_message \<Rightarrow> spdm_message \<Rightarrow> (attester, unit) state" where
  "spdm_context_update_m1m2_hash req rsp = upd_ctx (m1m2_context_update (\<lambda>h. h @ message_bytes req @ message_bytes rsp))"

definition spdm_context_reset_l1l2_hash :: "(attester, unit) state" where
  "spdm_context_reset_l1l2_hash = upd_ctx (l1l2_context_update (\<lambda>_. []))"

definition spdm_context_update_l1l2_hash_buffer :: "spdm_buffer \<Rightarrow> (attester, unit) state" where
  "spdm_context_update_l1l2_hash_buffer b = upd_ctx (l1l2_context_update (\<lambda>h. h @ written b))"

definition spdm_context_update_l1l2_hash :: "spdm_message \<Rightarrow> spdm_message \<Rightarrow> (attester, unit) state" where
  "spdm_context_update_l1l2_hash req rsp = upd_ctx (l1l2_context_update (\<lambda>h. h @ message_bytes req @ message_bytes rsp))"

abbreviation upd_slot :: "nat \<Rightarrow> (spdm_cert \<Rightarrow> spdm_cert) \<Rightarrow> (attester, unit) state" where
  "upd_slot i f \<equiv> upd_ctx (remote_update (certificate_update (certs_update (\<lambda>cs. cs[i := f (cs ! i)]))))"

abbreviation slot :: "attester \<Rightarrow> nat \<Rightarrow> spdm_cert" where
  "slot s i \<equiv> certs (certificate (remote (ctx s))) ! i"

abbreviation selected :: "attester \<Rightarrow> u8" where
  "selected s \<equiv> version_number_selected (version (local (ctx s)))"

text \<open>
  The certificate that is verified is appended to the chain when its issuer is the last one.
  A \<open>mbedtls_x509_crt\<close> is allocated for it first.
\<close>

definition append_next_certificate :: "spdm_env \<Rightarrow> u8 list list \<Rightarrow> u8 list \<Rightarrow> (attester, int \<times> u8 list list) state" where
  "append_next_certificate P crt_chain cert = do {
     alloc \<leftarrow> allocate P CallocCrt;
     if \<not> alloc then ret (-1, crt_chain)
     else if x509_parse P cert < 0 then ret (-1, crt_chain)
     else let st = fst (x509_verify P [cert] (if crt_chain = [] then [] else [last crt_chain])) in
       ret (st, if st = 0 then crt_chain @ [cert] else crt_chain)
   }"

section \<open>Sending a request\<close>

text \<open>
  \<open>spdm_mctp_send_recv\<close>: the message type byte, the header and the payload go out; of the
  reply the header is the bytes 1 to 4 and the payload the rest, whatever the type byte says.
  A reply of fewer than 5 bytes wraps the length of the payload.
\<close>

definition payload_length :: "u8 list \<Rightarrow> nat" where
  "payload_length r = unat (of_nat (length r) - 1 - 4 :: u32)"

definition spdm_mctp_send_recv :: "spdm_env \<Rightarrow> spdm_connection \<Rightarrow> spdm_message \<Rightarrow> (attester, int \<times> spdm_message) state" where
  "spdm_mctp_send_recv P conn req = do {
     (st, r) \<leftarrow> spdm_ext P (IssueRequest conn (0x05 # message_bytes req));
     let hdr = header_of_bytes (memory_at P 4 (drop 1 r));
     if st = 0 then do {
       let n = payload_length r;
       b \<leftarrow> buffer_init P n;
       ret (st, \<lparr>header = hdr, buffer = snd (spdm_buffer_append_array b (memory_at P n (drop 5 r)))\<rparr>)
     }
     else ret (st, \<lparr>header = header_of_bytes (memory_at P 4 []), buffer = snd (spdm_buffer_init True 0)\<rparr>)
   }"

text \<open>Without a connection the code would call through a pointer that was never set.\<close>

definition spdm_send_request :: "spdm_env \<Rightarrow> spdm_message \<Rightarrow> (attester, int \<times> spdm_message) state" where
  "spdm_send_request P req = do {
     c \<leftarrow> gets (connection_data \<circ> ctx);
     case c of
       Some conn \<Rightarrow> spdm_mctp_send_recv P conn req
     | None \<Rightarrow> do {
         undefined_behaviour;
         ret (0, \<lparr>header = header_of_bytes (memory_at P 4 []), buffer = snd (spdm_buffer_init True 0)\<rparr>)
       }
   }"

definition spdm_mctp_init_req :: "spdm_env \<Rightarrow> u8 \<Rightarrow> u8 \<Rightarrow> u8 \<Rightarrow> u8 \<Rightarrow> (attester, bool) state" where
  "spdm_mctp_init_req P med b dst_sa eid =
     (if med \<noteq> SPDM_MEDIUM_SMBUS \<and> \<not> (CONFIG_PFR_MCTP_I3C (board P) \<and> med = SPDM_MEDIUM_I3C) then ret False
      else if mctp_instance P med b then do {
        alloc \<leftarrow> allocate P MallocConnection;
        if \<not> alloc then ret False
        else do {
          upd_ctx (connection_data_update (\<lambda>_. Some \<lparr>medium = med, bus = b, dst_addr = dst_sa, dst_eid = eid\<rparr>));
          ret True
        }
      }
      else ret False)"

section \<open>Signatures\<close>

text \<open>
  The signed message of SPDM 1.2: the version prefix, zeros and the context string fill 100
  bytes in front of the hash.
\<close>

definition sign_prefix :: "u8 list \<Rightarrow> u8 list" where
  "sign_prefix sig_context =
     SPDM_PREFIX_VERSION_12 @ replicate (100 - 64 - length sig_context) 0 @ sig_context"

text \<open>
  The key is that of the last certificate of the slot's chain; a slot without one has no key
  the code could take.
\<close>

definition ecdsa_check :: "spdm_env \<Rightarrow> u8 list list \<Rightarrow> u8 list \<Rightarrow> u8 list \<Rightarrow> (attester, int) state" where
  "ecdsa_check P crts message_hash sig =
     (if crts = [] then do { undefined_behaviour; ret (-1) }
      else if \<not> pk_is_p384 P (last crts) then ret (-1)
      else ret (ecdsa_verify P (last crts) message_hash (take 48 sig) (take 48 (drop 48 sig))))"

definition spdm_crypto_verify :: "spdm_env \<Rightarrow> nat \<Rightarrow> u8 list \<Rightarrow> u8 list \<Rightarrow> bool \<Rightarrow> u8 list \<Rightarrow> (attester, int) state" where
  "spdm_crypto_verify P slot_id input sig sig_context_hash sig_context = do {
     crts \<leftarrow> gets (\<lambda>s. chain (slot s slot_id));
     if sig_context_hash then do {
       alloc \<leftarrow> spdm_malloc P (100 + length input);
       if \<not> alloc then ret (-1)
       else do {
         alloc \<leftarrow> spdm_malloc P (length input);
         if \<not> alloc then ret (-1)
         else ecdsa_check P crts (sha384 P (sign_prefix sig_context @ input)) sig
       }
     }
     else ecdsa_check P crts input sig
   }"

end
