(* ===== verification/Spdm_Request.thy ===== *)
theory Spdm_Request
  imports Spdm_Context
begin

text \<open>
  The requests of the attester, \<open>SPDM/RequestCmd/*.c\<close>: each builds its message, sends it, checks
  the header and the length of the answer, stores what it learns in the context and feeds the
  transcripts. The buffers of the request and of the response live only in the command.
\<close>

section \<open>Version, capabilities, algorithms\<close>

definition request :: "u8 \<Rightarrow> u8 \<Rightarrow> u8 \<Rightarrow> u8 \<Rightarrow> spdm_buffer \<Rightarrow> spdm_message" where
  "request ver code p1 p2 b =
     \<lparr>header = \<lparr>spdm_version = ver, request_response_code = code, param1 = p1, param2 = p2\<rparr>, buffer = b\<rparr>"

text \<open>The VCA transcript grows by both messages: the block first, then the four pieces.\<close>

definition append_message_a :: "spdm_env \<Rightarrow> nat \<Rightarrow> spdm_message \<Rightarrow> spdm_message \<Rightarrow> (attester, unit) state" where
  "append_message_a P n req rsp = do {
     b \<leftarrow> gets (message_a \<circ> ctx);
     b \<leftarrow> buffer_resize P b (buf_size b + n);
     upd_ctx (message_a_update (\<lambda>_. foldl (\<lambda>b bs. snd (spdm_buffer_append_array b bs)) b
       [header_bytes (header req), written (buffer req), header_bytes (header rsp), written (buffer rsp)]))
   }"

text \<open>
  The version entries of the device: each is stored, and a major and minor number above the one
  selected so far is selected. A read past the payload leaves the entry 0.
\<close>

primrec version_entries :: "nat \<Rightarrow> nat \<Rightarrow> spdm_buffer \<Rightarrow> (attester, unit) state" where
  "version_entries 0 i b = ret ()"
| "version_entries (Suc n) i b = (case spdm_buffer_get_u16 b 0 of (_, ver, b') \<Rightarrow> do {
     upd_ctx (remote_update (version_update (\<lambda>v. v\<lparr>version_number_entry := (version_number_entry v)[i := ver],
       version_number_entry_count := 1\<rparr>)));
     sel \<leftarrow> gets (\<lambda>s. version_number_selected (version (remote (ctx s))));
     cwhen (ucast sel < drop_bit 8 ver) (do {
       upd_ctx (local_update (version_update (version_number_selected_update (\<lambda>_. ucast (drop_bit 8 ver)))));
       upd_ctx (remote_update (version_update (version_number_selected_update (\<lambda>_. ucast (drop_bit 8 ver)))))
     });
     version_entries n (Suc i) b'
   })"

definition spdm_get_version :: "spdm_env \<Rightarrow> (attester, int) state" where
  "spdm_get_version P = do {
     let req = request SPDM_VERSION_10 SPDM_REQ_GET_VERSION 0 0 (snd (spdm_buffer_init True 0));
     (st, rsp) \<leftarrow> spdm_send_request P req;
     if st \<noteq> 0 then ret (-1)
     else if spdm_version (header rsp) \<noteq> SPDM_VERSION_10 then ret (-1)
     else if request_response_code (header rsp) \<noteq> SPDM_RSP_VERSION then ret (-1)
     else if write_ptr (buffer rsp) < 4 \<or> write_ptr (buffer rsp) mod 2 \<noteq> 0 then ret (-1)
     else do {
       let b = snd (spdm_buffer_get_reserved (buffer rsp) 1);
       let (_, count, b) = spdm_buffer_get_u8 b 0;
       if 0 < unat count \<and> unat count < SPDM_MAX_VERSION then do {
         upd_ctx (remote_update (version_update (version_number_entry_count_update (\<lambda>_. 0))));
         version_entries (unat count) 0 b;
         n \<leftarrow> gets (\<lambda>s. version_number_entry_count (version (remote (ctx s))));
         if n = 0 then ret (-1)
         else do {
           upd_ctx (message_a_update (\<lambda>b. snd (spdm_buffer_init True 0)));
           append_message_a P (buf_size (buffer req) + 4 + buf_size (buffer rsp) + 4) req rsp;
           spdm_context_reset_m1m2_hash;
           spdm_context_update_m1m2_hash req rsp;
           ret 0
         }
       }
       else ret (-1)
     }
   }"

definition capabilities_request :: "u8 \<Rightarrow> spdm_capabilities_info \<Rightarrow> field list" where
  "capabilities_request ver cap =
     (if ver = SPDM_VERSION_11 then [FReserved 1, F8 (ct_exponent cap), FReserved 2, F32 (flags cap)]
      else if ver = SPDM_VERSION_12 then
        [FReserved 1, F8 (ct_exponent cap), FReserved 2, F32 (flags cap AND NOT 0x38),
         F32 (data_transfer_size cap), F32 (max_spdm_msg_size cap)]
      else [])"

definition spdm_get_capabilities :: "spdm_env \<Rightarrow> (attester, int) state" where
  "spdm_get_capabilities P = do {
     ver \<leftarrow> gets selected;
     cap \<leftarrow> gets (\<lambda>s. capabilities (local (ctx s)));
     b \<leftarrow> buffer_init P 16;
     let req = request ver SPDM_REQ_GET_CAPABILITIES 0 0 (foldl put_field b (capabilities_request ver cap));
     (st, rsp) \<leftarrow> spdm_send_request P req;
     if st \<noteq> 0 then ret (-1)
     else if spdm_version (header rsp) \<noteq> ver then ret (-1)
     else if request_response_code (header rsp) \<noteq> SPDM_RSP_CAPABILITIES then ret (-1)
     else if ver = SPDM_VERSION_10 \<and> write_ptr (buffer rsp) \<noteq> 8 \<or>
             ver = SPDM_VERSION_11 \<and> write_ptr (buffer rsp) \<noteq> 8 \<or>
             ver = SPDM_VERSION_12 \<and> write_ptr (buffer rsp) \<noteq> 16 then ret (-1)
     else do {
       old \<leftarrow> gets (\<lambda>s. capabilities (remote (ctx s)));
       let b = snd (spdm_buffer_get_reserved (buffer rsp) 1);
       let (_, ct, b) = spdm_buffer_get_u8 b (ct_exponent old);
       let b = snd (spdm_buffer_get_reserved b 2);
       let (_, fl, b) = spdm_buffer_get_u32 b (flags old);
       upd_ctx (remote_update (capabilities_update (\<lambda>c. c\<lparr>ct_exponent := ct, flags := fl\<rparr>)));
       append_message_a P (buf_size (buffer req) + 4 + buf_size (buffer rsp) + 4) req rsp;
       spdm_context_update_m1m2_hash req rsp;
       ret 0
     }
   }"

definition algorithms_request :: "spdm_algorithms_info \<Rightarrow> field list" where
  "algorithms_request a =
     [F16 (alg_length a), F8 (measurement_spec_sel a), F8 (other_param_sel a), F32 (base_asym_sel a),
      F32 (base_hash_sel a), FReserved 12, F8 0, F8 0, FReserved 2]"

text \<open>The length field is patched in the block afterwards; without a block that is a store to the null pointer.\<close>

definition set_request_length :: "spdm_buffer \<Rightarrow> (attester, spdm_buffer) state" where
  "set_request_length b = (case data b of
     Some d \<Rightarrow> ret (b\<lparr>data := Some (overwrite d 0 (u16_bytes (of_nat (write_ptr b + 4))))\<rparr>)
   | None \<Rightarrow> do { undefined_behaviour; ret b })"

definition algorithms_accept :: "spdm_message \<Rightarrow> (spdm_algorithms_info \<Rightarrow> spdm_algorithms_info) option" where
  "algorithms_accept rsp = (
     let (_, len, b) = spdm_buffer_get_u16 (buffer rsp) 0 in
     if unat len \<noteq> write_ptr (buffer rsp) + 4 then None
     else let (_, spec, b) = spdm_buffer_get_u8 b 0 in
     if spec AND SPDM_MEASUREMENT_BLOCK_DMTF_SPEC = 0 then None
     else let b = snd (spdm_buffer_get_reserved b 1); (_, mhash, b) = spdm_buffer_get_u32 b 0 in
     if mhash AND SPDM_ALGORITHMS_MEAS_HASH_TPM_ALG_SHA_384 = 0 then None
     else let (_, asym, b) = spdm_buffer_get_u32 b 0 in
     if asym AND SPDM_ALGORITHMS_BASE_ALGO_TPM_ALG_ECDSA_ECC_NIST_P384 = 0 then None
     else let (_, hash, b) = spdm_buffer_get_u32 b 0 in
     if hash AND SPDM_ALGORITHMS_BASE_HASH_TPM_ALG_SHA_384 = 0 then None
     else Some (\<lambda>a. a\<lparr>alg_length := len, measurement_spec_sel := spec, measurement_hash_algo := mhash,
       base_asym_sel := asym, base_hash_sel := hash\<rparr>))"

definition spdm_negotiate_algorithms :: "spdm_env \<Rightarrow> (attester, int) state" where
  "spdm_negotiate_algorithms P = do {
     ver \<leftarrow> gets selected;
     alg \<leftarrow> gets (\<lambda>s. algorithms (local (ctx s)));
     b \<leftarrow> buffer_init P 28;
     b \<leftarrow> set_request_length (foldl put_field b (algorithms_request alg));
     let req = request ver SPDM_REQ_NEGOTIATE_ALGORITHMS 0 0 b;
     (st, rsp) \<leftarrow> spdm_send_request P req;
     if st \<noteq> 0 then ret (-1)
     else if spdm_version (header rsp) \<noteq> ver then ret (-1)
     else if request_response_code (header rsp) \<noteq> SPDM_RSP_ALGORITHMS then ret (-1)
     else if write_ptr (buffer rsp) < 28 then ret (-1)
     else case algorithms_accept rsp of
       None \<Rightarrow> ret (-1)
     | Some f \<Rightarrow> do {
         upd_ctx (remote_update (algorithms_update f));
         append_message_a P (write_ptr (buffer req) + 4 + write_ptr (buffer rsp) + 4) req rsp;
         spdm_context_update_m1m2_hash req rsp;
         ret 0
       }
   }"

section \<open>Digests\<close>

definition slots :: "u8 \<Rightarrow> nat list" where
  "slots slot_bits = filter (\<lambda>i. bit slot_bits i) [0 ..< 8]"

primrec store_digests :: "nat list \<Rightarrow> spdm_buffer \<Rightarrow> (attester, unit) state" where
  "store_digests [] b = ret ()"
| "store_digests (i # rest) b = (case spdm_buffer_get_array b 48 of (_, d, b') \<Rightarrow> do {
     upd_slot i (digest_update (\<lambda>old. case d of Some d \<Rightarrow> d | None \<Rightarrow> old));
     store_digests rest b'
   })"

definition spdm_get_digests :: "spdm_env \<Rightarrow> (attester, int) state" where
  "spdm_get_digests P = do {
     ver \<leftarrow> gets selected;
     let req = request ver SPDM_REQ_GET_DIGESTS 0 0 (snd (spdm_buffer_init True 0));
     (st, rsp) \<leftarrow> spdm_send_request P req;
     if st \<noteq> 0 then ret (-1)
     else if spdm_version (header rsp) \<noteq> ver then ret (-1)
     else if request_response_code (header rsp) \<noteq> SPDM_RSP_DIGESTS then ret (-1)
     else do {
       upd_ctx (remote_update (certificate_update (slot_mask_update (\<lambda>_. 0))));
       let slot_bits = param2 (header rsp);
       if write_ptr (buffer rsp) \<noteq> length (slots slot_bits) * 48 then ret (-1)
       else do {
         upd_ctx (remote_update (certificate_update (slot_mask_update (\<lambda>_. slot_bits))));
         store_digests (slots slot_bits) (buffer rsp);
         spdm_context_update_m1m2_hash req rsp;
         ret 0
       }
     }
   }"

section \<open>The certificate chain\<close>

text \<open>
  One round of the \<open>do ... while (ret == 0)\<close>, from the offset and whether the first portion is
  still to come. The first portion decides the size of the block; the recorded size is 16 bits
  wide. The portion is stored at \<open>offset\<close> of the block, whatever its size.
\<close>

definition store_portion :: "nat \<Rightarrow> nat \<Rightarrow> u8 list \<Rightarrow> (attester, unit) state" where
  "store_portion slot_id off bs = do {
     d \<leftarrow> gets (\<lambda>s. cert_data (slot s slot_id));
     case d of
       Some d \<Rightarrow> do {
         cwhen (length d < off + length bs) undefined_behaviour;
         upd_slot slot_id (cert_data_update (\<lambda>_. Some (take (length d) (overwrite d off bs))))
       }
     | None \<Rightarrow> undefined_behaviour
   }"

text \<open>What is left after a portion: the digest is compared once the device has no more to send.\<close>

definition end_portion :: "spdm_env \<Rightarrow> nat \<Rightarrow> u16 \<Rightarrow> u16 \<Rightarrow> (attester, (u16 \<times> bool, int) flow) state" where
  "end_portion P slot_id offset remainder_length =
     (if remainder_length = 0 then do {
        c \<leftarrow> gets (\<lambda>s. slot s slot_id);
        let bs = (case cert_data c of Some d \<Rightarrow> d | None \<Rightarrow> []);
        if sha384 P (memory_at P (unat (cert_size c)) bs) \<noteq> digest c then ret (Return (-1))
        else ret (Break (offset, False))
      }
      else ret (Continue (offset, False)))"

definition certificate_round :: "spdm_env \<Rightarrow> u8 \<Rightarrow> u16 \<times> bool \<Rightarrow> (attester, (u16 \<times> bool, int) flow) state" where
  "certificate_round P slot_id of' = (case of' of (offset, first_request) \<Rightarrow> do {
     ver \<leftarrow> gets selected;
     b \<leftarrow> buffer_init P 4;
     let req = request ver SPDM_REQ_GET_CERTIFICATE (slot_id AND 0x0F) 0 (foldl put_field b [F16 offset, F16 0xF0]);
     (st, rsp) \<leftarrow> spdm_send_request P req;
     if st \<noteq> 0 then ret (Return (-1))
     else if spdm_version (header rsp) \<noteq> ver then ret (Return (-1))
     else if request_response_code (header rsp) \<noteq> SPDM_RSP_CERTIFICATE then ret (Return (-1))
     else if write_ptr (buffer rsp) < 4 then ret (Return (-1))
     else do {
       let (_, portion_length, b) = spdm_buffer_get_u16 (buffer rsp) 0;
       let (_, remainder_length, b) = spdm_buffer_get_u16 b 0;
       if write_ptr (buffer rsp) \<noteq> unat portion_length + 4 then ret (Return (-1))
       else do {
         let n = unat portion_length + unat remainder_length;
         ok \<leftarrow> (if first_request then do {
             upd_slot (unat slot_id) (\<lambda>c. c\<lparr>cert_data := None, cert_size := portion_length + remainder_length\<rparr>);
             alloc \<leftarrow> spdm_malloc P n;
             cwhen alloc (upd_slot (unat slot_id) (cert_data_update (\<lambda>_. Some (memory_at P n []))));
             ret alloc
           } else ret True);
         if \<not> ok then ret (Return (-1))
         else do {
           let (_, bs, _) = spdm_buffer_get_array b (unat portion_length);
           store_portion (unat slot_id) (unat offset) (case bs of Some bs \<Rightarrow> bs | None \<Rightarrow> []);
           spdm_context_update_m1m2_hash req rsp;
           end_portion P (unat slot_id) (offset + portion_length) remainder_length
         }
       }
     }
   })"

text \<open>
  The chain that was received is cut into DER certificates by \<open>mbedtls_asn1_get_tag\<close>: the first
  is parsed, each further one is appended when the one before has issued it. A round carries the
  rest of the bytes, the chain so far and the last status; \<open>Return\<close> is the \<open>break\<close> of the code.
\<close>

definition chain_round :: "spdm_env \<Rightarrow> u8 list \<times> u8 list list \<times> bool \<times> int \<Rightarrow>
    (attester, (u8 list \<times> u8 list list \<times> bool \<times> int, int \<times> u8 list list) flow) state" where
  "chain_round P x = (case x of (rest, crts, first, st) \<Rightarrow>
     if rest = [] then ret (Return (st, crts))
     else let (st, hdr_len, asn1_len) = asn1_get_tag P rest in
       if st \<noteq> 0 then ret (Return (st, crts))
       else do {
         let cert = take (hdr_len + asn1_len) rest;
         let rest' = drop (hdr_len + asn1_len) rest;
         if first then
           (let st = x509_parse P cert in
            if st < 0 then ret (Return (st, crts)) else ret (Continue (rest', crts @ [cert], False, st)))
         else do {
           (st, crts) \<leftarrow> append_next_certificate P crts cert;
           if st \<noteq> 0 then ret (Return (st, crts)) else ret (Continue (rest', crts, False, st))
         }
       })"

text \<open>The trust anchor is the certificate of the manifest entry when there is one, or the built-in root.\<close>

definition trust_anchor :: "spdm_env \<Rightarrow> u8 list option \<Rightarrow> u8 list list" where
  "trust_anchor P private = (case private of
     Some cert \<Rightarrow> if cert = [] then system_root_ca P else if x509_parse P cert = 0 then [cert] else []
   | None \<Rightarrow> system_root_ca P)"

definition drop_certificate :: "nat \<Rightarrow> (attester, unit) state" where
  "drop_certificate slot_id = do {
     upd_slot slot_id (\<lambda>c. c\<lparr>cert_data := None, cert_size := 0, chain := []\<rparr>);
     upd_ctx (remote_update (certificate_update (slot_mask_update (\<lambda>m. m AND NOT (push_bit slot_id 1)))))
   }"

definition parse_chain :: "spdm_env \<Rightarrow> u8 list \<Rightarrow> (attester, int \<times> u8 list list) state" where
  "parse_chain P cert_chain = do {
     w \<leftarrow> c_while (length cert_chain + 1) (\<lambda>_. True) (chain_round P) (cert_chain, [], True, 0);
     case w of
       Return r \<Rightarrow> ret r
     | Break _ \<Rightarrow> ret (-1, [])
     | Continue _ \<Rightarrow> do { on_rot (modify (\<lambda>w. w\<lparr>diverged := True\<rparr>)); ret (-1, []) }
   }"

definition check_chain :: "spdm_env \<Rightarrow> nat \<Rightarrow> (attester, int) state" where
  "check_chain P slot_id = do {
     c \<leftarrow> gets (\<lambda>s. slot s slot_id);
     anchor \<leftarrow> gets (\<lambda>s. trust_anchor P (private_data (ctx s)));
     let bs = memory_at P (unat (cert_size c)) (case cert_data c of Some d \<Rightarrow> d | None \<Rightarrow> []);
     (st, crts) \<leftarrow> parse_chain P (drop (4 + 48) bs);
     upd_slot slot_id (chain_update (\<lambda>_. crts));
     let (st, fl) = (if st = 0 then x509_verify P crts anchor else (st, ucast (uninit (board P) 0)));
     if st < 0 \<or> fl \<noteq> 0 then do { drop_certificate slot_id; ret (-1) }
     else ret 0
   }"

definition spdm_get_certificate :: "spdm_env \<Rightarrow> nat \<Rightarrow> u8 \<Rightarrow> (attester, int) state" where
  "spdm_get_certificate P fuel slot_id = do {
     w \<leftarrow> c_while fuel (\<lambda>_. True) (certificate_round P slot_id) (0, True);
     case w of
       Return st \<Rightarrow> ret st
     | Break _ \<Rightarrow> check_chain P (unat slot_id)
     | Continue _ \<Rightarrow> do { on_rot (modify (\<lambda>w. w\<lparr>diverged := True\<rparr>)); ret (-1) }
   }"

section \<open>Challenge\<close>

definition spdm_challenge :: "spdm_env \<Rightarrow> u8 \<Rightarrow> u8 \<Rightarrow> (attester, int) state" where
  "spdm_challenge P slot_id measurements = do {
     ver \<leftarrow> gets selected;
     b \<leftarrow> buffer_init P 32;
     b \<leftarrow> spdm_buffer_append_nonce P b;
     let req = request ver SPDM_REQ_CHALLENGE slot_id measurements b;
     (st, rsp) \<leftarrow> spdm_send_request P req;
     if st \<noteq> 0 then ret (-1)
     else if spdm_version (header rsp) \<noteq> ver then ret (-1)
     else if request_response_code (header rsp) \<noteq> SPDM_RSP_CHALLENGE_AUTH then ret (-1)
     else if write_ptr (buffer rsp) < 48 + 32 + (if measurements \<noteq> 0 then 48 else 0) + 2 + 96 then ret (-1)
     else do {
       let bs = written (buffer rsp);
       let n = write_ptr (buffer rsp) - 96;
       spdm_context_update_m1m2_hash req (rsp\<lparr>buffer := (buffer rsp)\<lparr>write_ptr := n\<rparr>\<rparr>);
       hash \<leftarrow> gets (\<lambda>s. sha384 P (m1m2_context (ctx s)));
       spdm_context_reset_m1m2_hash;
       st \<leftarrow> spdm_crypto_verify P (unat slot_id) hash (drop n bs) (ver = SPDM_VERSION_12) SPDM_SIGN_CONTEXT_M1M2_RSP;
       ret (if st < 0 then -1 else st)
     }
   }"

section \<open>Measurements\<close>

text \<open>
  A measurement entry of the attestation manifest (\<open>AFM_DEVICE_MEASUREMENT_VALUE_v40\<close>) at a
  position of the manifest page.
\<close>

record afm_measurement =
  PossibleMeasurements :: u8
  ValueIndex :: u8
  ValueSize :: u16
  Values :: nat

definition afm_measurement_at :: "(nat \<Rightarrow> u8) \<Rightarrow> nat \<Rightarrow> afm_measurement" where
  "afm_measurement_at f p = \<lparr>PossibleMeasurements = f p, ValueIndex = f (p + 4),
     ValueSize = u16_of_bytes [f (p + 6), f (p + 7)], Values = p + 8\<rparr>"

text \<open>
  The comparison with the values of the entry: the preset index first, then all of them. The
  value is at the read position of the response, and as long as the manifest says.
\<close>

definition measurement_matches :: "(nat \<Rightarrow> u8) \<Rightarrow> afm_measurement \<Rightarrow> u8 list \<Rightarrow> bool" where
  "measurement_matches f m meas =
     (let n = unat (ValueSize m); value_at = (\<lambda>i. map f [Values m + n * i ..< Values m + n * i + n]) in
      meas = value_at (unat (ValueIndex m)) \<or>
      list_ex (\<lambda>i. meas = value_at i) [0 ..< unat (PossibleMeasurements m)])"

text \<open>The fields of the one measurement block of a response: the number of blocks, the value size, the rest.\<close>

definition measurement_block :: "spdm_buffer \<Rightarrow> u8 \<times> u16 \<times> spdm_buffer" where
  "measurement_block b = (
     let (_, number_of_blocks, b) = spdm_buffer_get_u8 b 0; (_, meas_record_len, b) = spdm_buffer_get_u24 b 0;
         (_, device_meas_index, b) = spdm_buffer_get_u8 b 0; (_, device_meas_spec, b) = spdm_buffer_get_u8 b 0;
         (_, device_meas_size, b) = spdm_buffer_get_u16 b 0; (_, device_meas_value_type, b) = spdm_buffer_get_u8 b 0;
         (_, device_meas_value_size, b) = spdm_buffer_get_u16 b 0
     in (number_of_blocks, device_meas_value_size, b))"

abbreviation "SPDM_MEASUREMENT_RESULT_OK \<equiv> 0 :: int"
abbreviation "SPDM_MEASUREMENT_RESULT_NOT_FOUND \<equiv> - 1 :: int"
abbreviation "SPDM_MEASUREMENT_RESULT_INVALID_SIG \<equiv> - 2 :: int"
abbreviation "SPDM_MEASUREMENT_RESULT_GET_FAILED \<equiv> - 3 :: int"
abbreviation "SPDM_MEASUREMENT_OPERATION_TOTAL_NUMBER \<equiv> 0x00 :: u8"
abbreviation "SPDM_MEASUREMENT_OPERATION_ALL_MEASUREMENTS \<equiv> 0xFF :: u8"

text \<open>
  The signed answer: the signature over the L1/L2 transcript is checked with the key of slot 0,
  then the one block is compared.
\<close>

definition signed_measurement :: "spdm_env \<Rightarrow> spdm_message \<Rightarrow> spdm_message \<Rightarrow> (nat \<Rightarrow> u8) \<Rightarrow> nat option \<Rightarrow> (attester, int) state" where
  "signed_measurement P req rsp f possible_measure = do {
     let bs = written (buffer rsp);
     let n = write_ptr (buffer rsp) - 96;
     let ver = spdm_version (header req);
     spdm_context_update_l1l2_hash req (rsp\<lparr>buffer := (buffer rsp)\<lparr>write_ptr := n\<rparr>\<rparr>);
     hash \<leftarrow> gets (\<lambda>s. sha384 P (l1l2_context (ctx s)));
     spdm_context_reset_l1l2_hash;
     cwhen (ver = SPDM_VERSION_12) (do {
       a \<leftarrow> gets (message_a \<circ> ctx);
       spdm_context_update_l1l2_hash_buffer a
     });
     st \<leftarrow> spdm_crypto_verify P 0 hash (drop n bs) (ver = SPDM_VERSION_12) SPDM_SIGN_CONTEXT_L1L2_RSP;
     if st < 0 then ret SPDM_MEASUREMENT_RESULT_INVALID_SIG
     else do {
       let (number_of_blocks, value_size, b) = measurement_block (buffer rsp);
       if number_of_blocks \<noteq> 1 then ret SPDM_MEASUREMENT_RESULT_NOT_FOUND
       else case possible_measure of
         None \<Rightarrow> ret st
       | Some p \<Rightarrow>
           let m = afm_measurement_at f p in
           if value_size \<noteq> ValueSize m then ret SPDM_MEASUREMENT_RESULT_NOT_FOUND
           else if measurement_matches f m (memory_at P (unat (ValueSize m)) (unread b)) then ret SPDM_MEASUREMENT_RESULT_OK
           else ret SPDM_MEASUREMENT_RESULT_NOT_FOUND
     }
   }"

text \<open>
  \<open>spdm_get_measurements\<close> answers its status and the number of blocks where it sets it. A
  request without the signature attribute compares nothing.
\<close>

definition spdm_get_measurements :: "spdm_env \<Rightarrow> u8 \<Rightarrow> u8 \<Rightarrow> (nat \<Rightarrow> u8) \<Rightarrow> nat option \<Rightarrow> (attester, int \<times> u8 option) state" where
  "spdm_get_measurements P request_attribute operation f possible_measure = do {
     ver \<leftarrow> gets selected;
     b \<leftarrow> buffer_init P 33;
     b \<leftarrow> (if request_attribute \<noteq> 0 then do {
         b \<leftarrow> spdm_buffer_append_nonce P b;
         ret (if ver = SPDM_VERSION_12 then snd (spdm_buffer_append_u8 b 0x01) else b)
       } else ret b);
     let req = request ver SPDM_REQ_GET_MEASUREMENTS request_attribute operation b;
     (st, rsp) \<leftarrow> spdm_send_request P req;
     if st \<noteq> 0 then ret (SPDM_MEASUREMENT_RESULT_GET_FAILED, None)
     else if spdm_version (header rsp) \<noteq> ver then ret (SPDM_MEASUREMENT_RESULT_NOT_FOUND, None)
     else if request_response_code (header rsp) \<noteq> SPDM_RSP_MEASUREMENTS then ret (SPDM_MEASUREMENT_RESULT_NOT_FOUND, None)
     else if write_ptr (buffer rsp) < 4 then ret (SPDM_MEASUREMENT_RESULT_NOT_FOUND, None)
     else do {
       let blocks = (if operation = SPDM_MEASUREMENT_OPERATION_TOTAL_NUMBER \<or>
           operation = SPDM_MEASUREMENT_OPERATION_ALL_MEASUREMENTS then Some (param1 (header rsp)) else None);
       if request_attribute = 0 then do {
         spdm_context_update_l1l2_hash req rsp;
         ret (SPDM_MEASUREMENT_RESULT_OK, blocks)
       }
       else if request_attribute = 1 then do {
         if write_ptr (buffer rsp) < 96 then ret (SPDM_MEASUREMENT_RESULT_NOT_FOUND, blocks)
         else do {
           st \<leftarrow> signed_measurement P req rsp f possible_measure;
           ret (st, blocks)
         }
       }
       else ret (SPDM_MEASUREMENT_RESULT_OK, blocks)
     }
   }"

end
