(* ===== verification/Spdm_Attest.thy ===== *)
theory Spdm_Attest
  imports Spdm_Request
begin

text \<open>
  The attester of \<open>SPDM/SPDMRequester.c\<close>: the attestation of one device against its entry of the
  attestation manifest, the event that a failure posts to the state machine, and one pass of the
  thread.
\<close>

section \<open>Attesting a device\<close>

abbreviation "ATTEST_SUCCEEDED \<equiv> 0 :: int"
abbreviation "ATTEST_FAILED_VCA \<equiv> 1 :: int"
abbreviation "ATTEST_FAILED_DIGEST \<equiv> 2 :: int"
abbreviation "ATTEST_FAILED_CERTIFICATE \<equiv> 3 :: int"
abbreviation "ATTEST_FAILED_CHALLENGE_AUTH \<equiv> 4 :: int"
abbreviation "ATTEST_FAILED_MEASUREMENTS_MISMATCH \<equiv> 5 :: int"

text \<open>
  The certificate of the first slot that can be got. The status is that of the last attempt, so
  without any slot it stays the one before the loop.
\<close>

fun try_slots :: "spdm_env \<Rightarrow> nat \<Rightarrow> nat list \<Rightarrow> int \<Rightarrow> (attester, int \<times> u8) state" where
  "try_slots P fuel [] st = ret (st, 0)"
| "try_slots P fuel (i # rest) st = do {
     m \<leftarrow> gets (\<lambda>s. slot_mask (certificate (remote (ctx s))));
     if bit m i then do {
       st \<leftarrow> spdm_get_certificate P fuel (of_nat i);
       if st \<noteq> 0 then try_slots P fuel rest st else ret (st, of_nat i)
     }
     else try_slots P fuel rest st
   }"

abbreviation "MEASUREMENT_PAYLOAD_SIZE \<equiv> 8 :: nat"

text \<open>
  A round of the measurement loop: the number of entries matched so far, the block asked last
  and the entry to match next. \<open>Return True\<close> when the last entry has matched.
\<close>

definition measurement_round :: "spdm_env \<Rightarrow> u8 \<Rightarrow> (nat \<Rightarrow> u8) \<Rightarrow> u8 \<Rightarrow> u8 \<times> u8 \<times> nat \<Rightarrow>
    (attester, (u8 \<times> u8 \<times> nat, bool) flow) state" where
  "measurement_round P request_attribute f expected x = (case x of (afm_index, meas_index, p) \<Rightarrow>
     if meas_index + 1 = SPDM_MEASUREMENT_OPERATION_ALL_MEASUREMENTS then ret (Return False)
     else do {
       (st, _) \<leftarrow> spdm_get_measurements P request_attribute (meas_index + 1) f (Some p);
       if st = 0 then
         (if afm_index + 1 = expected then ret (Return True)
          else let m = afm_measurement_at f p in
            ret (Continue (afm_index + 1, meas_index + 1,
              p + MEASUREMENT_PAYLOAD_SIZE + unat (ValueSize m) * unat (PossibleMeasurements m))))
       else if st = -1 then ret (Continue (afm_index, meas_index + 1, p))
       else ret (Return False)
     })"

definition measure_device :: "spdm_env \<Rightarrow> (nat \<Rightarrow> u8) \<Rightarrow> u8 \<Rightarrow> nat \<Rightarrow> (attester, int) state" where
  "measure_device P f expected measurements = do {
     spdm_context_reset_l1l2_hash;
     ver \<leftarrow> gets selected;
     cwhen (ver = SPDM_VERSION_12) (do {
       a \<leftarrow> gets (message_a \<circ> ctx);
       spdm_context_update_l1l2_hash_buffer a
     });
     (st, n) \<leftarrow> spdm_get_measurements P 0 SPDM_MEASUREMENT_OPERATION_TOTAL_NUMBER f None;
     if st \<noteq> 0 \<or> (case n of Some n \<Rightarrow> n | None \<Rightarrow> 0) < expected then ret ATTEST_FAILED_MEASUREMENTS_MISMATCH
     else do {
       cap \<leftarrow> gets (\<lambda>s. flags (capabilities (remote (ctx s))));
       let request_attribute = (if cap AND SPDM_MEAS_CAP_SIG \<noteq> 0 then 1 else 0);
       w \<leftarrow> c_while 256 (\<lambda>x. expected \<noteq> fst x) (measurement_round P request_attribute f expected) (0, 0, measurements);
       ret (if w = Return True then ATTEST_SUCCEEDED else ATTEST_FAILED_MEASUREMENTS_MISMATCH)
     }
   }"

definition spdm_attest_device :: "spdm_env \<Rightarrow> nat \<Rightarrow> (nat \<Rightarrow> u8) \<Rightarrow> u8 \<Rightarrow> nat \<Rightarrow> (attester, int) state" where
  "spdm_attest_device P fuel f expected measurements = do {
     st \<leftarrow> spdm_get_version P;
     if st < 0 then ret ATTEST_FAILED_VCA
     else do {
       st \<leftarrow> spdm_get_capabilities P;
       if st < 0 then ret ATTEST_FAILED_VCA
       else do {
         st \<leftarrow> spdm_negotiate_algorithms P;
         if st < 0 then ret ATTEST_FAILED_VCA
         else do {
           cap \<leftarrow> gets (\<lambda>s. flags (capabilities (remote (ctx s))));
           if cap AND SPDM_CERT_CAP = 0 then ret st
           else do {
             st \<leftarrow> spdm_get_digests P;
             if st \<noteq> 0 then ret ATTEST_FAILED_DIGEST
             else do {
               (st, working_slot) \<leftarrow> try_slots P fuel [0 ..< 8] st;
               if st \<noteq> 0 then ret ATTEST_FAILED_CERTIFICATE
               else do {
                 st \<leftarrow> spdm_challenge P working_slot 0x00;
                 if st < 0 then ret ATTEST_FAILED_CHALLENGE_AUTH
                 else measure_device P f expected measurements
               }
             }
           }
         }
       }
     }
   }"

section \<open>The entry of the manifest\<close>

abbreviation "afm_dev_idx_bmc \<equiv> 2 :: nat"
abbreviation "afm_dev_idx_onboard_first \<equiv> 3 :: nat"
abbreviation "afm_dev_idx_addon_first \<equiv> 17 :: nat"
abbreviation "MAX_DEVICES \<equiv> 33 :: nat"
abbreviation "DEVICE_OFFSET \<equiv> 0x2000 :: u32"

definition afm_flash_id :: "nat \<Rightarrow> u8" where
  "afm_flash_id dev_idx = (if dev_idx < afm_dev_idx_onboard_first then ROT_INTERNAL_AFM
     else if dev_idx < afm_dev_idx_addon_first then ROT_EXT_AFM_ACT_1 else ROT_EXT_AFM_ACT_2)"

definition afm_sig_offset :: "pfr_manifest \<Rightarrow> u32" where
  "afm_sig_offset m = (if hash_curve m = hash_sign_algo384 \<or> hash_curve m = hash_sign_algo256
     then LMS_PFM_SIG_BLOCK_SIZE else PFM_SIG_BLOCK_SIZE)"

text \<open>
  The index inside the partition starts again with the CPU, the on-board and the add-on devices;
  a partition without the block 0 tag at the place of the device has no entry for it.
\<close>

definition afm_partition_index :: "nat \<Rightarrow> u32" where
  "afm_partition_index dev_idx = of_nat (if dev_idx < afm_dev_idx_onboard_first then dev_idx
     else if dev_idx < afm_dev_idx_addon_first then 1 + (dev_idx - afm_dev_idx_onboard_first)
     else dev_idx - afm_dev_idx_addon_first)"

definition retrieve_afm_list :: "env \<Rightarrow> (world, int) state" where
  "retrieve_afm_list E = do {
     off \<leftarrow> gets (afm_sig_offset \<circ> manifest);
     for_each [0 ..< MAX_DEVICES] (\<lambda>dev_idx. do {
       let a = afm_partition_index dev_idx * DEVICE_OFFSET;
       (st, magic_num) \<leftarrow> pfr_spi_read E (afm_flash_id dev_idx) a 4;
       modify (\<lambda>s. s\<lparr>afm_list := (afm_list s)(dev_idx :=
         if st \<noteq> 0 then 0 else if u32_of_bytes magic_num = BLOCK0TAG then a + off else 0)\<rparr>)
     });
     ret 0
   }"

definition read_afm_dev_info :: "env \<Rightarrow> nat \<Rightarrow> (world, int \<times> u8 list) state" where
  "read_afm_dev_info E dev_idx = do {
     off \<leftarrow> gets (afm_sig_offset \<circ> manifest);
     a \<leftarrow> gets (\<lambda>s. afm_list s dev_idx);
     let dev = afm_flash_id dev_idx;
     valid \<leftarrow> (if afm_dev_idx_bmc < dev_idx then do {
         upd_manifest (image_type_update (\<lambda>_. ucast dev));
         validate_region_data E (a - off)
       } else ret True);
     if \<not> valid then ret (-1, [])
     else do {
       (st, bs) \<leftarrow> pfr_spi_read E dev a DEVICE_OFFSET;
       if st \<noteq> 0 then ret (-1, []) else ret (0, bs)
     }
   }"

text \<open>
  \<open>AFM_DEVICE_STRUCTURE_v40\<close>: the first part has a fixed layout of 82 bytes; then the public
  key, the certificate and the measurements follow one another.
\<close>

record afm_device =
  BusID :: u8
  DeviceAddress :: u8
  BindingSpec :: u8
  Policy :: u8

definition afm_device_of :: "(nat \<Rightarrow> u8) \<Rightarrow> afm_device" where
  "afm_device_of f = \<lparr>BusID = f 46, DeviceAddress = f 47, BindingSpec = f 48, Policy = f 51\<rparr>"

record afm_info =
  PublicKeySize :: u16
  Certificate :: "u8 list"
  TotalMeasurements :: u8
  Measurements :: nat

definition afm_u16 :: "(nat \<Rightarrow> u8) \<Rightarrow> nat \<Rightarrow> u16" where
  "afm_u16 f p = u16_of_bytes [f p, f (p + 1)]"

text \<open>
  The two halves of the key are \<open>PublicKeySize / 2\<close> bytes each, a length held in 8 bits.
\<close>

definition map_afm_info :: "(nat \<Rightarrow> u8) \<Rightarrow> int \<times> afm_info option" where
  "map_afm_info f = (
     let key_size = afm_u16 f 82 in
     if odd (unat key_size) then (-1, None)
     else let module_len = unat (ucast (key_size div 2) :: u8);
          p = 82 + 2 + module_len + module_len + 4 + 2;
          cert_len = unat (afm_u16 f p);
          q = p + 2 + cert_len in
     (0, Some \<lparr>PublicKeySize = key_size, Certificate = map f [p + 2 ..< q], TotalMeasurements = f q,
       Measurements = q + 4\<rparr>))"

section \<open>The outcome\<close>

abbreviation "SPDM_REQ_EVT_ENABLE \<equiv> 0x01 :: u32"
abbreviation "SPDM_REQ_EVT_T0 \<equiv> 0x02 :: u32"
abbreviation "SPDM_REQ_EVT_TICK \<equiv> 0x04 :: u32"
abbreviation "SPDM_REQ_EVT_T0_I3C \<equiv> 0x08 :: u32"
abbreviation "SPDM_REQ_EVT_ATTESTED_CPU \<equiv> 0x10 :: u32"

definition osEventFlagsSet :: "u32 \<Rightarrow> (attester, unit) state" where
  "osEventFlagsSet b = modify (\<lambda>s. s\<lparr>spdm_attester_event := spdm_attester_event s OR b\<rparr>)"

definition osEventFlagsClear :: "u32 \<Rightarrow> (attester, unit) state" where
  "osEventFlagsClear b = modify (\<lambda>s. s\<lparr>spdm_attester_event := spdm_attester_event s AND NOT b\<rparr>)"

text \<open>The error codes and the policy bit of each failure.\<close>

fun failure_report :: "int \<Rightarrow> (u8 \<times> u8 \<times> u8) option" where
  "failure_report st =
     (if st = ATTEST_FAILED_VCA then Some (7, 1, 0x04)
      else if st = ATTEST_FAILED_DIGEST then Some (6, 2, 0x02)
      else if st = ATTEST_FAILED_CERTIFICATE then Some (6, 3, 0x02)
      else if st = ATTEST_FAILED_CHALLENGE_AUTH then Some (6, 4, 0x02)
      else if st = ATTEST_FAILED_MEASUREMENTS_MISMATCH then Some (5, 5, 0x01)
      else None)"

definition report_attestation :: "env \<Rightarrow> nat \<Rightarrow> afm_device \<Rightarrow> int \<Rightarrow> (world, unit) state" where
  "report_attestation E device dev st = (case failure_report st of
     Some (major_err, minor_err, lock_bit) \<Rightarrow> do {
       LogErrorCodes E major_err minor_err;
       cwhen (Policy dev AND lock_bit \<noteq> 0)
         (GenerateStateMachineEvent E ATTESTATION_FAILED
            (of_nat device, BindingSpec dev, Policy dev, word_of_int st))
     }
   | None \<Rightarrow> ret ())"

definition init_requester_context :: "spdm_env \<Rightarrow> u8 \<Rightarrow> u8 \<Rightarrow> u8 \<Rightarrow> (attester, bool) state" where
  "init_requester_context P med b dst_sa = spdm_mctp_init_req P med b dst_sa 0"

text \<open>The page of the manifest as a function of the offset; behind it is whatever memory holds.\<close>

definition page_at :: "spdm_env \<Rightarrow> u8 list \<Rightarrow> nat \<Rightarrow> u8" where
  "page_at P bs i = (if i < length bs then bs ! i else uninit (board P) i)"

text \<open>
  The slots of the context as memory has them are \<open>junk\<close>. An odd key size leaves the entry
  unset although the code goes on with it.
\<close>

definition spdm_attestation_handle :: "spdm_env \<Rightarrow> nat \<Rightarrow> nat \<Rightarrow> u32 \<Rightarrow> (attester, unit) state" where
  "spdm_attestation_handle P fuel device events = do {
     (st, bs) \<leftarrow> on_rot (read_afm_dev_info (board P) device);
     if st \<noteq> 0 then ret ()
     else do {
       let f = page_at P bs;
       let dev = afm_device_of f;
       if events AND SPDM_REQ_EVT_T0_I3C = 0 \<and> BindingSpec dev = SPDM_MEDIUM_I3C then ret ()
       else do {
         alloc \<leftarrow> allocate P MallocContext;
         if \<not> alloc then ret ()
         else do {
           upd_ctx spdm_context_create;
           ready \<leftarrow> init_requester_context P (BindingSpec dev) (BusID dev) (DeviceAddress dev);
           cwhen ready (do {
             info \<leftarrow> (case snd (map_afm_info f) of
                 Some info \<Rightarrow> ret info
               | None \<Rightarrow> do {
                   undefined_behaviour;
                   ret \<lparr>PublicKeySize = afm_u16 f 82, Certificate = [], TotalMeasurements = uninit (board P) 0, Measurements = 0\<rparr>
                 });
             upd_ctx (private_data_update (\<lambda>_. Some (Certificate info)));
             st \<leftarrow> spdm_attest_device P fuel f (TotalMeasurements info) (Measurements info);
             cwhen (CONFIG_PFR_MCTP_I3C (board P) \<and> BindingSpec dev = SPDM_MEDIUM_I3C)
               (if st = ATTEST_SUCCEEDED then osEventFlagsSet SPDM_REQ_EVT_ATTESTED_CPU
                else osEventFlagsClear SPDM_REQ_EVT_ATTESTED_CPU);
             on_rot (report_attestation (board P) device dev st)
           })
         }
       }
     }
   }"

section \<open>The thread\<close>

abbreviation "ATTESTATION_PERIOD \<equiv> 600 :: u16"
abbreviation "ATTESTATION_DURATION \<equiv> 60 :: u16"
abbreviation "HEARTBEAT_PERIOD \<equiv> 60 :: u16"

text \<open>The devices in turn, until \<open>spdm_stop_attester\<close> has cleared the T0 flag.\<close>

fun attest_devices :: "spdm_env \<Rightarrow> nat \<Rightarrow> nat list \<Rightarrow> (attester, unit) state" where
  "attest_devices P fuel [] = ret ()"
| "attest_devices P fuel (device # rest) = do {
     events \<leftarrow> gets spdm_attester_event;
     if events AND SPDM_REQ_EVT_T0 = 0 then ret ()
     else do {
       a \<leftarrow> gets (\<lambda>s. afm_list (rot s) device);
       cwhen (a \<noteq> 0) (spdm_attestation_handle P fuel device events);
       attest_devices P fuel rest
     }
   }"

text \<open>
  A pass of \<open>spdm_attester_main\<close>, from the moment the thread is woken with the tick, T0 and
  enable flags set. Only every so many ticks attest; a failure to open the partition leaves the
  tick set.
\<close>

definition spdm_attester_pass :: "spdm_env \<Rightarrow> nat \<Rightarrow> (attester, unit) state" where
  "spdm_attester_pass P fuel = do {
     count \<leftarrow> gets attestation_count;
     if count < ATTESTATION_PERIOD then do {
       modify (\<lambda>s. s\<lparr>attestation_count := count + HEARTBEAT_PERIOD\<rparr>);
       osEventFlagsClear SPDM_REQ_EVT_TICK
     }
     else do {
       modify (\<lambda>s. s\<lparr>attestation_count := 0\<rparr>);
       (st, _) \<leftarrow> spdm_ext P FlashAreaOpen;
       if st \<noteq> 0 then ret ()
       else do {
         attest_devices P fuel [0 ..< MAX_DEVICES];
         osEventFlagsClear SPDM_REQ_EVT_TICK
       }
     }
   }"

definition spdm_request_tick :: "(attester, unit) state" where
  "spdm_request_tick = osEventFlagsSet SPDM_REQ_EVT_TICK"

definition spdm_enable_attester :: "(attester, unit) state" where
  "spdm_enable_attester = osEventFlagsSet SPDM_REQ_EVT_ENABLE"

definition spdm_run_attester_i3c :: "(attester, unit) state" where
  "spdm_run_attester_i3c = do {
     osEventFlagsSet SPDM_REQ_EVT_T0_I3C;
     spdm_request_tick
   }"

definition spdm_stop_attester :: "spdm_env \<Rightarrow> (attester, unit) state" where
  "spdm_stop_attester P = do {
     spdm_ext P AttesterTimerStop;
     osEventFlagsClear SPDM_REQ_EVT_T0
   }"

definition spdm_run_attester :: "spdm_env \<Rightarrow> (attester, unit) state" where
  "spdm_run_attester P = do {
     event \<leftarrow> gets spdm_attester_event;
     if event AND SPDM_REQ_EVT_ENABLE = 0 then ret ()
     else cwhen (event AND SPDM_REQ_EVT_T0 = 0) (do {
       on_rot (retrieve_afm_list (board P));
       osEventFlagsSet SPDM_REQ_EVT_T0;
       spdm_ext P (AttesterTimerStart ATTESTATION_DURATION HEARTBEAT_PERIOD);
       ret ()
     })
   }"

end
