(* ===== verification/Spdm_Views.thy ===== *)
theory Spdm_Views
  imports Spdm_Attest
begin

text \<open>
  What the requests leave alone, and that the exchange with the device is only ever extended.
  \<open>session K\<close> says that an operation keeps the view \<open>K\<close> of the attester and extends the trace. The
  locale \<open>spdm_view\<close> proves it for every request that touches neither the capabilities nor the
  certificates; its extensions add the capabilities and the slots.
\<close>

definition session :: "(attester \<Rightarrow> 'k) \<Rightarrow> attester \<Rightarrow> attester \<Rightarrow> bool" where
  "session K s t \<longleftrightarrow> K t = K s \<and> prefix (spdm_trace s) (spdm_trace t)"

interpretation sess: frame_rel "session K" for K
proof
  show "session K s s" for s by (simp add: session_def)
  show "session K s u" if "session K s t" "session K t u" for s t u
    using that by (auto simp: session_def intro: prefix_order.trans)
qed

lemma sessionD:
  assumes "state_io_rel (session K) m"
  shows "K (exec m s) = K s" and "prefix (spdm_trace s) (spdm_trace (exec m s))"
  using assms by (auto simp: state_io_rel_def session_def)

lemma session_mono:
  "state_io_rel (session K) m \<Longrightarrow> (\<And>s t. K s = K t \<Longrightarrow> K' s = K' t) \<Longrightarrow> state_io_rel (session K') m"
  by (erule frame_mono) (metis session_def)

named_theorems sess \<open>operations that keep the view and extend the exchange\<close>

locale spdm_view =
  fixes K :: "attester \<Rightarrow> 'k"
  assumes K_trace: "K (s\<lparr>spdm_trace := tr\<rparr>) = K s" and K_flags: "K (s\<lparr>rot := (rot s)\<lparr>oob := x\<rparr>\<rparr>) = K s"
      "K (s\<lparr>rot := (rot s)\<lparr>diverged := x\<rparr>\<rparr>) = K s"
    and K_transcripts: "K (s\<lparr>ctx := m1m2_context_update h (ctx s)\<rparr>) = K s"
      "K (s\<lparr>ctx := l1l2_context_update h (ctx s)\<rparr>) = K s" "K (s\<lparr>ctx := message_a_update b (ctx s)\<rparr>) = K s"
    and K_vca: "K (s\<lparr>ctx := local_update (version_update v) (ctx s)\<rparr>) = K s"
      "K (s\<lparr>ctx := remote_update (version_update v) (ctx s)\<rparr>) = K s"
      "K (s\<lparr>ctx := remote_update (algorithms_update a) (ctx s)\<rparr>) = K s"
    and K_digests: "K (s\<lparr>ctx := remote_update (certificate_update (slot_mask_update m)) (ctx s)\<rparr>) = K s"
      "K (s\<lparr>ctx := remote_update (certificate_update (certs_update (\<lambda>cs. cs[i := digest_update d (cs ! i)]))) (ctx s)\<rparr>) = K s"
begin

lemma ext_sess: "state_io_rel (session K) (spdm_ext P c)"
  by (simp add: state_io_rel_def session_def K_trace)

lemma on_rot_sess:
  "(\<And>s. K (s\<lparr>rot := f (rot s)\<rparr>) = K s) \<Longrightarrow> state_io_rel (session K) (on_rot (modify f))"
  by (simp add: state_io_rel_def session_def)

lemma modify_sess:
  "(\<And>s. K (f s) = K s) \<Longrightarrow> (\<And>s. spdm_trace (f s) = spdm_trace s) \<Longrightarrow> state_io_rel (session K) (modify f)"
  by (simp add: state_io_rel_def session_def)

lemmas sess_intros = sess.keeps_return sess.keeps_bind sess.keeps_gets sess.keeps_cwhen sess.keeps_if
  sess.keeps_prod sess.keeps_let sess.keeps_option sess.keeps_flow sess.keeps_c_while ext_sess on_rot_sess modify_sess

lemmas K_simps = K_trace K_flags K_transcripts K_vca K_digests

lemma memory_sess [sess]:
  "state_io_rel (session K) (allocate P c)"
  "state_io_rel (session K) undefined_behaviour"
  "state_io_rel (session K) (buffer_init P n)"
  "state_io_rel (session K) (buffer_resize P b n)"
  "state_io_rel (session K) (spdm_buffer_append_nonce P b)"
  "state_io_rel (session K) (set_request_length b)"
  unfolding allocate_def undefined_behaviour_def buffer_init_def buffer_resize_def spdm_buffer_append_nonce_def
    set_request_length_def
  by (intro sess_intros sess; simp add: K_simps)+

lemma transcript_sess [sess]:
  "state_io_rel (session K) spdm_context_reset_m1m2_hash"
  "state_io_rel (session K) (spdm_context_update_m1m2_hash a b)"
  "state_io_rel (session K) spdm_context_reset_l1l2_hash"
  "state_io_rel (session K) (spdm_context_update_l1l2_hash a b)"
  "state_io_rel (session K) (spdm_context_update_l1l2_hash_buffer c)"
  "state_io_rel (session K) (append_message_a P n a b)"
  unfolding spdm_context_reset_m1m2_hash_def spdm_context_update_m1m2_hash_def spdm_context_reset_l1l2_hash_def
    spdm_context_update_l1l2_hash_def spdm_context_update_l1l2_hash_buffer_def append_message_a_def
  by (intro sess_intros sess; simp add: K_simps)+

lemma request_sess [sess]:
  "state_io_rel (session K) (spdm_mctp_send_recv P conn req)"
  "state_io_rel (session K) (spdm_send_request P req)"
  unfolding spdm_send_request_def spdm_mctp_send_recv_def by (intro sess_intros sess)+

lemma entries_sess [sess]: "state_io_rel (session K) (version_entries n i b)"
  by (induction n arbitrary: i b) (auto intro!: sess_intros sess simp: K_simps)

lemma digests_sess [sess]: "state_io_rel (session K) (store_digests is b)"
  by (induction "is" arbitrary: b) (auto intro!: sess_intros sess simp: K_simps)

lemma verify_sess [sess]:
  "state_io_rel (session K) (ecdsa_check P crts h sg)"
  "state_io_rel (session K) (spdm_crypto_verify P i h sg v c)"
  "state_io_rel (session K) (append_next_certificate P crts cert)"
  "state_io_rel (session K) (chain_round P x)"
  "state_io_rel (session K) (parse_chain P bs)"
  unfolding parse_chain_def ecdsa_check_def spdm_crypto_verify_def append_next_certificate_def chain_round_def
  by (intro sess_intros sess; simp add: K_simps)+

lemma signed_sess [sess]: "state_io_rel (session K) (signed_measurement P req rsp f p)"
  unfolding signed_measurement_def by (intro sess_intros sess)

lemma commands_sess [sess]:
  "state_io_rel (session K) (spdm_get_version P)"
  "state_io_rel (session K) (spdm_negotiate_algorithms P)"
  "state_io_rel (session K) (spdm_get_digests P)"
  "state_io_rel (session K) (spdm_challenge P i m)"
  "state_io_rel (session K) (spdm_get_measurements P a op f p)"
  unfolding spdm_get_version_def spdm_negotiate_algorithms_def spdm_get_digests_def spdm_challenge_def
    spdm_get_measurements_def
  by (intro sess_intros sess; simp add: K_simps)+

lemma measure_sess [sess]:
  "state_io_rel (session K) (measurement_round P a f n x)"
  "state_io_rel (session K) (measure_device P f n p)"
  unfolding measurement_round_def measure_device_def by (intro sess_intros sess; simp add: K_simps)+

end

text \<open>A view that the capabilities of the device do not enter, and one that a slot does not enter.\<close>

locale caps_view = spdm_view +
  assumes K_caps: "K (s\<lparr>ctx := remote_update (capabilities_update c) (ctx s)\<rparr>) = K s"
begin

lemma capabilities_sess [sess]: "state_io_rel (session K) (spdm_get_capabilities P)"
  unfolding spdm_get_capabilities_def by (intro sess_intros sess; simp add: K_simps K_caps)

end

locale cert_view = spdm_view +
  fixes i :: nat
  assumes K_cert: "K (s\<lparr>ctx := remote_update (certificate_update (certs_update (\<lambda>cs. cs[i := g cs]))) (ctx s)\<rparr>) = K s"
begin

lemma portion_sess [sess]:
  "state_io_rel (session K) (store_portion i off bs)"
  "state_io_rel (session K) (end_portion P i k n)"
  "state_io_rel (session K) (drop_certificate i)"
  "state_io_rel (session K) (check_chain P i)"
  unfolding store_portion_def end_portion_def drop_certificate_def check_chain_def
  by (intro sess_intros sess; simp add: K_simps K_cert)+

lemma certificate_sess [sess]:
  assumes "i = unat slot_id"
  shows "state_io_rel (session K) (certificate_round P slot_id x)"
    and "state_io_rel (session K) (spdm_get_certificate P fuel slot_id)"
  using K_cert unfolding certificate_round_def spdm_get_certificate_def assms [symmetric]
  by (intro sess_intros sess; simp add: K_simps K_cert)+

end

text \<open>A view that the bytes of a certificate do not enter.\<close>

locale data_view = spdm_view +
  assumes K_data: "K (s\<lparr>ctx := remote_update (certificate_update (certs_update (\<lambda>cs. cs[i := cert_data_update d (cs ! i)]))) (ctx s)\<rparr>) = K s"
    "K (s\<lparr>ctx := remote_update (certificate_update (certs_update (\<lambda>cs. cs[i := (cs ! i)\<lparr>cert_data := None, cert_size := n\<rparr>]))) (ctx s)\<rparr>) = K s"
begin

lemma store_portion_sess [sess]: "state_io_rel (session K) (store_portion i off bs)"
  unfolding store_portion_def by (intro sess_intros sess; simp add: K_simps K_data)

lemma end_portion_sess [sess]: "state_io_rel (session K) (end_portion P i k n)"
  unfolding end_portion_def by (intro sess_intros sess)

lemma round_sess [sess]: "state_io_rel (session K) (certificate_round P slot_id x)"
  unfolding certificate_round_def by (intro sess_intros sess; simp add: K_simps K_data)

end

section \<open>The views\<close>

definition slot_chains :: "attester \<Rightarrow> u8 list list list" where
  "slot_chains s = map chain (certs (certificate (remote (ctx s))))"

lemma same_slot [simp]: "(map f cs)[i := f (cs ! i)] = map f cs"
  by (metis list_update_beyond list_update_id not_le nth_map length_map)

lemma chains_digest:
  "map chain (cs[i := digest_update d (cs ! i)]) = map chain cs"
  by (simp add: map_update)

abbreviation remote_flags :: "attester \<Rightarrow> u32" where
  "remote_flags s \<equiv> flags (capabilities (remote (ctx s)))"

abbreviation link :: "attester \<Rightarrow> spdm_connection option \<times> u8 list option" where
  "link s \<equiv> (connection_data (ctx s), private_data (ctx s))"

text \<open>Everything that decides whom the attester trusts; the same without the capabilities; without a slot.\<close>

interpretation whole: data_view "\<lambda>s. (slot_chains s, remote_flags s, link s)"
  by unfold_locales (simp_all add: slot_chains_def chains_digest map_update)

interpretation but_caps: caps_view "\<lambda>s. (slot_chains s, link s)"
  by unfold_locales (simp_all add: slot_chains_def chains_digest)

interpretation but_slot: cert_view "\<lambda>s. (length (slot_chains s), (slot_chains s)[i := []], remote_flags s, link s)" i for i
  by unfold_locales (simp_all add: slot_chains_def chains_digest map_update)

end
