(* ===== verification/Spdm_Evidence.thy ===== *)
theory Spdm_Evidence
  imports Spdm_Views
begin

text \<open>
  What a successful attestation rests on. The laws say what is documented of the heap and of
  mbedtls; the device is arbitrary. From the exchange it is recovered that the challenge and
  each measurement were signed by the key of a certificate chain that ends in the trust anchor,
  and that each entry of the manifest was matched by a signed measurement.
\<close>

section \<open>Laws\<close>

text \<open>
  A reply fits in memory and the heap never hands out two gigabytes; mbedtls answers 0 or a
  negative code.
\<close>

definition memory_ok :: "spdm_env \<Rightarrow> bool" where
  "memory_ok P \<longleftrightarrow> (\<forall>tr c. length (snd (peer P tr c)) < 2 ^ 31) \<and>
     (\<forall>tr n. 2 ^ 31 \<le> n \<longrightarrow> fst (peer P tr (SpdmMalloc n)) = 0)"

definition mbedtls_codes :: "spdm_env \<Rightarrow> bool" where
  "mbedtls_codes P \<longleftrightarrow> (\<forall>bs. fst (asn1_get_tag P bs) \<le> 0) \<and> (\<forall>c. x509_parse P c \<le> 0) \<and>
     (\<forall>cs a. fst (x509_verify P cs a) \<le> 0) \<and> (\<forall>c h r s. ecdsa_verify P c h r s \<le> 0)"

section \<open>One exchange\<close>

lemma header_round_trip [simp]: "length h = 4 \<Longrightarrow> header_bytes (header_of_bytes h) = h"
  by (auto simp: header_bytes_def header_of_bytes_def numeral_eq_Suc length_Suc_conv)

text \<open>A buffer that was filled with \<open>bs\<close> and not read yet.\<close>

definition full_of :: "spdm_buffer \<Rightarrow> u8 list \<Rightarrow> bool" where
  "full_of b bs \<longleftrightarrow> b = \<lparr>buf_size = length bs, write_ptr = length bs, read_ptr = 0, data = Some bs\<rparr>"

lemma full_ofD:
  assumes "full_of b bs"
  shows "written b = bs" and "unread b = bs" and "write_ptr b = length bs" and "wf_buffer b"
    and "written (b\<lparr>write_ptr := n\<rparr>) = take n bs"
  using assms by (auto simp: full_of_def written_def unread_def wf_buffer_def)

definition exchanged :: "spdm_trace \<Rightarrow> u8 list \<Rightarrow> u8 list \<Rightarrow> bool" where
  "exchanged tr req rsp \<longleftrightarrow> (\<exists>conn t. (IssueRequest conn (0x05 # req), (0, t # rsp)) \<in> set tr)"

lemma exchanged_mono: "exchanged tr req rsp \<Longrightarrow> prefix tr tr' \<Longrightarrow> exchanged tr' req rsp"
  unfolding exchanged_def using set_mono_prefix by blast

lemma run_buffer_init:
  "n > 0 \<Longrightarrow> result (buffer_init P n) s = snd (spdm_buffer_init (fst (peer P (spdm_trace s) (SpdmMalloc n)) \<noteq> 0) n)"
  by (simp add: buffer_init_def allocate_def case_prod_beta)

lemma send_request_exchanged:
  assumes mem: "memory_ok P" and res: "result (spdm_send_request P req) s = (0, rsp)" and bytes: "0 < write_ptr (buffer rsp)"
  shows "\<exists>hdr bs. length hdr = 4 \<and> header rsp = header_of_bytes hdr \<and> full_of (buffer rsp) bs \<and>
    exchanged (spdm_trace (exec (spdm_send_request P req) s)) (message_bytes req) (hdr @ bs)"
proof (cases "connection_data (ctx s)")
  case None
  then show ?thesis
    using res bytes by (auto simp: spdm_send_request_def case_prod_beta undefined_behaviour_def spdm_buffer_init_def)
next
  case (Some conn)
  define c where "c = IssueRequest conn (0x05 # message_bytes req)"
  define r where "r = snd (peer P (spdm_trace s) c)"
  define n where "n = payload_length r"
  define s1 where "s1 = s\<lparr>spdm_trace := spdm_trace s @ [(c, peer P (spdm_trace s) c)]\<rparr>"
  define b where "b = result (buffer_init P n) s1"
  define b' where "b' = snd (spdm_buffer_append_array b (memory_at P n (drop 5 r)))"
  note run = spdm_send_request_def spdm_mctp_send_recv_def case_prod_beta Some c_def [symmetric] r_def [symmetric]
    n_def [symmetric] s1_def [symmetric] b_def [symmetric] b'_def [symmetric]
  have ok: "fst (peer P (spdm_trace s) c) = 0"
    and rsp: "rsp = \<lparr>header = header_of_bytes (memory_at P 4 (drop 1 r)), buffer = b'\<rparr>"
    using res by (auto simp: run Let_def split: if_splits)
  have small: "length r < 2 ^ 31" using mem by (simp add: memory_ok_def r_def)
  have w: "0 < write_ptr b'" using bytes by (simp add: rsp)
  have init: "buf_size b = n \<and> write_ptr b = 0 \<and> read_ptr b = 0 \<and> data b = Some (replicate n 0) \<and> 0 < n \<and> n < 2 ^ 31"
  proof (cases "n = 0")
    case True
    then show ?thesis
      using w by (simp add: b'_def b_def buffer_init_def spdm_buffer_init_def spdm_buffer_append_array_def)
  next
    case False
    show ?thesis
    proof (cases "fst (peer P (spdm_trace s1) (SpdmMalloc n)) = 0")
      case True
      then show ?thesis
        using w False by (simp add: b'_def b_def run_buffer_init spdm_buffer_init_def spdm_buffer_append_array_def split: if_splits)
    next
      case alloc: False
      then have "\<not> 2 ^ 31 \<le> n" using mem unfolding memory_ok_def by blast
      then show ?thesis using False alloc by (simp add: b_def run_buffer_init spdm_buffer_init_def not_le)
    qed
  qed
  have five: "5 + n = length r"
  proof (cases "5 \<le> length r")
    case True
    then have "n = unat (of_nat (length r - 5) :: u32)" by (simp add: n_def payload_length_def of_nat_diff)
    also have "\<dots> = length r - 5" using small by (simp only: unat_of_nat) (simp add: take_bit_nat_eq_self)
    finally show ?thesis using True by simp
  next
    case False
    then consider "length r = 0" | "length r = 1" | "length r = 2" | "length r = 3" | "length r = 4" by linarith
    then show ?thesis using init by cases (simp_all add: n_def payload_length_def unsigned_minus_1_eq_mask mask_eq_exp_minus_1)
  qed
  define t where "t = hd r"
  define hdr where "hdr = take 4 (tl r)"
  define bs where "bs = drop 4 (tl r)"
  have "r \<noteq> []" using five by auto
  then have r: "r = t # hdr @ bs" by (simp add: t_def hdr_def bs_def)
  have hdr: "length hdr = 4" and bs: "length bs = n" using five by (simp_all add: hdr_def bs_def)
  have parts: "memory_at P 4 (drop 1 r) = hdr" "memory_at P n (drop 5 r) = bs"
    using hdr bs by (simp_all add: memory_at_id r drop_Cons')
  then have "full_of b' bs"
    using init bs by (simp add: full_of_def b'_def spdm_buffer_append_array_def overwrite_def)
  moreover have "exchanged (spdm_trace (exec (spdm_send_request P req) s)) (message_bytes req) (hdr @ bs)"
  proof (rule exchanged_mono)
    have "peer P (spdm_trace s) c = (0, t # hdr @ bs)" using ok r by (simp add: r_def prod_eq_iff)
    then show "exchanged (spdm_trace s1) (message_bytes req) (hdr @ bs)" by (auto simp: exchanged_def s1_def c_def)
    show "prefix (spdm_trace s1) (spdm_trace (exec (spdm_send_request P req) s))"
      using sessionD(2) [OF whole.memory_sess(3), of s1 P n] by (simp add: run ok Let_def)
  qed
  ultimately show ?thesis using hdr parts(1) by (auto simp: rsp)
qed

section \<open>Signatures\<close>

text \<open>
  The transcript is signed by the key of a certificate: SPDM 1.2 signs the hash behind its
  prefix, the older versions the hash itself.
\<close>

definition key_signed :: "spdm_env \<Rightarrow> u8 list \<Rightarrow> bool \<Rightarrow> u8 list \<Rightarrow> u8 list \<Rightarrow> u8 list \<Rightarrow> bool" where
  "key_signed P crt v12 sig_context transcript sig \<longleftrightarrow> pk_is_p384 P crt \<and>
     ecdsa_verify P crt
       (if v12 then sha384 P (sign_prefix sig_context @ sha384 P transcript) else sha384 P transcript)
       (take 48 sig) (take 48 (drop 48 sig)) = 0"

lemma ecdsa_check_sound:
  assumes "mbedtls_codes P" and "0 \<le> result (ecdsa_check P crts h sg) s"
  shows "crts \<noteq> [] \<and> pk_is_p384 P (last crts) \<and> ecdsa_verify P (last crts) h (take 48 sg) (take 48 (drop 48 sg)) = 0"
  using assms by (auto simp: ecdsa_check_def mbedtls_codes_def order.antisym case_prod_beta split: if_splits)

lemma crypto_verify_sound:
  assumes "mbedtls_codes P" and "0 \<le> result (spdm_crypto_verify P i (sha384 P transcript) sg v c) s"
  shows "chain (slot s i) \<noteq> [] \<and> key_signed P (last (chain (slot s i))) v c transcript sg"
  using assms(2) ecdsa_check_sound [OF assms(1)]
  by (cases v) (force simp: spdm_crypto_verify_def key_signed_def case_prod_beta split: if_splits)+

section \<open>Certificate chains\<close>

text \<open>Every chain the context holds was verified against the trust anchor.\<close>

definition trusted :: "spdm_env \<Rightarrow> attester \<Rightarrow> u8 list list \<Rightarrow> bool" where
  "trusted P s crts \<longleftrightarrow> x509_verify P crts (trust_anchor P (private_data (ctx s))) = (0, 0)"

definition chains_trusted :: "spdm_env \<Rightarrow> attester \<Rightarrow> bool" where
  "chains_trusted P s \<longleftrightarrow> length (slot_chains s) = 8 \<and> (\<forall>crts \<in> set (slot_chains s). crts \<noteq> [] \<longrightarrow> trusted P s crts)"

lemma chains_trusted_cong:
  "(slot_chains t, link t) = (slot_chains s, link s) \<Longrightarrow> chains_trusted P t = chains_trusted P s"
  by (simp add: chains_trusted_def trusted_def)

lemma chains_slot: "i < length (slot_chains s) \<Longrightarrow> slot_chains s ! i = chain (slot s i)"
  by (simp add: slot_chains_def)

lemma chain_round_codes:
  assumes "mbedtls_codes P" and "st \<le> 0"
  shows "result (chain_round P (rest, crts, first, st)) s = Return (st', crts') \<Longrightarrow> st' \<le> 0"
    and "result (chain_round P (rest, crts, first, st)) s = Continue (rest', crts', first', st') \<Longrightarrow> st' \<le> 0"
proof -
  note codes = assms(1) [unfolded mbedtls_codes_def]
  have tag: "fst (asn1_get_tag P rest) \<le> 0" and parse: "x509_parse P c \<le> 0" for c using codes by simp_all
  have app: "fst (result (append_next_certificate P crts c) s) \<le> 0" for c
    using codes by (auto simp: append_next_certificate_def allocate_def case_prod_beta Let_def)
  show "result (chain_round P (rest, crts, first, st)) s = Return (st', crts') \<Longrightarrow> st' \<le> 0"
    using app tag parse assms(2)
    by (auto simp: chain_round_def case_prod_beta Let_def split: if_splits) (metis app fst_conv)+
  show "result (chain_round P (rest, crts, first, st)) s = Continue (rest', crts', first', st') \<Longrightarrow> st' \<le> 0"
    using app tag parse assms(2)
    by (auto simp: chain_round_def case_prod_beta Let_def split: if_splits) (metis parse order.order_iff_strict)
qed

lemma chain_loop_codes:
  assumes "mbedtls_codes P"
    and "result (c_while n (\<lambda>_. True) (chain_round P) x) s = Return (st', crts')" and "snd (snd (snd x)) \<le> 0"
  shows "st' \<le> 0"
  using assms(2,3)
proof (induction n arbitrary: x s)
  case (Suc n)
  obtain rest crts first st where x: "x = (rest, crts, first, st)" by (cases x)
  show ?case
  proof (cases "result (chain_round P x) s")
    case (Continue y)
    then have "snd (snd (snd y)) \<le> 0"
      using chain_round_codes(2) [OF assms(1)] Suc.prems(2) by (cases y) (simp add: x)
    then show ?thesis using Suc Continue by (simp add: case_prod_beta)
  next
    case (Break y)
    then show ?thesis using Suc.prems(1) by (simp add: case_prod_beta)
  next
    case (Return y)
    then show ?thesis using chain_round_codes(1) [OF assms(1)] Suc.prems by (cases y) (simp add: x case_prod_beta)
  qed
qed simp

lemma parse_chain_codes:
  assumes "mbedtls_codes P"
  shows "fst (result (parse_chain P bs) s) \<le> 0"
proof (cases "result (c_while (length bs + 1) (\<lambda>_. True) (chain_round P) (bs, [], True, 0)) s")
  case (Return y)
  then have "fst y \<le> 0" using chain_loop_codes [OF assms, of _ "(bs, [], True, 0)" s "fst y" "snd y"] by (simp del: c_while.simps)
  then show ?thesis using Return unfolding parse_chain_def result_bind by (simp del: c_while.simps)
qed (unfold parse_chain_def result_bind, simp_all del: c_while.simps)

text \<open>The check of a chain leaves the slot empty or with a chain that the trust anchor vouches for.\<close>

lemma check_chain_sound:
  assumes codes: "mbedtls_codes P"
  shows "\<exists>crts. slot_chains (exec (check_chain P i) s) = (slot_chains s)[i := crts] \<and> link (exec (check_chain P i) s) = link s \<and>
    (crts \<noteq> [] \<longrightarrow> trusted P s crts) \<and> (result (check_chain P i) s \<noteq> 0 \<longrightarrow> crts = [])"
proof -
  define c where "c = slot s i"
  define a where "a = trust_anchor P (private_data (ctx s))"
  define bs where "bs = drop (4 + 48) (memory_at P (unat (cert_size c)) (case cert_data c of Some d \<Rightarrow> d | None \<Rightarrow> []))"
  define st where "st = fst (result (parse_chain P bs) s)"
  define crts where "crts = snd (result (parse_chain P bs) s)"
  define s1 where "s1 = exec (parse_chain P bs) s"
  define v where "v = (if st = 0 then x509_verify P crts a else (st, ucast (uninit (board P) 0)))"
  define s2 where "s2 = exec (upd_slot i (chain_update (\<lambda>_. crts))) s1"
  have keep: "slot_chains s1 = slot_chains s" "link s1 = link s"
    using sessionD(1) [OF whole.verify_sess(5), of P bs s] by (simp_all add: s1_def)
  have c2: "slot_chains s2 = (slot_chains s)[i := crts]" "link s2 = link s"
    using keep by (simp_all add: s2_def slot_chains_def map_update)
  have c3: "slot_chains (exec (drop_certificate i) s2) = (slot_chains s)[i := []]" "link (exec (drop_certificate i) s2) = link s"
    using c2 by (simp_all add: drop_certificate_def slot_chains_def map_update)
  have codes: "st \<le> 0" "fst v \<le> 0"
    using parse_chain_codes [OF codes] codes by (simp_all add: st_def v_def mbedtls_codes_def)
  have run: "exec (check_chain P i) s = (if fst v < 0 \<or> snd v \<noteq> 0 then exec (drop_certificate i) s2 else s2)"
    "result (check_chain P i) s = (if fst v < 0 \<or> snd v \<noteq> 0 then -1 else 0)"
    by (cases "st = 0"; simp add: check_chain_def case_prod_beta Let_def c_def [symmetric] a_def [symmetric]
        bs_def [symmetric, simplified] st_def [symmetric] crts_def [symmetric] v_def s2_def s1_def)+
  show ?thesis
  proof (cases "fst v < 0 \<or> snd v \<noteq> 0")
    case True
    then show ?thesis using c3 by (intro exI [of _ "[]"]) (simp add: run)
  next
    case False
    then have "v = (0, 0)" using codes by (cases v) auto
    then have "trusted P s crts" by (auto simp: v_def trusted_def a_def split: if_splits)
    then show ?thesis using c2 False by (intro exI [of _ crts]) (simp add: run)
  qed
qed

lemma certificate_sound:
  assumes codes: "mbedtls_codes P"
  shows "\<exists>crts. (slot_chains (exec (spdm_get_certificate P fuel i) s) = slot_chains s \<or>
      slot_chains (exec (spdm_get_certificate P fuel i) s) = (slot_chains s)[unat i := crts]) \<and>
    link (exec (spdm_get_certificate P fuel i) s) = link s \<and> (crts \<noteq> [] \<longrightarrow> trusted P s crts) \<and>
    (result (spdm_get_certificate P fuel i) s \<noteq> 0 \<longrightarrow> crts = [])"
proof -
  define loop where "loop = c_while fuel (\<lambda>_. True) (certificate_round P i) (0, True)"
  define s1 where "s1 = exec loop s"
  have "state_io_rel (session (\<lambda>s. (slot_chains s, remote_flags s, link s))) loop"
    unfolding loop_def by (intro whole.sess_intros whole.round_sess)
  then have keep: "slot_chains s1 = slot_chains s" "link s1 = link s" using sessionD(1) by (auto simp: s1_def)
  have t: "trusted P s1 = trusted P s" using keep by (simp add: trusted_def fun_eq_iff)
  note run = spdm_get_certificate_def case_prod_beta loop_def [symmetric] s1_def [symmetric]
  show ?thesis
  proof (cases "result loop s")
    case (Continue y)
    then show ?thesis using keep by (intro exI [of _ "[]"]) (simp add: run slot_chains_def)
  next
    case (Break y)
    then show ?thesis using check_chain_sound [OF codes, of "unat i" s1] keep by (simp add: run t) blast
  next
    case (Return st)
    then show ?thesis
      using keep by (intro exI [of _ "[]"]) (simp add: run)
  qed
qed

lemma certificate_trusted:
  assumes "mbedtls_codes P" and "chains_trusted P s"
  shows "chains_trusted P (exec (spdm_get_certificate P fuel i) s)"
    and "link (exec (spdm_get_certificate P fuel i) s) = link s"
proof -
  obtain crts where
    c: "slot_chains (exec (spdm_get_certificate P fuel i) s) = slot_chains s \<or>
      slot_chains (exec (spdm_get_certificate P fuel i) s) = (slot_chains s)[unat i := crts]"
    and l: "link (exec (spdm_get_certificate P fuel i) s) = link s" and t: "crts \<noteq> [] \<longrightarrow> trusted P s crts"
    using certificate_sound [OF assms(1), of fuel i s] by blast
  show "link (exec (spdm_get_certificate P fuel i) s) = link s" by (fact l)
  have "trusted P (exec (spdm_get_certificate P fuel i) s) = trusted P s" using l by (simp add: trusted_def fun_eq_iff)
  then show "chains_trusted P (exec (spdm_get_certificate P fuel i) s)"
    using c t assms(2) set_update_subset_insert [of "slot_chains s" "unat i" crts]
    by (auto simp: chains_trusted_def)
qed

text \<open>A slot is only ever left with a chain when its certificate was got.\<close>

lemma certificate_other_slot:
  assumes "mbedtls_codes P" and "slot_chains s ! j = []"
    and "j \<noteq> unat i \<or> result (spdm_get_certificate P fuel i) s \<noteq> 0"
  shows "slot_chains (exec (spdm_get_certificate P fuel i) s) ! j = []"
proof -
  obtain crts where
    c: "slot_chains (exec (spdm_get_certificate P fuel i) s) = slot_chains s \<or>
      slot_chains (exec (spdm_get_certificate P fuel i) s) = (slot_chains s)[unat i := crts]"
    and e: "result (spdm_get_certificate P fuel i) s \<noteq> 0 \<longrightarrow> crts = []"
    using certificate_sound [OF assms(1), of fuel i s] by blast
  show ?thesis
  proof (cases "j = unat i")
    case True
    then show ?thesis using c e assms(2,3) by (metis list_update_beyond not_le nth_list_update_eq)
  next
    case False
    then show ?thesis using c assms(2) by auto
  qed
qed

lemma try_slots_trusted:
  assumes "mbedtls_codes P" and "chains_trusted P s"
  shows "chains_trusted P (exec (try_slots P fuel is st) s) \<and> link (exec (try_slots P fuel is st) s) = link s"
  using assms(2)
proof (induction "is" arbitrary: st s)
  case (Cons i rest)
  note c = certificate_trusted [OF assms(1) Cons.prems, of fuel "of_nat i"]
  show ?case
  proof (cases "bit (slot_mask (certificate (remote (ctx s)))) i")
    case True
    then show ?thesis
      using Cons.IH [OF c(1)] c(2) c(1) by (simp add: case_prod_beta)
  qed (use Cons in simp)
qed simp

lemma try_slots_other:
  assumes "mbedtls_codes P" and "slot_chains s ! 0 = []" and "0 \<notin> set is" and "\<forall>i \<in> set is. i < 8"
  shows "slot_chains (exec (try_slots P fuel is st) s) ! 0 = []"
  using assms(2-)
proof (induction "is" arbitrary: st s)
  case (Cons i rest)
  have "unat (of_nat i :: u8) = i" using Cons.prems(3) by (simp add: unat_of_nat take_bit_nat_eq_self)
  then have "slot_chains (exec (spdm_get_certificate P fuel (of_nat i)) s) ! 0 = []"
    using Cons.prems by (intro certificate_other_slot [OF assms(1)]) auto
  then show ?case using Cons by (simp add: case_prod_beta)
qed simp

text \<open>When the working slot is not slot 0, slot 0 has no chain.\<close>

lemma try_slots_zero:
  assumes codes: "mbedtls_codes P" and empty: "slot_chains s ! 0 = []"
    and res: "snd (result (try_slots P fuel [0 ..< 8] st) s) \<noteq> 0"
  shows "slot_chains (exec (try_slots P fuel [0 ..< 8] st) s) ! 0 = []"
proof -
  have upt: "[0 ..< 8] = 0 # [1 ..< 8]" by (simp add: upt_rec)
  have other: "slot_chains (exec (try_slots P fuel [1 ..< 8] st') s') ! 0 = []" if "slot_chains s' ! 0 = []" for s' st'
    using that by (intro try_slots_other [OF codes]) auto
  show ?thesis
  proof (cases "bit (slot_mask (certificate (remote (ctx s)))) 0 \<and> result (spdm_get_certificate P fuel 0) s = 0")
    case True
    then show ?thesis using res by (simp add: upt case_prod_beta)
  next
    case False
    then show ?thesis
      using other [OF empty] other [OF certificate_other_slot [OF codes empty, of 0 fuel]]
      by (simp add: upt case_prod_beta)
  qed
qed

section \<open>The challenge\<close>

text \<open>
  The bytes behind the header of a request: the random numbers drawn for it, and then \<open>suffix\<close>.
  When the buffer could not be allocated the request goes out without them.
\<close>

definition nonce_of :: "spdm_trace \<Rightarrow> u8 list \<Rightarrow> bool" where
  "nonce_of tr bs \<longleftrightarrow> bs = [] \<or> (\<exists>x r suffix. (SysRandGet SPDM_NONCE_SIZE, (x, r)) \<in> set tr \<and>
     bs = fit SPDM_NONCE_SIZE r @ suffix \<and> length suffix \<le> 1)"

lemma nonce_of_mono: "nonce_of tr bs \<Longrightarrow> prefix tr tr' \<Longrightarrow> nonce_of tr' bs"
  unfolding nonce_of_def using set_mono_prefix by blast

text \<open>A request buffer with a nonce in it.\<close>

definition nonce_buffer :: "spdm_env \<Rightarrow> nat \<Rightarrow> (attester, spdm_buffer) state" where
  "nonce_buffer P n = do {
     b \<leftarrow> buffer_init P n;
     spdm_buffer_append_nonce P b
   }"

lemma nonce_buffer_sess: "state_io_rel (session (\<lambda>s. (slot_chains s, remote_flags s, link s))) (nonce_buffer P n)"
  unfolding nonce_buffer_def by (intro whole.sess_intros whole.memory_sess)

lemma nonce_written:
  assumes "n = 32 \<or> n = 33"
  shows "wf_buffer (result (nonce_buffer P n) s)"
    and "nonce_of (spdm_trace (exec (nonce_buffer P n) s)) (written (result (nonce_buffer P n) s))"
    and "n = 33 \<Longrightarrow> nonce_of (spdm_trace (exec (nonce_buffer P n) s))
      (written (snd (spdm_buffer_append_u8 (result (nonce_buffer P n) s) v)))"
proof -
  define a where "a \<longleftrightarrow> fst (peer P (spdm_trace s) (SpdmMalloc n)) \<noteq> 0"
  define b where "b = snd (spdm_buffer_init a n)"
  define s1 where "s1 = exec (buffer_init P n) s"
  define r where "r = snd (peer P (spdm_trace s1) (SysRandGet SPDM_NONCE_SIZE))"
  have n: "0 < n" using assms by auto
  have wf: "wf_buffer b" by (simp add: b_def init_wf)
  have run: "result (nonce_buffer P n) s = snd (spdm_buffer_append_array b (fit SPDM_NONCE_SIZE r))"
    "(SysRandGet SPDM_NONCE_SIZE, peer P (spdm_trace s1) (SysRandGet SPDM_NONCE_SIZE)) \<in>
       set (spdm_trace (exec (nonce_buffer P n) s))"
    by (simp_all add: nonce_buffer_def spdm_buffer_append_nonce_def case_prod_beta run_buffer_init [OF n]
        s1_def [symmetric] r_def b_def a_def)
  then show "wf_buffer (result (nonce_buffer P n) s)" by (simp add: wf append_array_wf)
  show "nonce_of (spdm_trace (exec (nonce_buffer P n) s)) (written (result (nonce_buffer P n) s))"
  proof (cases a)
    case True
    then have "length (fit SPDM_NONCE_SIZE r) \<le> room b" using assms by (auto simp: b_def init_room)
    then have "written (result (nonce_buffer P n) s) = fit SPDM_NONCE_SIZE r @ []"
      using append_array_fits(2) [OF wf] by (simp add: run b_def)
    then show ?thesis using run(2) unfolding nonce_of_def r_def by (metis list.size(3) prod.collapse zero_le)
  next
    case False
    then show ?thesis
      using n by (simp add: run nonce_of_def b_def spdm_buffer_init_def spdm_buffer_append_array_def written_def)
  qed
  show "nonce_of (spdm_trace (exec (nonce_buffer P n) s))
      (written (snd (spdm_buffer_append_u8 (result (nonce_buffer P n) s) v)))" if "n = 33"
  proof (cases a)
    case True
    then have fits: "length (fit SPDM_NONCE_SIZE r) \<le> room b" using that by (simp add: b_def init_room)
    define b' where "b' = snd (spdm_buffer_append_array b (fit SPDM_NONCE_SIZE r))"
    have b': "written b' = fit SPDM_NONCE_SIZE r" "room b' = 1"
      using append_array_fits(2,3) [OF wf fits] True that by (simp_all add: b'_def b_def init_room)
    have "written (snd (spdm_buffer_append_u8 b' v)) = fit SPDM_NONCE_SIZE r @ [v]"
      using append_array_fits(2) [of b' "[v]"] b' by (simp add: spdm_buffer_append_u8_def b'_def wf append_array_wf)
    then show ?thesis
      using run(2) unfolding nonce_of_def r_def run(1) b'_def
      by (metis One_nat_def le_numeral_extra(4) length_Cons list.size(3) prod.collapse)
  next
    case False
    then show ?thesis
      using n by (simp add: run nonce_of_def b_def spdm_buffer_init_def spdm_buffer_append_array_def
          spdm_buffer_append_u8_def written_def)
  qed
qed

text \<open>
  The device has answered a request with that header, and the key has signed everything
  up to the signature, behind a transcript \<open>pre\<close> of what was exchanged before.
\<close>

definition signed_answer :: "spdm_env \<Rightarrow> spdm_trace \<Rightarrow> u8 list \<Rightarrow> u8 list \<Rightarrow> spdm_message_header \<Rightarrow> u8 list \<Rightarrow> bool" where
  "signed_answer P tr crt sig_context h rsp \<longleftrightarrow> (\<exists>nonce pre hdr payload sg.
     length hdr = 4 \<and> length sg = 96 \<and> rsp = payload @ sg \<and> nonce_of tr nonce \<and>
     exchanged tr (header_bytes h @ nonce) (hdr @ rsp) \<and>
     key_signed P crt (spdm_version h = SPDM_VERSION_12) sig_context (pre @ (header_bytes h @ nonce) @ hdr @ payload) sg)"

definition challenge_signed :: "spdm_env \<Rightarrow> spdm_trace \<Rightarrow> u8 \<Rightarrow> u8 list \<Rightarrow> bool" where
  "challenge_signed P tr slot_id crt \<longleftrightarrow> (\<exists>ver rsp. signed_answer P tr crt SPDM_SIGN_CONTEXT_M1M2_RSP
     \<lparr>spdm_version = ver, request_response_code = SPDM_REQ_CHALLENGE, param1 = slot_id, param2 = 0\<rparr> rsp)"

lemma challenge_sound:
  assumes mem: "memory_ok P" and codes: "mbedtls_codes P" and i: "unat i < length (slot_chains s)"
    and ok: "0 \<le> result (spdm_challenge P i 0) s"
  shows "slot_chains s ! unat i \<noteq> []"
    and "challenge_signed P (spdm_trace (exec (spdm_challenge P i 0) s)) i (last (slot_chains s ! unat i))"
proof -
  define ver where "ver = selected s"
  define b where "b = result (nonce_buffer P 32) s"
  define s1 where "s1 = exec (nonce_buffer P 32) s"
  define req where "req = request ver SPDM_REQ_CHALLENGE i 0 b"
  define st where "st = fst (result (spdm_send_request P req) s1)"
  define rsp where "rsp = snd (result (spdm_send_request P req) s1)"
  define s2 where "s2 = exec (spdm_send_request P req) s1"
  define n where "n = write_ptr (buffer rsp) - 96"
  define cut where "cut = rsp\<lparr>buffer := (buffer rsp)\<lparr>write_ptr := n\<rparr>\<rparr>"
  define transcript where "transcript = m1m2_context (ctx s2) @ message_bytes req @ message_bytes cut"
  define s3 where "s3 = s2\<lparr>ctx := (ctx s2)\<lparr>m1m2_context := []\<rparr>\<rparr>"
  define verify where "verify = spdm_crypto_verify P (unat i) (sha384 P transcript)
    (drop n (written (buffer rsp))) (ver = SPDM_VERSION_12) SPDM_SIGN_CONTEXT_M1M2_RSP"
  have run: "run (spdm_challenge P i 0) s = (if st \<noteq> 0 then (-1, s2) else if spdm_version (header rsp) \<noteq> ver then (-1, s2)
      else if request_response_code (header rsp) \<noteq> SPDM_RSP_CHALLENGE_AUTH then (-1, s2)
      else if write_ptr (buffer rsp) < 178 then (-1, s2)
      else (if result verify s3 < 0 then -1 else result verify s3, exec verify s3))"
    by (simp add: spdm_challenge_def case_prod_beta Let_def ver_def [symmetric] b_def s1_def st_def rsp_def s2_def
        req_def nonce_buffer_def n_def cut_def verify_def transcript_def s3_def spdm_context_update_m1m2_hash_def
        spdm_context_reset_m1m2_hash_def)
  have st: "st = 0" and long: "178 \<le> write_ptr (buffer rsp)" and v: "0 \<le> result verify s3"
    and t: "exec (spdm_challenge P i 0) s = exec verify s3"
    using ok by (auto simp: run split: if_splits)
  have "result (spdm_send_request P req) s1 = (0, rsp)" using st by (simp add: st_def rsp_def prod_eq_iff)
  then obtain hdr bs where hdr: "length hdr = 4" "header rsp = header_of_bytes hdr" and full: "full_of (buffer rsp) bs"
    and ex: "exchanged (spdm_trace s2) (message_bytes req) (hdr @ bs)"
    using send_request_exchanged [OF mem] long unfolding s2_def by (metis (no_types) less_le_trans zero_less_numeral)
  note full = full_ofD [OF full]
  have len: "178 \<le> length bs" and n: "n = length bs - 96" using long full by (simp_all add: n_def)
  have keep: "slot_chains s3 = slot_chains s"
    using sessionD(1) [OF nonce_buffer_sess, of P 32 s] sessionD(1) [OF whole.request_sess(2), of P req s1]
    by (simp add: s1_def s2_def s3_def slot_chains_def)
  have sound: "chain (slot s3 (unat i)) \<noteq> []"
    "key_signed P (last (chain (slot s3 (unat i)))) (ver = SPDM_VERSION_12) SPDM_SIGN_CONTEXT_M1M2_RSP transcript (drop n bs)"
    using crypto_verify_sound [OF codes v [unfolded verify_def]] full(1) by simp_all
  have slot: "chain (slot s3 (unat i)) = slot_chains s ! unat i" using i keep chains_slot [of "unat i" s3] by simp
  show "slot_chains s ! unat i \<noteq> []" using sound slot by simp
  have grows: "prefix (spdm_trace s1) (spdm_trace (exec verify s3))" "prefix (spdm_trace s2) (spdm_trace (exec verify s3))"
    using sessionD(2) [OF whole.request_sess(2), of s1 P req] sessionD(2) [OF whole.verify_sess(2), of s3]
    by (auto simp: s2_def s3_def verify_def intro: prefix_order.trans)
  have cut: "message_bytes cut = hdr @ take n bs" using full(5) hdr by (simp add: cut_def message_bytes_def)
  have req: "message_bytes req = header_bytes (header req) @ written b" by (simp add: message_bytes_def req_def request_def)
  have "signed_answer P (spdm_trace (exec verify s3)) (last (slot_chains s ! unat i)) SPDM_SIGN_CONTEXT_M1M2_RSP (header req) bs"
    unfolding signed_answer_def
  proof (intro exI conjI)
    show "bs = take n bs @ drop n bs" by simp
    show "length (drop n bs) = 96" using len n by simp
    show "nonce_of (spdm_trace (exec verify s3)) (written b)"
      using nonce_of_mono [OF nonce_written(2) grows(1) [unfolded s1_def]] by (simp add: b_def)
    show "exchanged (spdm_trace (exec verify s3)) (header_bytes (header req) @ written b) (hdr @ bs)"
      using exchanged_mono [OF ex grows(2)] req by simp
    show "key_signed P (last (slot_chains s ! unat i)) (spdm_version (header req) = SPDM_VERSION_12) SPDM_SIGN_CONTEXT_M1M2_RSP
        (m1m2_context (ctx s2) @ (header_bytes (header req) @ written b) @ hdr @ take n bs) (drop n bs)"
      using sound(2) slot unfolding transcript_def cut by (simp add: message_bytes_def req_def request_def)
  qed (use hdr in simp)
  then show "challenge_signed P (spdm_trace (exec (spdm_challenge P i 0) s)) i (last (slot_chains s ! unat i))"
    unfolding challenge_signed_def t by (auto simp: req_def request_def)
qed

section \<open>Measurements\<close>

text \<open>
  A signed response to a measurement request holds one block, of the size that the manifest
  entry says, with one of the values it allows.
\<close>

definition measured :: "spdm_env \<Rightarrow> spdm_trace \<Rightarrow> u8 list \<Rightarrow> (nat \<Rightarrow> u8) \<Rightarrow> nat \<Rightarrow> bool" where
  "measured P tr crt f p \<longleftrightarrow> (\<exists>ver idx rsp. signed_answer P tr crt SPDM_SIGN_CONTEXT_L1L2_RSP
       \<lparr>spdm_version = ver, request_response_code = SPDM_REQ_GET_MEASUREMENTS, param1 = 1, param2 = idx\<rparr> rsp \<and>
     rsp ! 0 = 1 \<and> u16_of_bytes (drop 9 rsp) = ValueSize (afm_measurement_at f p) \<and>
     measurement_matches f (afm_measurement_at f p)
       (memory_at P (unat (ValueSize (afm_measurement_at f p))) (drop 11 rsp)))"

lemma signed_answer_mono:
  "signed_answer P tr crt c h rsp \<Longrightarrow> prefix tr tr' \<Longrightarrow> signed_answer P tr' crt c h rsp"
  unfolding signed_answer_def using nonce_of_mono exchanged_mono by blast

lemma measured_mono: "measured P tr crt f p \<Longrightarrow> prefix tr tr' \<Longrightarrow> measured P tr' crt f p"
  unfolding measured_def using signed_answer_mono by blast

lemma challenge_signed_mono:
  "challenge_signed P tr i crt \<Longrightarrow> prefix tr tr' \<Longrightarrow> challenge_signed P tr' i crt"
  unfolding challenge_signed_def using signed_answer_mono by blast

text \<open>Reading a full buffer from a position.\<close>

lemma get_at:
  assumes "b = \<lparr>buf_size = length bs, write_ptr = w, read_ptr = k, data = Some bs\<rparr>" and "k + n \<le> length bs"
  shows "spdm_buffer_get_array b n = (0, Some (take n (drop k bs)), b\<lparr>read_ptr := k + n\<rparr>)"
  using assms by (simp add: spdm_buffer_get_array_def)

lemma measurement_block_at:
  assumes "full_of b bs" and len: "11 \<le> length bs"
  shows "fst (measurement_block b) = bs ! 0"
    and "fst (snd (measurement_block b)) = u16_of_bytes (drop 9 bs)"
    and "unread (snd (snd (measurement_block b))) = drop 11 bs"
proof -
  have hd: "take 1 bs = [bs ! 0]" using len by (cases bs) simp_all
  have two: "u16_of_bytes (take 2 (drop 9 bs)) = u16_of_bytes (drop 9 bs)"
    by (cases "drop 9 bs" rule: list.exhaust; cases "tl (drop 9 bs)") (simp_all add: u16_of_bytes_def)
  have b: "b = \<lparr>buf_size = length bs, write_ptr = length bs, read_ptr = 0, data = Some bs\<rparr>"
    using assms(1) by (simp add: full_of_def)
  show "fst (measurement_block b) = bs ! 0" "fst (snd (measurement_block b)) = u16_of_bytes (drop 9 bs)"
    "unread (snd (snd (measurement_block b))) = drop 11 bs"
    using len hd two
    by (simp_all add: b measurement_block_def spdm_buffer_get_u8_def spdm_buffer_get_u16_def spdm_buffer_get_u24_def
        get_at Let_def case_prod_beta unread_def)
qed

lemma signed_measurement_sound:
  assumes codes: "mbedtls_codes P" and len: "0 < length (slot_chains s)"
    and full: "full_of (buffer rsp) bs" and long: "96 \<le> length bs"
    and ok: "result (signed_measurement P req rsp f (Some p)) s = 0"
  shows "slot_chains s ! 0 \<noteq> []"
    and "key_signed P (last (slot_chains s ! 0)) (spdm_version (header req) = SPDM_VERSION_12) SPDM_SIGN_CONTEXT_L1L2_RSP
      (l1l2_context (ctx s) @ message_bytes req @ header_bytes (header rsp) @ take (length bs - 96) bs) (drop (length bs - 96) bs)"
    and "bs ! 0 = 1" and "u16_of_bytes (drop 9 bs) = ValueSize (afm_measurement_at f p)"
    and "measurement_matches f (afm_measurement_at f p) (memory_at P (unat (ValueSize (afm_measurement_at f p))) (drop 11 bs))"
proof -
  define n where "n = length bs - 96"
  define cut where "cut = rsp\<lparr>buffer := (buffer rsp)\<lparr>write_ptr := n\<rparr>\<rparr>"
  define transcript where "transcript = l1l2_context (ctx s) @ message_bytes req @ message_bytes cut"
  define v12 where "v12 \<longleftrightarrow> spdm_version (header req) = SPDM_VERSION_12"
  define s1 where "s1 = s\<lparr>ctx := (ctx s)\<lparr>l1l2_context := if v12 then written (message_a (ctx s)) else []\<rparr>\<rparr>"
  define verify where "verify = spdm_crypto_verify P 0 (sha384 P transcript) (drop n bs) v12 SPDM_SIGN_CONTEXT_L1L2_RSP"
  define blk where "blk = measurement_block (buffer rsp)"
  define m where "m = afm_measurement_at f p"
  have run: "result (signed_measurement P req rsp f (Some p)) s = (if result verify s1 < 0 then -2
     else if fst blk \<noteq> 1 then -1 else if fst (snd blk) \<noteq> ValueSize m then -1
     else if measurement_matches f m (memory_at P (unat (ValueSize m)) (unread (snd (snd blk)))) then 0 else -1)"
    by (cases v12) (simp_all add: signed_measurement_def case_prod_beta Let_def full_ofD [OF full] n_def v12_def verify_def transcript_def
        cut_def s1_def blk_def m_def spdm_context_update_l1l2_hash_def spdm_context_reset_l1l2_hash_def
        spdm_context_update_l1l2_hash_buffer_def o_def)
  have v: "0 \<le> result verify s1" and "fst blk = 1" "fst (snd blk) = ValueSize m"
    and "measurement_matches f m (memory_at P (unat (ValueSize m)) (unread (snd (snd blk))))"
    using ok unfolding run by (auto split: if_splits)
  then show "bs ! 0 = 1" "u16_of_bytes (drop 9 bs) = ValueSize (afm_measurement_at f p)"
    "measurement_matches f (afm_measurement_at f p) (memory_at P (unat (ValueSize (afm_measurement_at f p))) (drop 11 bs))"
    using measurement_block_at [OF full] long by (simp_all add: blk_def m_def)
  have slot: "chain (slot s1 0) = slot_chains s ! 0" using len chains_slot [of 0 s] by (simp add: s1_def)
  have cut: "message_bytes cut = header_bytes (header rsp) @ take n bs"
    using full_ofD(5) [OF full] by (simp add: cut_def message_bytes_def)
  from crypto_verify_sound [OF codes v [unfolded verify_def]]
  show "slot_chains s ! 0 \<noteq> []"
    and "key_signed P (last (slot_chains s ! 0)) (spdm_version (header req) = SPDM_VERSION_12) SPDM_SIGN_CONTEXT_L1L2_RSP
      (l1l2_context (ctx s) @ message_bytes req @ header_bytes (header rsp) @ take (length bs - 96) bs) (drop (length bs - 96) bs)"
    by (simp_all add: slot transcript_def cut v12_def n_def)
qed

lemma measurements_sound:
  assumes mem: "memory_ok P" and codes: "mbedtls_codes P" and len: "0 < length (slot_chains s)"
    and ok: "fst (result (spdm_get_measurements P 1 idx f (Some p)) s) = 0"
  shows "slot_chains s ! 0 \<noteq> []"
    and "measured P (spdm_trace (exec (spdm_get_measurements P 1 idx f (Some p)) s)) (last (slot_chains s ! 0)) f p"
proof -
  define ver where "ver = selected s"
  define b where "b = result (nonce_buffer P 33) s"
  define b' where "b' = (if ver = SPDM_VERSION_12 then snd (spdm_buffer_append_u8 b 0x01) else b)"
  define s1 where "s1 = exec (nonce_buffer P 33) s"
  define req where "req = request ver SPDM_REQ_GET_MEASUREMENTS 1 idx b'"
  define st where "st = fst (result (spdm_send_request P req) s1)"
  define rsp where "rsp = snd (result (spdm_send_request P req) s1)"
  define s2 where "s2 = exec (spdm_send_request P req) s1"
  define judge where "judge = signed_measurement P req rsp f (Some p)"
  have run: "fst (result (spdm_get_measurements P 1 idx f (Some p)) s) = (if st \<noteq> 0 then -3 else if spdm_version (header rsp) \<noteq> ver then -1
      else if request_response_code (header rsp) \<noteq> SPDM_RSP_MEASUREMENTS then -1
      else if write_ptr (buffer rsp) < 4 then -1 else if write_ptr (buffer rsp) < 96 then -1 else result judge s2)"
    and exec: "st = 0 \<Longrightarrow> spdm_version (header rsp) = ver \<Longrightarrow> request_response_code (header rsp) = SPDM_RSP_MEASUREMENTS \<Longrightarrow>
      96 \<le> write_ptr (buffer rsp) \<Longrightarrow> exec (spdm_get_measurements P 1 idx f (Some p)) s = exec judge s2"
    by (cases "ver = SPDM_VERSION_12"; simp add: spdm_get_measurements_def case_prod_beta Let_def ver_def [symmetric] b_def b'_def
        s1_def st_def rsp_def s2_def req_def nonce_buffer_def judge_def)+
  have st: "st = 0" and long: "96 \<le> write_ptr (buffer rsp)" and v: "result judge s2 = 0"
    and t: "exec (spdm_get_measurements P 1 idx f (Some p)) s = exec judge s2"
    using ok exec unfolding run by (auto split: if_splits)
  have "result (spdm_send_request P req) s1 = (0, rsp)" using st by (simp add: st_def rsp_def prod_eq_iff)
  then obtain hdr bs where hdr: "length hdr = 4" "header rsp = header_of_bytes hdr" and full: "full_of (buffer rsp) bs"
    and ex: "exchanged (spdm_trace s2) (message_bytes req) (hdr @ bs)"
    using send_request_exchanged [OF mem] long unfolding s2_def by (metis (no_types) less_le_trans zero_less_numeral)
  have bs: "96 \<le> length bs" using long full_ofD(3) [OF full] by simp
  have keep: "slot_chains s2 = slot_chains s"
    using sessionD(1) [OF nonce_buffer_sess, of P 33 s] sessionD(1) [OF whole.request_sess(2), of P req s1]
    by (simp add: s1_def s2_def)
  note sound = signed_measurement_sound [OF codes _ full bs v [unfolded judge_def], unfolded keep, OF len]
  show "slot_chains s ! 0 \<noteq> []" by (rule sound)
  have grows: "prefix (spdm_trace s1) (spdm_trace (exec judge s2))" "prefix (spdm_trace s2) (spdm_trace (exec judge s2))"
    using sessionD(2) [OF whole.request_sess(2), of s1 P req] sessionD(2) [OF whole.signed_sess, of s2]
    by (auto simp: s2_def judge_def intro: prefix_order.trans)
  have req: "message_bytes req = header_bytes (header req) @ written b'" by (simp add: message_bytes_def req_def request_def)
  have "signed_answer P (spdm_trace (exec judge s2)) (last (slot_chains s ! 0)) SPDM_SIGN_CONTEXT_L1L2_RSP (header req) bs"
    unfolding signed_answer_def
  proof (intro exI conjI)
    show "bs = take (length bs - 96) bs @ drop (length bs - 96) bs" by simp
    show "length (drop (length bs - 96) bs) = 96" using bs by simp
    show "nonce_of (spdm_trace (exec judge s2)) (written b')"
      using nonce_of_mono [OF nonce_written(2) grows(1) [unfolded s1_def]] nonce_of_mono [OF nonce_written(3) grows(1) [unfolded s1_def]]
      by (simp add: b'_def b_def)
    show "exchanged (spdm_trace (exec judge s2)) (header_bytes (header req) @ written b') (hdr @ bs)"
      using exchanged_mono [OF ex grows(2)] req by simp
    show "key_signed P (last (slot_chains s ! 0)) (spdm_version (header req) = SPDM_VERSION_12) SPDM_SIGN_CONTEXT_L1L2_RSP
        (l1l2_context (ctx s2) @ (header_bytes (header req) @ written b') @ hdr @ take (length bs - 96) bs) (drop (length bs - 96) bs)"
      using sound(2) hdr req by simp
  qed (use hdr in simp)
  then show "measured P (spdm_trace (exec (spdm_get_measurements P 1 idx f (Some p)) s)) (last (slot_chains s ! 0)) f p"
    using sound(3-5) unfolding measured_def t by (auto simp: req_def request_def)
qed

end
