(* ===== verification/Spdm_Assurance.thy ===== *)
theory Spdm_Assurance
  imports Spdm_Evidence
begin

text \<open>
  What a successful attestation means, and where the attester can be led past it: a device
  without the certificate capability, and one that does not sign its measurements.
\<close>

section \<open>The measurement loop\<close>

lemma c_while_returns:
  assumes cont: "\<And>x y s. I x s \<Longrightarrow> cond x \<Longrightarrow> result (body x) s = Continue y \<Longrightarrow> I y (exec (body x) s)"
    and final: "\<And>x r s. I x s \<Longrightarrow> cond x \<Longrightarrow> result (body x) s = Return r \<Longrightarrow> Q r (exec (body x) s)"
    and "I x s" and "result (c_while n cond body x) s = Return r"
  shows "Q r (exec (c_while n cond body x) s)"
  using assms(3,4)
proof (induction n arbitrary: x s)
  case (Suc n)
  then have c: "cond x" by (auto split: if_splits)
  show ?case
  proof (cases "result (body x) s")
    case (Continue y)
    then show ?thesis using Suc.IH [OF cont [OF Suc.prems(1) c Continue]] Suc.prems(2) c by (simp add: case_prod_beta)
  next
    case (Break y)
    then show ?thesis using Suc.prems(2) c by (simp add: case_prod_beta)
  next
    case (Return y)
    then show ?thesis using final [OF Suc.prems(1) c Return] Suc.prems(2) c by (simp add: case_prod_beta)
  qed
qed simp

text \<open>The position of the entries: they follow one another, each with its values.\<close>

primrec entry_pos :: "(nat \<Rightarrow> u8) \<Rightarrow> nat \<Rightarrow> nat \<Rightarrow> nat" where
  "entry_pos f p 0 = p"
| "entry_pos f p (Suc k) = (let m = afm_measurement_at f (entry_pos f p k) in
     entry_pos f p k + MEASUREMENT_PAYLOAD_SIZE + unat (ValueSize m) * unat (PossibleMeasurements m))"

definition all_measured :: "spdm_env \<Rightarrow> spdm_trace \<Rightarrow> u8 list \<Rightarrow> (nat \<Rightarrow> u8) \<Rightarrow> nat \<Rightarrow> nat \<Rightarrow> bool" where
  "all_measured P tr crt f p n \<longleftrightarrow> (\<forall>k < n. measured P tr crt f (entry_pos f p k))"

lemma all_measured_mono: "all_measured P tr crt f p n \<Longrightarrow> prefix tr tr' \<Longrightarrow> all_measured P tr' crt f p n"
  using measured_mono unfolding all_measured_def by blast

lemma unat_next: "a < (b :: u8) \<Longrightarrow> unat (a + 1) = Suc (unat a)"
  using unsigned_less [of b, where 'a = nat] by (simp add: word_less_nat_alt unat_word_ariths(1))

lemma measurement_loop_sound:
  assumes mem: "memory_ok P" and codes: "mbedtls_codes P" and len: "0 < length (slot_chains s)"
    and ok: "result (c_while n (\<lambda>x. expected \<noteq> fst x) (measurement_round P 1 f expected) (0, 0, p)) s = Return True"
  shows "slot_chains s ! 0 \<noteq> [] \<and>
    all_measured P (spdm_trace (exec (c_while n (\<lambda>x. expected \<noteq> fst x) (measurement_round P 1 f expected) (0, 0, p)) s))
      (last (slot_chains s ! 0)) f p (unat expected)"
proof -
  define C where "C = slot_chains s"
  define I where "I = (\<lambda>(ai :: u8, mi :: u8, q) (t :: attester). slot_chains t = C \<and> ai \<le> expected \<and> q = entry_pos f p (unat ai) \<and>
    all_measured P (spdm_trace t) (last (C ! 0)) f p (unat ai))"
  define Q where "Q = (\<lambda>r (t :: attester). r \<longrightarrow> C ! 0 \<noteq> [] \<and> all_measured P (spdm_trace t) (last (C ! 0)) f p (unat expected))"
  have step: "(\<forall>y. result (measurement_round P 1 f expected x) t = Continue y \<longrightarrow> I y (exec (measurement_round P 1 f expected x) t)) \<and>
      (\<forall>r. result (measurement_round P 1 f expected x) t = Return r \<longrightarrow> Q r (exec (measurement_round P 1 f expected x) t))"
    if inv: "I x t" and more: "expected \<noteq> fst x" for x t
  proof -
    obtain ai mi q where x: "x = (ai, mi, q)" by (cases x)
    define get where "get = spdm_get_measurements P 1 (mi + 1) f (Some q)"
    have C: "slot_chains t = C" and less: "ai < expected" and q: "q = entry_pos f p (unat ai)"
      and before: "all_measured P (spdm_trace t) (last (C ! 0)) f p (unat ai)"
      using inv more by (auto simp: I_def x)
    have C': "slot_chains (exec get t) = C" and grows: "prefix (spdm_trace t) (spdm_trace (exec get t))"
      using sessionD(1) [OF whole.commands_sess(5), of P 1 "mi + 1" f "Some q" t] C
        sessionD(2) [OF whole.commands_sess(5), of t P 1 "mi + 1" f "Some q"] by (simp_all add: get_def)
    have still: "all_measured P (spdm_trace (exec get t)) (last (C ! 0)) f p (unat ai)"
      using all_measured_mono [OF before grows] .
    have next_entry: "C ! 0 \<noteq> [] \<and> all_measured P (spdm_trace (exec get t)) (last (C ! 0)) f p (Suc (unat ai))"
      if "fst (result get t) = 0"
      using measurements_sound [OF mem codes, of t "mi + 1" f q] that still C len q
      by (simp add: get_def C_def all_measured_def less_Suc_eq)
    have run: "run (measurement_round P 1 f expected x) t = (if mi + 1 = 0xFF then (Return False, t) else
        (if fst (result get t) = 0 then
           if ai + 1 = expected then Return True else Continue (ai + 1, mi + 1, entry_pos f p (unat (ai + 1)))
         else if fst (result get t) = -1 then Continue (ai, mi + 1, q) else Return False, exec get t))"
      by (simp add: measurement_round_def x case_prod_beta get_def Let_def q unat_next [OF less])
    show ?thesis
      using C' still next_entry less inc_le [OF less]
      unfolding run by (auto simp: I_def Q_def q unat_next [OF less])
  qed
  have "I (0, 0, p) s" by (simp add: I_def C_def all_measured_def)
  then have "Q True (exec (c_while n (\<lambda>x. expected \<noteq> fst x) (measurement_round P 1 f expected) (0, 0, p)) s)"
    by (rule c_while_returns [where I = I and Q = Q, rotated 2, OF _ ok]) (use step in blast)+
  then show ?thesis by (simp add: Q_def C_def)
qed

section \<open>The attestation\<close>

lemma measure_device_sound:
  assumes mem: "memory_ok P" and codes: "mbedtls_codes P" and len: "0 < length (slot_chains s)"
    and sig: "remote_flags s AND SPDM_MEAS_CAP_SIG \<noteq> 0" and ok: "result (measure_device P f expected p) s = 0"
  shows "slot_chains s ! 0 \<noteq> [] \<and>
    all_measured P (spdm_trace (exec (measure_device P f expected p) s)) (last (slot_chains s ! 0)) f p (unat expected)"
proof -
  define s1 where "s1 = s\<lparr>ctx := (ctx s)\<lparr>l1l2_context := if selected s = SPDM_VERSION_12 then written (message_a (ctx s)) else []\<rparr>\<rparr>"
  define get where "get = spdm_get_measurements P 0 SPDM_MEASUREMENT_OPERATION_TOTAL_NUMBER f None"
  define s2 where "s2 = exec get s1"
  define short where "short \<longleftrightarrow> fst (result get s1) \<noteq> 0 \<or> (case snd (result get s1) of Some n \<Rightarrow> n | None \<Rightarrow> 0) < expected"
  define attr :: u8 where "attr = (if remote_flags s2 AND SPDM_MEAS_CAP_SIG \<noteq> 0 then 1 else 0)"
  define loop where "loop = c_while 256 (\<lambda>x. expected \<noteq> fst x) (measurement_round P attr f expected) (0, 0, p)"
  have run: "run (measure_device P f expected p) s = (if short then (5, s2)
      else (if result loop s2 = Return True then 0 else 5, exec loop s2))"
    by (cases "selected s = SPDM_VERSION_12"; simp add: measure_device_def case_prod_beta Let_def s1_def s2_def get_def short_def attr_def
        loop_def spdm_context_reset_l1l2_hash_def spdm_context_update_l1l2_hash_buffer_def o_def del: c_while.simps)+
  have keep: "slot_chains s2 = slot_chains s" "remote_flags s2 = remote_flags s"
    using sessionD(1) [OF whole.commands_sess(5), of P 0 SPDM_MEASUREMENT_OPERATION_TOTAL_NUMBER f None s1]
    by (simp_all add: s2_def get_def s1_def slot_chains_def)
  have attr: "attr = 1" using sig keep by (simp add: attr_def)
  have "result loop s2 = Return True" and t: "exec (measure_device P f expected p) s = exec loop s2"
    using ok by (auto simp: run split: if_splits)
  then show ?thesis
    using measurement_loop_sound [OF mem codes, of s2 256 expected f p] keep len by (simp add: loop_def attr del: c_while.simps)
qed

lemma try_slots_flags:
  "remote_flags (exec (try_slots P fuel is st) s) = remote_flags s"
proof (induction "is" arbitrary: st s)
  case (Cons i rest)
  have "remote_flags (exec (spdm_get_certificate P fuel x) s) = remote_flags s" for x s
    using sessionD(1) [OF but_slot.certificate_sess(2) [OF refl], of P fuel x s] by simp
  then show ?case using Cons by (simp add: case_prod_beta)
qed simp

lemma try_slots_less:
  "\<forall>i \<in> set is. i < 8 \<Longrightarrow> unat (snd (result (try_slots P fuel is st) s)) < 8"
proof (induction "is" arbitrary: st s)
  case (Cons i rest)
  have "unat (of_nat i :: u8) = i" using Cons.prems by (simp add: unat_of_nat take_bit_nat_eq_self)
  then show ?case using Cons by (simp add: case_prod_beta)
qed simp

lemma attestation_evidence:
  assumes mem: "memory_ok P" and codes: "mbedtls_codes P" and fresh: "slot_chains s = replicate 8 []"
    and ok: "result (spdm_attest_device P fuel f expected p) s = 0"
    and cert: "remote_flags (exec (spdm_attest_device P fuel f expected p) s) AND SPDM_CERT_CAP \<noteq> 0"
    and sig: "remote_flags (exec (spdm_attest_device P fuel f expected p) s) AND SPDM_MEAS_CAP_SIG \<noteq> 0"
    and tr: "tr = spdm_trace (exec (spdm_attest_device P fuel f expected p) s)"
  shows "\<exists>crts. crts \<noteq> [] \<and> trusted P s crts \<and> challenge_signed P tr 0 (last crts) \<and>
    all_measured P tr (last crts) f p (unat expected)"
proof -
  define r1 s1 where "r1 = result (spdm_get_version P) s" and "s1 = exec (spdm_get_version P) s"
  define r2 s2 where "r2 = result (spdm_get_capabilities P) s1" and "s2 = exec (spdm_get_capabilities P) s1"
  define r3 s3 where "r3 = result (spdm_negotiate_algorithms P) s2" and "s3 = exec (spdm_negotiate_algorithms P) s2"
  define r4 s4 where "r4 = result (spdm_get_digests P) s3" and "s4 = exec (spdm_get_digests P) s3"
  define slots where "slots = try_slots P fuel [0 ..< 8] 0"
  define w s5 where "w = result slots s4" and "s5 = exec slots s4"
  define r6 s6 where "r6 = result (spdm_challenge P (snd w) 0) s5" and "s6 = exec (spdm_challenge P (snd w) 0) s5"
  define judge where "judge = measure_device P f expected p"
  have run: "run (spdm_attest_device P fuel f expected p) s = (if r1 < 0 then (1, s1) else if r2 < 0 then (1, s2)
      else if r3 < 0 then (1, s3) else if remote_flags s3 AND SPDM_CERT_CAP = 0 then (r3, s3)
      else if r4 \<noteq> 0 then (2, s4) else if fst w \<noteq> 0 then (3, s5) else if r6 < 0 then (4, s6) else run judge s6)"
    by (simp add: spdm_attest_device_def case_prod_beta r1_def s1_def r2_def s2_def r3_def s3_def r4_def s4_def
        slots_def w_def s5_def r6_def s6_def judge_def del: try_slots.simps)
  have r6: "0 \<le> r6" and judged: "result judge s6 = 0" and t: "exec (spdm_attest_device P fuel f expected p) s = exec judge s6"
    using ok cert unfolding run by (auto split: if_splits)
  have "(slot_chains s1, link s1) = (slot_chains s, link s)"
    using sessionD(1) [OF but_caps.commands_sess(1), of P s] by (simp add: s1_def)
  moreover have "(slot_chains s2, link s2) = (slot_chains s1, link s1)"
    using sessionD(1) [OF but_caps.capabilities_sess, of P s1] by (simp add: s2_def)
  moreover have "(slot_chains s3, link s3) = (slot_chains s2, link s2)"
    using sessionD(1) [OF but_caps.commands_sess(2), of P s2] by (simp add: s3_def)
  moreover have "(slot_chains s4, link s4) = (slot_chains s3, link s3)"
    using sessionD(1) [OF but_caps.commands_sess(3), of P s3] by (simp add: s4_def)
  ultimately have s4: "slot_chains s4 = replicate 8 []" "link s4 = link s" using fresh by simp_all
  then have "chains_trusted P s4" by (simp add: chains_trusted_def)
  from try_slots_trusted [OF codes this, of fuel "[0 ..< 8]" 0]
  have s5: "chains_trusted P s5" "link s5 = link s" using s4 by (simp_all add: s5_def slots_def)
  have w8: "unat (snd w) < 8" unfolding w_def slots_def by (rule try_slots_less) simp
  have s6: "slot_chains s6 = slot_chains s5" "remote_flags s6 = remote_flags s5"
    using sessionD(1) [OF whole.commands_sess(4), of P "snd w" 0 s5] by (simp_all add: s6_def)
  have "remote_flags (exec judge s6) = remote_flags s6"
    using sessionD(1) [OF whole.measure_sess(2), of P f expected p s6] by (simp add: judge_def)
  then have flags: "remote_flags s6 AND SPDM_MEAS_CAP_SIG \<noteq> 0" using sig t by simp
  have len: "length (slot_chains s5) = 8" using s5 by (simp add: chains_trusted_def)
  define crts where "crts = slot_chains s5 ! 0"
  have grows: "prefix (spdm_trace s6) tr"
    using sessionD(2) [OF whole.measure_sess(2), of s6 P f expected p] by (simp add: tr t judge_def)
  have m: "crts \<noteq> [] \<and> all_measured P tr (last crts) f p (unat expected)"
    using measure_device_sound [OF mem codes _ flags judged [unfolded judge_def]] len
    by (simp add: s6 crts_def tr t judge_def)
  have "snd w = 0"
  proof (rule ccontr)
    assume "snd w \<noteq> 0"
    then have "slot_chains s5 ! 0 = []" unfolding s5_def slots_def w_def
      by (intro try_slots_zero [OF codes]) (simp_all add: s4)
    then show False using m by (simp add: crts_def)
  qed
  then have "challenge_signed P (spdm_trace s6) 0 (last crts)"
    using challenge_sound(2) [OF mem codes, of 0 s5] r6 len by (simp add: r6_def s6_def crts_def)
  moreover have "trusted P s crts"
  proof -
    have "trusted P s5 crts" using s5(1) m len by (auto simp: chains_trusted_def crts_def)
    then show ?thesis using s5(2) by (simp add: trusted_def)
  qed
  ultimately show ?thesis using m challenge_signed_mono [OF _ grows] by blast
qed

end
