(* ===== verification/Spdm_Demo.thy ===== *)
theory Spdm_Demo
  imports Spdm_Assurance Pfr_Devices
begin

text \<open>
  A device that the attester can be run on: it answers by the request code only, and its hash and
  signature engines accept everything. Each stage of the attestation is evaluated once, on any
  state that is connected.
\<close>

section \<open>A device that proves itself\<close>

text \<open>
  A device of version 1.1 with one certificate in slot 0 and one measurement. Its hash and its
  signature engine accept everything, so that the run can be evaluated.
\<close>

definition zeros :: "nat \<Rightarrow> u8 list" where
  "zeros n = replicate n 0"

definition device_answer :: "u8 \<Rightarrow> u8 \<Rightarrow> u8 list" where
  "device_answer fl code =
     (if code = SPDM_REQ_GET_VERSION then [5, 0x10, 4, 0, 0, 0, 1, 0, 0x11]
      else if code = SPDM_REQ_GET_CAPABILITIES then [5, 0x11, 0x61, 0, 0, 0, 0, 0, 0, fl, 0, 0, 0]
      else if code = SPDM_REQ_NEGOTIATE_ALGORITHMS then
        [5, 0x11, 0x63, 0, 0, 32, 0, 1, 0, 4, 0, 0, 0, 0x80, 0, 0, 0, 2, 0, 0, 0] @ zeros 12
      else if code = SPDM_REQ_GET_DIGESTS then [5, 0x11, 1, 0, 1] @ zeros 48
      else if code = SPDM_REQ_GET_CERTIFICATE then [5, 0x11, 2, 0, 0, 53, 0, 0, 0] @ zeros 53
      else if code = SPDM_REQ_CHALLENGE then [5, 0x11, 3, 0, 0] @ zeros 178
      else [5, 0x11, 0x60, 1, 0, 1, 0, 0, 0, 0, 0, 0, 0, 0, 1, 0, 0] @ zeros 96)"

definition demo_device :: "(u8 \<Rightarrow> u8 list) \<Rightarrow> spdm_env" where
  "demo_device answer = \<lparr>board = ref_env,
     peer = (\<lambda>tr c. case c of IssueRequest conn msg \<Rightarrow> (0, answer (msg ! 2))
       | SpdmMalloc n \<Rightarrow> (if int n < 2 ^ 31 then 1 else 0, []) | _ \<Rightarrow> (1, [])),
     sha384 = (\<lambda>_. zeros 48), asn1_get_tag = (\<lambda>_. (0, 1, 0)), x509_parse = (\<lambda>_. 0),
     x509_verify = (\<lambda>_ _. (0, 0)), pk_is_p384 = (\<lambda>_. True), ecdsa_verify = (\<lambda>_ _ _ _. 0),
     mctp_instance = (\<lambda>_ _. True), system_root_ca = [[1]]\<rparr>"

definition unset_info :: spdm_context_info where
  "unset_info = \<lparr>version = \<lparr>version_number_entry_count = 0, version_number_selected = 0, version_number_entry = [0, 0, 0]\<rparr>,
     capabilities = \<lparr>ct_exponent = 0, flags = 0, data_transfer_size = 0, max_spdm_msg_size = 0\<rparr>,
     algorithms = \<lparr>alg_length = 0, measurement_spec_sel = 0, other_param_sel = 0, measurement_hash_algo = 0,
       base_asym_sel = 0, base_hash_sel = 0\<rparr>,
     certificate = \<lparr>slot_mask = 0, certs = replicate 8 (empty_cert (zeros 48))\<rparr>\<rparr>"

definition connected :: attester where
  "connected = \<lparr>rot = boot_world,
     ctx = spdm_context_create \<lparr>connection_data = Some \<lparr>medium = 1, bus = 1, dst_addr = 0x20, dst_eid = 0\<rparr>,
       local = unset_info, remote = unset_info, message_a = snd (spdm_buffer_init True 0), m1m2_context = [],
       l1l2_context = [], private_data = None\<rparr>,
     spdm_trace = [], spdm_attester_event = 0, attestation_count = 0\<rparr>"

definition manifest_page :: "nat \<Rightarrow> u8" where
  "manifest_page i = (if i = 0 \<or> i = 6 then 1 else 0)"

lemma device_codes: "memory_ok (demo_device (device_answer fl))" "mbedtls_codes (demo_device answer)"
  by (auto simp: memory_ok_def mbedtls_codes_def demo_device_def device_answer_def zeros_def split: spdm_call.splits if_splits)

lemma connected_fresh: "slot_chains connected = replicate 8 []"
  by (simp add: connected_def slot_chains_def spdm_context_create_def unset_info_def empty_cert_def)


abbreviation honest :: "u8 \<Rightarrow> spdm_env" where
  "honest fl \<equiv> demo_device (device_answer fl)"

text \<open>One exchange with the device; the trace is all that changes.\<close>

definition answered :: "u8 list \<Rightarrow> spdm_message" where
  "answered bs = \<lparr>header = header_of_bytes (take 4 (drop 1 bs)), buffer = \<lparr>buf_size = length bs - 5,
     write_ptr = length bs - 5, read_ptr = 0, data = if length bs = 5 then None else Some (drop 5 bs)\<rparr>\<rparr>"

lemma honest_malloc: "n < 2 ^ 31 \<Longrightarrow> result (buffer_init (demo_device answer) n) s = snd (spdm_buffer_init True n)"
  by (cases "n = 0") (simp_all add: buffer_init_def allocate_def demo_device_def)

lemma malloc_ctx: "ctx (exec (buffer_init P n) s) = ctx s"
  by (simp add: buffer_init_def allocate_def case_prod_beta)

lemma device_peer [simp]:
  "peer (demo_device answer) tr (IssueRequest conn (x # message_bytes req)) = (0, answer (request_response_code (header req)))"
  by (simp add: demo_device_def message_bytes_def header_bytes_def)

lemma device_malloc [simp]: "n < 2 ^ 31 \<Longrightarrow> fst (peer (demo_device answer) tr (SpdmMalloc n)) = 1"
  by (simp add: demo_device_def)

lemma device_engines [simp]:
  "sha384 (demo_device answer) bs = zeros 48" "asn1_get_tag (demo_device answer) bs = (0, 1, 0)" "x509_parse (demo_device answer) c = 0"
  "x509_verify (demo_device answer) cs a = (0, 0)" "pk_is_p384 (demo_device answer) c" "ecdsa_verify (demo_device answer) c h r x = 0"
  by (simp_all add: demo_device_def)

lemma honest_send:
  assumes "connection_data (ctx s) = Some conn" and "ans = answer (request_response_code (header req))"
    and "5 \<le> length ans" and "length ans < 2 ^ 31"
  shows "result (spdm_send_request (demo_device answer) req) s = (0, answered ans)"
    and "ctx (exec (spdm_send_request (demo_device answer) req) s) = ctx s"
proof -
  have n: "payload_length ans = length ans - 5"
  proof -
    have "payload_length ans = unat (of_nat (length ans - 5) :: u32)" using assms(3) by (simp add: payload_length_def of_nat_diff)
    then show ?thesis using assms(4) by (simp only: unat_of_nat) (simp add: take_bit_nat_eq_self)
  qed
  show "result (spdm_send_request (demo_device answer) req) s = (0, answered ans)"
    using assms
    by (simp add: spdm_send_request_def spdm_mctp_send_recv_def case_prod_beta honest_malloc n [unfolded assms(2)] Let_def
        answered_def memory_at_id spdm_buffer_init_def spdm_buffer_append_array_def overwrite_def)
  show "ctx (exec (spdm_send_request (demo_device answer) req) s) = ctx s"
    by (simp add: spdm_send_request_def spdm_mctp_send_recv_def case_prod_beta malloc_ctx undefined_behaviour_def split: option.split)
qed


definition linked :: "u8 \<Rightarrow> attester \<Rightarrow> bool" where
  "linked ver s \<longleftrightarrow> (\<exists>conn. connection_data (ctx s) = Some conn) \<and> selected s = ver \<and>
     version_number_selected (version (remote (ctx s))) = ver \<and> length (certs (certificate (remote (ctx s)))) = 8"

lemma honest_answer:
  assumes "linked ver s"
  shows "result (spdm_send_request (honest fl) (request v code p1 p2 b)) s = (0, answered (device_answer fl code))"
    and "ctx (exec (spdm_send_request (demo_device answer) (request v code p1 p2 b)) s) = ctx s"
proof -
  obtain conn where conn: "connection_data (ctx s) = Some conn" using assms by (auto simp: linked_def)
  show "result (spdm_send_request (honest fl) (request v code p1 p2 b)) s = (0, answered (device_answer fl code))"
    using conn by (intro honest_send(1)) (simp_all add: request_def device_answer_def zeros_def)
  show "ctx (exec (spdm_send_request (demo_device answer) (request v code p1 p2 b)) s) = ctx s"
    by (simp add: spdm_send_request_def spdm_mctp_send_recv_def case_prod_beta malloc_ctx undefined_behaviour_def split: option.split)
qed

lemmas answered_simps = answered_def device_answer_def zeros_def header_of_bytes_def spdm_buffer_get_u8_def
  spdm_buffer_get_u16_def spdm_buffer_get_u32_def spdm_buffer_get_array_def u16_of_bytes_def u32_of_bytes_def

lemma reserved_2: "spdm_buffer_get_reserved b 2 = spdm_buffer_get_reserved b (Suc (Suc 0))"
  by (simp add: eval_nat_numeral)

text \<open>What the transcripts leave alone.\<close>

lemma transcript_ctx [simp]:
  "remote (ctx (exec (append_message_a P n a b) s)) = remote (ctx s)"
  "local (ctx (exec (append_message_a P n a b) s)) = local (ctx s)"
  "connection_data (ctx (exec (append_message_a P n a b) s)) = connection_data (ctx s)"
  "remote (ctx (exec (spdm_context_update_m1m2_hash a b) s)) = remote (ctx s)"
  "local (ctx (exec (spdm_context_update_m1m2_hash a b) s)) = local (ctx s)"
  "connection_data (ctx (exec (spdm_context_update_m1m2_hash a b) s)) = connection_data (ctx s)"
  by (simp_all add: append_message_a_def buffer_resize_def allocate_def case_prod_beta spdm_context_update_m1m2_hash_def)

lemma linked_transcript [simp]:
  "linked v (exec (append_message_a P n a b) s) = linked v s"
  "linked v (exec (spdm_context_update_m1m2_hash a b) s) = linked v s"
  "linked v (exec spdm_context_reset_m1m2_hash s) = linked v s"
  by (simp_all add: linked_def spdm_context_reset_m1m2_hash_def)

lemma honest_version:
  assumes "linked 0x10 s"
  shows "result (spdm_get_version (honest fl)) s = 0" and "linked 0x11 (exec (spdm_get_version (honest fl)) s)"
proof -
  have sel: "version_number_selected (version (remote (ctx s))) = 0x10" using assms by (simp add: linked_def)
  show "result (spdm_get_version (honest fl)) s = 0"
    using assms by (simp add: spdm_get_version_def honest_answer case_prod_beta Let_def answered_simps)
  show "linked 0x11 (exec (spdm_get_version (honest fl)) s)"
    using assms by (simp add: spdm_get_version_def honest_answer case_prod_beta Let_def answered_simps sel) (simp add: linked_def)
qed

lemma honest_capabilities:
  assumes "linked 0x11 s"
  shows "result (spdm_get_capabilities (honest fl)) s = 0" and "linked 0x11 (exec (spdm_get_capabilities (honest fl)) s)"
    and "remote_flags (exec (spdm_get_capabilities (honest fl)) s) = ucast fl"
proof -
  have sel: "selected s = 0x11" using assms by (simp add: linked_def)
  have link: "linked 0x11 (exec (buffer_init P n) s)" for P n using assms by (simp add: linked_def malloc_ctx)
  note run = spdm_get_capabilities_def honest_answer [OF link] case_prod_beta Let_def answered_simps sel reserved_2 malloc_ctx
  show "result (spdm_get_capabilities (honest fl)) s = 0" by (simp add: run)
  show "linked 0x11 (exec (spdm_get_capabilities (honest fl)) s)" by (simp add: run) (use assms in \<open>simp add: linked_def malloc_ctx honest_answer [OF link]\<close>)
  show "remote_flags (exec (spdm_get_capabilities (honest fl)) s) = ucast fl" by (simp add: run)
qed


lemma reserved_1: "spdm_buffer_get_reserved b 1 = spdm_buffer_get_reserved b (Suc 0)"
  by simp

lemma linked_malloc: "linked v s \<Longrightarrow> linked v (exec (buffer_init P n) s)"
  by (simp add: linked_def malloc_ctx)

lemma honest_algorithms:
  assumes "linked 0x11 s"
  shows "result (spdm_negotiate_algorithms (honest fl)) s = 0" and "linked 0x11 (exec (spdm_negotiate_algorithms (honest fl)) s)"
    and "remote_flags (exec (spdm_negotiate_algorithms (honest fl)) s) = remote_flags s"
proof -
  have sel: "selected s = 0x11" using assms by (simp add: linked_def)
  have link: "linked 0x11 (exec (set_request_length b) (exec (buffer_init P n) s))"
    and ctx: "ctx (exec (set_request_length b) s') = ctx s'" for P n b s'
    using assms by (auto simp: linked_def malloc_ctx set_request_length_def undefined_behaviour_def split: option.split)
  note run = spdm_negotiate_algorithms_def honest_answer [OF link] case_prod_beta Let_def answered_simps sel malloc_ctx ctx
    algorithms_accept_def
  show "result (spdm_negotiate_algorithms (honest fl)) s = 0" by (simp add: run)
  show "linked 0x11 (exec (spdm_negotiate_algorithms (honest fl)) s)" by (simp add: run) (use assms in \<open>simp add: linked_def ctx malloc_ctx honest_answer [OF link]\<close>)
  show "remote_flags (exec (spdm_negotiate_algorithms (honest fl)) s) = remote_flags s" by (simp add: run)
qed

definition digested :: "attester \<Rightarrow> bool" where
  "digested s \<longleftrightarrow> linked 0x11 s \<and> slot_mask (certificate (remote (ctx s))) = 1 \<and> digest (slot s 0) = zeros 48"

lemma slots_1: "slots 1 = [0]"
  by (simp add: slots_def upt_rec bit_1_iff)

lemma honest_digests:
  assumes "linked 0x11 s"
  shows "result (spdm_get_digests (honest fl)) s = 0" and "digested (exec (spdm_get_digests (honest fl)) s)"
    and "remote_flags (exec (spdm_get_digests (honest fl)) s) = remote_flags s"
proof -
  have sel: "selected s = 0x11" using assms by (simp add: linked_def)
  have len: "length (certs (certificate (remote (ctx s)))) = 8" using assms by (simp add: linked_def)
  note run = spdm_get_digests_def honest_answer [OF assms] case_prod_beta Let_def answered_simps sel slots_1
  show "result (spdm_get_digests (honest fl)) s = 0" by (simp add: run)
  show "digested (exec (spdm_get_digests (honest fl)) s)" by (simp add: run) (use assms len in \<open>simp add: digested_def linked_def honest_answer [OF assms] zeros_def\<close>)
  show "remote_flags (exec (spdm_get_digests (honest fl)) s) = remote_flags s" by (simp add: run)
qed


definition proven :: "attester \<Rightarrow> bool" where
  "proven s \<longleftrightarrow> linked 0x11 s \<and> chain (slot s 0) \<noteq> []"

lemma honest_round:
  assumes "digested s"
  shows "result (certificate_round (honest fl) 0 (0, True)) s = Break (0x35, False)"
    and "remote_flags (exec (certificate_round (honest fl) 0 (0, True)) s) = remote_flags s"
    and "cert_size (slot (exec (certificate_round (honest fl) 0 (0, True)) s) 0) = 53"
    and "linked 0x11 (exec (certificate_round (honest fl) 0 (0, True)) s)"
proof -
  have link: "linked 0x11 (exec (buffer_init P n) s)" and sel: "selected s = 0x11" and dg: "digest (slot s 0) = replicate 48 0"
    and len: "0 < length (certs (certificate (remote (ctx s))))" "certs (certificate (remote (ctx s))) \<noteq> []"
    for P n using assms by (auto simp: digested_def linked_def malloc_ctx zeros_def)
  note run = certificate_round_def honest_answer [OF link] case_prod_beta Let_def answered_simps sel malloc_ctx
        allocate_def store_portion_def end_portion_def dg len
  show "result (certificate_round (honest fl) 0 (0, True)) s = Break (0x35, False)"
    by (simp add: run)
  show "remote_flags (exec (certificate_round (honest fl) 0 (0, True)) s) = remote_flags s"
    by (simp add: run)
  show "cert_size (slot (exec (certificate_round (honest fl) 0 (0, True)) s) 0) = 53"
    by (simp add: run)
  show "linked 0x11 (exec (certificate_round (honest fl) 0 (0, True)) s)"
    by (simp add: run) (use assms in \<open>simp add: digested_def linked_def malloc_ctx\<close>)
qed

lemma honest_chain:
  assumes "cert_size (slot s 0) = 53" and "linked 0x11 s"
  shows "result (check_chain (honest fl) 0) s = 0" and "proven (exec (check_chain (honest fl) 0) s)"
    and "remote_flags (exec (check_chain (honest fl) 0) s) = remote_flags s"
proof -
  define bs where "bs = drop (4 + 48) (memory_at (honest fl) (unat (cert_size (slot s 0)))
    (case cert_data (slot s 0) of Some d \<Rightarrow> d | None \<Rightarrow> []))"
  have "length bs = 1" using assms(1) by (simp add: bs_def)
  then obtain x where x: "bs = [x]" by (auto simp: length_Suc_conv)
  have parse: "run (parse_chain (honest fl) bs) s = ((0, [[x]]), s)"
    by (simp add: parse_chain_def x chain_round_def)
  have run: "run (check_chain (honest fl) 0) s =
      (0, s\<lparr>ctx := remote_update (certificate_update (certs_update (\<lambda>cs. cs[0 := chain_update (\<lambda>_. [[x]]) (cs ! 0)]))) (ctx s)\<rparr>)"
    using parse unfolding bs_def by (simp add: check_chain_def case_prod_beta Let_def)
  show "result (check_chain (honest fl) 0) s = 0" and "proven (exec (check_chain (honest fl) 0) s)"
    and "remote_flags (exec (check_chain (honest fl) 0) s) = remote_flags s"
    using assms(2) by (auto simp: run proven_def linked_def)
qed

lemma honest_certificate:
  assumes "digested s"
  shows "result (spdm_get_certificate (honest fl) (Suc fuel) 0) s = 0" and "proven (exec (spdm_get_certificate (honest fl) (Suc fuel) 0) s)"
    and "remote_flags (exec (spdm_get_certificate (honest fl) (Suc fuel) 0) s) = remote_flags s"
  using honest_round [OF assms, of fl] honest_chain [OF honest_round(3,4) [OF assms, of fl]]
  by (simp_all add: spdm_get_certificate_def case_prod_beta)

lemma honest_slots:
  assumes "digested s"
  shows "result (try_slots (honest fl) (Suc fuel) [0 ..< 8] 0) s = (0, 0)"
    and "proven (exec (try_slots (honest fl) (Suc fuel) [0 ..< 8] 0) s)"
    and "remote_flags (exec (try_slots (honest fl) (Suc fuel) [0 ..< 8] 0) s) = remote_flags s"
proof -
  have upt: "[0 ..< 8] = 0 # [1 ..< 8]" by (simp add: upt_rec)
  have "bit (slot_mask (certificate (remote (ctx s)))) 0" using assms by (simp add: digested_def)
  then show "result (try_slots (honest fl) (Suc fuel) [0 ..< 8] 0) s = (0, 0)"
    and "proven (exec (try_slots (honest fl) (Suc fuel) [0 ..< 8] 0) s)"
    and "remote_flags (exec (try_slots (honest fl) (Suc fuel) [0 ..< 8] 0) s) = remote_flags s"
    using honest_certificate [OF assms, of fl fuel] by (simp_all add: upt case_prod_beta)
qed


lemma verify_run:
  assumes "chain (slot s i) \<noteq> []"
  shows "run (spdm_crypto_verify (demo_device answer) i h sg False c) s = (0, s)"
  using assms by (simp add: spdm_crypto_verify_def ecdsa_check_def)

lemma proven_chain: "proven s \<Longrightarrow> chain (slot s 0) \<noteq> []"
  by (simp add: proven_def)

lemma nonce_ctx [simp]: "ctx (exec (spdm_buffer_append_nonce P b) s) = ctx s"
  by (simp add: spdm_buffer_append_nonce_def case_prod_beta)

lemma honest_challenge:
  assumes "proven s"
  shows "result (spdm_challenge (honest fl) 0 0) s = 0" and "proven (exec (spdm_challenge (honest fl) 0 0) s)"
    and "remote_flags (exec (spdm_challenge (honest fl) 0 0) s) = remote_flags s"
proof -
  have link: "linked 0x11 (exec (spdm_buffer_append_nonce P b) (exec (buffer_init P n) s))" and sel: "selected s = 0x11"
    and crt: "chain (slot s 0) \<noteq> []"
    for P n b using assms by (auto simp: proven_def linked_def malloc_ctx)
  note run = spdm_challenge_def honest_answer [OF link] case_prod_beta Let_def answered_simps sel malloc_ctx verify_run crt
    spdm_context_reset_m1m2_hash_def
  show "result (spdm_challenge (honest fl) 0 0) s = 0"
    by (simp add: run)
  show "remote_flags (exec (spdm_challenge (honest fl) 0 0) s) = remote_flags s"
    by (simp add: run)
  show "proven (exec (spdm_challenge (honest fl) 0 0) s)"
    by (simp add: run) (use assms in \<open>simp add: proven_def linked_def honest_answer [OF link] malloc_ctx\<close>)
qed

lemma honest_number:
  assumes "proven s"
  shows "result (spdm_get_measurements (honest fl) 0 0 f q) s = (0, Some 1)"
    and "proven (exec (spdm_get_measurements (honest fl) 0 0 f q) s)"
    and "remote_flags (exec (spdm_get_measurements (honest fl) 0 0 f q) s) = remote_flags s"
proof -
  have link: "linked 0x11 (exec (buffer_init P n) s)" and sel: "selected s = 0x11"
    for P n using assms by (auto simp: proven_def linked_def malloc_ctx)
  note run = spdm_get_measurements_def honest_answer [OF link] case_prod_beta Let_def answered_simps sel malloc_ctx
    spdm_context_update_l1l2_hash_def
  show "result (spdm_get_measurements (honest fl) 0 0 f q) s = (0, Some 1)"
    by (simp add: run)
  show "remote_flags (exec (spdm_get_measurements (honest fl) 0 0 f q) s) = remote_flags s"
    by (simp add: run)
  show "proven (exec (spdm_get_measurements (honest fl) 0 0 f q) s)"
    by (simp add: run) (use assms in \<open>simp add: proven_def linked_def honest_answer [OF link] malloc_ctx\<close>)
qed

lemma honest_signed:
  assumes crt: "chain (slot s 0) \<noteq> []" and full: "full_of (buffer rsp) bs" and len: "11 \<le> length bs"
    and ver: "spdm_version (header req) = 0x11"
    and bs: "bs ! 0 = 1" "u16_of_bytes (drop 9 bs) = 1" "memory_at (demo_device answer) 1 (drop 11 bs) = [0]"
  shows "result (signed_measurement (demo_device answer) req rsp manifest_page (Some 0)) s = 0"
proof -
  have m: "afm_measurement_at manifest_page 0 = \<lparr>PossibleMeasurements = 1, ValueIndex = 0, ValueSize = 1, Values = 8\<rparr>"
    by (simp add: afm_measurement_at_def manifest_page_def u16_of_bytes_def)
  have "measurement_matches manifest_page (afm_measurement_at manifest_page 0) [0]"
    by (simp add: m measurement_matches_def manifest_page_def)
  then show ?thesis
    using crt bs measurement_block_at [OF full len]
    by (simp add: signed_measurement_def case_prod_beta Let_def ver m verify_run
        spdm_context_update_l1l2_hash_def spdm_context_reset_l1l2_hash_def)
qed

lemma honest_measurement:
  assumes "proven s"
  shows "fst (result (spdm_get_measurements (honest fl) 1 1 manifest_page (Some 0)) s) = 0"
proof -
  have link: "linked 0x11 (exec (spdm_buffer_append_nonce P b) (exec (buffer_init P n) s))" and sel: "selected s = 0x11"
    and crt: "chain (slot s 0) \<noteq> []"
    for P n b using assms by (auto simp: proven_def linked_def malloc_ctx)
  have full: "full_of (buffer (answered (device_answer fl 0xE0))) (drop 5 (device_answer fl 0xE0))"
    by (simp add: full_of_def answered_def device_answer_def zeros_def)
  have at: "length (drop 5 (device_answer fl 0xE0)) = 108" "drop 5 (device_answer fl 0xE0) ! 0 = 1"
    "u16_of_bytes (drop 9 (drop 5 (device_answer fl 0xE0))) = 1"
    "memory_at (honest fl) 1 (drop 11 (drop 5 (device_answer fl 0xE0))) = [0]"
    by (simp_all add: device_answer_def zeros_def u16_of_bytes_def memory_at_def)
  have h: "header (answered (device_answer fl 0xE0)) = \<lparr>spdm_version = 0x11, request_response_code = 0x60, param1 = 1, param2 = 0\<rparr>"
    "write_ptr (buffer (answered (device_answer fl 0xE0))) = 108"
    by (simp_all add: device_answer_def zeros_def answered_def header_of_bytes_def)
  have signed: "result (signed_measurement (honest fl) (request 0x11 c p q b) (answered (device_answer fl 0xE0)) manifest_page (Some 0)) t = 0"
    if "ctx t = ctx s" for c p q b t
    using that at crt by (intro honest_signed [OF _ full]) (simp_all add: request_def)
  show ?thesis
    by (simp add: spdm_get_measurements_def honest_answer [OF link] case_prod_beta Let_def sel malloc_ctx h signed)
qed


lemma honest_measured:
  assumes "proven s" and "remote_flags s AND SPDM_MEAS_CAP_SIG \<noteq> 0"
  shows "result (measure_device (honest fl) manifest_page 1 0) s = 0"
    and "remote_flags (exec (measure_device (honest fl) manifest_page 1 0) s) = remote_flags s"
proof -
  define s1 where "s1 = s\<lparr>ctx := (ctx s)\<lparr>l1l2_context := []\<rparr>\<rparr>"
  have s1: "proven s1" "remote_flags s1 = remote_flags s" and sel: "selected s = 0x11"
    using assms(1) by (simp_all add: s1_def proven_def linked_def)
  note number = honest_number [OF s1(1), of fl manifest_page None]
  have m: "result (measurement_round (honest fl) 1 manifest_page 1 (0, 0, 0)) (exec (spdm_get_measurements (honest fl) 0 0 manifest_page None) s1)
      = Return True"
    using honest_measurement [OF number(2)] by (simp add: measurement_round_def case_prod_beta)
  then have loop: "result (c_while 256 (\<lambda>x. (1 :: u8) \<noteq> fst x) (measurement_round (honest fl) 1 manifest_page 1) (0, 0, 0))
      (exec (spdm_get_measurements (honest fl) 0 0 manifest_page None) s1) = Return True"
    by (simp add: eval_nat_numeral case_prod_beta)
  show "result (measure_device (honest fl) manifest_page 1 0) s = 0"
    using number s1(2) assms(2) loop
    by (simp add: measure_device_def case_prod_beta Let_def sel s1_def spdm_context_reset_l1l2_hash_def o_def del: c_while.simps)
  show "remote_flags (exec (measure_device (honest fl) manifest_page 1 0) s) = remote_flags s"
    using sessionD(1) [OF whole.measure_sess(2), of "honest fl" manifest_page 1 0 s] by simp
qed

text \<open>The state of the attester once the device has told its version, capabilities and algorithms.\<close>

definition negotiated :: "spdm_env \<Rightarrow> attester \<Rightarrow> attester" where
  "negotiated P s = exec (spdm_negotiate_algorithms P) (exec (spdm_get_capabilities P) (exec (spdm_get_version P) s))"

lemma honest_vca:
  assumes "linked 0x10 s"
  shows "result (spdm_get_version (honest fl)) s = 0"
    and "result (spdm_get_capabilities (honest fl)) (exec (spdm_get_version (honest fl)) s) = 0"
    and "result (spdm_negotiate_algorithms (honest fl)) (exec (spdm_get_capabilities (honest fl)) (exec (spdm_get_version (honest fl)) s)) = 0"
    and "linked 0x11 (negotiated (honest fl) s)" and "remote_flags (negotiated (honest fl) s) = ucast fl"
  using honest_version [OF assms, of fl] honest_capabilities [OF honest_version(2) [OF assms], of fl fl]
    honest_algorithms [OF honest_capabilities(2) [OF honest_version(2) [OF assms]], of fl fl fl]
  by (simp_all add: negotiated_def)

lemma honest_attested:
  assumes "linked 0x10 s"
  shows "result (spdm_attest_device (honest 0x16) (Suc fuel) manifest_page 1 0) s = 0"
    and "remote_flags (exec (spdm_attest_device (honest 0x16) (Suc fuel) manifest_page 1 0) s) = 0x16"
proof -
  note v = honest_vca [OF assms, where fl = "0x16"]
  note d = honest_digests [OF v(4), where fl = "0x16"]
  note c = honest_slots [OF d(2), where fl = "0x16" and fuel = fuel]
  note h = honest_challenge [OF c(2), where fl = "0x16"]
  have "remote_flags (exec (spdm_challenge (honest 0x16) 0 0)
      (exec (try_slots (honest 0x16) (Suc fuel) [0 ..< 8] 0) (exec (spdm_get_digests (honest 0x16)) (negotiated (honest 0x16) s)))) = 0x16"
    using d(3) c(3) h(3) v(5) by simp
  then have m: "result (measure_device (honest 0x16) manifest_page 1 0) (exec (spdm_challenge (honest 0x16) 0 0)
      (exec (try_slots (honest 0x16) (Suc fuel) [0 ..< 8] 0) (exec (spdm_get_digests (honest 0x16)) (negotiated (honest 0x16) s)))) = 0"
    "remote_flags (exec (measure_device (honest 0x16) manifest_page 1 0) (exec (spdm_challenge (honest 0x16) 0 0)
      (exec (try_slots (honest 0x16) (Suc fuel) [0 ..< 8] 0) (exec (spdm_get_digests (honest 0x16)) (negotiated (honest 0x16) s))))) = 0x16"
    using honest_measured [OF h(2), of "0x16"] by simp_all
  show "result (spdm_attest_device (honest 0x16) (Suc fuel) manifest_page 1 0) s = 0"
    and "remote_flags (exec (spdm_attest_device (honest 0x16) (Suc fuel) manifest_page 1 0) s) = 0x16"
    using v(1-3,5) d(1) c(1) h(1) m unfolding negotiated_def
    by (simp_all add: spdm_attest_device_def case_prod_beta del: try_slots.simps)
qed

lemma connected_linked: "linked 0x10 connected"
  by (simp add: linked_def connected_def spdm_context_create_def unset_info_def)

end
