(* ===== verification/Spdm_Attested.thy ===== *)
theory Spdm_Attested
  imports Spdm_Demo Pfr_Frames
begin

text \<open>
  The attester on devices that answer everything: what its verdict means for a device that proves
  itself, what a failure puts into the queue of the state machine, and what the code makes of
  devices that leave out a capability or send their certificate as they please.
\<close>

section \<open>The report of a failure\<close>

interpretation queue: caps_view "\<lambda>s. aspeed_sm_fifo (rot s)"
  by unfold_locales simp_all

interpretation queue_slot: cert_view "\<lambda>s. aspeed_sm_fifo (rot s)" i for i
  by unfold_locales simp_all

interpretation queue_rot: verifying aspeed_sm_fifo "\<lambda>_. True"
  by unfold_locales simp_all

lemma try_slots_queue: "state_io_rel (session (\<lambda>s. aspeed_sm_fifo (rot s))) (try_slots P fuel is st)"
proof (induction "is" arbitrary: st)
  case (Cons i rest)
  then show ?case by (auto intro!: queue.sess_intros queue_slot.certificate_sess)
qed (simp add: sess.keeps_return)

lemma attest_queue: "aspeed_sm_fifo (rot (exec (spdm_attest_device P fuel f n p) s)) = aspeed_sm_fifo (rot s)"
proof -
  have "state_io_rel (session (\<lambda>s. aspeed_sm_fifo (rot s))) (spdm_attest_device P fuel f n p)"
    unfolding spdm_attest_device_def
    by (intro queue.sess_intros queue.commands_sess queue.capabilities_sess queue.measure_sess try_slots_queue)
  then show ?thesis by (rule sessionD(1))
qed

lemma read_afm_queue: "aspeed_sm_fifo (exec (read_afm_dev_info E i) w) = aspeed_sm_fifo w"
proof -
  have "state_io_rel (effect aspeed_sm_fifo (\<lambda>_. True)) (read_afm_dev_info E i)"
    unfolding read_afm_dev_info_def
    by (intro queue_rot.eff_intros eff; simp)
  then show ?thesis by (rule effect_keeps)
qed


text \<open>What an attestation with status \<open>st\<close> leaves in the queue.\<close>

definition failure_events :: "nat \<Rightarrow> afm_device \<Rightarrow> int \<Rightarrow> event_context list" where
  "failure_events device dev st = (case failure_report st of
     Some (_, _, lock_bit) \<Rightarrow> if Policy dev AND lock_bit \<noteq> 0
       then [mk_event ATTESTATION_FAILED (of_nat device, BindingSpec dev, Policy dev, word_of_int st)] else []
   | None \<Rightarrow> [])"

lemma report_queue:
  assumes "heap_ok E"
  shows "aspeed_sm_fifo (exec (report_attestation E device dev st) w) = aspeed_sm_fifo w @ failure_events device dev st"
proof (cases "failure_report st")
  case (Some r)
  obtain a b bit where r: "r = (a, b, bit)" by (cases r)
  have log: "aspeed_sm_fifo (exec (LogErrorCodes E a b) w) = aspeed_sm_fifo w"
  proof -
    have "state_io_rel (effect aspeed_sm_fifo (\<lambda>_. True)) (LogErrorCodes E a b)" by (intro eff)
    then show ?thesis by (rule effect_keeps)
  qed
  show ?thesis using assms log
    by (simp add: report_attestation_def failure_events_def Some r GenerateStateMachineEvent_def heap_ok_def case_prod_beta
        del: failure_report.simps)
qed (simp add: report_attestation_def failure_events_def)

lemma handle_queue:
  assumes heap: "heap_ok (board P)"
    and page: "result (read_afm_dev_info (board P) device) (rot s) = (0, bs)" and f: "f = page_at P bs"
    and info: "map_afm_info f = (0, Some info)"
    and bound: "BindingSpec (afm_device_of f) = SPDM_MEDIUM_SMBUS" "mctp_instance P SPDM_MEDIUM_SMBUS (BusID (afm_device_of f))"
    and memory: "\<And>tr. fst (peer P tr MallocContext) \<noteq> 0" "\<And>tr. fst (peer P tr MallocConnection) \<noteq> 0"
  shows "\<exists>s1. aspeed_sm_fifo (rot (exec (spdm_attestation_handle P fuel device events) s)) = aspeed_sm_fifo (rot s) @
    failure_events device (afm_device_of f) (result (spdm_attest_device P fuel f (TotalMeasurements info) (Measurements info)) s1)"
  using bound memory info unfolding f
  by (auto simp: spdm_attestation_handle_def page case_prod_beta Let_def allocate_def init_requester_context_def
    spdm_mctp_init_req_def report_queue [OF heap] attest_queue read_afm_queue)

section \<open>Properties\<close>

text \<open>
  C2: an attestation that succeeds on a device with the certificate and signature capabilities
  has seen evidence. Slot 0 holds a certificate chain that verifies against the trust anchor; the
  key of its last certificate has signed the challenge and, for every entry of the manifest, a
  measurement that the device sent in answer to a request of this exchange and whose value is
  one of those the manifest allows; each signature covers the request with the nonce that was
  drawn for it.
\<close>

theorem attestation_is_evidence:
  assumes "memory_ok P" and "mbedtls_codes P" and "slot_chains s = replicate 8 []"
    and "result (spdm_attest_device P fuel f expected p) s = ATTEST_SUCCEEDED"
    and "remote_flags (exec (spdm_attest_device P fuel f expected p) s) AND SPDM_CERT_CAP \<noteq> 0"
    and "remote_flags (exec (spdm_attest_device P fuel f expected p) s) AND SPDM_MEAS_CAP_SIG \<noteq> 0"
    and "tr = spdm_trace (exec (spdm_attest_device P fuel f expected p) s)"
  shows "\<exists>crts. crts \<noteq> [] \<and> trusted P s crts \<and> challenge_signed P tr 0 (last crts) \<and>
    all_measured P tr (last crts) f p (unat expected)"
  by (rule attestation_evidence [OF assms])

theorem attestation_is_evidence_witness:
  "\<exists>crts. crts \<noteq> [] \<and> trusted (honest 0x16) connected crts \<and>
     challenge_signed (honest 0x16) (spdm_trace (exec (spdm_attest_device (honest 0x16) 1 manifest_page 1 0) connected)) 0 (last crts) \<and>
     all_measured (honest 0x16) (spdm_trace (exec (spdm_attest_device (honest 0x16) 1 manifest_page 1 0) connected)) (last crts)
       manifest_page 0 1"
  using attestation_is_evidence [OF device_codes(1) device_codes(2) connected_fresh, where fuel = 1 and f = manifest_page and expected = 1 and p = 0]
    honest_attested [OF connected_linked, of 0]
  by (simp del: c_while.simps)


text \<open>A board whose manifest has one device, and a device that does not answer.\<close>

definition manifest_board :: "u8 list \<Rightarrow> env" where
  "manifest_board page = ref_env\<lparr>reply_of := (\<lambda>tr c. case c of Fl (RotFlashRead d a n) \<Rightarrow> (0, page) | _ \<Rightarrow> (1, []))\<rparr>"

definition silent :: "u8 list \<Rightarrow> spdm_env" where
  "silent page = (demo_device (\<lambda>_. []))\<lparr>board := manifest_board page,
     peer := (\<lambda>tr c. case c of IssueRequest conn msg \<Rightarrow> (-1, []) | _ \<Rightarrow> (1, []))\<rparr>"

definition smbus_entry :: "u8 list" where
  "smbus_entry = zeros 46 @ [1, 0x20, 1, 0, 0, 7]"

lemma silent_page: "result (read_afm_dev_info (board (silent page)) 0) w = (0, fit 0x2000 page)"
  by (simp add: read_afm_dev_info_def afm_flash_id_def pfr_spi_read_def silent_def manifest_board_def case_prod_beta)

lemma silent_at: "page_at (silent page) (fit n page) i = (if i < length page \<and> i < n then page ! i else 0)"
  by (auto simp: page_at_def fit_def nth_append silent_def manifest_board_def ref_env_def min_def nth_replicate split: if_splits)


lemma silent_fails: "result (spdm_attest_device (silent page) fuel f n p) s = ATTEST_FAILED_VCA"
proof -
  have "result (spdm_get_version (silent page)) s' = -1" for s'
    by (cases "connection_data (ctx s')")
       (simp_all add: spdm_get_version_def spdm_send_request_def spdm_mctp_send_recv_def silent_def undefined_behaviour_def case_prod_beta
          header_of_bytes_def request_def spdm_buffer_init_def Let_def)
  then show ?thesis by (simp add: spdm_attest_device_def case_prod_beta)
qed


section \<open>Capabilities that are left out\<close>

lemma unsigned_measurement: "spdm_get_measurements P 0 op f p = spdm_get_measurements P 0 op g q"
  by (simp only: spdm_get_measurements_def refl simp_thms if_True Let_def)

text \<open>The loops over two manifests agree on what they ask and on how they end.\<close>

definition same_progress :: "(u8 \<times> u8 \<times> nat, bool) flow \<Rightarrow> (u8 \<times> u8 \<times> nat, bool) flow \<Rightarrow> bool" where
  "same_progress v w = (case (v, w) of
     (Continue (a, m, _), Continue (a', m', _)) \<Rightarrow> a = a' \<and> m = m'
   | (Return x, Return y) \<Rightarrow> x = y
   | (Break (a, m, _), Break (a', m', _)) \<Rightarrow> a = a' \<and> m = m'
   | _ \<Rightarrow> False)"

lemma same_progress_simps [simp]:
  "same_progress (Continue (a, m, p)) (Continue (a', m', q)) \<longleftrightarrow> a = a' \<and> m = m'"
  "same_progress (Break (a, m, p)) (Break (a', m', q)) \<longleftrightarrow> a = a' \<and> m = m'"
  "same_progress (Return b) (Return b') \<longleftrightarrow> b = b'"
  by (simp_all add: same_progress_def)

lemma unsigned_round:
  "same_progress (result (measurement_round P 0 f n (a, m, p)) s) (result (measurement_round P 0 g n (a, m, q)) s)"
  "exec (measurement_round P 0 f n (a, m, p)) s = exec (measurement_round P 0 g n (a, m, q)) s"
  using unsigned_measurement [of P "m + 1" f "Some p" g "Some q"]
  by (simp_all add: measurement_round_def case_prod_beta Let_def same_progress_def)

lemma unsigned_loop:
  "same_progress (result (c_while k (\<lambda>x. n \<noteq> fst x) (measurement_round P 0 f n) (a, m, p)) s)
     (result (c_while k (\<lambda>x. n \<noteq> fst x) (measurement_round P 0 g n) (a, m, q)) s) \<and>
   exec (c_while k (\<lambda>x. n \<noteq> fst x) (measurement_round P 0 f n) (a, m, p)) s =
     exec (c_while k (\<lambda>x. n \<noteq> fst x) (measurement_round P 0 g n) (a, m, q)) s"
proof (induction k arbitrary: a m p q s)
  case (Suc k)
  note r = unsigned_round [of P f n a m p s g q]
  show ?case
  proof (cases "result (measurement_round P 0 f n (a, m, p)) s"; cases "result (measurement_round P 0 g n (a, m, q)) s")
    fix x y
    assume xy: "result (measurement_round P 0 f n (a, m, p)) s = Continue x" "result (measurement_round P 0 g n (a, m, q)) s = Continue y"
    obtain a' m' p' q' where "x = (a', m', p')" "y = (a', m', q')"
      using r(1) unfolding xy by (cases x; cases y) (auto simp: same_progress_def)
    then show ?thesis using Suc.IH [of a' m' p' _ q'] xy r(2) by (simp add: case_prod_beta)
  qed (use r in \<open>auto simp: case_prod_beta same_progress_def\<close>)
qed (simp add: same_progress_def)

lemma unsigned_device:
  assumes "remote_flags s AND SPDM_MEAS_CAP_SIG = 0"
  shows "run (measure_device P f n p) s = run (measure_device P g n q) s"
proof -
  define s1 where "s1 = s\<lparr>ctx := (ctx s)\<lparr>l1l2_context := if selected s = SPDM_VERSION_12 then written (message_a (ctx s)) else []\<rparr>\<rparr>"
  define get where "get = spdm_get_measurements P 0 SPDM_MEASUREMENT_OPERATION_TOTAL_NUMBER f None"
  have same: "spdm_get_measurements P 0 SPDM_MEASUREMENT_OPERATION_TOTAL_NUMBER h None = get" for h
    unfolding get_def by (rule unsigned_measurement)
  have flags: "remote_flags (exec get s1) AND SPDM_MEAS_CAP_SIG = 0"
    using sessionD(1) [OF whole.commands_sess(5), of P 0 SPDM_MEASUREMENT_OPERATION_TOTAL_NUMBER f None s1] assms
    by (simp add: get_def s1_def)
  have run: "run (measure_device P h n r) s = (if fst (result get s1) \<noteq> 0 \<or> (case snd (result get s1) of Some n \<Rightarrow> n | None \<Rightarrow> 0) < n
      then (5, exec get s1)
      else let loop = c_while 256 (\<lambda>x. n \<noteq> fst x) (measurement_round P 0 h n) (0, 0, r) in
        (if result loop (exec get s1) = Return True then 0 else 5, exec loop (exec get s1)))" for h r
    using flags
    by (cases "selected s = SPDM_VERSION_12"; simp add: measure_device_def same case_prod_beta Let_def s1_def
        spdm_context_reset_l1l2_hash_def spdm_context_update_l1l2_hash_buffer_def o_def del: c_while.simps)
  have same_end: "same_progress v w \<Longrightarrow> (v = Return True) = (w = Return True)" for v w
    by (cases v; cases w) (auto simp: same_progress_def)
  note loop = unsigned_loop [of 256 n P f 0 0 p "exec get s1" g q]
  show ?thesis
    unfolding run Let_def same_end [OF conjunct1 [OF loop]] conjunct2 [OF loop] ..
qed

lemma attest_run:
  "run (spdm_attest_device P fuel f n p) s =
    (let v = negotiated P s; d = exec (spdm_get_digests P) v; c = try_slots P fuel [0 ..< 8] 0;
         h = spdm_challenge P (snd (result c d)) 0 in
     if result (spdm_get_version P) s < 0 then (ATTEST_FAILED_VCA, exec (spdm_get_version P) s)
     else if result (spdm_get_capabilities P) (exec (spdm_get_version P) s) < 0
       then (ATTEST_FAILED_VCA, exec (spdm_get_capabilities P) (exec (spdm_get_version P) s))
     else if result (spdm_negotiate_algorithms P) (exec (spdm_get_capabilities P) (exec (spdm_get_version P) s)) < 0 then (ATTEST_FAILED_VCA, v)
     else if remote_flags v AND SPDM_CERT_CAP = 0
       then (result (spdm_negotiate_algorithms P) (exec (spdm_get_capabilities P) (exec (spdm_get_version P) s)), v)
     else if result (spdm_get_digests P) v \<noteq> 0 then (ATTEST_FAILED_DIGEST, d)
     else if fst (result c d) \<noteq> 0 then (ATTEST_FAILED_CERTIFICATE, exec c d)
     else if result h (exec c d) < 0 then (ATTEST_FAILED_CHALLENGE_AUTH, exec h (exec c d))
     else run (measure_device P f n p) (exec h (exec c d)))"
  by (simp add: spdm_attest_device_def negotiated_def case_prod_beta Let_def del: try_slots.simps)

lemma unsigned_attestation:
  assumes "remote_flags (negotiated P s) AND SPDM_MEAS_CAP_SIG = 0"
  shows "run (spdm_attest_device P fuel f n p) s = run (spdm_attest_device P fuel g n q) s"
proof -
  define d where "d = exec (spdm_get_digests P) (negotiated P s)"
  define c where "c = try_slots P fuel [0 ..< 8] 0"
  define h where "h = spdm_challenge P (snd (result c d)) 0"
  have "remote_flags (exec h (exec c d)) = remote_flags (exec c d)"
    using sessionD(1) [OF whole.commands_sess(4), of P "snd (result c d)" 0 "exec c d"] by (simp add: h_def)
  moreover have "remote_flags (exec c d) = remote_flags d" by (simp only: c_def try_slots_flags)
  moreover have "remote_flags d = remote_flags (negotiated P s)"
    using sessionD(1) [OF whole.commands_sess(3), of P "negotiated P s"] by (simp add: d_def)
  ultimately have "run (measure_device P f n p) (exec h (exec c d)) = run (measure_device P g n q) (exec h (exec c d))"
    using assms by (intro unsigned_device) simp
  then show ?thesis unfolding attest_run Let_def d_def c_def h_def by simp
qed

text \<open>
  C18: a device that does not announce the certificate capability is attested. Once version,
  capabilities and algorithms have been exchanged the attestation ends with success: no digest,
  certificate, challenge or measurement is asked for, and the manifest is not looked at.
\<close>

theorem attested_without_certificate:
  assumes "result (spdm_get_version P) s = 0"
    and "result (spdm_get_capabilities P) (exec (spdm_get_version P) s) = 0"
    and "result (spdm_negotiate_algorithms P) (exec (spdm_get_capabilities P) (exec (spdm_get_version P) s)) = 0"
    and "remote_flags (negotiated P s) AND SPDM_CERT_CAP = 0"
  shows "run (spdm_attest_device P fuel f expected p) s = (ATTEST_SUCCEEDED, negotiated P s)"
  using assms by (simp add: attest_run Let_def)

theorem attested_without_certificate_witness:
  "run (spdm_attest_device (honest 0x14) 1 (\<lambda>_. 0xFF) 9 0) connected = (ATTEST_SUCCEEDED, negotiated (honest 0x14) connected)"
  using honest_vca [OF connected_linked, of "0x14"] by (intro attested_without_certificate) simp_all

text \<open>
  C19: a device that does not announce signed measurements is not measured. The whole attestation
  runs the same, state and verdict, under any two manifests with the same number of entries: no
  value of the manifest is ever compared.
\<close>

theorem unsigned_measurements_are_not_compared:
  assumes "remote_flags (negotiated P s) AND SPDM_MEAS_CAP_SIG = 0"
  shows "run (spdm_attest_device P fuel f expected p) s = run (spdm_attest_device P fuel g expected q) s"
  by (rule unsigned_attestation [OF assms])

theorem unsigned_measurements_are_not_compared_witness:
  "run (spdm_attest_device (honest 0x06) 1 manifest_page 1 0) connected =
   run (spdm_attest_device (honest 0x06) 1 (\<lambda>_. 0xA5) 1 7) connected"
  using honest_vca [OF connected_linked, of "0x06"] by (intro unsigned_measurements_are_not_compared) simp

section \<open>A device that goes on sending\<close>

text \<open>It answers every request for its certificate with \<open>k\<close> bytes, and one byte left to come.\<close>

definition portions :: "nat \<Rightarrow> u8 \<Rightarrow> u8 list" where
  "portions k code = (if code = SPDM_REQ_GET_CERTIFICATE then [5, 0x11, 2, 0, 0, of_nat k, 0, 1, 0] @ zeros k else [])"

abbreviation sending :: "nat \<Rightarrow> spdm_env" where
  "sending k \<equiv> demo_device (portions k)"

definition holding :: "nat \<Rightarrow> attester \<Rightarrow> bool" where
  "holding n s \<longleftrightarrow> linked 0x11 s \<and> (\<exists>d. cert_data (slot s 0) = Some d \<and> length d = n)"

lemma sending_codes: "k < 256 \<Longrightarrow> memory_ok (sending k)" "mbedtls_codes (sending k)"
  by (auto simp: memory_ok_def mbedtls_codes_def demo_device_def portions_def zeros_def split: spdm_call.splits)

lemma malloc_rot: "rot (exec (buffer_init P n) s) = rot s" "rot (exec (spdm_context_update_m1m2_hash req rsp) s) = rot s"
  by (simp_all add: buffer_init_def allocate_def case_prod_beta spdm_context_update_m1m2_hash_def)

lemma sending_answer:
  assumes "linked 0x11 s" and "k < 256"
  shows "result (spdm_send_request (sending k) (request v SPDM_REQ_GET_CERTIFICATE p q b)) s = (0, answered (portions k SPDM_REQ_GET_CERTIFICATE))"
    and "rot (exec (spdm_send_request (sending k) req) s) = rot s"
proof -
  obtain conn where conn: "connection_data (ctx s) = Some conn" using assms(1) by (auto simp: linked_def)
  show "result (spdm_send_request (sending k) (request v SPDM_REQ_GET_CERTIFICATE p q b)) s = (0, answered (portions k SPDM_REQ_GET_CERTIFICATE))"
    using conn assms(2) by (intro honest_send(1)) (simp_all add: request_def portions_def zeros_def)
  show "rot (exec (spdm_send_request (sending k) req) s) = rot s"
    using conn by (simp add: spdm_send_request_def spdm_mctp_send_recv_def case_prod_beta malloc_rot)
qed

lemma sending_round:
  assumes k: "k < 256" and s: "linked 0x11 s" and block: "first \<or> holding (k + 1) s"
  shows "result (certificate_round (sending k) 0 (off, first)) s = Continue (off + of_nat k, False)"
    and "holding (k + 1) (exec (certificate_round (sending k) 0 (off, first)) s)"
    and "oob (rot (exec (certificate_round (sending k) 0 (off, first)) s)) \<longleftrightarrow> oob (rot s) \<or> 1 < unat off"
proof -
  have link: "linked 0x11 (exec (buffer_init P n) s)" and sel: "selected s = 0x11"
    and len: "0 < length (certs (certificate (remote (ctx s))))" "certs (certificate (remote (ctx s))) \<noteq> []"
    for P n using s by (auto simp: linked_def malloc_ctx)
  have n: "unat (of_nat k :: u8) = k" "unat (of_nat k :: u16) = k" using k by (simp_all add: unat_of_nat take_bit_nat_eq_self)
  have u: "(ucast (of_nat k :: u8) :: u16) = of_nat k" using n k by (simp add: word_unat_eq_iff unsigned_ucast_eq take_bit_nat_eq_self)
  note run = certificate_round_def sending_answer [OF link k] case_prod_beta Let_def answered_simps portions_def sel malloc_ctx
        allocate_def store_portion_def end_portion_def len n u honest_answer(2) [OF link] malloc_rot undefined_behaviour_def
  show "result (certificate_round (sending k) 0 (off, first)) s = Continue (off + of_nat k, False)"
    using block k by (cases first) (auto simp: run holding_def)
  show "oob (rot (exec (certificate_round (sending k) 0 (off, first)) s)) \<longleftrightarrow> oob (rot s) \<or> 1 < unat off"
    using block k by (cases first) (auto simp: run holding_def)
  show "holding (k + 1) (exec (certificate_round (sending k) 0 (off, first)) s)"
    using block k s by (cases first) (auto simp: run holding_def linked_def malloc_ctx overwrite_def)
qed

lemma sending_loop:
  assumes "k < 256" and "linked 0x11 s" and "first \<or> holding (k + 1) s"
  shows "(\<exists>x. result (c_while fuel (\<lambda>_. True) (certificate_round (sending k) 0) (off, first)) s = Continue x) \<and>
    (oob (rot s) \<longrightarrow> oob (rot (exec (c_while fuel (\<lambda>_. True) (certificate_round (sending k) 0) (off, first)) s)))"
  using assms(2,3)
proof (induction fuel arbitrary: off first s)
  case (Suc fuel)
  note r = sending_round [OF assms(1) Suc.prems, of off]
  then show ?case using Suc.IH [of "exec (certificate_round (sending k) 0 (off, first)) s" False "off + of_nat k"]
    by (simp add: case_prod_beta holding_def)
qed simp

lemma sending_diverges:
  assumes "k < 256" and "linked 0x11 s"
  shows "diverged (rot (exec (spdm_get_certificate (sending k) fuel 0) s))"
  using sending_loop [OF assms, of True fuel 0] by (auto simp: spdm_get_certificate_def case_prod_beta simp del: c_while.simps)

lemma sending_overruns:
  assumes "linked 0x11 s"
  shows "oob (rot (exec (spdm_get_certificate (sending 4) (Suc (Suc fuel)) 0) s))"
proof -
  define s1 where "s1 = exec (certificate_round (sending 4) 0 (0, True)) s"
  define s2 where "s2 = exec (certificate_round (sending 4) 0 (4, False)) s1"
  define loop where "loop = c_while fuel (\<lambda>_. True) (certificate_round (sending 4) 0) (8, False)"
  have r1: "result (certificate_round (sending 4) 0 (0, True)) s = Continue (4, False)" "holding 5 s1"
    using sending_round [of 4 s True 0] assms by (simp_all add: s1_def)
  have r2: "result (certificate_round (sending 4) 0 (4, False)) s1 = Continue (8, False)" "holding 5 s2" "oob (rot s2)"
    using sending_round [of 4 s1 False 4] r1(2) by (simp_all add: s2_def holding_def)
  have "run (c_while (Suc (Suc fuel)) (\<lambda>_. True) (certificate_round (sending 4) 0) (0, True)) s = run loop s2"
    by (simp add: case_prod_beta r1(1) r2(1) s1_def [symmetric] s2_def [symmetric] loop_def)
  then have run: "result (c_while (Suc (Suc fuel)) (\<lambda>_. True) (certificate_round (sending 4) 0) (0, True)) s = result loop s2"
    "exec (c_while (Suc (Suc fuel)) (\<lambda>_. True) (certificate_round (sending 4) 0) (0, True)) s = exec loop s2"
    by simp_all
  have "(\<exists>x. result loop s2 = Continue x) \<and> oob (rot (exec loop s2))"
    using sending_loop [of 4 s2 False fuel 8] r2 by (simp add: holding_def loop_def)
  then show ?thesis unfolding spdm_get_certificate_def
    by (auto simp: case_prod_beta run simp del: c_while.simps)
qed

text \<open>
  C20: the block of the certificate is overrun. The first portion decides its size, and a later
  one is stored at its offset whatever its size: against a device that sends 4 bytes with one
  left to come, and then 4 bytes again, the second round writes past the 5 bytes that were
  allocated, although the allocator, the parser and the memory behave.
\<close>

theorem certificate_overruns_its_block:
  assumes "linked 0x11 s" and "2 \<le> fuel"
  shows "memory_ok (sending 4) \<and> mbedtls_codes (sending 4) \<and> oob (rot (exec (spdm_get_certificate (sending 4) fuel 0) s))"
proof -
  obtain n where "fuel = Suc (Suc n)" using assms(2) by (metis add_2_eq_Suc le_Suc_ex)
  then show ?thesis using sending_overruns [OF assms(1)] sending_codes by simp
qed

theorem certificate_overruns_its_block_witness:
  "oob (rot (exec (spdm_get_certificate (sending 4) 2 0) (negotiated (honest 0x16) connected)))"
  using certificate_overruns_its_block [OF honest_vca(4) [OF connected_linked]] by simp

text \<open>
  C21: getting a certificate need not end. A device that answers with empty portions and says that
  one byte is left keeps the loop running for ever: no fuel is enough, and the attester never
  gets to the next device.
\<close>

theorem certificate_request_never_ends:
  assumes "linked 0x11 s"
  shows "diverged (rot (exec (spdm_get_certificate (sending 0) fuel 0) s))"
  by (rule sending_diverges [OF _ assms]) simp

theorem certificate_request_never_ends_witness:
  "\<forall>fuel. diverged (rot (exec (spdm_get_certificate (sending 0) fuel 0) (negotiated (honest 0x16) connected)))"
  using certificate_request_never_ends [OF honest_vca(4) [OF connected_linked]] by blast

end
