(* ===== verification/Spdm_Responder.thy ===== *)
theory Spdm_Responder
  imports Spdm_Request
begin

text \<open>
  The responder: \<open>SPDM/SPDMResponder.c\<close>, the answers of \<open>SPDM/ResponseCmd/*.c\<close>, the signature of
  \<open>SPDM/SPDMCrypto.c\<close> and the certificate slots of \<open>SPDM/SPDMContext.c\<close>, without secure
  connection and with two measured partitions, as \<open>boards/ast1060_dcscm.conf\<close> has them. A request
  is the bytes of an MCTP message; the answer is what the handler leaves in the same memory.
\<close>

section \<open>The state\<close>

abbreviation "SPDM_RSP_ERROR \<equiv> 0x7F :: u8"
abbreviation "SPDM_ERROR_CODE_INVALID_REQUEST \<equiv> 0x01 :: u8"
abbreviation "SPDM_ERROR_CODE_BUSY \<equiv> 0x03 :: u8"
abbreviation "SPDM_ERROR_CODE_UNSPECIFIED \<equiv> 0x05 :: u8"
abbreviation "SPDM_ERROR_CODE_UNSUPPORTED_REQUEST \<equiv> 0x07 :: u8"
abbreviation "SPDM_ERROR_CODE_MAJOR_VERSION_MISMATCH \<equiv> 0x41 :: u8"
abbreviation "SPDM_EXT_ASYM_SEL_COUNT \<equiv> 1 :: nat"
abbreviation "SPDM_EXT_HASH_SEL_COUNT \<equiv> 1 :: nat"

datatype SPDM_CONNECTION_STATE =
    SPDM_STATE_NOT_READY | SPDM_STATE_GOT_VERSION | SPDM_STATE_GOT_CAPABILITIES
  | SPDM_STATE_NEGOTIATED_ALGORITHMS | SPDM_STATE_GOT_DIGESTS | SPDM_STATE_GOT_CERTIFICATE
  | SPDM_STATE_CHANLLENGED | SPDM_STATE_KEY_EXCHANGED | SPDM_STATE_SESSION_ESTABLISHED

text \<open>
  The responder has a context of its own: \<open>base\<close> is that context with the exchange so far. The
  extended algorithms are arrays of one entry behind the other algorithms.
\<close>

record responder =
  base :: attester
  connection_state :: SPDM_CONNECTION_STATE
  ext_asym_sel_count :: u8
  ext_hash_sel_count :: u8
  ext_asym_sel :: "u32 list"
  ext_hash_sel :: "u32 list"

text \<open>
  What the build and mbedtls decide: the room of a signature, the sizes of the partitions, the
  raw issuer and subject of a certificate, the two certificate chains that are built in.
\<close>

record responder_env =
  spdm :: spdm_env
  MBEDTLS_ECDSA_MAX_LEN :: nat
  partition_size :: "partition \<Rightarrow> nat"
  x509_names :: "u8 list \<Rightarrow> u8 list \<times> u8 list"
  responder_certchain :: "u8 list"
  responder_certchain1 :: "u8 list"

definition on_base :: "(attester, 'a) state \<Rightarrow> (responder, 'a) state" where
  "on_base m = State (\<lambda>s. case run m (base s) of (x, a) \<Rightarrow> (x, s\<lparr>base := a\<rparr>))"

lemma run_on_base [simp]: "run (on_base m) s = (result m (base s), s\<lparr>base := exec m (base s)\<rparr>)"
  by (simp add: on_base_def case_prod_beta)

abbreviation rsp_ctx :: "responder \<Rightarrow> spdm_context" where
  "rsp_ctx s \<equiv> ctx (base s)"

abbreviation response :: "u8 \<Rightarrow> u8 \<Rightarrow> u8 \<Rightarrow> u8 \<Rightarrow> spdm_buffer \<Rightarrow> spdm_message" where
  "response \<equiv> request"

definition set_error :: "u8 \<Rightarrow> spdm_message \<Rightarrow> spdm_message" where
  "set_error code rsp = header_update (param1_update (\<lambda>_. code)) rsp"

definition set_response :: "u8 \<Rightarrow> u8 \<Rightarrow> u8 \<Rightarrow> u8 \<Rightarrow> spdm_message \<Rightarrow> spdm_message" where
  "set_response ver code p1 p2 rsp =
     rsp\<lparr>header := \<lparr>spdm_version = ver, request_response_code = code, param1 = p1, param2 = p2\<rparr>\<rparr>"

definition supported_version :: "u8 \<Rightarrow> bool" where
  "supported_version ver \<longleftrightarrow> ver = SPDM_VERSION_10 \<or> ver = SPDM_VERSION_11 \<or> ver = SPDM_VERSION_12"

text \<open>\<open>size_t\<close> has 32 bits; -1 is the size of a hash that was not negotiated.\<close>

definition size_t :: "nat \<Rightarrow> nat" where
  "size_t n = unat (of_nat n :: u32)"

definition spdm_context_base_hash_size :: "spdm_context \<Rightarrow> nat" where
  "spdm_context_base_hash_size c =
     (if base_hash_sel (algorithms (remote c)) = SPDM_ALGORITHMS_BASE_HASH_TPM_ALG_SHA_384 then 48 else 2 ^ 32 - 1)"

text \<open>Whether the mask has a certificate slot, its certificate, and the hash over it.\<close>

definition local_cert :: "responder \<Rightarrow> u8 \<Rightarrow> spdm_cert" where
  "local_cert s slot_id = certs (certificate (local (rsp_ctx s))) ! unat slot_id"

definition slot_exists :: "responder \<Rightarrow> u8 \<Rightarrow> bool" where
  "slot_exists s slot_id \<longleftrightarrow> slot_id \<le> 7 \<and> bit (slot_mask (certificate (local (rsp_ctx s)))) (unat slot_id)"

definition cert_bytes :: "spdm_env \<Rightarrow> spdm_cert \<Rightarrow> u8 list" where
  "cert_bytes P c = memory_at P (unat (cert_size c)) (case cert_data c of Some d \<Rightarrow> d | None \<Rightarrow> [])"

section \<open>Version, capabilities, algorithms\<close>

definition version_reply :: "spdm_version_info \<Rightarrow> field list" where
  "version_reply v = [FReserved 1, F8 (version_number_entry_count v)] @
     map F16 (take (unat (version_number_entry_count v)) (take SPDM_MAX_VERSION (version_number_entry v)))"

definition spdm_handle_get_version :: "responder_env \<Rightarrow> spdm_message \<Rightarrow> spdm_message \<Rightarrow> (responder, int \<times> spdm_message) state" where
  "spdm_handle_get_version R req rsp = (
     if spdm_version (header req) \<noteq> SPDM_VERSION_10 then
       ret (-1, set_error SPDM_ERROR_CODE_MAJOR_VERSION_MISMATCH
         (header_update (request_response_code_update (\<lambda>_. SPDM_RSP_ERROR)) rsp))
     else do {
       v \<leftarrow> gets (\<lambda>s. version (local (rsp_ctx s)));
       b \<leftarrow> on_base (buffer_init (spdm R) (2 + 2 * unat (version_number_entry_count v)));
       let rsp = response SPDM_VERSION_10 SPDM_RSP_VERSION 0 0 (foldl put_field b (version_reply v));
       on_base spdm_context_reset_m1m2_hash;
       on_base (spdm_context_update_m1m2_hash req rsp);
       on_base (upd_ctx (message_a_update (\<lambda>_. snd (spdm_buffer_init True 0))));
       on_base (append_message_a (spdm R) (write_ptr (buffer req) + 4 + write_ptr (buffer rsp) + 4) req rsp);
       ret (0, rsp)
     })"

definition capabilities_length :: "u8 \<Rightarrow> nat" where
  "capabilities_length ver = (if ver = SPDM_VERSION_10 then 0 else if ver = SPDM_VERSION_11 then 8 else 16)"

definition store_capabilities :: "u8 \<Rightarrow> spdm_buffer \<Rightarrow> (attester, unit) state" where
  "store_capabilities ver b = cwhen (SPDM_VERSION_11 \<le> ver) (do {
     old \<leftarrow> gets (\<lambda>s. capabilities (remote (ctx s)));
     let b = snd (spdm_buffer_get_reserved b 1);
     let (_, ct, b) = spdm_buffer_get_u8 b (ct_exponent old);
     let b = snd (spdm_buffer_get_reserved b 2);
     let (_, fl, b) = spdm_buffer_get_u32 b (flags old);
     upd_ctx (remote_update (capabilities_update (\<lambda>c. c\<lparr>ct_exponent := ct, flags := fl\<rparr>)));
     upd_ctx (local_update (version_update (version_number_selected_update (\<lambda>_. SPDM_VERSION_11))));
     cwhen (SPDM_VERSION_12 \<le> ver) (do {
       let (_, ds, b) = spdm_buffer_get_u32 b (data_transfer_size old);
       let (_, ms, b) = spdm_buffer_get_u32 b (max_spdm_msg_size old);
       upd_ctx (remote_update (capabilities_update (\<lambda>c. c\<lparr>data_transfer_size := ds, max_spdm_msg_size := ms\<rparr>)));
       upd_ctx (local_update (version_update (version_number_selected_update (\<lambda>_. SPDM_VERSION_12))))
     })
   })"

definition capabilities_reply :: "u8 \<Rightarrow> spdm_capabilities_info \<Rightarrow> field list" where
  "capabilities_reply ver cap = [FReserved 1, F8 (ct_exponent cap), FReserved 2, F32 (flags cap)] @
     (if SPDM_VERSION_12 \<le> ver then [F32 (data_transfer_size cap), F32 (max_spdm_msg_size cap)] else [])"

definition spdm_handle_get_capabilities :: "responder_env \<Rightarrow> spdm_message \<Rightarrow> spdm_message \<Rightarrow> (responder, int \<times> spdm_message) state" where
  "spdm_handle_get_capabilities R req rsp = (
     let ver = spdm_version (header req) in
     if \<not> supported_version ver then ret (-1, set_error SPDM_ERROR_CODE_MAJOR_VERSION_MISMATCH rsp)
     else if write_ptr (buffer req) \<noteq> capabilities_length ver then
       ret (-1, set_error SPDM_ERROR_CODE_INVALID_REQUEST rsp)
     else do {
       on_base (store_capabilities ver (buffer req));
       cap \<leftarrow> gets (\<lambda>s. capabilities (local (rsp_ctx s)));
       b \<leftarrow> on_base (buffer_init (spdm R) 24);
       let rsp = response ver SPDM_RSP_CAPABILITIES 0 0 (foldl put_field b (capabilities_reply ver cap));
       on_base (spdm_context_update_m1m2_hash req rsp);
       on_base (append_message_a (spdm R) (write_ptr (buffer req) + 4 + write_ptr (buffer rsp) + 4) req rsp);
       ret (0, rsp)
     })"

text \<open>
  The selections of the requester: a local variable that could not be read holds whatever the
  stack does. Nothing is answered when the length, the measurement specification, the signature
  or the hash algorithm do not fit; other parameters are stored on the way.
\<close>

definition stack_bytes :: "spdm_env \<Rightarrow> nat \<Rightarrow> nat \<Rightarrow> u8 list" where
  "stack_bytes P k n = map (uninit (board P)) [k ..< k + n]"

abbreviation "stack_u8 P k \<equiv> uninit (board P) k"
abbreviation "stack_u16 P k \<equiv> u16_of_bytes (stack_bytes P k 2)"
abbreviation "stack_u32 P k \<equiv> u32_of_bytes (stack_bytes P k 4)"

definition read_algorithms :: "spdm_env \<Rightarrow> spdm_message \<Rightarrow>
    (attester, ((spdm_algorithms_info \<Rightarrow> spdm_algorithms_info) \<times> spdm_buffer) option) state" where
  "read_algorithms P req = (
     let ver = spdm_version (header req);
         (_, len, b) = spdm_buffer_get_u16 (buffer req) (stack_u16 P 0) in
     if write_ptr (buffer req) + 4 \<noteq> unat len then ret None
     else let (_, spec, b) = spdm_buffer_get_u8 b (stack_u8 P 2) in
     if spec AND SPDM_MEASUREMENT_BLOCK_DMTF_SPEC = 0 then ret None
     else do {
       old \<leftarrow> gets (\<lambda>s. other_param_sel (algorithms (remote (ctx s))));
       let (_, other, b') = spdm_buffer_get_u8 b old;
       cwhen (SPDM_VERSION_12 \<le> ver) (upd_ctx (remote_update (algorithms_update (other_param_sel_update (\<lambda>_. other)))));
       let (_, asym, b') = spdm_buffer_get_u32 b' (stack_u32 P 4);
       if asym AND SPDM_ALGORITHMS_BASE_ALGO_TPM_ALG_ECDSA_ECC_NIST_P384 = 0 then ret None
       else let (_, hash, b') = spdm_buffer_get_u32 b' (stack_u32 P 8) in
       if hash AND SPDM_ALGORITHMS_BASE_HASH_TPM_ALG_SHA_384 = 0 then ret None
       else ret (Some (\<lambda>a. a\<lparr>alg_length := len, measurement_spec_sel := spec,
           base_asym_sel := asym AND SPDM_ALGORITHMS_BASE_ALGO_TPM_ALG_ECDSA_ECC_NIST_P384,
           base_hash_sel := hash AND SPDM_ALGORITHMS_BASE_HASH_TPM_ALG_SHA_384\<rparr>,
         snd (spdm_buffer_get_reserved b' 12)))
     })"

text \<open>
  The extended algorithms are stored one behind the other, as many as the request counts: the
  second would be written behind the array.
\<close>

primrec store_ext_sel :: "((u32 list \<Rightarrow> u32 list) \<Rightarrow> responder \<Rightarrow> responder) \<Rightarrow> nat \<Rightarrow> nat \<Rightarrow> nat \<Rightarrow> spdm_buffer \<Rightarrow>
    (responder, spdm_buffer) state" where
  "store_ext_sel upd count 0 i b = ret b"
| "store_ext_sel upd count (Suc n) i b = (case spdm_buffer_get_u32 b 0 of (st, v, b') \<Rightarrow> do {
     cwhen (st = 0) (if i < count then modify (upd (\<lambda>xs. xs[i := v])) else on_base undefined_behaviour);
     store_ext_sel upd count n (Suc i) b'
   })"

text \<open>What the code then reads of the algorithm structure it does not keep.\<close>

definition alg_struct_ok :: "spdm_env \<Rightarrow> spdm_buffer \<Rightarrow> bool" where
  "alg_struct_ok P b = (
     let (_, alg_type, b) = spdm_buffer_get_u8 b (stack_u8 P 12);
         (_, alg_count, b) = spdm_buffer_get_u8 b (stack_u8 P 13) in
     \<not> (alg_type \<le> 1 \<or> 5 < alg_type) \<and> (unat (drop_bit 4 (alg_count AND 0xF0)) + 2) mod 4 = 0)"

definition extended_algorithms :: "responder_env \<Rightarrow> spdm_message \<Rightarrow> spdm_buffer \<Rightarrow> (responder, bool) state" where
  "extended_algorithms R req b = (
     if spdm_version (header req) < SPDM_VERSION_11 then ret True
     else do {
       old_a \<leftarrow> gets ext_asym_sel_count;
       old_e \<leftarrow> gets ext_hash_sel_count;
       let (_, a, b) = spdm_buffer_get_u8 b old_a;
       let (_, e, b) = spdm_buffer_get_u8 b old_e;
       modify (\<lambda>s. s\<lparr>ext_asym_sel_count := a, ext_hash_sel_count := e\<rparr>);
       let b = snd (spdm_buffer_get_reserved b 2);
       b \<leftarrow> store_ext_sel ext_asym_sel_update SPDM_EXT_ASYM_SEL_COUNT (unat a) 0 b;
       b \<leftarrow> store_ext_sel ext_hash_sel_update SPDM_EXT_HASH_SEL_COUNT (unat e) 0 b;
       ret (param1 (header req) = 0 \<or> alg_struct_ok (spdm R) b)
     })"

definition algorithms_reply :: "spdm_algorithms_info \<Rightarrow> field list" where
  "algorithms_reply a =
     [F16 0, F8 (measurement_spec_sel a), F8 (other_param_sel a), F32 (measurement_hash_algo a),
      F32 (base_asym_sel a), F32 (base_hash_sel a), FReserved 12, F8 0, F8 0, FReserved 2]"

definition spdm_handle_negotiate_algorithms :: "responder_env \<Rightarrow> spdm_message \<Rightarrow> spdm_message \<Rightarrow> (responder, int \<times> spdm_message) state" where
  "spdm_handle_negotiate_algorithms R req rsp = (
     let ver = spdm_version (header req) in
     if \<not> supported_version ver then ret (-1, set_error SPDM_ERROR_CODE_MAJOR_VERSION_MISMATCH rsp)
     else do {
       sel \<leftarrow> on_base (read_algorithms (spdm R) req);
       case sel of
         None \<Rightarrow> ret (-1, set_error SPDM_ERROR_CODE_INVALID_REQUEST rsp)
       | Some (f, b) \<Rightarrow> do {
           on_base (upd_ctx (remote_update (algorithms_update f)));
           ok \<leftarrow> extended_algorithms R req b;
           if \<not> ok then ret (-1, set_error SPDM_ERROR_CODE_INVALID_REQUEST rsp)
           else do {
             alg \<leftarrow> gets (\<lambda>s. algorithms (local (rsp_ctx s)));
             b \<leftarrow> on_base (buffer_init (spdm R) 32);
             b \<leftarrow> on_base (set_request_length (foldl put_field b (algorithms_reply alg)));
             let rsp = response ver SPDM_RSP_ALGORITHMS 0 0 b;
             on_base (spdm_context_update_m1m2_hash req rsp);
             on_base (append_message_a (spdm R) (write_ptr (buffer req) + 4 + write_ptr (buffer rsp) + 4) req rsp);
             ret (0, rsp)
           }
         }
     })"

section \<open>Certificates\<close>

text \<open>The loop \<open>while (slot_mask) { cert_count++; slot_mask >>= 1; }\<close>.\<close>

function mask_count :: "u8 \<Rightarrow> nat" where
  "mask_count m = (if m = 0 then 0 else Suc (mask_count (drop_bit 1 m)))"
  by auto

termination mask_count
  by (relation "measure unat") (simp_all add: drop_bit_eq_div unat_div unat_gt_0)

declare mask_count.simps [simp del]

definition spdm_handle_get_digests :: "responder_env \<Rightarrow> spdm_message \<Rightarrow> spdm_message \<Rightarrow> (responder, int \<times> spdm_message) state" where
  "spdm_handle_get_digests R req rsp = (
     let ver = spdm_version (header req) in
     if \<not> supported_version ver then ret (-1, set_error SPDM_ERROR_CODE_MAJOR_VERSION_MISMATCH rsp)
     else do {
       c \<leftarrow> gets rsp_ctx;
       let mask = slot_mask (certificate (local c));
       let n = spdm_context_base_hash_size c;
       b \<leftarrow> on_base (buffer_init (spdm R) (size_t (mask_count mask * n)));
       let present = filter (\<lambda>i. bit mask i \<and> cert_data (certs (certificate (local c)) ! i) \<noteq> None) [0 ..< 8];
       let digests = map (\<lambda>i. FArray (memory_at (spdm R) n
         (sha384 (spdm R) (cert_bytes (spdm R) (certs (certificate (local c)) ! i))))) present;
       let rsp = response ver SPDM_RSP_DIGESTS 0 mask (foldl put_field b digests);
       on_base (spdm_context_update_m1m2_hash req rsp);
       ret (0, rsp)
     })"

text \<open>
  A portion of 256 bytes whatever the request asks for, or the rest. An offset behind the end is
  refused when the header is already that of an answer.
\<close>

definition portion :: "nat \<Rightarrow> nat \<Rightarrow> (nat \<times> nat) option" where
  "portion len offset =
     (if offset + 0x100 < len then Some (0x100, len - (offset + 0x100))
      else if len < offset then None
      else Some (len - offset, 0))"

definition spdm_handle_get_certificate :: "responder_env \<Rightarrow> spdm_message \<Rightarrow> spdm_message \<Rightarrow> (responder, int \<times> spdm_message) state" where
  "spdm_handle_get_certificate R req rsp = do {
     let ver = spdm_version (header req);
     let slot_id = param1 (header req);
     exists \<leftarrow> gets (\<lambda>s. slot_exists s slot_id);
     if \<not> supported_version ver then ret (-1, set_error SPDM_ERROR_CODE_MAJOR_VERSION_MISMATCH rsp)
     else if \<not> exists then ret (-1, set_error SPDM_ERROR_CODE_INVALID_REQUEST rsp)
     else if write_ptr (buffer req) \<noteq> 4 then ret (-1, set_error SPDM_ERROR_CODE_INVALID_REQUEST rsp)
     else do {
       c \<leftarrow> gets (\<lambda>s. local_cert s slot_id);
       let (_, offset, _) = spdm_buffer_get_u16 (buffer req) (stack_u16 (spdm R) 0);
       case portion (unat (cert_size c)) (unat offset) of
         None \<Rightarrow> ret (-1, set_response ver SPDM_RSP_CERTIFICATE slot_id slot_id rsp)
       | Some (portion_length, remainder_length) \<Rightarrow> do {
           b \<leftarrow> on_base (buffer_init (spdm R) (2 + 2 + portion_length));
           let rsp = response ver SPDM_RSP_CERTIFICATE slot_id slot_id (foldl put_field b
             [F16 (of_nat portion_length), F16 (of_nat remainder_length),
              FArray (take portion_length (drop (unat offset) (cert_bytes (spdm R) c)))]);
           on_base (spdm_context_update_m1m2_hash req rsp);
           ret (0, rsp)
         }
     }
   }"

section \<open>Signatures\<close>

text \<open>
  The status of \<open>mbedtls_ecdsa_sign\<close> is not looked at: what \<open>r\<close> and \<open>s\<close> hold is the signature.
\<close>

definition spdm_crypto_sign :: "responder_env \<Rightarrow> u8 list \<Rightarrow> bool \<Rightarrow> u8 list \<Rightarrow> (responder, int \<times> u8 list) state" where
  "spdm_crypto_sign R input sig_context_hash sig_context = do {
     message_hash \<leftarrow> (if sig_context_hash then do {
         alloc \<leftarrow> on_base (spdm_malloc (spdm R) (100 + length input));
         if \<not> alloc then ret None
         else do {
           alloc \<leftarrow> on_base (spdm_malloc (spdm R) (length input));
           ret (if alloc then Some (sha384 (spdm R) (sign_prefix sig_context @ input)) else None)
         }
       } else ret (Some input));
     case message_hash of
       None \<Rightarrow> ret (-1, [])
     | Some message_hash \<Rightarrow> do {
         alg \<leftarrow> gets (\<lambda>s. base_asym_sel (algorithms (remote (rsp_ctx s))));
         if alg = SPDM_ALGORITHMS_BASE_ALGO_TPM_ALG_ECDSA_ECC_NIST_P384 then do {
           (_, rs) \<leftarrow> on_base (spdm_ext (spdm R) (EcdsaSign message_hash));
           ret (0, fit 96 rs)
         }
         else ret (-1, [])
       }
   }"

definition sign_failed :: "spdm_message \<Rightarrow> int \<times> spdm_message" where
  "sign_failed rsp = (-1, \<lparr>header = \<lparr>spdm_version = spdm_version (header rsp), request_response_code = SPDM_RSP_ERROR,
     param1 = SPDM_ERROR_CODE_UNSPECIFIED, param2 = 0\<rparr>, buffer = snd (spdm_buffer_release (buffer rsp))\<rparr>)"

text \<open>The unsigned part: the hash of the chain, a nonce, the hash of the nonce of the request where a summary is asked for.\<close>

definition challenge_body :: "responder_env \<Rightarrow> nat \<Rightarrow> spdm_message \<Rightarrow> (responder, spdm_buffer) state" where
  "challenge_body R n req = do {
     b \<leftarrow> on_base (buffer_init (spdm R) (size_t (n + 32 + n + 2 + MBEDTLS_ECDSA_MAX_LEN R)));
     c \<leftarrow> gets (\<lambda>s. local_cert s (param1 (header req)));
     b \<leftarrow> on_base (spdm_buffer_append_nonce (spdm R)
       (put_field b (FArray (memory_at (spdm R) n (sha384 (spdm R) (cert_bytes (spdm R) c))))));
     ret (put_field (if param2 (header req) = 0x01 \<or> param2 (header req) = 0xFF
       then put_field b (FArray (memory_at (spdm R) n (sha384 (spdm R) (written (buffer req))))) else b) (F16 0))
   }"

definition spdm_handle_challenge :: "responder_env \<Rightarrow> spdm_message \<Rightarrow> spdm_message \<Rightarrow> (responder, int \<times> spdm_message) state" where
  "spdm_handle_challenge R req rsp = do {
     let ver = spdm_version (header req);
     let slot_id = param1 (header req);
     exists \<leftarrow> gets (\<lambda>s. slot_exists s slot_id);
     if \<not> supported_version ver then ret (-1, set_error SPDM_ERROR_CODE_MAJOR_VERSION_MISMATCH rsp)
     else if \<not> exists then ret (-1, set_error SPDM_ERROR_CODE_INVALID_REQUEST rsp)
     else if write_ptr (buffer req) \<noteq> 32 then ret (-1, set_error SPDM_ERROR_CODE_INVALID_REQUEST rsp)
     else do {
       n \<leftarrow> gets (\<lambda>s. spdm_context_base_hash_size (rsp_ctx s));
       mask \<leftarrow> gets (\<lambda>s. slot_mask (certificate (local (rsp_ctx s))));
       b \<leftarrow> challenge_body R n req;
       let rsp = response ver SPDM_RSP_CHALLENGE_AUTH slot_id mask b;
       on_base (spdm_context_update_m1m2_hash req rsp);
       m1m2 \<leftarrow> gets (\<lambda>s. m1m2_context (rsp_ctx s));
       on_base spdm_context_reset_m1m2_hash;
       (st, sig) \<leftarrow> spdm_crypto_sign R (memory_at (spdm R) n (sha384 (spdm R) m1m2)) (ver = SPDM_VERSION_12)
         SPDM_SIGN_CONTEXT_M1M2_RSP;
       ret (if st = 0 then (0, buffer_update (\<lambda>b. put_field b (FArray sig)) rsp) else sign_failed rsp)
     }
   }"

section \<open>Measurements\<close>

abbreviation "SPDM_MEASUREMENT_OPERATION_MANIFEST \<equiv> 0xFD :: u8"
abbreviation "SPDM_MEASUREMENT_OPERATION_DEVICE_MODE \<equiv> 0xFE :: u8"
abbreviation "SPDM_MEASUREMENT_BLOCK_DMTF_TYPE_MUTABLE_FIRMWARE \<equiv> 0x01 :: u8"
abbreviation "SPDM_MEASUREMENT_BLOCK_DMTF_TYPE_MANIFEST \<equiv> 0x04 :: u8"
abbreviation "SPDM_MEASUREMENT_BLOCK_DMTF_TYPE_DEVICE_MODE \<equiv> 0x05 :: u8"
abbreviation "SPDM_MEASUREMENT_BLOCK_DMTF_TYPE_RAW_STREAM \<equiv> 0x80 :: u8"

text \<open>
  A block: index, specification, size; then the type and the size of the value, and the value.
\<close>

definition measured_block :: "u8 \<Rightarrow> u8 \<Rightarrow> u8 list \<Rightarrow> u8 list" where
  "measured_block index value_type v =
     [index, SPDM_MEASUREMENT_BLOCK_DMTF_SPEC] @ u16_bytes (of_nat (length v + 3)) @
     [value_type] @ u16_bytes (of_nat (length v)) @ v"

text \<open>
  The hash over a partition, in pieces of 4096 bytes. A read that fails ends the loop; the hash is
  that of what came before.
\<close>

function read_area :: "responder_env \<Rightarrow> partition \<Rightarrow> nat \<Rightarrow> u8 list \<Rightarrow> (responder, u8 list) state" where
  "read_area R p offset acc =
     (if offset < partition_size R p then do {
        let read_size = min 4096 (partition_size R p - offset);
        (st, bs) \<leftarrow> on_base (spdm_ext (spdm R) (PartitionRead p offset read_size));
        if st \<noteq> 0 then ret acc else read_area R p (offset + read_size) (acc @ fit read_size bs)
      }
      else ret acc)"
  by pat_completeness auto

termination read_area
  by (relation "measure (\<lambda>(R, p, offset, acc). partition_size R p - offset)") auto

declare read_area.simps [simp del]

definition measured_partition :: "u8 \<Rightarrow> partition option" where
  "measured_partition i = (if i = 1 then Some ActivePartition else if i = 2 then Some RecoveryPartition else None)"

definition get_measurement_by_index :: "responder_env \<Rightarrow> u8 \<Rightarrow> nat \<Rightarrow> (responder, (u8 list \<times> nat) option) state" where
  "get_measurement_by_index R i remain_size =
     (if remain_size < 48 + 4 + 3 then ret None
      else case measured_partition i of
        None \<Rightarrow> ret None
      | Some p \<Rightarrow> do {
          (st, _) \<leftarrow> on_base (spdm_ext (spdm R) (PartitionOpen p));
          if st \<noteq> 0 then ret None
          else do {
            bs \<leftarrow> read_area R p 0 [];
            let block = measured_block i SPDM_MEASUREMENT_BLOCK_DMTF_TYPE_MUTABLE_FIRMWARE
              (fit 48 (sha384 (spdm R) bs));
            ret (Some (block, remain_size - (48 + 3)))
          }
        })"

definition measurement_manifest :: "u8 list" where
  "measurement_manifest =
     bytes_of_string ''This implementation is used for demonstration. User shall replace this implementation.'' @ [0]"

definition get_measurement_manifest :: "nat \<Rightarrow> u8 list option" where
  "get_measurement_manifest room_left =
     (if room_left < length measurement_manifest + 4 + 3 then None
      else Some (measured_block SPDM_MEASUREMENT_OPERATION_MANIFEST
        (SPDM_MEASUREMENT_BLOCK_DMTF_TYPE_RAW_STREAM OR SPDM_MEASUREMENT_BLOCK_DMTF_TYPE_MANIFEST) measurement_manifest))"

definition get_device_mode :: "nat \<Rightarrow> u8 list option" where
  "get_device_mode room_left =
     (if room_left < 16 + 4 + 3 then None
      else Some (measured_block SPDM_MEASUREMENT_OPERATION_DEVICE_MODE
        (SPDM_MEASUREMENT_BLOCK_DMTF_TYPE_RAW_STREAM OR SPDM_MEASUREMENT_BLOCK_DMTF_TYPE_DEVICE_MODE)
        (u32_bytes 4 @ u32_bytes 4 @ u32_bytes 0 @ u32_bytes 0)))"

abbreviation "total_block_count \<equiv> 2 :: nat"

primrec get_all_measurements :: "responder_env \<Rightarrow> nat \<Rightarrow> u8 \<Rightarrow> nat \<Rightarrow> u8 list \<Rightarrow> (responder, u8 list option) state" where
  "get_all_measurements R 0 i remain_size acc = ret (Some acc)"
| "get_all_measurements R (Suc n) i remain_size acc = do {
     r \<leftarrow> get_measurement_by_index R i remain_size;
     case r of
       None \<Rightarrow> ret None
     | Some (block, remain_size) \<Rightarrow> get_all_measurements R n (i + 1) remain_size (acc @ block)
   }"

text \<open>
  The count and the record of an operation, \<open>None\<close> when it fails. The total number is asked with
  null pointers for the record and its size, and the size is both read and written.
\<close>

definition get_measurement :: "responder_env \<Rightarrow> u8 \<Rightarrow> nat option \<Rightarrow> (responder, (u8 \<times> u8 list) option) state" where
  "get_measurement R i measurement_size = do {
     cwhen (measurement_size = None) (on_base undefined_behaviour);
     let n = (case measurement_size of Some m \<Rightarrow> m | None \<Rightarrow> 0);
     if i = SPDM_MEASUREMENT_OPERATION_TOTAL_NUMBER then ret (Some (of_nat total_block_count, []))
     else if i = SPDM_MEASUREMENT_OPERATION_MANIFEST then ret (map_option (\<lambda>m. (1, m)) (get_measurement_manifest n))
     else if i = SPDM_MEASUREMENT_OPERATION_DEVICE_MODE then ret (map_option (\<lambda>m. (1, m)) (get_device_mode n))
     else if i = SPDM_MEASUREMENT_OPERATION_ALL_MEASUREMENTS then do {
       m \<leftarrow> get_all_measurements R total_block_count 1 n [];
       ret (map_option (\<lambda>m. (of_nat total_block_count, m)) m)
     }
     else if total_block_count < unat i then ret None
     else do {
       m \<leftarrow> get_measurement_by_index R i n;
       ret (map_option (\<lambda>(m, _). (1, m)) m)
     }
   }"

definition sign_measurements :: "responder_env \<Rightarrow> u8 \<Rightarrow> spdm_message \<Rightarrow> (responder, int \<times> spdm_message) state" where
  "sign_measurements R ver rsp = do {
     n \<leftarrow> gets (\<lambda>s. spdm_context_base_hash_size (rsp_ctx s));
     l1l2 \<leftarrow> gets (\<lambda>s. l1l2_context (rsp_ctx s));
     a \<leftarrow> gets (\<lambda>s. message_a (rsp_ctx s));
     on_base spdm_context_reset_l1l2_hash;
     cwhen (ver = SPDM_VERSION_12) (on_base (spdm_context_update_l1l2_hash_buffer a));
     (st, sig) \<leftarrow> spdm_crypto_sign R (memory_at (spdm R) n (sha384 (spdm R) l1l2)) (ver = SPDM_VERSION_12)
       SPDM_SIGN_CONTEXT_L1L2_RSP;
     if st = 0 then do {
       b \<leftarrow> on_base (buffer_resize (spdm R) (buffer rsp) (write_ptr (buffer rsp) + length sig));
       ret (0, rsp\<lparr>buffer := put_field b (FArray sig)\<rparr>)
     }
     else ret (sign_failed rsp)
   }"

text \<open>The count and the payload of an operation, or the released buffer of one that failed.\<close>

definition measurements_body :: "responder_env \<Rightarrow> u8 \<Rightarrow> (responder, spdm_buffer + u8 \<times> spdm_buffer) state" where
  "measurements_body R op =
     (if op = 0 then do {
        m \<leftarrow> get_measurement R op None;
        b \<leftarrow> on_base (buffer_init (spdm R) (1 + 3 + 0 + 32 + 2 + 0));
        b \<leftarrow> on_base (spdm_buffer_append_nonce (spdm R) (foldl put_field b [F8 0, F8 0, F8 0, F8 0]));
        ret (Inr (case m of Some (count, _) \<Rightarrow> count | None \<Rightarrow> 0, put_field b (F16 0)))
      } else do {
        b \<leftarrow> on_base (buffer_init (spdm R) (1 + 3 + (48 + 4 + 3) * 3 + SPDM_NONCE_SIZE + 2 + 0));
        m \<leftarrow> get_measurement R op (Some ((48 + 4 + 3) * 3));
        case m of
          None \<Rightarrow> ret (Inl (snd (spdm_buffer_release b)))
        | Some (count, record) \<Rightarrow> do {
            b \<leftarrow> on_base (spdm_buffer_append_nonce (spdm R)
              (foldl put_field b [F8 count, F24 (of_nat (length record)), FArray record]));
            ret (Inr (count, put_field b (F16 0)))
          }
      })"

definition spdm_handle_get_measurements :: "responder_env \<Rightarrow> spdm_message \<Rightarrow> spdm_message \<Rightarrow> (responder, int \<times> spdm_message) state" where
  "spdm_handle_get_measurements R req rsp = do {
     let ver = spdm_version (header req);
     reply \<leftarrow> measurements_body R (param2 (header req));
     case reply of
       Inl b \<Rightarrow> ret (-1, response ver SPDM_RSP_ERROR SPDM_ERROR_CODE_INVALID_REQUEST 0 b)
     | Inr (count, b) \<Rightarrow> do {
         let rsp = response ver SPDM_RSP_MEASUREMENTS count 0 b;
         on_base (spdm_context_update_l1l2_hash req rsp);
         if bit (param1 (header req)) 0 then sign_measurements R ver rsp else ret (0, rsp)
       }
   }"

section \<open>The protocol\<close>

text \<open>A command of a state: its handler, and the state after an answer.\<close>

type_synonym spdm_handler = "responder_env \<Rightarrow> spdm_message \<Rightarrow> spdm_message \<Rightarrow> (responder, int \<times> spdm_message) state"

fun command :: "SPDM_CONNECTION_STATE \<Rightarrow> u8 \<Rightarrow> (spdm_handler \<times> SPDM_CONNECTION_STATE) option" where
  "command SPDM_STATE_NOT_READY code =
     (if code = SPDM_REQ_GET_VERSION then Some (spdm_handle_get_version, SPDM_STATE_GOT_VERSION) else None)"
| "command SPDM_STATE_GOT_VERSION code =
     (if code = SPDM_REQ_GET_CAPABILITIES then Some (spdm_handle_get_capabilities, SPDM_STATE_GOT_CAPABILITIES)
      else if code = SPDM_REQ_GET_VERSION then Some (spdm_handle_get_version, SPDM_STATE_GOT_VERSION) else None)"
| "command SPDM_STATE_GOT_CAPABILITIES code =
     (if code = SPDM_REQ_NEGOTIATE_ALGORITHMS then Some (spdm_handle_negotiate_algorithms, SPDM_STATE_NEGOTIATED_ALGORITHMS)
      else if code = SPDM_REQ_GET_VERSION then Some (spdm_handle_get_version, SPDM_STATE_GOT_VERSION) else None)"
| "command SPDM_STATE_NEGOTIATED_ALGORITHMS code =
     (if code = SPDM_REQ_GET_DIGESTS then Some (spdm_handle_get_digests, SPDM_STATE_GOT_DIGESTS)
      else if code = SPDM_REQ_GET_MEASUREMENTS then Some (spdm_handle_get_measurements, SPDM_STATE_NEGOTIATED_ALGORITHMS)
      else if code = SPDM_REQ_GET_VERSION then Some (spdm_handle_get_version, SPDM_STATE_GOT_VERSION) else None)"
| "command SPDM_STATE_GOT_DIGESTS code =
     (if code = SPDM_REQ_GET_CERTIFICATE then Some (spdm_handle_get_certificate, SPDM_STATE_GOT_CERTIFICATE)
      else if code = SPDM_REQ_CHALLENGE then Some (spdm_handle_challenge, SPDM_STATE_CHANLLENGED)
      else if code = SPDM_REQ_GET_VERSION then Some (spdm_handle_get_version, SPDM_STATE_GOT_VERSION) else None)"
| "command SPDM_STATE_GOT_CERTIFICATE code =
     (if code = SPDM_REQ_GET_CERTIFICATE then Some (spdm_handle_get_certificate, SPDM_STATE_GOT_CERTIFICATE)
      else if code = SPDM_REQ_CHALLENGE then Some (spdm_handle_challenge, SPDM_STATE_CHANLLENGED)
      else if code = SPDM_REQ_GET_VERSION then Some (spdm_handle_get_version, SPDM_STATE_GOT_VERSION)
      else if code = SPDM_REQ_GET_MEASUREMENTS then Some (spdm_handle_get_measurements, SPDM_STATE_GOT_CERTIFICATE)
      else None)"
| "command SPDM_STATE_CHANLLENGED code =
     (if code = SPDM_REQ_GET_MEASUREMENTS then Some (spdm_handle_get_measurements, SPDM_STATE_CHANLLENGED)
      else if code = SPDM_REQ_GET_VERSION then Some (spdm_handle_get_version, SPDM_STATE_GOT_VERSION)
      else if code = SPDM_REQ_GET_DIGESTS then Some (spdm_handle_get_digests, SPDM_STATE_CHANLLENGED)
      else if code = SPDM_REQ_GET_CERTIFICATE then Some (spdm_handle_get_certificate, SPDM_STATE_CHANLLENGED)
      else None)"
| "command _ code = None"

text \<open>
  A version that is not supported is not answered: the response still has the header of the
  request. Every request but GET_MEASUREMENTS starts the measurement transcript again.
\<close>

definition handler :: "responder_env \<Rightarrow> spdm_message \<Rightarrow> spdm_message \<Rightarrow> (responder, spdm_message) state" where
  "handler R req rsp = (
     if \<not> supported_version (spdm_version (header req)) then ret rsp
     else do {
       let rsp = set_response (spdm_version (header req)) SPDM_RSP_ERROR SPDM_ERROR_CODE_UNSUPPORTED_REQUEST 0 rsp;
       let code = request_response_code (header req);
       cwhen (code \<noteq> SPDM_REQ_GET_MEASUREMENTS) (do {
         on_base spdm_context_reset_l1l2_hash;
         a \<leftarrow> gets (\<lambda>s. message_a (rsp_ctx s));
         cwhen (spdm_version (header req) = SPDM_VERSION_12) (on_base (spdm_context_update_l1l2_hash_buffer a))
       });
       state \<leftarrow> gets connection_state;
       case command state code of
         None \<Rightarrow> ret rsp
       | Some (handle, next) \<Rightarrow> do {
           (st, rsp) \<leftarrow> handle R req rsp;
           cwhen (st = 0) (modify (connection_state_update (\<lambda>_. next)));
           ret rsp
         }
     })"

text \<open>
  The status and the bytes in the buffer afterwards. There is no responder before
  \<open>init_spdm\<close>; a message of fewer than 5 bytes is left as it is.
\<close>

definition handle_spdm_mctp_message :: "responder_env \<Rightarrow> bool \<Rightarrow> u8 list \<Rightarrow> (responder, int \<times> u8 list) state" where
  "handle_spdm_mctp_message R context msg =
     (if context then
        (if length msg < 5 then ret (-1, msg)
         else do {
           let hdr = header_of_bytes (take 4 (drop 1 msg));
           b \<leftarrow> on_base (buffer_init (spdm R) (length msg - 1 - 4));
           let req = \<lparr>header = hdr, buffer = snd (spdm_buffer_append_array b (drop 5 msg))\<rparr>;
           rsp \<leftarrow> handler R req \<lparr>header = hdr, buffer = snd (spdm_buffer_init True 0)\<rparr>;
           ret (0, 0x05 # message_bytes rsp)
         })
      else ret (-1, [0x05, SPDM_VERSION_12, SPDM_RSP_ERROR, SPDM_ERROR_CODE_BUSY, 0]))"

section \<open>The certificate slots\<close>

text \<open>
  The root certificate in a chain: the first that names itself as its issuer. Its length, and the
  step to the next certificate, are counted from the start of the chain. \<open>None\<close> is a chain on
  which the loop would not end.
\<close>

definition is_root_cert :: "responder_env \<Rightarrow> u8 list \<Rightarrow> bool" where
  "is_root_cert R cert \<longleftrightarrow> x509_parse (spdm R) cert = 0 \<and> fst (x509_names R cert) = snd (x509_names R cert)"

primrec get_root_cert_len :: "nat \<Rightarrow> responder_env \<Rightarrow> u8 list \<Rightarrow> nat \<Rightarrow> (nat \<times> nat) option option" where
  "get_root_cert_len 0 R der pos = None"
| "get_root_cert_len (Suc n) R der pos = (
     case asn1_get_tag (spdm R) (drop pos der) of (st, hdr_len, asn1_len) \<Rightarrow>
       if st \<noteq> 0 then Some None
       else let ca_cert_len = asn1_len + hdr_len + pos in
         if is_root_cert R (memory_at (spdm R) (unat (of_nat ca_cert_len :: u16)) (drop pos der))
         then Some (Some (pos, ca_cert_len))
         else if length der \<le> pos + ca_cert_len then Some None
         else get_root_cert_len n R der (pos + ca_cert_len))"

abbreviation upd_local_cert :: "nat \<Rightarrow> (spdm_cert \<Rightarrow> spdm_cert) \<Rightarrow> (attester, unit) state" where
  "upd_local_cert i f \<equiv> upd_ctx (local_update (certificate_update (certs_update (\<lambda>cs. cs[i := f (cs ! i)]))))"

text \<open>
  A slot of the responder: length, two bytes that are not set, the hash of the root certificate,
  the chain. The slot is taken before anything can fail.
\<close>

definition spdm_load_certificate :: "responder_env \<Rightarrow> u8 \<Rightarrow> u8 list \<Rightarrow> (responder, int) state" where
  "spdm_load_certificate R slot_id der = do {
     mask \<leftarrow> gets (\<lambda>s. slot_mask (certificate (local (rsp_ctx s))));
     let i = unat slot_id;
     let n = length der + 4 + 48;
     if 7 < slot_id then ret (-1)
     else if bit mask i then ret (-1)
     else do {
       on_base (upd_ctx (local_update (certificate_update (slot_mask_update (\<lambda>m. m OR push_bit i 1)))));
       alloc \<leftarrow> on_base (spdm_malloc (spdm R) n);
       if \<not> alloc then do {
         on_base (upd_local_cert i (cert_data_update (\<lambda>_. None)));
         ret (-1)
       }
       else do {
         let block = u16_bytes (of_nat n) @ drop 2 (memory_at (spdm R) (4 + 48) []) @ der;
         on_base (upd_local_cert i (\<lambda>c. c\<lparr>cert_data := Some block, cert_size := of_nat n\<rparr>));
         case get_root_cert_len (length der + 1) R der 0 of
           None \<Rightarrow> do { on_base (on_rot (modify (\<lambda>w. w\<lparr>diverged := True\<rparr>))); ret (-1) }
         | Some None \<Rightarrow> ret (-1)
         | Some (Some (root, len)) \<Rightarrow> do {
             let block = overwrite block 4 (fit 48 (sha384 (spdm R) (memory_at (spdm R) len (drop root der))));
             on_base (upd_local_cert i (\<lambda>c. c\<lparr>cert_data := Some block,
               digest := fit 48 (sha384 (spdm R) (memory_at (spdm R) (unat (cert_size c)) block))\<rparr>));
             ret 0
           }
       }
     }
   }"

text \<open>\<open>init_spdm\<close> creates the context of the responder; what cannot be loaded is left out.\<close>

definition init_responder_context :: "responder_env \<Rightarrow> (responder, unit) state" where
  "init_responder_context R = do {
     alloc \<leftarrow> on_base (allocate (spdm R) MallocContext);
     cwhen (\<not> alloc) (on_base undefined_behaviour);
     on_base (upd_ctx spdm_context_create);
     modify (\<lambda>s. s\<lparr>connection_state := SPDM_STATE_NOT_READY\<rparr>);
     spdm_load_certificate R 0 (responder_certchain R);
     spdm_load_certificate R 1 (responder_certchain1 R);
     ret ()
   }"

end
