(* ===== verification/Spdm_Transcript.thy ===== *)
theory Spdm_Transcript
  imports Spdm_Responder
begin

text \<open>
  What each handler of the responder does to the transcript and to the selected algorithms, and
  that it answers with its own code or an error (\<open>faithful\<close>). For CHALLENGE the run is given in
  full: what was signed is the transcript with both messages (\<open>challenge_runs\<close>).
\<close>

section \<open>What the operations leave alone\<close>

lemma rsp_frames [simp]:
  "ctx (exec (allocate P c) a) = ctx a"
  "ctx (exec (buffer_init P n) a) = ctx a"
  "ctx (exec (buffer_resize P b n) a) = ctx a"
  "ctx (exec (spdm_buffer_append_nonce P b) a) = ctx a"
  "ctx (exec (set_request_length b) a) = ctx a"
  "ctx (exec undefined_behaviour a) = ctx a"
  by (simp_all add: allocate_def buffer_init_def buffer_resize_def spdm_buffer_append_nonce_def set_request_length_def
      undefined_behaviour_def case_prod_beta split: option.split)

text \<open>The selections of the requester that the answers depend on, and the transcript.\<close>

abbreviation m1m2 :: "responder \<Rightarrow> u8 list" where
  "m1m2 s \<equiv> m1m2_context (rsp_ctx s)"

abbreviation algs :: "attester \<Rightarrow> u32 \<times> u32" where
  "algs a \<equiv> (base_asym_sel (algorithms (remote (ctx a))), base_hash_sel (algorithms (remote (ctx a))))"

lemma message_a_frame [simp]:
  "m1m2_context (ctx (exec (append_message_a P n x y) a)) = m1m2_context (ctx a)"
  "remote (ctx (exec (append_message_a P n x y) a)) = remote (ctx a)"
  "local (ctx (exec (append_message_a P n x y) a)) = local (ctx a)"
  by (simp_all add: append_message_a_def case_prod_beta)

lemma capabilities_frame [simp]:
  "m1m2_context (ctx (exec (store_capabilities ver b) a)) = m1m2_context (ctx a)"
  "algorithms (remote (ctx (exec (store_capabilities ver b) a))) = algorithms (remote (ctx a))"
  by (simp_all add: store_capabilities_def case_prod_beta Let_def)

lemma algorithms_frame [simp]:
  "m1m2_context (ctx (exec (read_algorithms P req) a)) = m1m2_context (ctx a)"
  "base_asym_sel (algorithms (remote (ctx (exec (read_algorithms P req) a)))) = base_asym_sel (algorithms (remote (ctx a)))"
  "base_hash_sel (algorithms (remote (ctx (exec (read_algorithms P req) a)))) = base_hash_sel (algorithms (remote (ctx a)))"
  by (simp_all add: read_algorithms_def case_prod_beta Let_def)

lemma bit_mask_word: "w AND push_bit n 1 \<noteq> 0 \<Longrightarrow> w AND push_bit n 1 = (push_bit n 1 :: u32)"
  by (cases "bit w n") (auto intro!: bit_word_eqI simp: bit_simps)

lemma selected_bits:
  "(w :: u32) AND 0x80 \<noteq> 0 \<Longrightarrow> w AND 0x80 = 0x80"
  "(w :: u32) AND 2 \<noteq> 0 \<Longrightarrow> w AND 2 = 2"
  using bit_mask_word [of w 7] bit_mask_word [of w 1] by (simp_all add: push_bit_eq_mult)

lemma read_algorithms_selects:
  assumes "result (read_algorithms P req) a = Some (f, b)"
  shows "base_asym_sel (f x) = 0x80" and "base_hash_sel (f x) = 2"
  using assms selected_bits
  by (auto simp: read_algorithms_def case_prod_beta Let_def split: if_splits)

lemma store_ext_frame:
  assumes "\<And>f s. base (upd f s) = base s"
  shows "ctx (base (exec (store_ext_sel upd m n i b) s)) = ctx (base s)"
  using assms by (induction n arbitrary: i b s) (simp_all add: case_prod_beta)

lemma extended_frame [simp]: "ctx (base (exec (extended_algorithms R req b) s)) = ctx (base s)"
  by (simp add: extended_algorithms_def case_prod_beta Let_def store_ext_frame)

lemma hash_frame [simp]:
  "ctx (exec spdm_context_reset_m1m2_hash a) = m1m2_context_update (\<lambda>_. []) (ctx a)"
  "ctx (exec (spdm_context_update_m1m2_hash x y) a) = m1m2_context_update (\<lambda>h. h @ message_bytes x @ message_bytes y) (ctx a)"
  "ctx (exec spdm_context_reset_l1l2_hash a) = l1l2_context_update (\<lambda>_. []) (ctx a)"
  "ctx (exec (spdm_context_update_l1l2_hash_buffer c) a) = l1l2_context_update (\<lambda>h. h @ written c) (ctx a)"
  "ctx (exec (spdm_context_update_l1l2_hash x y) a) = l1l2_context_update (\<lambda>h. h @ message_bytes x @ message_bytes y) (ctx a)"
  by (simp_all add: spdm_context_reset_m1m2_hash_def spdm_context_update_m1m2_hash_def spdm_context_reset_l1l2_hash_def
      spdm_context_update_l1l2_hash_def spdm_context_update_l1l2_hash_buffer_def)

lemma read_area_frame [simp]: "ctx (base (exec (read_area R p n acc) s)) = ctx (base s)"
proof (induction R p n acc arbitrary: s rule: read_area.induct)
  case (1 R p offset acc)
  show ?case
    by (subst read_area.simps) (simp add: case_prod_beta Let_def 1)
qed

lemma index_frame [simp]: "ctx (base (exec (get_measurement_by_index R i n) s)) = ctx (base s)"
  by (simp add: get_measurement_by_index_def case_prod_beta Let_def split: option.split)

lemma all_frame [simp]: "ctx (base (exec (get_all_measurements R k i n acc) s)) = ctx (base s)"
  by (induction k arbitrary: i n acc s) (simp_all add: case_prod_beta split: option.split)

lemma measurement_frame [simp]: "ctx (base (exec (get_measurement R i n) s)) = ctx (base s)"
  by (simp add: get_measurement_def case_prod_beta Let_def)

lemma sign_frame [simp]: "ctx (base (exec (spdm_crypto_sign R h v c) s)) = ctx (base s)"
  by (simp add: spdm_crypto_sign_def case_prod_beta split: option.split)

section \<open>The transcript\<close>

text \<open>
  The transcript as a function of the messages: VERSION starts it, an answer appends both messages,
  CHALLENGE_AUTH ends it, an error leaves it. A certificate answer without a payload is the refusal
  of an offset.
\<close>

definition transcript_step :: "u8 list \<Rightarrow> u8 list \<times> u8 list \<Rightarrow> u8 list" where
  "transcript_step h x = (case x of (msg, reply) \<Rightarrow>
     if \<not> supported_version (msg ! 1) then h
     else if reply ! 2 = SPDM_RSP_VERSION then tl msg @ tl reply
     else if reply ! 2 \<in> {SPDM_RSP_CAPABILITIES, SPDM_RSP_ALGORITHMS, SPDM_RSP_DIGESTS} \<or>
             reply ! 2 = SPDM_RSP_CERTIFICATE \<and> 5 < length reply then h @ tl msg @ tl reply
     else if reply ! 2 = SPDM_RSP_CHALLENGE_AUTH then []
     else h)"

abbreviation rsp_code :: "spdm_message \<Rightarrow> u8" where
  "rsp_code m \<equiv> request_response_code (header m)"

text \<open>The same on messages: what a handler must do to the transcript.\<close>

definition extends :: "spdm_message \<Rightarrow> spdm_message \<Rightarrow> u8 list \<Rightarrow> u8 list \<Rightarrow> bool" where
  "extends req rsp h h' \<longleftrightarrow> h' = (
     if rsp_code rsp = SPDM_RSP_VERSION then message_bytes req @ message_bytes rsp
     else if rsp_code rsp \<in> {SPDM_RSP_CAPABILITIES, SPDM_RSP_ALGORITHMS, SPDM_RSP_DIGESTS} \<or>
             rsp_code rsp = SPDM_RSP_CERTIFICATE \<and> written (buffer rsp) \<noteq> [] then h @ message_bytes req @ message_bytes rsp
     else if rsp_code rsp = SPDM_RSP_CHALLENGE_AUTH then []
     else h)"

text \<open>The laws of the responder's surroundings.\<close>

definition roomy :: "responder_env \<Rightarrow> bool" where
  "roomy R \<longleftrightarrow> (\<forall>tr n. n < 2 ^ 31 \<longrightarrow> fst (peer (spdm R) tr (SpdmMalloc n)) \<noteq> 0) \<and>
     (\<forall>bs. length (sha384 (spdm R) bs) = 48) \<and> 96 \<le> MBEDTLS_ECDSA_MAX_LEN R \<and> MBEDTLS_ECDSA_MAX_LEN R < 2 ^ 30"

lemma roomy_init:
  assumes "roomy R" and "n < 2 ^ 31"
  shows "result (buffer_init (spdm R) n) a = snd (spdm_buffer_init True n)"
  using assms by (simp add: roomy_def buffer_init_def allocate_def case_prod_beta)

lemma roomy_alloc: "roomy R \<Longrightarrow> n < 2 ^ 31 \<Longrightarrow> result (spdm_malloc (spdm R) n) a"
  by (simp add: roomy_def allocate_def case_prod_beta)

text \<open>The state after the negotiation has the algorithms; a fresh error response has no payload.\<close>

definition algorithms_selected :: "responder \<Rightarrow> bool" where
  "algorithms_selected s \<longleftrightarrow> algs (base s) = (0x80, 2)"

definition blank :: "spdm_message \<Rightarrow> bool" where
  "blank rsp \<longleftrightarrow> rsp_code rsp = SPDM_RSP_ERROR \<and> buffer rsp = snd (spdm_buffer_init True 0)"

lemma blankD [simp]: "blank rsp \<Longrightarrow> rsp_code rsp = SPDM_RSP_ERROR" "blank rsp \<Longrightarrow> written (buffer rsp) = []"
  by (simp_all add: blank_def)

lemma response_simps [simp]:
  "rsp_code (set_error c m) = rsp_code m"
  "rsp_code (set_response v c a b m) = c"
  "rsp_code (request v c a b buf) = c"
  "rsp_code (snd (sign_failed m)) = SPDM_RSP_ERROR"
  "fst (sign_failed m) = -1"
  "buffer (request v c a b buf) = buf"
  "buffer (set_response v c a b m) = buffer m"
  by (simp_all add: set_error_def set_response_def request_def sign_failed_def)

text \<open>
  A handler is faithful when it answers with its code or an error, its answer extends the
  transcript as it should and the selected algorithms are kept, or set.
\<close>

definition faithful :: "u8 \<Rightarrow> (responder, int \<times> spdm_message) state \<Rightarrow> spdm_message \<Rightarrow> responder \<Rightarrow> bool" where
  "faithful code m req s \<longleftrightarrow> (case run m s of ((st, rsp), s') \<Rightarrow>
     extends req rsp (m1m2 s) (m1m2 s') \<and> (algs (base s') = algs (base s) \<or> algorithms_selected s') \<and>
     rsp_code rsp \<in> {code, SPDM_RSP_ERROR} \<and> connection_state s' = connection_state s)"

lemma faithfulI:
  assumes "extends req (snd (result m s)) (m1m2 s) (m1m2 (exec m s))"
    and "algs (base (exec m s)) = algs (base s) \<or> algorithms_selected (exec m s)"
    and "rsp_code (snd (result m s)) \<in> {code, SPDM_RSP_ERROR}"
    and "connection_state (exec m s) = connection_state s"
  shows "faithful code m req s"
  using assms by (simp add: faithful_def case_prod_beta)

lemma version_faithful: "blank rsp \<Longrightarrow> faithful SPDM_RSP_VERSION (spdm_handle_get_version R req rsp) req s"
  by (auto simp: faithful_def spdm_handle_get_version_def case_prod_beta Let_def extends_def set_error_def)

lemma capabilities_faithful:
  "blank rsp \<Longrightarrow> faithful SPDM_RSP_CAPABILITIES (spdm_handle_get_capabilities R req rsp) req s"
  by (auto simp: faithful_def spdm_handle_get_capabilities_def case_prod_beta Let_def extends_def)

lemma digests_faithful: "blank rsp \<Longrightarrow> faithful SPDM_RSP_DIGESTS (spdm_handle_get_digests R req rsp) req s"
  by (auto simp: faithful_def spdm_handle_get_digests_def case_prod_beta Let_def extends_def)

lemma store_ext_state:
  assumes "\<And>f s. connection_state (upd f s) = connection_state s"
  shows "connection_state (exec (store_ext_sel upd m n i b) s) = connection_state s"
  using assms by (induction n arbitrary: i b s) (simp_all add: case_prod_beta)

lemma extended_state [simp]: "connection_state (exec (extended_algorithms R req b) s) = connection_state s"
  by (simp add: extended_algorithms_def case_prod_beta Let_def store_ext_state)

lemma algorithms_faithful:
  assumes "blank rsp"
  shows "faithful SPDM_RSP_ALGORITHMS (spdm_handle_negotiate_algorithms R req rsp) req s"
proof (cases "result (read_algorithms (spdm R) req) (base s)")
  case None
  then show ?thesis
    using assms by (auto simp: faithful_def spdm_handle_negotiate_algorithms_def case_prod_beta Let_def extends_def)
next
  case (Some fb)
  obtain f b where fb: "fb = (f, b)" by (cases fb)
  note sel = read_algorithms_selects [OF Some [unfolded fb]]
  show ?thesis
    using assms Some by (auto simp: fb faithful_def spdm_handle_negotiate_algorithms_def case_prod_beta Let_def extends_def
        algorithms_selected_def sel)
qed

lemma portion_fits: "portion k off = Some (p, r) \<Longrightarrow> k < 2 ^ 16 \<Longrightarrow> p < 2 ^ 16"
  by (auto simp: portion_def split: if_splits)

lemma certificate_faithful:
  assumes "roomy R" and "blank rsp"
  shows "faithful SPDM_RSP_CERTIFICATE (spdm_handle_get_certificate R req rsp) req s"
proof -
  have payload: "written (foldl put_field (snd (spdm_buffer_init True (4 + p))) [F16 a, F16 c, FArray (take p bs)]) \<noteq> []" for p a c bs
    using put_fields [of "snd (spdm_buffer_init True (4 + p))" "[F16 a, F16 c, FArray (take p bs)]"]
    by (auto simp: init_wf init_room u16_bytes_def)
  have fits: "4 + p < 2 ^ 31" if "portion (unat (cert_size c)) off = Some (p, r)" for c off p r
  proof -
    have "unat (cert_size c) < 2 ^ 16" using unsigned_less [of "cert_size c"] by simp
    then show ?thesis using portion_fits [OF that] by simp
  qed
  show ?thesis
    using assms
    by (auto simp: faithful_def spdm_handle_get_certificate_def case_prod_beta Let_def extends_def
        roomy_init [OF assms(1)] fits [simplified] payload [simplified] split: option.split)
qed

text \<open>Signing succeeds with the algorithms_selected algorithms; the message that is signed is a hash of 48 bytes.\<close>

lemma selected_hash [simp]: "algorithms_selected s \<Longrightarrow> spdm_context_base_hash_size (rsp_ctx s) = 48"
  by (simp add: algorithms_selected_def spdm_context_base_hash_size_def)

lemma hash_whole: "roomy R \<Longrightarrow> memory_at (spdm R) 48 (sha384 (spdm R) bs) = sha384 (spdm R) bs"
  by (simp add: memory_at_id roomy_def)

lemma sign_state [simp]: "connection_state (exec (spdm_crypto_sign R h v c) s) = connection_state s"
  by (simp add: spdm_crypto_sign_def case_prod_beta split: option.split)

definition to_be_signed :: "responder_env \<Rightarrow> bool \<Rightarrow> u8 list \<Rightarrow> u8 list \<Rightarrow> u8 list" where
  "to_be_signed R v12 sig_context t =
     (if v12 then sha384 (spdm R) (sign_prefix sig_context @ sha384 (spdm R) t) else sha384 (spdm R) t)"

lemma sign_runs:
  assumes "roomy R" and "algs (base s) = (0x80, 2)"
  shows "\<exists>st sig tr. result (spdm_crypto_sign R (sha384 (spdm R) t) v12 sc) s = (0, fit 96 sig) \<and>
    spdm_trace (base (exec (spdm_crypto_sign R (sha384 (spdm R) t) v12 sc) s)) = tr @ [(EcdsaSign (to_be_signed R v12 sc t), st, sig)]"
proof -
  have len: "length (sha384 (spdm R) t) = 48" using assms(1) by (simp add: roomy_def)
  have "result (spdm_malloc (spdm R) n) a" if "n < 2 ^ 31" for n a
    using roomy_alloc [OF assms(1) that] .
  then show ?thesis
    using assms(2) by (simp add: spdm_crypto_sign_def case_prod_beta to_be_signed_def len prod_eq_iff)
qed

text \<open>A buffer with the room for \<open>n\<close> more bytes.\<close>

definition has_room :: "nat \<Rightarrow> spdm_buffer \<Rightarrow> bool" where
  "has_room n b \<longleftrightarrow> wf_buffer b \<and> n \<le> room b"

lemma has_room_put: "has_room (n + length (Spdm_Buffer.field_bytes f)) b \<Longrightarrow> has_room n (put_field b f)"
  using put_field_fits [of b f] by (auto simp: has_room_def)

lemma has_room_mono: "has_room m b \<Longrightarrow> n \<le> m \<Longrightarrow> has_room n b"
  by (simp add: has_room_def)

lemma has_room_nonce: "has_room (n + 32) b \<Longrightarrow> has_room n (result (spdm_buffer_append_nonce P b) a)"
  using has_room_put [of n "FArray (fit 32 (snd (peer P (spdm_trace a) (SysRandGet SPDM_NONCE_SIZE))))" b]
  by (simp add: spdm_buffer_append_nonce_def case_prod_beta)

lemma has_room_init: "roomy R \<Longrightarrow> n < 2 ^ 31 \<Longrightarrow> has_room n (result (buffer_init (spdm R) n) a)"
  by (simp add: has_room_def roomy_init init_wf init_room)

lemma size_t_small: "n < 2 ^ 31 \<Longrightarrow> size_t n = n"
  by (simp only: size_t_def unat_of_nat) (simp add: take_bit_nat_eq_self)

lemma body_room:
  assumes "roomy R"
  shows "has_room 96 (result (challenge_body R 48 req) s)"
proof -
  have "has_room (48 + 32 + 48 + 2 + 96) (result (buffer_init (spdm R) (48 + 32 + 48 + 2 + MBEDTLS_ECDSA_MAX_LEN R)) a)" for a
    using assms by (intro has_room_mono [OF has_room_init]) (auto simp: roomy_def)
  then have "has_room (48 + 2 + 96) (result (spdm_buffer_append_nonce (spdm R) (put_field
      (result (buffer_init (spdm R) (48 + 32 + 48 + 2 + MBEDTLS_ECDSA_MAX_LEN R)) a) (FArray (memory_at (spdm R) 48 bs)))) a')" for a a' bs
    by (intro has_room_nonce has_room_put) simp
  moreover have "size_t (48 + 32 + 48 + 2 + MBEDTLS_ECDSA_MAX_LEN R) = 48 + 32 + 48 + 2 + MBEDTLS_ECDSA_MAX_LEN R"
    using assms by (intro size_t_small) (simp add: roomy_def)
  ultimately show ?thesis
    by (auto simp: challenge_body_def case_prod_beta simp del: put_field.simps
        intro!: has_room_put intro: has_room_mono [where m = 146])
qed

lemma body_frame [simp]:
  "ctx (base (exec (challenge_body R n req) s)) = ctx (base s)"
  "connection_state (exec (challenge_body R n req) s) = connection_state s"
  by (simp_all add: challenge_body_def case_prod_beta)

lemma challenge_runs:
  assumes "roomy R" and "algorithms_selected s" and "supported_version (spdm_version (header req))"
    and "slot_exists s (param1 (header req))" and "write_ptr (buffer req) = 32"
  defines "b \<equiv> result (challenge_body R 48 req) s"
  defines "auth \<equiv> request (spdm_version (header req)) SPDM_RSP_CHALLENGE_AUTH (param1 (header req))
      (slot_mask (certificate (local (rsp_ctx s)))) b"
  shows "\<exists>s' st sig tr. run (spdm_handle_challenge R req rsp) s = ((0, auth\<lparr>buffer := put_field b (FArray (fit 96 sig))\<rparr>), s') \<and>
    m1m2 s' = [] \<and> algs (base s') = algs (base s) \<and> connection_state s' = connection_state s \<and>
    spdm_trace (base s') = tr @ [(EcdsaSign (to_be_signed R (spdm_version (header req) = SPDM_VERSION_12) SPDM_SIGN_CONTEXT_M1M2_RSP
      (m1m2 s @ message_bytes req @ message_bytes auth)), st, sig)]"
proof -
  define s1 where "s1 = exec (challenge_body R 48 req) s"
  define s2 where "s2 = s1\<lparr>base := exec spdm_context_reset_m1m2_hash (exec (spdm_context_update_m1m2_hash req auth) (base s1))\<rparr>"
  have ctx1: "rsp_ctx s1 = rsp_ctx s" "connection_state s1 = connection_state s"
    by (simp_all add: s1_def)
  have algs: "algs (base s2) = (0x80, 2)" "m1m2 s2 = []" "connection_state s2 = connection_state s"
    using assms(2) by (simp_all add: s2_def ctx1 algorithms_selected_def)
  define t where "t = m1m2 s @ message_bytes req @ message_bytes auth"
  obtain st sig tr where sign: "result (spdm_crypto_sign R (sha384 (spdm R) t) (spdm_version (header req) = SPDM_VERSION_12) SPDM_SIGN_CONTEXT_M1M2_RSP) s2 = (0, fit 96 sig)"
    "spdm_trace (base (exec (spdm_crypto_sign R (sha384 (spdm R) t) (spdm_version (header req) = SPDM_VERSION_12) SPDM_SIGN_CONTEXT_M1M2_RSP) s2)) =
      tr @ [(EcdsaSign (to_be_signed R (spdm_version (header req) = SPDM_VERSION_12) SPDM_SIGN_CONTEXT_M1M2_RSP t), st, sig)]"
    using sign_runs [OF assms(1) algs(1)] by blast
  have "run (spdm_handle_challenge R req rsp) s =
    ((0, auth\<lparr>buffer := put_field b (FArray (fit 96 sig))\<rparr>), exec (spdm_crypto_sign R (sha384 (spdm R) t) (spdm_version (header req) = SPDM_VERSION_12) SPDM_SIGN_CONTEXT_M1M2_RSP) s2)"
    using assms(1-5) sign(1)
    by (simp add: spdm_handle_challenge_def case_prod_beta Let_def auth_def b_def s1_def s2_def t_def hash_whole
        request_def prod_eq_iff)
  then show ?thesis
    using sign algs assms(2) by (auto simp: t_def algorithms_selected_def)
qed

lemma challenge_faithful:
  assumes "roomy R" and "blank rsp" and "algorithms_selected s"
  shows "faithful SPDM_RSP_CHALLENGE_AUTH (spdm_handle_challenge R req rsp) req s"
proof (cases "supported_version (spdm_version (header req)) \<and> slot_exists s (param1 (header req)) \<and> write_ptr (buffer req) = 32")
  case True
  then show ?thesis
    using challenge_runs [OF assms(1,3), of req rsp] by (auto simp: faithful_def extends_def)
next
  case False
  then show ?thesis
    using assms(2) by (auto simp: faithful_def spdm_handle_challenge_def Let_def extends_def)
qed

lemma area_state [simp]: "connection_state (exec (read_area R p n acc) s) = connection_state s"
proof (induction R p n acc arbitrary: s rule: read_area.induct)
  case (1 R p offset acc)
  show ?case by (subst read_area.simps) (simp add: case_prod_beta Let_def 1)
qed

lemma index_state [simp]: "connection_state (exec (get_measurement_by_index R i n) s) = connection_state s"
  by (simp add: get_measurement_by_index_def case_prod_beta Let_def split: option.split)

lemma all_state [simp]: "connection_state (exec (get_all_measurements R k i n acc) s) = connection_state s"
  by (induction k arbitrary: i n acc s) (simp_all add: case_prod_beta split: option.split)

lemma measurement_state [simp]: "connection_state (exec (get_measurement R i n) s) = connection_state s"
  by (simp add: get_measurement_def case_prod_beta Let_def)

lemma sign_measurements_frame:
  "rsp_code rsp = SPDM_RSP_MEASUREMENTS \<Longrightarrow> rsp_code (snd (result (sign_measurements R v rsp) s)) \<in> {SPDM_RSP_MEASUREMENTS, SPDM_RSP_ERROR}"
  "m1m2 (exec (sign_measurements R v rsp) s) = m1m2 s"
  "algs (base (exec (sign_measurements R v rsp) s)) = algs (base s)"
  "connection_state (exec (sign_measurements R v rsp) s) = connection_state s"
  by (auto simp: sign_measurements_def case_prod_beta Let_def)

lemma measurements_body_frame:
  "ctx (base (exec (measurements_body R op) s)) = ctx (base s)"
  "connection_state (exec (measurements_body R op) s) = connection_state s"
  unfolding measurements_body_def
  by (cases "op = 0"; simp add: case_prod_beta split: option.split)+

lemma extends_unchanged:
  "rsp_code rsp \<in> {SPDM_RSP_MEASUREMENTS, SPDM_RSP_ERROR} \<Longrightarrow> extends req rsp h h"
  by (auto simp: extends_def)

lemma measurements_faithful: "faithful SPDM_RSP_MEASUREMENTS (spdm_handle_get_measurements R req rsp) req s"
proof -
  let ?m = "spdm_handle_get_measurements R req rsp"
  have code: "rsp_code (snd (result ?m s)) \<in> {SPDM_RSP_MEASUREMENTS, SPDM_RSP_ERROR}"
    using sign_measurements_frame(1)
    by (cases "result (measurements_body R (param2 (header req))) s")
      (simp_all add: spdm_handle_get_measurements_def case_prod_beta Let_def del: insert_iff, simp_all)
  have same: "m1m2 (exec ?m s) = m1m2 s \<and> algs (base (exec ?m s)) = algs (base s) \<and> connection_state (exec ?m s) = connection_state s"
    using sign_measurements_frame(2-4)
    by (cases "result (measurements_body R (param2 (header req))) s")
      (simp_all add: spdm_handle_get_measurements_def case_prod_beta Let_def measurements_body_frame)
  show ?thesis
    using code same extends_unchanged [OF code] by (intro faithfulI) auto
qed

end
