(* ===== verification/Spdm_Served.thy ===== *)
theory Spdm_Served
  imports Spdm_Demo Spdm_Transcript
begin

text \<open>
  The responder as a whole. Its transcript is, at any point of any exchange, the concatenation of
  what was received and sent since the last VERSION; after the negotiation only SHA-384 and P-384
  are selected; and a CHALLENGE_AUTH carries the signature over that transcript. The last part runs
  the requester of this firmware against the responder.
\<close>

section \<open>The protocol\<close>

text \<open>The states in which the algorithms are selected: all that follow ALGORITHMS.\<close>

definition after_algorithms :: "SPDM_CONNECTION_STATE \<Rightarrow> bool" where
  "after_algorithms c \<longleftrightarrow> c \<notin> {SPDM_STATE_NOT_READY, SPDM_STATE_GOT_VERSION, SPDM_STATE_GOT_CAPABILITIES}"

definition settled :: "responder \<Rightarrow> bool" where
  "settled s \<longleftrightarrow> (after_algorithms (connection_state s) \<longrightarrow> algorithms_selected s)"

text \<open>The response code of a command.\<close>

definition answer_code :: "u8 \<Rightarrow> u8" where
  "answer_code code = code AND 0x7F"

lemma negotiate_selects:
  assumes "fst (result (spdm_handle_negotiate_algorithms R req rsp) s) = 0"
  shows "algorithms_selected (exec (spdm_handle_negotiate_algorithms R req rsp) s)"
proof (cases "result (read_algorithms (spdm R) req) (base s)")
  case None
  then show ?thesis using assms by (auto simp: spdm_handle_negotiate_algorithms_def case_prod_beta Let_def split: if_splits)
next
  case (Some fb)
  obtain f b where fb: "fb = (f, b)" by (cases fb)
  note sel = read_algorithms_selects [OF Some [unfolded fb]]
  show ?thesis
    using assms Some by (auto simp: fb spdm_handle_negotiate_algorithms_def case_prod_beta Let_def algorithms_selected_def sel split: if_splits)
qed

lemmas handlers_faithful = version_faithful capabilities_faithful algorithms_faithful digests_faithful

lemma command_faithful:
  assumes "roomy R" and "blank rsp" and "settled s" and "command (connection_state s) code = Some (handle, next)"
  shows "faithful (answer_code code) (handle R req rsp) req s"
    and "after_algorithms next \<Longrightarrow> after_algorithms (connection_state s) \<or> handle = spdm_handle_negotiate_algorithms"
    and "answer_code code = SPDM_RSP_CHALLENGE_AUTH \<Longrightarrow> handle = spdm_handle_challenge \<and> algorithms_selected s \<and>
      connection_state s \<in> {SPDM_STATE_GOT_DIGESTS, SPDM_STATE_GOT_CERTIFICATE}"
  using assms handlers_faithful [OF assms(2)] certificate_faithful [OF assms(1,2)] challenge_faithful [OF assms(1,2)]
    measurements_faithful
  by (cases "connection_state s"; auto simp: answer_code_def settled_def after_algorithms_def split: if_splits)+

text \<open>The part of the handler before the dispatch touches the measurement transcript only.\<close>

definition prepared :: "spdm_message \<Rightarrow> responder \<Rightarrow> responder" where
  "prepared req = exec (cwhen (request_response_code (header req) \<noteq> SPDM_REQ_GET_MEASUREMENTS) (do {
     on_base spdm_context_reset_l1l2_hash;
     a \<leftarrow> gets (\<lambda>s. message_a (rsp_ctx s));
     cwhen (spdm_version (header req) = SPDM_VERSION_12) (on_base (spdm_context_update_l1l2_hash_buffer a))
   }))"

lemma prepared_frame [simp]:
  "m1m2 (prepared req s) = m1m2 s" "algs (base (prepared req s)) = algs (base s)"
  "connection_state (prepared req s) = connection_state s"
  by (simp_all add: prepared_def case_prod_beta)

lemma prepared_settled [simp]: "settled (prepared req s) = settled s"
  using prepared_frame(2) [of req s] by (simp add: settled_def algorithms_selected_def del: prepared_frame(2))

definition first_response :: "spdm_message \<Rightarrow> spdm_message \<Rightarrow> spdm_message" where
  "first_response req rsp =
     set_response (spdm_version (header req)) SPDM_RSP_ERROR SPDM_ERROR_CODE_UNSUPPORTED_REQUEST 0 rsp"

lemma first_response_blank: "buffer rsp = snd (spdm_buffer_init True 0) \<Longrightarrow> blank (first_response req rsp)"
  by (simp add: blank_def first_response_def)

lemma handler_unsupported: "\<not> supported_version (spdm_version (header req)) \<Longrightarrow> run (handler R req rsp) s = (rsp, s)"
  by (simp add: handler_def)

lemma handler_none:
  assumes "supported_version (spdm_version (header req))" and "command (connection_state s) (request_response_code (header req)) = None"
  shows "run (handler R req rsp) s = (first_response req rsp, prepared req s)"
  using assms prepared_frame(3) [of req s]
  by (simp add: handler_def first_response_def prepared_def case_prod_beta Let_def)

lemma handler_some:
  fixes R rsp
  assumes "supported_version (spdm_version (header req))"
    and "command (connection_state s) (request_response_code (header req)) = Some (handle, next)"
  defines "m \<equiv> handle R req (first_response req rsp)"
  shows "run (handler R req rsp) s = (snd (result m (prepared req s)),
    if fst (result m (prepared req s)) = 0 then (exec m (prepared req s))\<lparr>connection_state := next\<rparr> else exec m (prepared req s))"
  using assms prepared_frame(3) [of req s]
  by (simp add: handler_def first_response_def prepared_def case_prod_beta Let_def)

lemma settled_next:
  assumes "settled s" and "faithful code m req s"
    and "after_algorithms next \<Longrightarrow> after_algorithms (connection_state s) \<or> algorithms_selected (exec m s)"
  shows "settled ((exec m s)\<lparr>connection_state := next\<rparr>)"
  using assms by (auto simp: settled_def faithful_def algorithms_selected_def case_prod_beta)

lemma settled_same: "settled s \<Longrightarrow> faithful code m req s \<Longrightarrow> settled (exec m s)"
  by (auto simp: settled_def faithful_def algorithms_selected_def case_prod_beta)

lemma handler_step:
  fixes R rsp
  assumes "roomy R" and "settled s" and "supported_version (spdm_version (header req))" and "buffer rsp = snd (spdm_buffer_init True 0)"
  defines "rsp' \<equiv> result (handler R req rsp) s" and "s' \<equiv> exec (handler R req rsp) s"
  shows "extends req rsp' (m1m2 s) (m1m2 s') \<and> settled s' \<and>
    rsp_code rsp' \<in> {answer_code (request_response_code (header req)), SPDM_RSP_ERROR}"
proof (cases "command (connection_state s) (request_response_code (header req))")
  case None
  then show ?thesis
    using assms(2) handler_none [OF assms(3) None, of R rsp]
    by (simp add: rsp'_def s'_def extends_def first_response_def)
next
  case (Some hn)
  obtain handle nxt where hn: "hn = (handle, nxt)" by (cases hn)
  let ?m = "handle R req (first_response req rsp)"
  note blank = first_response_blank [OF assms(4), of req]
  note cmd = command_faithful [OF assms(1) blank, of "prepared req s" "request_response_code (header req)" handle nxt]
  have f: "faithful (answer_code (request_response_code (header req))) ?m req (prepared req s)"
    using cmd(1) assms(2) Some hn by simp
  have "after_algorithms nxt \<Longrightarrow> fst (result ?m (prepared req s)) = 0 \<Longrightarrow>
      after_algorithms (connection_state (prepared req s)) \<or> algorithms_selected (exec ?m (prepared req s))"
    using cmd(2) assms(2) Some hn negotiate_selects by auto
  then show ?thesis
    using f settled_next [OF _ f, of nxt] settled_same [OF _ f] assms(2) handler_some [OF assms(3) Some [unfolded hn], of R rsp]
    by (auto simp: rsp'_def s'_def faithful_def case_prod_beta)
qed

section \<open>Messages\<close>

definition received :: "u8 list \<Rightarrow> spdm_message" where
  "received msg = \<lparr>header = header_of_bytes (take 4 (drop 1 msg)),
     buffer = snd (spdm_buffer_append_array (snd (spdm_buffer_init True (length msg - 5))) (drop 5 msg))\<rparr>"

lemma received_header [simp]:
  assumes "5 \<le> length msg"
  shows "spdm_version (header (received msg)) = msg ! 1" and "rsp_code (received msg) = msg ! 2"
    and "param1 (header (received msg)) = msg ! 3" and "param2 (header (received msg)) = msg ! 4"
  using assms by (simp_all add: received_def header_of_bytes_def numeral_eq_Suc)

lemma received_bytes:
  assumes "5 \<le> length msg"
  shows "message_bytes (received msg) = tl msg" and "write_ptr (buffer (received msg)) = length msg - 5"
    and "wf_buffer (buffer (received msg))"
proof -
  have w: "written (buffer (received msg)) = drop 5 msg"
    using append_array_fits(2) [of "snd (spdm_buffer_init True (length msg - 5))" "drop 5 msg"]
    by (simp add: received_def init_wf init_room)
  have "header_bytes (header (received msg)) = take 4 (drop 1 msg)"
    using assms by (simp add: received_def)
  then show "message_bytes (received msg) = tl msg"
    using w append_take_drop_id [of 4 "tl msg"] by (simp add: message_bytes_def drop_Suc [of 4, simplified] drop_Suc)
  show "write_ptr (buffer (received msg)) = length msg - 5"
    by (simp add: received_def spdm_buffer_init_def spdm_buffer_append_array_def)
  show "wf_buffer (buffer (received msg))"
    by (simp add: received_def append_array_wf init_wf)
qed

definition request_state :: "responder_env \<Rightarrow> u8 list \<Rightarrow> responder \<Rightarrow> responder" where
  "request_state R msg s = exec (on_base (buffer_init (spdm R) (length msg - 5))) s"

lemma request_state_frame [simp]:
  "rsp_ctx (request_state R msg s) = rsp_ctx s" "connection_state (request_state R msg s) = connection_state s"
  by (simp_all add: request_state_def)

lemma request_state_settled [simp]: "settled (request_state R msg s) = settled s"
  by (simp add: settled_def algorithms_selected_def)

definition unanswered :: "u8 list \<Rightarrow> spdm_message" where
  "unanswered msg = \<lparr>header = header_of_bytes (take 4 (drop 1 msg)), buffer = snd (spdm_buffer_init True 0)\<rparr>"

lemma mctp_runs:
  fixes s
  assumes "roomy R" and "5 \<le> length msg" and "length msg < 2 ^ 31"
  defines "r \<equiv> run (handler R (received msg) (unanswered msg)) (request_state R msg s)"
  shows "run (handle_spdm_mctp_message R True msg) s = ((0, 0x05 # message_bytes (fst r)), snd r)"
proof -
  have "result (buffer_init (spdm R) (length msg - 5)) a = snd (spdm_buffer_init True (length msg - 5))" for a
    using roomy_init [OF assms(1), of "length msg - 5" a] assms(3) by simp
  then show ?thesis
    using assms(2) by (simp add: handle_spdm_mctp_message_def case_prod_beta Let_def r_def received_def unanswered_def request_state_def)
qed

lemma reply_at [simp]:
  "(x # message_bytes m) ! Suc 0 = spdm_version (header m)" "(x # message_bytes m) ! 2 = rsp_code m"
  "message_bytes m ! 0 = spdm_version (header m)" "message_bytes m ! Suc 0 = rsp_code m"
  "length (message_bytes m) = 4 + length (written (buffer m))"
  by (simp_all add: message_bytes_def header_bytes_def)

lemma extends_step:
  assumes "extends req rsp h h'" and "message_bytes req = tl msg" and "supported_version (msg ! 1)"
  shows "h' = transcript_step h (msg, x # message_bytes rsp)"
  using assms by (simp add: extends_def transcript_step_def)

lemma mctp_step:
  assumes "roomy R" and "settled s" and "5 \<le> length msg" and "length msg < 2 ^ 31"
    and "run (handle_spdm_mctp_message R True msg) s = ((st, reply), s')"
  shows "m1m2 s' = transcript_step (m1m2 s) (msg, reply)" and "settled s'"
proof -
  let ?r = "run (handler R (received msg) (unanswered msg)) (request_state R msg s)"
  have r: "reply = 0x05 # message_bytes (fst ?r)" "s' = snd ?r"
    using assms(5) mctp_runs [OF assms(1,3,4), of s] by auto
  have "m1m2 s' = transcript_step (m1m2 s) (msg, reply) \<and> settled s'"
  proof (cases "supported_version (msg ! 1)")
    case True
    have empty: "buffer (unanswered msg) = snd (spdm_buffer_init True 0)" by (simp add: unanswered_def)
    show ?thesis
      using handler_step [OF assms(1), of "request_state R msg s" "received msg" "unanswered msg"] True assms(2) empty
        extends_step [OF _ received_bytes(1) [OF assms(3)] True]
      by (simp add: r assms(3))
  next
    case False
    then show ?thesis
      using handler_unsupported [of "received msg" R "unanswered msg" "request_state R msg s"] assms(2,3)
      by (simp add: r transcript_step_def)
  qed
  then show "m1m2 s' = transcript_step (m1m2 s) (msg, reply)" and "settled s'" by auto
qed

text \<open>The exchanges of a responder since it was started.\<close>

inductive serves :: "responder_env \<Rightarrow> responder \<Rightarrow> (u8 list \<times> u8 list) list \<Rightarrow> bool" for R where
  start: "connection_state s = SPDM_STATE_NOT_READY \<Longrightarrow> m1m2 s = [] \<Longrightarrow> serves R s []"
| serve: "serves R s h \<Longrightarrow> 5 \<le> length msg \<Longrightarrow> length msg < 2 ^ 31 \<Longrightarrow>
    run (handle_spdm_mctp_message R True msg) s = ((st, reply), s') \<Longrightarrow> serves R s' (h @ [(msg, reply)])"

lemma served_transcript:
  assumes "serves R s h" and "roomy R"
  shows "m1m2 s = foldl transcript_step [] h \<and> settled s"
  using assms
proof (induction rule: serves.induct)
  case (start s)
  then show ?case by (simp add: settled_def after_algorithms_def)
next
  case (serve s h msg st reply s')
  then show ?case using mctp_step [OF serve.prems _ serve.hyps(2-4)] by auto
qed

lemma signed_reply:
  assumes "has_room 96 b"
  shows "message_bytes \<lparr>header = hdr, buffer = snd (spdm_buffer_append_array b (fit 96 sig))\<rparr> =
    message_bytes \<lparr>header = hdr, buffer = b\<rparr> @ fit 96 sig"
  using put_field_fits [of b "FArray (fit 96 sig)"] assms by (simp add: message_bytes_def has_room_def)

lemma challenge_answered:
  assumes "roomy R" and "settled s" and "5 \<le> length msg" and "length msg < 2 ^ 31"
    and "run (handle_spdm_mctp_message R True msg) s = ((0, reply), s')"
    and "supported_version (msg ! 1)" and "reply ! 2 = SPDM_RSP_CHALLENGE_AUTH"
  shows "connection_state s \<in> {SPDM_STATE_GOT_DIGESTS, SPDM_STATE_GOT_CERTIFICATE}"
    and "\<exists>body st sig. reply = 0x05 # body @ fit 96 sig \<and> last (spdm_trace (base s')) =
      (EcdsaSign (to_be_signed R (msg ! 1 = SPDM_VERSION_12) SPDM_SIGN_CONTEXT_M1M2_RSP (m1m2 s @ tl msg @ body)), st, sig)"
proof -
  let ?s = "request_state R msg s" and ?p = "prepared (received msg) (request_state R msg s)"
  let ?rsp = "first_response (received msg) (unanswered msg)"
  have r: "reply = 0x05 # message_bytes (result (handler R (received msg) (unanswered msg)) ?s)"
    "s' = exec (handler R (received msg) (unanswered msg)) ?s"
    using assms(5) mctp_runs [OF assms(1,3,4), of s] by auto
  have sup: "supported_version (spdm_version (header (received msg)))" using assms(3,6) by simp
  have blank: "blank ?rsp" by (rule first_response_blank) (simp add: unanswered_def)
  have empty: "buffer (unanswered msg) = snd (spdm_buffer_init True 0)" by (simp add: unanswered_def)
  have code: "rsp_code (result (handler R (received msg) (unanswered msg)) ?s) = SPDM_RSP_CHALLENGE_AUTH"
    using assms(7) by (simp add: r)
  have answer: "answer_code (msg ! 2) = SPDM_RSP_CHALLENGE_AUTH"
    using handler_step [OF assms(1) _ sup empty, of ?s] code assms(2,3) by auto
  obtain handle nxt where cmd: "command (connection_state ?s) (rsp_code (received msg)) = Some (handle, nxt)"
    using handler_none [OF sup, of ?s R "unanswered msg"] code
    by (cases "command (connection_state ?s) (rsp_code (received msg))") (auto simp: first_response_def)
  have ch: "handle = spdm_handle_challenge" "algorithms_selected ?p"
    "connection_state s \<in> {SPDM_STATE_GOT_DIGESTS, SPDM_STATE_GOT_CERTIFICATE}"
    using command_faithful(3) [OF assms(1) blank, of ?p "msg ! 2" handle nxt] cmd answer assms(2,3) by auto
  then show "connection_state s \<in> {SPDM_STATE_GOT_DIGESTS, SPDM_STATE_GOT_CERTIFICATE}" by simp
  note h = handler_some [OF sup cmd, of R "unanswered msg", unfolded ch(1)]
  have ok: "slot_exists ?p (param1 (header (received msg))) \<and> write_ptr (buffer (received msg)) = 32"
  proof (rule ccontr)
    assume "\<not> ?thesis"
    then have "rsp_code (snd (result (spdm_handle_challenge R (received msg) ?rsp) ?p)) = SPDM_RSP_ERROR"
      using blank sup by (auto simp: spdm_handle_challenge_def Let_def)
    then show False using code h by simp
  qed
  obtain s'' st sig tr where runs: "run (spdm_handle_challenge R (received msg) ?rsp) ?p =
      ((0, (request (msg ! 1) SPDM_RSP_CHALLENGE_AUTH (msg ! 3) (slot_mask (certificate (local (rsp_ctx ?p))))
        (result (challenge_body R 48 (received msg)) ?p))\<lparr>buffer := put_field (result (challenge_body R 48 (received msg)) ?p) (FArray (fit 96 sig))\<rparr>), s'')"
    "spdm_trace (base s'') = tr @ [(EcdsaSign (to_be_signed R (msg ! 1 = SPDM_VERSION_12) SPDM_SIGN_CONTEXT_M1M2_RSP
      (m1m2 ?p @ message_bytes (received msg) @ message_bytes (request (msg ! 1) SPDM_RSP_CHALLENGE_AUTH (msg ! 3)
        (slot_mask (certificate (local (rsp_ctx ?p)))) (result (challenge_body R 48 (received msg)) ?p)))), st, sig)]"
    using challenge_runs [OF assms(1) ch(2) sup, of ?rsp] ok assms(3) by auto
  show "\<exists>body st sig. reply = 0x05 # body @ fit 96 sig \<and> last (spdm_trace (base s')) =
      (EcdsaSign (to_be_signed R (msg ! 1 = SPDM_VERSION_12) SPDM_SIGN_CONTEXT_M1M2_RSP (m1m2 s @ tl msg @ body)), st, sig)"
    using runs h by (auto simp: r signed_reply [OF body_room [OF assms(1)]] request_def received_bytes(1) [OF assms(3)])
qed

section \<open>An exchange that is answered\<close>

text \<open>A requester of version 1.0 that follows the protocol: the five messages up to the challenge.\<close>

definition protocol :: "u8 list list" where
  "protocol = [[5, 0x10, 0x84, 0, 0], [5, 0x10, 0xE1, 0, 0],
     [5, 0x10, 0xE3, 0, 0, 28, 0, 1, 0, 0x80, 0, 0, 0, 2, 0, 0, 0] @ replicate 12 0,
     [5, 0x10, 0x81, 0, 0], [5, 0x10, 0x83, 0, 0] @ replicate 32 0]"

abbreviation own_certs :: "responder \<Rightarrow> spdm_certificate_info" where
  "own_certs s \<equiv> certificate (local (rsp_ctx s))"

lemma certs_frame [simp]:
  "certificate (local (ctx (exec (store_capabilities v b) a))) = certificate (local (ctx a))"
  "certificate (local (ctx (exec (read_algorithms P req) a))) = certificate (local (ctx a))"
  by (simp_all add: store_capabilities_def read_algorithms_def case_prod_beta Let_def)

lemma handlers_certs:
  "own_certs (exec (spdm_handle_get_version R req rsp) s) = own_certs s"
  "own_certs (exec (spdm_handle_get_capabilities R req rsp) s) = own_certs s"
  "own_certs (exec (spdm_handle_negotiate_algorithms R req rsp) s) = own_certs s"
  "own_certs (exec (spdm_handle_get_digests R req rsp) s) = own_certs s"
  by (simp_all add: spdm_handle_get_version_def spdm_handle_get_capabilities_def spdm_handle_negotiate_algorithms_def
      spdm_handle_get_digests_def case_prod_beta Let_def split: option.split)

lemma prepared_certs [simp]: "own_certs (prepared req s) = own_certs s"
  by (simp add: prepared_def case_prod_beta)

lemma progress:
  assumes "serves R s h" and "roomy R" and "5 \<le> length msg" and "length msg < 2 ^ 31" and "supported_version (msg ! 1)"
    and cmd: "command (connection_state s) (msg ! 2) = Some (handle, nxt)"
    and certs: "\<And>req rsp s. own_certs (exec (handle R req rsp) s) = own_certs s"
    and ok: "\<And>rsp s'. own_certs s' = own_certs s \<Longrightarrow> settled s' \<Longrightarrow> connection_state s' = connection_state s \<Longrightarrow>
      fst (result (handle R (received msg) rsp) s') = 0"
  shows "\<exists>s' h'. serves R s' h' \<and> connection_state s' = nxt \<and> own_certs s' = own_certs s"
proof -
  let ?m = "handle R (received msg) (first_response (received msg) (unanswered msg))"
  let ?p = "prepared (received msg) (request_state R msg s)"
  have st: "settled s" using served_transcript [OF assms(1,2)] by simp
  have zero: "fst (result ?m ?p) = 0" using st by (intro ok) simp_all
  have "run (handler R (received msg) (unanswered msg)) (request_state R msg s) =
      (snd (result ?m ?p), (exec ?m ?p)\<lparr>connection_state := nxt\<rparr>)"
    using handler_some [of "received msg" "request_state R msg s" handle nxt R "unanswered msg"] assms(3,5) cmd zero by simp
  then have "serves R ((exec ?m ?p)\<lparr>connection_state := nxt\<rparr>) (h @ [(msg, 0x05 # message_bytes (snd (result ?m ?p)))])"
    using mctp_runs [OF assms(2,3,4), of s] by (intro serves.serve [OF assms(1,3,4), where st = 0]) simp
  then show ?thesis using certs by (intro exI conjI) (assumption, simp_all)
qed

lemma protocol_received:
  "received [5, 0x10, c, 0, 0] = request 0x10 c 0 0 (snd (spdm_buffer_init True 0))"
  "header (received ([5, 0x10, c, 0, 0] @ bs)) = header (request 0x10 c 0 0 b)"
  by (simp_all add: received_def header_of_bytes_def request_def spdm_buffer_init_def spdm_buffer_append_array_def)

lemma protocol_algorithms:
  assumes "msg = [5, 0x10, 0xE3, 0, 0, 28, 0, 1, 0, 0x80, 0, 0, 0, 2, 0, 0, 0] @ replicate 12 0"
  shows "\<exists>f b. result (read_algorithms P (received msg)) a = Some (f, b)"
  unfolding assms
  by (simp add: read_algorithms_def received_def header_of_bytes_def spdm_buffer_init_def spdm_buffer_append_array_def
      spdm_buffer_get_u16_def spdm_buffer_get_u8_def spdm_buffer_get_u32_def spdm_buffer_get_array_def overwrite_def
      case_prod_beta Let_def u16_of_bytes_def u32_of_bytes_def)

lemma version_ok: "spdm_version (header req) = SPDM_VERSION_10 \<Longrightarrow> fst (result (spdm_handle_get_version R req rsp) s) = 0"
  by (simp add: spdm_handle_get_version_def case_prod_beta Let_def)

lemma capabilities_ok:
  "spdm_version (header req) = SPDM_VERSION_10 \<Longrightarrow> write_ptr (buffer req) = 0 \<Longrightarrow>
    fst (result (spdm_handle_get_capabilities R req rsp) s) = 0"
  by (simp add: spdm_handle_get_capabilities_def case_prod_beta Let_def supported_version_def capabilities_length_def)

lemma algorithms_ok:
  assumes "msg = [5, 0x10, 0xE3, 0, 0, 28, 0, 1, 0, 0x80, 0, 0, 0, 2, 0, 0, 0] @ replicate 12 0"
  shows "fst (result (spdm_handle_negotiate_algorithms R (received msg) rsp) s) = 0"
proof -
  obtain f b where "result (read_algorithms (spdm R) (received msg)) (base s) = Some (f, b)"
    using protocol_algorithms [OF assms] by blast
  moreover have "spdm_version (header (received msg)) = SPDM_VERSION_10"
    by (simp add: assms)
  ultimately show ?thesis
    by (simp add: spdm_handle_negotiate_algorithms_def case_prod_beta Let_def supported_version_def extended_algorithms_def)
qed

lemma digests_ok:
  "spdm_version (header req) = SPDM_VERSION_10 \<Longrightarrow> fst (result (spdm_handle_get_digests R req rsp) s) = 0"
  by (simp add: spdm_handle_get_digests_def case_prod_beta Let_def supported_version_def)

lemma protocol_reaches:
  assumes "roomy R" and "connection_state s = SPDM_STATE_NOT_READY" and "m1m2 s = []"
  shows "\<exists>s' h. serves R s' h \<and> connection_state s' = SPDM_STATE_GOT_DIGESTS \<and> own_certs s' = own_certs s"
proof -
  have s0: "serves R s []" by (rule serves.start [OF assms(2,3)])
  obtain s1 h1 where s1: "serves R s1 h1" "connection_state s1 = SPDM_STATE_GOT_VERSION" "own_certs s1 = own_certs s"
    using progress [OF s0 assms(1), of "[5, 0x10, 0x84, 0, 0]" spdm_handle_get_version SPDM_STATE_GOT_VERSION] assms(2) handlers_certs
    by (auto simp: supported_version_def version_ok)
  obtain s2 h2 where s2: "serves R s2 h2" "connection_state s2 = SPDM_STATE_GOT_CAPABILITIES" "own_certs s2 = own_certs s"
    using progress [OF s1(1) assms(1), of "[5, 0x10, 0xE1, 0, 0]" spdm_handle_get_capabilities SPDM_STATE_GOT_CAPABILITIES] s1 handlers_certs
    by (auto simp: supported_version_def capabilities_ok received_bytes)
  define msg :: "u8 list" where "msg = [5, 0x10, 0xE3, 0, 0, 28, 0, 1, 0, 0x80, 0, 0, 0, 2, 0, 0, 0] @ replicate 12 0"
  have m: "5 \<le> length msg" "length msg < 2 ^ 31" "msg ! 1 = 0x10" "msg ! 2 = 0xE3" by (simp_all add: msg_def)
  obtain s3 h3 where s3: "serves R s3 h3" "connection_state s3 = SPDM_STATE_NEGOTIATED_ALGORITHMS" "own_certs s3 = own_certs s"
    using progress [OF s2(1) assms(1) m(1,2), of spdm_handle_negotiate_algorithms SPDM_STATE_NEGOTIATED_ALGORITHMS] s2 m handlers_certs
    by (auto simp: supported_version_def algorithms_ok [OF msg_def])
  obtain s4 h4 where "serves R s4 h4" "connection_state s4 = SPDM_STATE_GOT_DIGESTS" "own_certs s4 = own_certs s"
    using progress [OF s3(1) assms(1), of "[5, 0x10, 0x81, 0, 0]" spdm_handle_get_digests SPDM_STATE_GOT_DIGESTS] s3 handlers_certs
    by (auto simp: supported_version_def digests_ok)
  then show ?thesis by blast
qed

lemma challenge_reply:
  assumes "roomy R" and "settled s" and "connection_state s = SPDM_STATE_GOT_DIGESTS" and "slot_exists s 0"
    and "msg = [5, 0x10, 0x83, 0, 0] @ replicate 32 0"
  shows "\<exists>reply s'. run (handle_spdm_mctp_message R True msg) s = ((0, reply), s') \<and> reply ! 2 = SPDM_RSP_CHALLENGE_AUTH"
proof -
  let ?p = "prepared (received msg) (request_state R msg s)"
  have m: "5 \<le> length msg" "length msg < 2 ^ 31" "msg ! 1 = 0x10" "msg ! 2 = 0x83" "msg ! 3 = 0" "length msg = 37"
    by (simp_all add: assms(5))
  have neg: "algorithms_selected ?p" using assms(2,3) by (simp add: settled_def after_algorithms_def algorithms_selected_def)
  have slot: "slot_exists ?p (param1 (header (received msg)))"
    using assms(4) m(1,5) by (simp add: slot_exists_def)
  have sup: "supported_version (spdm_version (header (received msg)))" using m by (simp add: supported_version_def)
  have "rsp_code (snd (result (spdm_handle_challenge R (received msg) (first_response (received msg) (unanswered msg))) ?p)) = SPDM_RSP_CHALLENGE_AUTH"
    using challenge_runs [OF assms(1) neg sup slot, of "first_response (received msg) (unanswered msg)"] m
    by (auto simp: received_bytes request_def)
  moreover have "command (connection_state (request_state R msg s)) (rsp_code (received msg)) = Some (spdm_handle_challenge, SPDM_STATE_CHANLLENGED)"
    using assms(3) m by simp
  ultimately have "rsp_code (result (handler R (received msg) (unanswered msg)) (request_state R msg s)) = SPDM_RSP_CHALLENGE_AUTH"
    using handler_some [OF sup, of "request_state R msg s" spdm_handle_challenge SPDM_STATE_CHANLLENGED R "unanswered msg"] by simp
  then show ?thesis using mctp_runs [OF assms(1) m(1,2), of s] by simp
qed

section \<open>What the answers say\<close>

definition demo_responder :: responder_env where
  "demo_responder = \<lparr>spdm = honest 0, MBEDTLS_ECDSA_MAX_LEN = 104, partition_size = (\<lambda>_. 4096),
     x509_names = (\<lambda>_. ([], [])), responder_certchain = [], responder_certchain1 = []\<rparr>"

definition with_certificate :: responder where
  "with_certificate = \<lparr>base = connected\<lparr>ctx := local_update (certificate_update (slot_mask_update (\<lambda>_. 1))) (ctx connected)\<rparr>,
     connection_state = SPDM_STATE_NOT_READY, ext_asym_sel_count = 0, ext_hash_sel_count = 0, ext_asym_sel = [0], ext_hash_sel = [0]\<rparr>"

lemma demo_roomy: "roomy demo_responder"
  by (simp add: roomy_def demo_responder_def demo_device_def zeros_def)

lemma with_certificate_simps:
  "connection_state with_certificate = SPDM_STATE_NOT_READY" "m1m2 with_certificate = []" "slot_exists with_certificate 0"
  by (simp_all add: with_certificate_def connected_def spdm_context_create_def slot_exists_def)

lemma demo_reaches:
  "\<exists>s h. serves demo_responder s h \<and> connection_state s = SPDM_STATE_GOT_DIGESTS \<and> slot_exists s 0"
  using protocol_reaches [OF demo_roomy with_certificate_simps(1,2)] with_certificate_simps(3)
  by (auto simp: slot_exists_def)

text \<open>
  C12: whatever requests a responder gets after its start, its challenge transcript is the
  concatenation of the messages received and sent since the last VERSION, empty after a
  CHALLENGE_AUTH, and every state behind the negotiation has P-384 and SHA-384 selected.
\<close>

theorem transcript_is_the_exchange:
  assumes "serves R s h" and "roomy R"
  shows "m1m2 s = foldl transcript_step [] h \<and>
    (connection_state s \<in> {SPDM_STATE_NOT_READY, SPDM_STATE_GOT_VERSION, SPDM_STATE_GOT_CAPABILITIES} \<or> algs (base s) = (0x80, 2))"
  using served_transcript [OF assms] by (auto simp: settled_def after_algorithms_def algorithms_selected_def)

theorem transcript_is_the_exchange_witness:
  "\<exists>s h. serves demo_responder s h \<and> connection_state s = SPDM_STATE_GOT_DIGESTS \<and>
    m1m2 s = foldl transcript_step [] h \<and> algs (base s) = (0x80, 2)"
proof -
  obtain s h where "serves demo_responder s h" "connection_state s = SPDM_STATE_GOT_DIGESTS" using demo_reaches by blast
  then show ?thesis using transcript_is_the_exchange [OF _ demo_roomy, of s h] by (intro exI [of _ s] exI [of _ h]) auto
qed

text \<open>
  C11: a CHALLENGE_AUTH is only answered after the digests were asked for, and what it ends with is
  what the signature engine returned for the hash over the whole exchange since VERSION, the
  challenge and the answer itself (behind the prefix of SPDM 1.2 for a request of that version).
\<close>

theorem challenge_signs_the_exchange:
  assumes "roomy R" and "serves R s h" and "5 \<le> length msg" and "length msg < 2 ^ 31"
    and "run (handle_spdm_mctp_message R True msg) s = ((0, reply), s')"
    and "supported_version (msg ! 1)" and "reply ! 2 = SPDM_RSP_CHALLENGE_AUTH"
  shows "connection_state s \<in> {SPDM_STATE_GOT_DIGESTS, SPDM_STATE_GOT_CERTIFICATE} \<and>
    (\<exists>body st sig. reply = 0x05 # body @ fit 96 sig \<and> last (spdm_trace (base s')) =
      (EcdsaSign (to_be_signed R (msg ! 1 = SPDM_VERSION_12) SPDM_SIGN_CONTEXT_M1M2_RSP
        (foldl transcript_step [] h @ tl msg @ body)), st, sig))"
  using challenge_answered [OF assms(1) _ assms(3-7)] served_transcript [OF assms(2,1)] by auto

theorem challenge_signs_the_exchange_witness:
  "\<exists>s h s' reply. let msg = [5, 0x10, 0x83, 0, 0] @ replicate 32 0 in
    run (handle_spdm_mctp_message demo_responder True msg) s = ((0, reply), s') \<and>
    connection_state s \<in> {SPDM_STATE_GOT_DIGESTS, SPDM_STATE_GOT_CERTIFICATE} \<and>
    (\<exists>body st sig. reply = 0x05 # body @ fit 96 sig \<and> last (spdm_trace (base s')) =
      (EcdsaSign (to_be_signed demo_responder False SPDM_SIGN_CONTEXT_M1M2_RSP (foldl transcript_step [] h @ tl msg @ body)), st, sig))"
proof -
  define msg :: "u8 list" where "msg = [5, 0x10, 0x83, 0, 0] @ replicate 32 0"
  have m: "5 \<le> length msg" "length msg < 2 ^ 31" "msg ! 1 = 0x10" by (simp_all add: msg_def)
  obtain s h where s: "serves demo_responder s h" "connection_state s = SPDM_STATE_GOT_DIGESTS" "slot_exists s 0"
    using demo_reaches by blast
  have "settled s" using served_transcript [OF s(1) demo_roomy] by simp
  then obtain reply s' where "run (handle_spdm_mctp_message demo_responder True msg) s = ((0, reply), s')" "reply ! 2 = SPDM_RSP_CHALLENGE_AUTH"
    using challenge_reply [OF demo_roomy _ s(2,3) msg_def] by blast
  then show ?thesis
    using challenge_signs_the_exchange [OF demo_roomy s(1) m(1,2), of reply s'] m(3)
    unfolding Let_def msg_def [symmetric] by (simp add: supported_version_def) blast
qed

text \<open>
  C24: a request that the state does not accept is answered with the error UNSUPPORTED_REQUEST, one
  of an unsupported version with its own header instead of an error; neither changes the state of
  the connection or the challenge transcript.
\<close>

theorem refused_request_answer:
  assumes "roomy R" and "5 \<le> length msg" and "length msg < 2 ^ 31"
    and "supported_version (msg ! 1) \<longrightarrow> command (connection_state s) (msg ! 2) = None"
  shows "\<exists>s'. run (handle_spdm_mctp_message R True msg) s = ((0, 0x05 #
      (if supported_version (msg ! 1) then [msg ! 1, SPDM_RSP_ERROR, SPDM_ERROR_CODE_UNSUPPORTED_REQUEST, 0] else take 4 (tl msg))), s') \<and>
    connection_state s' = connection_state s \<and> m1m2 s' = m1m2 s"
proof -
  let ?s = "request_state R msg s"
  have empty: "written (buffer (unanswered msg)) = []" by (simp add: unanswered_def)
  show ?thesis
  proof (cases "supported_version (msg ! 1)")
    case True
    then show ?thesis
      using handler_none [of "received msg" ?s R "unanswered msg"] mctp_runs [OF assms(1-3), of s] assms(2,4) empty
      by (simp add: first_response_def set_response_def message_bytes_def header_bytes_def)
  next
    case False
    have "message_bytes (unanswered msg) = take 4 (tl msg)"
      using assms(2) empty by (simp add: message_bytes_def unanswered_def drop_Suc)
    then show ?thesis
      using False handler_unsupported [of "received msg" R "unanswered msg" ?s] mctp_runs [OF assms(1-3), of s] assms(2) by simp
  qed
qed

theorem refused_request_answer_witness:
  "\<exists>s'. run (handle_spdm_mctp_message demo_responder True [5, 0x13, 0x84, 7, 9]) with_certificate = ((0, [5, 0x13, 0x84, 7, 9]), s')"
  using refused_request_answer [OF demo_roomy, of "[5, 0x13, 0x84, 7, 9]" with_certificate]
  by (auto simp: supported_version_def)

section \<open>Requester against responder\<close>

text \<open>The version table that \<open>spdm_context_create\<close> builds, and the answer it leads to.\<close>

definition own_versions :: "responder \<Rightarrow> bool" where
  "own_versions s \<longleftrightarrow> version_number_entry_count (version (local (rsp_ctx s))) = 3 \<and>
     version_number_entry (version (local (rsp_ctx s))) = [0x1200, 0x1100, 0x1000]"

lemma created_versions: "rsp_ctx s = spdm_context_create junk \<Longrightarrow> own_versions s"
  by (simp add: own_versions_def spdm_context_create_def)

abbreviation get_version_message :: "u8 list" where
  "get_version_message \<equiv> [0x05, SPDM_VERSION_10, SPDM_REQ_GET_VERSION, 0, 0]"

lemma version_answer:
  assumes "roomy R" and "own_versions s" and "command (connection_state s) SPDM_REQ_GET_VERSION \<noteq> None"
  shows "snd (result (handle_spdm_mctp_message R True get_version_message) s) =
    [0x05, SPDM_VERSION_10, SPDM_RSP_VERSION, 0, 0, 0, 3, 0, 0x12, 0, 0x11, 0, 0x10]"
proof -
  let ?m = "get_version_message"
  have m: "5 \<le> length ?m" "length ?m < 2 ^ 31" by simp_all
  obtain nxt where cmd: "command (connection_state (request_state R ?m s)) (rsp_code (received ?m)) = Some (spdm_handle_get_version, nxt)"
    using assms(3) by (cases "connection_state s") auto
  have sup: "supported_version (spdm_version (header (received ?m)))" by (simp add: supported_version_def)
  let ?fs = "[FReserved (Suc 0), F8 3, F16 0x1200, F16 0x1100, F16 0x1000]"
  have bytes: "concat (map Spdm_Buffer.field_bytes ?fs) = [0, 3, 0, 0x12, 0, 0x11, 0, 0x10]"
    by (simp add: u16_bytes_def)
  have "length (concat (map Spdm_Buffer.field_bytes ?fs)) \<le> room (snd (spdm_buffer_init True 8))"
    unfolding bytes by (simp add: init_room)
  from conjunct1 [OF conjunct2 [OF put_fields [OF init_wf this]]]
  have put: "written (foldl put_field (snd (spdm_buffer_init True 8)) ?fs) = [0, 3, 0, 0x12, 0, 0x11, 0, 0x10]"
    unfolding bytes init_written by (simp only: append_Nil)
  have fields: "version_reply (version (local (rsp_ctx (prepared req (request_state R ?m s))))) =
      [FReserved (Suc 0), F8 3, F16 0x1200, F16 0x1100, F16 0x1000]" for req
    using assms(2) by (simp add: prepared_def case_prod_beta version_reply_def own_versions_def)
  have count: "version_number_entry_count (version (local (rsp_ctx (prepared req (request_state R ?m s))))) = 3" for req
    using assms(2) by (simp add: prepared_def case_prod_beta own_versions_def)
  have "message_bytes (snd (result (spdm_handle_get_version R (received ?m) rsp) (prepared (received ?m) (request_state R ?m s)))) =
      [SPDM_VERSION_10, SPDM_RSP_VERSION, 0, 0, 0, 3, 0, 0x12, 0, 0x11, 0, 0x10]" for rsp
    by (simp add: spdm_handle_get_version_def case_prod_beta Let_def fields count roomy_init [OF assms(1)]
        message_bytes_def request_def header_bytes_def put del: put_field.simps foldl.simps)
  then show ?thesis
    using mctp_runs [OF assms(1) m, of s] handler_some [OF sup cmd, of R "unanswered ?m"] by simp
qed

lemma three_versions_refused:
  assumes "connection_data (ctx a) = Some conn"
    and "\<And>tr. peer P tr (IssueRequest conn get_version_message) =
      (0, [0x05, SPDM_VERSION_10, SPDM_RSP_VERSION, 0, 0, 0, 3, 0, 0x12, 0, 0x11, 0, 0x10])"
  shows "result (spdm_get_version P) a = -1"
proof -
  let ?req = "request SPDM_VERSION_10 SPDM_REQ_GET_VERSION 0 0 (snd (spdm_buffer_init True 0))"
  let ?bs = "[0, 3, 0, 0x12, 0, 0x11, 0, 0x10] :: u8 list"
  let ?ans = "0x05 # [SPDM_VERSION_10, SPDM_RSP_VERSION, 0, 0] @ ?bs"
  have msg: "message_bytes ?req = [SPDM_VERSION_10, SPDM_REQ_GET_VERSION, 0, 0]"
    by (simp add: message_bytes_def request_def header_bytes_def)
  have n: "payload_length ?ans = 8" by (simp add: payload_length_def)
  have parts: "memory_at P 4 (drop 1 ?ans) = [SPDM_VERSION_10, SPDM_RSP_VERSION, 0, 0]" "memory_at P 8 (drop 5 ?ans) = ?bs"
    by (simp_all add: memory_at_id)
  have init: "\<exists>al. result (buffer_init P 8) x = snd (spdm_buffer_init al 8)" for x
    using run_buffer_init [of 8 P x] by auto
  have peer: "peer P tr (IssueRequest conn (0x05 # message_bytes ?req)) = (0, ?ans)" for tr
    unfolding msg using assms(2) by simp
  obtain al where al: "result (buffer_init P 8) (a\<lparr>spdm_trace := spdm_trace a @ [(IssueRequest conn (0x05 # message_bytes ?req), (0, ?ans))]\<rparr>)
      = snd (spdm_buffer_init al 8)"
    using init by blast
  have "result (spdm_send_request P ?req) a = (0, \<lparr>header = header_of_bytes [SPDM_VERSION_10, SPDM_RSP_VERSION, 0, 0],
      buffer = snd (spdm_buffer_append_array (snd (spdm_buffer_init al 8)) ?bs)\<rparr>)"
    unfolding spdm_send_request_def spdm_mctp_send_recv_def
    by (simp only: result_bind run_gets assms(1) fst_conv snd_conv o_apply option.case run_spdm_ext peer case_prod_beta
        Let_def run_if n al parts if_True refl) simp
  then show ?thesis
    by (cases al) (simp_all add: spdm_get_version_def case_prod_beta Let_def spdm_buffer_init_def spdm_buffer_append_array_def
        header_of_bytes_def spdm_buffer_get_u8_def spdm_buffer_get_array_def overwrite_def)
qed

text \<open>
  C23: a requester of this firmware that is answered as its own responder answers GET_VERSION, with
  the version table its context is created with, refuses the answer: it wants fewer than three
  entries and the attestation fails at once.
\<close>

theorem own_versions_are_refused:
  assumes "roomy R" and "own_versions s" and "command (connection_state s) SPDM_REQ_GET_VERSION \<noteq> None"
    and "connection_data (ctx a) = Some conn"
    and "\<And>tr. peer P tr (IssueRequest conn get_version_message) =
      (0, snd (result (handle_spdm_mctp_message R True get_version_message) s))"
  shows "result (spdm_attest_device P fuel f n p) a = ATTEST_FAILED_VCA"
  using three_versions_refused [OF assms(4), of P] assms(5) version_answer [OF assms(1-3)]
  by (simp add: spdm_attest_device_def case_prod_beta)

theorem own_versions_are_refused_witness:
  "result (spdm_attest_device (demo_device (\<lambda>_. snd (result (handle_spdm_mctp_message demo_responder True get_version_message) with_certificate)))
     3 (\<lambda>_. 0) 1 0) connected = ATTEST_FAILED_VCA"
proof (rule own_versions_are_refused [OF demo_roomy])
  show "own_versions with_certificate"
    by (simp add: own_versions_def with_certificate_def connected_def spdm_context_create_def)
  show "command (connection_state with_certificate) SPDM_REQ_GET_VERSION \<noteq> None"
    by (simp add: with_certificate_simps)
  show "connection_data (ctx connected) = Some \<lparr>medium = 1, bus = 1, dst_addr = 0x20, dst_eid = 0\<rparr>"
    by (simp add: connected_def spdm_context_create_def)
qed (simp add: demo_device_def)

end
