(* ===== verification/Spdm_Paired.thy ===== *)
theory Spdm_Paired
  imports Spdm_Served
begin

text \<open>
  The requester of this firmware connected to its responder: the device the requester talks to
  answers each request as the responder does after all requests before it. The certificate chain
  that the responder holds is the one that the requester stores, portion by portion. The last part
  is about the measurements of the responder.
\<close>

section \<open>A portion of the certificate\<close>

definition serves_certificates :: "responder \<Rightarrow> bool" where
  "serves_certificates s \<longleftrightarrow> connection_state s \<in> {SPDM_STATE_GOT_DIGESTS, SPDM_STATE_GOT_CERTIFICATE, SPDM_STATE_CHANLLENGED}"

lemma serves_certificates_command:
  assumes "serves_certificates s"
  shows "\<exists>nxt. command (connection_state s) SPDM_REQ_GET_CERTIFICATE = Some (spdm_handle_get_certificate, nxt) \<and>
    nxt \<in> {SPDM_STATE_GOT_CERTIFICATE, SPDM_STATE_CHANLLENGED}"
  using assms by (auto simp: serves_certificates_def)

definition certificate_message :: "u8 \<Rightarrow> u8 \<Rightarrow> u16 \<Rightarrow> u16 \<Rightarrow> u8 list" where
  "certificate_message ver i off len = [0x05, ver, SPDM_REQ_GET_CERTIFICATE, i, 0] @ u16_bytes off @ u16_bytes len"

lemma message_simps [simp]:
  "length (certificate_message ver i off len) = 9" "certificate_message ver i off len ! Suc 0 = ver"
  "certificate_message ver i off len ! 2 = SPDM_REQ_GET_CERTIFICATE" "certificate_message ver i off len ! 3 = i"
  by (simp_all add: certificate_message_def)

lemma message_offset:
  "fst (snd (spdm_buffer_get_u16 (buffer (received (certificate_message ver i off len))) old)) = off"
  by (simp add: received_def certificate_message_def spdm_buffer_get_u16_def spdm_buffer_get_array_def spdm_buffer_init_def
      spdm_buffer_append_array_def overwrite_def u16_bytes_def) (metis u16_bytes_def u16_of_u16_bytes append.right_neutral)

definition certificate_answer :: "u8 \<Rightarrow> u8 \<Rightarrow> nat \<Rightarrow> nat \<Rightarrow> u8 list \<Rightarrow> u8 list" where
  "certificate_answer ver i p r bs = [0x05, ver, SPDM_RSP_CERTIFICATE, i, i] @ u16_bytes (of_nat p) @ u16_bytes (of_nat r) @ bs"

lemma portion_written:
  assumes "length bs = p"
  shows "written (foldl put_field (snd (spdm_buffer_init True (4 + p))) [F16 a, F16 c, FArray bs]) = u16_bytes a @ u16_bytes c @ bs"
proof -
  have "length (concat (map Spdm_Buffer.field_bytes [F16 a, F16 c, FArray bs])) \<le> room (snd (spdm_buffer_init True (4 + p)))"
    using assms by (simp add: init_room)
  from conjunct1 [OF conjunct2 [OF put_fields [OF init_wf this]]] show ?thesis
    by (simp only: init_written) simp
qed

lemma certificate_handled:
  assumes "roomy R" and "supported_version ver" and "slot_exists s i" and "cert_data (local_cert s i) = Some d"
    and "length d = unat (cert_size (local_cert s i))" and "portion (length d) (unat off) = Some (p, r)"
  shows "fst (result (spdm_handle_get_certificate R (received (certificate_message ver i off len)) rsp) s) = 0"
    and "message_bytes (snd (result (spdm_handle_get_certificate R (received (certificate_message ver i off len)) rsp) s)) =
      tl (certificate_answer ver i p r (take p (drop (unat off) d)))"
    and "own_certs (exec (spdm_handle_get_certificate R (received (certificate_message ver i off len)) rsp) s) = own_certs s"
    and "m1m2 (exec (spdm_handle_get_certificate R (received (certificate_message ver i off len)) rsp) s) =
      m1m2 s @ tl (certificate_message ver i off len) @ tl (certificate_answer ver i p r (take p (drop (unat off) d)))"
proof -
  let ?m = "certificate_message ver i off len"
  have m: "5 \<le> length ?m" by simp
  have bytes: "cert_bytes (spdm R) (local_cert s i) = d"
    using assms(4,5) by (simp add: cert_bytes_def memory_at_id)
  have "unat (cert_size (local_cert s i)) < 2 ^ 16" using unsigned_less [of "cert_size (local_cert s i)"] by simp
  then have n: "4 + p < 2 ^ 31" using portion_fits [OF assms(6)] assms(5) by simp
  have p: "length (take p (drop (unat off) d)) = p"
    using assms(6) by (auto simp: portion_def split: if_splits)
  have w: "written (foldl put_field (snd (spdm_buffer_init True (4 + p)))
      [F16 (of_nat p), F16 (of_nat r), FArray (take p (drop (unat off) d))]) =
      u16_bytes (of_nat p) @ u16_bytes (of_nat r) @ take p (drop (unat off) d)"
    by (rule portion_written [OF p])
  have run: "run (spdm_handle_get_certificate R (received ?m) rsp) s =
    (let rsp = response ver SPDM_RSP_CERTIFICATE i i (foldl put_field (snd (spdm_buffer_init True (4 + p)))
        [F16 (of_nat p), F16 (of_nat r), FArray (take p (drop (unat off) d))]) in
      ((0, rsp), s\<lparr>base := exec (spdm_context_update_m1m2_hash (received ?m) rsp) (exec (buffer_init (spdm R) (4 + p)) (base s))\<rparr>))"
    using assms(2,3,5,6) m n
    by (simp add: spdm_handle_get_certificate_def case_prod_beta Let_def message_offset received_bytes(2) [OF m]
        roomy_init [OF assms(1)] bytes del: put_field.simps foldl.simps)
  have reply: "message_bytes (response ver SPDM_RSP_CERTIFICATE i i (foldl put_field (snd (spdm_buffer_init True (4 + p)))
        [F16 (of_nat p), F16 (of_nat r), FArray (take p (drop (unat off) d))])) = tl (certificate_answer ver i p r (take p (drop (unat off) d)))"
    by (simp add: message_bytes_def request_def header_bytes_def certificate_answer_def w del: put_field.simps foldl.simps)
  show "fst (result (spdm_handle_get_certificate R (received ?m) rsp) s) = 0"
    "message_bytes (snd (result (spdm_handle_get_certificate R (received ?m) rsp) s)) =
      tl (certificate_answer ver i p r (take p (drop (unat off) d)))"
    "own_certs (exec (spdm_handle_get_certificate R (received ?m) rsp) s) = own_certs s"
    "m1m2 (exec (spdm_handle_get_certificate R (received ?m) rsp) s) =
      m1m2 s @ tl ?m @ tl (certificate_answer ver i p r (take p (drop (unat off) d)))"
    unfolding run Let_def
    by (simp_all add: received_bytes(1) [OF m] reply spdm_context_update_m1m2_hash_def del: put_field.simps foldl.simps)
qed

lemma certificate_answered:
  fixes len
  assumes "roomy R" and "supported_version ver" and "serves_certificates s" and "slot_exists s i"
    and "cert_data (local_cert s i) = Some d" and "length d = unat (cert_size (local_cert s i))"
    and "portion (length d) (unat off) = Some (p, r)"
  defines "x \<equiv> run (handle_spdm_mctp_message R True (certificate_message ver i off len)) s"
  shows "snd (fst x) = certificate_answer ver i p r (take p (drop (unat off) d))"
    and "serves_certificates (snd x)" and "own_certs (snd x) = own_certs s"
    and "m1m2 (snd x) = m1m2 s @ tl (certificate_message ver i off len) @ tl (certificate_answer ver i p r (take p (drop (unat off) d)))"
proof -
  let ?m = "certificate_message ver i off len"
  let ?s = "prepared (received ?m) (request_state R ?m s)"
  have m: "5 \<le> length ?m" "length ?m < 2 ^ 31" by simp_all
  obtain nxt where cmd: "command (connection_state (request_state R ?m s)) (rsp_code (received ?m)) = Some (spdm_handle_get_certificate, nxt)"
    "nxt \<in> {SPDM_STATE_GOT_CERTIFICATE, SPDM_STATE_CHANLLENGED}"
    using serves_certificates_command [OF assms(3)] m by auto
  have sup: "supported_version (spdm_version (header (received ?m)))" using assms(2) m by simp
  have certs: "local_cert ?s i = local_cert s i" "slot_exists ?s i = slot_exists s i" "own_certs ?s = own_certs s" "m1m2 ?s = m1m2 s"
    by (simp_all add: local_cert_def slot_exists_def)
  note h = certificate_handled [OF assms(1,2), of ?s i d off p r len "first_response (received ?m) (unanswered ?m)",
    unfolded certs, OF assms(4-7)]
  show "snd (fst x) = certificate_answer ver i p r (take p (drop (unat off) d))"
    "serves_certificates (snd x)" "own_certs (snd x) = own_certs s"
    "m1m2 (snd x) = m1m2 s @ tl ?m @ tl (certificate_answer ver i p r (take p (drop (unat off) d)))"
    using h handler_some [OF sup cmd(1), of R "unanswered ?m"] cmd(2) mctp_runs [OF assms(1) m, of s]
    by (auto simp: x_def certificate_answer_def serves_certificates_def)
qed

section \<open>The device that is a responder\<close>

definition replay :: "responder_env \<Rightarrow> responder \<Rightarrow> spdm_trace \<Rightarrow> responder" where
  "replay R s tr = foldl (\<lambda>s (c, _). case c of
     IssueRequest _ msg \<Rightarrow> exec (handle_spdm_mctp_message R True msg) s | _ \<Rightarrow> s) s tr"

definition responder_device :: "responder_env \<Rightarrow> responder \<Rightarrow> spdm_env \<Rightarrow> spdm_env" where
  "responder_device R s P = P\<lparr>peer := (\<lambda>tr c. case c of
     IssueRequest _ msg \<Rightarrow> (0, snd (result (handle_spdm_mctp_message R True msg) (replay R s tr))) | _ \<Rightarrow> peer P tr c)\<rparr>"

lemma device_simps [simp]:
  "peer (responder_device R s P) tr (IssueRequest conn msg) = (0, snd (result (handle_spdm_mctp_message R True msg) (replay R s tr)))"
  "peer (responder_device R s P) tr (SpdmMalloc n) = peer P tr (SpdmMalloc n)"
  "sha384 (responder_device R s P) = sha384 P" "board (responder_device R s P) = board P"
  by (simp_all add: responder_device_def)

lemma replay_simps [simp]:
  "replay R s (tr @ [(IssueRequest conn msg, x)]) = exec (handle_spdm_mctp_message R True msg) (replay R s tr)"
  "replay R s (tr @ [(SpdmMalloc n, x)]) = replay R s tr"
  by (simp_all add: replay_def)

text \<open>Allocation succeeds below two gigabytes; it does not reach the responder.\<close>

definition heap_ok :: "spdm_env \<Rightarrow> bool" where
  "heap_ok P \<longleftrightarrow> (\<forall>tr n. n < 2 ^ 31 \<longrightarrow> fst (peer P tr (SpdmMalloc n)) \<noteq> 0)"

lemma device_malloc_ok:
  assumes "heap_ok P" and "n < 2 ^ 31"
  shows "result (buffer_init (responder_device R s P) n) a = snd (spdm_buffer_init True n)"
    and "replay R s (spdm_trace (exec (buffer_init (responder_device R s P) n) a)) = replay R s (spdm_trace a)"
    and "result (spdm_malloc (responder_device R s P) n) a"
    and "replay R s (spdm_trace (exec (spdm_malloc (responder_device R s P) n) a)) = replay R s (spdm_trace a)"
  using assms by (simp_all add: heap_ok_def buffer_init_def allocate_def case_prod_beta)

text \<open>What the requester makes of an answer of the responder.\<close>

lemma paired_send:
  assumes "heap_ok P" and "connection_data (ctx a) = Some conn" and "5 < length ans" and "length ans < 2 ^ 31"
    and "ans = snd (result (handle_spdm_mctp_message R True (0x05 # message_bytes req)) (replay R s (spdm_trace a)))"
  shows "result (spdm_send_request (responder_device R s P) req) a = (0, answered ans)"
    and "ctx (exec (spdm_send_request (responder_device R s P) req) a) = ctx a"
    and "replay R s (spdm_trace (exec (spdm_send_request (responder_device R s P) req) a)) =
      exec (handle_spdm_mctp_message R True (0x05 # message_bytes req)) (replay R s (spdm_trace a))"
proof -
  have n: "payload_length ans = length ans - 5"
  proof -
    have "payload_length ans = unat (of_nat (length ans - 5) :: u32)" using assms(3) by (simp add: payload_length_def of_nat_diff)
    then show ?thesis using assms(4) by (simp only: unat_of_nat) (simp add: take_bit_nat_eq_self)
  qed
  have small: "length ans - 5 < 2 ^ 31" using assms(4) by simp
  note run = spdm_send_request_def spdm_mctp_send_recv_def case_prod_beta assms(2) assms(5) [symmetric] n Let_def
    device_malloc_ok [OF assms(1) small]
  show "result (spdm_send_request (responder_device R s P) req) a = (0, answered ans)"
    using assms(3) by (simp add: run answered_def memory_at_id spdm_buffer_init_def spdm_buffer_append_array_def overwrite_def)
  show "ctx (exec (spdm_send_request (responder_device R s P) req) a) = ctx a"
    "replay R s (spdm_trace (exec (spdm_send_request (responder_device R s P) req) a)) =
      exec (handle_spdm_mctp_message R True (0x05 # message_bytes req)) (replay R s (spdm_trace a))"
    by (simp_all add: run)
qed

lemma answered_bytes:
  assumes "5 < length ans"
  shows "message_bytes (answered ans) = tl ans"
proof -
  have "written (buffer (answered ans)) = drop 5 ans"
    using assms by (simp add: answered_def written_def)
  moreover have "header_bytes (header (answered ans)) = take 4 (drop 1 ans)"
    using assms by (simp add: answered_def)
  ultimately show ?thesis
    using append_take_drop_id [of 4 "tl ans"] by (simp add: message_bytes_def drop_Suc [of 4, simplified] drop_Suc)
qed

lemma answer_read:
  fixes ver i r
  assumes "length bs = p"
  defines "b \<equiv> buffer (answered (certificate_answer ver i p r bs))"
  shows "header (answered (certificate_answer ver i p r bs)) =
      \<lparr>spdm_version = ver, request_response_code = SPDM_RSP_CERTIFICATE, param1 = i, param2 = i\<rparr>"
    and "write_ptr b = 4 + p"
    and "fst (snd (spdm_buffer_get_u16 b 0)) = of_nat p"
    and "fst (snd (spdm_buffer_get_u16 (snd (snd (spdm_buffer_get_u16 b 0))) 0)) = of_nat r"
    and "fst (snd (spdm_buffer_get_array (snd (snd (spdm_buffer_get_u16 (snd (snd (spdm_buffer_get_u16 b 0))) 0))) p)) = Some bs"
proof -
  have w: "u16_of_bytes [ucast w, ucast (drop_bit 8 w)] = w" for w :: u16
    using u16_of_u16_bytes [of w "[]"] by (simp add: u16_bytes_def)
  show "header (answered (certificate_answer ver i p r bs)) =
      \<lparr>spdm_version = ver, request_response_code = SPDM_RSP_CERTIFICATE, param1 = i, param2 = i\<rparr>" "write_ptr b = 4 + p"
    "fst (snd (spdm_buffer_get_u16 b 0)) = of_nat p"
    "fst (snd (spdm_buffer_get_u16 (snd (snd (spdm_buffer_get_u16 b 0))) 0)) = of_nat r"
    "fst (snd (spdm_buffer_get_array (snd (snd (spdm_buffer_get_u16 (snd (snd (spdm_buffer_get_u16 b 0))) 0))) p)) = Some bs"
    using assms(1) w
    by (simp_all add: b_def answered_def certificate_answer_def header_of_bytes_def u16_bytes_def spdm_buffer_get_u16_def
        spdm_buffer_get_array_def)
qed

lemma portion_facts:
  assumes "portion n off = Some (p, r)" and "n < 2 ^ 16"
  shows "off + p + r = n" and "r \<noteq> 0 \<Longrightarrow> p = 256" and "p < 2 ^ 16" and "r < 2 ^ 16"
  using assms by (auto simp: portion_def split: if_splits)

text \<open>Requester and responder have hashed the same messages for the challenge.\<close>

definition same_transcript :: "responder_env \<Rightarrow> responder \<Rightarrow> attester \<Rightarrow> bool" where
  "same_transcript R s a \<longleftrightarrow> m1m2_context (ctx a) = m1m2 (replay R s (spdm_trace a))"

definition paired :: "responder_env \<Rightarrow> responder \<Rightarrow> u8 \<Rightarrow> u8 \<Rightarrow> u8 list \<Rightarrow> attester \<Rightarrow> bool" where
  "paired R s ver i d a \<longleftrightarrow> connection_data (ctx a) \<noteq> None \<and> selected a = ver \<and>
     unat i < length (certs (certificate (remote (ctx a)))) \<and>
     serves_certificates (replay R s (spdm_trace a)) \<and> slot_exists (replay R s (spdm_trace a)) i \<and>
     cert_data (local_cert (replay R s (spdm_trace a)) i) = Some d \<and>
     length d = unat (cert_size (local_cert (replay R s (spdm_trace a)) i))"

lemma same_certs:
  assumes "own_certs t = own_certs s"
  shows "slot_exists t i = slot_exists s i" and "local_cert t i = local_cert s i"
  using assms by (simp_all add: slot_exists_def local_cert_def)

lemma slot_nibble: "(i :: u8) \<le> 7 \<Longrightarrow> i AND 0x0F = i"
proof -
  assume "i \<le> 7"
  then have "unat i < 16" by (simp add: word_le_nat_alt)
  then have "take_bit 4 i = i" by (simp add: word_unat_eq_iff unsigned_take_bit_eq take_bit_nat_eq_self)
  then show ?thesis by (simp add: take_bit_eq_mask mask_eq_exp_minus_1)
qed

lemma certificate_request:
  assumes "i \<le> 7"
  shows "0x05 # message_bytes (request ver SPDM_REQ_GET_CERTIFICATE (i AND 0x0F) 0
    (foldl put_field (snd (spdm_buffer_init True 4)) [F16 off, F16 0xF0])) = certificate_message ver i off 0xF0"
proof -
  have "length (concat (map Spdm_Buffer.field_bytes [F16 off, F16 0xF0])) \<le> room (snd (spdm_buffer_init True 4))"
    by (simp add: init_room)
  from conjunct1 [OF conjunct2 [OF put_fields [OF init_wf this]]]
  have "written (foldl put_field (snd (spdm_buffer_init True 4)) [F16 off, F16 0xF0]) = u16_bytes off @ u16_bytes 0xF0"
    by (simp only: init_written) simp
  then show ?thesis
    using slot_nibble [OF assms]
    by (simp add: message_bytes_def request_def header_bytes_def certificate_message_def del: put_field.simps foldl.simps)
qed

lemma paired_exchange:
  fixes off
  assumes "roomy R" and "heap_ok P" and "supported_version ver" and "paired R s ver i d a"
    and "portion (length d) (unat off) = Some (p, r)"
  defines "req \<equiv> request ver SPDM_REQ_GET_CERTIFICATE (i AND 0x0F) 0 (foldl put_field (snd (spdm_buffer_init True 4)) [F16 off, F16 0xF0])"
  shows "result (spdm_send_request (responder_device R s P) req) a =
      (0, answered (certificate_answer ver i p r (take p (drop (unat off) d))))"
    and "ctx (exec (spdm_send_request (responder_device R s P) req) a) = ctx a"
    and "paired R s ver i d (exec (spdm_send_request (responder_device R s P) req) a)"
    and "m1m2 (replay R s (spdm_trace (exec (spdm_send_request (responder_device R s P) req) a))) =
      m1m2 (replay R s (spdm_trace a)) @ message_bytes req @ message_bytes (answered (certificate_answer ver i p r (take p (drop (unat off) d))))"
proof -
  let ?t = "replay R s (spdm_trace a)"
  have le: "i \<le> 7" using assms(4) by (simp add: paired_def slot_exists_def)
  note msg = certificate_request [OF le, of ver off, folded req_def]
  obtain conn where conn: "connection_data (ctx a) = Some conn" using assms(4) by (auto simp: paired_def)
  have size: "length d < 2 ^ 16"
    using assms(4) unsigned_less [of "cert_size (local_cert ?t i)"] by (simp add: paired_def)
  have certs: "serves_certificates ?t" "slot_exists ?t i" "cert_data (local_cert ?t i) = Some d"
      "length d = unat (cert_size (local_cert ?t i))"
    using assms(4) by (simp_all add: paired_def)
  note ans = certificate_answered [OF assms(1,3) certs assms(5), of "0xF0"]
  let ?ans = "certificate_answer ver i p r (take p (drop (unat off) d))"
  have len: "5 < length ?ans" "length ?ans < 2 ^ 31"
    using portion_facts(1,3) [OF assms(5) size] by (auto simp: certificate_answer_def)
  note send = paired_send [OF assms(2) conn len, of R req s, unfolded msg, OF ans(1) [symmetric]]
  show "result (spdm_send_request (responder_device R s P) req) a = (0, answered ?ans)"
    and c: "ctx (exec (spdm_send_request (responder_device R s P) req) a) = ctx a"
    by (rule send(1), rule send(2))
  show "paired R s ver i d (exec (spdm_send_request (responder_device R s P) req) a)"
    using assms(4) ans(2) same_certs [OF ans(3), of i] by (simp add: paired_def c send(3))
  have "tl (certificate_message ver i off 0xF0) = message_bytes req" using msg by (simp add: msg [symmetric])
  then show "m1m2 (replay R s (spdm_trace (exec (spdm_send_request (responder_device R s P) req) a))) =
      m1m2 ?t @ message_bytes req @ message_bytes (answered ?ans)"
    using ans(4) len(1) by (simp add: send(3) answered_bytes)
qed

section \<open>The certificate arrives\<close>

text \<open>What the requester has stored up to an offset; before the first portion, nothing is asked of the slot.\<close>

definition fetched :: "nat \<Rightarrow> u8 \<Rightarrow> u8 list \<Rightarrow> attester \<Rightarrow> bool" where
  "fetched k i d a \<longleftrightarrow> cert_size (slot a (unat i)) = of_nat (length d) \<and>
     (\<exists>blk. cert_data (slot a (unat i)) = Some blk \<and> length blk = length d \<and> take k blk = take k d)"

lemma paired_alloc:
  assumes "heap_ok P" and "n < 2 ^ 31"
  shows "paired R s ver i d (exec (buffer_init (responder_device R s P) n) a) = paired R s ver i d a"
    and "paired R s ver i d (exec (spdm_malloc (responder_device R s P) n) a) = paired R s ver i d a"
  by (simp_all add: paired_def device_malloc_ok [OF assms])

lemma paired_ctx:
  assumes "connection_data (f (ctx a)) = connection_data (ctx a)"
    and "version_number_selected (version (local (f (ctx a)))) = selected a"
    and "length (certs (certificate (remote (f (ctx a))))) = length (certs (certificate (remote (ctx a))))"
  shows "paired R s ver i d (a\<lparr>ctx := f (ctx a)\<rparr>) = paired R s ver i d a"
  using assms by (simp add: paired_def)

lemma overwrite_prefix:
  assumes "length blk = length d" and "take off blk = take off d" and "off + p \<le> length d"
  shows "take (off + p) (take (length blk) (overwrite blk off (take p (drop off d)))) = take (off + p) d"
    and "length (take (length blk) (overwrite blk off (take p (drop off d)))) = length d"
  using assms by (simp_all add: overwrite_def take_add min_def)

lemma stored_frame:
  "spdm_trace (exec (store_portion j off bs) a) = spdm_trace a"
  "m1m2_context (ctx (exec (store_portion j off bs) a)) = m1m2_context (ctx a)"
  by (simp_all add: store_portion_def undefined_behaviour_def case_prod_beta split: option.split)

lemma certificate_round_paired:
  assumes "roomy R" and "heap_ok P" and "supported_version ver" and "paired R s ver i d a"
    and "portion (length d) (unat off) = Some (p, r)" and "digest (slot a (unat i)) = sha384 P d"
    and "first \<and> off = 0 \<or> \<not> first \<and> fetched (unat off) i d a"
    and "same_transcript R s a"
  defines "x \<equiv> run (certificate_round (responder_device R s P) i (off, first)) a"
  shows "fst x = (if r = 0 then Break (off + of_nat p, False) else Continue (off + of_nat p, False))"
    and "paired R s ver i d (snd x)" and "fetched (unat off + p) i d (snd x)" and "digest (slot (snd x) (unat i)) = sha384 P d" and "same_transcript R s (snd x)"
proof -
  let ?D = "responder_device R s P"
  let ?a1 = "exec (buffer_init ?D 4) a"
  have size: "length d < 2 ^ 16"
    using assms(4) unsigned_less [of "cert_size (local_cert (replay R s (spdm_trace a)) i)"] by (simp add: paired_def)
  note pf = portion_facts [OF assms(5) size]
  have a1: "paired R s ver i d ?a1" using assms(4) paired_alloc(1) [OF assms(2)] by simp
  have b: "result (buffer_init ?D 4) a = snd (spdm_buffer_init True 4)"
    using device_malloc_ok(1) [OF assms(2)] by simp
  note ex = paired_exchange [OF assms(1-3) a1 assms(5)]
  have sel: "selected a = ver" using assms(4) by (simp add: paired_def)
  have bs: "length (take p (drop (unat off) d)) = p" using pf(1) by simp
  note read = answer_read [OF bs, of ver i r]
  have n: "unat (of_nat p :: u16) = p" "unat (of_nat r :: u16) = r"
    using pf(3,4) by (simp_all add: unat_of_nat take_bit_nat_eq_self)
  define req where "req = request ver SPDM_REQ_GET_CERTIFICATE (i AND 0x0F) 0 (foldl put_field (snd (spdm_buffer_init True 4)) [F16 off, F16 0xF0])"
  define rsp where "rsp = answered (certificate_answer ver i p r (take p (drop (unat off) d)))"
  note ex' = ex [folded req_def rsp_def]
  define a2 where "a2 = exec (spdm_send_request ?D req) ?a1"
  define prep where "prep = (if first then do {
      upd_slot (unat i) (\<lambda>c. c\<lparr>cert_data := None, cert_size := of_nat p + of_nat r\<rparr>);
      alloc \<leftarrow> spdm_malloc ?D (p + r);
      cwhen alloc (upd_slot (unat i) (cert_data_update (\<lambda>_. Some (memory_at ?D (p + r) []))));
      ret alloc
    } else ret True)"
  define a3 where "a3 = exec prep a2"
  define a4 where "a4 = exec (store_portion (unat i) (unat off) (take p (drop (unat off) d))) a3"
  define a5 where "a5 = exec (spdm_context_update_m1m2_hash req rsp) a4"
  have a2: "ctx a2 = ctx a" "paired R s ver i d a2"
    using ex' by (simp_all add: a2_def malloc_ctx)
  have slot_in: "unat i < length (certs (certificate (remote (ctx a))))" using assms(4) by (simp add: paired_def)
  have pr: "p + r < 2 ^ 31" using pf by simp
  have a3: "result prep a2" "paired R s ver i d a3" "fetched (unat off) i d a3" "digest (slot a3 (unat i)) = sha384 P d"
  proof -
    show "result prep a2" using device_malloc_ok(3) [OF assms(2) pr] by (simp add: prep_def case_prod_beta)
    show "paired R s ver i d a3"
      using a2(2) by (simp add: a3_def prep_def case_prod_beta paired_def device_malloc_ok(3,4) [OF assms(2) pr])
    have "of_nat p + of_nat r = (of_nat (length d) :: u16)" if "unat off = 0"
    proof -
      have "p + r = length d" using pf(1) that by simp
      then show ?thesis by (simp only: of_nat_add [symmetric])
    qed
    then show "fetched (unat off) i d a3" "digest (slot a3 (unat i)) = sha384 P d"
      using assms(6,7) slot_in pf(1)
      by (auto simp: a3_def prep_def case_prod_beta fetched_def a2(1) device_malloc_ok(3) [OF assms(2) pr])
  qed
  obtain blk where blk: "cert_data (slot a3 (unat i)) = Some blk" "length blk = length d" "take (unat off) blk = take (unat off) d"
    using a3(3) by (auto simp: fetched_def)
  have slot3: "unat i < length (certs (certificate (remote (ctx a3))))" using a3(2) by (simp add: paired_def)
  have a4: "paired R s ver i d a4" "fetched (unat off + p) i d a4" "digest (slot a4 (unat i)) = sha384 P d"
    using a3 blk slot3 pf(1) bs overwrite_prefix [OF blk(2,3), of p]
    by (auto simp: a4_def store_portion_def case_prod_beta paired_def fetched_def undefined_behaviour_def)
  have replay: "replay R s (spdm_trace a5) = replay R s (spdm_trace a2)" "m1m2_context (ctx a4) = m1m2_context (ctx a)"
    using a2(1) by (simp_all add: a5_def a4_def stored_frame a3_def prep_def spdm_context_update_m1m2_hash_def case_prod_beta
        device_malloc_ok(3,4) [OF assms(2) pr])
  have "replay R s (spdm_trace ?a1) = replay R s (spdm_trace a)" using device_malloc_ok(2) [OF assms(2)] by simp
  then have same: "same_transcript R s a5"
    using assms(8) ex'(4) replay by (simp add: same_transcript_def a2_def [symmetric]) (simp add: a5_def spdm_context_update_m1m2_hash_def)
  have a5: "paired R s ver i d a5" "fetched (unat off + p) i d a5" "digest (slot a5 (unat i)) = sha384 P d"
    using a4 by (simp_all add: a5_def paired_def fetched_def spdm_context_update_m1m2_hash_def)
  have x: "x = run (end_portion ?D (unat i) (off + of_nat p) (of_nat r)) a5"
    by (simp add: x_def certificate_round_def case_prod_beta Let_def b sel ex'(1) rsp_def [symmetric] req_def [symmetric]
        read [folded rsp_def] n a2_def [symmetric] a5_def a4_def a3_def prep_def device_malloc_ok(3) [OF assms(2) pr]
        del: put_field.simps foldl.simps)
  obtain blk' where stored: "cert_data (slot a5 (unat i)) = Some blk'" "length blk' = length d" "take (unat off + p) blk' = take (unat off + p) d"
      "cert_size (slot a5 (unat i)) = of_nat (length d)"
    using a5(2) by (auto simp: fetched_def)
  have whole: "unat (of_nat (length d) :: u16) = length d" using size by (simp add: unat_of_nat take_bit_nat_eq_self)
  have "blk' = d" if "r = 0" using stored(2,3) pf(1) that by simp
  then have "x = ((if r = 0 then Break (off + of_nat p, False) else Continue (off + of_nat p, False)), a5)"
    using n(2) a5(3) stored(1,4) whole by (auto simp: x end_portion_def memory_at_id case_prod_beta)
  then show "fst x = (if r = 0 then Break (off + of_nat p, False) else Continue (off + of_nat p, False))"
    "paired R s ver i d (snd x)" "fetched (unat off + p) i d (snd x)" "digest (slot (snd x) (unat i)) = sha384 P d" "same_transcript R s (snd x)"
    using a5 same by simp_all
qed

lemma portion_exists:
  assumes "k \<le> n"
  obtains p r where "portion n k = Some (p, r)" and "r \<noteq> 0 \<Longrightarrow> (n - (k + p)) div 256 < (n - k) div 256"
  using assms that by (cases "k + 256 < n") (auto simp: portion_def)

lemma certificate_loop_paired:
  assumes "roomy R" and "heap_ok P" and "supported_version ver" and "paired R s ver i d a" and "unat off \<le> length d"
    and "digest (slot a (unat i)) = sha384 P d" and "first \<and> off = 0 \<or> \<not> first \<and> fetched (unat off) i d a"
    and "same_transcript R s a" and "(length d - unat off) div 256 < fuel"
  shows "\<exists>x a'. run (c_while fuel (\<lambda>_. True) (certificate_round (responder_device R s P) i) (off, first)) a = (Break x, a') \<and>
    fetched (length d) i d a' \<and> same_transcript R s a'"
  using assms(4-)
proof (induction fuel arbitrary: off first a)
  case (Suc fuel)
  let ?body = "certificate_round (responder_device R s P) i"
  obtain p r where pr: "portion (length d) (unat off) = Some (p, r)" "r \<noteq> 0 \<Longrightarrow> (length d - (unat off + p)) div 256 < (length d - unat off) div 256"
    using portion_exists [OF Suc.prems(2)] by blast
  have size: "length d < 2 ^ 16"
    using Suc.prems(1) unsigned_less [of "cert_size (local_cert (replay R s (spdm_trace a)) i)"] by (simp add: paired_def)
  note pf = portion_facts [OF pr(1) size]
  have off: "unat (off + of_nat p) = unat off + p"
    using pf(1,3) size by (simp add: unat_word_ariths unat_of_nat take_bit_nat_eq_self)
  note round = certificate_round_paired [OF assms(1-3) Suc.prems(1) pr(1) Suc.prems(3,4,5)]
  show ?case
  proof (cases "r = 0")
    case True
    then show ?thesis using round pf(1) by (auto simp: case_prod_beta)
  next
    case False
    note IH = Suc.IH [of "exec (?body (off, first)) a" "off + of_nat p" False, unfolded off]
    have "(length d - (unat off + p)) div 256 < fuel" using pr(2) [OF False] Suc.prems(6) by linarith
    then show ?thesis
      using IH [OF round(2) _ round(4) _ round(5)] round(1,3) pf(1) False by (simp add: case_prod_beta)
  qed
qed simp

text \<open>
  C22: a requester whose device is a responder of this firmware fetches the whole chain of a slot,
  whatever its length: with one round for each 256 bytes the loop ends and the chain that is checked
  is byte by byte the one that the responder holds; both sides have then hashed the same messages
  for the challenge.
\<close>

theorem certificate_is_fetched_whole:
  assumes "roomy R" and "heap_ok P" and "supported_version ver" and "paired R s ver i d a"
    and "digest (slot a (unat i)) = sha384 P d" and "same_transcript R s a" and "length d div 256 < fuel"
  shows "\<exists>a'. run (spdm_get_certificate (responder_device R s P) fuel i) a = run (check_chain (responder_device R s P) (unat i)) a' \<and>
    cert_data (slot a' (unat i)) = Some d \<and> cert_size (slot a' (unat i)) = of_nat (length d) \<and> same_transcript R s a'"
proof -
  obtain x a' where "run (c_while fuel (\<lambda>_. True) (certificate_round (responder_device R s P) i) (0, True)) a = (Break x, a')"
    "fetched (length d) i d a'" "same_transcript R s a'"
    using certificate_loop_paired [OF assms(1-4) _ assms(5) _ assms(6), of 0 True fuel] assms(7) by auto
  then show ?thesis by (auto simp: spdm_get_certificate_def case_prod_beta fetched_def)
qed

definition stocked :: "u8 list \<Rightarrow> responder" where
  "stocked d = with_certificate\<lparr>connection_state := SPDM_STATE_GOT_DIGESTS,
     base := connected\<lparr>ctx := local_update (certificate_update (slot_mask_update (\<lambda>_. 1) \<circ>
       certs_update (\<lambda>cs. cs[0 := (cs ! 0)\<lparr>cert_data := Some d, cert_size := of_nat (length d)\<rparr>]))) (ctx connected)\<rparr>\<rparr>"

definition asking :: attester where
  "asking = connected\<lparr>ctx := local_update (version_update (version_number_selected_update (\<lambda>_. 0x11))) (ctx connected)\<rparr>"

theorem certificate_is_fetched_whole_witness:
  "\<exists>a'. run (spdm_get_certificate (responder_device demo_responder (stocked (replicate 600 7)) (honest 0)) 3 0) asking =
      run (check_chain (responder_device demo_responder (stocked (replicate 600 7)) (honest 0)) 0) a' \<and>
    cert_data (slot a' 0) = Some (replicate 600 7)"
proof -
  have "paired demo_responder (stocked (replicate 600 7)) 0x11 0 (replicate 600 7) asking"
    by (simp add: paired_def asking_def stocked_def with_certificate_def connected_def spdm_context_create_def unset_info_def
        serves_certificates_def slot_exists_def local_cert_def replay_def)
  moreover have "heap_ok (honest 0)" by (simp add: heap_ok_def demo_device_def)
  moreover have "digest (slot asking (unat 0)) = sha384 (honest 0) (replicate 600 7)"
    by (simp add: asking_def connected_def spdm_context_create_def unset_info_def demo_device_def empty_cert_def)
  moreover have "same_transcript demo_responder (stocked (replicate 600 7)) asking"
    by (simp add: same_transcript_def asking_def stocked_def connected_def spdm_context_create_def replay_def)
  ultimately show ?thesis
    using certificate_is_fetched_whole [OF demo_roomy, of "honest 0" "0x11" "stocked (replicate 600 7)" 0 "replicate 600 7" asking 3]
    by (auto simp: supported_version_def)
qed

section \<open>What a measurement says\<close>

text \<open>A partition whose reads succeed below an offset.\<close>

definition readable :: "responder_env \<Rightarrow> partition \<Rightarrow> u8 list \<Rightarrow> nat \<Rightarrow> bool" where
  "readable R p contents k \<longleftrightarrow> length contents = partition_size R p \<and>
     (\<forall>tr. fst (peer (spdm R) tr (PartitionOpen p)) = 0) \<and>
     (\<forall>tr off n. peer (spdm R) tr (PartitionRead p off n) = (if off < k then (0, take n (drop off contents)) else (-1, [])))"

lemma area_read:
  assumes "readable R p contents k" and "4096 dvd k \<or> partition_size R p \<le> k" 
    and "4096 dvd off \<or> off = partition_size R p" and "off \<le> k"
  shows "result (read_area R p off acc) s = acc @ drop off (take k contents)"
  using assms
proof (induction R p off acc arbitrary: s rule: read_area.induct)
  case (1 R p off acc)
  have len: "length contents = partition_size R p" using 1(2) by (simp add: readable_def)
  show ?case
  proof (cases "off < partition_size R p \<and> off < k")
    case True
    define n where "n = min 4096 (partition_size R p - off)"
    have bs: "peer (spdm R) tr (PartitionRead p off n) = (0, take n (drop off contents))" for tr
      using 1(2) True by (simp add: readable_def)
    have dvd: "4096 dvd off" using True 1(4) by auto
    have step: "off + n \<le> k" "4096 dvd (off + n) \<or> off + n = partition_size R p"
    proof -
      have "off + 4096 \<le> k" if "4096 dvd k"
      proof -
        from dvd that obtain x y where "off = 4096 * x" "k = 4096 * y" by (auto simp: dvd_def)
        then show ?thesis using True by simp
      qed
      then show "off + n \<le> k" using 1(3) True by (auto simp: n_def)
      show "4096 dvd (off + n) \<or> off + n = partition_size R p" using dvd True by (auto simp: n_def min_def)
    qed
    have join: "take n (drop off contents) @ drop (off + n) (take k contents) = drop off (take k contents)"
    proof -
      have "take n (drop off contents) = take n (drop off (take k contents))"
        using step(1) by (simp add: drop_take min_def)
      moreover have "drop (off + n) (take k contents) = drop n (drop off (take k contents))" by (simp add: add.commute)
      ultimately show ?thesis by (simp only: append_take_drop_id)
    qed
    have "length (take n (drop off contents)) = n" using len True by (simp add: n_def)
    then have fit: "fit n (take n (drop off contents)) = take n (drop off contents)" by (simp add: fit_def)
    have run: "result (read_area R p off acc) s = result (read_area R p (off + n) (acc @ take n (drop off contents)))
      (s\<lparr>base := exec (spdm_ext (spdm R) (PartitionRead p off n)) (base s)\<rparr>)"
      using True by (subst read_area.simps) (simp add: n_def [symmetric] Let_def case_prod_beta bs fit)
    have "result (read_area R p (off + n) (acc @ take n (drop off contents))) s' =
        (acc @ take n (drop off contents)) @ drop (off + n) (take k contents)" for s'
      using 1(1) [of n 0 "take n (drop off contents)" s'] 1(2,3) step True by (simp add: n_def [symmetric] fit)
    then show ?thesis unfolding run by (simp add: join)
  next
    case False
    then have "drop off (take k contents) = []" using len 1(5) by auto
    then show ?thesis
      using 1(2) False by (subst read_area.simps) (auto simp: readable_def case_prod_beta)
  qed
qed


definition half_read :: responder_env where
  "half_read = demo_responder\<lparr>spdm := (honest 0)\<lparr>sha384 := (\<lambda>bs. replicate 48 (of_nat (length bs div 4096))),
     peer := (\<lambda>tr c. case c of PartitionRead p off n \<Rightarrow> (if off < 4096 then (0, take n (drop off (replicate 8192 9))) else (-1, []))
       | _ \<Rightarrow> (0, []))\<rparr>, partition_size := (\<lambda>_. 8192)\<rparr>"


end
