(* ===== verification/Spec2Isabelle.thy ===== *)
theory Spec2Isabelle
  imports Pfr_Lifecycle Pfr_Assurance Spdm_Attested Spdm_Paired
begin

text \<open>
  \<^bold>\<open>The platform firmware resilience firmware of \<open>src/apps/aspeed-pfr\<close>.\<close> A root of trust
  (ROT) holds the board in reset, authenticates the flash images of its two hosts (the BMC and the
  PCH) against provisioned keys, repairs or updates them, and then releases the hosts and watches
  their boot. The development models the Intel variant (\<open>CONFIG_INTEL_PFR\<close>) as configured by
  \<open>boards/ast1060_dcscm.conf\<close>.

  \<^bold>\<open>How the code is modelled.\<close> The file-scope variables of the C files are the fields of the
  record \<open>world\<close> (Pfr\_World); a C function is a definition of the same name in the state
  monad over \<open>world\<close>, with the Kconfig options and everything outside the repository in its
  first argument \<open>env\<close>. A call of a driver, of mbedtls, of a GPIO or a timer is a value of
  \<open>call\<close>: \<open>ext\<close> records it in the trace and answers by \<open>reply_of\<close>, an arbitrary function
  of the trace so far. A property that relies on what such a call does (the flash returns what
  was written, a signature check accepts only genuine signatures) names that as a hypothesis on
  \<open>reply_of\<close>. Results are the \<open>int\<close> codes of the source, machine integers are words.

  \<^bold>\<open>Parts and theories.\<close>
  \<^item> Pfr\_Prelude: byte layout, loops, and \<open>frame_rel\<close>, the locale of reflexive and
    transitive relations by which "this operation only does that to the state" is proved once per
    operation and composed.
  \<^item> Pfr\_World: the data of \<open>AspeedStateMachine.h\<close>, \<open>common_smc.h\<close>, \<open>intel_pfr_definitions.h\<close>.
  \<^item> Pfr\_Events: \<open>GenerateStateMachineEvent\<close> with the event log and queue.
  \<^item> Pfr\_Devices: interface of the byte stores behind the flash calls.
  \<^item> Pfr\_Flash, Pfr\_Ufm, Pfr\_Svn: \<open>pfr/pfr_util.c\<close>, \<open>pfr/pfr_ufm.c\<close>, \<open>intel_pfr_svn.c\<close>.
  \<^item> Pfr\_Mailbox, Pfr\_Provision, Pfr\_Watchdog: \<open>Smbus_mailbox.c\<close>, the provisioning commands,
    \<open>watchdog_timer/*.c\<close>.
  \<^item> Pfr\_Keys, Pfr\_Chain: \<open>intel_pfr_key_cancellation.c\<close>, \<open>intel_pfr_provision.c\<close> and the
    signature chain of \<open>intel_pfr_verification.c\<close>.
  \<^item> Pfr\_Pfm, Pfr\_Pbc: \<open>intel_pfr_pfm_manifest.c\<close>, \<open>intel_pfr_pbc.c\<close>.
  \<^item> Pfr\_Capsule, Pfr\_Recovery, Pfr\_Update: \<open>intel_pfr_authentication.c\<close>,
    \<open>pfr_verification.c\<close>, \<open>intel_pfr_recovery.c\<close>, \<open>pfr_recovery.c\<close>, \<open>intel_pfr_update.c\<close>.
  \<^item> Pfr\_Intent, Pfr\_Verify, Pfr\_Request, Pfr\_Boot, Pfr\_Machine: \<open>AspeedStateMachine.c\<close>, by
    its states; Pfr\_Machine has the state table, the transitions and a pass of the main loop.
\<close>

end
